(* ===== verification/Prelude.thy ===== *)
theory Prelude
  imports Complex_Main "HOL-Library.AList"
begin

text \<open>
  Shared types, helper functions and automation of the development.

  \<^item> Numbers. Python's \<open>float\<close> and \<open>Decimal\<close> values are exact rationals (\<open>rat\<close>); Python's
    \<open>int\<close> is \<open>int\<close>. Rounding happens exactly where the source calls \<open>round\<close>. The
    representation error of binary floats and the infinities and NaNs are outside the model,
    except in the candle validator, which models them explicitly.
  \<^item> Instants are microseconds since the Unix epoch (\<open>int\<close>), dates are proleptic Gregorian
    ordinals as in \<open>datetime.date.toordinal\<close> (\<open>int\<close>).
  \<^item> Messages. An f-string is kept as the list of its parts: literal text and the values in
    its holes with their format specification; the rendering of a number is not modelled.
  \<^item> JSON-like values (feature snapshots) are the datatype \<open>pyval\<close>.
  \<^item> SQL queries that order a table by a key and take the first row are \<open>newest_by\<close>.
\<close>

section \<open>Collections of automation rules\<close>

named_theorems py_simps \<open>evaluation of the modelled Python primitives\<close>
named_theorems score_bounds \<open>introduction rules for score ranges\<close>
named_theorems db_simps \<open>effects of repository operations on the tables\<close>

section \<open>Errors\<close>

datatype py_error =
    AssertionError
  | ValueError
  | ZeroDivisionError
  | RuntimeError
  | CalendarYearNotVerified int
  | ProviderError string
  | OtherError string

section \<open>Messages\<close>

datatype fpart =
    Lit string
  | Fix nat rat
  | Gen rat
  | Shown rat
  | IntP int
  | Instant int
  | Span int

type_synonym msg = "fpart list"

abbreviation lit :: "string \<Rightarrow> msg" where
  "lit s \<equiv> [Lit s]"

fun join_msgs :: "msg \<Rightarrow> msg list \<Rightarrow> msg" where
  "join_msgs sep [] = []"
| "join_msgs sep [m] = m"
| "join_msgs sep (m # ms) = m @ sep @ join_msgs sep ms"

fun join_strings :: "string \<Rightarrow> string list \<Rightarrow> string" where
  "join_strings sep [] = []"
| "join_strings sep [s] = s"
| "join_strings sep (s # ss) = s @ sep @ join_strings sep ss"

lemma set_join_strings_sub:
  "set (join_strings sep ss) \<subseteq> set sep \<union> (\<Union>s \<in> set ss. set s)"
  by (induction sep ss rule: join_strings.induct) auto

section \<open>JSON-like values\<close>

datatype pyval =
    PyNone
  | PyBool bool
  | PyInt int
  | PyFloat rat
  | PyStr string
  | PyMsg msg
  | PyList "pyval list"
  | PyDict "(string \<times> pyval) list"

type_synonym snapshot = "string \<rightharpoonup> pyval"

text \<open>\<open>d.get(k)\<close>: the value of a key, \<open>None\<close> when the key is absent.\<close>

definition dict_get :: "snapshot \<Rightarrow> string \<Rightarrow> pyval" where
  "dict_get d k = (case d k of None \<Rightarrow> PyNone | Some v \<Rightarrow> v)"

lemma dict_get_upd [simp]: "dict_get (d(k \<mapsto> v)) k' = (if k' = k then v else dict_get d k')"
  by (simp add: dict_get_def)

lemma dict_get_empty [simp]: "dict_get Map.empty k = PyNone"
  by (simp add: dict_get_def)

text \<open>Python truthiness, as in \<open>x or y\<close> and \<open>if x\<close>.\<close>

fun truthy :: "pyval \<Rightarrow> bool" where
  "truthy PyNone = False"
| "truthy (PyBool b) = b"
| "truthy (PyInt i) = (i \<noteq> 0)"
| "truthy (PyFloat x) = (x \<noteq> 0)"
| "truthy (PyStr s) = (s \<noteq> [])"
| "truthy (PyMsg m) = (m \<noteq> [])"
| "truthy (PyList vs) = (vs \<noteq> [])"
| "truthy (PyDict kvs) = (kvs \<noteq> [])"

definition py_or :: "pyval \<Rightarrow> pyval \<Rightarrow> pyval" where
  "py_or a b = (if truthy a then a else b)"

text \<open>\<open>isinstance(v, int | float)\<close>, with the number, and \<open>int(v)\<close>, which cuts the fraction off.\<close>

fun number_of :: "pyval \<Rightarrow> rat option" where
  "number_of (PyInt i) = Some (of_int i)"
| "number_of (PyFloat x) = Some x"
| "number_of (PyBool b) = Some (if b then 1 else 0)"
| "number_of _ = None"

definition cut_fraction :: "rat \<Rightarrow> int" where
  "cut_fraction x = (if x < 0 then \<lceil>x\<rceil> else \<lfloor>x\<rfloor>)"

section \<open>Decimal literals\<close>

text \<open>
  \<open>float(s)\<close> for a string: optional sign, digits with at most one point and at least one
  digit, optional exponent. White space, underscores, \<open>nan\<close> and \<open>inf\<close> are read as errors.
\<close>

definition digit_value :: "char \<Rightarrow> nat option" where
  "digit_value c = (let n = (of_char c :: nat) in if 48 \<le> n \<and> n \<le> 57 then Some (n - 48) else None)"

fun take_digits :: "string \<Rightarrow> nat list \<times> string" where
  "take_digits [] = ([], [])"
| "take_digits (c # cs) =
     (case digit_value c of
        None \<Rightarrow> ([], c # cs)
      | Some d \<Rightarrow> (let (ds, rest) = take_digits cs in (d # ds, rest)))"

definition digits_value :: "nat list \<Rightarrow> int" where
  "digits_value ds = foldl (\<lambda>acc d. 10 * acc + int d) 0 ds"

definition strip_sign :: "string \<Rightarrow> bool \<times> string" where
  "strip_sign s = (case s of
       [] \<Rightarrow> (False, [])
     | c # cs \<Rightarrow> if c = CHR ''-'' then (True, cs) else if c = CHR ''+'' then (False, cs) else (False, s))"

definition exponent_of :: "string \<Rightarrow> int option" where
  "exponent_of s = (case s of
       [] \<Rightarrow> Some 0
     | c # cs \<Rightarrow>
         if c = CHR ''e'' \<or> c = CHR ''E'' then
           (let (neg, body) = strip_sign cs; (ds, rest) = take_digits body
            in if ds \<noteq> [] \<and> rest = [] then Some (if neg then - digits_value ds else digits_value ds)
               else None)
         else None)"

definition pow10 :: "int \<Rightarrow> rat" where
  "pow10 e = (if 0 \<le> e then 10 ^ nat e else 1 / 10 ^ nat (- e))"

definition float_of_string :: "string \<Rightarrow> rat option" where
  "float_of_string s =
     (let (neg, body) = strip_sign s;
          (whole, rest) = take_digits body;
          (frac, rest') = (case rest of
             [] \<Rightarrow> ([], [])
           | c # cs \<Rightarrow> if c = CHR ''.'' then take_digits cs else ([], rest))
      in if whole = [] \<and> frac = [] then None
         else (case exponent_of rest' of
             None \<Rightarrow> None
           | Some e \<Rightarrow>
               (let m = of_int (digits_value (whole @ frac)) * pow10 (e - int (length frac))
                in Some (if neg then - m else m))))"

text \<open>\<open>str(i)\<close> for integers.\<close>

fun str_nat :: "nat \<Rightarrow> string" where
  "str_nat n = (if n < 10 then [char_of (48 + n)] else str_nat (n div 10) @ [char_of (48 + n mod 10)])"

declare str_nat.simps [simp del]

definition str_int :: "int \<Rightarrow> string" where
  "str_int i = (if i < 0 then CHR ''-'' # str_nat (nat (- i)) else str_nat (nat i))"

section \<open>Rounding and clamping\<close>

definition round_half_even :: "rat \<Rightarrow> int" where
  "round_half_even x =
     (let f = \<lfloor>x\<rfloor>; d = x - of_int f
      in if d < 1/2 then f else if d > 1/2 then f + 1 else if even f then f else f + 1)"

text \<open>Python's \<open>round(x, n)\<close>: to \<open>n\<close> decimals, ties to the even last digit.\<close>

definition py_round :: "nat \<Rightarrow> rat \<Rightarrow> rat" where
  "py_round n x = of_int (round_half_even (x * 10 ^ n)) / 10 ^ n"

definition clamp :: "rat \<Rightarrow> rat \<Rightarrow> rat \<Rightarrow> rat" where
  "clamp lo hi x = max lo (min hi x)"

lemma clamp_range [score_bounds]: "lo \<le> hi \<Longrightarrow> lo \<le> clamp lo hi x \<and> clamp lo hi x \<le> hi"
  by (auto simp: clamp_def)

lemma clamp_id: "lo \<le> x \<Longrightarrow> x \<le> hi \<Longrightarrow> clamp lo hi x = x"
  by (simp add: clamp_def)

lemma clamp_mono: "x \<le> y \<Longrightarrow> clamp lo hi x \<le> clamp lo hi y"
  by (auto simp: clamp_def)

lemma round_half_even_of_int [simp]: "round_half_even (of_int i) = i"
  by (simp add: round_half_even_def)

lemma round_half_even_bounds:
  "of_int (round_half_even x) \<le> x + 1/2" "x - 1/2 \<le> of_int (round_half_even x)"
proof -
  have "of_int \<lfloor>x\<rfloor> \<le> x" "x < of_int \<lfloor>x\<rfloor> + 1" by linarith+
  then show "of_int (round_half_even x) \<le> x + 1/2" "x - 1/2 \<le> of_int (round_half_even x)"
    by (simp_all add: round_half_even_def Let_def) linarith+
qed

lemma round_half_even_mono:
  assumes "x \<le> y"
  shows "round_half_even x \<le> round_half_even y"
proof (cases "\<lfloor>x\<rfloor> = \<lfloor>y\<rfloor>")
  case True
  with assms show ?thesis by (auto simp: round_half_even_def Let_def)
next
  case False
  with floor_mono [OF assms] have "\<lfloor>x\<rfloor> + 1 \<le> \<lfloor>y\<rfloor>" by linarith
  then show ?thesis by (auto simp: round_half_even_def Let_def)
qed

lemma py_round_mono: "x \<le> y \<Longrightarrow> py_round n x \<le> py_round n y"
  by (simp add: py_round_def divide_right_mono round_half_even_mono mult_right_mono)

lemma py_round_of_int [simp]: "py_round n (of_int i) = of_int i"
proof -
  have "(of_int i :: rat) * 10 ^ n = of_int (i * 10 ^ n)" by simp
  then show ?thesis by (simp only: py_round_def round_half_even_of_int) simp
qed

lemma py_round_numeral [simp]: "py_round n (numeral k) = numeral k"
  using py_round_of_int [of n "numeral k"] by simp

lemma py_round_0 [simp]: "py_round n 0 = 0"
  using py_round_of_int [of n 0] by simp

lemma py_round_range [score_bounds]:
  assumes "of_int a \<le> x" "x \<le> of_int b"
  shows "of_int a \<le> py_round n x \<and> py_round n x \<le> of_int b"
  using py_round_mono [OF assms(1), of n] py_round_mono [OF assms(2), of n] by simp

lemma py_round_0_100 [score_bounds]:
  "0 \<le> x \<Longrightarrow> x \<le> 100 \<Longrightarrow> 0 \<le> py_round n x \<and> py_round n x \<le> 100"
  using py_round_range [of 0 x 100 n] by simp

lemma py_round_error: "\<bar>py_round n x - x\<bar> \<le> 1 / (2 * 10 ^ n)"
proof -
  let ?p = "10 ^ n :: rat"
  have "\<bar>of_int (round_half_even (x * ?p)) - x * ?p\<bar> \<le> 1/2"
    using round_half_even_bounds [of "x * ?p"] by linarith
  then have "\<bar>of_int (round_half_even (x * ?p)) - x * ?p\<bar> / ?p \<le> (1/2) / ?p"
    by (rule divide_right_mono) simp
  moreover have "\<bar>py_round n x - x\<bar> = \<bar>of_int (round_half_even (x * ?p)) - x * ?p\<bar> / ?p"
  proof -
    have "py_round n x - x = (of_int (round_half_even (x * ?p)) - x * ?p) / ?p"
      by (simp add: py_round_def diff_divide_distrib)
    then show ?thesis by (simp add: abs_divide)
  qed
  ultimately show ?thesis by simp
qed

section \<open>Ordered queries\<close>

text \<open>\<open>SELECT .. WHERE P ORDER BY key DESC LIMIT 1\<close> over a table.\<close>

definition newest_by :: "('r \<Rightarrow> int) \<Rightarrow> ('r \<Rightarrow> bool) \<Rightarrow> 'r list \<Rightarrow> 'r option" where
  "newest_by key P rows =
     (case sort_key (\<lambda>r. - key r) (filter P rows) of [] \<Rightarrow> None | r # _ \<Rightarrow> Some r)"

lemma sort_key_eq_Nil_iff [simp]: "sort_key f xs = [] \<longleftrightarrow> xs = []"
  using length_sort [of f xs] by (metis length_0_conv)

lemma newest_by_None_iff: "newest_by key P rows = None \<longleftrightarrow> (\<forall>r \<in> set rows. \<not> P r)"
proof -
  have "newest_by key P rows = None \<longleftrightarrow> sort_key (\<lambda>r. - key r) (filter P rows) = []"
    by (simp only: newest_by_def split: list.split) simp
  then show ?thesis by (simp add: filter_empty_conv)
qed

lemma newest_by_SomeD:
  assumes "newest_by key P rows = Some r"
  shows "r \<in> set rows" and "P r" and "\<forall>q \<in> set rows. P q \<longrightarrow> key q \<le> key r"
proof -
  let ?s = "sort_key (\<lambda>r. - key r) (filter P rows)"
  from assms obtain rest where s: "?s = r # rest"
    by (auto simp: newest_by_def split: list.splits)
  have setd: "set ?s = {q \<in> set rows. P q}" by simp
  have r: "r \<in> set ?s" by (simp only: s) simp
  show "r \<in> set rows" and "P r" using r setd by auto
  have "sorted (map (\<lambda>r. - key r) ?s)" by simp
  then have "\<forall>q \<in> set rest. key q \<le> key r" by (simp only: s) simp
  then have "\<forall>q \<in> set ?s. key q \<le> key r" by (simp only: s) simp
  then show "\<forall>q \<in> set rows. P q \<longrightarrow> key q \<le> key r" using setd by auto
qed

lemma newest_by_cong:
  "(\<And>r. r \<in> set rows \<Longrightarrow> P r = Q r) \<Longrightarrow> newest_by key P rows = newest_by key Q rows"
  by (simp add: newest_by_def cong: filter_cong)

text \<open>Appending a row whose key is above all others.\<close>

lemma newest_by_snoc:
  assumes "\<forall>q \<in> set rows. key q < key r"
  shows "newest_by key P (rows @ [r]) = (if P r then Some r else newest_by key P rows)"
proof (cases "P r")
  case True
  then obtain q where q: "newest_by key P (rows @ [r]) = Some q"
    using newest_by_None_iff [of key P "rows @ [r]"] by (cases "newest_by key P (rows @ [r])") auto
  from newest_by_SomeD [OF q] True have "q \<in> set (rows @ [r])" "key r \<le> key q" by auto
  with assms have "q = r" by auto
  with q True show ?thesis by simp
next
  case False
  then show ?thesis by (simp add: newest_by_def)
qed

lemma insort_key_map: "insort_key k (f x) (map f xs) = map f (insort_key (\<lambda>y. k (f y)) x xs)"
  by (induction xs) auto

lemma sort_key_map: "sort_key k (map f xs) = map f (sort_key (\<lambda>y. k (f y)) xs)"
  by (induction xs) (simp_all add: insort_key_map)

lemma newest_by_map:
  assumes "\<And>r. key (f r) = key r" "\<And>r. P (f r) = P r"
  shows "newest_by key P (map f rows) = map_option f (newest_by key P rows)"
  using assms by (simp add: newest_by_def filter_map o_def sort_key_map split: list.split)

section \<open>Options and lists\<close>

definition opt_else :: "'a option \<Rightarrow> 'a \<Rightarrow> 'a" where
  "opt_else x d = (case x of None \<Rightarrow> d | Some v \<Rightarrow> v)"

lemma opt_else_simps [simp]: "opt_else None d = d" "opt_else (Some v) d = v"
  by (simp_all add: opt_else_def)

text \<open>\<open>list.index\<close>: position of the first occurrence.\<close>

fun index_of :: "'a \<Rightarrow> 'a list \<Rightarrow> nat option" where
  "index_of x [] = None"
| "index_of x (y # ys) = (if x = y then Some 0 else map_option Suc (index_of x ys))"

lemma index_of_SomeD: "index_of x ys = Some i \<Longrightarrow> i < length ys \<and> ys ! i = x"
  by (induction ys arbitrary: i) (auto split: if_splits)

lemma sum_list_nonneg_rat: "(\<And>x. x \<in> set xs \<Longrightarrow> 0 \<le> f x) \<Longrightarrow> (0::rat) \<le> sum_list (map f xs)"
  by (induction xs) auto

lemma sum_list_mono_rat:
  "(\<And>x. x \<in> set xs \<Longrightarrow> f x \<le> g x) \<Longrightarrow> sum_list (map f xs) \<le> (sum_list (map g xs) :: rat)"
  by (induction xs) (auto intro: add_mono)

end
