(* ===== verification/Py_Time.thy ===== *)
theory Py_Time
  imports Prelude
begin

text \<open>
  Dates, instants and zones as \<open>datetime\<close> has them. A date is its proleptic Gregorian ordinal
  (\<open>1\<close> is 0001-01-01); conversions to and from year, month and day follow the algorithms of
  the standard library, and \<open>isoformat\<close> / \<open>fromisoformat\<close> (extended form) are shown inverse
  to each other. A datetime is a wall-clock reading with or without a UTC offset.
\<close>

section \<open>Calendar arithmetic\<close>

definition is_leap :: "int \<Rightarrow> bool" where
  "is_leap y \<longleftrightarrow> y mod 4 = 0 \<and> (y mod 100 \<noteq> 0 \<or> y mod 400 = 0)"

definition days_before_year :: "int \<Rightarrow> int" where
  "days_before_year y = (let p = y - 1 in p * 365 + p div 4 - p div 100 + p div 400)"

definition month_start :: "bool \<Rightarrow> int \<Rightarrow> int" where
  "month_start leap m =
     [0, 0, 31, 59, 90, 120, 151, 181, 212, 243, 273, 304, 334] ! nat m
     + (if 2 < m \<and> leap then 1 else 0)"

definition month_length :: "bool \<Rightarrow> int \<Rightarrow> int" where
  "month_length leap m =
     (if m = 2 \<and> leap then 29
      else [0, 31, 28, 31, 30, 31, 30, 31, 31, 30, 31, 30, 31] ! nat m)"

definition days_before_month :: "int \<Rightarrow> int \<Rightarrow> int" where
  "days_before_month y m = month_start (is_leap y) m"

definition days_in_month :: "int \<Rightarrow> int \<Rightarrow> int" where
  "days_in_month y m = month_length (is_leap y) m"

definition ymd2ord :: "int \<Rightarrow> int \<Rightarrow> int \<Rightarrow> int" where
  "ymd2ord y m d = days_before_year y + days_before_month y m + d"

definition ord2year :: "int \<Rightarrow> int \<times> int" where
  \<comment> \<open>the year and the zero-based day of the year\<close>
  "ord2year n =
     (let r = n - 1;
          n400 = r div 146097; r = r mod 146097;
          n100 = r div 36524; r = r mod 36524;
          n4 = r div 1461; r = r mod 1461;
          n1 = r div 365; r = r mod 365;
          y = n400 * 400 + 1 + n100 * 100 + n4 * 4 + n1
      in if n1 = 4 \<or> n100 = 4 then (y - 1, 365) else (y, r))"

definition year_of :: "int \<Rightarrow> int" where
  "year_of n = fst (ord2year n)"

definition month_guess :: "bool \<Rightarrow> int \<Rightarrow> int" where
  "month_guess leap r = (let m = (r + 50) div 32 in if month_start leap m > r then m - 1 else m)"

definition ord2ymd :: "int \<Rightarrow> int \<times> int \<times> int" where
  "ord2ymd n =
     (let (y, r) = ord2year n; m = month_guess (is_leap y) r
      in (y, m, r - days_before_month y m + 1))"

definition weekday :: "int \<Rightarrow> int" where
  \<comment> \<open>Monday is 0\<close>
  "weekday n = (n + 6) mod 7"

text \<open>Validity of a triple, as the \<open>date\<close> constructor checks it.\<close>

definition valid_ymd :: "int \<Rightarrow> int \<Rightarrow> int \<Rightarrow> bool" where
  "valid_ymd y m d \<longleftrightarrow> 1 \<le> y \<and> y \<le> 9999 \<and> 1 \<le> m \<and> m \<le> 12 \<and> 1 \<le> d \<and> d \<le> days_in_month y m"

definition valid_ord :: "int \<Rightarrow> bool" where
  "valid_ord n \<longleftrightarrow> 1 \<le> n \<and> n \<le> 3652059"

lemma div_pred_int:
  assumes "0 < (k::int)"
  shows "y div k = (y - 1) div k + (if y mod k = 0 then 1 else 0)"
proof -
  have y: "y = k * (y div k) + y mod k" and r: "0 \<le> y mod k" "y mod k < k"
    using assms by simp_all
  have "y mod k = 0 \<Longrightarrow> (y - 1) div k = y div k - 1"
    by (rule int_div_pos_eq [where r = "k - 1"]) (use y assms in \<open>simp_all add: algebra_simps\<close>)
  moreover have "y mod k \<noteq> 0 \<Longrightarrow> (y - 1) div k = y div k"
    by (rule int_div_pos_eq [where r = "y mod k - 1"]) (use y r in simp_all)
  ultimately show ?thesis by simp
qed

lemma days_before_year_Suc:
  "days_before_year (y + 1) = days_before_year y + (if is_leap y then 366 else 365)"
proof -
  have a: "y div 4 = (y - 1) div 4 + (if y mod 4 = 0 then 1 else 0)"
    and b: "y div 100 = (y - 1) div 100 + (if y mod 100 = 0 then 1 else 0)"
    and c: "y div 400 = (y - 1) div 400 + (if y mod 400 = 0 then 1 else 0)"
    by (rule div_pred_int, simp)+
  have d: "y mod 400 = 0 \<Longrightarrow> y mod 100 = 0" and e: "y mod 100 = 0 \<Longrightarrow> y mod 4 = 0"
    by (auto simp: mod_eq_0_iff_dvd dest: dvd_trans [of 100 400 y] dvd_trans [of 4 100 y])
  have "days_before_year (y + 1) = y * 365 + y div 4 - y div 100 + y div 400"
    by (simp add: days_before_year_def)
  also have "\<dots> = days_before_year y + 365 + (if y mod 4 = 0 then 1 else 0)
      - (if y mod 100 = 0 then 1 else 0) + (if y mod 400 = 0 then 1 else 0)"
    unfolding days_before_year_def Let_def by (subst a, subst b, subst c) simp
  finally show ?thesis
    using d e by (cases "y mod 4 = 0"; cases "y mod 100 = 0"; cases "y mod 400 = 0")
      (simp_all add: is_leap_def)
qed

lemma year_split:
  assumes "0 \<le> b" "b \<le> 3" "0 \<le> c" "c \<le> 24" "0 \<le> d" "d \<le> 3"
  shows "days_before_year (a * 400 + 1 + b * 100 + c * 4 + d) = 146097 * a + 36524 * b + 1461 * c + 365 * d"
proof -
  let ?p = "a * 400 + b * 100 + c * 4 + d"
  have "?p div 4 = a * 100 + b * 25 + c"
    by (rule int_div_pos_eq [where r = d]) (use assms in simp_all)
  moreover have "?p div 100 = a * 4 + b"
    by (rule int_div_pos_eq [where r = "c * 4 + d"]) (use assms in simp_all)
  moreover have "?p div 400 = a"
    by (rule int_div_pos_eq [where r = "b * 100 + c * 4 + d"]) (use assms in simp_all)
  moreover have "a * 400 + 1 + b * 100 + c * 4 + d - 1 = ?p" by simp
  ultimately show ?thesis by (simp only: days_before_year_def Let_def) simp
qed

text \<open>The year of an ordinal is the one whose days contain it.\<close>

lemma ord2year_correct:
  assumes "ord2year n = (y, r)"
  shows "n = days_before_year y + r + 1" "0 \<le> r" "r < (if is_leap y then 366 else 365)"
proof -
  define a where "a = (n - 1) div 146097"
  define r1 where "r1 = (n - 1) mod 146097"
  define b where "b = r1 div 36524"
  define r2 where "r2 = r1 mod 36524"
  define c where "c = r2 div 1461"
  define r3 where "r3 = r2 mod 1461"
  define d where "d = r3 div 365"
  define r4 where "r4 = r3 mod 365"
  have n: "n = 146097 * a + r1 + 1" and r1: "0 \<le> r1" "r1 < 146097"
    by (simp_all add: a_def r1_def)
  have r1b: "r1 = 36524 * b + r2" and r2: "0 \<le> r2" "r2 < 36524"
    by (simp_all add: b_def r2_def)
  have r2c: "r2 = 1461 * c + r3" and r3: "0 \<le> r3" "r3 < 1461"
    by (simp_all add: c_def r3_def)
  have r3d: "r3 = 365 * d + r4" and r4: "0 \<le> r4" "r4 < 365"
    by (simp_all add: d_def r4_def)
  have b: "0 \<le> b" "b \<le> 4" and c: "0 \<le> c" "c \<le> 24" and d: "0 \<le> d" "d \<le> 4"
    using r1 r1b r2 r2c r3 r3d r4 by linarith+
  let ?y = "a * 400 + 1 + b * 100 + c * 4 + d"
  have e: "ord2year n = (if d = 4 \<or> b = 4 then (?y - 1, 365) else (?y, r4))"
    by (simp add: ord2year_def Let_def a_def r1_def b_def r2_def c_def r3_def d_def r4_def)
  have "n = days_before_year y + r + 1 \<and> 0 \<le> r \<and> r < (if is_leap y then 366 else 365)"
  proof (cases "d = 4 \<or> b = 4")
    case False
    with b d have "b \<le> 3" "d \<le> 3" by auto
    with b c d have "days_before_year ?y = 146097 * a + 36524 * b + 1461 * c + 365 * d"
      by (intro year_split) auto
    with False e assms n r1b r2c r3d r4 show ?thesis by auto
  next
    case True
    have b4: "b = 4 \<Longrightarrow> r2 = 0" using r1 r1b r2 by linarith
    then have "b = 4 \<Longrightarrow> c = 0 \<and> r3 = 0" using r2c r3 c by auto
    then have b4': "b = 4 \<Longrightarrow> c = 0 \<and> d = 0 \<and> r4 = 0" using r3d r4 d by auto
    have "d = 4 \<Longrightarrow> r4 = 0 \<and> r3 = 1460" using r3 r3d r4 by auto
    moreover have "d = 4 \<Longrightarrow> b \<le> 3" using b4' b by linarith
    ultimately have last: "d = 4 \<Longrightarrow> b \<le> 3 \<and> r4 = 0 \<and> r3 = 1460" by blast
    from True last b4' have cases: "(d = 4 \<and> b \<le> 3 \<and> r4 = 0) \<or> (b = 4 \<and> c = 0 \<and> d = 0 \<and> r4 = 0)"
      by blast
    have yr: "y = ?y - 1" "r = 365" using True e assms by auto
    have leap: "is_leap (?y - 1)"
    proof (cases "b = 4")
      case True
      with cases have "?y - 1 = 400 * a + 400" by auto
      then show ?thesis by (simp add: is_leap_def)
    next
      case False
      with cases have "d = 4" "b \<le> 3" by auto
      have y': "?y - 1 = 4 * (100 * a + 25 * b + c + 1)" using \<open>d = 4\<close> by simp
      have "c \<noteq> 24"
      proof
        assume "c = 24"
        with \<open>d = 4\<close> last r2 r2c have "r2 = 36524" by simp
        with r2 show False by simp
      qed
      with c have "c \<le> 23" by simp
      have "(?y - 1) mod 100 = 4 * c + 4"
        by (rule int_mod_pos_eq [where q = "4 * a + b"]) (use y' c \<open>c \<le> 23\<close> in simp_all)
      then have "(?y - 1) mod 100 \<noteq> 0" using c by simp
      with y' show ?thesis by (simp add: is_leap_def)
    qed
    have "days_before_year ?y = days_before_year (?y - 1) + 366"
      using days_before_year_Suc [of "?y - 1"] leap by (simp only: diff_add_cancel if_True)
    moreover have "days_before_year ?y = n"
    proof (cases "b = 4")
      case True
      with cases have "?y = (a + 1) * 400 + 1 + 0 * 100 + 0 * 4 + 0" by auto
      then have "days_before_year ?y = 146097 * (a + 1) + 36524 * 0 + 1461 * 0 + 365 * 0"
        by (simp only: year_split [of 0 0 0 "a + 1"])
      moreover have "n = 146097 * (a + 1)" using True cases n r1b r2c r3d by auto
      ultimately show ?thesis by linarith
    next
      case False
      with cases have d4: "d = 4" "b \<le> 3" "r4 = 0" by auto
      have "c \<noteq> 24" using d4 last r2 r2c by auto
      with c have "c + 1 \<le> 24" by simp
      have "?y = a * 400 + 1 + b * 100 + (c + 1) * 4 + 0" using d4 by simp
      then have "days_before_year ?y = 146097 * a + 36524 * b + 1461 * (c + 1)"
        using year_split [of b "c + 1" 0 a] b c d4 \<open>c + 1 \<le> 24\<close> by simp
      with d4 last n r1b r2c show ?thesis by simp
    qed
    ultimately show ?thesis using yr leap by simp
  qed
  then show "n = days_before_year y + r + 1" "0 \<le> r" "r < (if is_leap y then 366 else 365)"
    by simp_all
qed

text \<open>The month found by the guess contains the day: checked for every day of both year shapes.\<close>

definition month_ok :: "bool \<Rightarrow> int \<Rightarrow> bool" where
  "month_ok leap r \<longleftrightarrow> (let m = month_guess leap r in
     1 \<le> m \<and> m \<le> 12 \<and> month_start leap m \<le> r \<and> r < month_start leap m + month_length leap m)"

lemma month_ok_all: "list_all (month_ok True) [0..365] \<and> list_all (month_ok False) [0..364]"
  by code_simp

lemma month_ok: "0 \<le> r \<Longrightarrow> r < (if leap then 366 else 365) \<Longrightarrow> month_ok leap r"
  using month_ok_all by (cases leap) (auto simp: list_all_iff)

lemma ord2ymd_correct:
  assumes "ord2ymd n = (y, m, d)"
  shows "ymd2ord y m d = n" "1 \<le> m" "m \<le> 12" "1 \<le> d" "d \<le> days_in_month y m"
proof -
  obtain r where y: "ord2year n = (y, r)"
    using assms by (auto simp: ord2ymd_def Let_def split: prod.splits)
  with assms have md: "m = month_guess (is_leap y) r" "d = r - days_before_month y m + 1"
    by (auto simp: ord2ymd_def Let_def)
  note c = ord2year_correct [OF y]
  from c(2,3) have "month_ok (is_leap y) r" by (rule month_ok)
  with md c(1) show "ymd2ord y m d = n" "1 \<le> m" "m \<le> 12" "1 \<le> d" "d \<le> days_in_month y m"
    by (auto simp: month_ok_def Let_def ymd2ord_def days_before_month_def days_in_month_def)
qed

lemma days_before_year_mono: "x \<le> y \<Longrightarrow> days_before_year x \<le> days_before_year y"
proof (induction "nat (y - x)" arbitrary: y)
  case 0
  then show ?case by simp
next
  case (Suc k)
  then have "days_before_year x \<le> days_before_year (y - 1)" by simp
  also have "\<dots> \<le> days_before_year y" using days_before_year_Suc [of "y - 1"] by simp
  finally show ?case .
qed

lemma year_of_iff: "year_of n = y \<longleftrightarrow> days_before_year y < n \<and> n \<le> days_before_year (y + 1)"
proof -
  obtain z r where z: "ord2year n = (z, r)" by (cases "ord2year n")
  note c = ord2year_correct [OF z]
  have zb: "days_before_year z < n" "n \<le> days_before_year (z + 1)"
    using c days_before_year_Suc [of z] by auto
  have "y = z" if "days_before_year y < n" "n \<le> days_before_year (y + 1)"
  proof (rule ccontr)
    assume "y \<noteq> z"
    then consider "y + 1 \<le> z" | "z + 1 \<le> y" by linarith
    then show False using that zb by cases (use days_before_year_mono in fastforce)+
  qed
  with zb z show ?thesis by (auto simp: year_of_def)
qed

section \<open>ISO format\<close>

definition digit_char :: "int \<Rightarrow> char" where
  "digit_char d = char_of (48 + nat d)"

definition pad2 :: "int \<Rightarrow> string" where
  "pad2 n = [digit_char (n div 10), digit_char (n mod 10)]"

definition pad4 :: "int \<Rightarrow> string" where
  "pad4 n = pad2 (n div 100) @ pad2 (n mod 100)"

definition isoformat :: "int \<Rightarrow> string" where
  "isoformat n = (let (y, m, d) = ord2ymd n in pad4 y @ ''-'' @ pad2 m @ ''-'' @ pad2 d)"

definition parse2 :: "char \<Rightarrow> char \<Rightarrow> int option" where
  "parse2 a b = (case (digit_value a, digit_value b) of
       (Some x, Some y) \<Rightarrow> Some (10 * int x + int y)
     | _ \<Rightarrow> None)"

fun fromisoformat :: "string \<Rightarrow> int option" where
  "fromisoformat [a, b, c, d, s, e, f, t, g, h] =
     (if s = CHR ''-'' \<and> t = CHR ''-'' then
        (case (parse2 a b, parse2 c d, parse2 e f, parse2 g h) of
           (Some hi, Some lo, Some m, Some dd) \<Rightarrow>
             (let y = 100 * hi + lo in if valid_ymd y m dd then Some (ymd2ord y m dd) else None)
         | _ \<Rightarrow> None)
      else None)"
| "fromisoformat _ = None"

lemma digit_value_digit_char: "0 \<le> d \<Longrightarrow> d < 10 \<Longrightarrow> digit_value (digit_char d) = Some (nat d)"
  by (simp add: digit_value_def digit_char_def Let_def nat_less_iff)

lemma parse2_pad2:
  assumes "0 \<le> n" "n < 100"
  shows "parse2 (digit_char (n div 10)) (digit_char (n mod 10)) = Some n"
proof -
  have "0 \<le> n div 10" "n div 10 < 10" "0 \<le> n mod 10" "n mod 10 < 10" using assms by auto
  then show ?thesis by (simp add: parse2_def digit_value_digit_char)
qed

text \<open>Reading back what \<open>isoformat\<close> wrote gives the same date.\<close>

lemma fromisoformat_isoformat:
  assumes "valid_ord n"
  shows "fromisoformat (isoformat n) = Some n"
proof -
  obtain y m d where ymd: "ord2ymd n = (y, m, d)" by (cases "ord2ymd n")
  note c = ord2ymd_correct [OF ymd]
  have "fst (ord2ymd n) = year_of n"
    by (simp add: ord2ymd_def year_of_def Let_def split: prod.splits)
  with ymd have y: "year_of n = y" by simp
  have "days_before_year 1 = 0" "days_before_year 10000 = 3652059" by code_simp+
  with assms y have yb: "1 \<le> y" "y \<le> 9999"
    using days_before_year_mono [of "y + 1" 1] days_before_year_mono [of 10000 y]
    unfolding valid_ord_def year_of_iff by (smt (verit))+
  have md: "days_in_month y m \<le> 31"
  proof -
    have "m = 1 \<or> m = 2 \<or> m = 3 \<or> m = 4 \<or> m = 5 \<or> m = 6 \<or> m = 7 \<or> m = 8 \<or> m = 9
        \<or> m = 10 \<or> m = 11 \<or> m = 12" using c(2,3) by presburger
    then show ?thesis by (auto simp: days_in_month_def month_length_def)
  qed
  have "parse2 (digit_char (y div 100 div 10)) (digit_char (y div 100 mod 10)) = Some (y div 100)"
    "parse2 (digit_char (y mod 100 div 10)) (digit_char (y mod 100 mod 10)) = Some (y mod 100)"
    "parse2 (digit_char (m div 10)) (digit_char (m mod 10)) = Some m"
    "parse2 (digit_char (d div 10)) (digit_char (d mod 10)) = Some d"
    by (rule parse2_pad2; use yb c md in simp)+
  with c yb ymd show ?thesis
    by (simp add: isoformat_def pad4_def pad2_def valid_ymd_def)
qed

section \<open>Datetimes and zones\<close>

definition day_us :: int where
  "day_us = 86400000000"

definition minute_us :: int where
  "minute_us = 60000000"

definition second_us :: int where
  "second_us = 1000000"

definition epoch_ord :: int where
  "epoch_ord = 719163"

text \<open>A naive or an aware datetime: wall-clock microseconds since the epoch, and the UTC offset.\<close>

datatype pydatetime = Naive int | Aware int int

text \<open>A zone of the tz database: the offset at a UTC instant, and at a wall-clock reading.\<close>

record timezone =
  utc_off :: "int \<Rightarrow> int"
  wall_off :: "int \<Rightarrow> int"

fun wall :: "pydatetime \<Rightarrow> int" where
  "wall (Naive w) = w"
| "wall (Aware w off) = w"

definition date_of :: "pydatetime \<Rightarrow> int" where
  "date_of dt = wall dt div day_us + epoch_ord"

definition time_of :: "pydatetime \<Rightarrow> int" where
  "time_of dt = wall dt mod day_us"

definition utc_dt :: "int \<Rightarrow> pydatetime" where
  "utc_dt t = Aware t 0"

definition ist :: timezone where
  "ist = \<lparr>utc_off = (\<lambda>_. 19800000000), wall_off = (\<lambda>_. 19800000000)\<rparr>"

text \<open>\<open>datetime.fromtimestamp(ms / 1000, tz=UTC)\<close>, which raises outside the years 1 to 9999.\<close>

definition from_milliseconds :: "rat \<Rightarrow> py_error + int" where
  "from_milliseconds ms =
     (let t = round_half_even (ms * 1000); day = t div day_us + epoch_ord
      in if 1 \<le> day \<and> day \<le> 3652059 then Inr t else Inl ValueError)"

end
