(* ===== verification/Settings.thy ===== *)
theory Settings
  imports Py_Time
begin

text \<open>
  The part of \<open>Settings\<close> (app/config/settings.py) the engines read, field by field and in the
  source's order. The class is one flat list of fields; it is built here by record extension, one
  record per block of fields, so that \<open>settings\<close> has them all. \<open>market_timezone\<close> is the zone the
  configured name resolves to; market hours are microseconds since midnight.
\<close>

record ingest_settings =
  universe_reconciliation_min_fraction :: rat
  sanity_worker_heartbeat_warning_seconds :: rat
  sanity_worker_heartbeat_stale_seconds :: rat
  sanity_momentum_pipeline_warning_seconds :: rat
  sanity_momentum_pipeline_stale_seconds :: rat

record scanner_settings = ingest_settings +
  active_market_data_provider :: string
  feature_rs_benchmark_symbol :: string
  feature_daily_lookback_bars :: nat
  scanner_breakout_adx_threshold :: rat
  scanner_breakout_relative_volume_threshold :: rat
  scanner_breakout_volume_increasing_min_relative_volume :: rat
  scanner_breakout_resistance_proximity_pct :: rat
  scanner_min_qualifying_score :: rat
  scanner_momentum_min_score :: rat
  scanner_score_weight_trend :: rat
  scanner_score_weight_momentum :: rat
  scanner_score_weight_volume :: rat
  scanner_score_weight_volatility :: rat
  scanner_score_weight_relative_strength :: rat
  scanner_score_weight_support_resistance :: rat

record analytics_settings = scanner_settings +
  sector_score_weight_relative_strength :: rat
  sector_score_weight_rrg_momentum :: rat
  sector_score_weight_momentum :: rat
  sector_score_weight_trend :: rat
  sector_score_weight_price_performance :: rat
  sector_score_weight_momentum_acceleration :: rat
  sector_score_weight_breadth :: rat
  sector_score_weight_volume_participation :: rat
  market_regime_weight_advance_decline :: rat
  market_regime_weight_up_down_volume :: rat
  market_regime_weight_pct_above_ma :: rat
  market_regime_weight_new_highs_lows :: rat
  market_regime_weight_index_trend :: rat
  market_regime_weight_volatility :: rat
  market_regime_weight_sector_participation :: rat

record alert_settings = analytics_settings +
  decision_min_alert_score :: rat
  decision_min_rvol :: rat
  decision_min_adx :: rat
  decision_resistance_distance_percent :: rat
  decision_max_data_age_days :: int
  feature_freshness_max_lag_days :: int
  alert_cooldown_minutes :: int
  alert_high_priority_score :: rat
  alert_expiry_minutes :: int
  alert_max_retries :: int
  alert_retry_delay_seconds :: rat
  market_timezone :: timezone
  market_open_time :: int
  market_close_time :: int

record fundamental_settings = alert_settings +
  fundamental_weight_growth :: rat
  fundamental_weight_profitability :: rat
  fundamental_weight_financial_strength :: rat
  fundamental_weight_cash_flow :: rat
  fundamental_weight_valuation :: rat
  fundamental_weight_ownership :: rat
  fundamental_min_data_completeness_pct :: rat
  fundamental_cache_ttl_minutes :: int
  fundamental_batch_size :: int
  fundamental_batch_delay_seconds :: rat
  fundamental_request_delay_seconds :: rat
  fundamental_rate_limit_cooldown_seconds :: rat
  fundamental_rate_limit_backoff_multiplier :: rat
  fundamental_rate_limit_max_cooldown_seconds :: rat
  fundamental_max_requests_per_run :: int
  fundamental_max_requests_per_day :: int

record fusion_settings = fundamental_settings +
  catalyst_breaking_news_window_minutes :: int
  catalyst_stale_news_window_hours :: int
  signal_fusion_weight_technical :: rat
  signal_fusion_weight_volume :: rat
  signal_fusion_weight_oi :: rat
  signal_fusion_weight_sector_rrg :: rat
  signal_fusion_weight_market_regime :: rat
  signal_fusion_weight_news :: rat
  signal_fusion_weight_fundamentals :: rat
  pipeline_min_confidence_pct :: rat
  analytics_snapshot_interval_minutes :: int
  momentum_pipeline_interval_seconds :: int
  momentum_observation_stale_data_threshold_seconds :: rat

record candidate_settings = fusion_settings +
  technical_weight_trend :: rat
  technical_weight_momentum :: rat
  technical_weight_volume :: rat
  technical_weight_volatility :: rat
  technical_weight_vwap :: rat
  technical_weight_structure :: rat
  overall_fundamental_weight :: rat
  overall_technical_weight :: rat
  fno_momentum_min_rvol :: rat
  fno_momentum_min_adx :: rat
  fno_momentum_min_score :: rat
  pre_breakout_proximity_pct :: rat
  pre_breakout_min_score :: rat
  ipo_intraday_min_rvol :: rat
  ipo_intraday_min_score :: rat
  ipo_intraday_max_pct_below_52w_high :: rat
  ipo_intraday_min_pct_above_52w_low :: rat
  ipo_intraday_min_price :: rat
  ipo_intraday_min_volume :: int
  ipo_universe_max_age_years :: int

record settings = candidate_settings +
  compounding_atr_stop_multiplier :: rat
  compounding_weight_upside :: rat
  compounding_weight_risk_reward :: rat
  compounding_weight_higher_timeframe :: rat
  compounding_weight_fundamental :: rat
  compounding_strong_score_threshold :: rat
  compounding_trade_score_threshold :: rat

text \<open>The values the class declares.\<close>

definition default_settings :: settings where
  "default_settings =
    \<lparr>universe_reconciliation_min_fraction = 0.5,
     sanity_worker_heartbeat_warning_seconds = 21600,
     sanity_worker_heartbeat_stale_seconds = 86400,
     sanity_momentum_pipeline_warning_seconds = 300,
     sanity_momentum_pipeline_stale_seconds = 900,
     active_market_data_provider = ''upstox'',
     feature_rs_benchmark_symbol = ''NIFTY'',
     feature_daily_lookback_bars = 500,
     scanner_breakout_adx_threshold = 20,
     scanner_breakout_relative_volume_threshold = 1.5,
     scanner_breakout_volume_increasing_min_relative_volume = 1,
     scanner_breakout_resistance_proximity_pct = 3,
     scanner_min_qualifying_score = 60,
     scanner_momentum_min_score = 50,
     scanner_score_weight_trend = 0.25,
     scanner_score_weight_momentum = 0.2,
     scanner_score_weight_volume = 0.2,
     scanner_score_weight_volatility = 0.1,
     scanner_score_weight_relative_strength = 0.1,
     scanner_score_weight_support_resistance = 0.15,
     sector_score_weight_relative_strength = 0.125,
     sector_score_weight_rrg_momentum = 0.125,
     sector_score_weight_momentum = 0.125,
     sector_score_weight_trend = 0.125,
     sector_score_weight_price_performance = 0.125,
     sector_score_weight_momentum_acceleration = 0.125,
     sector_score_weight_breadth = 0.125,
     sector_score_weight_volume_participation = 0.125,
     market_regime_weight_advance_decline = 0.142857,
     market_regime_weight_up_down_volume = 0.142857,
     market_regime_weight_pct_above_ma = 0.142857,
     market_regime_weight_new_highs_lows = 0.142857,
     market_regime_weight_index_trend = 0.142857,
     market_regime_weight_volatility = 0.142857,
     market_regime_weight_sector_participation = 0.142858,
     decision_min_alert_score = 80,
     decision_min_rvol = 2,
     decision_min_adx = 25,
     decision_resistance_distance_percent = 3,
     decision_max_data_age_days = 1,
     feature_freshness_max_lag_days = 2,
     alert_cooldown_minutes = 30,
     alert_high_priority_score = 90,
     alert_expiry_minutes = 240,
     alert_max_retries = 3,
     alert_retry_delay_seconds = 5,
     market_timezone = ist,
     market_open_time = 9 * 3600000000 + 15 * 60000000,
     market_close_time = 15 * 3600000000 + 30 * 60000000,
     fundamental_weight_growth = 0.2,
     fundamental_weight_profitability = 0.2,
     fundamental_weight_financial_strength = 0.2,
     fundamental_weight_cash_flow = 0.15,
     fundamental_weight_valuation = 0.15,
     fundamental_weight_ownership = 0.1,
     fundamental_min_data_completeness_pct = 50,
     fundamental_cache_ttl_minutes = 240,
     fundamental_batch_size = 10,
     fundamental_batch_delay_seconds = 30,
     fundamental_request_delay_seconds = 2,
     fundamental_rate_limit_cooldown_seconds = 1800,
     fundamental_rate_limit_backoff_multiplier = 2,
     fundamental_rate_limit_max_cooldown_seconds = 21600,
     fundamental_max_requests_per_run = 5000,
     fundamental_max_requests_per_day = 20000,
     catalyst_breaking_news_window_minutes = 30,
     catalyst_stale_news_window_hours = 24,
     signal_fusion_weight_technical = 0.25,
     signal_fusion_weight_volume = 0.15,
     signal_fusion_weight_oi = 0.15,
     signal_fusion_weight_sector_rrg = 0.15,
     signal_fusion_weight_market_regime = 0.1,
     signal_fusion_weight_news = 0.1,
     signal_fusion_weight_fundamentals = 0.1,
     pipeline_min_confidence_pct = 40,
     analytics_snapshot_interval_minutes = 60,
     momentum_pipeline_interval_seconds = 60,
     momentum_observation_stale_data_threshold_seconds = 300,
     technical_weight_trend = 0.25,
     technical_weight_momentum = 0.2,
     technical_weight_volume = 0.2,
     technical_weight_volatility = 0.1,
     technical_weight_vwap = 0.15,
     technical_weight_structure = 0.1,
     overall_fundamental_weight = 0.3,
     overall_technical_weight = 0.7,
     fno_momentum_min_rvol = 1.5,
     fno_momentum_min_adx = 20,
     fno_momentum_min_score = 60,
     pre_breakout_proximity_pct = 5,
     pre_breakout_min_score = 55,
     ipo_intraday_min_rvol = 1.5,
     ipo_intraday_min_score = 55,
     ipo_intraday_max_pct_below_52w_high = 10,
     ipo_intraday_min_pct_above_52w_low = 100,
     ipo_intraday_min_price = 25,
     ipo_intraday_min_volume = 250000,
     ipo_universe_max_age_years = 3,
     compounding_atr_stop_multiplier = 1.5,
     compounding_weight_upside = 0.35,
     compounding_weight_risk_reward = 0.3,
     compounding_weight_higher_timeframe = 0.15,
     compounding_weight_fundamental = 0.2,
     compounding_strong_score_threshold = 75,
     compounding_trade_score_threshold = 55\<rparr>"

text \<open>The weight groups the source documents as fractions of one.\<close>

lemma default_weight_sums:
  "signal_fusion_weight_technical default_settings + signal_fusion_weight_volume default_settings
   + signal_fusion_weight_oi default_settings + signal_fusion_weight_sector_rrg default_settings
   + signal_fusion_weight_market_regime default_settings + signal_fusion_weight_news default_settings
   + signal_fusion_weight_fundamentals default_settings = 1"
  "overall_fundamental_weight default_settings + overall_technical_weight default_settings = 1"
  "compounding_weight_upside default_settings + compounding_weight_risk_reward default_settings
   + compounding_weight_higher_timeframe default_settings + compounding_weight_fundamental default_settings = 1"
  by (simp_all add: default_settings_def)

end
