(* ===== verification/Market_Clock.thy ===== *)
theory Market_Clock
  imports Settings
begin

text \<open>
  Business time: the IST helpers of app/core/time.py, the NSE holiday calendar of
  app/market_calendar (segments, the 2026 data, the day walks) and the market-hours check
  \<open>MarketStatusUpdater.is_market_open\<close> (app/data/market_updater.py). Lookups in a year
  without verified data raise, as an error value.
\<close>

section \<open>IST business dates (app/core/time.py)\<close>

fun to_market_time :: "pydatetime \<Rightarrow> timezone \<Rightarrow> pydatetime" where
  "to_market_time (Naive w) tz = Aware (w + utc_off tz w) (utc_off tz w)"
| "to_market_time (Aware w off) tz =
     (let u = w - off in Aware (u + utc_off tz u) (utc_off tz u))"

definition zone_or_default :: "settings \<Rightarrow> timezone option \<Rightarrow> timezone" where
  "zone_or_default cfg tz = (case tz of None \<Rightarrow> market_timezone cfg | Some z \<Rightarrow> z)"

definition now_market_time :: "settings \<Rightarrow> int \<Rightarrow> timezone option \<Rightarrow> pydatetime" where
  "now_market_time cfg clock tz = to_market_time (utc_dt clock) (zone_or_default cfg tz)"

definition market_today :: "settings \<Rightarrow> int \<Rightarrow> timezone option \<Rightarrow> int" where
  "market_today cfg clock tz = date_of (now_market_time cfg clock tz)"

definition market_date_of :: "settings \<Rightarrow> pydatetime \<Rightarrow> timezone option \<Rightarrow> int" where
  "market_date_of cfg moment tz = date_of (to_market_time moment (zone_or_default cfg tz))"

definition market_day_bounds_utc :: "settings \<Rightarrow> int \<Rightarrow> timezone option \<Rightarrow> pydatetime \<times> pydatetime" where
  "market_day_bounds_utc cfg day tz =
     (let zone = zone_or_default cfg tz;
          start_local = (day - epoch_ord) * day_us;
          end_local = start_local + day_us
      in (utc_dt (start_local - wall_off zone start_local),
          utc_dt (end_local - wall_off zone end_local)))"

text \<open>
  What the business-date helpers rely on: a zone whose offset does not change, as IST's does not.
\<close>

locale fixed_zone =
  fixes tz :: timezone and c :: int
  assumes utc_off_const: "utc_off tz t = c"
    and wall_off_const: "wall_off tz t = c"
begin

lemma market_date_utc: "date_of (to_market_time (utc_dt t) tz) = (t + c) div day_us + epoch_ord"
  by (simp add: date_of_def utc_dt_def utc_off_const Let_def)

lemma market_day_bounds:
  "market_day_bounds_utc cfg day (Some tz)
     = (utc_dt ((day - epoch_ord) * day_us - c), utc_dt ((day - epoch_ord) * day_us + day_us - c))"
  by (simp add: market_day_bounds_utc_def zone_or_default_def wall_off_const Let_def)

lemma market_date_in_bounds:
  "date_of (to_market_time (utc_dt t) tz) = day
     \<longleftrightarrow> wall (fst (market_day_bounds_utc cfg day (Some tz))) \<le> t
         \<and> t < wall (snd (market_day_bounds_utc cfg day (Some tz)))"
proof -
  have "(t + c) div day_us = k \<longleftrightarrow> k * day_us \<le> t + c \<and> t + c < k * day_us + day_us" for k
    using div_mult_mod_eq [of "t + c" day_us] pos_mod_bound [of day_us "t + c"] pos_mod_sign [of day_us "t + c"]
      int_div_pos_eq [of "t + c" day_us k "t + c - k * day_us"]
    by (auto simp: day_us_def)
  note k = this [of "day - epoch_ord"]
  have "date_of (to_market_time (utc_dt t) tz) = day \<longleftrightarrow> (t + c) div day_us = day - epoch_ord"
    by (auto simp: market_date_utc)
  also have "\<dots> \<longleftrightarrow> (day - epoch_ord) * day_us - c \<le> t \<and> t < (day - epoch_ord) * day_us + day_us - c"
    using k by linarith
  finally show ?thesis by (simp add: market_day_bounds utc_dt_def)
qed

end

interpretation ist_zone: fixed_zone ist 19800000000
  by unfold_locales (simp_all add: ist_def)

section \<open>The NSE holiday calendar (app/market_calendar)\<close>

datatype market_segment = Seg_EQUITY | Seg_FNO

record nse_holiday =
  holiday_date :: int
  holiday_name :: string
  segments :: "market_segment list"
  holiday_source :: string
  verified_via_official_circular :: bool
  special_session :: bool
  special_session_note :: "string option"

definition em_dash :: string where
  "em_dash = [CHR 0xE2, CHR 0x80, CHR 0x94]"

definition seg_both :: "market_segment list" where
  "seg_both = [Seg_EQUITY, Seg_FNO]"

definition seg_equity_only :: "market_segment list" where
  "seg_equity_only = [Seg_EQUITY]"

definition fao_circular :: string where
  "fao_circular = ''NSE circular NSE/FAOP/71777 (Circular Ref 212/2025), Futures & Options Dept, dated 2025-12-12, signed Khushal Shah (Associate Vice President)''"

definition equity_pdf_unverified :: string where
  "equity_pdf_unverified = ''User-supplied document 'NSE_Equities_Market_Holidays_2026.pdf' '' @ em_dash @ '' not circular-formatted (no circular reference/signatory), absent from the F&O circular NSE/FAOP/71777; date confirmed independently by the project owner''"

definition special_note_2026 :: string where
  "special_note_2026 = ''Muhurat Trading conducted (symbolic short session); regular trading closed. Exact session timings not yet published by NSE as of the source circular's date (2025-12-12) '' @ em_dash @ '' to be notified via a separate circular.''"

definition mk_h :: "int \<Rightarrow> string \<Rightarrow> market_segment list \<Rightarrow> string \<Rightarrow> bool \<Rightarrow> bool \<Rightarrow> string option \<Rightarrow> nse_holiday" where
  "mk_h day name segs src verified special note =
     \<lparr>holiday_date = day, holiday_name = name, segments = segs, holiday_source = src,
      verified_via_official_circular = verified, special_session = special,
      special_session_note = note\<rparr>"

definition HOLIDAYS_2026 :: "nse_holiday list" where
  "HOLIDAYS_2026 =
     [mk_h (ymd2ord 2026 1 26) ''Republic Day'' seg_both fao_circular True False None,
      mk_h (ymd2ord 2026 3 3) ''Holi'' seg_both fao_circular True False None,
      mk_h (ymd2ord 2026 3 26) ''Shri Ram Navami'' seg_both fao_circular True False None,
      mk_h (ymd2ord 2026 3 31) ''Shri Mahavir Jayanti'' seg_both fao_circular True False None,
      mk_h (ymd2ord 2026 4 3) ''Good Friday'' seg_both fao_circular True False None,
      mk_h (ymd2ord 2026 4 14) ''Dr. Baba Saheb Ambedkar Jayanti'' seg_both fao_circular True False None,
      mk_h (ymd2ord 2026 5 1) ''Maharashtra Day'' seg_both fao_circular True False None,
      mk_h (ymd2ord 2026 5 28) ''Bakri Id'' seg_both fao_circular True False None,
      mk_h (ymd2ord 2026 6 26) ''Muharram'' seg_both fao_circular True False None,
      mk_h (ymd2ord 2026 9 14) ''Ganesh Chaturthi'' seg_both fao_circular True False None,
      mk_h (ymd2ord 2026 10 2) ''Mahatma Gandhi Jayanti'' seg_both fao_circular True False None,
      mk_h (ymd2ord 2026 10 20) ''Dussehra'' seg_both fao_circular True False None,
      mk_h (ymd2ord 2026 11 10) ''Diwali-Balipratipada'' seg_both fao_circular True False None,
      mk_h (ymd2ord 2026 11 24) ''Prakash Gurpurb Sri Guru Nanak Dev'' seg_both fao_circular True False None,
      mk_h (ymd2ord 2026 12 25) ''Christmas'' seg_both fao_circular True False None,
      mk_h (ymd2ord 2026 1 15) ''Municipal Corporation Election - Maharashtra'' seg_equity_only equity_pdf_unverified False False None,
      mk_h (ymd2ord 2026 2 15) ''Mahashivratri'' seg_both fao_circular True False None,
      mk_h (ymd2ord 2026 3 21) ''Id-Ul-Fitr (Ramadan Eid)'' seg_both fao_circular True False None,
      mk_h (ymd2ord 2026 8 15) ''Independence Day'' seg_both fao_circular True False None,
      mk_h (ymd2ord 2026 11 8) ''Diwali Laxmi Pujan'' seg_both fao_circular True True (Some special_note_2026)]"

definition HOLIDAYS_BY_YEAR :: "int \<Rightarrow> nse_holiday list option" where
  "HOLIDAYS_BY_YEAR = [2026 \<mapsto> HOLIDAYS_2026]"

definition verified_years :: "int list" where
  "verified_years = [2026]"

definition require_verified :: "int \<Rightarrow> market_segment \<Rightarrow> py_error + nse_holiday list" where
  "require_verified year segment =
     (case HOLIDAYS_BY_YEAR year of None \<Rightarrow> Inl (CalendarYearNotVerified year) | Some hs \<Rightarrow> Inr hs)"

definition get_holiday :: "int \<Rightarrow> market_segment \<Rightarrow> py_error + nse_holiday option" where
  "get_holiday day segment =
     (case require_verified (year_of day) segment of
        Inl e \<Rightarrow> Inl e
      | Inr hs \<Rightarrow> Inr (find (\<lambda>x. holiday_date x = day \<and> segment \<in> set (segments x)) hs))"

definition is_market_holiday :: "int \<Rightarrow> market_segment \<Rightarrow> py_error + bool" where
  "is_market_holiday day segment =
     (case get_holiday day segment of Inl e \<Rightarrow> Inl e | Inr r \<Rightarrow> Inr (r \<noteq> None))"

definition is_trading_day :: "int \<Rightarrow> market_segment \<Rightarrow> py_error + bool" where
  "is_trading_day day segment =
     (if weekday day \<ge> 5 then Inr False
      else (case is_market_holiday day segment of Inl e \<Rightarrow> Inl e | Inr b \<Rightarrow> Inr (\<not> b)))"

definition max_walk_days :: nat where
  "max_walk_days = 30"

text \<open>The two day walks: the loop over \<open>range(_MAX_WALK_DAYS)\<close> as recursion on the steps left.\<close>

fun previous_walk :: "nat \<Rightarrow> int \<Rightarrow> market_segment \<Rightarrow> py_error + int" where
  "previous_walk 0 cursor segment = Inl RuntimeError"
| "previous_walk (Suc n) cursor segment =
     (let cursor' = cursor - 1 in
      case is_trading_day cursor' segment of
        Inl e \<Rightarrow> Inl e
      | Inr True \<Rightarrow> Inr cursor'
      | Inr False \<Rightarrow> previous_walk n cursor' segment)"

definition previous_trading_day :: "int \<Rightarrow> market_segment \<Rightarrow> py_error + int" where
  "previous_trading_day day segment = previous_walk max_walk_days day segment"

fun next_walk :: "nat \<Rightarrow> int \<Rightarrow> market_segment \<Rightarrow> py_error + int" where
  "next_walk 0 cursor segment = Inl RuntimeError"
| "next_walk (Suc n) cursor segment =
     (let cursor' = cursor + 1 in
      case is_trading_day cursor' segment of
        Inl e \<Rightarrow> Inl e
      | Inr True \<Rightarrow> Inr cursor'
      | Inr False \<Rightarrow> next_walk n cursor' segment)"

definition next_trading_day :: "int \<Rightarrow> market_segment \<Rightarrow> py_error + int" where
  "next_trading_day day segment = next_walk max_walk_days day segment"

lemma next_walk_InrD:
  "next_walk n c s = Inr d \<Longrightarrow>
     c < d \<and> d \<le> c + int n \<and> is_trading_day d s = Inr True \<and> (\<forall>x. c < x \<and> x < d \<longrightarrow> is_trading_day x s = Inr False)"
proof (induction n arbitrary: c)
  case 0
  then show ?case by simp
next
  case (Suc n)
  show ?case
  proof (cases "is_trading_day (c + 1) s = Inr True")
    case True
    with Suc.prems show ?thesis by auto
  next
    case False
    with Suc.prems have f: "is_trading_day (c + 1) s = Inr False" "next_walk n (c + 1) s = Inr d"
      by (auto simp: Let_def split: sum.splits bool.splits)
    from Suc.IH [OF f(2)] have ih: "c + 1 < d" "d \<le> c + 1 + int n" "is_trading_day d s = Inr True"
      "\<forall>x. c + 1 < x \<and> x < d \<longrightarrow> is_trading_day x s = Inr False" by auto
    have "is_trading_day x s = Inr False" if "c < x" "x < d" for x
      using that f(1) ih(4) by (cases "x = c + 1") auto
    with ih show ?thesis by auto
  qed
qed

lemma previous_walk_InrD:
  "previous_walk n c s = Inr d \<Longrightarrow>
     d < c \<and> c - int n \<le> d \<and> is_trading_day d s = Inr True \<and> (\<forall>x. d < x \<and> x < c \<longrightarrow> is_trading_day x s = Inr False)"
proof (induction n arbitrary: c)
  case 0
  then show ?case by simp
next
  case (Suc n)
  show ?case
  proof (cases "is_trading_day (c - 1) s = Inr True")
    case True
    with Suc.prems show ?thesis by auto
  next
    case False
    with Suc.prems have f: "is_trading_day (c - 1) s = Inr False" "previous_walk n (c - 1) s = Inr d"
      by (auto simp: Let_def split: sum.splits bool.splits)
    from Suc.IH [OF f(2)] have ih: "d < c - 1" "c - 1 - int n \<le> d" "is_trading_day d s = Inr True"
      "\<forall>x. d < x \<and> x < c - 1 \<longrightarrow> is_trading_day x s = Inr False" by auto
    have "is_trading_day x s = Inr False" if "d < x" "x < c" for x
      using that f(1) ih(4) by (cases "x = c - 1") auto
    with ih show ?thesis by auto
  qed
qed

text \<open>The walk reaches a trading day whenever one lies within its reach over known days.\<close>

lemma previous_walk_complete:
  "d < c \<Longrightarrow> c \<le> d + int n \<Longrightarrow> is_trading_day d s = Inr True \<Longrightarrow>
   (\<forall>x. d < x \<and> x < c \<longrightarrow> is_trading_day x s = Inr False) \<Longrightarrow> previous_walk n c s = Inr d"
proof (induction n arbitrary: c)
  case 0
  then show ?case by simp
next
  case (Suc n)
  then show ?case by (cases "d = c - 1") (auto simp: Let_def)
qed

section \<open>Market hours (app/data/market_updater.py)\<close>

definition is_market_open :: "settings \<Rightarrow> int \<Rightarrow> int option \<Rightarrow> bool" where
  "is_market_open cfg clock now =
     (let tz = market_timezone cfg;
          moment = to_market_time (utc_dt (opt_else now clock)) tz
      in if weekday (date_of moment) \<ge> 5 then False
         else if \<not> (market_open_time cfg \<le> time_of moment \<and> time_of moment \<le> market_close_time cfg) then False
         else (case is_trading_day (date_of moment) Seg_EQUITY of
                 Inr b \<Rightarrow> b
               | Inl e \<Rightarrow> True))"

section \<open>Properties\<close>

text \<open>The two day walks are inverse on trading days: from a trading day, the next trading day
  lies at most thirty days ahead, no day between them trades, and walking back returns to the
  starting day.\<close>

theorem trading_day_walks_inverse:
  assumes "is_trading_day d seg = Inr True" and "next_trading_day d seg = Inr e"
  shows "d < e \<and> e \<le> d + 30 \<and> is_trading_day e seg = Inr True
    \<and> (\<forall>x. d < x \<and> x < e \<longrightarrow> is_trading_day x seg = Inr False)
    \<and> previous_trading_day e seg = Inr d"
proof -
  note n = next_walk_InrD [OF assms(2) [unfolded next_trading_day_def]]
  then have "previous_walk max_walk_days e seg = Inr d"
    using assms(1) by (intro previous_walk_complete) auto
  with n show ?thesis by (simp add: max_walk_days_def previous_trading_day_def)
qed

theorem trading_day_walks_inverse_witness:
  "is_trading_day (ymd2ord 2026 1 23) Seg_EQUITY = Inr True
   \<and> next_trading_day (ymd2ord 2026 1 23) Seg_EQUITY = Inr (ymd2ord 2026 1 27)
   \<and> previous_trading_day (ymd2ord 2026 1 27) Seg_EQUITY = Inr (ymd2ord 2026 1 23)"
proof -
  have a: "is_trading_day (ymd2ord 2026 1 23) Seg_EQUITY = Inr True" by code_simp
  have b: "next_trading_day (ymd2ord 2026 1 23) Seg_EQUITY = Inr (ymd2ord 2026 1 27)" by code_simp
  show ?thesis using a b trading_day_walks_inverse [OF a b] by simp
qed

lemma is_market_open_iff:
  "is_market_open cfg clock now \<longleftrightarrow>
     (let m = to_market_time (utc_dt (opt_else now clock)) (market_timezone cfg) in
      weekday (date_of m) < 5 \<and> market_open_time cfg \<le> time_of m \<and> time_of m \<le> market_close_time cfg
      \<and> is_trading_day (date_of m) Seg_EQUITY \<noteq> Inr False)"
  by (auto simp: is_market_open_def Let_def not_le split: sum.splits)

lemma is_trading_day_verified:
  "HOLIDAYS_BY_YEAR (year_of d) = Some hs \<Longrightarrow>
   is_trading_day d seg = Inr (weekday d < 5 \<and> \<not> (\<exists>x \<in> set hs. holiday_date x = d \<and> seg \<in> set (segments x)))"
  by (auto simp: is_trading_day_def is_market_holiday_def get_holiday_def require_verified_def find_None_iff)

text \<open>The market counts as open exactly on a weekday, within the configured hours of the market
  zone, and, in a year with a verified calendar, on no equity holiday of that calendar; in a year
  without one the check falls back to weekday and hours.\<close>

theorem market_open_exactly:
  "is_market_open cfg clock now \<longleftrightarrow>
     (let m = to_market_time (utc_dt (opt_else now clock)) (market_timezone cfg) in
      weekday (date_of m) < 5 \<and> market_open_time cfg \<le> time_of m \<and> time_of m \<le> market_close_time cfg
      \<and> \<not> (\<exists>hs. HOLIDAYS_BY_YEAR (year_of (date_of m)) = Some hs
           \<and> (\<exists>x \<in> set hs. holiday_date x = date_of m \<and> Seg_EQUITY \<in> set (segments x))))"
proof -
  have "is_trading_day d Seg_EQUITY \<noteq> Inr False \<longleftrightarrow>
      weekday d < 5 \<and> \<not> (\<exists>hs. HOLIDAYS_BY_YEAR (year_of d) = Some hs
        \<and> (\<exists>x \<in> set hs. holiday_date x = d \<and> Seg_EQUITY \<in> set (segments x)))" for d
  proof (cases "HOLIDAYS_BY_YEAR (year_of d)")
    case None
    then show ?thesis
      by (auto simp: is_trading_day_def is_market_holiday_def get_holiday_def require_verified_def)
  next
    case (Some hs)
    then show ?thesis by (auto simp: is_trading_day_verified [OF Some])
  qed
  then show ?thesis by (auto simp: is_market_open_iff Let_def)
qed

text \<open>For every instant, its IST business date is a given day exactly when the instant lies in
  the half-open UTC window computed for that day.\<close>

theorem ist_day_window:
  "market_date_of cfg (utc_dt t) (Some ist) = day
     \<longleftrightarrow> wall (fst (market_day_bounds_utc cfg day (Some ist))) \<le> t
         \<and> t < wall (snd (market_day_bounds_utc cfg day (Some ist)))"
  unfolding market_date_of_def zone_or_default_def option.case
  by (rule ist_zone.market_date_in_bounds)

lemma year_2026_iff: "year_of d = 2026 \<longleftrightarrow> 739617 \<le> d \<and> d \<le> 739981"
proof -
  have "days_before_year 2026 = 739616" "days_before_year (2026 + 1) = 739981" by code_simp+
  then show ?thesis by (auto simp: year_of_iff)
qed

lemma holidays_2026_dates:
  "map holiday_date HOLIDAYS_2026 =
     [739642, 739678, 739701, 739706, 739709, 739720, 739737, 739764, 739793, 739873, 739891,
      739909, 739930, 739944, 739975, 739631, 739662, 739696, 739843, 739928]"
  by code_simp

lemma holidays_2026_segments:
  "list_all (\<lambda>x. Seg_EQUITY \<in> set (segments x)
     \<and> (Seg_FNO \<in> set (segments x)) = (holiday_date x \<noteq> 739631)) HOLIDAYS_2026"
  by code_simp

lemma trading_day_2026:
  assumes "year_of d = 2026"
  shows "is_trading_day d Seg_EQUITY = Inr (weekday d < 5 \<and> d \<notin> set (map holiday_date HOLIDAYS_2026))"
    and "is_trading_day d Seg_FNO =
      Inr (weekday d < 5 \<and> (d \<notin> set (map holiday_date HOLIDAYS_2026) \<or> d = 739631))"
proof -
  have y: "HOLIDAYS_BY_YEAR (year_of d) = Some HOLIDAYS_2026"
    using assms by (simp add: HOLIDAYS_BY_YEAR_def)
  note seg = holidays_2026_segments [unfolded list_all_iff]
  show "is_trading_day d Seg_EQUITY = Inr (weekday d < 5 \<and> d \<notin> set (map holiday_date HOLIDAYS_2026))"
    using seg by (auto simp: is_trading_day_verified [OF y])
  show "is_trading_day d Seg_FNO =
      Inr (weekday d < 5 \<and> (d \<notin> set (map holiday_date HOLIDAYS_2026) \<or> d = 739631))"
    using seg by (auto simp: is_trading_day_verified [OF y])
qed

text \<open>In the verified year 2026 both segments have a decided answer for every day, and they
  disagree on one day only: 15 January 2026, an equity holiday on which F\<open>&\<close>O trades.\<close>

theorem segments_differ_once_in_2026:
  assumes "year_of d = 2026"
  shows "\<exists>a b. is_trading_day d Seg_EQUITY = Inr a \<and> is_trading_day d Seg_FNO = Inr b
    \<and> (a \<noteq> b \<longleftrightarrow> d = ymd2ord 2026 1 15) \<and> (a \<longrightarrow> b)"
proof -
  have "ymd2ord 2026 1 15 = 739631" "weekday 739631 < 5" by code_simp+
  moreover have "739631 \<in> set (map holiday_date HOLIDAYS_2026)"
    by (simp only: holidays_2026_dates) simp
  ultimately show ?thesis by (auto simp: trading_day_2026 [OF assms] simp del: set_map)
qed

theorem segments_differ_once_in_2026_witness:
  "\<exists>a b. is_trading_day 739631 Seg_EQUITY = Inr a \<and> is_trading_day 739631 Seg_FNO = Inr b
    \<and> (a \<noteq> b \<longleftrightarrow> 739631 = ymd2ord 2026 1 15) \<and> (a \<longrightarrow> b)"
  by (rule segments_differ_once_in_2026) (simp add: year_2026_iff)

lemma gap_2026:
  "list_all (\<lambda>d. list_ex (\<lambda>k. weekday (d + k) < 5 \<and> d + k \<notin> set (map holiday_date HOLIDAYS_2026)) [1..5])
     [739616..739976]"
  unfolding holidays_2026_dates by code_simp

lemma next_walk_total:
  "0 < k \<Longrightarrow> k \<le> n \<Longrightarrow> is_trading_day (c + int k) s = Inr True \<Longrightarrow>
   (\<forall>x. c < x \<and> x \<le> c + int k \<longrightarrow> (\<exists>b. is_trading_day x s = Inr b)) \<Longrightarrow>
   \<exists>e. next_walk n c s = Inr e \<and> e \<le> c + int k"
proof (induction n arbitrary: c k)
  case 0
  then show ?case by simp
next
  case (Suc n)
  from Suc.prems(1,4) obtain b where b: "is_trading_day (c + 1) s = Inr b" by fastforce
  show ?case
  proof (cases b)
    case True
    with b Suc.prems(1) show ?thesis by simp
  next
    case False
    with b Suc.prems(1,3) have "k \<noteq> 1" by auto
    with Suc.prems(1) obtain j where j: "k = Suc j" "0 < j" by (cases k) auto
    have "\<exists>e. next_walk n (c + 1) s = Inr e \<and> e \<le> c + 1 + int j"
      by (rule Suc.IH) (use Suc.prems j in \<open>auto simp: add.assoc\<close>)
    with b False j show ?thesis by auto
  qed
qed

text \<open>Within the verified year no walk fails: from every day between 31 December 2025 and
  26 December 2026 the next equity trading day exists and is at most five days away.\<close>

theorem next_trading_day_2026:
  assumes "739616 \<le> d" "d \<le> 739976"
  shows "\<exists>e. next_trading_day d Seg_EQUITY = Inr e \<and> d < e \<and> e \<le> d + 5"
proof -
  obtain j where j: "j \<in> set [1..5]" "weekday (d + j) < 5" "d + j \<notin> set (map holiday_date HOLIDAYS_2026)"
  proof -
    have "d \<in> set [739616..739976]" using assms by (simp only: set_upto atLeastAtMost_iff)
    with gap_2026 show ?thesis unfolding list_all_iff list_ex_iff by (blast intro: that)
  qed
  have y: "year_of x = 2026" if "d < x" "x \<le> d + 5" for x
    using that assms by (simp add: year_2026_iff)
  have "is_trading_day (d + int (nat j)) Seg_EQUITY = Inr True"
    using j y [of "d + j"] by (simp add: trading_day_2026)
  moreover have "\<forall>x. d < x \<and> x \<le> d + int (nat j) \<longrightarrow> (\<exists>b. is_trading_day x Seg_EQUITY = Inr b)"
    using j by (auto intro!: exI trading_day_2026(1) y)
  moreover have "0 < nat j" "nat j \<le> max_walk_days" using j(1) by (auto simp: max_walk_days_def)
  ultimately obtain e where e: "next_walk max_walk_days d Seg_EQUITY = Inr e" "e \<le> d + int (nat j)"
    using next_walk_total by blast
  with j next_walk_InrD [OF e(1)] show ?thesis by (auto simp: next_trading_day_def)
qed

theorem next_trading_day_2026_witness:
  "\<exists>e. next_trading_day 739641 Seg_EQUITY = Inr e \<and> 739641 < e \<and> e \<le> 739641 + 5"
  by (rule next_trading_day_2026) simp_all

end
