(* ===== verification/Alert_Store.thy ===== *)
theory Alert_Store
  imports Market_Clock
begin

text \<open>
  The alert tables and their repositories (app/models/alert*.py,
  app/repositories/alert_repository.py, app/repositories/worker_heartbeat_repository.py) and the
  in-memory queue (app/alerts/queue.py). A table is the list of its rows in insertion order with a
  counter for the next primary key; the database's clock, read by \<open>func.now()\<close>, is part of the
  state. Rounding of values to a column's precision and the \<open>updated_at\<close> columns are left out.
  The operations work on any extension of the record \<open>store\<close>.
\<close>

section \<open>Tables\<close>

datatype alert_status = PENDING | SENT | RETRYING | FAILED | EXPIRED

record alert_row =
  al_id :: int
  al_symbol_id :: int
  al_scanner_name :: string
  al_signal_type :: string
  al_decision :: string
  al_score :: rat
  al_quality :: string
  al_entry_reference :: "rat option"
  al_breakout_level :: "rat option"
  al_support_level :: "rat option"
  al_resistance_level :: "rat option"
  al_feature_snapshot :: snapshot
  al_reason :: msg
  al_passed_rules :: "msg list"
  al_status :: alert_status
  al_fingerprint :: string
  al_signal_date :: int
  al_created_at :: int
  al_expires_at :: "int option"

type_synonym metadata = "(string \<times> pyval) list"

record event_row =
  ev_id :: int
  ev_alert_id :: int
  ev_type :: string
  ev_timestamp :: int
  ev_metadata :: "metadata option"

record delivery_row =
  dl_id :: int
  dl_alert_id :: int
  dl_provider :: string
  dl_status :: string
  dl_attempt_number :: int
  dl_response_metadata :: "metadata option"
  dl_error_message :: "string option"
  dl_created_at :: int

record heartbeat_row =
  hb_last_run_at :: "int option"
  hb_last_success_at :: "int option"
  hb_detail :: "string option"

section \<open>The in-memory queue (queue.py)\<close>

record alert_queue =
  q_items :: "int list"
  q_unfinished :: nat

definition empty_queue :: alert_queue where
  "empty_queue = \<lparr>q_items = [], q_unfinished = 0\<rparr>"

definition q_put :: "int \<Rightarrow> alert_queue \<Rightarrow> alert_queue" where
  "q_put alert_id q = q\<lparr>q_items := q_items q @ [alert_id], q_unfinished := Suc (q_unfinished q)\<rparr>"

text \<open>\<open>get\<close> waits while the queue is empty, which is \<open>None\<close> here.\<close>

definition q_get :: "alert_queue \<Rightarrow> (int \<times> alert_queue) option" where
  "q_get q = (case q_items q of [] \<Rightarrow> None | x # xs \<Rightarrow> Some (x, q\<lparr>q_items := xs\<rparr>))"

definition q_task_done :: "alert_queue \<Rightarrow> py_error + alert_queue" where
  "q_task_done q = (if q_unfinished q = 0 then Inl ValueError else Inr (q\<lparr>q_unfinished := q_unfinished q - 1\<rparr>))"

definition q_size :: "alert_queue \<Rightarrow> nat" where
  "q_size q = length (q_items q)"

text \<open>What the producer and the consumer rely on: first in, first out, nothing lost.\<close>

locale fifo =
  fixes items :: "'q \<Rightarrow> 'a list"
    and put :: "'a \<Rightarrow> 'q \<Rightarrow> 'q"
    and get :: "'q \<Rightarrow> ('a \<times> 'q) option"
  assumes items_put: "items (put x q) = items q @ [x]"
    and get_None: "get q = None \<longleftrightarrow> items q = []"
    and get_Some: "get q = Some (x, q') \<Longrightarrow> items q = x # items q'"
begin

lemma items_puts: "items (fold put xs q) = items q @ xs"
  by (induction xs arbitrary: q) (simp_all add: items_put)

lemma get_after_put: "items q = [] \<Longrightarrow> \<exists>q'. get (put x q) = Some (x, q') \<and> items q' = []"
  using get_None [of "put x q"] get_Some [of "put x q"] items_put [of x q]
  by (cases "get (put x q)") auto

lemma get_order: "items q = x # xs \<Longrightarrow> \<exists>q'. get q = Some (x, q') \<and> items q' = xs"
  using get_None [of q] get_Some [of q] by (cases "get q") auto

end

interpretation aq: fifo q_items q_put q_get
  by unfold_locales (auto simp: q_put_def q_get_def split: list.splits)

record store =
  alerts :: "alert_row list"
  next_alert_id :: int
  alert_events :: "event_row list"
  next_event_id :: int
  delivery_logs :: "delivery_row list"
  next_log_id :: int
  heartbeats :: "string \<rightharpoonup> heartbeat_row"
  db_clock :: int
  queue :: alert_queue

section \<open>Alert repository\<close>

text \<open>The argument holds the keyword arguments of \<open>create\<close>; the columns the repository and the database
  fill in (status, key, creation time) are overwritten.\<close>

definition create_alert :: "alert_row \<Rightarrow> 'x store_scheme \<Rightarrow> alert_row \<times> 'x store_scheme" where
  "create_alert args s =
     (let row = args\<lparr>al_status := PENDING, al_id := next_alert_id s, al_created_at := db_clock s\<rparr>
      in (row, s\<lparr>alerts := alerts s @ [row], next_alert_id := next_alert_id s + 1\<rparr>))"

definition get_by_fingerprint :: "string \<Rightarrow> 'x store_scheme \<Rightarrow> alert_row option" where
  "get_by_fingerprint fp s = newest_by al_id (\<lambda>a. al_fingerprint a = fp) (alerts s)"

definition get_by_id :: "int \<Rightarrow> 'x store_scheme \<Rightarrow> alert_row option" where
  "get_by_id i s = find (\<lambda>a. al_id a = i) (alerts s)"

definition get_most_recent_for_signal ::
  "int \<Rightarrow> string \<Rightarrow> int \<Rightarrow> 'x store_scheme \<Rightarrow> alert_row option" where
  "get_most_recent_for_signal symbol_id signal_type since s =
     newest_by al_id (\<lambda>a. al_symbol_id a = symbol_id \<and> al_signal_type a = signal_type
                          \<and> al_created_at a \<ge> since) (alerts s)"

definition list_recent :: "int option \<Rightarrow> nat \<Rightarrow> 'x store_scheme \<Rightarrow> alert_row list" where
  "list_recent symbol_id limit s =
     (let rows = (case symbol_id of None \<Rightarrow> alerts s | Some i \<Rightarrow> filter (\<lambda>a. al_symbol_id a = i) (alerts s))
      in take limit (sort_key (\<lambda>a. - al_created_at a) rows))"

definition list_created_since :: "int \<Rightarrow> 'x store_scheme \<Rightarrow> alert_row list" where
  "list_created_since since s = sort_key al_created_at (filter (\<lambda>a. al_created_at a \<ge> since) (alerts s))"

definition list_by_status :: "alert_status list \<Rightarrow> nat \<Rightarrow> 'x store_scheme \<Rightarrow> alert_row list" where
  "list_by_status statuses limit s =
     take limit (sort_key al_created_at (filter (\<lambda>a. al_status a \<in> set statuses) (alerts s)))"

definition set_status :: "int \<Rightarrow> alert_status \<Rightarrow> alert_row list \<Rightarrow> alert_row list" where
  "set_status i st rows = map (\<lambda>a. if al_id a = i then a\<lparr>al_status := st\<rparr> else a) rows"

definition update_status :: "int \<Rightarrow> alert_status \<Rightarrow> 'x store_scheme \<Rightarrow> 'x store_scheme" where
  "update_status i st s = s\<lparr>alerts := set_status i st (alerts s)\<rparr>"

definition is_stale_alert :: "int \<Rightarrow> alert_row \<Rightarrow> bool" where
  "is_stale_alert now a \<longleftrightarrow> al_status a \<in> {PENDING, RETRYING}
     \<and> (case al_expires_at a of None \<Rightarrow> False | Some e \<Rightarrow> e \<le> now)"

definition expire_stale :: "int \<Rightarrow> 'x store_scheme \<Rightarrow> alert_row list \<times> 'x store_scheme" where
  "expire_stale now s =
     (map (\<lambda>a. a\<lparr>al_status := EXPIRED\<rparr>) (filter (is_stale_alert now) (alerts s)),
      s\<lparr>alerts := map (\<lambda>a. if is_stale_alert now a then a\<lparr>al_status := EXPIRED\<rparr> else a) (alerts s)\<rparr>)"

record status_summary =
  total_alerts :: nat
  sent_count :: nat
  pending_count :: nat
  failed_count :: nat
  last_alert_at :: "int option"

definition get_status_summary :: "'x store_scheme \<Rightarrow> status_summary" where
  "get_status_summary s =
     (let count = (\<lambda>P. length (filter P (alerts s))) in
      \<lparr>total_alerts = count (\<lambda>_. True),
       sent_count = count (\<lambda>a. al_status a = SENT),
       pending_count = count (\<lambda>a. al_status a \<in> {PENDING, RETRYING}),
       failed_count = count (\<lambda>a. al_status a = FAILED),
       last_alert_at = (if alerts s = [] then None else Some (Max (set (map al_created_at (alerts s)))))\<rparr>)"

section \<open>Event log and delivery log\<close>

definition log_event :: "int \<Rightarrow> string \<Rightarrow> metadata option \<Rightarrow> 'x store_scheme \<Rightarrow> 'x store_scheme" where
  "log_event alert_id event_type event_metadata s =
     s\<lparr>alert_events := alert_events s @
         [\<lparr>ev_id = next_event_id s, ev_alert_id = alert_id, ev_type = event_type,
           ev_timestamp = db_clock s, ev_metadata = event_metadata\<rparr>],
       next_event_id := next_event_id s + 1\<rparr>"

definition list_events_for_alert :: "int \<Rightarrow> 'x store_scheme \<Rightarrow> event_row list" where
  "list_events_for_alert i s = sort_key ev_timestamp (filter (\<lambda>e. ev_alert_id e = i) (alert_events s))"

definition log_attempt ::
  "int \<Rightarrow> string \<Rightarrow> string \<Rightarrow> int \<Rightarrow> metadata option \<Rightarrow> string option \<Rightarrow> 'x store_scheme \<Rightarrow> 'x store_scheme" where
  "log_attempt alert_id provider status attempt_number response_metadata error_message s =
     s\<lparr>delivery_logs := delivery_logs s @
         [\<lparr>dl_id = next_log_id s, dl_alert_id = alert_id, dl_provider = provider, dl_status = status,
           dl_attempt_number = attempt_number, dl_response_metadata = response_metadata,
           dl_error_message = error_message, dl_created_at = db_clock s\<rparr>],
       next_log_id := next_log_id s + 1\<rparr>"

definition get_latest_delivery :: "int \<Rightarrow> 'x store_scheme \<Rightarrow> delivery_row option" where
  "get_latest_delivery i s = newest_by dl_id (\<lambda>d. dl_alert_id d = i) (delivery_logs s)"

section \<open>Worker heartbeats\<close>

definition heartbeat_of :: "string \<Rightarrow> 'x store_scheme \<Rightarrow> heartbeat_row" where
  "heartbeat_of worker s =
     (case heartbeats s worker of
        None \<Rightarrow> \<lparr>hb_last_run_at = None, hb_last_success_at = None, hb_detail = None\<rparr>
      | Some row \<Rightarrow> row)"

definition ping_run :: "int \<Rightarrow> string \<Rightarrow> string option \<Rightarrow> 'x store_scheme \<Rightarrow> 'x store_scheme" where
  "ping_run now worker detail s =
     (let row = (heartbeat_of worker s)\<lparr>hb_last_run_at := Some now\<rparr>;
          row' = (case detail of None \<Rightarrow> row | Some d \<Rightarrow> row\<lparr>hb_detail := Some d\<rparr>)
      in s\<lparr>heartbeats := (heartbeats s)(worker \<mapsto> row')\<rparr>)"

definition ping_success :: "int \<Rightarrow> string \<Rightarrow> string option \<Rightarrow> 'x store_scheme \<Rightarrow> 'x store_scheme" where
  "ping_success now worker detail s =
     (let row = (heartbeat_of worker s)\<lparr>hb_last_run_at := Some now, hb_last_success_at := Some now\<rparr>;
          row' = (case detail of None \<Rightarrow> row | Some d \<Rightarrow> row\<lparr>hb_detail := Some d\<rparr>)
      in s\<lparr>heartbeats := (heartbeats s)(worker \<mapsto> row')\<rparr>)"

section \<open>Well-formed tables\<close>

text \<open>Primary keys grow with insertion, and events and deliveries refer to stored alerts.\<close>

definition alert_ids :: "'x store_scheme \<Rightarrow> int set" where
  "alert_ids s = set (map al_id (alerts s))"

definition store_wf :: "'x store_scheme \<Rightarrow> bool" where
  "store_wf s \<longleftrightarrow>
     sorted_wrt (<) (map al_id (alerts s)) \<and> (\<forall>i \<in> alert_ids s. i < next_alert_id s)
   \<and> (\<forall>d \<in> set (delivery_logs s). dl_id d < next_log_id s \<and> dl_alert_id d \<in> alert_ids s)
   \<and> (\<forall>e \<in> set (alert_events s). ev_id e < next_event_id s \<and> ev_alert_id e \<in> alert_ids s)"

lemma set_status_ids [simp]: "map al_id (set_status i st rows) = map al_id rows"
  by (induction rows) (auto simp: set_status_def)

lemma set_set_status_ids [simp]: "al_id ` set (set_status i st rows) = al_id ` set rows"
  by (metis set_status_ids list.set_map)

lemma alert_ids_simps [simp, db_simps]:
  "alert_ids (update_status i st s) = alert_ids s"
  "alert_ids (log_event i ty m s) = alert_ids s"
  "alert_ids (log_attempt i p dst n rm em s) = alert_ids s"
  "alert_ids (ping_run t w d s) = alert_ids s"
  "alert_ids (ping_success t w d s) = alert_ids s"
  "alert_ids (s\<lparr>queue := q\<rparr>) = alert_ids s"
  by (simp_all add: alert_ids_def update_status_def log_event_def log_attempt_def ping_run_def
      ping_success_def Let_def)

lemma log_event_simps [simp, db_simps]:
  "alerts (log_event i ty m s) = alerts s" "next_alert_id (log_event i ty m s) = next_alert_id s"
  "delivery_logs (log_event i ty m s) = delivery_logs s" "queue (log_event i ty m s) = queue s"
  "db_clock (log_event i ty m s) = db_clock s"
  by (simp_all add: log_event_def)

lemma log_attempt_simps [simp, db_simps]:
  "alerts (log_attempt i p st n rm em s) = alerts s"
  "next_alert_id (log_attempt i p st n rm em s) = next_alert_id s"
  "alert_events (log_attempt i p st n rm em s) = alert_events s"
  "queue (log_attempt i p st n rm em s) = queue s"
  "db_clock (log_attempt i p st n rm em s) = db_clock s"
  by (simp_all add: log_attempt_def)

lemma update_status_simps [simp, db_simps]:
  "alerts (update_status i st s) = set_status i st (alerts s)"
  "next_alert_id (update_status i st s) = next_alert_id s"
  "alert_events (update_status i st s) = alert_events s"
  "delivery_logs (update_status i st s) = delivery_logs s" "queue (update_status i st s) = queue s"
  by (simp_all add: update_status_def)

lemma ping_simps [simp, db_simps]:
  "alerts (ping_run t w d s) = alerts s" "alerts (ping_success t w d s) = alerts s"
  "next_alert_id (ping_run t w d s) = next_alert_id s"
  "next_alert_id (ping_success t w d s) = next_alert_id s"
  "alert_events (ping_run t w d s) = alert_events s" "alert_events (ping_success t w d s) = alert_events s"
  "queue (ping_run t w d s) = queue s" "queue (ping_success t w d s) = queue s"
  "db_clock (ping_run t w d s) = db_clock s" "db_clock (ping_success t w d s) = db_clock s"
  by (simp_all add: ping_run_def ping_success_def Let_def)

lemma create_alert_simps [db_simps]:
  "alerts (snd (create_alert args s)) = alerts s @ [fst (create_alert args s)]"
  "next_alert_id (snd (create_alert args s)) = next_alert_id s + 1"
  "alert_events (snd (create_alert args s)) = alert_events s"
  "delivery_logs (snd (create_alert args s)) = delivery_logs s"
  "next_event_id (snd (create_alert args s)) = next_event_id s"
  "next_log_id (snd (create_alert args s)) = next_log_id s"
  "queue (snd (create_alert args s)) = queue s"
  "db_clock (snd (create_alert args s)) = db_clock s"
  "al_status (fst (create_alert args s)) = PENDING"
  "alert_ids (snd (create_alert args s)) = insert (al_id (fst (create_alert args s))) (alert_ids s)"
  by (auto simp: create_alert_def Let_def alert_ids_def)

lemma store_wf_ids_below: "store_wf s \<Longrightarrow> a \<in> set (alerts s) \<Longrightarrow> al_id a < next_alert_id s"
  by (simp add: store_wf_def alert_ids_def)

lemma store_wf_create:
  assumes "store_wf s"
  shows "store_wf (snd (create_alert args s))"
proof -
  have "al_id (fst (create_alert args s)) = next_alert_id s" by (simp add: create_alert_def Let_def)
  with assms show ?thesis
    by (auto simp: store_wf_def create_alert_simps sorted_wrt_append store_wf_ids_below)
qed

lemma store_wf_log_event: "store_wf s \<Longrightarrow> i \<in> alert_ids s \<Longrightarrow> store_wf (log_event i ty m s)"
  by (auto simp: store_wf_def log_event_def alert_ids_def)

lemma store_wf_log_attempt: "store_wf s \<Longrightarrow> i \<in> alert_ids s \<Longrightarrow> store_wf (log_attempt i p st n rm em s)"
  by (auto simp: store_wf_def log_attempt_def alert_ids_def)

text \<open>Rewriting rows without touching keys keeps the tables well-formed.\<close>

lemma store_wf_rewrite:
  assumes "store_wf s" "\<And>a. al_id (f a) = al_id a"
  shows "store_wf (s\<lparr>alerts := map f (alerts s)\<rparr>)"
proof -
  have m: "map al_id (alerts (s\<lparr>alerts := map f (alerts s)\<rparr>)) = map al_id (alerts s)" using assms(2) by simp
  show ?thesis using assms(1) unfolding store_wf_def alert_ids_def m by simp
qed

lemma store_wf_update_status: "store_wf s \<Longrightarrow> store_wf (update_status i st s)"
  unfolding update_status_def set_status_def by (rule store_wf_rewrite) auto

lemma store_wf_queue: "store_wf s \<Longrightarrow> store_wf (s\<lparr>queue := q\<rparr>)"
  by (simp add: store_wf_def alert_ids_def)

lemma store_wf_pings: "store_wf s \<Longrightarrow> store_wf (ping_run t w d s)" "store_wf s \<Longrightarrow> store_wf (ping_success t w d s)"
  by (simp_all add: store_wf_def alert_ids_def ping_run_def ping_success_def Let_def)

lemma store_wf_expire: "store_wf s \<Longrightarrow> store_wf (snd (expire_stale now s))"
  unfolding expire_stale_def snd_conv by (rule store_wf_rewrite) auto

lemmas store_wf_intros = store_wf_create store_wf_log_event store_wf_log_attempt
  store_wf_update_status store_wf_queue store_wf_pings store_wf_expire

section \<open>Keyed logs\<close>

text \<open>
  What the deduplicator asks of the alerts table and the notification status of the delivery
  table: adding a row makes it the latest one for its key and leaves every other key alone.
\<close>

locale keyed_log =
  fixes inv :: "'s \<Rightarrow> bool"
    and add :: "'a \<Rightarrow> 's \<Rightarrow> 'r \<times> 's"
    and latest :: "'k \<Rightarrow> 's \<Rightarrow> 'r option"
    and key :: "'r \<Rightarrow> 'k"
  assumes latest_add: "inv s \<Longrightarrow> add a s = (r, s') \<Longrightarrow> latest k s' = (if key r = k then Some r else latest k s)"
begin

lemma latest_own: "inv s \<Longrightarrow> add a s = (r, s') \<Longrightarrow> latest (key r) s' = Some r"
  by (simp add: latest_add)

lemma latest_other: "inv s \<Longrightarrow> add a s = (r, s') \<Longrightarrow> key r \<noteq> k \<Longrightarrow> latest k s' = latest k s"
  by (simp add: latest_add)

end

interpretation alert_log: keyed_log store_wf create_alert get_by_fingerprint al_fingerprint
proof
  fix s s' :: "'x store_scheme" and args r k
  assume wf: "store_wf s" and "create_alert args s = (r, s')"
  then have s': "alerts s' = alerts s @ [r]" "al_id r = next_alert_id s"
    by (auto simp: create_alert_def Let_def)
  with wf have "\<forall>q \<in> set (alerts s). al_id q < al_id r" by (simp add: store_wf_ids_below)
  with s' show "get_by_fingerprint k s' = (if al_fingerprint r = k then Some r else get_by_fingerprint k s)"
    by (simp add: get_by_fingerprint_def newest_by_snoc)
qed

definition add_delivery ::
  "int \<times> string \<times> string \<times> int \<times> metadata option \<times> string option \<Rightarrow> 'x store_scheme \<Rightarrow> delivery_row \<times> 'x store_scheme" where
  "add_delivery a s =
     (case a of (i, p, st, n, rm, em) \<Rightarrow>
        let s' = log_attempt i p st n rm em s in (last (delivery_logs s'), s'))"

interpretation delivery_log: keyed_log store_wf add_delivery get_latest_delivery dl_alert_id
proof
  fix s s' :: "'x store_scheme" and a r k
  assume wf: "store_wf s" and "add_delivery a s = (r, s')"
  then have s': "delivery_logs s' = delivery_logs s @ [r]" "dl_id r = next_log_id s"
    by (auto simp: add_delivery_def log_attempt_def Let_def split: prod.splits)
  with wf have "\<forall>q \<in> set (delivery_logs s). dl_id q < dl_id r" by (simp add: store_wf_def)
  with s' show "get_latest_delivery k s' = (if dl_alert_id r = k then Some r else get_latest_delivery k s)"
    by (simp add: get_latest_delivery_def newest_by_snoc)
qed

text \<open>Rows with distinct keys: a lookup by key finds the row.\<close>

lemma find_unique_key:
  "distinct (map key rows) \<Longrightarrow> a \<in> set rows \<Longrightarrow> find (\<lambda>r. key r = key a) rows = Some a"
  by (induction rows) (auto simp: image_iff)

lemma store_wf_distinct: "store_wf s \<Longrightarrow> distinct (map al_id (alerts s))"
  by (auto simp: store_wf_def strict_sorted_iff)

lemma get_by_id_member: "store_wf s \<Longrightarrow> a \<in> set (alerts s) \<Longrightarrow> get_by_id (al_id a) s = Some a"
  unfolding get_by_id_def using find_unique_key [of al_id] store_wf_distinct by blast

lemma get_by_id_SomeD: "get_by_id i s = Some a \<Longrightarrow> a \<in> set (alerts s) \<and> al_id a = i"
  by (auto simp: get_by_id_def find_Some_iff)

lemma get_by_id_update:
  "get_by_id j (update_status i st s) =
     map_option (\<lambda>a. if j = i then a\<lparr>al_status := st\<rparr> else a) (get_by_id j s)"
proof -
  have "find (\<lambda>a. al_id a = j) (set_status i st rows) =
      map_option (\<lambda>a. if j = i then a\<lparr>al_status := st\<rparr> else a) (find (\<lambda>a. al_id a = j) rows)" for rows
    by (induction rows) (auto simp: set_status_def)
  then show ?thesis by (simp add: get_by_id_def)
qed

end
