(* ===== verification/Tables.thy ===== *)
theory Tables
  imports Prelude
begin

text \<open>
  Tables with a unique business key and the "select by key, insert if missing, assign the other
  columns" operation every \<open>upsert\<close> of the repositories follows. The locale states what the callers
  rely on; the repositories interpret it on their own tables.
\<close>

definition lookup_by :: "('r \<Rightarrow> 'k) \<Rightarrow> 'k \<Rightarrow> 'r list \<Rightarrow> 'r option" where
  "lookup_by key k rows = find (\<lambda>r. key r = k) rows"

definition upsert_by :: "('r \<Rightarrow> 'k) \<Rightarrow> 'k \<Rightarrow> 'r \<Rightarrow> ('r \<Rightarrow> 'r) \<Rightarrow> 'r list \<Rightarrow> 'r list" where
  "upsert_by key k fresh assign rows =
     (case lookup_by key k rows of
        None \<Rightarrow> rows @ [assign fresh]
      | Some _ \<Rightarrow> map (\<lambda>r. if key r = k then assign r else r) rows)"

lemma lookup_by_None_iff: "lookup_by key k rows = None \<longleftrightarrow> k \<notin> key ` set rows"
  by (auto simp: lookup_by_def find_None_iff)

lemma lookup_by_SomeD: "lookup_by key k rows = Some r \<Longrightarrow> r \<in> set rows \<and> key r = k"
  by (auto simp: lookup_by_def find_Some_iff)

lemma lookup_by_append:
  "lookup_by key k (rows @ [r]) =
     (case lookup_by key k rows of None \<Rightarrow> if key r = k then Some r else None | Some x \<Rightarrow> Some x)"
  by (induction rows) (auto simp: lookup_by_def)

lemma lookup_by_map:
  assumes "\<And>r. key (f r) = key r"
  shows "lookup_by key k (map f rows) = map_option f (lookup_by key k rows)"
  using assms by (induction rows) (auto simp: lookup_by_def)

lemma lookup_by_member: "distinct (map key rows) \<Longrightarrow> r \<in> set rows \<Longrightarrow> lookup_by key (key r) rows = Some r"
  by (induction rows) (auto simp: lookup_by_def image_iff)

lemma lookup_upsert:
  assumes "\<And>r. key (assign r) = key r" "key fresh = k"
  shows "lookup_by key j (upsert_by key k fresh assign rows) =
    (if k = j then Some (assign (case lookup_by key j rows of None \<Rightarrow> fresh | Some r \<Rightarrow> r))
     else lookup_by key j rows)"
proof (cases "lookup_by key k rows")
  case None
  with assms show ?thesis by (auto simp: upsert_by_def lookup_by_append split: option.split)
next
  case (Some x)
  let ?f = "\<lambda>r. if key r = k then assign r else r"
  have "lookup_by key j (map ?f rows) = map_option ?f (lookup_by key j rows)"
    by (rule lookup_by_map) (simp add: assms)
  with Some show ?thesis
    by (auto simp: upsert_by_def dest: lookup_by_SomeD split: option.split)
qed

lemma keys_upsert:
  assumes "\<And>r. key (assign r) = key r" "key fresh = k"
  shows "map key (upsert_by key k fresh assign rows) =
    (if k \<in> key ` set rows then map key rows else map key rows @ [k])"
  using lookup_by_None_iff [of key k rows] assms
  by (auto simp: upsert_by_def o_def if_distrib cong: if_cong split: option.splits)

section \<open>The contract of an upsert\<close>

locale upsert_table =
  fixes key :: "'r \<Rightarrow> 'k"
    and put :: "'v \<Rightarrow> 'r list \<Rightarrow> 'r list"
    and vkey :: "'v \<Rightarrow> 'k"
    and merge :: "'r option \<Rightarrow> 'v \<Rightarrow> 'r"
  assumes lookup_put: "lookup_by key k (put v rows) =
      (if vkey v = k then Some (merge (lookup_by key k rows) v) else lookup_by key k rows)"
    and keys_put: "map key (put v rows) =
      (if vkey v \<in> key ` set rows then map key rows else map key rows @ [vkey v])"
begin

lemma distinct_put: "distinct (map key rows) \<Longrightarrow> distinct (map key (put v rows))"
  by (simp add: keys_put)

lemma distinct_puts: "distinct (map key rows) \<Longrightarrow> distinct (map key (fold put vs rows))"
  by (induction vs arbitrary: rows) (simp_all add: distinct_put)

lemma key_set_put: "key ` set (put v rows) = insert (vkey v) (key ` set rows)"
proof -
  have "key ` set (put v rows) = set (map key (put v rows))" by simp
  also have "\<dots> = insert (vkey v) (key ` set rows)" unfolding keys_put by auto
  finally show ?thesis .
qed

lemma key_set_puts: "key ` set (fold put vs rows) = key ` set rows \<union> vkey ` set vs"
  by (induction vs arbitrary: rows) (auto simp: key_set_put)

lemma lookup_puts_other: "k \<notin> vkey ` set vs \<Longrightarrow> lookup_by key k (fold put vs rows) = lookup_by key k rows"
  by (induction vs arbitrary: rows) (auto simp: lookup_put)

text \<open>Within a batch the last value for a key wins, when the assignment covers every column but the key.\<close>

lemma lookup_puts_last:
  assumes "\<And>r r' v. merge r v = merge r' v" "k = vkey (last (filter (\<lambda>v. vkey v = k) vs))"
    and "filter (\<lambda>v. vkey v = k) vs \<noteq> []"
  shows "lookup_by key k (fold put vs rows) = Some (merge None (last (filter (\<lambda>v. vkey v = k) vs)))"
  using assms(2,3)
proof (induction vs rule: rev_induct)
  case (snoc v vs)
  show ?case
  proof (cases "vkey v = k")
    case True
    then show ?thesis using assms(1) by (simp add: lookup_put)
  next
    case False
    with snoc show ?thesis by (simp add: lookup_put)
  qed
qed simp

end

end
