(* ===== verification/Market_Store.thy ===== *)
theory Market_Store
  imports Alert_Store Tables
begin

text \<open>
  The market tables and their repositories (app/models/symbol.py, daily_price.py,
  intraday_price.py, market_status.py, collector_log.py, market_data_feed_log.py and
  app/repositories/market_repository.py). A bar's timestamp is its UTC instant. Primary keys of
  price rows, which nothing reads, and timestamps of row changes are left out. A query with a
  naive datetime bound takes the zone in which the driver reads it as an argument; so do the
  queries that read the host's date, with the date.
\<close>

section \<open>Rows\<close>

record symbol_row =
  sy_id :: int
  sy_symbol :: string
  sy_exchange :: string
  sy_instrument_token :: string
  sy_company_name :: "string option"
  sy_sector :: "string option"
  sy_industry :: "string option"
  sy_listing_date :: "int option"
  sy_is_ipo :: bool
  sy_is_active :: bool

record provider_symbol =
  ps_symbol :: string
  ps_exchange :: string
  ps_instrument_token :: string
  ps_company_name :: "string option"
  ps_sector :: "string option"
  ps_industry :: "string option"
  ps_listing_date :: "int option"
  ps_isin :: "string option"

record candle =
  cn_timestamp :: int
  cn_open :: rat
  cn_high :: rat
  cn_low :: rat
  cn_close :: rat
  cn_volume :: int
  cn_vwap :: "rat option"

record daily_price =
  dp_symbol_id :: int
  dp_date :: int
  dp_open :: rat
  dp_high :: rat
  dp_low :: rat
  dp_close :: rat
  dp_volume :: int
  dp_vwap :: "rat option"

record intraday_price =
  ip_symbol_id :: int
  ip_datetime :: int
  ip_open :: rat
  ip_high :: rat
  ip_low :: rat
  ip_close :: rat
  ip_volume :: int
  ip_vwap :: "rat option"

record market_status =
  mk_open :: bool
  mk_connected :: bool
  mk_last_update :: "int option"
  mk_last_success :: "int option"
  mk_last_failure :: "int option"

record collector_log =
  cl_id :: int
  cl_start_time :: int
  cl_finish_time :: "int option"
  cl_duration :: "rat option"
  cl_symbols_processed :: nat
  cl_success_count :: nat
  cl_failed_count :: nat
  cl_error_message :: "msg option"

record feed_log =
  fl_id :: int
  fl_connected_at :: int
  fl_disconnected_at :: "int option"
  fl_messages_received :: nat
  fl_ticks_processed :: nat
  fl_duplicates_dropped :: nat
  fl_candles_flushed :: nat
  fl_disconnect_reason :: "string option"

record market_store = store +
  symbols :: "symbol_row list"
  next_symbol_id :: int
  daily_prices :: "daily_price list"
  intraday_prices :: "intraday_price list"
  market_state :: "market_status option"
  collector_logs :: "collector_log list"
  next_collector_id :: int
  feed_logs :: "feed_log list"
  next_feed_id :: int

section \<open>Symbols\<close>

definition get_by_symbol :: "string \<Rightarrow> string option \<Rightarrow> ('x market_store_scheme) \<Rightarrow> symbol_row option" where
  "get_by_symbol symbol exchange s =
     find (\<lambda>r. sy_symbol r = symbol \<and> (case exchange of None \<Rightarrow> True | Some e \<Rightarrow> sy_exchange r = e)) (symbols s)"

definition symbol_by_id :: "int \<Rightarrow> 'x market_store_scheme \<Rightarrow> symbol_row option" where
  "symbol_by_id i s = lookup_by sy_id i (symbols s)"

definition list_by_ids :: "int list \<Rightarrow> 'x market_store_scheme \<Rightarrow> symbol_row list" where
  "list_by_ids ids s = (if ids = [] then [] else filter (\<lambda>r. sy_id r \<in> set ids) (symbols s))"

text \<open>\<open>ORDER BY\<close> a string column, compared by code point.\<close>

fun string_le :: "string \<Rightarrow> string \<Rightarrow> bool" where
  "string_le [] _ = True"
| "string_le (_ # _) [] = False"
| "string_le (a # as) (b # bs) =
     (let x = (of_char a :: nat); y = of_char b in if x = y then string_le as bs else x < y)"

fun insort_str :: "('r \<Rightarrow> string) \<Rightarrow> 'r \<Rightarrow> 'r list \<Rightarrow> 'r list" where
  "insort_str f x [] = [x]"
| "insort_str f x (y # ys) = (if string_le (f x) (f y) then x # y # ys else y # insort_str f x ys)"

definition sort_str :: "('r \<Rightarrow> string) \<Rightarrow> 'r list \<Rightarrow> 'r list" where
  "sort_str f xs = foldr (insort_str f) xs []"

lemma set_insort_str [simp]: "set (insort_str f x ys) = insert x (set ys)"
  by (induction ys) auto

lemma set_sort_str [simp]: "set (sort_str f xs) = set xs"
  by (induction xs) (simp_all add: sort_str_def)

definition list_active :: "'x market_store_scheme \<Rightarrow> symbol_row list" where
  "list_active s = sort_str sy_symbol (filter sy_is_active (symbols s))"

definition get_by_instrument_tokens ::
  "string list \<Rightarrow> 'x market_store_scheme \<Rightarrow> (string \<rightharpoonup> symbol_row)" where
  "get_by_instrument_tokens tokens s =
     (if tokens = [] then Map.empty
      else foldl (\<lambda>m r. m(sy_instrument_token r \<mapsto> r)) Map.empty
             (filter (\<lambda>r. sy_instrument_token r \<in> set tokens) (symbols s)))"

definition new_symbol :: "int \<Rightarrow> provider_symbol \<Rightarrow> symbol_row" where
  "new_symbol i p =
     \<lparr>sy_id = i, sy_symbol = ps_symbol p, sy_exchange = ps_exchange p, sy_instrument_token = [],
      sy_company_name = None, sy_sector = None, sy_industry = None, sy_listing_date = None,
      sy_is_ipo = False, sy_is_active = True\<rparr>"

definition assign_symbol :: "provider_symbol \<Rightarrow> symbol_row \<Rightarrow> symbol_row" where
  "assign_symbol p r =
     r\<lparr>sy_exchange := ps_exchange p, sy_instrument_token := ps_instrument_token p,
       sy_company_name := ps_company_name p, sy_sector := ps_sector p, sy_industry := ps_industry p,
       sy_listing_date := ps_listing_date p, sy_is_active := True\<rparr>"

definition put_symbol :: "int \<times> provider_symbol \<Rightarrow> symbol_row list \<Rightarrow> symbol_row list" where
  "put_symbol v rows =
     upsert_by sy_symbol (ps_symbol (snd v)) (new_symbol (fst v) (snd v)) (assign_symbol (snd v)) rows"

definition upsert_symbol :: "provider_symbol \<Rightarrow> 'x market_store_scheme \<Rightarrow> 'x market_store_scheme" where
  "upsert_symbol p s =
     s\<lparr>symbols := put_symbol (next_symbol_id s, p) (symbols s),
       next_symbol_id := (if lookup_by sy_symbol (ps_symbol p) (symbols s) = None then next_symbol_id s + 1
                          else next_symbol_id s)\<rparr>"

definition upsert_symbols :: "provider_symbol list \<Rightarrow> 'x market_store_scheme \<Rightarrow> nat \<times> 'x market_store_scheme" where
  "upsert_symbols ps s = (length ps, fold upsert_symbol ps s)"

definition deactivate_missing ::
  "string list \<Rightarrow> 'x market_store_scheme \<Rightarrow> string list \<times> 'x market_store_scheme" where
  "deactivate_missing current_symbols s =
     (map sy_symbol (filter (\<lambda>r. sy_symbol r \<notin> set current_symbols) (list_active s)),
      s\<lparr>symbols := map (\<lambda>r. if sy_is_active r \<and> sy_symbol r \<notin> set current_symbols
                             then r\<lparr>sy_is_active := False\<rparr> else r) (symbols s)\<rparr>)"

interpretation symbol_table: upsert_table sy_symbol put_symbol "\<lambda>v. ps_symbol (snd v)"
    "\<lambda>r v. assign_symbol (snd v) (case r of None \<Rightarrow> new_symbol (fst v) (snd v) | Some r \<Rightarrow> r)"
  by unfold_locales
    (simp_all only: put_symbol_def, (subst lookup_upsert keys_upsert; simp add: assign_symbol_def new_symbol_def)+)

section \<open>Prices\<close>

definition daily_key :: "daily_price \<Rightarrow> int \<times> int" where
  "daily_key r = (dp_symbol_id r, dp_date r)"

definition daily_of :: "int \<Rightarrow> int \<Rightarrow> candle \<Rightarrow> daily_price" where
  "daily_of i d c =
     \<lparr>dp_symbol_id = i, dp_date = d, dp_open = cn_open c, dp_high = cn_high c, dp_low = cn_low c,
      dp_close = cn_close c, dp_volume = cn_volume c, dp_vwap = cn_vwap c\<rparr>"

definition assign_daily :: "candle \<Rightarrow> daily_price \<Rightarrow> daily_price" where
  "assign_daily c r =
     r\<lparr>dp_open := cn_open c, dp_high := cn_high c, dp_low := cn_low c, dp_close := cn_close c,
       dp_volume := cn_volume c, dp_vwap := cn_vwap c\<rparr>"

definition put_daily :: "settings \<Rightarrow> int \<times> candle \<Rightarrow> daily_price list \<Rightarrow> daily_price list" where
  "put_daily cfg v rows =
     (let i = fst v; c = snd v; trading_date = market_date_of cfg (utc_dt (cn_timestamp c)) None
      in upsert_by daily_key (i, trading_date) (daily_of i trading_date c) (assign_daily c) rows)"

definition upsert_daily_many ::
  "settings \<Rightarrow> int \<Rightarrow> candle list \<Rightarrow> 'x market_store_scheme \<Rightarrow> nat \<times> 'x market_store_scheme" where
  "upsert_daily_many cfg symbol_id candles s =
     (length candles,
      s\<lparr>daily_prices := fold (put_daily cfg) (map (Pair symbol_id) candles) (daily_prices s)\<rparr>)"

definition bar_date :: "settings \<Rightarrow> int \<times> candle \<Rightarrow> int \<times> int" where
  "bar_date cfg v = (fst v, market_date_of cfg (utc_dt (cn_timestamp (snd v))) None)"

interpretation daily_table: upsert_table daily_key "put_daily cfg" "bar_date cfg"
    "\<lambda>r v. daily_of (fst v) (snd (bar_date cfg v)) (snd v)" for cfg
proof
  fix v :: "int \<times> candle" and k rows
  let ?k = "bar_date cfg v"
  have p: "put_daily cfg v rows = upsert_by daily_key ?k (daily_of (fst v) (snd ?k) (snd v)) (assign_daily (snd v)) rows"
    by (simp add: put_daily_def bar_date_def Let_def)
  have fr: "daily_key (daily_of (fst v) (snd ?k) (snd v)) = ?k"
    by (simp add: daily_key_def daily_of_def bar_date_def)
  have as: "daily_key (assign_daily c r) = daily_key r" for c r by (simp add: daily_key_def assign_daily_def)
  show "map daily_key (put_daily cfg v rows) =
      (if ?k \<in> daily_key ` set rows then map daily_key rows else map daily_key rows @ [?k])"
    unfolding p by (rule keys_upsert [OF as fr])
  have "assign_daily (snd v) r = daily_of (fst v) (snd ?k) (snd v)" if "daily_key r = ?k" for r
    using that by (auto simp: daily_key_def assign_daily_def daily_of_def bar_date_def)
  then show "lookup_by daily_key k (put_daily cfg v rows) =
      (if ?k = k then Some (daily_of (fst v) (snd ?k) (snd v)) else lookup_by daily_key k rows)"
    unfolding p lookup_upsert [OF as fr]
    by (auto dest!: lookup_by_SomeD simp: fr split: option.split)
qed

definition intraday_key :: "intraday_price \<Rightarrow> int \<times> int" where
  "intraday_key r = (ip_symbol_id r, ip_datetime r)"

definition intraday_of :: "int \<Rightarrow> candle \<Rightarrow> intraday_price" where
  "intraday_of i c =
     \<lparr>ip_symbol_id = i, ip_datetime = cn_timestamp c, ip_open = cn_open c, ip_high = cn_high c,
      ip_low = cn_low c, ip_close = cn_close c, ip_volume = cn_volume c, ip_vwap = cn_vwap c\<rparr>"

definition assign_intraday :: "candle \<Rightarrow> intraday_price \<Rightarrow> intraday_price" where
  "assign_intraday c r =
     r\<lparr>ip_open := cn_open c, ip_high := cn_high c, ip_low := cn_low c, ip_close := cn_close c,
       ip_volume := cn_volume c, ip_vwap := cn_vwap c\<rparr>"

definition put_intraday :: "int \<times> candle \<Rightarrow> intraday_price list \<Rightarrow> intraday_price list" where
  "put_intraday v rows =
     upsert_by intraday_key (fst v, cn_timestamp (snd v)) (intraday_of (fst v) (snd v)) (assign_intraday (snd v)) rows"

definition upsert_intraday_many ::
  "int \<Rightarrow> candle list \<Rightarrow> 'x market_store_scheme \<Rightarrow> nat \<times> 'x market_store_scheme" where
  "upsert_intraday_many symbol_id candles s =
     (length candles,
      s\<lparr>intraday_prices := fold put_intraday (map (Pair symbol_id) candles) (intraday_prices s)\<rparr>)"

interpretation intraday_table: upsert_table intraday_key put_intraday "\<lambda>v. (fst v, cn_timestamp (snd v))"
    "\<lambda>r v. intraday_of (fst v) (snd v)"
proof
  fix v :: "int \<times> candle" and k rows
  let ?k = "(fst v, cn_timestamp (snd v))"
  have fr: "intraday_key (intraday_of (fst v) (snd v)) = ?k"
    by (simp add: intraday_key_def intraday_of_def)
  have as: "intraday_key (assign_intraday c r) = intraday_key r" for c r
    by (simp add: intraday_key_def assign_intraday_def)
  show "map intraday_key (put_intraday v rows) =
      (if ?k \<in> intraday_key ` set rows then map intraday_key rows else map intraday_key rows @ [?k])"
    unfolding put_intraday_def by (rule keys_upsert [OF as fr])
  have "assign_intraday (snd v) r = intraday_of (fst v) (snd v)" if "intraday_key r = ?k" for r
    using that by (auto simp: intraday_key_def assign_intraday_def intraday_of_def)
  then show "lookup_by intraday_key k (put_intraday v rows) =
      (if ?k = k then Some (intraday_of (fst v) (snd v)) else lookup_by intraday_key k rows)"
    unfolding put_intraday_def lookup_upsert [OF as fr]
    by (auto dest!: lookup_by_SomeD simp: fr split: option.split)
qed

text \<open>Queries on prices. \<open>row_number() OVER (PARTITION BY symbol ORDER BY date DESC)\<close> is the
  position in the symbol's history, newest first.\<close>

definition get_latest_intraday :: "int \<Rightarrow> 'x market_store_scheme \<Rightarrow> intraday_price option" where
  "get_latest_intraday i s = newest_by ip_datetime (\<lambda>r. ip_symbol_id r = i) (intraday_prices s)"

definition get_latest_daily :: "int \<Rightarrow> 'x market_store_scheme \<Rightarrow> daily_price option" where
  "get_latest_daily i s = newest_by dp_date (\<lambda>r. dp_symbol_id r = i) (daily_prices s)"

definition daily_newest_first :: "int \<Rightarrow> 'x market_store_scheme \<Rightarrow> daily_price list" where
  "daily_newest_first i s = sort_key (\<lambda>r. - dp_date r) (filter (\<lambda>r. dp_symbol_id r = i) (daily_prices s))"

definition get_daily_bulk_at_rank ::
  "int list \<Rightarrow> nat \<Rightarrow> 'x market_store_scheme \<Rightarrow> (int \<rightharpoonup> daily_price)" where
  "get_daily_bulk_at_rank ids rank s =
     (\<lambda>i. if i \<in> set ids \<and> 1 \<le> rank \<and> rank \<le> length (daily_newest_first i s)
          then Some (daily_newest_first i s ! (rank - 1)) else None)"

definition get_latest_daily_bulk :: "int list \<Rightarrow> 'x market_store_scheme \<Rightarrow> (int \<rightharpoonup> daily_price)" where
  "get_latest_daily_bulk ids s = get_daily_bulk_at_rank ids 1 s"

definition get_daily_history :: "int \<Rightarrow> nat \<Rightarrow> 'x market_store_scheme \<Rightarrow> daily_price list" where
  "get_daily_history i limit s = rev (take limit (daily_newest_first i s))"

definition window_rows :: "int \<Rightarrow> int \<Rightarrow> 'x market_store_scheme \<Rightarrow> daily_price list" where
  "window_rows host_today i s =
     filter (\<lambda>r. dp_symbol_id r = i \<and> dp_date r \<ge> host_today - 365) (daily_prices s)"

definition get_52_week_high_low :: "int \<Rightarrow> int \<Rightarrow> 'x market_store_scheme \<Rightarrow> (rat \<times> rat) option" where
  "get_52_week_high_low host_today i s =
     (let rows = window_rows host_today i s
      in if rows = [] then None
         else Some (Max (set (map dp_high rows)), Min (set (map dp_low rows))))"

definition get_52_week_high_low_bulk ::
  "int \<Rightarrow> int list \<Rightarrow> 'x market_store_scheme \<Rightarrow> (int \<rightharpoonup> rat \<times> rat)" where
  "get_52_week_high_low_bulk host_today ids s =
     (\<lambda>i. if i \<in> set ids then get_52_week_high_low host_today i s else None)"

text \<open>The day \<open>[00:00, 23:59:59.999999)\<close> of a naive datetime, as instants.\<close>

definition naive_day :: "timezone \<Rightarrow> int \<Rightarrow> int \<times> int" where
  "naive_day zone day =
     (let start = (day - epoch_ord) * day_us; stop = start + day_us - 1
      in (start - wall_off zone start, stop - wall_off zone stop))"

definition in_naive_day :: "timezone \<Rightarrow> int \<Rightarrow> int \<Rightarrow> bool" where
  "in_naive_day zone day t \<longleftrightarrow> fst (naive_day zone day) \<le> t \<and> t < snd (naive_day zone day)"

definition list_symbol_ids_with_intraday_on ::
  "timezone \<Rightarrow> int list \<Rightarrow> int \<Rightarrow> 'x market_store_scheme \<Rightarrow> int list" where
  "list_symbol_ids_with_intraday_on zone ids day s =
     remdups (map ip_symbol_id
       (filter (\<lambda>r. ip_symbol_id r \<in> set ids \<and> in_naive_day zone day (ip_datetime r)) (intraday_prices s)))"

definition get_intraday_for_date ::
  "timezone \<Rightarrow> int \<Rightarrow> int \<Rightarrow> 'x market_store_scheme \<Rightarrow> intraday_price list" where
  "get_intraday_for_date zone i day s =
     sort_key ip_datetime
       (filter (\<lambda>r. ip_symbol_id r = i \<and> in_naive_day zone day (ip_datetime r)) (intraday_prices s))"

definition active_ids :: "'x market_store_scheme \<Rightarrow> int list" where
  "active_ids s = map sy_id (filter sy_is_active (symbols s))"

definition get_latest_date_across_active_symbols :: "'x market_store_scheme \<Rightarrow> int option" where
  "get_latest_date_across_active_symbols s =
     (let ds = map dp_date (filter (\<lambda>r. dp_symbol_id r \<in> set (active_ids s)) (daily_prices s))
      in if ds = [] then None else Some (Max (set ds)))"

definition get_latest_intraday_timestamp_across_active_symbols :: "'x market_store_scheme \<Rightarrow> int option" where
  "get_latest_intraday_timestamp_across_active_symbols s =
     (let ts = map ip_datetime (filter (\<lambda>r. ip_symbol_id r \<in> set (active_ids s)) (intraday_prices s))
      in if ts = [] then None else Some (Max (set ts)))"

definition get_intraday_at_or_after :: "int \<Rightarrow> int \<Rightarrow> 'x market_store_scheme \<Rightarrow> intraday_price option" where
  "get_intraday_at_or_after i moment s =
     newest_by (\<lambda>r. - ip_datetime r) (\<lambda>r. ip_symbol_id r = i \<and> moment \<le> ip_datetime r) (intraday_prices s)"

definition get_daily_at_or_after :: "int \<Rightarrow> int \<Rightarrow> 'x market_store_scheme \<Rightarrow> daily_price option" where
  "get_daily_at_or_after i day s =
     newest_by (\<lambda>r. - dp_date r) (\<lambda>r. dp_symbol_id r = i \<and> day \<le> dp_date r) (daily_prices s)"

section \<open>Market status and logs\<close>

definition overwrite :: "'a option \<Rightarrow> 'a \<Rightarrow> 'a" where
  "overwrite new old = (case new of None \<Rightarrow> old | Some v \<Rightarrow> v)"

definition upsert_market_status ::
  "bool option \<Rightarrow> bool option \<Rightarrow> int option \<Rightarrow> int option \<Rightarrow> int option
     \<Rightarrow> 'x market_store_scheme \<Rightarrow> 'x market_store_scheme" where
  "upsert_market_status market_open linked last_update last_success last_failure s =
     (let row = (case market_state s of
                   None \<Rightarrow> \<lparr>mk_open = False, mk_connected = False, mk_last_update = None,
                            mk_last_success = None, mk_last_failure = None\<rparr>
                 | Some r \<Rightarrow> r)
      in s\<lparr>market_state := Some
           \<lparr>mk_open = overwrite market_open (mk_open row),
            mk_connected = overwrite linked (mk_connected row),
            mk_last_update = (if last_update = None then mk_last_update row else last_update),
            mk_last_success = (if last_success = None then mk_last_success row else last_success),
            mk_last_failure = (if last_failure = None then mk_last_failure row else last_failure)\<rparr>\<rparr>)"

definition collector_start :: "int \<Rightarrow> 'x market_store_scheme \<Rightarrow> int \<times> 'x market_store_scheme" where
  "collector_start start_time s =
     (next_collector_id s,
      s\<lparr>collector_logs := collector_logs s @
          [\<lparr>cl_id = next_collector_id s, cl_start_time = start_time, cl_finish_time = None, cl_duration = None,
            cl_symbols_processed = 0, cl_success_count = 0, cl_failed_count = 0, cl_error_message = None\<rparr>],
        next_collector_id := next_collector_id s + 1\<rparr>)"

definition collector_finish ::
  "int \<Rightarrow> int \<Rightarrow> nat \<Rightarrow> nat \<Rightarrow> nat \<Rightarrow> msg option \<Rightarrow> 'x market_store_scheme \<Rightarrow> 'x market_store_scheme" where
  "collector_finish i finish_time processed succeeded failed err s =
     s\<lparr>collector_logs := map (\<lambda>r. if cl_id r = i then
          r\<lparr>cl_finish_time := Some finish_time,
            cl_duration := Some (of_int (finish_time - cl_start_time r) / 1000000),
            cl_symbols_processed := processed, cl_success_count := succeeded, cl_failed_count := failed,
            cl_error_message := err\<rparr> else r) (collector_logs s)\<rparr>"

definition feed_open :: "int \<Rightarrow> 'x market_store_scheme \<Rightarrow> int \<times> 'x market_store_scheme" where
  "feed_open connected_at s =
     (next_feed_id s,
      s\<lparr>feed_logs := feed_logs s @
          [\<lparr>fl_id = next_feed_id s, fl_connected_at = connected_at, fl_disconnected_at = None,
            fl_messages_received = 0, fl_ticks_processed = 0, fl_duplicates_dropped = 0,
            fl_candles_flushed = 0, fl_disconnect_reason = None\<rparr>],
        next_feed_id := next_feed_id s + 1\<rparr>)"

definition feed_close ::
  "int \<Rightarrow> int \<Rightarrow> nat \<Rightarrow> nat \<Rightarrow> nat \<Rightarrow> nat \<Rightarrow> string option \<Rightarrow> 'x market_store_scheme \<Rightarrow> 'x market_store_scheme" where
  "feed_close i disconnected_at messages ticks duplicates flushed cause s =
     s\<lparr>feed_logs := map (\<lambda>r. if fl_id r = i then
          r\<lparr>fl_disconnected_at := Some disconnected_at, fl_messages_received := messages,
            fl_ticks_processed := ticks, fl_duplicates_dropped := duplicates, fl_candles_flushed := flushed,
            fl_disconnect_reason := cause\<rparr> else r) (feed_logs s)\<rparr>"

section \<open>What a batch of bars leaves behind\<close>

lemma filter_pairs: "filter (\<lambda>v. bar_date cfg v = (i, d)) (map (Pair i) cs)
    = map (Pair i) (filter (\<lambda>c. bar_date cfg (i, c) = (i, d)) cs)"
  by (induction cs) auto

text \<open>Storing a batch of daily bars keeps one row per symbol and market date; a date of the batch ends
  with the last bar the batch has for it, and every other row, of this symbol or another, is unchanged.\<close>

theorem daily_batch_last_wins:
  assumes "distinct (map daily_key (daily_prices s))"
  shows "let t = snd (upsert_daily_many cfg i cs s);
             on = (\<lambda>d. filter (\<lambda>c. bar_date cfg (i, c) = (i, d)) cs)
         in distinct (map daily_key (daily_prices t))
          \<and> (\<forall>j d. lookup_by daily_key (j, d) (daily_prices t) =
                (if j = i \<and> on d \<noteq> [] then Some (daily_of i d (last (on d)))
                 else lookup_by daily_key (j, d) (daily_prices s)))"
proof -
  let ?t = "snd (upsert_daily_many cfg i cs s)"
  let ?on = "\<lambda>d. filter (\<lambda>c. bar_date cfg (i, c) = (i, d)) cs"
  have t: "daily_prices ?t = fold (put_daily cfg) (map (Pair i) cs) (daily_prices s)"
    by (simp add: upsert_daily_many_def)
  have "lookup_by daily_key (i, d) (daily_prices ?t) = Some (daily_of i d (last (?on d)))" if "?on d \<noteq> []" for d
  proof -
    have l: "last (map (Pair i) (?on d)) = (i, last (?on d))" using that by (simp add: last_map)
    have "last (?on d) \<in> set (?on d)" using that by (rule last_in_set)
    then have b: "bar_date cfg (i, last (?on d)) = (i, d)" by simp
    show ?thesis
      unfolding t using daily_table.lookup_puts_last [where k = "(i, d)" and vs = "map (Pair i) cs" and cfg = cfg and rows = "daily_prices s"]
      using that b unfolding filter_pairs l by simp
  qed
  moreover have "lookup_by daily_key (j, d) (daily_prices ?t) = lookup_by daily_key (j, d) (daily_prices s)"
    if "\<not> (j = i \<and> ?on d \<noteq> [])" for j d
    unfolding t using that by (intro daily_table.lookup_puts_other) (auto simp: filter_empty_conv bar_date_def)
  ultimately show ?thesis
    using daily_table.distinct_puts [OF assms] by (simp add: t Let_def)
qed

definition empty_market :: "int \<Rightarrow> market_store" where
  "empty_market t =
     \<lparr>alerts = [], next_alert_id = 1, alert_events = [], next_event_id = 1, delivery_logs = [],
      next_log_id = 1, heartbeats = Map.empty, db_clock = t, queue = empty_queue, symbols = [],
      next_symbol_id = 1, daily_prices = [], intraday_prices = [], market_state = None,
      collector_logs = [], next_collector_id = 1, feed_logs = [], next_feed_id = 1\<rparr>"

theorem daily_batch_last_wins_witness:
  "distinct (map daily_key (daily_prices (snd (upsert_daily_many default_settings 1
     [\<lparr>cn_timestamp = 0, cn_open = 1, cn_high = 2, cn_low = 1, cn_close = 2, cn_volume = 10, cn_vwap = None\<rparr>,
      \<lparr>cn_timestamp = 1, cn_open = 1, cn_high = 3, cn_low = 1, cn_close = 3, cn_volume = 20, cn_vwap = None\<rparr>]
     (empty_market 0)))))"
  using daily_batch_last_wins [of "empty_market 0" default_settings 1
     "[\<lparr>cn_timestamp = 0, cn_open = 1, cn_high = 2, cn_low = 1, cn_close = 2, cn_volume = 10, cn_vwap = None\<rparr>,
      \<lparr>cn_timestamp = 1, cn_open = 1, cn_high = 3, cn_low = 1, cn_close = 3, cn_volume = 20, cn_vwap = None\<rparr>]"]
  by (simp add: empty_market_def Let_def)

text \<open>The symbol master never holds a symbol twice: after any refresh each listed symbol has exactly one
  row, whatever spelling of the exchange the provider uses, and every symbol of the refresh is active.\<close>

theorem symbol_refresh_unique:
  assumes "distinct (map sy_symbol (symbols s))"
  shows "distinct (map sy_symbol (symbols (snd (upsert_symbols ps s))))
     \<and> sy_symbol ` set (symbols (snd (upsert_symbols ps s))) = sy_symbol ` set (symbols s) \<union> ps_symbol ` set ps
     \<and> (\<forall>r \<in> set (symbols (snd (upsert_symbols ps s))). sy_symbol r \<in> ps_symbol ` set ps \<longrightarrow> sy_is_active r)"
proof -
  have step: "symbols (upsert_symbol p u) = put_symbol (next_symbol_id u, p) (symbols u)"
    for p and u :: "'a market_store_scheme" by (simp add: upsert_symbol_def)
  have "distinct (map sy_symbol (symbols (fold upsert_symbol ps s)))
     \<and> sy_symbol ` set (symbols (fold upsert_symbol ps s)) = sy_symbol ` set (symbols s) \<union> ps_symbol ` set ps
     \<and> (\<forall>k. k \<in> ps_symbol ` set ps \<longrightarrow>
          (\<exists>r. lookup_by sy_symbol k (symbols (fold upsert_symbol ps s)) = Some r \<and> sy_is_active r))"
    using assms
  proof (induction ps rule: rev_induct)
    case (snoc p ps)
    then show ?case
      using symbol_table.distinct_put symbol_table.key_set_put symbol_table.lookup_put
      by (auto simp: step assign_symbol_def)
  qed simp
  then show ?thesis unfolding upsert_symbols_def snd_conv
    using lookup_by_member by fastforce
qed

definition sample_listing :: "string \<Rightarrow> provider_symbol" where
  "sample_listing exchange =
     \<lparr>ps_symbol = ''INFY'', ps_exchange = exchange, ps_instrument_token = ''1'', ps_company_name = None,
      ps_sector = None, ps_industry = None, ps_listing_date = None, ps_isin = None\<rparr>"

theorem symbol_refresh_unique_witness:
  "distinct (map sy_symbol (symbols (snd (upsert_symbols [sample_listing ''N'', sample_listing ''NSE''] (empty_market 0)))))"
  using symbol_refresh_unique [of "empty_market 0" "[sample_listing ''N'', sample_listing ''NSE'']"]
  by (simp add: empty_market_def)

end
