(* ===== verification/Decision_Rules.thy ===== *)
theory Decision_Rules
  imports Market_Clock "HOL-Library.Multiset"
begin

text \<open>
  The stateless decision layer: app/decision/models.py, validator.py, rules.py and evaluator.py.
  Eight rules look at one scanner candidate and each returns a structured result; the evaluator
  collects them into an ALERT, WATCH or REJECT verdict. The host's clock and the process-wide
  settings some calls read are in the record \<open>runtime\<close>, together with two library functions that
  are not modelled: the SHA-256 digest and \<open>repr\<close> of numbers and containers.
\<close>

record runtime =
  clock :: int
  app_settings :: settings
  sha256_hex :: "string \<Rightarrow> string"
  py_repr :: "pyval \<Rightarrow> string"

section \<open>Domain types (models.py)\<close>

datatype decision = D_ALERT | D_WATCH | D_REJECT

fun decision_value :: "decision \<Rightarrow> string" where
  "decision_value D_ALERT = ''ALERT''"
| "decision_value D_WATCH = ''WATCH''"
| "decision_value D_REJECT = ''REJECT''"

datatype quality = HIGH | MEDIUM | LOW

fun quality_value :: "quality \<Rightarrow> string" where
  "quality_value HIGH = ''HIGH''"
| "quality_value MEDIUM = ''MEDIUM''"
| "quality_value LOW = ''LOW''"

datatype rule_status = PASS | FAIL | WARNING

text \<open>\<open>scanner_name.split("_v")[0].upper()\<close>, for ASCII names.\<close>

fun before_v :: "string \<Rightarrow> string" where
  "before_v (a # b # cs) = (if a = CHR ''_'' \<and> b = CHR ''v'' then [] else a # before_v (b # cs))"
| "before_v cs = cs"

definition upper_char :: "char \<Rightarrow> char" where
  "upper_char c = (let n = (of_char c :: nat) in if 97 \<le> n \<and> n \<le> 122 then char_of (n - 32) else c)"

definition derive_signal_type :: "string \<Rightarrow> string" where
  "derive_signal_type scanner_name = map upper_char (before_v scanner_name)"

record decision_candidate =
  dc_symbol :: string
  dc_scanner_name :: string
  dc_signal_type :: string
  dc_score :: rat
  dc_scan_date :: int
  dc_feature_snapshot :: snapshot

record rule_result =
  rule_name :: string
  rule_status :: rule_status
  actual_value :: "msg option"
  required_value :: "msg option"
  rule_reason :: msg

record decision_result =
  dr_symbol :: string
  dr_scanner_name :: string
  dr_signal_type :: string
  dr_decision :: decision
  dr_score :: rat
  dr_quality :: "quality option"
  dr_passed_rules :: "msg list"
  dr_failed_rules :: "msg list"
  dr_warnings :: "msg list"
  dr_feature_snapshot :: snapshot
  dr_timestamp :: pydatetime
  dr_rule_results :: "rule_result list"

section \<open>Validator (validator.py)\<close>

definition is_missing :: "pyval \<Rightarrow> bool" where
  "is_missing v \<longleftrightarrow> v = PyNone \<or> v = PyStr ''None''"

definition missing_features :: "snapshot \<Rightarrow> string list \<Rightarrow> string list" where
  "missing_features feature_snapshot keys = filter (\<lambda>key. is_missing (dict_get feature_snapshot key)) keys"

definition is_fresh :: "runtime \<Rightarrow> int \<Rightarrow> int \<Rightarrow> int option \<Rightarrow> bool" where
  "is_fresh rt scan_date max_age_days today =
     (let reference = opt_else today (market_today (app_settings rt) (clock rt) None)
      in reference - scan_date \<le> max_age_days)"

text \<open>\<open>float(value)\<close> with \<open>TypeError\<close> and \<open>ValueError\<close> caught.\<close>

fun float_or_none :: "pyval \<Rightarrow> rat option" where
  "float_or_none (PyBool b) = Some (if b then 1 else 0)"
| "float_or_none (PyInt i) = Some (of_int i)"
| "float_or_none (PyFloat x) = Some x"
| "float_or_none (PyStr s) = float_of_string s"
| "float_or_none v = None"

definition as_float :: "snapshot \<Rightarrow> string \<Rightarrow> rat option" where
  "as_float feature_snapshot key =
     (let value = dict_get feature_snapshot key in if is_missing value then None else float_or_none value)"

section \<open>Rules (rules.py)\<close>

definition REQUIRED_FEATURE_KEYS :: "string list" where
  "REQUIRED_FEATURE_KEYS =
     [''price'', ''ema20'', ''ema50'', ''ema200'', ''adx14'', ''relative_volume'', ''resistance_level'']"

definition CANDIDATE_REQUIRED_FEATURE_KEYS :: "string list" where
  "CANDIDATE_REQUIRED_FEATURE_KEYS = [''price'', ''adx14'', ''relative_volume'']"

definition REQUIRED_FEATURES_BY_SCANNER :: "string \<Rightarrow> string list option" where
  "REQUIRED_FEATURES_BY_SCANNER = [''breakout_v1'' \<mapsto> REQUIRED_FEATURE_KEYS]"

definition TREND_STACK_SCANNERS :: "string list" where
  "TREND_STACK_SCANNERS = [''breakout_v1'']"

definition RESISTANCE_PROXIMITY_SCANNERS :: "string list" where
  "RESISTANCE_PROXIMITY_SCANNERS = [''breakout_v1'', ''pre_breakout_v1'']"

definition pass_if :: "bool \<Rightarrow> rule_status" where
  "pass_if b = (if b then PASS else FAIL)"

type_synonym rule = "runtime \<Rightarrow> settings \<Rightarrow> decision_candidate \<Rightarrow> int option \<Rightarrow> rule_result"

definition required_features_of :: "string \<Rightarrow> string list" where
  "required_features_of scanner = opt_else (REQUIRED_FEATURES_BY_SCANNER scanner) CANDIDATE_REQUIRED_FEATURE_KEYS"

definition check_required_features :: rule where
  "check_required_features rt cfg candidate now =
     (let required = required_features_of (dc_scanner_name candidate);
          missing = missing_features (dc_feature_snapshot candidate) required
      in if missing \<noteq> [] then
           \<lparr>rule_name = ''required_features'', rule_status = FAIL,
            actual_value = Some (lit (join_strings '', '' missing)),
            required_value = Some (lit ''all present''),
            rule_reason = [Lit ''missing/invalid required feature(s): '', Lit (join_strings '', '' missing)]\<rparr>
         else
           \<lparr>rule_name = ''required_features'', rule_status = PASS,
            actual_value = Some (lit ''all present''), required_value = Some (lit ''all present''),
            rule_reason = lit ''all required features are present and valid''\<rparr>)"

definition effective_freshness_date :: "decision_candidate \<Rightarrow> int \<times> string" where
  "effective_freshness_date candidate =
     (case dict_get (dc_feature_snapshot candidate) ''feature_date'' of
        PyStr raw \<Rightarrow>
          (case fromisoformat raw of
             Some d \<Rightarrow> (d, ''underlying feature data'')
           | None \<Rightarrow> (dc_scan_date candidate, ''scanner result''))
      | _ \<Rightarrow> (dc_scan_date candidate, ''scanner result''))"

definition check_data_freshness :: rule where
  "check_data_freshness rt cfg candidate now =
     (let today = map_option (\<lambda>t. date_of (to_market_time (utc_dt t) (market_timezone cfg))) now;
          (effective_date, date_source) = effective_freshness_date candidate;
          fresh = is_fresh rt effective_date (decision_max_data_age_days cfg) today
      in \<lparr>rule_name = ''data_freshness'', rule_status = pass_if fresh,
          actual_value = Some (lit (isoformat effective_date)),
          required_value = Some [Lit ''within '', IntP (decision_max_data_age_days cfg), Lit '' day(s) of today''],
          rule_reason =
            (if fresh then [Lit date_source, Lit '' is current'']
             else [Lit date_source, Lit '' dated '', Lit (isoformat effective_date), Lit '' is stale''])\<rparr>)"

definition check_minimum_score :: rule where
  "check_minimum_score rt cfg candidate now =
     (let passed = dc_score candidate \<ge> decision_min_alert_score cfg
      in \<lparr>rule_name = ''minimum_score'', rule_status = pass_if passed,
          actual_value = Some [Shown (dc_score candidate)],
          required_value = Some [Lit ''>= '', Shown (decision_min_alert_score cfg)],
          rule_reason = lit (if passed then ''scanner score meets the minimum alert threshold''
                             else ''scanner score is below the minimum alert threshold'')\<rparr>)"

definition check_trend :: rule where
  "check_trend rt cfg candidate now =
     (if dc_scanner_name candidate \<notin> set TREND_STACK_SCANNERS then
        \<lparr>rule_name = ''trend'', rule_status = PASS, actual_value = None, required_value = None,
         rule_reason = [Lit ''not applicable for '', Lit (dc_scanner_name candidate)]\<rparr>
      else
        (case (as_float (dc_feature_snapshot candidate) ''ema20'',
               as_float (dc_feature_snapshot candidate) ''ema50'',
               as_float (dc_feature_snapshot candidate) ''ema200'') of
           (Some ema20, Some ema50, Some ema200) \<Rightarrow>
             (let passed = ema20 > ema50 \<and> ema50 > ema200
              in \<lparr>rule_name = ''trend'', rule_status = pass_if passed,
                  actual_value = Some [Lit ''ema20='', Shown ema20, Lit '', ema50='', Shown ema50,
                                       Lit '', ema200='', Shown ema200],
                  required_value = Some (lit ''EMA20 > EMA50 > EMA200''),
                  rule_reason = lit (if passed then ''trend is aligned (uptrend)''
                                     else ''EMA stack is not aligned'')\<rparr>)
         | _ \<Rightarrow>
             \<lparr>rule_name = ''trend'', rule_status = FAIL, actual_value = None,
              required_value = Some (lit ''EMA20 > EMA50 > EMA200''),
              rule_reason = lit ''one or more EMA values are missing''\<rparr>))"

definition check_relative_volume :: rule where
  "check_relative_volume rt cfg candidate now =
     (case as_float (dc_feature_snapshot candidate) ''relative_volume'' of
        None \<Rightarrow>
          \<lparr>rule_name = ''relative_volume'', rule_status = FAIL, actual_value = None,
           required_value = Some [Lit ''>= '', Shown (decision_min_rvol cfg)],
           rule_reason = lit ''relative volume is missing''\<rparr>
      | Some rvol \<Rightarrow>
          (let passed = rvol \<ge> decision_min_rvol cfg
           in \<lparr>rule_name = ''relative_volume'', rule_status = pass_if passed,
               actual_value = Some [Shown rvol],
               required_value = Some [Lit ''>= '', Shown (decision_min_rvol cfg)],
               rule_reason = lit (if passed then ''relative volume confirms increased participation''
                                  else ''relative volume is below the required threshold'')\<rparr>))"

definition check_adx :: rule where
  "check_adx rt cfg candidate now =
     (case as_float (dc_feature_snapshot candidate) ''adx14'' of
        None \<Rightarrow>
          \<lparr>rule_name = ''adx'', rule_status = FAIL, actual_value = None,
           required_value = Some [Lit ''>= '', Shown (decision_min_adx cfg)],
           rule_reason = lit ''ADX is missing''\<rparr>
      | Some adx \<Rightarrow>
          (let passed = adx \<ge> decision_min_adx cfg
           in \<lparr>rule_name = ''adx'', rule_status = pass_if passed, actual_value = Some [Shown adx],
               required_value = Some [Lit ''>= '', Shown (decision_min_adx cfg)],
               rule_reason = lit (if passed then ''trend strength confirmed''
                                  else ''trend strength is too weak'')\<rparr>))"

definition resistance_distance :: "rat \<Rightarrow> rat \<Rightarrow> rat" where
  "resistance_distance price resistance = \<bar>price - resistance\<bar> / resistance * 100"

definition check_resistance_proximity :: rule where
  "check_resistance_proximity rt cfg candidate now =
     (if dc_scanner_name candidate \<notin> set RESISTANCE_PROXIMITY_SCANNERS then
        \<lparr>rule_name = ''resistance_proximity'', rule_status = PASS, actual_value = None,
         required_value = None,
         rule_reason = [Lit ''not applicable for '', Lit (dc_scanner_name candidate)]\<rparr>
      else
        (let missing =
           \<lparr>rule_name = ''resistance_proximity'', rule_status = FAIL, actual_value = None,
            required_value = Some [Lit ''<= '', Shown (decision_resistance_distance_percent cfg), Lit ''%''],
            rule_reason = lit ''price or resistance level is missing''\<rparr>
         in (case (as_float (dc_feature_snapshot candidate) ''price'',
                   as_float (dc_feature_snapshot candidate) ''resistance_level'') of
               (Some price, Some resistance) \<Rightarrow>
                 if resistance = 0 then missing
                 else
                   (let distance_pct = resistance_distance price resistance;
                        passed = distance_pct \<le> decision_resistance_distance_percent cfg
                    in \<lparr>rule_name = ''resistance_proximity'', rule_status = pass_if passed,
                        actual_value = Some [Fix 2 distance_pct, Lit ''%''],
                        required_value =
                          Some [Lit ''<= '', Shown (decision_resistance_distance_percent cfg), Lit ''%''],
                        rule_reason =
                          lit (if passed then ''price is approaching the breakout/resistance level''
                               else ''price is too far from the breakout/resistance level'')\<rparr>)
             | _ \<Rightarrow> missing)))"

definition check_market_session :: rule where
  "check_market_session rt cfg candidate now =
     (let open_now = is_market_open (app_settings rt) (clock rt) now
      in \<lparr>rule_name = ''market_session'', rule_status = (if open_now then PASS else WARNING),
          actual_value = Some (lit (if open_now then ''open'' else ''closed'')),
          required_value = Some (lit ''open''),
          rule_reason =
            (if open_now then [Lit ''market is open '', Lit em_dash, Lit '' live alert eligible'']
             else [Lit ''market is closed '', Lit em_dash, Lit '' signal downgraded to WATCH''])\<rparr>)"

definition RULES :: "rule list" where
  "RULES =
     [check_required_features,
      check_data_freshness,
      check_minimum_score,
      check_trend,
      check_relative_volume,
      check_adx,
      check_resistance_proximity,
      check_market_session]"

section \<open>Evaluator (evaluator.py)\<close>

definition DATA_QUALITY_RULES :: "string list" where
  "DATA_QUALITY_RULES = [''required_features'', ''data_freshness'']"

definition CORE_ALERT_RULES :: "string list" where
  "CORE_ALERT_RULES = [''minimum_score'', ''trend'', ''relative_volume'', ''adx'', ''resistance_proximity'']"

definition names_with :: "rule_status \<Rightarrow> rule_result list \<Rightarrow> string list" where
  "names_with st rs = map rule_name (filter (\<lambda>r. rule_status r = st) rs)"

definition evaluate :: "runtime \<Rightarrow> settings \<Rightarrow> decision_candidate \<Rightarrow> int option \<Rightarrow> decision_result" where
  "evaluate rt cfg candidate now =
     (let rule_results = map (\<lambda>rule. rule rt cfg candidate now) RULES;
          passed = names_with PASS rule_results;
          failed = names_with FAIL rule_results;
          warnings = names_with WARNING rule_results;
          data_quality_failed = (\<exists>name \<in> set DATA_QUALITY_RULES. name \<in> set failed);
          core_rules_passed = set CORE_ALERT_RULES \<subseteq> set passed;
          market_open = ''market_session'' \<notin> set warnings;
          (decision, quality) =
            (if data_quality_failed then (D_REJECT, None)
             else if core_rules_passed \<and> market_open then
               (D_ALERT, Some (if dc_score candidate \<ge> alert_high_priority_score cfg then HIGH else MEDIUM))
             else (D_WATCH, Some LOW))
      in \<lparr>dr_symbol = dc_symbol candidate, dr_scanner_name = dc_scanner_name candidate,
          dr_signal_type = dc_signal_type candidate, dr_decision = decision,
          dr_score = dc_score candidate, dr_quality = quality,
          dr_passed_rules = map (\<lambda>n. lit n) passed, dr_failed_rules = map (\<lambda>n. lit n) failed,
          dr_warnings = map (\<lambda>n. lit n) warnings,
          dr_feature_snapshot = dc_feature_snapshot candidate,
          dr_timestamp = utc_dt (opt_else now (clock rt)), dr_rule_results = rule_results\<rparr>)"

section \<open>What each rule decides\<close>

lemma rule_names [simp]:
  "rule_name (check_required_features rt cfg c now) = ''required_features''"
  "rule_name (check_data_freshness rt cfg c now) = ''data_freshness''"
  "rule_name (check_minimum_score rt cfg c now) = ''minimum_score''"
  "rule_name (check_trend rt cfg c now) = ''trend''"
  "rule_name (check_relative_volume rt cfg c now) = ''relative_volume''"
  "rule_name (check_adx rt cfg c now) = ''adx''"
  "rule_name (check_resistance_proximity rt cfg c now) = ''resistance_proximity''"
  "rule_name (check_market_session rt cfg c now) = ''market_session''"
  by (simp_all add: check_required_features_def check_data_freshness_def check_minimum_score_def
      check_trend_def check_relative_volume_def check_adx_def check_resistance_proximity_def
      check_market_session_def Let_def split: option.splits prod.splits)

lemma pass_if_simps [simp]:
  "pass_if b = PASS \<longleftrightarrow> b" "pass_if b = FAIL \<longleftrightarrow> \<not> b" "pass_if b \<noteq> WARNING"
  by (simp_all add: pass_if_def)

text \<open>Every rule but the market session passes or fails; the session passes or warns.\<close>

lemma rule_not_warning [simp]:
  "rule_status (check_required_features rt cfg c now) \<noteq> WARNING"
  "rule_status (check_data_freshness rt cfg c now) \<noteq> WARNING"
  "rule_status (check_minimum_score rt cfg c now) \<noteq> WARNING"
  "rule_status (check_trend rt cfg c now) \<noteq> WARNING"
  "rule_status (check_relative_volume rt cfg c now) \<noteq> WARNING"
  "rule_status (check_adx rt cfg c now) \<noteq> WARNING"
  "rule_status (check_resistance_proximity rt cfg c now) \<noteq> WARNING"
  "rule_status (check_market_session rt cfg c now) \<noteq> FAIL"
  by (simp_all add: check_required_features_def check_data_freshness_def check_minimum_score_def
      check_trend_def check_relative_volume_def check_adx_def check_resistance_proximity_def
      check_market_session_def Let_def split: option.splits prod.splits)

lemma fail_iff_not_pass:
  "r \<noteq> WARNING \<Longrightarrow> r = FAIL \<longleftrightarrow> r \<noteq> PASS"
  "r \<noteq> FAIL \<Longrightarrow> r = WARNING \<longleftrightarrow> r \<noteq> PASS"
  by (cases r; simp)+

lemma required_features_pass_iff:
  "rule_status (check_required_features rt cfg c now) = PASS \<longleftrightarrow>
     (\<forall>k \<in> set (required_features_of (dc_scanner_name c)). \<not> is_missing (dict_get (dc_feature_snapshot c) k))"
  by (auto simp: check_required_features_def missing_features_def filter_empty_conv Let_def)

lemma data_freshness_pass_iff:
  "rule_status (check_data_freshness rt cfg c (Some t)) = PASS \<longleftrightarrow>
     date_of (to_market_time (utc_dt t) (market_timezone cfg)) - fst (effective_freshness_date c)
       \<le> decision_max_data_age_days cfg"
  by (auto simp: check_data_freshness_def is_fresh_def Let_def split: prod.splits)

lemma minimum_score_pass_iff:
  "rule_status (check_minimum_score rt cfg c now) = PASS \<longleftrightarrow> decision_min_alert_score cfg \<le> dc_score c"
  by (simp add: check_minimum_score_def Let_def)

lemma trend_pass_iff:
  "rule_status (check_trend rt cfg c now) = PASS \<longleftrightarrow>
     (dc_scanner_name c = ''breakout_v1'' \<longrightarrow>
       (\<exists>e20 e50 e200. as_float (dc_feature_snapshot c) ''ema20'' = Some e20
          \<and> as_float (dc_feature_snapshot c) ''ema50'' = Some e50
          \<and> as_float (dc_feature_snapshot c) ''ema200'' = Some e200 \<and> e20 > e50 \<and> e50 > e200))"
  by (auto simp: check_trend_def TREND_STACK_SCANNERS_def Let_def split: option.splits)

lemma relative_volume_pass_iff:
  "rule_status (check_relative_volume rt cfg c now) = PASS \<longleftrightarrow>
     (\<exists>v. as_float (dc_feature_snapshot c) ''relative_volume'' = Some v \<and> decision_min_rvol cfg \<le> v)"
  by (auto simp: check_relative_volume_def Let_def split: option.splits)

lemma adx_pass_iff:
  "rule_status (check_adx rt cfg c now) = PASS \<longleftrightarrow>
     (\<exists>v. as_float (dc_feature_snapshot c) ''adx14'' = Some v \<and> decision_min_adx cfg \<le> v)"
  by (auto simp: check_adx_def Let_def split: option.splits)

lemma resistance_pass_iff:
  "rule_status (check_resistance_proximity rt cfg c now) = PASS \<longleftrightarrow>
     (dc_scanner_name c \<in> {''breakout_v1'', ''pre_breakout_v1''} \<longrightarrow>
       (\<exists>p r. as_float (dc_feature_snapshot c) ''price'' = Some p
          \<and> as_float (dc_feature_snapshot c) ''resistance_level'' = Some r \<and> r \<noteq> 0
          \<and> resistance_distance p r \<le> decision_resistance_distance_percent cfg))"
  by (auto simp: check_resistance_proximity_def RESISTANCE_PROXIMITY_SCANNERS_def Let_def
      split: option.splits)

lemma market_session_pass_iff:
  "rule_status (check_market_session rt cfg c now) = PASS \<longleftrightarrow> is_market_open (app_settings rt) (clock rt) now"
  by (simp add: check_market_session_def Let_def)

lemmas rule_pass_iffs = required_features_pass_iff data_freshness_pass_iff minimum_score_pass_iff
  trend_pass_iff relative_volume_pass_iff adx_pass_iff resistance_pass_iff market_session_pass_iff

section \<open>What the evaluator decides\<close>

lemma names_with_Nil [simp]: "names_with st [] = []"
  by (simp add: names_with_def)

lemma names_with_Cons [simp]:
  "names_with st (r # rs) = (if rule_status r = st then rule_name r # names_with st rs else names_with st rs)"
  by (simp add: names_with_def)

lemma evaluate_reject_iff:
  "dr_decision (evaluate rt cfg c now) = D_REJECT \<longleftrightarrow>
     rule_status (check_required_features rt cfg c now) \<noteq> PASS
     \<or> rule_status (check_data_freshness rt cfg c now) \<noteq> PASS"
  by (auto simp: evaluate_def RULES_def DATA_QUALITY_RULES_def CORE_ALERT_RULES_def Let_def
      fail_iff_not_pass)

lemma evaluate_alert_iff:
  "dr_decision (evaluate rt cfg c now) = D_ALERT \<longleftrightarrow>
     (\<forall>rule \<in> set RULES. rule_status (rule rt cfg c now) = PASS)"
  by (auto simp: evaluate_def RULES_def DATA_QUALITY_RULES_def CORE_ALERT_RULES_def Let_def
      fail_iff_not_pass)

lemma evaluate_quality:
  "dr_quality (evaluate rt cfg c now) =
     (case dr_decision (evaluate rt cfg c now) of
        D_ALERT \<Rightarrow> Some (if dc_score c \<ge> alert_high_priority_score cfg then HIGH else MEDIUM)
      | D_WATCH \<Rightarrow> Some LOW
      | D_REJECT \<Rightarrow> None)"
  by (auto simp: evaluate_def Let_def)

lemma evaluate_fields [simp]:
  "dr_symbol (evaluate rt cfg c now) = dc_symbol c"
  "dr_scanner_name (evaluate rt cfg c now) = dc_scanner_name c"
  "dr_signal_type (evaluate rt cfg c now) = dc_signal_type c"
  "dr_score (evaluate rt cfg c now) = dc_score c"
  "dr_feature_snapshot (evaluate rt cfg c now) = dc_feature_snapshot c"
  "dr_timestamp (evaluate rt cfg c now) = utc_dt (opt_else now (clock rt))"
  by (simp_all add: evaluate_def Let_def split_beta)

section \<open>Properties\<close>

text \<open>C1: A candidate becomes an ALERT exactly when its required features are present, its data is
  recent enough in the market's own calendar, its score, relative volume and ADX reach their
  thresholds, the market is open, and the checks specific to its scanner hold: an aligned EMA
  stack for breakout_v1, closeness to a non-zero resistance level for breakout_v1 and
  pre_breakout_v1.\<close>

theorem alert_verdict_exactly:
  "dr_decision (evaluate rt cfg c (Some t)) = D_ALERT \<longleftrightarrow>
     (\<forall>k \<in> set (required_features_of (dc_scanner_name c)). \<not> is_missing (dict_get (dc_feature_snapshot c) k))
   \<and> date_of (to_market_time (utc_dt t) (market_timezone cfg)) - fst (effective_freshness_date c)
       \<le> decision_max_data_age_days cfg
   \<and> decision_min_alert_score cfg \<le> dc_score c
   \<and> (dc_scanner_name c = ''breakout_v1'' \<longrightarrow>
       (\<exists>e20 e50 e200. as_float (dc_feature_snapshot c) ''ema20'' = Some e20
          \<and> as_float (dc_feature_snapshot c) ''ema50'' = Some e50
          \<and> as_float (dc_feature_snapshot c) ''ema200'' = Some e200 \<and> e20 > e50 \<and> e50 > e200))
   \<and> (\<exists>v. as_float (dc_feature_snapshot c) ''relative_volume'' = Some v \<and> decision_min_rvol cfg \<le> v)
   \<and> (\<exists>v. as_float (dc_feature_snapshot c) ''adx14'' = Some v \<and> decision_min_adx cfg \<le> v)
   \<and> (dc_scanner_name c \<in> {''breakout_v1'', ''pre_breakout_v1''} \<longrightarrow>
       (\<exists>p r. as_float (dc_feature_snapshot c) ''price'' = Some p
          \<and> as_float (dc_feature_snapshot c) ''resistance_level'' = Some r \<and> r \<noteq> 0
          \<and> resistance_distance p r \<le> decision_resistance_distance_percent cfg))
   \<and> is_market_open (app_settings rt) (clock rt) (Some t)"
  unfolding evaluate_alert_iff RULES_def by (simp only: list.set ball_simps rule_pass_iffs simp_thms)

text \<open>Every rule is reported under exactly one of the three headings, only the market session
  ever warns, and the verdict and its quality follow from them: REJECT without quality exactly
  when a data-quality rule fails, otherwise ALERT (HIGH or MEDIUM by score) in an open market
  with all core rules passed, otherwise WATCH with quality LOW.\<close>

theorem verdict_report_complete:
  "mset (dr_passed_rules (evaluate rt cfg c now) @ dr_failed_rules (evaluate rt cfg c now)
        @ dr_warnings (evaluate rt cfg c now))
     = mset (map (\<lambda>r. lit (rule_name (r rt cfg c now))) RULES)
   \<and> set (dr_warnings (evaluate rt cfg c now)) \<subseteq> {lit ''market_session''}
   \<and> (dr_decision (evaluate rt cfg c now) = D_REJECT \<longleftrightarrow>
        rule_status (check_required_features rt cfg c now) = FAIL
        \<or> rule_status (check_data_freshness rt cfg c now) = FAIL)
   \<and> (dr_quality (evaluate rt cfg c now) = None \<longleftrightarrow> dr_decision (evaluate rt cfg c now) = D_REJECT)
   \<and> (dr_quality (evaluate rt cfg c now) = Some LOW \<longleftrightarrow> dr_decision (evaluate rt cfg c now) = D_WATCH)"
proof -
  let ?rs = "map (\<lambda>rule. rule rt cfg c now) RULES"
  have part: "mset (names_with PASS rs @ names_with FAIL rs @ names_with WARNING rs) = mset (map rule_name rs)"
    for rs
  proof (induction rs)
    case (Cons r rs)
    then show ?case by (cases "rule_status r") auto
  qed simp
  have "dr_passed_rules (evaluate rt cfg c now) = map (\<lambda>n. lit n) (names_with PASS ?rs)"
    and "dr_failed_rules (evaluate rt cfg c now) = map (\<lambda>n. lit n) (names_with FAIL ?rs)"
    and w: "dr_warnings (evaluate rt cfg c now) = map (\<lambda>n. lit n) (names_with WARNING ?rs)"
    by (simp_all add: evaluate_def Let_def split_beta)
  then have "mset (dr_passed_rules (evaluate rt cfg c now) @ dr_failed_rules (evaluate rt cfg c now)
        @ dr_warnings (evaluate rt cfg c now))
      = image_mset (\<lambda>n. lit n) (mset (names_with PASS ?rs @ names_with FAIL ?rs @ names_with WARNING ?rs))"
    by simp
  also have "\<dots> = mset (map (\<lambda>r. lit (rule_name (r rt cfg c now))) RULES)"
    unfolding part by (simp add: o_def flip: mset_map)
  finally have a: "mset (dr_passed_rules (evaluate rt cfg c now) @ dr_failed_rules (evaluate rt cfg c now)
        @ dr_warnings (evaluate rt cfg c now))
     = mset (map (\<lambda>r. lit (rule_name (r rt cfg c now))) RULES)" .
  have b: "set (dr_warnings (evaluate rt cfg c now)) \<subseteq> {lit ''market_session''}"
    by (simp add: w RULES_def)
  have c: "dr_decision (evaluate rt cfg c now) = D_REJECT \<longleftrightarrow>
        rule_status (check_required_features rt cfg c now) = FAIL
        \<or> rule_status (check_data_freshness rt cfg c now) = FAIL"
    by (simp add: evaluate_reject_iff fail_iff_not_pass)
  have d: "dr_quality (evaluate rt cfg c now) = None \<longleftrightarrow> dr_decision (evaluate rt cfg c now) = D_REJECT"
    and e: "dr_quality (evaluate rt cfg c now) = Some LOW \<longleftrightarrow> dr_decision (evaluate rt cfg c now) = D_WATCH"
    by (cases "dr_decision (evaluate rt cfg c now)"; simp add: evaluate_quality)+
  show ?thesis by (intro conjI a b c d e)
qed

text \<open>A recent scan of old features is rejected: when the candidate carries the date of the
  features it was scored on, that date alone decides freshness, whatever the scan date.\<close>

theorem stale_features_rejected:
  assumes "dict_get (dc_feature_snapshot c) ''feature_date'' = PyStr (isoformat d)" and "valid_ord d"
    and "decision_max_data_age_days cfg < date_of (to_market_time (utc_dt t) (market_timezone cfg)) - d"
  shows "dr_decision (evaluate rt cfg (c\<lparr>dc_scan_date := s\<rparr>) (Some t)) = D_REJECT"
proof -
  have "effective_freshness_date (c\<lparr>dc_scan_date := s\<rparr>) = (d, ''underlying feature data'')"
    using assms by (simp add: effective_freshness_date_def fromisoformat_isoformat)
  then show ?thesis using assms(3) by (simp add: evaluate_reject_iff data_freshness_pass_iff)
qed

definition demo_runtime :: runtime where
  "demo_runtime = \<lparr>clock = 0, app_settings = default_settings, sha256_hex = id, py_repr = (\<lambda>v. ''?'')\<rparr>"

definition sample_candidate :: decision_candidate where
  "sample_candidate =
     \<lparr>dc_symbol = ''ABC'', dc_scanner_name = ''fno_momentum_v1'', dc_signal_type = ''FNO_MOMENTUM'',
      dc_score = 90, dc_scan_date = ymd2ord 2026 2 4,
      dc_feature_snapshot = [''feature_date'' \<mapsto> PyStr (isoformat (ymd2ord 2026 1 30)),
        ''price'' \<mapsto> PyStr ''102.5'', ''adx14'' \<mapsto> PyStr ''31'', ''relative_volume'' \<mapsto> PyStr ''2.4'']\<rparr>"

definition fresh_candidate :: decision_candidate where
  "fresh_candidate = sample_candidate\<lparr>dc_feature_snapshot :=
     (dc_feature_snapshot sample_candidate)(''feature_date'' \<mapsto> PyStr (isoformat (ymd2ord 2026 2 3)))\<rparr>"

definition trading_hour :: int where
  "trading_hour = (ymd2ord 2026 2 4 - epoch_ord) * day_us + 6 * 60 * minute_us"

theorem alert_verdict_exactly_witness:
  "dr_decision (evaluate demo_runtime default_settings fresh_candidate (Some trading_hour)) = D_ALERT
   \<and> dr_decision (evaluate demo_runtime default_settings (fresh_candidate\<lparr>dc_scanner_name := ''pre_breakout_v1''\<rparr>)
        (Some trading_hour)) \<noteq> D_ALERT"
proof -
  have f: "as_float (dc_feature_snapshot fresh_candidate) ''relative_volume'' = Some (12/5)"
    "as_float (dc_feature_snapshot fresh_candidate) ''adx14'' = Some 31"
    "as_float (dc_feature_snapshot fresh_candidate) ''resistance_level'' = None" by code_simp+
  have m: "is_market_open (app_settings demo_runtime) (clock demo_runtime) (Some trading_hour)"
    "date_of (to_market_time (utc_dt trading_hour) (market_timezone default_settings))
       - fst (effective_freshness_date fresh_candidate) \<le> decision_max_data_age_days default_settings"
    "\<forall>k \<in> set (required_features_of (dc_scanner_name fresh_candidate)).
       \<not> is_missing (dict_get (dc_feature_snapshot fresh_candidate) k)" by code_simp+
  have c: "decision_min_alert_score default_settings \<le> dc_score fresh_candidate"
    "decision_min_rvol default_settings \<le> 12/5" "decision_min_adx default_settings \<le> 31"
    "dc_scanner_name fresh_candidate = ''fno_momentum_v1''" by code_simp+
  have "dr_decision (evaluate demo_runtime default_settings fresh_candidate (Some trading_hour)) = D_ALERT"
    unfolding alert_verdict_exactly
    by (intro conjI exI [of _ "12/5"] exI [of _ 31] f(1,2) m c(1-3)) (simp_all add: c(4))
  moreover have "dr_decision (evaluate demo_runtime default_settings
      (fresh_candidate\<lparr>dc_scanner_name := ''pre_breakout_v1''\<rparr>) (Some trading_hour)) \<noteq> D_ALERT"
    unfolding alert_verdict_exactly using f by simp
  ultimately show ?thesis by blast
qed

theorem stale_features_rejected_witness:
  "dr_decision (evaluate demo_runtime default_settings (sample_candidate\<lparr>dc_scan_date := ymd2ord 2026 2 4\<rparr>)
     (Some ((ymd2ord 2026 2 4 - epoch_ord) * day_us))) = D_REJECT"
proof (rule stale_features_rejected)
  show "dict_get (dc_feature_snapshot sample_candidate) ''feature_date'' = PyStr (isoformat (ymd2ord 2026 1 30))"
    by (simp add: sample_candidate_def)
  show "valid_ord (ymd2ord 2026 1 30)" by code_simp
  show "decision_max_data_age_days default_settings <
    date_of (to_market_time (utc_dt ((ymd2ord 2026 2 4 - epoch_ord) * day_us)) (market_timezone default_settings))
      - ymd2ord 2026 1 30" by code_simp
qed

end
