(* ===== verification/Alert_Manager.thy ===== *)
theory Alert_Manager
  imports Alert_Store Decision_Rules
begin

text \<open>
  From a verdict to a stored and queued alert: app/alerts/base.py, deduplicator.py, throttler.py,
  manager.py and the expiry job of app/scheduler/alert_jobs.py. \<open>process\<close> returns the result of
  the call, with an assertion failure as an error value, and the new tables. Database failures are
  not modelled, so the heartbeat's own error handling has no counterpart.
\<close>

section \<open>Suppression checks\<close>

record suppression_result =
  suppressed :: bool
  supp_reason :: "msg option"
  blocking_alert_id :: "int option"

definition not_suppressed :: suppression_result where
  "not_suppressed = \<lparr>suppressed = False, supp_reason = None, blocking_alert_id = None\<rparr>"

definition INACTIVE_STATUSES :: "alert_status list" where
  "INACTIVE_STATUSES = [EXPIRED]"

text \<open>\<open>str(v)\<close>.\<close>

fun py_str :: "runtime \<Rightarrow> pyval \<Rightarrow> string" where
  "py_str rt (PyStr s) = s"
| "py_str rt PyNone = ''None''"
| "py_str rt (PyBool b) = (if b then ''True'' else ''False'')"
| "py_str rt v = py_repr rt v"

definition fingerprint_source :: "runtime \<Rightarrow> decision_result \<Rightarrow> string" where
  "fingerprint_source rt d =
     (let breakout_level = py_or (dict_get (dr_feature_snapshot d) ''breakout_level'')
                                 (dict_get (dr_feature_snapshot d) ''resistance_level'');
          signal_date = py_or (dict_get (dr_feature_snapshot d) ''date'')
                              (PyStr (isoformat (date_of (dr_timestamp d))))
      in join_strings ''|''
           [dr_symbol d, dr_scanner_name d, dr_signal_type d,
            py_str rt breakout_level, py_str rt signal_date])"

definition build_fingerprint :: "runtime \<Rightarrow> decision_result \<Rightarrow> string" where
  "build_fingerprint rt d = sha256_hex rt (fingerprint_source rt d)"

fun status_value :: "alert_status \<Rightarrow> string" where
  "status_value PENDING = ''PENDING''"
| "status_value SENT = ''SENT''"
| "status_value RETRYING = ''RETRYING''"
| "status_value FAILED = ''FAILED''"
| "status_value EXPIRED = ''EXPIRED''"

definition dedup_check :: "string \<Rightarrow> 'x store_scheme \<Rightarrow> suppression_result" where
  "dedup_check fingerprint s =
     (case get_by_fingerprint fingerprint s of
        None \<Rightarrow> not_suppressed
      | Some existing \<Rightarrow>
          if al_status existing \<notin> set INACTIVE_STATUSES then
            \<lparr>suppressed = True,
             supp_reason = Some [Lit ''duplicate signal '', Lit em_dash, Lit '' already tracked as alert #'',
               IntP (al_id existing), Lit '' (status='', Lit (status_value (al_status existing)), Lit '')''],
             blocking_alert_id = Some (al_id existing)\<rparr>
          else not_suppressed)"

definition throttle_check :: "settings \<Rightarrow> int \<Rightarrow> string \<Rightarrow> int \<Rightarrow> 'x store_scheme \<Rightarrow> suppression_result" where
  "throttle_check cfg symbol_id signal_type now s =
     (let cooldown = alert_cooldown_minutes cfg * minute_us in
      case get_most_recent_for_signal symbol_id signal_type (now - cooldown) s of
        None \<Rightarrow> not_suppressed
      | Some recent \<Rightarrow>
          \<lparr>suppressed = True,
           supp_reason = Some [Lit ''cooldown active '', Lit em_dash, Lit '' alert #'', IntP (al_id recent),
             Lit '' for this symbol/signal was created at '', Instant (al_created_at recent),
             Lit '', cooldown is '', Span cooldown],
           blocking_alert_id = Some (al_id recent)\<rparr>)"

section \<open>The manager\<close>

definition ALERT_MANAGER_WORKER_NAME :: string where
  "ALERT_MANAGER_WORKER_NAME = ''alert_manager''"

definition suppression_metadata :: "string \<Rightarrow> suppression_result \<Rightarrow> metadata" where
  "suppression_metadata cause r =
     [(''cause'', PyStr cause), (''reason'', case supp_reason r of None \<Rightarrow> PyNone | Some m \<Rightarrow> PyMsg m)]"

definition log_suppressed :: "string \<Rightarrow> suppression_result \<Rightarrow> 'x store_scheme \<Rightarrow> 'x store_scheme" where
  "log_suppressed cause r s =
     (case blocking_alert_id r of
        None \<Rightarrow> s
      | Some i \<Rightarrow> log_event i ''SUPPRESSED'' (Some (suppression_metadata cause r)) s)"

definition alert_args :: "runtime \<Rightarrow> settings \<Rightarrow> decision_result \<Rightarrow> quality \<Rightarrow> int \<Rightarrow> int \<Rightarrow> alert_row" where
  "alert_args rt cfg d q symbol_id moment =
     (let snap = dr_feature_snapshot d;
          breakout_level =
            (case as_float snap ''breakout_level'' of
               None \<Rightarrow> as_float snap ''resistance_level'' | Some v \<Rightarrow> Some v)
      in \<lparr>al_id = 0, al_symbol_id = symbol_id, al_scanner_name = dr_scanner_name d,
          al_signal_type = dr_signal_type d, al_decision = decision_value (dr_decision d),
          al_score = py_round 2 (dr_score d), al_quality = quality_value q,
          al_entry_reference = as_float snap ''price'', al_breakout_level = breakout_level,
          al_support_level = as_float snap ''support_level'',
          al_resistance_level = as_float snap ''resistance_level'',
          al_feature_snapshot = snap,
          al_reason = lit ''all conditions met: '' @ join_msgs (lit '', '') (dr_passed_rules d),
          al_passed_rules = dr_passed_rules d, al_status = PENDING,
          al_fingerprint = build_fingerprint rt d,
          al_signal_date = date_of (to_market_time (utc_dt moment) (market_timezone cfg)),
          al_created_at = 0,
          al_expires_at = Some (moment + alert_expiry_minutes cfg * minute_us)\<rparr>)"

definition process_impl ::
  "runtime \<Rightarrow> settings \<Rightarrow> decision_result \<Rightarrow> int \<Rightarrow> int option \<Rightarrow> 'x store_scheme
     \<Rightarrow> (py_error + int option) \<times> 'x store_scheme" where
  "process_impl rt cfg d symbol_id now s =
     (if dr_decision d \<noteq> D_ALERT then (Inr None, s)
      else (case dr_quality d of
        None \<Rightarrow> (Inl AssertionError, s)
      | Some q \<Rightarrow>
          (let moment = opt_else now (clock rt);
               fingerprint = build_fingerprint rt d;
               dedup_result = dedup_check fingerprint s
           in if suppressed dedup_result then (Inr None, log_suppressed ''duplicate'' dedup_result s)
              else
                (let cooldown_result = throttle_check cfg symbol_id (dr_signal_type d) moment s
                 in if suppressed cooldown_result then (Inr None, log_suppressed ''cooldown'' cooldown_result s)
                    else
                      (let (alert, s1) = create_alert (alert_args rt cfg d q symbol_id moment) s;
                           s2 = log_event (al_id alert) ''CREATED'' None s1;
                           s3 = s2\<lparr>queue := q_put (al_id alert) (queue s2)\<rparr>;
                           s4 = log_event (al_id alert) ''QUEUED'' None s3
                       in (Inr (Some (al_id alert)), s4))))))"

definition process ::
  "runtime \<Rightarrow> settings \<Rightarrow> decision_result \<Rightarrow> int \<Rightarrow> int option \<Rightarrow> 'x store_scheme
     \<Rightarrow> (py_error + int option) \<times> 'x store_scheme" where
  "process rt cfg d symbol_id now s =
     (case process_impl rt cfg d symbol_id now s of
        (Inl e, s') \<Rightarrow> (Inl e, ping_run (clock rt) ALERT_MANAGER_WORKER_NAME None s')
      | (Inr r, s') \<Rightarrow>
          (Inr r, ping_success (clock rt) ALERT_MANAGER_WORKER_NAME
                    (Some (''last decision: '' @ decision_value (dr_decision d))) s'))"

section \<open>Expiry job (app/scheduler/alert_jobs.py)\<close>

definition expiry_job :: "int \<Rightarrow> 'x store_scheme \<Rightarrow> 'x store_scheme" where
  "expiry_job now s =
     (let (expired, s1) = expire_stale now s
      in fold (\<lambda>a. log_event (al_id a) ''EXPIRED'' None) expired s1)"

section \<open>One call of \<open>process\<close>\<close>

lemma dedup_suppressed_iff:
  "suppressed (dedup_check fp s) \<longleftrightarrow> (\<exists>a. get_by_fingerprint fp s = Some a \<and> al_status a \<noteq> EXPIRED)"
  by (auto simp: dedup_check_def not_suppressed_def INACTIVE_STATUSES_def split: option.splits)

lemma throttle_suppressed_iff:
  "suppressed (throttle_check cfg i ty now s) \<longleftrightarrow>
     (\<exists>a \<in> set (alerts s). al_symbol_id a = i \<and> al_signal_type a = ty
        \<and> now - alert_cooldown_minutes cfg * minute_us \<le> al_created_at a)"
proof -
  let ?q = "get_most_recent_for_signal i ty (now - alert_cooldown_minutes cfg * minute_us) s"
  have "suppressed (throttle_check cfg i ty now s) \<longleftrightarrow> ?q \<noteq> None"
    by (auto simp: throttle_check_def not_suppressed_def Let_def split: option.splits)
  also have "\<dots> \<longleftrightarrow> (\<exists>a \<in> set (alerts s). al_symbol_id a = i \<and> al_signal_type a = ty
        \<and> now - alert_cooldown_minutes cfg * minute_us \<le> al_created_at a)"
    by (auto simp: get_most_recent_for_signal_def newest_by_None_iff simp del: not_None_eq)
  finally show ?thesis .
qed

lemma log_suppressed_simps [simp, db_simps]:
  "alerts (log_suppressed c r s) = alerts s" "next_alert_id (log_suppressed c r s) = next_alert_id s"
  "queue (log_suppressed c r s) = queue s" "delivery_logs (log_suppressed c r s) = delivery_logs s"
  "db_clock (log_suppressed c r s) = db_clock s"
  by (simp_all add: log_suppressed_def split: option.splits)

lemma blocking_ids:
  "blocking_alert_id (dedup_check fp s) = Some i \<Longrightarrow> i \<in> alert_ids s"
  "blocking_alert_id (throttle_check cfg y ty now s) = Some i \<Longrightarrow> i \<in> alert_ids s"
  by (auto simp: dedup_check_def throttle_check_def not_suppressed_def Let_def alert_ids_def
      get_by_fingerprint_def get_most_recent_for_signal_def
      split: option.splits if_splits dest!: newest_by_SomeD(1))

lemma store_wf_log_suppressed:
  "store_wf s \<Longrightarrow> (\<And>i. blocking_alert_id r = Some i \<Longrightarrow> i \<in> alert_ids s) \<Longrightarrow> store_wf (log_suppressed c r s)"
  by (auto simp: log_suppressed_def split: option.splits intro: store_wf_log_event)

text \<open>The three outcomes of a call on the alerts table and the queue.\<close>

definition creates :: "runtime \<Rightarrow> settings \<Rightarrow> decision_result \<Rightarrow> int \<Rightarrow> int option \<Rightarrow> 'x store_scheme \<Rightarrow> bool" where
  "creates rt cfg d symbol_id now s \<longleftrightarrow>
     dr_decision d = D_ALERT \<and> dr_quality d \<noteq> None
   \<and> \<not> suppressed (dedup_check (build_fingerprint rt d) s)
   \<and> \<not> suppressed (throttle_check cfg symbol_id (dr_signal_type d) (opt_else now (clock rt)) s)"

lemma process_creates:
  assumes "creates rt cfg d y now s"
  shows "fst (process rt cfg d y now s) = Inr (Some (next_alert_id s))"
    and "\<exists>q. dr_quality d = Some q \<and>
       alerts (snd (process rt cfg d y now s)) =
         alerts s @ [fst (create_alert (alert_args rt cfg d q y (opt_else now (clock rt))) s)]"
    and "q_items (queue (snd (process rt cfg d y now s))) = q_items (queue s) @ [next_alert_id s]"
    and "next_alert_id (snd (process rt cfg d y now s)) = next_alert_id s + 1"
  using assms by (auto simp: creates_def process_def process_impl_def create_alert_def Let_def
      aq.items_put)

lemma process_keeps:
  assumes "\<not> creates rt cfg d y now s"
  shows "fst (process rt cfg d y now s) \<noteq> Inr (Some i)"
    and "alerts (snd (process rt cfg d y now s)) = alerts s"
    and "queue (snd (process rt cfg d y now s)) = queue s"
    and "next_alert_id (snd (process rt cfg d y now s)) = next_alert_id s"
  using assms by (auto simp: creates_def process_def process_impl_def Let_def split: option.splits)

lemma process_db_clock [simp]: "db_clock (snd (process rt cfg d y now s)) = db_clock s"
  by (auto simp: process_def process_impl_def create_alert_def Let_def split: option.splits)

lemma process_wf:
  assumes "store_wf s"
  shows "store_wf (snd (process rt cfg d y now s))"
proof -
  have "store_wf (snd (process_impl rt cfg d y now s))"
    using assms
    by (auto simp: process_impl_def Let_def split_beta create_alert_simps split: option.splits
        intro!: store_wf_log_suppressed store_wf_intros dest: blocking_ids)
  then show ?thesis by (auto simp: process_def split: prod.splits sum.splits intro!: store_wf_pings)
qed

lemma process_no_error:
  "dr_quality d \<noteq> None \<or> dr_decision d \<noteq> D_ALERT \<Longrightarrow> \<exists>r. fst (process rt cfg d y now s) = Inr r"
  by (auto simp: process_def process_impl_def Let_def split_beta split: option.splits)

end
