(* ===== verification/Momentum_Machine.thy ===== *)
theory Momentum_Machine
  imports Settings
begin

text \<open>
  The intraday momentum state machine: app/momentum/momentum_models.py and
  app/momentum/state_machine.py. States, the table of allowed transitions, the score bands, the
  transition proposal and the guard that rejects a transition outside the table. The states are
  ordered by their stage; every allowed transition moves up in that order, which bounds the
  length of a lifecycle.
\<close>

section \<open>States and allowed transitions\<close>

datatype momentum_state =
  M_SETUP | M_WATCH | M_ACTIVATING | M_TRIGGERED | M_CONFIRMED | M_EXHAUSTED | M_INVALIDATED

fun state_value :: "momentum_state \<Rightarrow> string" where
  "state_value M_SETUP = ''SETUP''"
| "state_value M_WATCH = ''WATCH''"
| "state_value M_ACTIVATING = ''ACTIVATING''"
| "state_value M_TRIGGERED = ''TRIGGERED''"
| "state_value M_CONFIRMED = ''CONFIRMED''"
| "state_value M_EXHAUSTED = ''EXHAUSTED''"
| "state_value M_INVALIDATED = ''INVALIDATED''"

text \<open>\<open>MomentumState(value)\<close>: the member with this value, \<open>ValueError\<close> when there is none.\<close>

definition state_of_value :: "string \<Rightarrow> py_error + momentum_state" where
  "state_of_value v =
     (case find (\<lambda>s. state_value s = v)
        [M_SETUP, M_WATCH, M_ACTIVATING, M_TRIGGERED, M_CONFIRMED, M_EXHAUSTED, M_INVALIDATED] of
        None \<Rightarrow> Inl ValueError
      | Some s \<Rightarrow> Inr s)"

lemma state_of_value_value [simp]: "state_of_value (state_value s) = Inr s"
  by (cases s) (simp_all add: state_of_value_def)

definition ALLOWED_TRANSITIONS :: "(momentum_state \<times> momentum_state) list" where
  "ALLOWED_TRANSITIONS =
     [(M_SETUP, M_WATCH),
      (M_SETUP, M_INVALIDATED),
      (M_WATCH, M_ACTIVATING),
      (M_WATCH, M_INVALIDATED),
      (M_ACTIVATING, M_TRIGGERED),
      (M_ACTIVATING, M_INVALIDATED),
      (M_TRIGGERED, M_CONFIRMED),
      (M_TRIGGERED, M_EXHAUSTED),
      (M_TRIGGERED, M_INVALIDATED),
      (M_CONFIRMED, M_EXHAUSTED),
      (M_CONFIRMED, M_INVALIDATED)]"

definition ALERT_WORTHY_STATES :: "momentum_state list" where
  "ALERT_WORTHY_STATES = [M_TRIGGERED, M_CONFIRMED]"

definition MOMENTUM_SCANNER_NAME :: string where
  "MOMENTUM_SCANNER_NAME = ''momentum_state_v1''"

definition is_valid_transition :: "momentum_state \<Rightarrow> momentum_state \<Rightarrow> bool" where
  "is_valid_transition from_state to_state \<longleftrightarrow> (from_state, to_state) \<in> set ALLOWED_TRANSITIONS"

record state_transition =
  tr_symbol :: string
  tr_from_state :: "momentum_state option"
  tr_to_state :: momentum_state
  tr_timestamp :: pydatetime
  tr_reason :: msg
  tr_score :: rat
  tr_evidence :: "(string \<times> pyval) list"

section \<open>The stage order\<close>

fun stage :: "momentum_state \<Rightarrow> nat" where
  "stage M_SETUP = 0"
| "stage M_WATCH = 1"
| "stage M_ACTIVATING = 2"
| "stage M_TRIGGERED = 3"
| "stage M_CONFIRMED = 4"
| "stage M_EXHAUSTED = 5"
| "stage M_INVALIDATED = 6"

lemma stage_inj: "stage a = stage b \<Longrightarrow> a = b"
  by (cases a; cases b) simp_all

instantiation momentum_state :: linorder
begin

definition less_eq_momentum_state :: "momentum_state \<Rightarrow> momentum_state \<Rightarrow> bool" where
  "less_eq_momentum_state a b \<longleftrightarrow> stage a \<le> stage b"

definition less_momentum_state :: "momentum_state \<Rightarrow> momentum_state \<Rightarrow> bool" where
  "less_momentum_state a b \<longleftrightarrow> stage a < stage b"

instance
  by standard (auto simp: less_eq_momentum_state_def less_momentum_state_def dest: stage_inj)

end

lemma valid_transition_less: "is_valid_transition a b \<Longrightarrow> a < b"
  by (auto simp: is_valid_transition_def ALLOWED_TRANSITIONS_def less_momentum_state_def)

lemma terminal_no_transition:
  "a \<in> {M_EXHAUSTED, M_INVALIDATED} \<Longrightarrow> \<not> is_valid_transition a b"
  by (auto simp: is_valid_transition_def ALLOWED_TRANSITIONS_def)

section \<open>Bands and transitions\<close>

definition LADDER :: "momentum_state list" where
  "LADDER = [M_SETUP, M_WATCH, M_ACTIVATING, M_TRIGGERED]"

definition band_index :: "rat \<Rightarrow> rat \<Rightarrow> nat" where
  "band_index score trigger_threshold =
     (let band_low = trigger_threshold / 3; band_mid = 2 * trigger_threshold / 3
      in if score \<ge> trigger_threshold then 3
         else if score \<ge> band_mid then 2
         else if score \<ge> band_low then 1
         else 0)"

lemma band_index_le: "band_index score thr \<le> 3"
  by (simp add: band_index_def Let_def)

text \<open>
  The proposal for one evaluation. The position in the ladder is found by \<open>_LADDER.index\<close>; the
  missing case of that lookup cannot occur here, since the earlier branches returned.
\<close>

definition evaluate_transition ::
  "momentum_state option \<Rightarrow> rat \<Rightarrow> settings \<Rightarrow> (momentum_state \<times> msg) option" where
  "evaluate_transition current score cfg =
     (let trigger_threshold = decision_min_alert_score cfg;
          band_low = trigger_threshold / 3;
          desired_band = band_index score trigger_threshold
      in case current of
           None \<Rightarrow>
             Some (LADDER ! desired_band,
               [Lit ''initial observation: score='', Fix 2 score, Lit '' (band '', IntP (int desired_band), Lit '')''])
         | Some cur \<Rightarrow>
             if cur \<in> {M_EXHAUSTED, M_INVALIDATED} then None
             else if cur \<in> {M_TRIGGERED, M_CONFIRMED} then
               (if score \<ge> trigger_threshold then
                  (if cur = M_TRIGGERED then
                     Some (M_CONFIRMED,
                       [Lit ''still above trigger threshold ('', Fix 2 trigger_threshold,
                        Lit '') on next evaluation: score='', Fix 2 score])
                   else None)
                else
                  Some (M_EXHAUSTED,
                    [Lit ''score fell below trigger threshold ('', Fix 2 trigger_threshold,
                     Lit '') after triggering: score='', Fix 2 score]))
             else if score < band_low then
               Some (M_INVALIDATED,
                 [Lit ''score='', Fix 2 score, Lit '' fell below the setup threshold ('', Fix 2 band_low,
                  Lit '') before triggering''])
             else
               (case index_of cur LADDER of
                  None \<Rightarrow> None
                | Some current_index \<Rightarrow>
                    (let next_index = current_index + 1 in
                     if desired_band \<ge> next_index then
                       (let next_state = LADDER ! next_index in
                        Some (next_state,
                          [Lit ''score='', Fix 2 score, Lit '' supports advancing to '', Lit (state_value next_state)]))
                     else None)))"

definition apply_transition :: "momentum_state option \<Rightarrow> momentum_state \<Rightarrow> py_error + unit" where
  "apply_transition current next_state =
     (case current of
        None \<Rightarrow> Inr ()
      | Some cur \<Rightarrow> if is_valid_transition cur next_state then Inr () else Inl ValueError)"

lemma ladder_cases: "band_index score thr \<in> {0, 1, 2, 3}"
  using band_index_le [of score thr] by auto

text \<open>One case per state: what the next state is, if there is one.\<close>

definition next_state :: "settings \<Rightarrow> momentum_state option \<Rightarrow> rat \<Rightarrow> momentum_state option" where
  "next_state cfg current score = map_option fst (evaluate_transition current score cfg)"

lemma next_state_simps:
  "next_state cfg None x = Some (LADDER ! band_index x (decision_min_alert_score cfg))"
  "next_state cfg (Some M_EXHAUSTED) x = None"
  "next_state cfg (Some M_INVALIDATED) x = None"
  "next_state cfg (Some M_CONFIRMED) x =
     (if decision_min_alert_score cfg \<le> x then None else Some M_EXHAUSTED)"
  "next_state cfg (Some M_TRIGGERED) x =
     (if decision_min_alert_score cfg \<le> x then Some M_CONFIRMED else Some M_EXHAUSTED)"
  "next_state cfg (Some M_SETUP) x =
     (if x < decision_min_alert_score cfg / 3 then Some M_INVALIDATED
      else if 1 \<le> band_index x (decision_min_alert_score cfg) then Some M_WATCH else None)"
  "next_state cfg (Some M_WATCH) x =
     (if x < decision_min_alert_score cfg / 3 then Some M_INVALIDATED
      else if 2 \<le> band_index x (decision_min_alert_score cfg) then Some M_ACTIVATING else None)"
  "next_state cfg (Some M_ACTIVATING) x =
     (if x < decision_min_alert_score cfg / 3 then Some M_INVALIDATED
      else if 3 \<le> band_index x (decision_min_alert_score cfg) then Some M_TRIGGERED else None)"
  by (simp_all add: next_state_def evaluate_transition_def LADDER_def Let_def)

lemma next_state_Some:
  "evaluate_transition cur x cfg = Some (t, r) \<Longrightarrow> next_state cfg cur x = Some t"
  by (simp add: next_state_def)

lemma next_state_valid: "next_state cfg (Some s) x = Some t \<Longrightarrow> is_valid_transition s t"
  by (cases s) (auto simp: next_state_simps is_valid_transition_def ALLOWED_TRANSITIONS_def split: if_splits)

lemma next_state_alert_score:
  "next_state cfg cur x = Some t \<Longrightarrow> t \<in> set ALERT_WORTHY_STATES \<Longrightarrow> decision_min_alert_score cfg \<le> x"
proof (cases cur)
  case None
  assume "next_state cfg cur x = Some t" "t \<in> set ALERT_WORTHY_STATES"
  with None show ?thesis
    by (auto simp: next_state_simps LADDER_def ALERT_WORTHY_STATES_def band_index_def Let_def split: if_splits)
next
  case (Some s)
  assume "next_state cfg cur x = Some t" "t \<in> set ALERT_WORTHY_STATES"
  with Some show ?thesis
    by (cases s) (auto simp: next_state_simps ALERT_WORTHY_STATES_def band_index_def Let_def split: if_splits)
qed

section \<open>Lifecycles\<close>

text \<open>
  A machine whose steps may only move up a linear order: the interface the lifecycle facts need.
  \<open>entered\<close> lists the states entered while a sequence of inputs is processed.
\<close>

fun entered :: "('s option \<Rightarrow> 'i \<Rightarrow> 's option) \<Rightarrow> 's option \<Rightarrow> 'i list \<Rightarrow> 's list" where
  "entered nxt cur [] = []"
| "entered nxt cur (x # xs) =
     (case nxt cur x of None \<Rightarrow> entered nxt cur xs | Some t \<Rightarrow> t # entered nxt (Some t) xs)"

locale ascending_machine =
  fixes nxt :: "'s::linorder option \<Rightarrow> 'i \<Rightarrow> 's option"
    and allowed :: "'s \<Rightarrow> 's \<Rightarrow> bool"
  assumes nxt_allowed: "nxt (Some s) x = Some t \<Longrightarrow> allowed s t"
    and allowed_less: "allowed s t \<Longrightarrow> s < t"
begin

lemma entered_above: "t \<in> set (entered nxt (Some s) xs) \<Longrightarrow> s < t"
proof (induction xs arbitrary: s)
  case (Cons x xs)
  then show ?case
    by (cases "nxt (Some s) x") (auto dest: nxt_allowed allowed_less intro: less_trans)
qed simp

lemma entered_sorted: "sorted_wrt (<) (entered nxt cur xs)"
  by (induction xs arbitrary: cur) (auto split: option.splits dest: entered_above)

lemma entered_distinct: "distinct (entered nxt cur xs)"
  using entered_sorted [of cur xs] by (simp add: strict_sorted_iff)

lemma entered_steps_allowed: "successively allowed (entered nxt (Some s) xs)
    \<and> (entered nxt (Some s) xs \<noteq> [] \<longrightarrow> allowed s (hd (entered nxt (Some s) xs)))"
  by (induction xs arbitrary: s)
    (auto split: option.splits simp: successively_Cons dest: nxt_allowed)

lemma entered_chain: "successively allowed (entered nxt cur xs)"
proof (induction xs arbitrary: cur)
  case (Cons x xs)
  show ?case
    using Cons.IH entered_steps_allowed
    by (cases "nxt cur x") (auto simp: successively_Cons)
qed simp

end

interpretation momentum: ascending_machine "next_state cfg" is_valid_transition for cfg
  by unfold_locales (auto dest: next_state_valid valid_transition_less)

section \<open>Properties\<close>

text \<open>Whatever the settings and the score, a proposed transition passes the guard: the
  defensive check never raises on a transition the machine itself proposes.\<close>

theorem proposal_passes_guard:
  assumes "evaluate_transition current score cfg = Some (next, reason)"
  shows "apply_transition current next = Inr ()"
  using next_state_valid next_state_Some [OF assms]
  by (cases current) (auto simp: apply_transition_def)

theorem proposal_passes_guard_witness:
  "evaluate_transition (Some M_ACTIVATING) 85 default_settings =
     Some (M_TRIGGERED, [Lit ''score='', Fix 2 85, Lit '' supports advancing to '', Lit ''TRIGGERED''])
   \<and> apply_transition (Some M_ACTIVATING) M_TRIGGERED = Inr ()"
proof -
  have e: "evaluate_transition (Some M_ACTIVATING) 85 default_settings =
     Some (M_TRIGGERED, [Lit ''score='', Fix 2 85, Lit '' supports advancing to '', Lit ''TRIGGERED''])"
    by (simp add: evaluate_transition_def default_settings_def band_index_def LADDER_def Let_def)
  show ?thesis using e proposal_passes_guard [OF e] by simp
qed

text \<open>An alert-worthy state is entered only on an evaluation whose score reaches the alert
  threshold, and never by skipping a stage of an existing position.\<close>

theorem alert_states_need_threshold:
  assumes "evaluate_transition current score cfg = Some (next, reason)"
    and "next \<in> set ALERT_WORTHY_STATES"
  shows "decision_min_alert_score cfg \<le> score
    \<and> current \<in> {None, Some M_ACTIVATING, Some M_TRIGGERED}"
proof -
  note n = next_state_Some [OF assms(1)]
  have "current \<in> {None, Some M_ACTIVATING, Some M_TRIGGERED}"
  proof (cases current)
    case (Some s)
    with next_state_valid n have "is_valid_transition s next" by blast
    with assms(2) Some show ?thesis
      by (auto simp: is_valid_transition_def ALLOWED_TRANSITIONS_def ALERT_WORTHY_STATES_def)
  qed simp
  with next_state_alert_score [OF n assms(2)] show ?thesis by simp
qed

theorem alert_states_need_threshold_witness:
  "decision_min_alert_score default_settings \<le> 85
    \<and> Some M_TRIGGERED \<in> {None, Some M_ACTIVATING, Some M_TRIGGERED}"
proof (rule alert_states_need_threshold)
  show "evaluate_transition (Some M_TRIGGERED) 85 default_settings = Some (M_CONFIRMED,
    [Lit ''still above trigger threshold ('', Fix 2 80, Lit '') on next evaluation: score='', Fix 2 85])"
    by (simp add: evaluate_transition_def default_settings_def Let_def)
  show "M_CONFIRMED \<in> set ALERT_WORTHY_STATES" by (simp add: ALERT_WORTHY_STATES_def)
qed


end
