(* ===== verification/Momentum_Engine.thy ===== *)
theory Momentum_Engine
  imports Market_Store Alert_Manager Momentum_Machine
begin

text \<open>
  The engine around the momentum state machine: app/models/momentum_state.py and
  momentum_state_transition.py, app/repositories/momentum_state_repository.py and
  app/momentum/momentum_engine.py. One evaluation reads the symbol's position, asks the machine for
  a transition, stores it, and hands a decision to the alert manager when the new state calls for one.
\<close>

section \<open>Tables\<close>

record momentum_row =
  ms_symbol_id :: int
  ms_state :: string
  ms_score :: rat
  ms_reason :: msg
  ms_evidence :: metadata
  ms_entered_at :: pydatetime

record transition_row =
  mt_id :: int
  mt_symbol_id :: int
  mt_from_state :: "string option"
  mt_to_state :: string
  mt_timestamp :: pydatetime
  mt_reason :: msg
  mt_score :: rat
  mt_evidence :: metadata

record momentum_store = market_store +
  momentum_states :: "momentum_row list"
  transitions :: "transition_row list"
  next_transition_id :: int

section \<open>Repository\<close>

definition get_current :: "int \<Rightarrow> 'x momentum_store_scheme \<Rightarrow> momentum_row option" where
  "get_current symbol_id s = lookup_by ms_symbol_id symbol_id (momentum_states s)"

definition assign_momentum :: "state_transition \<Rightarrow> momentum_row \<Rightarrow> momentum_row" where
  "assign_momentum t r =
     r\<lparr>ms_state := state_value (tr_to_state t), ms_score := tr_score t, ms_reason := tr_reason t,
       ms_evidence := tr_evidence t, ms_entered_at := tr_timestamp t\<rparr>"

definition new_momentum :: "int \<Rightarrow> state_transition \<Rightarrow> momentum_row" where
  "new_momentum symbol_id t =
     \<lparr>ms_symbol_id = symbol_id, ms_state = [], ms_score = 0, ms_reason = [], ms_evidence = [],
      ms_entered_at = tr_timestamp t\<rparr>"

definition put_momentum :: "int \<times> state_transition \<Rightarrow> momentum_row list \<Rightarrow> momentum_row list" where
  "put_momentum v rows =
     upsert_by ms_symbol_id (fst v) (new_momentum (fst v) (snd v)) (assign_momentum (snd v)) rows"

definition transition_of :: "int \<Rightarrow> int \<Rightarrow> state_transition \<Rightarrow> transition_row" where
  "transition_of i symbol_id t =
     \<lparr>mt_id = i, mt_symbol_id = symbol_id, mt_from_state = map_option state_value (tr_from_state t),
      mt_to_state = state_value (tr_to_state t), mt_timestamp = tr_timestamp t, mt_reason = tr_reason t,
      mt_score = tr_score t, mt_evidence = tr_evidence t\<rparr>"

definition store_transition ::
  "int \<Rightarrow> state_transition \<Rightarrow> 'x momentum_store_scheme \<Rightarrow> int \<times> 'x momentum_store_scheme" where
  "store_transition symbol_id t s =
     (next_transition_id s,
      s\<lparr>transitions := transitions s @ [transition_of (next_transition_id s) symbol_id t],
        next_transition_id := next_transition_id s + 1,
        momentum_states := put_momentum (symbol_id, t) (momentum_states s)\<rparr>)"

definition state_of :: "momentum_row option \<Rightarrow> py_error + momentum_state option" where
  "state_of row =
     (case row of
        None \<Rightarrow> Inr None
      | Some r \<Rightarrow> (case state_of_value (ms_state r) of Inl e \<Rightarrow> Inl e | Inr st \<Rightarrow> Inr (Some st)))"

definition list_by_states :: "momentum_state list \<Rightarrow> nat \<Rightarrow> 'x momentum_store_scheme \<Rightarrow> momentum_row list" where
  "list_by_states states limit s =
     take limit (sort_key (\<lambda>r. - ms_score r)
       (filter (\<lambda>r. ms_state r \<in> set (map state_value states)) (momentum_states s)))"

text \<open>The instant of a stored timestamp.\<close>

fun instant_of :: "pydatetime \<Rightarrow> int" where
  "instant_of (Aware w off) = w - off"
| "instant_of (Naive w) = w"

definition count_transitions_since :: "int \<Rightarrow> momentum_state list \<Rightarrow> 'x momentum_store_scheme \<Rightarrow> nat" where
  "count_transitions_since since states s =
     length (filter (\<lambda>r. since \<le> instant_of (mt_timestamp r) \<and> mt_to_state r \<in> set (map state_value states)) (transitions s))"

interpretation momentum_table: upsert_table ms_symbol_id put_momentum fst
    "\<lambda>r v. assign_momentum (snd v) (case r of None \<Rightarrow> new_momentum (fst v) (snd v) | Some r \<Rightarrow> r)"
  by unfold_locales
    (simp_all only: put_momentum_def, (subst lookup_upsert keys_upsert; simp add: assign_momentum_def new_momentum_def)+)

section \<open>The engine\<close>

record momentum_result =
  me_transition :: "state_transition option"
  me_alert_id :: "int option"
  me_transition_id :: "int option"

definition no_transition :: momentum_result where
  "no_transition = \<lparr>me_transition = None, me_alert_id = None, me_transition_id = None\<rparr>"

definition transition_decision :: "settings \<Rightarrow> string \<Rightarrow> state_transition \<Rightarrow> decision_result" where
  "transition_decision cfg symbol t =
     \<lparr>dr_symbol = symbol, dr_scanner_name = MOMENTUM_SCANNER_NAME,
      dr_signal_type = state_value (tr_to_state t), dr_decision = D_ALERT, dr_score = tr_score t,
      dr_quality = Some (if tr_score t \<ge> alert_high_priority_score cfg then HIGH else MEDIUM),
      dr_passed_rules = [tr_reason t], dr_failed_rules = [], dr_warnings = [],
      dr_feature_snapshot =
        [''momentum_state'' \<mapsto> PyStr (state_value (tr_to_state t)),
         ''from_state'' \<mapsto> (case tr_from_state t of None \<Rightarrow> PyNone | Some f \<Rightarrow> PyStr (state_value f)),
         ''reason'' \<mapsto> PyMsg (tr_reason t),
         ''evidence'' \<mapsto> PyDict (tr_evidence t),
         ''date'' \<mapsto> PyStr (isoformat (date_of (to_market_time (tr_timestamp t) (market_timezone cfg))))],
      dr_timestamp = tr_timestamp t, dr_rule_results = []\<rparr>"

definition raise_alert ::
  "runtime \<Rightarrow> settings \<Rightarrow> string \<Rightarrow> int \<Rightarrow> int \<Rightarrow> state_transition \<Rightarrow> 'x momentum_store_scheme
     \<Rightarrow> (py_error + int option) \<times> 'x momentum_store_scheme" where
  "raise_alert rt cfg symbol symbol_id moment t s =
     process rt cfg (transition_decision cfg symbol t) symbol_id (Some moment) s"

definition momentum_evaluate ::
  "runtime \<Rightarrow> settings \<Rightarrow> string \<Rightarrow> rat \<Rightarrow> metadata \<Rightarrow> int option \<Rightarrow> 'x momentum_store_scheme
     \<Rightarrow> (py_error + momentum_result) \<times> 'x momentum_store_scheme" where
  "momentum_evaluate rt cfg symbol score evidence now s =
     (let moment = opt_else now (clock rt) in
      case get_by_symbol symbol None s of
        None \<Rightarrow> (Inr no_transition, s)
      | Some symbol_row \<Rightarrow>
         (case state_of (get_current (sy_id symbol_row) s) of
            Inl e \<Rightarrow> (Inl e, s)
          | Inr current_state \<Rightarrow>
             (case evaluate_transition current_state score cfg of
                None \<Rightarrow> (Inr no_transition, s)
              | Some (next_st, reason) \<Rightarrow>
                 (case apply_transition current_state next_st of
                    Inl e \<Rightarrow> (Inl e, s)
                  | Inr _ \<Rightarrow>
                     (let t = \<lparr>tr_symbol = symbol, tr_from_state = current_state, tr_to_state = next_st,
                               tr_timestamp = utc_dt moment, tr_reason = reason, tr_score = score,
                               tr_evidence = evidence\<rparr>;
                          (transition_id, s1) = store_transition (sy_id symbol_row) t s
                      in if next_st \<in> set ALERT_WORTHY_STATES then
                           (case raise_alert rt cfg symbol (sy_id symbol_row) moment t s1 of
                              (Inl e, s2) \<Rightarrow> (Inl e, s2)
                            | (Inr alert_id, s2) \<Rightarrow>
                                (Inr \<lparr>me_transition = Some t, me_alert_id = alert_id,
                                      me_transition_id = Some transition_id\<rparr>, s2))
                         else (Inr \<lparr>me_transition = Some t, me_alert_id = None,
                                    me_transition_id = Some transition_id\<rparr>, s1))))))"

section \<open>What the alert manager leaves alone\<close>

lemma store_frame:
  fixes s :: "'x momentum_store_scheme"
  shows "momentum_states (log_event i ty m s) = momentum_states s" "transitions (log_event i ty m s) = transitions s"
    "momentum_states (ping_run t w d s) = momentum_states s" "transitions (ping_run t w d s) = transitions s"
    "momentum_states (ping_success t w d s) = momentum_states s" "transitions (ping_success t w d s) = transitions s"
    "momentum_states (snd (create_alert a s)) = momentum_states s" "transitions (snd (create_alert a s)) = transitions s"
    "next_transition_id (log_event i ty m s) = next_transition_id s"
    "next_transition_id (ping_run t w d s) = next_transition_id s"
    "next_transition_id (ping_success t w d s) = next_transition_id s"
    "next_transition_id (snd (create_alert a s)) = next_transition_id s"
    "symbols (log_event i ty m s) = symbols s" "symbols (ping_run t w d s) = symbols s"
    "symbols (ping_success t w d s) = symbols s" "symbols (snd (create_alert a s)) = symbols s"
  by (simp_all add: log_event_def ping_run_def ping_success_def create_alert_def Let_def)

lemma log_suppressed_frame:
  fixes s :: "'x momentum_store_scheme"
  shows "momentum_states (log_suppressed c r s) = momentum_states s"
    "transitions (log_suppressed c r s) = transitions s"
    "next_transition_id (log_suppressed c r s) = next_transition_id s"
    "symbols (log_suppressed c r s) = symbols s"
  by (simp_all add: log_suppressed_def store_frame split: option.split)

lemma process_frame:
  fixes s :: "'x momentum_store_scheme"
  shows "momentum_states (snd (process rt cfg d y now s)) = momentum_states s"
    "transitions (snd (process rt cfg d y now s)) = transitions s"
    "next_transition_id (snd (process rt cfg d y now s)) = next_transition_id s"
    "symbols (snd (process rt cfg d y now s)) = symbols s"
  by (auto simp: process_def process_impl_def Let_def split_beta store_frame log_suppressed_frame
      split: option.splits)

section \<open>Positions and histories\<close>

definition history :: "int \<Rightarrow> 'x momentum_store_scheme \<Rightarrow> string list" where
  "history i s = map mt_to_state (filter (\<lambda>r. mt_symbol_id r = i) (transitions s))"

text \<open>A symbol's stored position is the end of its logged history, and the history is a legal path.\<close>

definition position_ok :: "int \<Rightarrow> 'x momentum_store_scheme \<Rightarrow> momentum_state list \<Rightarrow> bool" where
  "position_ok i s sts \<longleftrightarrow> history i s = map state_value sts \<and> successively is_valid_transition sts
     \<and> (case get_current i s of None \<Rightarrow> sts = [] | Some r \<Rightarrow> sts \<noteq> [] \<and> ms_state r = state_value (last sts))"

definition momentum_inv :: "'x momentum_store_scheme \<Rightarrow> bool" where
  "momentum_inv s \<longleftrightarrow> distinct (map ms_symbol_id (momentum_states s)) \<and> (\<forall>i. \<exists>sts. position_ok i s sts)"

lemma momentum_inv_frame:
  "momentum_states t = momentum_states s \<Longrightarrow> transitions t = transitions s \<Longrightarrow> momentum_inv t = momentum_inv s"
  by (simp add: momentum_inv_def position_ok_def history_def get_current_def)

text \<open>The current position read back from the table.\<close>

lemma state_of_current:
  assumes "position_ok i s sts"
  shows "state_of (get_current i s) = Inr (if sts = [] then None else Some (last sts))"
  using assms by (auto simp: position_ok_def state_of_def split: option.splits)

lemma store_transition_simps:
  "momentum_states (snd (store_transition i t s)) = put_momentum (i, t) (momentum_states s)"
  "transitions (snd (store_transition i t s)) = transitions s @ [transition_of (next_transition_id s) i t]"
  "next_transition_id (snd (store_transition i t s)) = next_transition_id s + 1"
  "fst (store_transition i t s) = next_transition_id s"
  "symbols (snd (store_transition i t s)) = symbols s"
  by (simp_all add: store_transition_def)

lemma store_transition_inv:
  assumes inv: "momentum_inv s" and ok: "position_ok i s sts"
    and legal: "sts \<noteq> [] \<longrightarrow> is_valid_transition (last sts) (tr_to_state t)"
  shows "momentum_inv (snd (store_transition i t s))"
proof -
  let ?s = "snd (store_transition i t s)"
  have own: "position_ok i ?s (sts @ [tr_to_state t])"
    using ok legal
    by (auto simp: position_ok_def history_def store_transition_simps transition_of_def get_current_def
        momentum_table.lookup_put assign_momentum_def successively_append_iff split: option.splits)
  have "\<exists>sts. position_ok j ?s sts" if "j \<noteq> i" for j
  proof -
    from inv obtain u where "position_ok j s u" by (auto simp: momentum_inv_def)
    with that have "position_ok j ?s u"
      by (simp add: position_ok_def history_def store_transition_simps transition_of_def get_current_def
          momentum_table.lookup_put)
    then show ?thesis ..
  qed
  with own have "\<forall>j. \<exists>sts. position_ok j ?s sts" by metis
  with inv show ?thesis
    by (simp add: momentum_inv_def store_transition_simps momentum_table.distinct_put)
qed

text \<open>One evaluation, case by case.\<close>

lemma momentum_evaluate_cases:
  assumes inv: "momentum_inv s"
  obtains (unknown) "get_by_symbol symbol None s = None"
      "momentum_evaluate rt cfg symbol score ev now s = (Inr no_transition, s)"
    | (stay) y sts where "get_by_symbol symbol None s = Some y" "position_ok (sy_id y) s sts"
      "evaluate_transition (if sts = [] then None else Some (last sts)) score cfg = None"
      "momentum_evaluate rt cfg symbol score ev now s = (Inr no_transition, s)"
    | (move) y sts t r where "get_by_symbol symbol None s = Some y" "position_ok (sy_id y) s sts"
      "evaluate_transition (if sts = [] then None else Some (last sts)) score cfg = Some (tr_to_state t, tr_reason t)"
      "tr_from_state t = (if sts = [] then None else Some (last sts))" "tr_score t = score"
      "momentum_evaluate rt cfg symbol score ev now s =
        (let s1 = snd (store_transition (sy_id y) t s);
             out = raise_alert rt cfg symbol (sy_id y) (opt_else now (clock rt)) t s1
         in if tr_to_state t \<in> set ALERT_WORTHY_STATES then (Inr r, snd out) else (Inr r, s1))"
      "me_transition r = Some t" "me_transition_id r = Some (next_transition_id s)"
      "me_alert_id r \<noteq> None \<longrightarrow> tr_to_state t \<in> set ALERT_WORTHY_STATES"
      "tr_timestamp t = utc_dt (opt_else now (clock rt))"
      "tr_to_state t \<in> set ALERT_WORTHY_STATES \<longrightarrow>
        fst (raise_alert rt cfg symbol (sy_id y) (opt_else now (clock rt)) t (snd (store_transition (sy_id y) t s)))
          = Inr (me_alert_id r)"
proof (cases "get_by_symbol symbol None s")
  case None
  then show ?thesis by (intro unknown) (simp_all add: momentum_evaluate_def Let_def)
next
  case (Some y)
  from inv obtain sts where ok: "position_ok (sy_id y) s sts" by (auto simp: momentum_inv_def)
  note cur = state_of_current [OF ok]
  let ?c = "if sts = [] then None else Some (last sts)"
  show ?thesis
  proof (cases "evaluate_transition ?c score cfg")
    case None
    with Some ok cur show ?thesis by (intro stay) (simp_all add: momentum_evaluate_def Let_def)
  next
    case nxt: (Some p)
    obtain n r where p: "p = (n, r)" by (cases p)
    define t where "t = \<lparr>tr_symbol = symbol, tr_from_state = ?c, tr_to_state = n,
      tr_timestamp = utc_dt (opt_else now (clock rt)), tr_reason = r, tr_score = score, tr_evidence = ev\<rparr>"
    let ?s1 = "snd (store_transition (sy_id y) t s)"
    let ?out = "raise_alert rt cfg symbol (sy_id y) (opt_else now (clock rt)) t ?s1"
    have ap: "apply_transition ?c n = Inr ()"
      using next_state_valid [of cfg "last sts" score n] next_state_Some [of ?c score cfg n r] nxt p
      by (cases "sts = []") (simp_all add: apply_transition_def)
    obtain a where a: "fst ?out = Inr a"
      unfolding raise_alert_def using process_no_error by (metis decision_result.select_convs(6) option.distinct(1) transition_decision_def)
    have e: "momentum_evaluate rt cfg symbol score ev now s =
        (if n \<in> set ALERT_WORTHY_STATES
         then (Inr \<lparr>me_transition = Some t, me_alert_id = a, me_transition_id = Some (next_transition_id s)\<rparr>, snd ?out)
         else (Inr \<lparr>me_transition = Some t, me_alert_id = None, me_transition_id = Some (next_transition_id s)\<rparr>, ?s1))"
      using Some cur nxt p ap a
      by (cases "store_transition (sy_id y) t s"; cases ?out)
        (auto simp: momentum_evaluate_def Let_def t_def [symmetric] store_transition_def)
    show ?thesis
      by (rule move [OF Some ok, of t "\<lparr>me_transition = Some t,
            me_alert_id = (if n \<in> set ALERT_WORTHY_STATES then a else None),
            me_transition_id = Some (next_transition_id s)\<rparr>"])
        (use nxt p e a in \<open>auto simp: t_def\<close>)
  qed
qed

lemma momentum_evaluate_inv:
  assumes "momentum_inv s"
  shows "momentum_inv (snd (momentum_evaluate rt cfg symbol score ev now s))"
  using assms
proof (cases rule: momentum_evaluate_cases [where rt = rt and cfg = cfg and symbol = symbol
      and score = score and ev = ev and now = now])
  case (move y sts t r)
  have "sts \<noteq> [] \<longrightarrow> is_valid_transition (last sts) (tr_to_state t)"
    using next_state_valid next_state_Some [OF move(3)] by auto
  from store_transition_inv [OF assms move(2) this] move(6) show ?thesis
    by (auto simp: Let_def raise_alert_def momentum_inv_frame [OF process_frame(1,2)])
qed (use assms in simp_all)

section \<open>Runs of evaluations\<close>

record evaluation_request =
  eq_symbol :: string
  eq_score :: rat
  eq_evidence :: metadata
  eq_now :: "int option"

definition run_evaluations ::
  "runtime \<Rightarrow> settings \<Rightarrow> evaluation_request list \<Rightarrow> 'x momentum_store_scheme \<Rightarrow> 'x momentum_store_scheme" where
  "run_evaluations rt cfg reqs s =
     fold (\<lambda>q u. snd (momentum_evaluate rt cfg (eq_symbol q) (eq_score q) (eq_evidence q) (eq_now q) u)) reqs s"

lemma run_evaluations_inv: "momentum_inv s \<Longrightarrow> momentum_inv (run_evaluations rt cfg reqs s)"
  unfolding run_evaluations_def by (induction reqs arbitrary: s) (simp_all add: momentum_evaluate_inv)

definition fresh_momentum :: "'x momentum_store_scheme \<Rightarrow> bool" where
  "fresh_momentum s \<longleftrightarrow> momentum_states s = [] \<and> transitions s = []"

lemma fresh_momentum_inv: "fresh_momentum s \<Longrightarrow> momentum_inv s"
  by (auto simp: fresh_momentum_def momentum_inv_def position_ok_def history_def get_current_def lookup_by_def
      intro!: exI [of _ "[]"])

lemma ascending_path: "successively is_valid_transition sts \<Longrightarrow> sorted_wrt (<) sts"
  using successively_mono [of is_valid_transition sts "(<)"] valid_transition_less
  by (metis successively_conv_sorted_wrt transp_on_less)

text \<open>C6: Starting from empty momentum tables, after any sequence of evaluations every symbol has one
  position, the position is the last state of its logged history, and the history is a strictly ascending
  path of allowed transitions: no state is logged twice and at most two entries can raise an alert.\<close>

theorem momentum_history_legal:
  assumes "fresh_momentum s"
  shows "\<exists>sts. history i (run_evaluations rt cfg reqs s) = map state_value sts
     \<and> successively is_valid_transition sts \<and> sorted_wrt (<) sts
     \<and> length (filter (\<lambda>st. st \<in> set ALERT_WORTHY_STATES) sts) \<le> 2
     \<and> map_option ms_state (get_current i (run_evaluations rt cfg reqs s)) =
         (if sts = [] then None else Some (state_value (last sts)))"
proof -
  have "momentum_inv (run_evaluations rt cfg reqs s)" by (rule run_evaluations_inv [OF fresh_momentum_inv [OF assms]])
  then obtain sts where ok: "position_ok i (run_evaluations rt cfg reqs s) sts"
    unfolding momentum_inv_def by blast
  then have v: "successively is_valid_transition sts" by (simp add: position_ok_def)
  have "distinct (filter (\<lambda>st. st \<in> set ALERT_WORTHY_STATES) sts)"
    using ascending_path [OF v] by (simp add: strict_sorted_iff)
  then have "length (filter (\<lambda>st. st \<in> set ALERT_WORTHY_STATES) sts) \<le> card (set ALERT_WORTHY_STATES)"
    by (metis (no_types, lifting) List.finite_set card_mono distinct_card filter_is_subset set_filter mem_Collect_eq subsetI)
  then show ?thesis
    using ok v ascending_path [OF v]
    by (intro exI [of _ sts]) (auto simp: position_ok_def ALERT_WORTHY_STATES_def split: option.splits)
qed

definition demo_momentum :: momentum_store where
  "demo_momentum = market_store.extend (empty_market 0\<lparr>symbols := put_symbol (1, sample_listing ''NSE'') []\<rparr>)
     (momentum_store.fields [] [] 1)"

theorem momentum_history_legal_witness:
  "\<exists>sts. history 1 (run_evaluations demo_runtime default_settings
       [\<lparr>eq_symbol = ''INFY'', eq_score = 85, eq_evidence = [], eq_now = None\<rparr>] demo_momentum) = map state_value sts
     \<and> sorted_wrt (<) sts"
  using momentum_history_legal [of demo_momentum 1 demo_runtime default_settings
      "[\<lparr>eq_symbol = ''INFY'', eq_score = 85, eq_evidence = [], eq_now = None\<rparr>]"]
  by (auto simp: fresh_momentum_def demo_momentum_def market_store.defs momentum_store.defs)

text \<open>On consistent tables an evaluation never raises; it reports a transition exactly when it logs one,
  an alert only for a transition into TRIGGERED or CONFIRMED with a score at the alert threshold, and a
  symbol outside the symbols table or a machine that stays put leaves every table untouched.\<close>

theorem momentum_evaluation_sound:
  assumes "momentum_inv s"
  shows "case momentum_evaluate rt cfg symbol score ev now s of
      (Inl _, _) \<Rightarrow> False
    | (Inr r, s') \<Rightarrow>
        (case me_transition r of
           None \<Rightarrow> s' = s \<and> me_alert_id r = None \<and> me_transition_id r = None
         | Some t \<Rightarrow>
             (\<exists>y. get_by_symbol symbol None s = Some y
                \<and> transitions s' = transitions s @ [transition_of (next_transition_id s) (sy_id y) t])
           \<and> me_transition_id r = Some (next_transition_id s) \<and> tr_score t = score
           \<and> (tr_to_state t \<in> set ALERT_WORTHY_STATES \<longrightarrow> decision_min_alert_score cfg \<le> score)
           \<and> (me_alert_id r \<noteq> None \<longrightarrow> tr_to_state t \<in> set ALERT_WORTHY_STATES))"
  using assms
proof (cases rule: momentum_evaluate_cases [where rt = rt and cfg = cfg and symbol = symbol
      and score = score and ev = ev and now = now])
  case (move y sts t r)
  note thr = next_state_alert_score [OF next_state_Some [OF move(3)]]
  show ?thesis
    unfolding move(6) Let_def using move(1,5,7,8,9) thr
    by (auto simp: raise_alert_def process_frame store_transition_simps split: if_splits)
qed (simp_all add: no_transition_def)

theorem momentum_evaluation_sound_witness:
  "\<exists>r. fst (momentum_evaluate demo_runtime default_settings ''INFY'' 85 [] None demo_momentum) = Inr r"
  using momentum_evaluation_sound 
      [where s = demo_momentum and symbol = "''INFY''" and rt = demo_runtime and cfg = default_settings and score = 85
        and ev = "[]" and now = None]
    fresh_momentum_inv [of demo_momentum]
  by (auto simp: fresh_momentum_def demo_momentum_def market_store.defs momentum_store.defs split: prod.splits sum.splits)

end
