(* ===== verification/Decimal_Text.thy ===== *)
theory Decimal_Text
  imports Prelude
begin

text \<open>
  The text of a database decimal: \<open>str(value)\<close> of a \<open>Decimal\<close> read from a column with a fixed number of
  fraction digits, as the feature snapshots store it, and the proof that \<open>float\<close> reads the same number
  back. Scanners write snapshots with the one, the decision rules read them with the other.
\<close>

definition digit_char :: "nat \<Rightarrow> char" where
  "digit_char d = char_of (48 + d)"

fun pad_digits :: "nat \<Rightarrow> nat \<Rightarrow> string" where
  "pad_digits 0 k = []"
| "pad_digits (Suc n) k = pad_digits n (k div 10) @ [digit_char (k mod 10)]"

definition nat_text :: "nat \<Rightarrow> nat \<Rightarrow> string" where
  "nat_text n k = str_nat (k div 10 ^ n) @ (if n = 0 then [] else CHR ''.'' # pad_digits n (k mod 10 ^ n))"

definition dec_str :: "nat \<Rightarrow> rat \<Rightarrow> string" where
  "dec_str n x =
     (let m = \<lfloor>x * 10 ^ n\<rfloor>
      in if m < 0 then CHR ''-'' # nat_text n (nat (- m)) else nat_text n (nat m))"

section \<open>Reading digits\<close>

lemma digit_value_char: "d < 10 \<Longrightarrow> digit_value (digit_char d) = Some d"
  by (simp add: digit_value_def digit_char_def of_char_of take_bit_eq_mod)

lemma digits_value_snoc: "digits_value (ds @ [d]) = 10 * digits_value ds + int d"
  by (simp add: digits_value_def)

definition all_digits :: "string \<Rightarrow> bool" where
  "all_digits s \<longleftrightarrow> (\<forall>c \<in> set s. digit_value c \<noteq> None)"

definition digit_values :: "string \<Rightarrow> nat list" where
  "digit_values s = map (\<lambda>c. the (digit_value c)) s"

lemma take_digits_append:
  "all_digits s \<Longrightarrow> (case rest of [] \<Rightarrow> True | c # _ \<Rightarrow> digit_value c = None)
     \<Longrightarrow> take_digits (s @ rest) = (digit_values s, rest)"
proof (induction s)
  case Nil
  then show ?case by (cases rest) (simp_all add: digit_values_def)
next
  case (Cons c s)
  then show ?case by (auto simp: all_digits_def digit_values_def)
qed

lemma str_nat_digits: "all_digits (str_nat k) \<and> digits_value (digit_values (str_nat k)) = int k \<and> str_nat k \<noteq> []"
proof (induction k rule: str_nat.induct)
  case (1 k)
  have one: "digit_value (char_of (48 + d)) = Some d" if "d < 10" for d
    using digit_value_char [OF that] by (simp add: digit_char_def)
  show ?case
  proof (cases "k < 10")
    case True
    then show ?thesis using one [of k]
      by (subst str_nat.simps, subst str_nat.simps, subst str_nat.simps)
        (simp add: all_digits_def digit_values_def digits_value_def)
  next
    case False
    let ?h = "str_nat (k div 10)"
    have e: "str_nat k = ?h @ [char_of (48 + k mod 10)]" using False by (subst str_nat.simps) simp
    have d: "digit_values (str_nat k) = digit_values ?h @ [k mod 10]"
      unfolding e using one [of "k mod 10"] by (simp add: digit_values_def)
    have "int (k div 10) * 10 + int (k mod 10) = int k"
      by (metis div_mult_mod_eq of_nat_add of_nat_mult of_nat_numeral)
    then have "digits_value (digit_values (str_nat k)) = int k"
      unfolding d digits_value_snoc using 1 [OF False] by linarith
    moreover have "all_digits (str_nat k)" unfolding e using 1 [OF False] one [of "k mod 10"] by (simp add: all_digits_def)
    ultimately show ?thesis unfolding e by simp
  qed
qed

lemma pad_digits:
  "all_digits (pad_digits n k) \<and> length (digit_values (pad_digits n k)) = n
   \<and> (k < 10 ^ n \<longrightarrow> digits_value (ds @ digit_values (pad_digits n k)) = digits_value ds * 10 ^ n + int k)"
proof (induction n arbitrary: k)
  case 0
  then show ?case by (simp add: all_digits_def digit_values_def)
next
  case (Suc n)
  have one: "digit_value (digit_char (k mod 10)) = Some (k mod 10)" by (rule digit_value_char) simp
  have v: "digit_values (pad_digits (Suc n) k) = digit_values (pad_digits n (k div 10)) @ [k mod 10]"
    using one by (simp add: digit_values_def)
  have "digits_value (ds @ digit_values (pad_digits (Suc n) k)) = digits_value ds * 10 ^ Suc n + int k"
    if "k < 10 ^ Suc n"
  proof -
    have "k div 10 < 10 ^ n" using that by (simp add: less_mult_imp_div_less mult.commute)
    with Suc.IH have "digits_value (ds @ digit_values (pad_digits n (k div 10))) = digits_value ds * 10 ^ n + int (k div 10)"
      by blast
    moreover have "int (k div 10) * 10 + int (k mod 10) = int k"
      by (metis div_mult_mod_eq of_nat_add of_nat_mult of_nat_numeral)
    ultimately show ?thesis
      unfolding v append_assoc [symmetric] digits_value_snoc by (simp add: algebra_simps)
  qed
  with Suc.IH [of "k div 10"] v one show ?case by (auto simp: all_digits_def)
qed

section \<open>Round trip\<close>

lemma float_of_nat_text:
  "float_of_string (nat_text n k) = Some (of_nat k / 10 ^ n)
   \<and> float_of_string (CHR ''-'' # nat_text n k) = Some (- (of_nat k / 10 ^ n))"
proof -
  let ?w = "str_nat (k div 10 ^ n)" and ?f = "pad_digits n (k mod 10 ^ n)"
  note w = str_nat_digits [of "k div 10 ^ n"]
  note f = pad_digits [of n "k mod 10 ^ n" "digit_values ?w"]
  obtain c cs where hd: "?w = c # cs" "digit_value c \<noteq> None" using w by (cases ?w) (auto simp: all_digits_def)
  have sign: "c \<noteq> CHR ''-''" "c \<noteq> CHR ''+''" using hd(2) by (auto simp: digit_value_def)
  have strip: "strip_sign (nat_text n k) = (False, nat_text n k)"
    using sign by (simp add: nat_text_def strip_sign_def hd(1))
  have strip': "strip_sign (CHR ''-'' # nat_text n k) = (True, nat_text n k)" by (simp add: strip_sign_def)
  have wv: "digit_values ?w \<noteq> []" using w by (simp add: digit_values_def)
  have k: "int (k div 10 ^ n) * 10 ^ n + int (k mod 10 ^ n) = int k"
  proof -
    have "int (k div 10 ^ n * 10 ^ n + k mod 10 ^ n) = int k" by (simp only: div_mult_mod_eq)
    then show ?thesis by (simp only: of_nat_add of_nat_mult of_nat_power of_nat_numeral)
  qed
  have body: "take_digits (nat_text n k) =
      (digit_values ?w, if n = 0 then [] else CHR ''.'' # ?f)"
    using take_digits_append [of ?w "if n = 0 then [] else CHR ''.'' # ?f"] w
    by (simp add: nat_text_def digit_value_def)
  have frac: "take_digits ?f = (digit_values ?f, [])"
    using take_digits_append [of ?f "[]"] f by simp
  have num: "digits_value (digit_values ?w @ digit_values ?f) = int k"
    using f w k by simp
  have pow: "pow10 (- int n) = 1 / 10 ^ n" by (simp add: pow10_def)
  have len: "length (digit_values ?f) = n" using f by blast
  show ?thesis
  proof (cases "n = 0")
    case True
    then show ?thesis using strip strip' body wv w by (simp add: float_of_string_def exponent_of_def pow10_def)
  next
    case False
    then show ?thesis
      by (simp add: float_of_string_def exponent_of_def strip strip' body wv frac num pow len)
  qed
qed

text \<open>The text of a decimal with \<open>n\<close> fraction digits is read back by \<open>float\<close> as the same number, for
  every sign and magnitude.\<close>

theorem decimal_text_roundtrip:
  assumes "x = of_int m / 10 ^ n"
  shows "float_of_string (dec_str n x) = Some x"
proof -
  have m: "\<lfloor>x * 10 ^ n\<rfloor> = m" using assms by simp
  show ?thesis
  proof (cases "m < 0")
    case True
    then have "(of_nat (nat (- m)) :: rat) = - of_int m" by (simp add: of_nat_nat)
    with True m assms float_of_nat_text [of n "nat (- m)"] show ?thesis by (simp add: dec_str_def)
  next
    case False
    then have "(of_nat (nat m) :: rat) = of_int m" by (simp add: of_nat_nat)
    with False m assms float_of_nat_text [of n "nat m"] show ?thesis by (simp add: dec_str_def)
  qed
qed

theorem decimal_text_roundtrip_witness:
  "dec_str 4 (-3/8) = ''-0.3750'' \<and> float_of_string (dec_str 4 (-3/8)) = Some (-3/8)"
proof -
  have "float_of_string (dec_str 4 (-3/8)) = Some (-3/8)"
    by (rule decimal_text_roundtrip [of _ "-3750"]) simp
  moreover have "dec_str 4 (-3/8) = ''-0.3750''" by code_simp
  ultimately show ?thesis by simp
qed

end
