(* ===== verification/Feature_Store.thy ===== *)
theory Feature_Store
  imports Momentum_Engine Decimal_Text Decision_Rules
begin

text \<open>
  Computed features: app/models/daily_feature.py and session_feature.py,
  app/repositories/feature_repository.py, and the freshness check app/health/freshness.py. A feature
  row holds its columns as a mapping from column name to value, with the table's columns and their
  types listed as in the model. \<open>updated_at\<close> is left out.
\<close>

section \<open>Columns\<close>

datatype column_type = C_Dec nat | C_Int | C_Bool | C_Str

definition DAILY_FEATURE_COLUMNS :: "(string \<times> column_type) list" where
  "DAILY_FEATURE_COLUMNS =
     [(''ema20'', C_Dec 4), (''ema50'', C_Dec 4), (''ema200'', C_Dec 4), (''sma20'', C_Dec 4),
      (''trend_direction'', C_Str), (''trend_strength'', C_Dec 2), (''golden_cross'', C_Bool),
      (''death_cross'', C_Bool), (''rsi14'', C_Dec 2), (''macd_line'', C_Dec 4),
      (''macd_signal'', C_Dec 4), (''macd_histogram'', C_Dec 4), (''adx14'', C_Dec 2),
      (''plus_di14'', C_Dec 2), (''minus_di14'', C_Dec 2), (''momentum_score'', C_Dec 2),
      (''atr14'', C_Dec 4), (''atr_expansion'', C_Bool), (''atr_contraction'', C_Bool),
      (''bb_upper'', C_Dec 4), (''bb_middle'', C_Dec 4), (''bb_lower'', C_Dec 4),
      (''bb_width'', C_Dec 4), (''kc_upper'', C_Dec 4), (''kc_middle'', C_Dec 4),
      (''kc_lower'', C_Dec 4), (''volatility_squeeze'', C_Bool), (''volume_ma20'', C_Int),
      (''relative_volume'', C_Dec 4), (''obv'', C_Dec 4), (''volume_spike'', C_Bool),
      (''volume_dry_up'', C_Bool), (''accumulation_score'', C_Dec 2),
      (''distribution_score'', C_Dec 2), (''higher_high'', C_Bool), (''higher_low'', C_Bool),
      (''lower_high'', C_Bool), (''lower_low'', C_Bool), (''break_of_structure'', C_Str),
      (''inside_bar'', C_Bool), (''outside_bar'', C_Bool), (''gap_up'', C_Bool),
      (''gap_down'', C_Bool), (''nr4'', C_Bool), (''nr7'', C_Bool), (''swing_high'', C_Dec 4),
      (''swing_low'', C_Dec 4), (''trend_channel_upper'', C_Dec 4),
      (''trend_channel_lower'', C_Dec 4), (''is_range'', C_Bool), (''is_consolidation'', C_Bool),
      (''base_length_days'', C_Int), (''range_width_pct'', C_Dec 4), (''support_level'', C_Dec 4),
      (''resistance_level'', C_Dec 4), (''pivot_point'', C_Dec 4), (''breakout_level'', C_Dec 4),
      (''pullback_zone_low'', C_Dec 4), (''pullback_zone_high'', C_Dec 4),
      (''pattern_triangle'', C_Bool), (''pattern_bull_flag'', C_Bool),
      (''pattern_bear_flag'', C_Bool), (''pattern_flat_base'', C_Bool),
      (''pattern_ipo_base'', C_Bool), (''pattern_rectangle'', C_Bool),
      (''pattern_cup_handle'', C_Bool), (''pattern_vcp'', C_Bool), (''rs_vs_nifty'', C_Dec 4),
      (''rs_vs_sector'', C_Dec 4), (''sector_rank'', C_Int)]"

definition SESSION_FEATURE_COLUMNS :: "(string \<times> column_type) list" where
  "SESSION_FEATURE_COLUMNS =
     [(''opening_range_high'', C_Dec 4), (''opening_range_low'', C_Dec 4),
      (''initial_balance_high'', C_Dec 4), (''initial_balance_low'', C_Dec 4),
      (''day_high'', C_Dec 4), (''day_low'', C_Dec 4), (''prev_day_high'', C_Dec 4),
      (''prev_day_low'', C_Dec 4), (''session_vwap'', C_Dec 4)]"

record feature_row =
  fr_symbol_id :: int
  fr_date :: int
  fr_cols :: snapshot

definition feature_key :: "feature_row \<Rightarrow> int \<times> int" where
  "feature_key r = (fr_symbol_id r, fr_date r)"

text \<open>Columns of a new row: Booleans default to false, the others are NULL.\<close>

definition default_cols :: "(string \<times> column_type) list \<Rightarrow> snapshot" where
  "default_cols columns = map_of (map (\<lambda>(n, ty). (n, if ty = C_Bool then PyBool False else PyNone)) columns)"

definition set_cols :: "(string \<times> column_type) list \<Rightarrow> (string \<times> pyval) list \<Rightarrow> feature_row \<Rightarrow> feature_row" where
  "set_cols columns values r =
     r\<lparr>fr_cols := foldl (\<lambda>m (c, v). if c \<in> fst ` set columns then m(c \<mapsto> v) else m) (fr_cols r) values\<rparr>"

definition put_features ::
  "(string \<times> column_type) list \<Rightarrow> (int \<times> int) \<times> (string \<times> pyval) list \<Rightarrow> feature_row list \<Rightarrow> feature_row list" where
  "put_features columns v rows =
     upsert_by feature_key (fst v) \<lparr>fr_symbol_id = fst (fst v), fr_date = snd (fst v), fr_cols = default_cols columns\<rparr>
       (set_cols columns (snd v)) rows"

interpretation feature_table: upsert_table feature_key "put_features columns" fst
    "\<lambda>r v. set_cols columns (snd v)
       (case r of None \<Rightarrow> \<lparr>fr_symbol_id = fst (fst v), fr_date = snd (fst v), fr_cols = default_cols columns\<rparr>
                | Some r \<Rightarrow> r)" for columns
  by unfold_locales
    (simp_all only: put_features_def, (subst lookup_upsert keys_upsert; simp add: feature_key_def set_cols_def)+)

text \<open>Column access.\<close>

definition col :: "feature_row \<Rightarrow> string \<Rightarrow> pyval" where
  "col f c = dict_get (fr_cols f) c"

definition dec_col :: "feature_row \<Rightarrow> string \<Rightarrow> rat option" where
  "dec_col f c = (case col f c of PyFloat x \<Rightarrow> Some x | PyInt i \<Rightarrow> Some (of_int i) | _ \<Rightarrow> None)"

definition bool_col :: "feature_row \<Rightarrow> string \<Rightarrow> bool" where
  "bool_col f c = truthy (col f c)"

section \<open>Tables and queries\<close>

record feature_store = momentum_store +
  daily_features :: "feature_row list"
  session_features :: "feature_row list"

definition get_latest_feature_date :: "int \<Rightarrow> 'x feature_store_scheme \<Rightarrow> int option" where
  "get_latest_feature_date i s = map_option fr_date (newest_by fr_date (\<lambda>r. fr_symbol_id r = i) (daily_features s))"

definition upsert_daily_feature ::
  "int \<Rightarrow> int \<Rightarrow> (string \<times> pyval) list \<Rightarrow> 'x feature_store_scheme \<Rightarrow> 'x feature_store_scheme" where
  "upsert_daily_feature i d values s =
     s\<lparr>daily_features := put_features DAILY_FEATURE_COLUMNS ((i, d), values) (daily_features s)\<rparr>"

definition get_latest_feature :: "int \<Rightarrow> 'x feature_store_scheme \<Rightarrow> feature_row option" where
  "get_latest_feature i s = newest_by fr_date (\<lambda>r. fr_symbol_id r = i) (daily_features s)"

definition get_latest_features_bulk :: "int list \<Rightarrow> 'x feature_store_scheme \<Rightarrow> (int \<rightharpoonup> feature_row)" where
  "get_latest_features_bulk ids s = (\<lambda>i. if i \<in> set ids then get_latest_feature i s else None)"

definition get_latest_features_date_active :: "'x feature_store_scheme \<Rightarrow> int option" where
  "get_latest_features_date_active s =
     (let ds = map fr_date (filter (\<lambda>r. fr_symbol_id r \<in> set (active_ids s)) (daily_features s))
      in if ds = [] then None else Some (Max (set ds)))"

definition list_top_relative_volume :: "nat \<Rightarrow> 'x feature_store_scheme \<Rightarrow> feature_row list" where
  "list_top_relative_volume limit s =
     take limit (sort_key (\<lambda>r. - opt_else (dec_col r ''relative_volume'') 0)
       (filter (\<lambda>r. get_latest_feature (fr_symbol_id r) s = Some r \<and> dec_col r ''relative_volume'' \<noteq> None)
         (daily_features s)))"

definition get_feature_history :: "int \<Rightarrow> nat \<Rightarrow> 'x feature_store_scheme \<Rightarrow> feature_row list" where
  "get_feature_history i limit s =
     rev (take limit (sort_key (\<lambda>r. - fr_date r) (filter (\<lambda>r. fr_symbol_id r = i) (daily_features s))))"

definition upsert_session_feature ::
  "int \<Rightarrow> int \<Rightarrow> (string \<times> pyval) list \<Rightarrow> 'x feature_store_scheme \<Rightarrow> 'x feature_store_scheme" where
  "upsert_session_feature i d values s =
     s\<lparr>session_features := put_features SESSION_FEATURE_COLUMNS ((i, d), values) (session_features s)\<rparr>"

definition get_latest_session_feature :: "int \<Rightarrow> 'x feature_store_scheme \<Rightarrow> feature_row option" where
  "get_latest_session_feature i s = newest_by fr_date (\<lambda>r. fr_symbol_id r = i) (session_features s)"

definition get_latest_session_bulk :: "int list \<Rightarrow> 'x feature_store_scheme \<Rightarrow> (int \<rightharpoonup> feature_row)" where
  "get_latest_session_bulk ids s = (\<lambda>i. if i \<in> set ids then get_latest_session_feature i s else None)"

section \<open>Freshness (health/freshness.py)\<close>

record freshness_status =
  fs_prices_date :: "int option"
  fs_features_date :: "int option"
  fs_lag_days :: "int option"
  fs_is_stale :: bool
  fs_reason :: msg

definition check_feature_freshness :: "settings \<Rightarrow> 'x feature_store_scheme \<Rightarrow> freshness_status" where
  "check_feature_freshness cfg s =
     (let prices = get_latest_date_across_active_symbols s;
          features = get_latest_features_date_active s
      in case prices of
           None \<Rightarrow>
             \<lparr>fs_prices_date = None, fs_features_date = features, fs_lag_days = None, fs_is_stale = False,
              fs_reason = [Lit ''no daily_prices data yet '', Lit em_dash, Lit '' nothing to compare against'']\<rparr>
         | Some p \<Rightarrow>
            (case features of
               None \<Rightarrow>
                 \<lparr>fs_prices_date = Some p, fs_features_date = None, fs_lag_days = None, fs_is_stale = True,
                  fs_reason = [Lit ''daily_prices has data through '', Lit (isoformat p),
                    Lit '' but daily_features has never been computed for any active symbol'']\<rparr>
             | Some f \<Rightarrow>
                (let lag_days = p - f in
                 if lag_days > feature_freshness_max_lag_days cfg then
                   \<lparr>fs_prices_date = Some p, fs_features_date = Some f, fs_lag_days = Some lag_days,
                    fs_is_stale = True,
                    fs_reason = [Lit ''daily_features ('', Lit (isoformat f), Lit '') is '', IntP lag_days,
                      Lit '' day(s) behind daily_prices ('', Lit (isoformat p), Lit '') '', Lit em_dash,
                      Lit '' exceeds feature_freshness_max_lag_days='', IntP (feature_freshness_max_lag_days cfg)]\<rparr>
                 else
                   \<lparr>fs_prices_date = Some p, fs_features_date = Some f, fs_lag_days = Some lag_days,
                    fs_is_stale = False, fs_reason = lit ''within tolerance''\<rparr>)))"

text \<open>The newest date of a table over the active symbols.\<close>

lemma max_date_iff:
  assumes "ds \<noteq> []"
  shows "Max (set ds) = (d::int) \<longleftrightarrow> d \<in> set ds \<and> (\<forall>e \<in> set ds. e \<le> d)"
  using assms by (subst Max_eq_iff) auto

text \<open>Features count as stale exactly when an active symbol has a price and either no active symbol has
  features or some active symbol's price is more than the tolerance ahead of every active symbol's features.\<close>

theorem features_stale_iff:
  "fs_is_stale (check_feature_freshness cfg s) \<longleftrightarrow>
     (\<exists>p \<in> set (daily_prices s). dp_symbol_id p \<in> set (active_ids s)
        \<and> (\<forall>q \<in> set (daily_prices s). dp_symbol_id q \<in> set (active_ids s) \<longrightarrow> dp_date q \<le> dp_date p)
        \<and> (\<forall>f \<in> set (daily_features s). fr_symbol_id f \<in> set (active_ids s)
              \<longrightarrow> fr_date f + feature_freshness_max_lag_days cfg < dp_date p))"
proof -
  let ?ps = "map dp_date (filter (\<lambda>r. dp_symbol_id r \<in> set (active_ids s)) (daily_prices s))"
  let ?fs = "map fr_date (filter (\<lambda>r. fr_symbol_id r \<in> set (active_ids s)) (daily_features s))"
  let ?tol = "feature_freshness_max_lag_days cfg"
  have e: "fs_is_stale (check_feature_freshness cfg s) \<longleftrightarrow>
      ?ps \<noteq> [] \<and> (?fs = [] \<or> Max (set ?fs) + ?tol < Max (set ?ps))"
    by (simp add: check_feature_freshness_def get_latest_date_across_active_symbols_def
        get_latest_features_date_active_def Let_def less_diff_eq add.commute)
  have fs: "?fs = [] \<or> Max (set ?fs) + ?tol < d \<longleftrightarrow> (\<forall>f \<in> set ?fs. f + ?tol < d)" for d
  proof (cases "?fs = []")
    case False
    then have "set ?fs \<noteq> {}" unfolding set_empty .
    then have "Max (set ?fs) < d - ?tol \<longleftrightarrow> (\<forall>f \<in> set ?fs. f < d - ?tol)"
      by (intro Max_less_iff) simp_all
    then show ?thesis using False by (auto simp: less_diff_eq filter_empty_conv)
  qed simp
  show ?thesis
  proof (cases "?ps = []")
    case True
    then show ?thesis unfolding e by (auto simp: filter_empty_conv)
  next
    case False
    define d where "d = Max (set ?ps)"
    from max_date_iff [OF False, of d] have d: "d \<in> set ?ps" "\<forall>e \<in> set ?ps. e \<le> d" by (simp_all add: d_def)
    show ?thesis unfolding e fs d_def [symmetric] using False d by (auto 4 3)
  qed
qed

definition sample_bar :: "int \<Rightarrow> daily_price" where
  "sample_bar d = \<lparr>dp_symbol_id = 1, dp_date = d, dp_open = 1, dp_high = 1, dp_low = 1, dp_close = 1,
     dp_volume = 1, dp_vwap = None\<rparr>"

definition lagging_store :: "int \<Rightarrow> feature_store" where
  "lagging_store lag = momentum_store.extend
     (demo_momentum\<lparr>symbols := [new_symbol 1 (sample_listing ''NSE'')], daily_prices := [sample_bar 100]\<rparr>)
     (feature_store.fields [\<lparr>fr_symbol_id = 1, fr_date = 100 - lag, fr_cols = Map.empty\<rparr>] [])"

theorem features_stale_iff_witness:
  "fs_is_stale (check_feature_freshness default_settings (lagging_store 30))
   \<and> \<not> fs_is_stale (check_feature_freshness default_settings (lagging_store 0))"
  unfolding features_stale_iff by code_simp

end
