(* ===== verification/Scanners.thy ===== *)
theory Scanners
  imports Feature_Store
begin

text \<open>
  The technical scanners: app/scanner/models.py, validator.py, breakout_scanner.py, vcp_scanner.py,
  momentum_scanner.py and orb_scanner.py. A scanner validates a context, decides whether it qualifies
  and scores it; its assertions are error values. The type check at the start of each method is the
  typing of the model.
\<close>

section \<open>Contexts and results (models.py)\<close>

record validation_result =
  vr_valid :: bool
  vr_reason :: "msg option"

record scan_outcome =
  so_qualified :: bool
  so_reason :: msg

record scan_context =
  sc_symbol :: symbol_row
  sc_features :: feature_row
  sc_price :: "rat option"

definition valid_result :: validation_result where
  "valid_result = \<lparr>vr_valid = True, vr_reason = None\<rparr>"

definition invalid_result :: "msg \<Rightarrow> validation_result" where
  "invalid_result m = \<lparr>vr_valid = False, vr_reason = Some m\<rparr>"

lemma vr_valid_simps [simp]: "vr_valid valid_result" "\<not> vr_valid (invalid_result m)"
  by (simp_all add: valid_result_def invalid_result_def)

text \<open>The columns of a row as snapshot values: decimals as text, the date in ISO form.\<close>

fun snap_value :: "column_type \<Rightarrow> pyval \<Rightarrow> pyval" where
  "snap_value (C_Dec n) (PyFloat x) = PyStr (dec_str n x)"
| "snap_value ty v = v"

definition snap_price :: "rat option \<Rightarrow> pyval" where
  "snap_price p = (case p of None \<Rightarrow> PyNone | Some x \<Rightarrow> PyStr (dec_str 4 x))"

definition columns_snapshot ::
  "(string \<times> column_type) list \<Rightarrow> feature_row \<Rightarrow> snapshot \<Rightarrow> snapshot" where
  "columns_snapshot columns f base =
     foldl (\<lambda>m (n, ty). m(n \<mapsto> snap_value ty (col f n)))
       (base(''date'' \<mapsto> PyStr (isoformat (fr_date f)))) columns"

definition feature_snapshot :: "scan_context \<Rightarrow> snapshot" where
  "feature_snapshot c =
     columns_snapshot DAILY_FEATURE_COLUMNS (sc_features c) [''price'' \<mapsto> snap_price (sc_price c)]"

section \<open>Validator (validator.py)\<close>

definition field_missing :: "scan_context \<Rightarrow> string \<Rightarrow> bool" where
  "field_missing c n = (if n = ''price'' then sc_price c = None else col (sc_features c) n = PyNone)"

fun require_fields :: "scan_context \<Rightarrow> string list \<Rightarrow> validation_result" where
  "require_fields c [] = valid_result"
| "require_fields c (n # ns) =
     (if field_missing c n then invalid_result [Lit ''missing required field: '', Lit n]
      else require_fields c ns)"

fun require_ranges :: "scan_context \<Rightarrow> (string \<times> rat \<times> rat) list \<Rightarrow> validation_result" where
  "require_ranges c [] = valid_result"
| "require_ranges c ((n, low, high) # rs) =
     (case dec_col (sc_features c) n of
        None \<Rightarrow> require_ranges c rs
      | Some v \<Rightarrow>
          if low \<le> v \<and> v \<le> high then require_ranges c rs
          else invalid_result [Lit n, Lit ''='', Shown v, Lit '' outside expected range ['', Shown low, Lit '', '',
                 Shown high, Lit '']''])"

lemma require_fields_valid: "vr_valid (require_fields c ns) \<longleftrightarrow> (\<forall>n \<in> set ns. \<not> field_missing c n)"
  by (induction ns) auto

lemma require_ranges_valid:
  "vr_valid (require_ranges c rs) \<longleftrightarrow>
     (\<forall>(n, low, high) \<in> set rs. \<forall>v. dec_col (sc_features c) n = Some v \<longrightarrow> low \<le> v \<and> v \<le> high)"
  by (induction c rs rule: require_ranges.induct)
    (auto split: option.splits)

section \<open>Scoring shared by the scanners\<close>

definition resistance_distance_pct :: "feature_row option \<Rightarrow> rat option \<Rightarrow> rat option" where
  "resistance_distance_pct features price =
     (case (Option.bind features (\<lambda>f. dec_col f ''resistance_level''), price) of
        (Some resistance, Some p) \<Rightarrow>
          if resistance = 0 then None else Some (\<bar>p - resistance\<bar> / resistance * 100)
      | _ \<Rightarrow> None)"

definition resistance_proximity_score :: "settings \<Rightarrow> feature_row option \<Rightarrow> rat option \<Rightarrow> rat" where
  "resistance_proximity_score cfg features price =
     (case resistance_distance_pct features price of
        None \<Rightarrow> 0
      | Some distance_pct \<Rightarrow>
          (let threshold = scanner_breakout_resistance_proximity_pct cfg
           in if threshold \<le> 0 then 0 else clamp 0 100 (100 - distance_pct / threshold * 100)))"

definition num_or_0 :: "feature_row \<Rightarrow> string \<Rightarrow> rat" where
  "num_or_0 f c = opt_else (dec_col f c) 0"

definition weighted_score :: "settings \<Rightarrow> rat \<Rightarrow> rat \<Rightarrow> rat \<Rightarrow> rat \<Rightarrow> rat \<Rightarrow> rat \<Rightarrow> rat" where
  "weighted_score cfg trend momentum volume volatility relative_strength support_resistance =
     (let total = trend * scanner_score_weight_trend cfg
                + momentum * scanner_score_weight_momentum cfg
                + volume * scanner_score_weight_volume cfg
                + volatility * scanner_score_weight_volatility cfg
                + relative_strength * scanner_score_weight_relative_strength cfg
                + support_resistance * scanner_score_weight_support_resistance cfg
      in py_round 2 (min (max total 0) 100))"

definition relative_strength_score :: "feature_row \<Rightarrow> rat" where
  "relative_strength_score f = (case dec_col f ''rs_vs_nifty'' of None \<Rightarrow> 50 | Some v \<Rightarrow> clamp 0 100 (50 + v))"

definition feature_score :: "settings \<Rightarrow> feature_row \<Rightarrow> rat option \<Rightarrow> rat" where
  "feature_score cfg f price =
     (let trend = num_or_0 f ''trend_strength'';
          momentum = (num_or_0 f ''momentum_score'' + 100) / 2;
          volume = min (num_or_0 f ''relative_volume'' / 2) 1 * 100;
          volatility = (if bool_col f ''atr_expansion'' then 100
                        else if bool_col f ''atr_contraction'' then 30 else 60)
      in weighted_score cfg trend momentum volume volatility (relative_strength_score f)
           (resistance_proximity_score cfg (Some f) price))"

lemma weighted_score_range [score_bounds]:
  "0 \<le> weighted_score cfg a b c d e f \<and> weighted_score cfg a b c d e f \<le> 100"
  unfolding weighted_score_def Let_def by (intro py_round_0_100) auto

lemma feature_score_range [score_bounds]: "0 \<le> feature_score cfg f p \<and> feature_score cfg f p \<le> 100"
  unfolding feature_score_def Let_def by (rule weighted_score_range)

section \<open>Breakout\<close>

definition BREAKOUT_REQUIRED_FIELDS :: "string list" where
  "BREAKOUT_REQUIRED_FIELDS = [''ema20'', ''ema50'', ''ema200'', ''adx14'', ''relative_volume'', ''resistance_level'']"

definition BREAKOUT_RANGE_CHECKS :: "(string \<times> rat \<times> rat) list" where
  "BREAKOUT_RANGE_CHECKS = [(''adx14'', 0, 100), (''relative_volume'', 0, 1000)]"

definition within_resistance_proximity :: "settings \<Rightarrow> scan_context \<Rightarrow> bool" where
  "within_resistance_proximity cfg c =
     (case resistance_distance_pct (Some (sc_features c)) (sc_price c) of
        None \<Rightarrow> False
      | Some distance_pct \<Rightarrow> distance_pct \<le> scanner_breakout_resistance_proximity_pct cfg)"

definition breakout_validate :: "scan_context \<Rightarrow> validation_result" where
  "breakout_validate c =
     (let field_check = require_fields c (''price'' # BREAKOUT_REQUIRED_FIELDS)
      in if \<not> vr_valid field_check then field_check else require_ranges c BREAKOUT_RANGE_CHECKS)"

definition breakout_checks :: "settings \<Rightarrow> scan_context \<Rightarrow> rat \<Rightarrow> rat \<Rightarrow> rat \<Rightarrow> rat \<Rightarrow> rat \<Rightarrow> rat \<Rightarrow> (string \<times> bool) list" where
  "breakout_checks cfg c price ema20 ema50 ema200 adx14 relative_volume =
     [(''price>EMA20'', price > ema20),
      (''EMA20>EMA50'', ema20 > ema50),
      (''EMA50>EMA200'', ema50 > ema200),
      (''ADX>threshold'', adx14 > scanner_breakout_adx_threshold cfg),
      (''relative_volume>threshold'', relative_volume > scanner_breakout_relative_volume_threshold cfg),
      (''volume_increasing'', relative_volume \<ge> scanner_breakout_volume_increasing_min_relative_volume cfg),
      (''near_resistance'', within_resistance_proximity cfg c)]"

definition checks_outcome :: "(string \<times> bool) list \<Rightarrow> scan_outcome" where
  "checks_outcome checks =
     (if list_all snd checks then
        \<lparr>so_qualified = True,
         so_reason = [Lit ''all conditions met: '', Lit (join_strings '', '' (map fst checks))]\<rparr>
      else
        (let failed = map fst (filter (\<lambda>c. \<not> snd c) checks)
         in \<lparr>so_qualified = False,
             so_reason = [Lit ''failed '', IntP (int (length failed)), Lit ''/'', IntP (int (length checks)),
               Lit '': '', Lit (join_strings '', '' failed)]\<rparr>))"

definition breakout_scan :: "settings \<Rightarrow> scan_context \<Rightarrow> py_error + scan_outcome" where
  "breakout_scan cfg c =
     (let f = sc_features c in
      case (sc_price c, dec_col f ''ema20'', dec_col f ''ema50'', dec_col f ''ema200'', dec_col f ''adx14'',
            dec_col f ''relative_volume'') of
        (Some price, Some ema20, Some ema50, Some ema200, Some adx14, Some relative_volume) \<Rightarrow>
          Inr (checks_outcome (breakout_checks cfg c price ema20 ema50 ema200 adx14 relative_volume))
      | _ \<Rightarrow> Inl AssertionError)"

definition breakout_score :: "settings \<Rightarrow> scan_context \<Rightarrow> rat" where
  "breakout_score cfg c = feature_score cfg (sc_features c) (sc_price c)"

section \<open>Volatility contraction\<close>

definition vcp_validate :: "scan_context \<Rightarrow> validation_result" where
  "vcp_validate c = require_fields c [''price'']"

definition vcp_scan :: "settings \<Rightarrow> scan_context \<Rightarrow> py_error + scan_outcome" where
  "vcp_scan cfg c =
     (let qualified = bool_col (sc_features c) ''pattern_vcp''
      in Inr \<lparr>so_qualified = qualified,
           so_reason = lit (if qualified
             then ''volatility contraction pattern detected (each successive 10-bar range tighter than the last)''
             else ''no volatility contraction pattern on the latest bar'')\<rparr>)"

definition vcp_score :: "settings \<Rightarrow> scan_context \<Rightarrow> rat" where
  "vcp_score cfg c = feature_score cfg (sc_features c) (sc_price c)"

section \<open>Momentum\<close>

definition momentum_validate :: "scan_context \<Rightarrow> validation_result" where
  "momentum_validate c = require_fields c [''momentum_score'']"

definition momentum_scan :: "settings \<Rightarrow> scan_context \<Rightarrow> py_error + scan_outcome" where
  "momentum_scan cfg c =
     (case dec_col (sc_features c) ''momentum_score'' of
        None \<Rightarrow> Inl AssertionError
      | Some m \<Rightarrow>
          (let threshold = scanner_momentum_min_score cfg; qualified = m \<ge> threshold
           in Inr \<lparr>so_qualified = qualified,
                so_reason = [Lit ''momentum_score='', Shown m, Lit (if qualified then '' >= '' else '' < ''),
                  Shown threshold]\<rparr>))"

definition momentum_score :: "settings \<Rightarrow> scan_context \<Rightarrow> rat" where
  "momentum_score cfg c = feature_score cfg (sc_features c) (sc_price c)"

section \<open>Opening range breakout\<close>

record orb_context =
  oc_symbol :: symbol_row
  oc_session :: feature_row
  oc_price :: "rat option"
  oc_price_date :: "int option"
  oc_daily :: "feature_row option"

definition orb_snapshot :: "orb_context \<Rightarrow> snapshot" where
  "orb_snapshot c =
     columns_snapshot SESSION_FEATURE_COLUMNS (oc_session c)
       [''price'' \<mapsto> snap_price (oc_price c),
        ''price_date'' \<mapsto> (case oc_price_date c of None \<Rightarrow> PyNone | Some d \<Rightarrow> PyStr (isoformat d))]"

definition orb_validate :: "orb_context \<Rightarrow> validation_result" where
  "orb_validate c =
     (if oc_price c = None then invalid_result (lit ''missing required field: price'')
      else if dec_col (oc_session c) ''opening_range_high'' = None
            \<or> dec_col (oc_session c) ''opening_range_low'' = None then
        invalid_result (lit ''opening range not yet available for this session'')
      else if oc_price_date c \<noteq> Some (fr_date (oc_session c)) then
        invalid_result (lit ''price and opening range are not from the same trading day'')
      else valid_result)"

definition orb_scan :: "settings \<Rightarrow> orb_context \<Rightarrow> py_error + scan_outcome" where
  "orb_scan cfg c =
     (case (oc_price c, dec_col (oc_session c) ''opening_range_high'', dec_col (oc_session c) ''opening_range_low'') of
        (Some price, Some high, Some low) \<Rightarrow>
          Inr (if price > high then
                 \<lparr>so_qualified = True, so_reason = [Lit ''price '', Shown price, Lit '' above opening_range_high '',
                    Shown high, Lit '' (bullish ORB)'']\<rparr>
               else if price < low then
                 \<lparr>so_qualified = True, so_reason = [Lit ''price '', Shown price, Lit '' below opening_range_low '',
                    Shown low, Lit '' (bearish ORB)'']\<rparr>
               else
                 \<lparr>so_qualified = False, so_reason = [Lit ''price '', Shown price, Lit '' within opening range ['',
                    Shown low, Lit '', '', Shown high, Lit '']'']\<rparr>)
      | _ \<Rightarrow> Inl AssertionError)"

definition orb_score :: "settings \<Rightarrow> orb_context \<Rightarrow> rat" where
  "orb_score cfg c =
     (case oc_daily c of
        None \<Rightarrow> weighted_score cfg 0 50 0 60 50 (resistance_proximity_score cfg None (oc_price c))
      | Some f \<Rightarrow> feature_score cfg f (oc_price c))"

lemma orb_score_range [score_bounds]: "0 \<le> orb_score cfg c \<and> orb_score cfg c \<le> 100"
  unfolding orb_score_def by (auto split: option.split simp: weighted_score_range feature_score_range)

end
