(* ===== verification/Scanner_Manager.thy ===== *)
theory Scanner_Manager
  imports Scanners
begin

text \<open>
  Running scanners: app/scanner/base_scanner.py, scanner_registry.py, scanner_manager.py, engine.py,
  app/models/scanner_result.py, scanner_run.py, scanner_log.py and
  app/repositories/scanner_repository.py. A scanner is a record of its methods over a type of
  contexts. Database failures are not modelled; an exception of a scanner's own methods is, with the
  rollback of its savepoint. The engine reads the clock twice per scanner, given as a sequence.
\<close>

section \<open>Tables and repositories\<close>

record result_row =
  rr_symbol_id :: int
  rr_scanner_name :: string
  rr_date :: int
  rr_score :: rat
  rr_status :: string
  rr_reason :: msg
  rr_snapshot :: snapshot

record run_row =
  rn_id :: int
  rn_scanner_name :: string
  rn_start_time :: int
  rn_finish_time :: "int option"
  rn_duration :: "rat option"
  rn_symbols_scanned :: nat
  rn_qualified_count :: nat
  rn_rejected_count :: nat
  rn_error_count :: nat

datatype log_message = Text msg | Exc py_error

record log_row =
  lg_run_id :: int
  lg_symbol_id :: "int option"
  lg_scanner_name :: string
  lg_level :: string
  lg_message :: log_message

record scanner_store = feature_store +
  scanner_results :: "result_row list"
  scanner_runs :: "run_row list"
  next_run_id :: int
  scanner_logs :: "log_row list"

definition result_key :: "result_row \<Rightarrow> int \<times> string \<times> int" where
  "result_key r = (rr_symbol_id r, rr_scanner_name r, rr_date r)"

definition assign_result :: "result_row \<Rightarrow> result_row \<Rightarrow> result_row" where
  "assign_result new r =
     r\<lparr>rr_score := rr_score new, rr_status := rr_status new, rr_reason := rr_reason new,
       rr_snapshot := rr_snapshot new\<rparr>"

definition put_result :: "result_row \<Rightarrow> result_row list \<Rightarrow> result_row list" where
  "put_result v rows = upsert_by result_key (result_key v) v (assign_result v) rows"

interpretation result_table: upsert_table result_key put_result result_key "\<lambda>r v. v"
proof
  fix v :: result_row and k rows
  have as: "result_key (assign_result v r) = result_key r" for r by (simp add: result_key_def assign_result_def)
  have fr: "result_key v = result_key v" ..
  show "map result_key (put_result v rows) =
      (if result_key v \<in> result_key ` set rows then map result_key rows else map result_key rows @ [result_key v])"
    unfolding put_result_def by (rule keys_upsert [OF as fr])
  have "assign_result v r = v" if "result_key r = result_key v" for r
    using that by (simp add: result_key_def assign_result_def)
  then show "lookup_by result_key k (put_result v rows) = (if result_key v = k then Some v else lookup_by result_key k rows)"
    unfolding put_result_def lookup_upsert [OF as fr] by (auto dest!: lookup_by_SomeD split: option.split)
qed

definition exists_for_date :: "int \<Rightarrow> string \<Rightarrow> int \<Rightarrow> 'x scanner_store_scheme \<Rightarrow> bool" where
  "exists_for_date i name d s \<longleftrightarrow> (\<exists>r \<in> set (scanner_results s). result_key r = (i, name, d))"

definition exists_bulk :: "(int \<times> int) list \<Rightarrow> string \<Rightarrow> 'x scanner_store_scheme \<Rightarrow> (int \<times> int) list" where
  "exists_bulk pairs name s =
     (if pairs = [] then []
      else filter (\<lambda>p. p \<in> set pairs)
        (map (\<lambda>r. (rr_symbol_id r, rr_date r))
          (filter (\<lambda>r. rr_scanner_name r = name \<and> rr_symbol_id r \<in> set (map fst pairs)
                       \<and> rr_date r \<in> set (map snd pairs)) (scanner_results s))))"

text \<open>\<open>ORDER BY date DESC, score DESC LIMIT n\<close>: a stable sort by score, then by date.\<close>

definition list_results :: "string option \<Rightarrow> string option \<Rightarrow> nat \<Rightarrow> 'x scanner_store_scheme \<Rightarrow> result_row list" where
  "list_results name status limit s =
     take limit (sort_key (\<lambda>r. - rr_date r) (sort_key (\<lambda>r. - rr_score r)
       (filter (\<lambda>r. (case name of None \<Rightarrow> True | Some n \<Rightarrow> rr_scanner_name r = n)
                  \<and> (case status of None \<Rightarrow> True | Some st \<Rightarrow> rr_status r = st)) (scanner_results s))))"

definition results_for_symbol :: "int \<Rightarrow> nat \<Rightarrow> 'x scanner_store_scheme \<Rightarrow> result_row list" where
  "results_for_symbol i limit s =
     take limit (sort_key (\<lambda>r. - rr_date r) (filter (\<lambda>r. rr_symbol_id r = i) (scanner_results s)))"

definition run_start :: "string \<Rightarrow> int \<Rightarrow> 'x scanner_store_scheme \<Rightarrow> int \<times> 'x scanner_store_scheme" where
  "run_start name start_time s =
     (next_run_id s,
      s\<lparr>scanner_runs := scanner_runs s @
          [\<lparr>rn_id = next_run_id s, rn_scanner_name = name, rn_start_time = start_time, rn_finish_time = None,
            rn_duration = None, rn_symbols_scanned = 0, rn_qualified_count = 0, rn_rejected_count = 0,
            rn_error_count = 0\<rparr>],
        next_run_id := next_run_id s + 1\<rparr>)"

record scanner_run_stats =
  st_symbols_scanned :: nat
  st_qualified :: nat
  st_rejected :: nat
  st_error_count :: nat
  st_errors :: "(string \<times> py_error) list"

definition run_finish :: "int \<Rightarrow> int \<Rightarrow> scanner_run_stats \<Rightarrow> 'x scanner_store_scheme \<Rightarrow> 'x scanner_store_scheme" where
  "run_finish i finish_time st s =
     s\<lparr>scanner_runs := map (\<lambda>r. if rn_id r = i then
          r\<lparr>rn_finish_time := Some finish_time,
            rn_duration := Some (of_int (finish_time - rn_start_time r) / 1000000),
            rn_symbols_scanned := st_symbols_scanned st, rn_qualified_count := st_qualified st,
            rn_rejected_count := st_rejected st, rn_error_count := st_error_count st\<rparr> else r) (scanner_runs s)\<rparr>"

definition log_scanner ::
  "int \<Rightarrow> string \<Rightarrow> string \<Rightarrow> log_message \<Rightarrow> int option \<Rightarrow> 'x scanner_store_scheme \<Rightarrow> 'x scanner_store_scheme" where
  "log_scanner run_id name level message symbol_id s =
     s\<lparr>scanner_logs := scanner_logs s @
        [\<lparr>lg_run_id = run_id, lg_symbol_id = symbol_id, lg_scanner_name = name, lg_level = level,
          lg_message = message\<rparr>]\<rparr>"

section \<open>Scanners and their registry\<close>

record ('c, 's) scanner =
  sn_name :: string
  sn_candidates :: "'s \<Rightarrow> symbol_row list \<Rightarrow> symbol_row list"
  sn_contexts :: "'s \<Rightarrow> symbol_row list \<Rightarrow> (int \<rightharpoonup> 'c)"
  sn_validate :: "'c \<Rightarrow> validation_result"
  sn_scan :: "'c \<Rightarrow> py_error + scan_outcome \<times> 'c"
  sn_score :: "'c \<Rightarrow> rat"
  sn_date :: "'c \<Rightarrow> int"
  sn_snapshot :: "'c \<Rightarrow> snapshot"

text \<open>\<open>scan\<close> may update the context it is given; the technical scanners leave it alone.\<close>

definition unchanged :: "('c \<Rightarrow> py_error + scan_outcome) \<Rightarrow> 'c \<Rightarrow> py_error + scan_outcome \<times> 'c" where
  "unchanged f c = (case f c of Inl e \<Rightarrow> Inl e | Inr out \<Rightarrow> Inr (out, c))"

text \<open>A dict from name to scanner, in insertion order; registering a known name replaces in place.\<close>

type_synonym ('c, 's) registry = "(string \<times> ('c, 's) scanner) list"

definition register :: "('c, 's) scanner \<Rightarrow> ('c, 's) registry \<Rightarrow> ('c, 's) registry" where
  "register sc reg = AList.update (sn_name sc) sc reg"

definition registry_get :: "string \<Rightarrow> ('c, 's) registry \<Rightarrow> ('c, 's) scanner option" where
  "registry_get name reg = map_of reg name"

definition get_all :: "('c, 's) registry \<Rightarrow> ('c, 's) scanner list" where
  "get_all reg = map snd reg"

definition save_results ::
  "('c, 's) scanner \<Rightarrow> symbol_row \<Rightarrow> 'c \<Rightarrow> scan_outcome \<Rightarrow> rat \<Rightarrow> 'x scanner_store_scheme \<Rightarrow> 'x scanner_store_scheme" where
  "save_results sc sy c outcome score s =
     s\<lparr>scanner_results := put_result
          \<lparr>rr_symbol_id = sy_id sy, rr_scanner_name = sn_name sc, rr_date = sn_date sc c,
           rr_score = py_round 2 score,
           rr_status = (if so_qualified outcome then ''qualified'' else ''rejected''),
           rr_reason = so_reason outcome, rr_snapshot = sn_snapshot sc c\<rparr> (scanner_results s)\<rparr>"

section \<open>One scanner over its symbols\<close>

definition BATCH_SIZE :: nat where
  "BATCH_SIZE = 200"

fun batches :: "nat \<Rightarrow> 'a list \<Rightarrow> 'a list list" where
  "batches n xs = (if n = 0 \<or> xs = [] then [] else take n xs # batches n (drop n xs))"

declare batches.simps [simp del]

lemma concat_batches: "0 < n \<Longrightarrow> concat (batches n xs) = xs"
  by (induction n xs rule: batches.induct) (subst batches.simps, auto)

definition log_no_context ::
  "('c, 's) scanner \<Rightarrow> int \<Rightarrow> symbol_row \<Rightarrow> scanner_run_stats \<times> 'x scanner_store_scheme
     \<Rightarrow> scanner_run_stats \<times> 'x scanner_store_scheme" where
  "log_no_context sc run_id sy p =
     (case p of (st, s) \<Rightarrow>
        (st\<lparr>st_rejected := Suc (st_rejected st)\<rparr>,
         log_scanner run_id (sn_name sc) ''info''
           (Text (lit ''no context available (e.g. no features computed yet)'')) (Some (sy_id sy)) s))"

definition log_no_context_batch ::
  "('c, 's) scanner \<Rightarrow> int \<Rightarrow> symbol_row list \<Rightarrow> scanner_run_stats \<times> 'x scanner_store_scheme
     \<Rightarrow> scanner_run_stats \<times> 'x scanner_store_scheme" where
  "log_no_context_batch sc run_id batch p = fold (log_no_context sc run_id) batch p"

definition evaluate_one ::
  "('c, 's) scanner \<Rightarrow> int \<Rightarrow> symbol_row \<Rightarrow> 'c \<Rightarrow> scanner_run_stats \<Rightarrow> 'x scanner_store_scheme
     \<Rightarrow> py_error + scanner_run_stats \<times> 'x scanner_store_scheme" where
  "evaluate_one sc run_id sy c st s =
     (let validation = sn_validate sc c in
      if \<not> vr_valid validation then
        Inr (st\<lparr>st_rejected := Suc (st_rejected st)\<rparr>,
             log_scanner run_id (sn_name sc) ''info''
               (Text (lit ''validation failed: '' @ opt_else (vr_reason validation) (lit ''None''))) (Some (sy_id sy)) s)
      else (case sn_scan sc c of
          Inl e \<Rightarrow> Inl e
        | Inr (outcome, c') \<Rightarrow>
            (let s1 = save_results sc sy c' outcome (sn_score sc c') s in
             if so_qualified outcome then Inr (st\<lparr>st_qualified := Suc (st_qualified st)\<rparr>, s1)
             else Inr (st\<lparr>st_rejected := Suc (st_rejected st)\<rparr>,
                  log_scanner run_id (sn_name sc) ''info'' (Text (so_reason outcome)) (Some (sy_id sy)) s1))))"

text \<open>An exception rolls the savepoint back and is logged.\<close>

definition evaluate_isolated ::
  "('c, 's) scanner \<Rightarrow> int \<Rightarrow> symbol_row \<times> 'c \<Rightarrow> scanner_run_stats \<times> 'x scanner_store_scheme
     \<Rightarrow> scanner_run_stats \<times> 'x scanner_store_scheme" where
  "evaluate_isolated sc run_id sc_pair p =
     (case (sc_pair, p) of ((sy, c), (st, s)) \<Rightarrow>
        (case evaluate_one sc run_id sy c st s of
           Inr r \<Rightarrow> r
         | Inl e \<Rightarrow>
             (st\<lparr>st_error_count := Suc (st_error_count st), st_errors := st_errors st @ [(sy_symbol sy, e)]\<rparr>,
              log_scanner run_id (sn_name sc) ''error'' (Exc e) (Some (sy_id sy)) s)))"

definition evaluate_batch ::
  "('c, 's) scanner \<Rightarrow> int \<Rightarrow> (symbol_row \<times> 'c) list \<Rightarrow> scanner_run_stats \<times> 'x scanner_store_scheme
     \<Rightarrow> scanner_run_stats \<times> 'x scanner_store_scheme" where
  "evaluate_batch sc run_id batch p = fold (evaluate_isolated sc run_id) batch p"

definition with_context :: "(int \<rightharpoonup> 'c) \<Rightarrow> symbol_row list \<Rightarrow> (symbol_row \<times> 'c) list" where
  "with_context contexts syms =
     List.map_filter (\<lambda>sy. map_option (Pair sy) (contexts (sy_id sy))) syms"

definition to_evaluate ::
  "('c, 'x scanner_store_scheme) scanner \<Rightarrow> symbol_row list \<Rightarrow> 'x scanner_store_scheme \<Rightarrow> (symbol_row \<times> 'c) list" where
  "to_evaluate sc syms s =
     (let have_context = with_context (sn_contexts sc s syms) syms;
          pairs = map (\<lambda>(sy, c). (sy_id sy, sn_date sc c)) have_context;
          already_scanned = exists_bulk pairs (sn_name sc) s
      in filter (\<lambda>(sy, c). (sy_id sy, sn_date sc c) \<notin> set already_scanned) have_context)"

definition run_scanner ::
  "('c, 'x scanner_store_scheme) scanner \<Rightarrow> symbol_row list \<Rightarrow> int \<Rightarrow> 'x scanner_store_scheme
     \<Rightarrow> scanner_run_stats \<times> 'x scanner_store_scheme" where
  "run_scanner sc syms run_id s =
     (let stats = \<lparr>st_symbols_scanned = length syms, st_qualified = 0, st_rejected = 0,
                   st_error_count = 0, st_errors = []\<rparr>;
          contexts = sn_contexts sc s syms;
          no_context = filter (\<lambda>sy. contexts (sy_id sy) = None) syms;
          p1 = fold (log_no_context_batch sc run_id) (batches BATCH_SIZE no_context) (stats, s)
      in fold (evaluate_batch sc run_id) (batches BATCH_SIZE (to_evaluate sc syms s)) p1)"

section \<open>The engine\<close>

definition SCANNER_ENGINE_WORKER_NAME :: string where
  "SCANNER_ENGINE_WORKER_NAME = ''scanner_engine''"

record scanner_engine_result =
  sr_scanners_run :: nat
  sr_symbols_scanned :: nat
  sr_qualified :: nat
  sr_rejected :: nat
  sr_error_count :: nat
  sr_errors :: "(string \<times> py_error) list"
  sr_features_stale :: bool
  sr_freshness_reason :: msg

definition add_stats :: "scanner_run_stats \<Rightarrow> scanner_engine_result \<Rightarrow> scanner_engine_result" where
  "add_stats st r =
     r\<lparr>sr_scanners_run := sr_scanners_run r + 1,
       sr_symbols_scanned := sr_symbols_scanned r + st_symbols_scanned st,
       sr_qualified := sr_qualified r + st_qualified st, sr_rejected := sr_rejected r + st_rejected st,
       sr_error_count := sr_error_count r + st_error_count st, sr_errors := sr_errors r @ st_errors st\<rparr>"

definition engine_step ::
  "(nat \<Rightarrow> int) \<Rightarrow> symbol_row list \<Rightarrow> ('c, 'x scanner_store_scheme) scanner
     \<Rightarrow> scanner_engine_result \<times> 'x scanner_store_scheme \<Rightarrow> scanner_engine_result \<times> 'x scanner_store_scheme" where
  "engine_step clock_at syms sc p =
     (case p of (r, s) \<Rightarrow>
        (let k = sr_scanners_run r;
             candidate_symbols = sn_candidates sc s syms;
             (run_id, s1) = run_start (sn_name sc) (clock_at (2 * k)) s;
             (st, s2) = run_scanner sc candidate_symbols run_id s1
         in (add_stats st r, run_finish run_id (clock_at (2 * k + 1)) st s2)))"

definition scanner_run_all ::
  "settings \<Rightarrow> (nat \<Rightarrow> int) \<Rightarrow> ('c, 'x scanner_store_scheme) registry \<Rightarrow> 'x scanner_store_scheme
     \<Rightarrow> scanner_engine_result \<times> 'x scanner_store_scheme" where
  "scanner_run_all cfg clock_at reg s =
     (let syms = list_active s;
          freshness = check_feature_freshness cfg s;
          result = \<lparr>sr_scanners_run = 0, sr_symbols_scanned = 0, sr_qualified = 0, sr_rejected = 0,
                    sr_error_count = 0, sr_errors = [], sr_features_stale = fs_is_stale freshness,
                    sr_freshness_reason = fs_reason freshness\<rparr>;
          (r, s1) = fold (engine_step clock_at syms) (get_all reg) (result, s)
      in (r, ping_success (clock_at (2 * sr_scanners_run r)) SCANNER_ENGINE_WORKER_NAME
               (Some (str_int (int (sr_scanners_run r)) @ '' scanner(s), '' @
                      str_int (int (sr_qualified r)) @ '' qualified'')) s1))"

section \<open>The four technical scanners\<close>

definition build_context_bulk ::
  "'x feature_store_scheme \<Rightarrow> symbol_row list \<Rightarrow> (int \<rightharpoonup> scan_context)" where
  "build_context_bulk s syms =
     (let ids = map sy_id syms; features = get_latest_features_bulk ids s; prices = get_latest_daily_bulk ids s
      in foldl (\<lambda>m sy. case features (sy_id sy) of
                          None \<Rightarrow> m(sy_id sy := None)
                        | Some f \<Rightarrow> m(sy_id sy \<mapsto> \<lparr>sc_symbol = sy, sc_features = f,
                                        sc_price = map_option dp_close (prices (sy_id sy))\<rparr>)) Map.empty syms)"

definition orb_context_bulk ::
  "'x feature_store_scheme \<Rightarrow> symbol_row list \<Rightarrow> (int \<rightharpoonup> orb_context)" where
  "orb_context_bulk s syms =
     (let ids = map sy_id syms; sessions = get_latest_session_bulk ids s;
          prices = get_latest_daily_bulk ids s; dailies = get_latest_features_bulk ids s
      in foldl (\<lambda>m sy. case sessions (sy_id sy) of
                          None \<Rightarrow> m(sy_id sy := None)
                        | Some f \<Rightarrow> m(sy_id sy \<mapsto> \<lparr>oc_symbol = sy, oc_session = f,
                                        oc_price = map_option dp_close (prices (sy_id sy)),
                                        oc_price_date = map_option dp_date (prices (sy_id sy)),
                                        oc_daily = dailies (sy_id sy)\<rparr>)) Map.empty syms)"

definition breakout_scanner :: "settings \<Rightarrow> (scan_context, 'x feature_store_scheme) scanner" where
  "breakout_scanner cfg =
     \<lparr>sn_name = ''breakout_v1'', sn_candidates = (\<lambda>_ syms. syms), sn_contexts = build_context_bulk,
      sn_validate = breakout_validate, sn_scan = unchanged (breakout_scan cfg), sn_score = breakout_score cfg,
      sn_date = (\<lambda>c. fr_date (sc_features c)), sn_snapshot = feature_snapshot\<rparr>"

definition vcp_scanner :: "settings \<Rightarrow> (scan_context, 'x feature_store_scheme) scanner" where
  "vcp_scanner cfg =
     \<lparr>sn_name = ''vcp_v1'', sn_candidates = (\<lambda>_ syms. syms), sn_contexts = build_context_bulk,
      sn_validate = vcp_validate, sn_scan = unchanged (vcp_scan cfg), sn_score = vcp_score cfg,
      sn_date = (\<lambda>c. fr_date (sc_features c)), sn_snapshot = feature_snapshot\<rparr>"

definition momentum_scanner :: "settings \<Rightarrow> (scan_context, 'x feature_store_scheme) scanner" where
  "momentum_scanner cfg =
     \<lparr>sn_name = ''momentum_v1'', sn_candidates = (\<lambda>_ syms. syms), sn_contexts = build_context_bulk,
      sn_validate = momentum_validate, sn_scan = unchanged (momentum_scan cfg), sn_score = momentum_score cfg,
      sn_date = (\<lambda>c. fr_date (sc_features c)), sn_snapshot = feature_snapshot\<rparr>"

definition orb_scanner :: "settings \<Rightarrow> (orb_context, 'x feature_store_scheme) scanner" where
  "orb_scanner cfg =
     \<lparr>sn_name = ''orb_v1'', sn_candidates = (\<lambda>_ syms. syms), sn_contexts = orb_context_bulk,
      sn_validate = orb_validate, sn_scan = unchanged (orb_scan cfg), sn_score = orb_score cfg,
      sn_date = (\<lambda>c. fr_date (oc_session c)), sn_snapshot = orb_snapshot\<rparr>"

section \<open>Accounting\<close>

definition handled :: "scanner_run_stats \<Rightarrow> nat" where
  "handled st = st_qualified st + st_rejected st + st_error_count st"

lemma fold_concat: "fold (fold f) xss p = fold f (concat xss) p"
  by (induction xss arbitrary: p) simp_all

lemma run_scanner_folds:
  "run_scanner sc syms run_id s =
     fold (evaluate_isolated sc run_id) (to_evaluate sc syms s)
       (fold (log_no_context sc run_id) (filter (\<lambda>sy. sn_contexts sc s syms (sy_id sy) = None) syms)
          (\<lparr>st_symbols_scanned = length syms, st_qualified = 0, st_rejected = 0, st_error_count = 0, st_errors = []\<rparr>, s))"
proof -
  have b: "0 < BATCH_SIZE" by (simp add: BATCH_SIZE_def)
  have l: "log_no_context_batch sc run_id = fold (log_no_context sc run_id)" by (intro ext) (simp add: log_no_context_batch_def)
  have e: "evaluate_batch sc run_id = fold (evaluate_isolated sc run_id)" by (intro ext) (simp add: evaluate_batch_def)
  show ?thesis unfolding run_scanner_def Let_def l e fold_concat concat_batches [OF b] ..
qed

lemma log_no_context_simps:
  "handled (fst (fold (log_no_context sc i) syms p)) = handled (fst p) + length syms"
  "st_error_count (fst (fold (log_no_context sc i) syms p)) = st_error_count (fst p)"
  "st_errors (fst (fold (log_no_context sc i) syms p)) = st_errors (fst p)"
  "st_symbols_scanned (fst (fold (log_no_context sc i) syms p)) = st_symbols_scanned (fst p)"
  "scanner_results (snd (fold (log_no_context sc i) syms p)) = scanner_results (snd p)"
  by (induction syms arbitrary: p)
    (auto simp: log_no_context_def handled_def log_scanner_def split: prod.splits)

lemma evaluate_isolated_counts:
  "handled (fst (evaluate_isolated sc i q p)) = Suc (handled (fst p))"
  "length (st_errors (fst p)) = st_error_count (fst p) \<Longrightarrow>
     length (st_errors (fst (evaluate_isolated sc i q p))) = st_error_count (fst (evaluate_isolated sc i q p))"
  "st_symbols_scanned (fst (evaluate_isolated sc i q p)) = st_symbols_scanned (fst p)"
  by (auto simp: evaluate_isolated_def evaluate_one_def handled_def Let_def split: prod.splits sum.splits)

lemma fold_evaluate_counts:
  "handled (fst (fold (evaluate_isolated sc i) qs p)) = handled (fst p) + length qs"
  "length (st_errors (fst p)) = st_error_count (fst p) \<Longrightarrow>
     length (st_errors (fst (fold (evaluate_isolated sc i) qs p))) = st_error_count (fst (fold (evaluate_isolated sc i) qs p))"
  "st_symbols_scanned (fst (fold (evaluate_isolated sc i) qs p)) = st_symbols_scanned (fst p)"
  by (induction qs arbitrary: p) (simp_all add: evaluate_isolated_counts)

text \<open>What one evaluation does to the results table: at most the symbol's own row.\<close>

definition pair_key :: "('c, 's) scanner \<Rightarrow> symbol_row \<times> 'c \<Rightarrow> int \<times> string \<times> int" where
  "pair_key sc q = (sy_id (fst q), sn_name sc, sn_date sc (snd q))"

definition keeps_date :: "('c, 's) scanner \<Rightarrow> bool" where
  "keeps_date sc \<longleftrightarrow> (\<forall>c out c'. sn_scan sc c = Inr (out, c') \<longrightarrow> sn_date sc c' = sn_date sc c)"

lemma evaluate_isolated_results:
  "keeps_date sc \<Longrightarrow> k \<noteq> pair_key sc q \<Longrightarrow>
     lookup_by result_key k (scanner_results (snd (evaluate_isolated sc i q p))) = lookup_by result_key k (scanner_results (snd p))"
  by (auto simp: evaluate_isolated_def evaluate_one_def save_results_def log_scanner_def Let_def pair_key_def
      keeps_date_def result_table.lookup_put result_key_def split: prod.splits sum.splits)

lemma fold_evaluate_results:
  "keeps_date sc \<Longrightarrow> k \<notin> pair_key sc ` set qs \<Longrightarrow>
     lookup_by result_key k (scanner_results (snd (fold (evaluate_isolated sc i) qs p))) = lookup_by result_key k (scanner_results (snd p))"
  by (induction qs arbitrary: p) (simp_all add: evaluate_isolated_results)

lemma exists_bulk_iff:
  "p \<in> set (exists_bulk pairs name s) \<longleftrightarrow>
     p \<in> set pairs \<and> (fst p, name, snd p) \<in> result_key ` set (scanner_results s)"
  by (cases p) (force simp: exists_bulk_def result_key_def)

lemma to_evaluate_fresh:
  "q \<in> set (to_evaluate sc syms s) \<Longrightarrow> pair_key sc q \<notin> result_key ` set (scanner_results s)"
proof -
  assume "q \<in> set (to_evaluate sc syms s)"
  then have q: "q \<in> set (with_context (sn_contexts sc s syms) syms)"
    "(sy_id (fst q), sn_date sc (snd q)) \<notin>
       set (exists_bulk (map (\<lambda>(sy, c). (sy_id sy, sn_date sc c)) (with_context (sn_contexts sc s syms) syms)) (sn_name sc) s)"
    by (auto simp: to_evaluate_def Let_def split_beta)
  then have "(sy_id (fst q), sn_date sc (snd q)) \<in>
      set (map (\<lambda>(sy, c). (sy_id sy, sn_date sc c)) (with_context (sn_contexts sc s syms) syms))"
    by (auto simp: split_beta)
  with q(2) show ?thesis by (auto simp: exists_bulk_iff pair_key_def)
qed

lemma length_with_context:
  "length (filter (\<lambda>sy. ctx (sy_id sy) = None) syms) + length (with_context ctx syms) = length syms"
  by (induction syms) (auto simp: with_context_def map_filter_simps split: option.splits)

text \<open>A scanner run accounts for every symbol it was given: each one is counted once as qualified,
  rejected or failed, or was skipped because its date already has a result; every failure is reported, and
  no result stored before the run is changed by it.\<close>

theorem scanner_run_accounts:
  assumes "keeps_date sc"
  shows "let st = fst (run_scanner sc syms i s); s' = snd (run_scanner sc syms i s);
       already = filter (\<lambda>q. pair_key sc q \<in> result_key ` set (scanner_results s))
                   (with_context (sn_contexts sc s syms) syms)
   in st_symbols_scanned st = length syms
    \<and> st_qualified st + st_rejected st + st_error_count st + length already = length syms
    \<and> length (st_errors st) = st_error_count st
    \<and> (\<forall>k r. lookup_by result_key k (scanner_results s) = Some r
          \<longrightarrow> lookup_by result_key k (scanner_results s') = Some r)"
proof -
  let ?ctx = "sn_contexts sc s syms"
  let ?none = "filter (\<lambda>sy. ?ctx (sy_id sy) = None) syms"
  let ?have = "with_context ?ctx syms"
  let ?P = "\<lambda>q. pair_key sc q \<in> result_key ` set (scanner_results s)"
  have te: "to_evaluate sc syms s = filter (\<lambda>q. \<not> ?P q) ?have"
    unfolding to_evaluate_def Let_def
    by (rule filter_cong [OF refl]) (force simp: exists_bulk_iff pair_key_def split_beta)
  have "length ?none + length ?have = length syms"
    by (rule length_with_context)
  moreover have "length (filter ?P ?have) + length (filter (\<lambda>q. \<not> ?P q) ?have) = length ?have"
    by (rule sum_length_filter_compl)
  ultimately have len: "length ?none + length (to_evaluate sc syms s) + length (filter ?P ?have) = length syms"
    unfolding te by linarith
  have keep: "lookup_by result_key k (scanner_results (snd (run_scanner sc syms i s))) = Some r"
    if "lookup_by result_key k (scanner_results s) = Some r" for k r
  proof -
    have "k \<in> result_key ` set (scanner_results s)" using lookup_by_SomeD [OF that] by force
    then have "k \<notin> pair_key sc ` set (to_evaluate sc syms s)" using to_evaluate_fresh by blast
    then show ?thesis unfolding run_scanner_folds fold_evaluate_results [OF assms \<open>k \<notin> _\<close>]
      using that by (simp add: log_no_context_simps)
  qed
  show ?thesis
    unfolding Let_def run_scanner_folds [of sc syms i s]
    using len keep [unfolded run_scanner_folds [of sc syms i s]] fold_evaluate_counts(2)
    by (simp add: fold_evaluate_counts log_no_context_simps handled_def [symmetric])
      (simp add: handled_def)
qed

section \<open>Scanners that cannot fail\<close>

text \<open>Typed rows: every column holds NULL or a value of its type.\<close>

definition typed_value :: "column_type \<Rightarrow> pyval \<Rightarrow> bool" where
  "typed_value ty v \<longleftrightarrow> v = PyNone \<or>
     (case ty of C_Dec n \<Rightarrow> (\<exists>m. v = PyFloat (of_int m / 10 ^ n)) | C_Int \<Rightarrow> (\<exists>i. v = PyInt i)
               | C_Bool \<Rightarrow> (\<exists>b. v = PyBool b) | C_Str \<Rightarrow> (\<exists>s. v = PyStr s))"

definition typed_row :: "(string \<times> column_type) list \<Rightarrow> feature_row \<Rightarrow> bool" where
  "typed_row columns f \<longleftrightarrow> (\<forall>(n, ty) \<in> set columns. typed_value ty (col f n))"

lemma typed_dec:
  assumes "typed_row columns f" "(n, C_Dec k) \<in> set columns" "col f n \<noteq> PyNone"
  shows "\<exists>x. dec_col f n = Some x"
  using assms by (fastforce simp: typed_row_def typed_value_def dec_col_def)

definition scores_ok :: "result_row list \<Rightarrow> bool" where
  "scores_ok rows \<longleftrightarrow> (\<forall>r \<in> set rows. 0 \<le> rr_score r \<and> rr_score r \<le> 100)"

lemma scores_ok_put: "scores_ok rows \<Longrightarrow> 0 \<le> rr_score v \<and> rr_score v \<le> 100 \<Longrightarrow> scores_ok (put_result v rows)"
  by (auto simp: scores_ok_def put_result_def upsert_by_def assign_result_def split: option.splits)

lemma with_context_member: "q \<in> set (with_context ctx syms) \<Longrightarrow> ctx (sy_id (fst q)) = Some (snd q)"
  by (induction syms) (auto simp: with_context_def map_filter_simps split: option.splits)

text \<open>
  What the manager relies on: on contexts of well-typed rows a validated context is scanned without an
  error, and scores lie between 0 and 100.
\<close>

locale sound_scanner =
  fixes sc :: "('c, 's) scanner" and typed :: "'c \<Rightarrow> bool"
  assumes scan_total: "typed c \<Longrightarrow> vr_valid (sn_validate sc c) \<Longrightarrow> \<exists>out c'. sn_scan sc c = Inr (out, c') \<and> typed c'"
    and score_range: "typed c \<Longrightarrow> 0 \<le> sn_score sc c \<and> sn_score sc c \<le> 100"
begin

lemma evaluate_ok: "typed c \<Longrightarrow> \<exists>r. evaluate_one sc i sy c st s = Inr r"
  using scan_total [of c] by (fastforce simp: evaluate_one_def Let_def split: sum.split)

lemma isolated_ok:
  assumes "typed (snd q)"
  shows "st_error_count (fst (evaluate_isolated sc i q p)) = st_error_count (fst p)"
    and "st_errors (fst (evaluate_isolated sc i q p)) = st_errors (fst p)"
  using evaluate_ok [OF assms] assms
  by (auto simp: evaluate_isolated_def evaluate_one_def Let_def split: prod.splits sum.splits)

lemma fold_ok:
  assumes "\<forall>q \<in> set qs. typed (snd q)"
  shows "st_error_count (fst (fold (evaluate_isolated sc i) qs p)) = st_error_count (fst p)
    \<and> st_errors (fst (fold (evaluate_isolated sc i) qs p)) = st_errors (fst p)"
  using assms by (induction qs arbitrary: p) (simp_all add: isolated_ok)

lemma isolated_scores:
  assumes "typed (snd q)" "scores_ok (scanner_results (snd p))"
  shows "scores_ok (scanner_results (snd (evaluate_isolated sc i q p)))"
proof -
  obtain y c st s where qp: "q = (y, c)" "p = (st, s)" by (cases q; cases p)
  show ?thesis
  proof (cases "vr_valid (sn_validate sc c)")
    case True
    from scan_total [OF _ True] assms(1) qp obtain out c' where c': "sn_scan sc c = Inr (out, c')" "typed c'" by auto
    have "0 \<le> py_round 2 (sn_score sc c') \<and> py_round 2 (sn_score sc c') \<le> 100"
      using score_range [OF c'(2)] py_round_0_100 by blast
    with assms(2) qp True c' show ?thesis
      by (auto simp: evaluate_isolated_def evaluate_one_def save_results_def log_scanner_def Let_def intro!: scores_ok_put)
  next
    case False
    with assms(2) qp show ?thesis by (simp add: evaluate_isolated_def evaluate_one_def log_scanner_def)
  qed
qed

lemma fold_scores:
  "\<forall>q \<in> set qs. typed (snd q) \<Longrightarrow> scores_ok (scanner_results (snd p)) \<Longrightarrow>
     scores_ok (scanner_results (snd (fold (evaluate_isolated sc i) qs p)))"
  by (induction qs arbitrary: p) (simp_all add: isolated_scores)

end

text \<open>The locale's facts over a run, for the scanner record at the manager's state type.\<close>

lemma run_scanner_sound:
  assumes "sound_scanner sc typed" "\<forall>k c. sn_contexts sc s syms k = Some c \<longrightarrow> typed c"
  shows "st_error_count (fst (run_scanner sc syms i s)) = 0 \<and> st_errors (fst (run_scanner sc syms i s)) = []"
    and "scores_ok (scanner_results s) \<Longrightarrow> scores_ok (scanner_results (snd (run_scanner sc syms i s)))"
proof -
  have te: "\<forall>q \<in> set (to_evaluate sc syms s). typed (snd q)"
    using assms(2) by (auto simp: to_evaluate_def Let_def split_beta dest!: with_context_member)
  note ok = sound_scanner.fold_ok [OF assms(1) te]
  show "st_error_count (fst (run_scanner sc syms i s)) = 0 \<and> st_errors (fst (run_scanner sc syms i s)) = []"
    unfolding run_scanner_folds by (simp add: ok log_no_context_simps)
  show "scores_ok (scanner_results s) \<Longrightarrow> scores_ok (scanner_results (snd (run_scanner sc syms i s)))"
    unfolding run_scanner_folds by (rule sound_scanner.fold_scores [OF assms(1) te]) (simp add: log_no_context_simps)
qed

lemma unchanged_total:
  "\<exists>out. f c = Inr out \<Longrightarrow> typed c \<Longrightarrow> \<exists>out c'. unchanged f c = Inr (out, c') \<and> typed c'"
  by (auto simp: unchanged_def)

definition typed_context :: "scan_context \<Rightarrow> bool" where
  "typed_context c \<longleftrightarrow> typed_row DAILY_FEATURE_COLUMNS (sc_features c)"

lemma breakout_columns:
  assumes "n \<in> set BREAKOUT_REQUIRED_FIELDS"
  shows "\<exists>k. (n, C_Dec k) \<in> set DAILY_FEATURE_COLUMNS"
proof -
  have "list_all (\<lambda>n. list_ex (\<lambda>(m, ty). m = n \<and> (case ty of C_Dec _ \<Rightarrow> True | _ \<Rightarrow> False)) DAILY_FEATURE_COLUMNS)
      BREAKOUT_REQUIRED_FIELDS" by code_simp
  with assms obtain ty where "(n, ty) \<in> set DAILY_FEATURE_COLUMNS" "case ty of C_Dec _ \<Rightarrow> True | _ \<Rightarrow> False"
    by (auto simp: list_all_iff list_ex_iff)
  then show ?thesis by (cases ty) auto
qed

lemma breakout_scan_total:
  assumes "typed_context c" "vr_valid (breakout_validate c)"
  shows "\<exists>out. breakout_scan cfg c = Inr out"
proof -
  from assms(2) have nm: "\<forall>n \<in> set (''price'' # BREAKOUT_REQUIRED_FIELDS). \<not> field_missing c n"
    by (auto simp: breakout_validate_def Let_def require_fields_valid split: if_splits)
  have f: "\<exists>x. dec_col (sc_features c) n = Some x" if n: "n \<in> set BREAKOUT_REQUIRED_FIELDS" for n
  proof -
    have "n \<noteq> ''price''" using n by (auto simp: BREAKOUT_REQUIRED_FIELDS_def)
    then have "col (sc_features c) n \<noteq> PyNone" using nm n by (auto simp: field_missing_def)
    with breakout_columns [OF n] assms(1) show ?thesis by (auto simp: typed_context_def dest: typed_dec)
  qed
  obtain p where "sc_price c = Some p" using nm by (cases "sc_price c") (auto simp: field_missing_def)
  then show ?thesis
    using f [of "''ema20''"] f [of "''ema50''"] f [of "''ema200''"] f [of "''adx14''"] f [of "''relative_volume''"]
    by (auto simp: breakout_scan_def BREAKOUT_REQUIRED_FIELDS_def Let_def)
qed

interpretation breakout: sound_scanner "breakout_scanner cfg" typed_context for cfg
  by unfold_locales
    (simp_all add: breakout_scanner_def unchanged_total breakout_scan_total breakout_score_def feature_score_range)

interpretation vcp: sound_scanner "vcp_scanner cfg" typed_context for cfg
  by unfold_locales (simp_all add: vcp_scanner_def unchanged_def vcp_scan_def vcp_score_def feature_score_range Let_def)

lemma momentum_scan_total:
  assumes "typed_context c" "vr_valid (momentum_validate c)"
  shows "\<exists>out. momentum_scan cfg c = Inr out"
proof -
  have "col (sc_features c) ''momentum_score'' \<noteq> PyNone"
    using assms(2) by (auto simp: momentum_validate_def require_fields_valid field_missing_def)
  moreover have "(''momentum_score'', C_Dec 2) \<in> set DAILY_FEATURE_COLUMNS" by (simp add: DAILY_FEATURE_COLUMNS_def)
  ultimately obtain x where "dec_col (sc_features c) ''momentum_score'' = Some x"
    using assms(1) by (auto simp: typed_context_def dest: typed_dec)
  then show ?thesis by (simp add: momentum_scan_def Let_def)
qed

interpretation momentum_sc: sound_scanner "momentum_scanner cfg" typed_context for cfg
  by unfold_locales
    (simp_all add: momentum_scanner_def unchanged_total momentum_scan_total momentum_score_def feature_score_range)

interpretation orb: sound_scanner "orb_scanner cfg" "\<lambda>_. True" for cfg
  by unfold_locales
    (auto simp: orb_scanner_def unchanged_def orb_validate_def orb_scan_def orb_score_range invalid_result_def valid_result_def
      split: if_splits option.splits)

text \<open>Contexts are built from stored rows.\<close>

lemma context_dict:
  assumes "\<And>y f. g y = Some f \<Longrightarrow> P (h y f)"
  shows "(\<And>j c. m j = Some c \<Longrightarrow> P c) \<Longrightarrow>
    foldl (\<lambda>m y. case g y of None \<Rightarrow> m(k y := None) | Some f \<Rightarrow> m(k y \<mapsto> h y f)) m ys i = Some c \<Longrightarrow> P c"
proof (induction ys arbitrary: m)
  case (Cons y ys)
  have "P d" if "(case g y of None \<Rightarrow> m(k y := None) | Some f \<Rightarrow> m(k y \<mapsto> h y f)) j = Some d" for j d
    using that Cons.prems(1) assms by (auto split: option.splits if_splits)
  then show ?case using Cons.IH Cons.prems(2) by (simp only: foldl_Cons) blast
qed simp

lemma build_context_typed:
  assumes "\<forall>f \<in> set (daily_features s). typed_row DAILY_FEATURE_COLUMNS f" "build_context_bulk s syms i = Some c"
  shows "typed_context c"
proof (rule context_dict [where g = "\<lambda>y. get_latest_features_bulk (map sy_id syms) s (sy_id y)"
      and h = "\<lambda>y f. \<lparr>sc_symbol = y, sc_features = f,
        sc_price = map_option dp_close (get_latest_daily_bulk (map sy_id syms) s (sy_id y))\<rparr>"
      and k = sy_id and m = Map.empty and ys = syms])
  show "typed_context \<lparr>sc_symbol = y, sc_features = f,
      sc_price = map_option dp_close (get_latest_daily_bulk (map sy_id syms) s (sy_id y))\<rparr>"
    if "get_latest_features_bulk (map sy_id syms) s (sy_id y) = Some f" for y f
    using that assms(1)
    by (auto simp: get_latest_features_bulk_def get_latest_feature_def typed_context_def
        split: if_splits dest: newest_by_SomeD(1))
  show "foldl (\<lambda>m y. case get_latest_features_bulk (map sy_id syms) s (sy_id y) of None \<Rightarrow> m(sy_id y := None)
      | Some f \<Rightarrow> m(sy_id y \<mapsto> \<lparr>sc_symbol = y, sc_features = f,
          sc_price = map_option dp_close (get_latest_daily_bulk (map sy_id syms) s (sy_id y))\<rparr>)) Map.empty syms i = Some c"
    using assms(2) by (simp add: build_context_bulk_def Let_def)
qed simp

text \<open>On well-typed feature rows no technical scanner ever fails: a run of the breakout, VCP, momentum
  or opening-range scanner reports no error, and every score it stores lies between 0 and 100.\<close>

theorem technical_scanners_never_fail:
  assumes "\<forall>f \<in> set (daily_features s). typed_row DAILY_FEATURE_COLUMNS f"
    and "scores_ok (scanner_results s)"
  shows "(\<forall>sc \<in> {breakout_scanner cfg, vcp_scanner cfg, momentum_scanner cfg}.
            st_errors (fst (run_scanner sc syms i s)) = []
          \<and> scores_ok (scanner_results (snd (run_scanner sc syms i s))))
       \<and> st_errors (fst (run_scanner (orb_scanner cfg) syms i s)) = []
       \<and> scores_ok (scanner_results (snd (run_scanner (orb_scanner cfg) syms i s)))"
proof -
  have one: "st_errors (fst (run_scanner sc syms i s)) = []
      \<and> scores_ok (scanner_results (snd (run_scanner sc syms i s)))"
    if "sound_scanner sc typed_context" "sn_contexts sc = build_context_bulk" for sc
    using run_scanner_sound [OF that(1)] build_context_typed [OF assms(1)] that(2) assms(2) by metis
  have "\<forall>sc \<in> {breakout_scanner cfg, vcp_scanner cfg, momentum_scanner cfg}.
      sound_scanner sc typed_context \<and> sn_contexts sc = build_context_bulk"
    using breakout.sound_scanner_axioms vcp.sound_scanner_axioms momentum_sc.sound_scanner_axioms
    by (auto simp: breakout_scanner_def vcp_scanner_def momentum_scanner_def)
  with one run_scanner_sound [OF orb.sound_scanner_axioms] assms(2) show ?thesis by blast
qed

definition sample_features :: "int \<Rightarrow> int \<Rightarrow> feature_row" where
  "sample_features i d =
     set_cols DAILY_FEATURE_COLUMNS [(''adx14'', PyFloat (of_int 2750 / 10 ^ 2))]
       \<lparr>fr_symbol_id = i, fr_date = d, fr_cols = default_cols DAILY_FEATURE_COLUMNS\<rparr>"

lemma daily_columns_distinct: "distinct (map fst DAILY_FEATURE_COLUMNS)"
  by code_simp

lemma default_col:
  assumes "distinct (map fst columns)" "(n, ty) \<in> set columns"
  shows "dict_get (default_cols columns) n = (if ty = C_Bool then PyBool False else PyNone)"
proof -
  have "map_of columns n = Some ty" using assms by (rule map_of_is_SomeI)
  then show ?thesis by (simp add: dict_get_def default_cols_def map_of_map)
qed

lemma sample_features_typed: "typed_row DAILY_FEATURE_COLUMNS (sample_features i d)"
proof -
  have adx: "(''adx14'', C_Dec 2) \<in> set DAILY_FEATURE_COLUMNS" by (simp add: DAILY_FEATURE_COLUMNS_def)
  have "typed_value ty (col (sample_features i d) n)" if n: "(n, ty) \<in> set DAILY_FEATURE_COLUMNS" for n ty
  proof (cases "n = ''adx14''")
    case True
    then have "ty = C_Dec 2" using n adx daily_columns_distinct by (metis eq_key_imp_eq_value)
    then show ?thesis using True adx
      by (force simp: sample_features_def set_cols_def col_def typed_value_def intro!: exI [of _ 2750])
  next
    case False
    then have "col (sample_features i d) n = dict_get (default_cols DAILY_FEATURE_COLUMNS) n"
      by (simp add: sample_features_def set_cols_def col_def)
    then show ?thesis using default_col [OF daily_columns_distinct n]
      by (cases ty) (auto simp: typed_value_def intro: exI [of _ False])
  qed
  then show ?thesis by (auto simp: typed_row_def)
qed

definition sample_scan_store :: scanner_store where
  "sample_scan_store =
     feature_store.extend (momentum_store.extend demo_momentum
       (feature_store.fields [sample_features 1 739650] []))
       (scanner_store.fields [] [] 1 [])"

theorem technical_scanners_never_fail_witness:
  "st_errors (fst (run_scanner (breakout_scanner default_settings) (list_active sample_scan_store) 1 sample_scan_store)) = []"
proof -
  have d: "daily_features sample_scan_store = [sample_features 1 739650]" "scanner_results sample_scan_store = []"
    by (simp_all add: sample_scan_store_def feature_store.defs momentum_store.defs scanner_store.defs)
  have "\<forall>f \<in> set (daily_features sample_scan_store). typed_row DAILY_FEATURE_COLUMNS f" "scores_ok (scanner_results sample_scan_store)"
    by (simp_all add: d sample_features_typed scores_ok_def)
  from technical_scanners_never_fail [OF this] show ?thesis by blast
qed

lemma unchanged_keeps_date: "sn_scan sc = unchanged f \<Longrightarrow> keeps_date sc"
  by (auto simp: keeps_date_def unchanged_def split: sum.splits)

lemma technical_keep_date:
  "keeps_date (breakout_scanner cfg)" "keeps_date (vcp_scanner cfg)" "keeps_date (momentum_scanner cfg)"
  "keeps_date (orb_scanner cfg)"
  by (rule unchanged_keeps_date, simp add: breakout_scanner_def vcp_scanner_def momentum_scanner_def orb_scanner_def)+

theorem scanner_run_accounts_witness:
  "st_symbols_scanned (fst (run_scanner (vcp_scanner default_settings) (list_active sample_scan_store) 1 sample_scan_store))
     = length (list_active sample_scan_store)"
  using scanner_run_accounts [OF technical_keep_date(2), of default_settings "list_active sample_scan_store" 1 sample_scan_store]
  unfolding Let_def by blast

section \<open>From features to decisions\<close>

lemma foldl_upd_other:
  "n \<notin> fst ` set columns \<Longrightarrow> foldl (\<lambda>m (n, ty). m(n \<mapsto> g n ty)) base columns n = base n"
  by (induction columns arbitrary: base) auto

lemma columns_snapshot_lookup:
  assumes "distinct (map fst columns)" "(n, ty) \<in> set columns"
  shows "dict_get (columns_snapshot columns f base) n = snap_value ty (col f n)"
proof -
  have "foldl (\<lambda>m (n, ty). m(n \<mapsto> snap_value ty (col f n))) m columns n = Some (snap_value ty (col f n))" for m
    using assms
  proof (induction columns arbitrary: m)
    case (Cons c cs)
    obtain a b where c: "c = (a, b)" by (cases c)
    show ?case
    proof (cases "(n, ty) = c")
      case True
      then have "n \<notin> fst ` set cs" using Cons.prems(1) c by (auto simp: rev_image_eqI)
      from foldl_upd_other [OF this, of "\<lambda>n ty. snap_value ty (col f n)" "m(n \<mapsto> snap_value ty (col f n))"]
      have "foldl (\<lambda>m (n, ty). m(n \<mapsto> snap_value ty (col f n))) (m(n \<mapsto> snap_value ty (col f n))) cs n =
          Some (snap_value ty (col f n))" unfolding fun_upd_same .
      then show ?thesis unfolding foldl_Cons True [symmetric] prod.case .
    next
      case False
      then have "(n, ty) \<in> set cs" "distinct (map fst cs)" using Cons.prems by auto
      from Cons.IH [OF this(2,1)] show ?thesis unfolding foldl_Cons .
    qed
  qed simp
  then show ?thesis by (simp add: columns_snapshot_def dict_get_def)
qed

lemma dec_str_not_None: "dec_str n (of_int m / 10 ^ n) \<noteq> ''None''"
proof
  assume "dec_str n (of_int m / 10 ^ n) = ''None''"
  then have "float_of_string ''None'' = Some (of_int m / 10 ^ n :: rat)"
    using float_of_nat_text [of n "nat m"] float_of_nat_text [of n "nat (- m)"]
    by (cases "m < 0") (auto simp: dec_str_def)
  moreover have "float_of_string ''None'' = None" by code_simp
  ultimately show False by simp
qed

text \<open>What a scanner measured is what the decision rules see: for every decimal feature column, the
  number read back from the stored snapshot is the column's value, and a missing column reads as missing.\<close>

theorem snapshot_preserves_features:
  assumes "typed_row DAILY_FEATURE_COLUMNS (sc_features c)" "(n, C_Dec k) \<in> set DAILY_FEATURE_COLUMNS"
  shows "as_float (feature_snapshot c) n = dec_col (sc_features c) n"
proof -
  have s: "dict_get (feature_snapshot c) n = snap_value (C_Dec k) (col (sc_features c) n)"
    unfolding feature_snapshot_def by (rule columns_snapshot_lookup [OF daily_columns_distinct assms(2)])
  from assms have "typed_value (C_Dec k) (col (sc_features c) n)" by (auto simp: typed_row_def)
  then consider "col (sc_features c) n = PyNone" | m where "col (sc_features c) n = PyFloat (of_int m / 10 ^ k)"
    by (auto simp: typed_value_def)
  then show ?thesis
  proof cases
    case 1
    then show ?thesis using s by (simp add: as_float_def is_missing_def dec_col_def)
  next
    case (2 m)
    have "float_of_string (dec_str k (of_int m / 10 ^ k)) = Some (of_int m / 10 ^ k :: rat)"
      using float_of_nat_text [of k "nat m"] float_of_nat_text [of k "nat (- m)"]
      by (cases "m < 0") (simp_all add: dec_str_def of_nat_nat)
    with 2 s dec_str_not_None [of k m] show ?thesis by (simp add: as_float_def is_missing_def dec_col_def)
  qed
qed

theorem snapshot_preserves_features_witness:
  "as_float (feature_snapshot \<lparr>sc_symbol = new_symbol 1 (sample_listing ''NSE''), sc_features = sample_features 1 739650,
      sc_price = None\<rparr>) ''adx14'' = dec_col (sample_features 1 739650) ''adx14''"
proof -
  let ?c = "\<lparr>sc_symbol = new_symbol 1 (sample_listing ''NSE''), sc_features = sample_features 1 739650, sc_price = None\<rparr>"
  have "(''adx14'', C_Dec 2) \<in> set DAILY_FEATURE_COLUMNS" by (simp add: DAILY_FEATURE_COLUMNS_def)
  from snapshot_preserves_features [of ?c, OF _ this] sample_features_typed show ?thesis by simp
qed

end
