(* ===== verification/Notifications.thy ===== *)
theory Notifications
  imports Alert_Manager
begin

text \<open>
  Delivery of queued alerts: app/notifications/base.py, router.py and manager.py. The provider's
  network call is a parameter, one result per attempt; the message text is built by a formatter
  passed as an argument. Sleeping between attempts changes no table and is recorded as the list
  of delays.
\<close>

section \<open>Providers and routing\<close>

record delivery_result =
  de_success :: bool
  de_status :: string
  de_provider_message_id :: "string option"
  de_error_message :: "string option"
  de_response_metadata :: metadata
  de_retryable :: bool

record provider =
  p_name :: string
  p_default_recipient :: string
  p_send :: "nat \<Rightarrow> string \<Rightarrow> msg \<Rightarrow> delivery_result"

definition IPO_ALERT_CATEGORIES :: "string list" where
  "IPO_ALERT_CATEGORIES = [''IPO_PRE_BREAKOUT'', ''IPO_BREAKOUT'', ''IPO_MOMENTUM'']"

definition FNO_ALERT_CATEGORIES :: "string list" where
  "FNO_ALERT_CATEGORIES = [''FNO_PRE_BREAKOUT'', ''FNO_BREAKOUT'', ''FNO_MOMENTUM'']"

record router =
  r_default :: provider
  r_ipo :: provider
  r_fno :: provider

definition resolve :: "router \<Rightarrow> string option \<Rightarrow> provider" where
  "resolve r alert_category =
     (case alert_category of
        None \<Rightarrow> r_default r
      | Some c \<Rightarrow>
          if c \<in> set IPO_ALERT_CATEGORIES then r_ipo r
          else if c \<in> set FNO_ALERT_CATEGORIES then r_fno r
          else r_default r)"

definition alert_category_of :: "alert_row \<Rightarrow> string option" where
  "alert_category_of a =
     (case dict_get (al_feature_snapshot a) ''alert_category'' of PyStr c \<Rightarrow> Some c | _ \<Rightarrow> None)"

section \<open>Message context\<close>

record alert_context =
  cx_symbol :: string
  cx_scanner_name :: string
  cx_score :: rat
  cx_quality :: string
  cx_breakout_level :: "rat option"
  cx_feature_snapshot :: snapshot
  cx_passed_rules :: "msg list"
  cx_timestamp :: pydatetime

text \<open>\<open>symbol_name\<close> is the symbols table, from key to name.\<close>

definition message_context :: "settings \<Rightarrow> (int \<Rightarrow> string option) \<Rightarrow> alert_row \<Rightarrow> alert_context" where
  "message_context cfg symbol_name a =
     \<lparr>cx_symbol = opt_else (symbol_name (al_symbol_id a)) (str_int (al_symbol_id a)),
      cx_scanner_name = al_scanner_name a, cx_score = al_score a, cx_quality = al_quality a,
      cx_breakout_level = al_breakout_level a, cx_feature_snapshot = al_feature_snapshot a,
      cx_passed_rules = al_passed_rules a,
      cx_timestamp = to_market_time (utc_dt (al_created_at a)) (market_timezone cfg)\<rparr>"

definition format_alert ::
  "settings \<Rightarrow> (alert_context \<Rightarrow> msg) \<Rightarrow> (int \<Rightarrow> string option) \<Rightarrow> int \<Rightarrow> 'x store_scheme \<Rightarrow> msg option" where
  "format_alert cfg format_text symbol_name i s =
     map_option (\<lambda>a. format_text (message_context cfg symbol_name a)) (get_by_id i s)"

section \<open>One attempt\<close>

datatype attempt_outcome = Done | Retry_after rat | Crashed py_error

text \<open>The body of the retry loop after the provider answered: log, new status, event.\<close>

definition opt_str :: "string option \<Rightarrow> pyval" where
  "opt_str x = (case x of None \<Rightarrow> PyNone | Some v \<Rightarrow> PyStr v)"

definition record_attempt ::
  "settings \<Rightarrow> string \<Rightarrow> int \<Rightarrow> nat \<Rightarrow> delivery_result \<Rightarrow> 'x store_scheme \<Rightarrow> attempt_outcome \<times> 'x store_scheme" where
  "record_attempt cfg provider_name i attempt result s =
     (let s1 = log_attempt i provider_name (de_status result) (int attempt)
                 (Some (de_response_metadata result)) (de_error_message result) s
      in case get_by_id i s1 of
           None \<Rightarrow> (Crashed AssertionError, s)
         | Some current \<Rightarrow>
             if de_success result then
               (Done,
                log_event i ''SENT'' (Some [(''provider_message_id'', opt_str (de_provider_message_id result))])
                  (update_status i SENT s1))
             else if \<not> de_retryable result \<or> int attempt \<ge> alert_max_retries cfg then
               (Done,
                log_event i ''FAILED'' (Some [(''error'', opt_str (de_error_message result))])
                  (update_status i FAILED s1))
             else
               (Retry_after (alert_retry_delay_seconds cfg * 2 ^ (attempt - 1)),
                log_event i ''RETRYING''
                  (Some [(''attempt'', PyInt (int attempt)), (''error'', opt_str (de_error_message result))])
                  (update_status i RETRYING s1)))"

section \<open>The delivery loop\<close>

text \<open>\<open>while attempt < max_retries\<close>, as recursion on the attempts left.\<close>

fun deliver_loop ::
  "settings \<Rightarrow> (alert_context \<Rightarrow> msg) \<Rightarrow> (int \<Rightarrow> string option) \<Rightarrow> provider \<Rightarrow> int \<Rightarrow> nat \<Rightarrow> nat
     \<Rightarrow> 'x store_scheme \<Rightarrow> (py_error + rat list) \<times> 'x store_scheme" where
  "deliver_loop cfg fmt names p i 0 attempt s = (Inr [], s)"
| "deliver_loop cfg fmt names p i (Suc n) attempt s =
     (let attempt' = Suc attempt in
      case format_alert cfg fmt names i s of
        None \<Rightarrow> (Inr [], s)
      | Some text \<Rightarrow>
          (case record_attempt cfg (p_name p) i attempt'
                  (p_send p attempt' (p_default_recipient p) text) s of
             (Crashed e, s') \<Rightarrow> (Inl e, s')
           | (Done, s') \<Rightarrow> (Inr [], s')
           | (Retry_after d, s') \<Rightarrow>
               (case deliver_loop cfg fmt names p i n attempt' s' of
                  (Inr ds, s'') \<Rightarrow> (Inr (d # ds), s'')
                | (Inl e, s'') \<Rightarrow> (Inl e, s''))))"

definition deliver_now ::
  "settings \<Rightarrow> (alert_context \<Rightarrow> msg) \<Rightarrow> (int \<Rightarrow> string option) \<Rightarrow> router \<Rightarrow> int
     \<Rightarrow> 'x store_scheme \<Rightarrow> (py_error + rat list) \<times> 'x store_scheme" where
  "deliver_now cfg fmt names r i s =
     (case get_by_id i s of
        None \<Rightarrow> (Inr [], s)
      | Some alert \<Rightarrow>
          if al_status alert = SENT then (Inr [], s)
          else deliver_loop cfg fmt names (resolve r (alert_category_of alert)) i
                 (nat (alert_max_retries cfg)) 0 s)"

text \<open>One turn of \<open>run_forever\<close>: take an id, deliver it, swallow any error, mark the task done.\<close>

definition worker_turn ::
  "settings \<Rightarrow> (alert_context \<Rightarrow> msg) \<Rightarrow> (int \<Rightarrow> string option) \<Rightarrow> router
     \<Rightarrow> 'x store_scheme \<Rightarrow> 'x store_scheme option" where
  "worker_turn cfg fmt names r s =
     (case q_get (queue s) of
        None \<Rightarrow> None
      | Some (i, q) \<Rightarrow>
          (let s' = snd (deliver_now cfg fmt names r i (s\<lparr>queue := q\<rparr>))
           in case q_task_done (queue s') of Inl e \<Rightarrow> None | Inr q' \<Rightarrow> Some (s'\<lparr>queue := q'\<rparr>)))"

definition recover_pending ::
  "settings \<Rightarrow> (alert_context \<Rightarrow> msg) \<Rightarrow> (int \<Rightarrow> string option) \<Rightarrow> router
     \<Rightarrow> 'x store_scheme \<Rightarrow> nat \<times> 'x store_scheme" where
  "recover_pending cfg fmt names r s =
     (let pending = list_by_status [PENDING, RETRYING] 200 s
      in (length pending, fold (\<lambda>a t. snd (deliver_now cfg fmt names r (al_id a) t)) pending s))"

section \<open>What delivery does\<close>

lemma record_attempt_frame:
  "next_alert_id (snd (record_attempt cfg p i k res s)) = next_alert_id s"
  "queue (snd (record_attempt cfg p i k res s)) = queue s"
  "map al_id (alerts (snd (record_attempt cfg p i k res s))) = map al_id (alerts s)"
  by (auto simp: record_attempt_def Let_def split: option.splits)

lemma record_attempt_wf:
  assumes "store_wf s" "i \<in> alert_ids s"
  shows "store_wf (snd (record_attempt cfg p i k res s))"
  using assms by (auto simp: record_attempt_def Let_def split: option.splits intro!: store_wf_intros)

lemma record_attempt_other:
  "j \<noteq> i \<Longrightarrow> get_by_id j (snd (record_attempt cfg p i k res s)) = get_by_id j s"
proof -
  assume "j \<noteq> i"
  then have "get_by_id j (update_status i st t) = get_by_id j t" for st and t :: "'x store_scheme"
    by (simp add: get_by_id_update map_option.id [unfolded id_def])
  then show ?thesis
    by (auto simp: record_attempt_def Let_def get_by_id_def log_event_def log_attempt_def
        update_status_def split: option.splits)
qed

end
