(* ===== verification/Alert_Lifecycle.thy ===== *)
theory Alert_Lifecycle
  imports Notifications
begin

text \<open>
  The life of an alert, across the decision pipeline, the expiry job and the notification worker,
  as a step relation over the tables. Every transaction of the source is one step, so a delivery
  interleaves with the expiry job and with new decisions between two attempts.
\<close>

section \<open>Steps\<close>

definition initial_store :: "int \<Rightarrow> store" where
  "initial_store t =
     \<lparr>alerts = [], next_alert_id = 1, alert_events = [], next_event_id = 1, delivery_logs = [],
      next_log_id = 1, heartbeats = Map.empty, db_clock = t, queue = empty_queue\<rparr>"

inductive alert_step :: "runtime \<Rightarrow> settings \<Rightarrow> store \<Rightarrow> store \<Rightarrow> bool" for rt cfg where
  tick: "db_clock s \<le> t \<Longrightarrow> alert_step rt cfg s (s\<lparr>db_clock := t\<rparr>)"
| decide: "opt_else now t \<le> db_clock s \<Longrightarrow>
    alert_step rt cfg s (snd (process (rt\<lparr>clock := t\<rparr>) cfg d y now s))"
| expire: "alert_step rt cfg s (expiry_job now s)"
| take_id: "q_get (queue s) = Some (i, q) \<Longrightarrow> alert_step rt cfg s (s\<lparr>queue := q\<rparr>)"
| attempt: "i \<in> alert_ids s \<Longrightarrow> alert_step rt cfg s (snd (record_attempt cfg p i k res s))"
| task_done: "q_task_done (queue s) = Inr q \<Longrightarrow> alert_step rt cfg s (s\<lparr>queue := q\<rparr>)"

inductive_cases alert_step_elim: "alert_step rt cfg s s'"

definition alert_reachable :: "runtime \<Rightarrow> settings \<Rightarrow> store \<Rightarrow> bool" where
  "alert_reachable rt cfg s \<longleftrightarrow> (\<exists>t. (alert_step rt cfg)\<^sup>*\<^sup>* (initial_store t) s)"

lemma alert_reachable_steps:
  "alert_reachable rt cfg s \<Longrightarrow> (alert_step rt cfg)\<^sup>*\<^sup>* s s' \<Longrightarrow> alert_reachable rt cfg s'"
  unfolding alert_reachable_def by (meson rtranclp_trans)

lemma alert_invariant_rule:
  assumes "\<And>t. P (initial_store t)"
    and "\<And>s s'. P s \<Longrightarrow> alert_step rt cfg s s' \<Longrightarrow> P s'"
    and "alert_reachable rt cfg s"
  shows "P s"
proof -
  from assms(3) obtain t where "(alert_step rt cfg)\<^sup>*\<^sup>* (initial_store t) s"
    by (auto simp: alert_reachable_def)
  then show ?thesis by induction (use assms(1,2) in blast)+
qed

section \<open>The expiry job\<close>

lemma fold_log_event_simps [simp]:
  "alerts (fold (\<lambda>a. log_event (al_id a) ty m) es s) = alerts s"
  "queue (fold (\<lambda>a. log_event (al_id a) ty m) es s) = queue s"
  "delivery_logs (fold (\<lambda>a. log_event (al_id a) ty m) es s) = delivery_logs s"
  "next_alert_id (fold (\<lambda>a. log_event (al_id a) ty m) es s) = next_alert_id s"
  "db_clock (fold (\<lambda>a. log_event (al_id a) ty m) es s) = db_clock s"
  by (induction es arbitrary: s) simp_all

lemma fold_log_event_wf:
  "store_wf s \<Longrightarrow> al_id ` set es \<subseteq> alert_ids s \<Longrightarrow> store_wf (fold (\<lambda>a. log_event (al_id a) ty m) es s)"
  by (induction es arbitrary: s) (simp_all add: store_wf_log_event)

definition logged :: "'x store_scheme \<Rightarrow> string \<Rightarrow> int set" where
  "logged s ty = set (map ev_alert_id (filter (\<lambda>e. ev_type e = ty) (alert_events s)))"

lemma logged_log_event: "logged (log_event i ty m s) ty' = (if ty = ty' then insert i (logged s ty') else logged s ty')"
  by (auto simp: logged_def log_event_def)

lemma logged_fold: "logged (fold (\<lambda>a. log_event (al_id a) ty m) es s) ty = logged s ty \<union> al_id ` set es"
  by (induction es arbitrary: s) (auto simp: logged_log_event)

lemma logged_same_events: "alert_events t = alert_events s \<Longrightarrow> logged t = logged s"
  by (simp add: logged_def fun_eq_iff)

lemma logged_simps [simp]:
  "logged (s\<lparr>db_clock := t\<rparr>) = logged s" "logged (s\<lparr>queue := q\<rparr>) = logged s"
  "logged (update_status i st s) = logged s" "logged (log_attempt i p u n rm em s) = logged s"
  "logged (ping_run t w d s) = logged s" "logged (ping_success t w d s) = logged s"
  "logged (snd (create_alert args s)) = logged s"
  by (rule logged_same_events, simp add: create_alert_simps)+

lemma expire_stale_simps:
  "alerts (snd (expire_stale now s)) =
     map (\<lambda>a. if is_stale_alert now a then a\<lparr>al_status := EXPIRED\<rparr> else a) (alerts s)"
  "fst (expire_stale now s) = map (\<lambda>a. a\<lparr>al_status := EXPIRED\<rparr>) (filter (is_stale_alert now) (alerts s))"
  "queue (snd (expire_stale now s)) = queue s" "alert_events (snd (expire_stale now s)) = alert_events s"
  "db_clock (snd (expire_stale now s)) = db_clock s"
  by (simp_all add: expire_stale_def)

lemma expiry_job_simps:
  "alerts (expiry_job now s) =
     map (\<lambda>a. if is_stale_alert now a then a\<lparr>al_status := EXPIRED\<rparr> else a) (alerts s)"
  "queue (expiry_job now s) = queue s" "db_clock (expiry_job now s) = db_clock s"
  "logged (expiry_job now s) ''EXPIRED'' =
     logged s ''EXPIRED'' \<union> al_id ` {a \<in> set (alerts s). is_stale_alert now a}"
  by (simp_all add: expiry_job_def split_beta expire_stale_simps logged_fold
      logged_same_events [OF expire_stale_simps(4)] image_image)

lemma expiry_job_wf: "store_wf s \<Longrightarrow> store_wf (expiry_job now s)"
  by (auto simp: expiry_job_def split_beta expire_stale_simps alert_ids_def
      intro!: fold_log_event_wf store_wf_expire)

section \<open>Rows keep their identity\<close>

text \<open>The columns no transaction ever rewrites.\<close>

definition row_key :: "alert_row \<Rightarrow> int \<times> string \<times> int \<times> string \<times> int" where
  "row_key a = (al_id a, al_fingerprint a, al_symbol_id a, al_signal_type a, al_created_at a)"

lemma row_key_map:
  "(\<And>a. a \<in> set rows \<Longrightarrow> row_key (f a) = row_key a) \<Longrightarrow> map row_key (map f rows) = map row_key rows"
  by simp

lemma row_key_set_status: "map row_key (set_status i st rows) = map row_key rows"
  unfolding set_status_def by (rule row_key_map) (simp add: row_key_def)

lemma record_attempt_alerts:
  "snd (record_attempt cfg p i k res s) = s
   \<or> (\<exists>st. st \<in> {SENT, FAILED, RETRYING} \<and> alerts (snd (record_attempt cfg p i k res s)) = set_status i st (alerts s))"
  by (auto simp: record_attempt_def Let_def split: option.splits)

lemma record_attempt_row_keys:
  "map row_key (alerts (snd (record_attempt cfg p i k res s))) = map row_key (alerts s)"
  using record_attempt_alerts [of cfg p i k res s] row_key_set_status by auto

lemma record_attempt_db_clock [simp]: "db_clock (snd (record_attempt cfg p i k res s)) = db_clock s"
  by (auto simp: record_attempt_def Let_def update_status_def split: option.splits)

lemma expiry_job_row_keys: "map row_key (alerts (expiry_job now s)) = map row_key (alerts s)"
  unfolding expiry_job_simps by (rule row_key_map) (simp add: row_key_def)

text \<open>A step appends one row, with the next key and the current time, or appends none.\<close>

lemma alert_step_rows:
  assumes "alert_step rt cfg s s'"
  shows "map row_key (alerts s') = map row_key (alerts s)
       \<or> (\<exists>t d y now q. opt_else now t \<le> db_clock s \<and> creates (rt\<lparr>clock := t\<rparr>) cfg d y now s
             \<and> s' = snd (process (rt\<lparr>clock := t\<rparr>) cfg d y now s)
             \<and> alerts s' = alerts s
                 @ [fst (create_alert (alert_args (rt\<lparr>clock := t\<rparr>) cfg d q y (opt_else now t)) s)])"
  using assms
proof cases
  case (decide now t d y)
  show ?thesis
  proof (cases "creates (rt\<lparr>clock := t\<rparr>) cfg d y now s")
    case True
    from process_creates(2) [OF this] obtain q where
      "alerts s' = alerts s @ [fst (create_alert (alert_args (rt\<lparr>clock := t\<rparr>) cfg d q y (opt_else now t)) s)]"
      by (auto simp: decide(1))
    with True decide show ?thesis by blast
  next
    case False
    then show ?thesis using process_keeps(2) [OF False] decide by simp
  qed
qed (simp_all add: expiry_job_row_keys record_attempt_row_keys)

section \<open>Well-formed tables and queue\<close>

definition alerts_inv :: "store \<Rightarrow> bool" where
  "alerts_inv s \<longleftrightarrow> store_wf s \<and> set (q_items (queue s)) \<subseteq> alert_ids s
     \<and> (\<forall>a \<in> set (alerts s). al_created_at a \<le> db_clock s)"

lemma ids_row_keys:
  fixes s s' :: store
  assumes eq: "map row_key (alerts s') = map row_key (alerts s)"
  shows "alert_ids s' = alert_ids s"
proof -
  have k: "alert_ids u = fst ` set (map row_key (alerts u))" for u :: store
    by (simp add: alert_ids_def row_key_def image_image)
  show "alert_ids s' = alert_ids s" unfolding k eq ..
qed

lemma row_keys_transfer:
  assumes "map row_key (alerts s') = map row_key (alerts s)" "a \<in> set (alerts s')"
  shows "\<exists>b \<in> set (alerts s). row_key b = row_key a"
proof -
  have "row_key a \<in> set (map row_key (alerts s'))" using assms(2) by simp
  then show ?thesis unfolding assms(1) by auto
qed

lemma process_ids:
  "alert_ids (snd (process rt cfg d y now s)) =
     (if creates rt cfg d y now s then insert (next_alert_id s) (alert_ids s) else alert_ids s)"
proof (cases "creates rt cfg d y now s")
  case True
  then show ?thesis
    using process_creates(2) [OF True] by (auto simp: alert_ids_def create_alert_def Let_def)
next
  case False
  then show ?thesis using process_keeps(2) [OF False] by (simp add: alert_ids_def)
qed

lemma store_wf_clock: "store_wf (s\<lparr>db_clock := t\<rparr>) = store_wf s"
  by (simp add: store_wf_def alert_ids_def)

lemma alerts_inv_step:
  assumes inv: "alerts_inv s" and step: "alert_step rt cfg s s'"
  shows "alerts_inv s'"
proof -
  have wf: "store_wf s'"
    using step inv unfolding alerts_inv_def
    by cases (auto simp: store_wf_clock intro: process_wf expiry_job_wf record_attempt_wf store_wf_queue)
  have q: "set (q_items (queue s')) \<subseteq> alert_ids s'"
    using step
  proof cases
    case (decide now t d y)
    with inv show ?thesis
      using process_creates(3) [of "rt\<lparr>clock := t\<rparr>" cfg d y now s]
        process_keeps(3) [of "rt\<lparr>clock := t\<rparr>" cfg d y now s]
      by (auto simp: alerts_inv_def process_ids)
  next
    case (attempt i p k res)
    with inv show ?thesis
      using ids_row_keys [OF record_attempt_row_keys [of cfg p i k res s]]
      by (simp add: alerts_inv_def record_attempt_frame)
  next
    case (expire now)
    with inv show ?thesis
      using ids_row_keys [OF expiry_job_row_keys [of now s]] by (simp add: alerts_inv_def expiry_job_simps)
  next
    case (take_id i q)
    with inv show ?thesis
      using aq.get_Some [OF take_id(2)] by (simp add: alerts_inv_def alert_ids_def)
  next
    case (task_done q)
    with inv show ?thesis
      by (auto simp: alerts_inv_def alert_ids_def q_task_done_def split: if_splits)
  qed (use inv in \<open>simp add: alerts_inv_def alert_ids_def\<close>)
  have clk: "db_clock s \<le> db_clock s'"
    using step by cases (simp_all add: expiry_job_simps)
  have c: "\<forall>a \<in> set (alerts s'). al_created_at a \<le> db_clock s'"
    using alert_step_rows [OF step]
  proof (elim disjE exE conjE)
    assume "map row_key (alerts s') = map row_key (alerts s)"
    from row_keys_transfer [OF this] inv clk show ?thesis
      by (fastforce simp: alerts_inv_def row_key_def)
  next
    fix t d y now q
    assume "alerts s' = alerts s
        @ [fst (create_alert (alert_args (rt\<lparr>clock := t\<rparr>) cfg d q y (opt_else now t)) s)]"
    with inv clk show ?thesis by (fastforce simp: alerts_inv_def create_alert_def Let_def)
  qed
  from wf q c show ?thesis by (simp add: alerts_inv_def)
qed

lemma alerts_inv_initial: "alerts_inv (initial_store t)"
  by (simp add: alerts_inv_def initial_store_def store_wf_def alert_ids_def empty_queue_def)

lemma alerts_inv_reachable: "alert_reachable rt cfg s \<Longrightarrow> alerts_inv s"
  by (rule alert_invariant_rule [of alerts_inv]) (auto intro: alerts_inv_initial alerts_inv_step)

text \<open>C32: In every reachable state the alert primary keys increase with insertion, every event,
  delivery record and queued id refers to a stored alert, and no alert is dated after the database clock.\<close>

theorem alert_tables_consistent:
  assumes "alert_reachable rt cfg s"
  shows "sorted_wrt (<) (map al_id (alerts s))
    \<and> (\<forall>e \<in> set (alert_events s). ev_alert_id e \<in> alert_ids s)
    \<and> (\<forall>d \<in> set (delivery_logs s). dl_alert_id d \<in> alert_ids s)
    \<and> set (q_items (queue s)) \<subseteq> alert_ids s
    \<and> (\<forall>a \<in> set (alerts s). al_created_at a \<le> db_clock s)"
  using alerts_inv_reachable [OF assms] by (auto simp: alerts_inv_def store_wf_def)

section \<open>Cooldown\<close>

definition spaced :: "settings \<Rightarrow> alert_row \<Rightarrow> alert_row \<Rightarrow> bool" where
  "spaced cfg a b \<longleftrightarrow>
     (al_symbol_id a = al_symbol_id b \<and> al_signal_type a = al_signal_type b
        \<longrightarrow> al_created_at a + alert_cooldown_minutes cfg * minute_us < al_created_at b)"

text \<open>\<open>spaced\<close> reads the key columns only.\<close>

lemma sorted_wrt_row_key:
  assumes "map row_key rows' = map row_key rows" "\<And>a b a' b'. row_key a = row_key a' \<Longrightarrow> row_key b = row_key b' \<Longrightarrow> R a b = R a' b'"
  shows "sorted_wrt R rows' = sorted_wrt R rows"
proof -
  have len: "length rows' = length rows" using assms(1) map_eq_imp_length_eq by blast
  have nth: "row_key (rows' ! i) = row_key (rows ! i)" if "i < length rows" for i
    using assms(1) that len by (metis nth_map)
  show ?thesis unfolding sorted_wrt_iff_nth_less len
    using assms(2) nth by (meson order.strict_trans)
qed

lemma creates_spaced:
  assumes "creates rt cfg d y now s" "opt_else now (clock rt) \<le> db_clock s" "a \<in> set (alerts s)"
  shows "spaced cfg a (fst (create_alert (alert_args rt cfg d q y (opt_else now (clock rt))) s))"
  using assms unfolding creates_def throttle_suppressed_iff
  by (fastforce simp: spaced_def create_alert_def alert_args_def Let_def)

lemma spaced_step:
  assumes "sorted_wrt (spaced cfg) (alerts s)" "alert_step rt cfg s s'"
  shows "sorted_wrt (spaced cfg) (alerts s')"
  using alert_step_rows [OF assms(2)]
proof (elim disjE exE conjE)
  assume "map row_key (alerts s') = map row_key (alerts s)"
  then have "sorted_wrt (spaced cfg) (alerts s') = sorted_wrt (spaced cfg) (alerts s)"
    by (rule sorted_wrt_row_key) (simp add: spaced_def row_key_def)
  then show ?thesis using assms(1) by simp
next
  fix t d y now q
  assume a: "opt_else now t \<le> db_clock s" "creates (rt\<lparr>clock := t\<rparr>) cfg d y now s"
    "alerts s' = alerts s @ [fst (create_alert (alert_args (rt\<lparr>clock := t\<rparr>) cfg d q y (opt_else now t)) s)]"
  show ?thesis using assms(1) a(1) creates_spaced [OF a(2)]
    by (simp add: a(3) sorted_wrt_append)
qed

lemma spaced_reachable: "alert_reachable rt cfg s \<Longrightarrow> sorted_wrt (spaced cfg) (alerts s)"
  by (rule alert_invariant_rule [of "\<lambda>s. sorted_wrt (spaced cfg) (alerts s)"])
    (auto simp: initial_store_def intro: spaced_step)

lemma sorted_wrt_by_id:
  assumes "store_wf s" "sorted_wrt R (alerts s)" "a \<in> set (alerts s)" "b \<in> set (alerts s)" "al_id a < al_id b"
  shows "R a b"
proof -
  from assms(3,4) obtain i j where ij: "i < length (alerts s)" "alerts s ! i = a" "j < length (alerts s)" "alerts s ! j = b"
    by (auto simp: in_set_conv_nth)
  have st: "sorted_wrt (<) (map al_id (alerts s))" using assms(1) by (simp add: store_wf_def)
  have "i < j"
  proof (rule ccontr)
    assume "\<not> i < j"
    then consider "i = j" | "j < i" by linarith
    then show False
    proof cases
      case 2
      with st ij have "al_id b < al_id a" by (auto simp: sorted_wrt_iff_nth_less)
      with assms(5) show False by simp
    qed (use ij assms(5) in simp)
  qed
  with assms(2) ij show ?thesis by (auto simp: sorted_wrt_iff_nth_less)
qed

text \<open>C3: Along every run in which a decision is taken no later than the row is written, two alerts for the
  same symbol and signal type are more than the configured cooldown apart, whatever the expiry job
  and the deliveries did in between.\<close>

theorem alerts_respect_cooldown:
  assumes "alert_reachable rt cfg s"
    and "a \<in> set (alerts s)" "b \<in> set (alerts s)" "al_id a < al_id b"
    and "al_symbol_id a = al_symbol_id b" "al_signal_type a = al_signal_type b"
  shows "al_created_at a + alert_cooldown_minutes cfg * minute_us < al_created_at b"
  using sorted_wrt_by_id [OF _ spaced_reachable [OF assms(1)] assms(2-4)]
    alerts_inv_reachable [OF assms(1)] assms(5,6)
  by (simp add: spaced_def alerts_inv_def)

section \<open>One signal, one alert\<close>

text \<open>An alert may follow an earlier one with its fingerprint only after the expiry job retired it.\<close>

definition reissued :: "store \<Rightarrow> alert_row \<Rightarrow> alert_row \<Rightarrow> bool" where
  "reissued s a b \<longleftrightarrow> (al_fingerprint a = al_fingerprint b \<longrightarrow> al_id a \<in> logged s ''EXPIRED'')"

definition reissue_inv :: "store \<Rightarrow> bool" where
  "reissue_inv s \<longleftrightarrow> alerts_inv s \<and> sorted_wrt (reissued s) (alerts s)
     \<and> (\<forall>a \<in> set (alerts s). al_status a = EXPIRED \<longrightarrow> al_id a \<in> logged s ''EXPIRED'')"

lemma logged_attempt: "logged (snd (record_attempt cfg p i k res s)) ''EXPIRED'' = logged s ''EXPIRED''"
  by (simp add: record_attempt_def Let_def logged_log_event split: option.split)

lemma logged_suppressed: "logged (log_suppressed c r s) ''EXPIRED'' = logged s ''EXPIRED''"
  by (simp add: log_suppressed_def logged_log_event split: option.split)

lemma logged_process: "logged (snd (process rt cfg d y now s)) ''EXPIRED'' = logged s ''EXPIRED''"
proof -
  have "logged (snd (process_impl rt cfg d y now s)) ''EXPIRED'' = logged s ''EXPIRED''"
    by (simp add: process_impl_def Let_def split_beta logged_log_event logged_suppressed split: option.split)
  then show ?thesis by (simp add: process_def split_beta split: sum.split)
qed

lemma logged_mono: "alert_step rt cfg s s' \<Longrightarrow> logged s ''EXPIRED'' \<subseteq> logged s' ''EXPIRED''"
  by (erule alert_step.cases) (auto simp: logged_attempt logged_process expiry_job_simps)

lemma creates_reissued:
  assumes "reissue_inv s" "creates rt cfg d y now s" "a \<in> set (alerts s)"
  shows "reissued s a (fst (create_alert (alert_args rt cfg d q y m) s))"
proof -
  have fp: "al_fingerprint (fst (create_alert (alert_args rt cfg d q y m) s)) = build_fingerprint rt d"
    by (simp add: create_alert_def alert_args_def Let_def)
  have "al_id a \<in> logged s ''EXPIRED''" if a: "al_fingerprint a = build_fingerprint rt d"
  proof -
    obtain e where e: "get_by_fingerprint (build_fingerprint rt d) s = Some e"
      using a assms(3) newest_by_None_iff [of al_id "\<lambda>r. al_fingerprint r = build_fingerprint rt d" "alerts s"]
      by (cases "get_by_fingerprint (build_fingerprint rt d) s") (auto simp: get_by_fingerprint_def)
    note n = newest_by_SomeD [OF e [unfolded get_by_fingerprint_def]]
    have x: "al_status e = EXPIRED" using assms(2) e by (auto simp: creates_def dedup_suppressed_iff)
    have le: "al_id a \<le> al_id e" using n(3) assms(3) a by blast
    show ?thesis
    proof (cases "al_id a = al_id e")
      case True
      with x n(1) assms(1) show ?thesis by (simp add: reissue_inv_def)
    next
      case False
      with le have "al_id a < al_id e" by simp
      moreover have "store_wf s" using assms(1) by (simp add: reissue_inv_def alerts_inv_def)
      ultimately have "reissued s a e"
        using sorted_wrt_by_id [of s "reissued s" a e] assms n(1) by (simp add: reissue_inv_def)
      with a n(2) show ?thesis by (simp add: reissued_def)
    qed
  qed
  then show ?thesis by (simp add: reissued_def fp)
qed

lemma expired_step:
  assumes "reissue_inv s" "alert_step rt cfg s s'" "a \<in> set (alerts s')" "al_status a = EXPIRED"
  shows "al_id a \<in> logged s' ''EXPIRED''"
  using assms(2)
proof cases
  case (decide now t d y)
  show ?thesis
  proof (cases "creates (rt\<lparr>clock := t\<rparr>) cfg d y now s")
    case True
    from process_creates(2) [OF this] assms(1,3,4) decide show ?thesis
      by (auto simp: reissue_inv_def logged_process create_alert_def Let_def)
  next
    case False
    from process_keeps(2) [OF False] assms(1,3,4) decide show ?thesis
      by (simp add: reissue_inv_def logged_process)
  qed
next
  case (attempt i p k res)
  then show ?thesis
    using record_attempt_alerts [of cfg p i k res s] assms(1,3,4)
    by (auto simp: reissue_inv_def logged_attempt set_status_def split: if_splits)
next
  case (expire now)
  then show ?thesis using assms(1,3,4) by (auto simp: reissue_inv_def expiry_job_simps split: if_splits)
qed (use assms in \<open>auto simp: reissue_inv_def\<close>)

lemma reissue_step:
  assumes inv: "reissue_inv s" and step: "alert_step rt cfg s s'"
  shows "reissue_inv s'"
proof -
  note mono = logged_mono [OF step]
  have "sorted_wrt (reissued s') (alerts s')"
    using alert_step_rows [OF step]
  proof (elim disjE exE conjE)
    assume "map row_key (alerts s') = map row_key (alerts s)"
    then have "sorted_wrt (reissued s') (alerts s') = sorted_wrt (reissued s') (alerts s)"
      by (rule sorted_wrt_row_key) (simp add: reissued_def row_key_def)
    moreover have "sorted_wrt (reissued s') (alerts s)"
      by (rule sorted_wrt_mono_rel [of _ "reissued s"]) (use inv mono in \<open>auto simp: reissued_def reissue_inv_def\<close>)
    ultimately show ?thesis by simp
  next
    fix t d y now q
    assume a: "creates (rt\<lparr>clock := t\<rparr>) cfg d y now s"
      "alerts s' = alerts s @ [fst (create_alert (alert_args (rt\<lparr>clock := t\<rparr>) cfg d q y (opt_else now t)) s)]"
    have "sorted_wrt (reissued s) (alerts s')"
      using inv creates_reissued [OF inv a(1)] by (simp add: a(2) sorted_wrt_append reissue_inv_def)
    then show ?thesis
      by (rule sorted_wrt_mono_rel [rotated]) (use mono in \<open>auto simp: reissued_def\<close>)
  qed
  with expired_step [OF inv step] alerts_inv_step [OF _ step] inv show ?thesis
    by (auto simp: reissue_inv_def)
qed

lemma reissue_reachable: "alert_reachable rt cfg s \<Longrightarrow> reissue_inv s"
  by (rule alert_invariant_rule [of reissue_inv])
    (auto simp: reissue_inv_def [of "initial_store _"] alerts_inv_initial intro: reissue_step,
      auto simp: initial_store_def)

text \<open>C2: Along every run, if two alerts carry the same fingerprint then the expiry job retired the older
  one: without an expiry a signal raises exactly one alert, however often it is evaluated.\<close>

theorem duplicate_only_after_expiry:
  assumes "alert_reachable rt cfg s"
    and "a \<in> set (alerts s)" "b \<in> set (alerts s)" "al_id a < al_id b" "al_fingerprint a = al_fingerprint b"
  shows "\<exists>e \<in> set (alert_events s). ev_type e = ''EXPIRED'' \<and> ev_alert_id e = al_id a"
proof -
  from reissue_reachable [OF assms(1)] have r: "store_wf s" "sorted_wrt (reissued s) (alerts s)"
    by (auto simp: reissue_inv_def alerts_inv_def)
  from sorted_wrt_by_id [OF r assms(2-4)] assms(5) have "al_id a \<in> logged s ''EXPIRED''" by (simp add: reissued_def)
  then show ?thesis by (auto simp: logged_def)
qed

section \<open>A run with two alerts for one signal\<close>

definition demo_decision :: decision_result where
  "demo_decision =
     \<lparr>dr_symbol = ''ABC'', dr_scanner_name = ''breakout_v1'', dr_signal_type = ''BREAKOUT'',
      dr_decision = D_ALERT, dr_score = 91, dr_quality = Some MEDIUM, dr_passed_rules = [],
      dr_failed_rules = [], dr_warnings = [],
      dr_feature_snapshot = [''breakout_level'' \<mapsto> PyFloat 100, ''date'' \<mapsto> PyStr ''2026-02-04''],
      dr_timestamp = utc_dt 0, dr_rule_results = []\<rparr>"

definition demo_fired :: "store \<Rightarrow> int \<Rightarrow> store" where
  "demo_fired s t = snd (process (demo_runtime\<lparr>clock := t\<rparr>) default_settings demo_decision 7 None s)"

definition demo_late :: int where
  "demo_late = 240 * minute_us"

definition demo_retired :: store where
  "demo_retired = expiry_job demo_late ((demo_fired (initial_store 0) 0)\<lparr>db_clock := demo_late\<rparr>)"

definition demo_store :: store where
  "demo_store = demo_fired demo_retired demo_late"

lemma db_clock_fired [simp]: "db_clock (demo_fired s t) = db_clock s"
  by (simp add: demo_fired_def)

lemma demo_reachable:
  "alert_reachable demo_runtime default_settings demo_retired"
  "alert_reachable demo_runtime default_settings demo_store"
proof -
  let ?step = "alert_step demo_runtime default_settings"
  have fire: "?step s (demo_fired s t)" if "t \<le> db_clock s" for s t
    unfolding demo_fired_def by (rule alert_step.decide) (simp add: that)
  have "?step\<^sup>*\<^sup>* (initial_store 0) (demo_fired (initial_store 0) 0)"
    by (rule r_into_rtranclp, rule fire) (simp add: initial_store_def)
  also have "?step (demo_fired (initial_store 0) 0) ((demo_fired (initial_store 0) 0)\<lparr>db_clock := demo_late\<rparr>)"
    by (rule alert_step.tick) (simp add: initial_store_def demo_late_def minute_us_def)
  also have "?step ((demo_fired (initial_store 0) 0)\<lparr>db_clock := demo_late\<rparr>) demo_retired"
    unfolding demo_retired_def by (rule alert_step.expire)
  finally have r: "?step\<^sup>*\<^sup>* (initial_store 0) demo_retired" .
  have "?step demo_retired demo_store"
    unfolding demo_store_def by (rule fire) (simp add: demo_retired_def expiry_job_simps)
  with r have "?step\<^sup>*\<^sup>* (initial_store 0) demo_store" by simp
  with r show "alert_reachable demo_runtime default_settings demo_retired"
    "alert_reachable demo_runtime default_settings demo_store"
    by (auto simp: alert_reachable_def)
qed

definition demo_view :: "store \<Rightarrow> (int \<times> int \<times> string \<times> string \<times> int \<times> alert_status) list" where
  "demo_view s = map (\<lambda>a. (al_id a, al_symbol_id a, al_signal_type a, al_fingerprint a, al_created_at a, al_status a)) (alerts s)"

lemma demo_retired_view:
  "demo_view demo_retired =
     [(1, 7, ''BREAKOUT'', ''ABC|breakout_v1|BREAKOUT|?|2026-02-04'', 0, EXPIRED)]"
  by code_simp

lemma demo_store_view:
  "demo_view demo_store =
     [(1, 7, ''BREAKOUT'', ''ABC|breakout_v1|BREAKOUT|?|2026-02-04'', 0, EXPIRED),
      (2, 7, ''BREAKOUT'', ''ABC|breakout_v1|BREAKOUT|?|2026-02-04'', 14400000000, PENDING)]"
  by code_simp

lemma view_two:
  assumes "demo_view s = [(i, y, ty, fp, c, st), (i', y', ty', fp', c', st')]"
  shows "\<exists>a b. alerts s = [a, b] \<and> al_id a = i \<and> al_symbol_id a = y \<and> al_signal_type a = ty
    \<and> al_fingerprint a = fp \<and> al_created_at a = c \<and> al_status a = st
    \<and> al_id b = i' \<and> al_symbol_id b = y' \<and> al_signal_type b = ty'
    \<and> al_fingerprint b = fp' \<and> al_created_at b = c' \<and> al_status b = st'"
  using assms by (auto simp: demo_view_def)

theorem alert_tables_consistent_witness: "sorted_wrt (<) (map al_id (alerts demo_store))"
  using alert_tables_consistent [OF demo_reachable(2)] by blast

theorem alerts_respect_cooldown_witness:
  "(0::int) + alert_cooldown_minutes default_settings * minute_us < 14400000000"
proof -
  obtain a b where "alerts demo_store = [a, b]" "al_id a = 1" "al_symbol_id a = 7" "al_signal_type a = ''BREAKOUT''"
    "al_created_at a = 0" "al_id b = 2" "al_symbol_id b = 7" "al_signal_type b = ''BREAKOUT''"
    "al_created_at b = 14400000000" using view_two [OF demo_store_view] by blast
  then show ?thesis using alerts_respect_cooldown [OF demo_reachable(2), of a b] by simp
qed

theorem duplicate_only_after_expiry_witness:
  "\<exists>e \<in> set (alert_events demo_store). ev_type e = ''EXPIRED'' \<and> ev_alert_id e = 1"
proof -
  obtain a b where "alerts demo_store = [a, b]" "al_id a = 1" "al_id b = 2"
    "al_fingerprint a = ''ABC|breakout_v1|BREAKOUT|?|2026-02-04''"
    "al_fingerprint b = ''ABC|breakout_v1|BREAKOUT|?|2026-02-04''" using view_two [OF demo_store_view] by blast
  then show ?thesis using duplicate_only_after_expiry [OF demo_reachable(2), of a b] by simp
qed

end
