(* ===== verification/Decision_Engine.thy ===== *)
theory Decision_Engine
  imports Scanner_Manager Alert_Lifecycle
begin

text \<open>
  The decision run: app/decision/engine.py. Every qualified scanner result is turned into a candidate,
  evaluated, and handed to the alert manager when the verdict is ALERT. The alert manager is an
  argument, as in the source's constructor; the locale states what the engine needs of it.
\<close>

section \<open>The engine\<close>

record decision_run =
  dn_evaluated :: nat
  dn_alerts_created :: nat
  dn_watch :: nat
  dn_reject :: nat
  dn_errors :: "(string \<times> py_error) list"

definition empty_run :: decision_run where
  "empty_run = \<lparr>dn_evaluated = 0, dn_alerts_created = 0, dn_watch = 0, dn_reject = 0, dn_errors = []\<rparr>"

definition candidate_of :: "string \<Rightarrow> result_row \<Rightarrow> decision_candidate" where
  "candidate_of symbol r =
     \<lparr>dc_symbol = symbol, dc_scanner_name = rr_scanner_name r,
      dc_signal_type = derive_signal_type (rr_scanner_name r), dc_score = rr_score r,
      dc_scan_date = rr_date r, dc_feature_snapshot = rr_snapshot r\<rparr>"

type_synonym 's submit = "decision_result \<Rightarrow> int \<Rightarrow> 's \<Rightarrow> (py_error + int option) \<times> 's"

definition decide_one ::
  "'s submit \<Rightarrow> runtime \<Rightarrow> settings \<Rightarrow> int \<Rightarrow> (int \<rightharpoonup> string) \<Rightarrow> result_row
     \<Rightarrow> decision_run \<times> 's \<Rightarrow> decision_run \<times> 's" where
  "decide_one submit rt cfg moment names r p =
     (case p of (run, s) \<Rightarrow>
        (case names (rr_symbol_id r) of
           None \<Rightarrow> (run, s)
         | Some symbol \<Rightarrow>
             (let run1 = run\<lparr>dn_evaluated := Suc (dn_evaluated run)\<rparr>;
                  d = evaluate rt cfg (candidate_of symbol r) (Some moment)
              in case dr_decision d of
                   D_ALERT \<Rightarrow>
                     (case submit d (rr_symbol_id r) s of
                        (Inl e, s') \<Rightarrow> (run1\<lparr>dn_errors := dn_errors run1 @ [(symbol, e)]\<rparr>, s')
                      | (Inr None, s') \<Rightarrow> (run1, s')
                      | (Inr (Some _), s') \<Rightarrow> (run1\<lparr>dn_alerts_created := Suc (dn_alerts_created run1)\<rparr>, s'))
                 | D_WATCH \<Rightarrow> (run1\<lparr>dn_watch := Suc (dn_watch run1)\<rparr>, s)
                 | D_REJECT \<Rightarrow> (run1\<lparr>dn_reject := Suc (dn_reject run1)\<rparr>, s))))"

definition symbol_names :: "int list \<Rightarrow> 'x market_store_scheme \<Rightarrow> (int \<rightharpoonup> string)" where
  "symbol_names ids s = map_of (rev (map (\<lambda>r. (sy_id r, sy_symbol r)) (list_by_ids ids s)))"

definition decision_run_all ::
  "'x scanner_store_scheme submit \<Rightarrow> runtime \<Rightarrow> settings \<Rightarrow> int option \<Rightarrow> 'x scanner_store_scheme
     \<Rightarrow> decision_run \<times> 'x scanner_store_scheme" where
  "decision_run_all submit rt cfg now s =
     (let moment = opt_else now (clock rt);
          qualified = list_results None (Some ''qualified'') 5000 s;
          names = symbol_names (map rr_symbol_id qualified) s
      in fold (decide_one submit rt cfg moment names) qualified (empty_run, s))"

section \<open>What the engine needs of an alert manager\<close>

locale alert_sink =
  fixes submit :: "'s submit"
    and issued :: "'s \<Rightarrow> nat"
  assumes accepts: "dr_decision d = D_ALERT \<Longrightarrow> dr_quality d \<noteq> None \<Longrightarrow> \<exists>r. fst (submit d y s) = Inr r"
    and issues: "fst (submit d y s) = Inr r \<Longrightarrow>
      issued (snd (submit d y s)) = (if r = None then issued s else Suc (issued s))"
begin

definition balanced :: "nat \<Rightarrow> decision_run \<times> 's \<Rightarrow> bool" where
  "balanced n p \<longleftrightarrow> issued (snd p) = n + dn_alerts_created (fst p) \<and> dn_errors (fst p) = []
     \<and> dn_alerts_created (fst p) + dn_watch (fst p) + dn_reject (fst p) \<le> dn_evaluated (fst p)"

lemma decide_one_balanced:
  assumes "balanced n p"
  shows "balanced n (decide_one submit rt cfg moment names r p)"
proof (cases "names (rr_symbol_id r)")
  case None
  with assms show ?thesis by (simp add: decide_one_def split_beta)
next
  case (Some symbol)
  let ?d = "evaluate rt cfg (candidate_of symbol r) (Some moment)"
  obtain run s where p: "p = (run, s)" by (cases p)
  show ?thesis
  proof (cases "dr_decision ?d")
    case D_ALERT
    then have "dr_quality ?d \<noteq> None" by (simp add: evaluate_quality)
    from accepts [OF D_ALERT this] obtain a where a: "fst (submit ?d (rr_symbol_id r) s) = Inr a" by blast
    obtain s' where s': "submit ?d (rr_symbol_id r) s = (Inr a, s')" using a by (cases "submit ?d (rr_symbol_id r) s") auto
    from issues [OF a] s' assms p Some D_ALERT show ?thesis
      by (cases a) (auto simp: decide_one_def balanced_def Let_def)
  qed (use assms p Some in \<open>auto simp: decide_one_def balanced_def Let_def\<close>)
qed

lemma fold_balanced: "balanced n p \<Longrightarrow> balanced n (fold (decide_one submit rt cfg moment names) rs p)"
  by (induction rs arbitrary: p) (simp_all add: decide_one_balanced)

end

lemma process_issues:
  assumes "fst (process rt cfg d y now s) = Inr r"
  shows "length (alerts (snd (process rt cfg d y now s))) = (if r = None then length (alerts s) else Suc (length (alerts s)))"
proof (cases "creates rt cfg d y now s")
  case True
  with process_creates(1,2) [OF True] assms show ?thesis by auto
next
  case False
  with process_keeps(1,2) [OF False] assms show ?thesis by (cases r) auto
qed

interpretation manager: alert_sink "\<lambda>d y s. process rt cfg d y (Some moment) s" "\<lambda>s. length (alerts s)"
  for rt cfg moment
  by unfold_locales (rule process_no_error, simp, rule process_issues)

section \<open>Properties\<close>

lemma decide_one_evaluated:
  "dn_evaluated (fst (decide_one sub rt cfg t names r p)) =
     dn_evaluated (fst p) + (if names (rr_symbol_id r) = None then 0 else 1)"
  by (auto simp: decide_one_def Let_def split: prod.splits option.splits sum.splits decision.splits)

lemma fold_evaluated:
  "dn_evaluated (fst (fold (decide_one sub rt cfg t names) rs p)) =
     dn_evaluated (fst p) + length (filter (\<lambda>r. names (rr_symbol_id r) \<noteq> None) rs)"
  by (induction rs arbitrary: p) (auto simp: decide_one_evaluated)

text \<open>A decision run never fails on a candidate, evaluates every qualified result whose symbol is known,
  and reports exactly the alerts it added: the number created is the growth of the alerts table, and
  created, watched and rejected candidates are disjoint parts of the evaluated ones.\<close>

theorem decision_run_accounts:
  "let t = opt_else now (clock rt);
       out = decision_run_all (\<lambda>d y. process rt cfg d y (Some t)) rt cfg now s;
       run = fst out;
       qualified = list_results None (Some ''qualified'') 5000 s
   in dn_errors run = []
    \<and> length (alerts (snd out)) = length (alerts s) + dn_alerts_created run
    \<and> dn_alerts_created run + dn_watch run + dn_reject run \<le> dn_evaluated run
    \<and> dn_evaluated run = length (filter (\<lambda>r. symbol_names (map rr_symbol_id qualified) s (rr_symbol_id r) \<noteq> None) qualified)"
proof -
  have b: "manager.balanced (length (alerts s)) (empty_run, s)"
    by (simp add: manager.balanced_def empty_run_def)
  from manager.fold_balanced [OF b] show ?thesis
    by (simp add: manager.balanced_def decision_run_all_def Let_def fold_evaluated empty_run_def)
qed

text \<open>Evaluating the same candidates twice at one moment raises no second alert: a verdict whose signal
  already has a live alert, or whose symbol alerted within the cooldown, adds no alert and no queue entry.\<close>

theorem resubmission_suppressed:
  assumes "fst (process rt cfg d y (Some t) s) = Inr (Some i)" "0 \<le> alert_cooldown_minutes cfg" "t \<le> db_clock s"
  shows "fst (process rt cfg d y (Some t) (snd (process rt cfg d y (Some t) s))) = Inr None
    \<and> alerts (snd (process rt cfg d y (Some t) (snd (process rt cfg d y (Some t) s)))) = alerts (snd (process rt cfg d y (Some t) s))
    \<and> queue (snd (process rt cfg d y (Some t) (snd (process rt cfg d y (Some t) s)))) = queue (snd (process rt cfg d y (Some t) s))"
proof -
  have c: "creates rt cfg d y (Some t) s" using process_keeps(1) assms(1) by blast
  obtain q where q: "dr_quality d = Some q" "alerts (snd (process rt cfg d y (Some t) s)) =
      alerts s @ [fst (create_alert (alert_args rt cfg d q y t) s)]" using process_creates(2) [OF c] by auto
  let ?a = "fst (create_alert (alert_args rt cfg d q y t) s)" and ?s = "snd (process rt cfg d y (Some t) s)"
  have a: "al_symbol_id ?a = y" "al_signal_type ?a = dr_signal_type d" "al_created_at ?a = db_clock s"
    by (simp_all add: create_alert_def alert_args_def Let_def)
  have "t - alert_cooldown_minutes cfg * minute_us \<le> db_clock s"
    using assms(2,3) mult_nonneg_nonneg [of "alert_cooldown_minutes cfg" minute_us] by (simp add: minute_us_def)
  then have "suppressed (throttle_check cfg y (dr_signal_type d) t ?s)"
    unfolding throttle_suppressed_iff q(2) using a by auto
  then have n: "\<not> creates rt cfg d y (Some t) ?s" by (simp add: creates_def)
  have "\<exists>r. fst (process rt cfg d y (Some t) ?s) = Inr r" using process_no_error q(1) by blast
  with process_keeps [OF n] show ?thesis by (metis not_None_eq)
qed

theorem resubmission_suppressed_witness:
  "fst (process demo_runtime default_settings demo_decision 7 (Some 0)
     (snd (process demo_runtime default_settings demo_decision 7 (Some 0) (initial_store 0)))) = Inr None"
proof -
  have "fst (process demo_runtime default_settings demo_decision 7 (Some 0) (initial_store 0)) = Inr (Some 1)"
    by code_simp
  from resubmission_suppressed [OF this] show ?thesis by (simp add: default_settings_def initial_store_def)
qed

end
