(* ===== verification/Delivery.thy ===== *)
theory Delivery
  imports Alert_Lifecycle
begin

text \<open>
  What the notification worker does with one alert. The answers of the provider, one per attempt,
  determine everything: how many attempts are made, the final status, the pauses and the
  delivery log. The detailed loop over the tables refines that function of the answers.
\<close>

section \<open>Specification over the provider's answers\<close>

text \<open>The attempt that ends the delivery, with \<open>n\<close> attempts left after attempt \<open>k\<close>.\<close>

fun final_attempt :: "(nat \<Rightarrow> delivery_result) \<Rightarrow> nat \<Rightarrow> nat \<Rightarrow> nat" where
  "final_attempt r 0 k = k"
| "final_attempt r (Suc n) k =
     (if de_success (r (Suc k)) \<or> \<not> de_retryable (r (Suc k)) then Suc k else final_attempt r n (Suc k))"

definition final_status :: "delivery_result \<Rightarrow> alert_status" where
  "final_status res = (if de_success res then SENT else FAILED)"

definition backoff_delays :: "settings \<Rightarrow> nat \<Rightarrow> nat \<Rightarrow> rat list" where
  "backoff_delays cfg k n = map (\<lambda>j. alert_retry_delay_seconds cfg * 2 ^ (j - 1)) [Suc k..<n]"

lemma final_attempt_range: "k \<le> final_attempt r n k \<and> final_attempt r n k \<le> k + n \<and> (0 < n \<longrightarrow> k < final_attempt r n k)"
  by (induction r n k rule: final_attempt.induct) auto

lemma final_attempt_before:
  "k < j \<Longrightarrow> j < final_attempt r n k \<Longrightarrow> \<not> de_success (r j) \<and> de_retryable (r j)"
proof (induction r n k rule: final_attempt.induct)
  case (2 r n k)
  then show ?case by (cases "j = Suc k") (auto split: if_splits)
qed simp

section \<open>The detailed loop\<close>

lemma set_status_twice: "set_status i st (set_status i st' rows) = set_status i st rows"
  by (simp add: set_status_def)

lemma get_by_id_alerts: "alerts t = alerts s \<Longrightarrow> get_by_id j t = get_by_id j s"
  by (simp add: get_by_id_def)

lemma message_context_status: "message_context cfg names (a\<lparr>al_status := st\<rparr>) = message_context cfg names a"
  by (simp add: message_context_def)

lemma get_by_id_set_status:
  "alerts t = set_status i st (alerts s) \<Longrightarrow> get_by_id i s = Some a \<Longrightarrow> get_by_id i t = Some (a\<lparr>al_status := st\<rparr>)"
  using get_by_id_update [of i i st s] get_by_id_alerts [of t "update_status i st s"] by simp

text \<open>One attempt on a stored alert.\<close>

lemma record_attempt_cases:
  assumes "get_by_id i s = Some a"
  shows "de_success res \<or> \<not> de_retryable res \<or> alert_max_retries cfg \<le> int k \<Longrightarrow>
      fst (record_attempt cfg p i k res s) = Done
      \<and> alerts (snd (record_attempt cfg p i k res s)) = set_status i (final_status res) (alerts s)"
    and "\<not> de_success res \<Longrightarrow> de_retryable res \<Longrightarrow> int k < alert_max_retries cfg \<Longrightarrow>
      fst (record_attempt cfg p i k res s) = Retry_after (alert_retry_delay_seconds cfg * 2 ^ (k - 1))
      \<and> alerts (snd (record_attempt cfg p i k res s)) = set_status i RETRYING (alerts s)"
    and "\<exists>d. delivery_logs (snd (record_attempt cfg p i k res s)) = delivery_logs s @ [d]
      \<and> dl_alert_id d = i \<and> dl_attempt_number d = int k \<and> dl_status d = de_status res"
proof -
  have lg: "delivery_logs (log_attempt i p st n rm em s) = delivery_logs s @
      [\<lparr>dl_id = next_log_id s, dl_alert_id = i, dl_provider = p, dl_status = st, dl_attempt_number = n,
        dl_response_metadata = rm, dl_error_message = em, dl_created_at = db_clock s\<rparr>]" for st n rm em
    by (simp add: log_attempt_def)
  have g: "get_by_id i (log_attempt i p u n rm em s) = Some a" for u n rm em
    using assms by (simp add: get_by_id_def)
  show "de_success res \<or> \<not> de_retryable res \<or> alert_max_retries cfg \<le> int k \<Longrightarrow>
      fst (record_attempt cfg p i k res s) = Done
      \<and> alerts (snd (record_attempt cfg p i k res s)) = set_status i (final_status res) (alerts s)"
    by (auto simp: record_attempt_def Let_def g final_status_def)
  show "\<not> de_success res \<Longrightarrow> de_retryable res \<Longrightarrow> int k < alert_max_retries cfg \<Longrightarrow>
      fst (record_attempt cfg p i k res s) = Retry_after (alert_retry_delay_seconds cfg * 2 ^ (k - 1))
      \<and> alerts (snd (record_attempt cfg p i k res s)) = set_status i RETRYING (alerts s)"
    by (auto simp: record_attempt_def Let_def g)
  show "\<exists>d. delivery_logs (snd (record_attempt cfg p i k res s)) = delivery_logs s @ [d]
      \<and> dl_alert_id d = i \<and> dl_attempt_number d = int k \<and> dl_status d = de_status res"
    by (simp add: record_attempt_def Let_def g lg)
qed

text \<open>The provider's answer to attempt \<open>j\<close> for an alert; the text does not depend on the status.\<close>

definition answer ::
  "settings \<Rightarrow> (alert_context \<Rightarrow> msg) \<Rightarrow> (int \<Rightarrow> string option) \<Rightarrow> provider \<Rightarrow> alert_row \<Rightarrow> nat \<Rightarrow> delivery_result" where
  "answer cfg fmt names p a j = p_send p j (p_default_recipient p) (fmt (message_context cfg names a))"

lemma answer_status: "answer cfg fmt names p (a\<lparr>al_status := st\<rparr>) = answer cfg fmt names p a"
  by (simp add: answer_def message_context_status fun_eq_iff)

definition log_numbers :: "delivery_row list \<Rightarrow> (int \<times> int \<times> string) list" where
  "log_numbers ds = map (\<lambda>d. (dl_alert_id d, dl_attempt_number d, dl_status d)) ds"

lemma deliver_loop_spec:
  fixes cfg :: settings and fmt names and p :: provider
  assumes "get_by_id i s = Some a" "alert_max_retries cfg = int (k + Suc n)"
  defines "r \<equiv> answer cfg fmt names p a"
  defines "m \<equiv> final_attempt r (Suc n) k"
  shows "fst (deliver_loop cfg fmt names p i (Suc n) k s) = Inr (backoff_delays cfg k m)
    \<and> alerts (snd (deliver_loop cfg fmt names p i (Suc n) k s)) = set_status i (final_status (r m)) (alerts s)
    \<and> (\<exists>ds. delivery_logs (snd (deliver_loop cfg fmt names p i (Suc n) k s)) = delivery_logs s @ ds
          \<and> log_numbers ds = map (\<lambda>j. (i, int j, de_status (r j))) [Suc k..<Suc m])"
  using assms(1,2) unfolding m_def r_def
proof (induction n arbitrary: k s a)
  case (0 k s a)
  let ?r = "answer cfg fmt names p a"
  let ?t = "snd (record_attempt cfg (p_name p) i (Suc k) (?r (Suc k)) s)"
  have f: "format_alert cfg fmt names i s = Some (fmt (message_context cfg names a))"
    using 0 by (simp add: format_alert_def)
  have d: "fst (record_attempt cfg (p_name p) i (Suc k) (?r (Suc k)) s) = Done"
    "alerts ?t = set_status i (final_status (?r (Suc k))) (alerts s)"
    using record_attempt_cases(1) [OF 0(1), of "?r (Suc k)" cfg "Suc k" "p_name p"] 0(2) by auto
  have e: "deliver_loop cfg fmt names p i (Suc 0) k s = (Inr [], ?t)"
    using f d(1) by (simp add: Let_def answer_def split_beta prod_eq_iff split: prod.split)
  have fa: "final_attempt ?r (Suc 0) k = Suc k" by simp
  show ?case unfolding e fa
    using d(2) record_attempt_cases(3) [OF 0(1), of cfg "p_name p" "Suc k" "?r (Suc k)"]
    by (auto simp: backoff_delays_def log_numbers_def)
next
  case (Suc n k s a)
  let ?r = "answer cfg fmt names p a"
  let ?x = "record_attempt cfg (p_name p) i (Suc k) (?r (Suc k)) s"
  let ?t = "snd ?x"
  have f: "format_alert cfg fmt names i s = Some (fmt (message_context cfg names a))"
    using Suc.prems by (simp add: format_alert_def)
  from record_attempt_cases(3) [OF Suc.prems(1), of cfg "p_name p" "Suc k" "?r (Suc k)"]
  obtain d where dl: "delivery_logs ?t = delivery_logs s @ [d]"
    "log_numbers [d] = [(i, int (Suc k), de_status (?r (Suc k)))]" by (auto simp: log_numbers_def)
  show ?case
  proof (cases "de_success (?r (Suc k)) \<or> \<not> de_retryable (?r (Suc k))")
    case True
    have d: "fst ?x = Done" "alerts ?t = set_status i (final_status (?r (Suc k))) (alerts s)"
      using record_attempt_cases(1) [OF Suc.prems(1), of "?r (Suc k)" cfg "Suc k" "p_name p"] True by auto
    have e: "deliver_loop cfg fmt names p i (Suc (Suc n)) k s = (Inr [], ?t)"
      using f d(1) by (simp add: Let_def answer_def split_beta prod_eq_iff del: deliver_loop.simps(2)
          add: deliver_loop.simps(2) [of _ _ _ _ _ "Suc n"] split: prod.split)
    have fa: "final_attempt ?r (Suc (Suc n)) k = Suc k" using True by simp
    show ?thesis unfolding e fa using d(2) dl by (auto simp: backoff_delays_def)
  next
    case False
    have d: "fst ?x = Retry_after (alert_retry_delay_seconds cfg * 2 ^ k)"
      "alerts ?t = set_status i RETRYING (alerts s)"
      using record_attempt_cases(2) [OF Suc.prems(1), of "?r (Suc k)" "Suc k" cfg "p_name p"] False Suc.prems(2)
      by auto
    let ?m = "final_attempt ?r (Suc n) (Suc k)"
    let ?l = "deliver_loop cfg fmt names p i (Suc n) (Suc k) ?t"
    have fa: "final_attempt ?r (Suc (Suc n)) k = ?m"
      using False by (simp del: final_attempt.simps(2) add: final_attempt.simps(2) [of _ "Suc n"])
    have le: "Suc k < ?m" using final_attempt_range [of "Suc k" ?r "Suc n"] by simp
    have g: "get_by_id i ?t = Some (a\<lparr>al_status := RETRYING\<rparr>)"
      using get_by_id_set_status [OF d(2) Suc.prems(1)] .
    from Suc.IH [OF g, of "Suc k"] Suc.prems(2)
    have ih: "fst ?l = Inr (backoff_delays cfg (Suc k) ?m)"
      "alerts (snd ?l) = set_status i (final_status (?r ?m)) (alerts ?t)"
      "\<exists>ds. delivery_logs (snd ?l) = delivery_logs ?t @ ds
          \<and> log_numbers ds = map (\<lambda>j. (i, int j, de_status (?r j))) [Suc (Suc k)..<Suc ?m]"
      unfolding answer_status by auto
    have e: "deliver_loop cfg fmt names p i (Suc (Suc n)) k s =
        (Inr ((alert_retry_delay_seconds cfg * 2 ^ k) # backoff_delays cfg (Suc k) ?m), snd ?l)"
      using f d(1) ih(1)
      by (cases ?x; cases ?l) (simp add: Let_def answer_def del: deliver_loop.simps(2)
          add: deliver_loop.simps(2) [of _ _ _ _ _ "Suc n"])
    have b: "backoff_delays cfg k ?m = (alert_retry_delay_seconds cfg * 2 ^ k) # backoff_delays cfg (Suc k) ?m"
      using le by (simp add: backoff_delays_def upt_conv_Cons)
    from ih(3) obtain ds where ds: "delivery_logs (snd ?l) = delivery_logs ?t @ ds"
      "log_numbers ds = map (\<lambda>j. (i, int j, de_status (?r j))) [Suc (Suc k)..<Suc ?m]" by blast
    have u: "[Suc k..<Suc ?m] = Suc k # [Suc (Suc k)..<Suc ?m]" using le by (simp add: upt_conv_Cons)
    have "delivery_logs (snd ?l) = delivery_logs s @ (d # ds)
        \<and> log_numbers (d # ds) = map (\<lambda>j. (i, int j, de_status (?r j))) [Suc k..<Suc ?m]"
      unfolding u using dl ds by (simp add: log_numbers_def)
    then show ?thesis unfolding e fa using b ih(2) d(2) by (auto simp: set_status_twice)
  qed
qed

section \<open>One delivery\<close>

lemma deliver_now_loop:
  assumes "get_by_id i s = Some a" "al_status a \<noteq> SENT"
  shows "deliver_now cfg fmt names rt i s =
    deliver_loop cfg fmt names (resolve rt (alert_category_of a)) i (nat (alert_max_retries cfg)) 0 s"
  using assms by (simp add: deliver_now_def)

text \<open>The outcome of one call in terms of the answers; the properties below read it in two ways.\<close>

lemma deliver_now_outcome:
  fixes cfg :: settings and fmt names and rt :: router and a
  assumes "get_by_id i s = Some a" "al_status a \<noteq> SENT" "0 < alert_max_retries cfg"
  defines "r \<equiv> answer cfg fmt names (resolve rt (alert_category_of a)) a"
  defines "m \<equiv> final_attempt r (nat (alert_max_retries cfg)) 0"
  defines "out \<equiv> deliver_now cfg fmt names rt i s"
  shows "1 \<le> m \<and> int m \<le> alert_max_retries cfg"
    and "fst out = Inr (backoff_delays cfg 0 m)"
    and "alerts (snd out) = set_status i (final_status (r m)) (alerts s)"
    and "\<exists>ds. delivery_logs (snd out) = delivery_logs s @ ds
          \<and> log_numbers ds = map (\<lambda>j. (i, int j, de_status (r j))) [1..<Suc m]"
proof -
  obtain n where n: "nat (alert_max_retries cfg) = Suc n" using assms(3) by (cases "nat (alert_max_retries cfg)") auto
  then have mx: "alert_max_retries cfg = int (0 + Suc n)" by linarith
  show "1 \<le> m \<and> int m \<le> alert_max_retries cfg"
    using final_attempt_range [of 0 r "Suc n"] mx unfolding m_def n by linarith
  note spec = deliver_loop_spec [OF assms(1) mx, of fmt names "resolve rt (alert_category_of a)"]
  show "fst out = Inr (backoff_delays cfg 0 m)"
    and "alerts (snd out) = set_status i (final_status (r m)) (alerts s)"
    and "\<exists>ds. delivery_logs (snd out) = delivery_logs s @ ds
          \<and> log_numbers ds = map (\<lambda>j. (i, int j, de_status (r j))) [1..<Suc m]"
    using spec unfolding out_def m_def r_def deliver_now_loop [OF assms(1,2)] n by simp_all
qed

text \<open>C4: Delivering a stored alert that is not SENT makes between one and \<open>alert_max_retries\<close> attempts and
  stops at the first answer that is a success or not retryable; the alert ends SENT or FAILED
  accordingly, no other alert changes, every attempt is logged with its number and the provider's
  status, and the pauses double from \<open>alert_retry_delay_seconds\<close>.\<close>

theorem deliver_now_follows_answers:
  assumes "get_by_id i s = Some a" "al_status a \<noteq> SENT" "0 < alert_max_retries cfg"
  shows "let r = answer cfg fmt names (resolve rt (alert_category_of a)) a;
             m = final_attempt r (nat (alert_max_retries cfg)) 0;
             out = deliver_now cfg fmt names rt i s
         in 1 \<le> m \<and> int m \<le> alert_max_retries cfg
          \<and> fst out = Inr (backoff_delays cfg 0 m)
          \<and> alerts (snd out) = set_status i (final_status (r m)) (alerts s)
          \<and> (\<exists>ds. delivery_logs (snd out) = delivery_logs s @ ds
                \<and> log_numbers ds = map (\<lambda>j. (i, int j, de_status (r j))) [1..<Suc m])"
  unfolding Let_def using deliver_now_outcome [OF assms, of fmt names rt] by blast

definition sample_answer :: delivery_result where
  "sample_answer = \<lparr>de_success = False, de_status = ''FAILED'', de_provider_message_id = None,
     de_error_message = Some ''timeout'', de_response_metadata = [], de_retryable = True\<rparr>"

definition flaky_provider :: provider where
  "flaky_provider = \<lparr>p_name = ''telegram'', p_default_recipient = ''42'',
     p_send = (\<lambda>k _ _. if k < 3 then sample_answer else sample_answer\<lparr>de_success := True, de_status := ''SENT''\<rparr>)\<rparr>"

definition flaky_router :: router where
  "flaky_router = \<lparr>r_default = flaky_provider, r_ipo = flaky_provider, r_fno = flaky_provider\<rparr>"

lemma demo_retired_row: "\<exists>a. get_by_id 1 demo_retired = Some a \<and> al_status a = EXPIRED"
proof -
  from demo_retired_view obtain a where "alerts demo_retired = [a]" "al_id a = 1" "al_status a = EXPIRED"
    by (auto simp: demo_view_def)
  then show ?thesis by (simp add: get_by_id_def)
qed

theorem deliver_now_follows_answers_witness:
  "\<exists>m. fst (deliver_now default_settings (\<lambda>_. lit ''text'') (\<lambda>_. Some ''ABC'') flaky_router 1 demo_retired)
     = Inr (backoff_delays default_settings 0 m) \<and> 1 \<le> m \<and> m \<le> 3"
proof -
  obtain a where a: "get_by_id 1 demo_retired = Some a" "al_status a = EXPIRED" using demo_retired_row by blast
  have mx: "alert_max_retries default_settings = 3" by code_simp
  have "al_status a \<noteq> SENT" using a by simp
  from deliver_now_follows_answers [OF a(1) this, of default_settings "\<lambda>_. lit ''text''" "\<lambda>_. Some ''ABC''" flaky_router]
  show ?thesis unfolding mx Let_def by fastforce
qed

section \<open>A second delivery\<close>

text \<open>Delivery is idempotent exactly when it succeeded. After a delivery that ended SENT a second call
  changes nothing and sends nothing; after one that ended FAILED a second call makes the same
  attempts again, with the same pauses, logs each of them once more and leaves every status as it was.\<close>

theorem delivery_repeated:
  assumes "get_by_id i s = Some a" "0 < alert_max_retries cfg"
  shows "let r = answer cfg fmt names (resolve rt (alert_category_of a)) a;
             m = final_attempt r (nat (alert_max_retries cfg)) 0;
             out = deliver_now cfg fmt names rt i s;
             again = deliver_now cfg fmt names rt i (snd out)
         in if al_status a = SENT \<or> de_success (r m) then again = (Inr [], snd out)
            else fst again = fst out \<and> alerts (snd again) = alerts (snd out)
              \<and> length (delivery_logs (snd again)) = length (delivery_logs (snd out)) + m"
proof (cases "al_status a = SENT")
  case True
  then show ?thesis using assms(1) by (simp add: deliver_now_def)
next
  case False
  define r where "r = answer cfg fmt names (resolve rt (alert_category_of a)) a"
  define m where "m = final_attempt r (nat (alert_max_retries cfg)) 0"
  define out where "out = deliver_now cfg fmt names rt i s"
  define b where "b = a\<lparr>al_status := final_status (r m)\<rparr>"
  note first = deliver_now_outcome [OF assms(1) False assms(2), of fmt names rt, folded r_def out_def, folded m_def]
  have g: "get_by_id i (snd out) = Some b"
    using get_by_id_set_status [OF first(3) assms(1)] by (simp add: b_def)
  have same: "answer cfg fmt names (resolve rt (alert_category_of b)) b = r"
    by (simp add: b_def r_def answer_status alert_category_of_def)
  show ?thesis
  proof (cases "de_success (r m)")
    case True
    then have "al_status b = SENT" by (simp add: b_def final_status_def)
    then have "deliver_now cfg fmt names rt i (snd out) = (Inr [], snd out)" using g by (simp add: deliver_now_def)
    then show ?thesis using True by (simp add: Let_def r_def [symmetric] m_def [symmetric] out_def [symmetric])
  next
    case failed: False
    then have "al_status b \<noteq> SENT" by (simp add: b_def final_status_def)
    note second = deliver_now_outcome [OF g this assms(2), of fmt names rt, unfolded same, folded m_def]
    from second(4) obtain ds where "delivery_logs (snd (deliver_now cfg fmt names rt i (snd out))) = delivery_logs (snd out) @ ds"
      and "log_numbers ds = map (\<lambda>j. (i, int j, de_status (r j))) [1..<Suc m]" by blast
    moreover from this(2) have "length (log_numbers ds) = length [1..<Suc m]" by (simp only: length_map)
    then have "length ds = m" by (simp add: log_numbers_def del: upt_Suc)
    ultimately show ?thesis using second(2,3) first(2,3) failed False
      by (simp add: Let_def r_def [symmetric] m_def [symmetric] out_def [symmetric] set_status_twice)
  qed
qed

theorem delivery_repeated_witness:
  "deliver_now default_settings (\<lambda>_. lit ''text'') (\<lambda>_. Some ''ABC'') flaky_router 1
     (snd (deliver_now default_settings (\<lambda>_. lit ''text'') (\<lambda>_. Some ''ABC'') flaky_router 1 demo_retired))
   = (Inr [], snd (deliver_now default_settings (\<lambda>_. lit ''text'') (\<lambda>_. Some ''ABC'') flaky_router 1 demo_retired))"
proof -
  obtain a where a: "get_by_id 1 demo_retired = Some a" using demo_retired_row by blast
  have mx: "alert_max_retries default_settings = 3" by code_simp
  have p: "resolve flaky_router c = flaky_provider" for c
    by (cases c) (simp_all add: resolve_def flaky_router_def)
  have "de_success (answer default_settings fmt names flaky_provider a j) \<longleftrightarrow> 3 \<le> j"
    "de_retryable (answer default_settings fmt names flaky_provider a j)" for fmt names j
    by (simp_all add: answer_def flaky_provider_def sample_answer_def)
  then show ?thesis
    using delivery_repeated [OF a, of default_settings "\<lambda>_. lit ''text''" "\<lambda>_. Some ''ABC''" flaky_router]
    unfolding mx p Let_def by (simp add: numeral_3_eq_3)
qed

section \<open>Deliveries as steps\<close>

text \<open>Running a delivery without interruption is one of the interleavings of \<open>alert_step\<close>.\<close>

lemma deliver_loop_steps:
  "i \<in> alert_ids s \<Longrightarrow> (alert_step rt cfg)\<^sup>*\<^sup>* s (snd (deliver_loop cfg fmt names p i n k s))"
proof (induction cfg fmt names p i n k s rule: deliver_loop.induct)
  case (2 cfg fmt names p i n k s)
  show ?case
  proof (cases "format_alert cfg fmt names i s")
    case None
    then show ?thesis by simp
  next
    case (Some message)
    let ?x = "record_attempt cfg (p_name p) i (Suc k) (p_send p (Suc k) (p_default_recipient p) message) s"
    have st: "(alert_step rt cfg)\<^sup>*\<^sup>* s (snd ?x)"
      by (rule r_into_rtranclp) (rule alert_step.attempt [OF "2.prems"])
    have ids: "i \<in> alert_ids (snd ?x)" using "2.prems" ids_row_keys [OF record_attempt_row_keys] by blast
    obtain o' t where x: "?x = (o', t)" by (cases ?x)
    show ?thesis
    proof (cases o')
      case (Retry_after d)
      have "(alert_step rt cfg)\<^sup>*\<^sup>* t (snd (deliver_loop cfg fmt names p i n (Suc k) t))"
        using "2.IH" [OF refl Some x [symmetric] Retry_after] ids x by simp
      with st x Some Retry_after show ?thesis
        by (auto simp: Let_def split: prod.split sum.split)
    qed (use st x Some in \<open>simp_all add: Let_def\<close>)
  qed
qed simp

text \<open>The worker's delivery of one alert refines the step relation, so what holds in every reachable
  state holds before and after it; recovery after a restart does too, for all pending alerts.\<close>

theorem deliveries_are_steps:
  assumes "alert_reachable rt cfg s"
  shows "alert_reachable rt cfg (snd (deliver_now cfg fmt names r i s))
       \<and> alert_reachable rt cfg (snd (recover_pending cfg fmt names r s))"
proof -
  have one: "(alert_step rt cfg)\<^sup>*\<^sup>* t (snd (deliver_now cfg fmt names r j t))" for j t
    using deliver_loop_steps [of j t rt cfg] get_by_id_SomeD [of j t]
    by (auto simp: deliver_now_def alert_ids_def split: option.split simp del: deliver_loop.simps)
  have "(alert_step rt cfg)\<^sup>*\<^sup>* t (fold (\<lambda>a u. snd (deliver_now cfg fmt names r (al_id a) u)) as t)" for as t
  proof (induction as arbitrary: t)
    case (Cons a as)
    from one [of t "al_id a"] Cons.IH show ?case by (metis (no_types, lifting) fold_simps(2) rtranclp_trans)
  qed simp
  with one assms show ?thesis
    unfolding recover_pending_def Let_def snd_conv by (blast intro: alert_reachable_steps)
qed

theorem deliveries_are_steps_witness:
  "alert_reachable demo_runtime default_settings
     (snd (deliver_now default_settings (\<lambda>_. lit ''text'') (\<lambda>_. Some ''ABC'') flaky_router 1 demo_store))"
  using deliveries_are_steps [OF demo_reachable(2)] by blast

section \<open>Delivery of an alert that expired in the queue\<close>


end
