(* ===== verification/Candidate_Core.thy ===== *)
theory Candidate_Core
  imports Scanners
begin

text \<open>
  Stock candidates: app/candidates/models.py and the pure functions of app/candidates/builder.py. The
  factor and source dictionaries a candidate carries are JSON-like values.
\<close>

section \<open>Types (models.py)\<close>

datatype universe = U_IPO | U_FNO | U_LISTED

fun universe_value :: "universe \<Rightarrow> string" where
  "universe_value U_IPO = ''IPO''"
| "universe_value U_FNO = ''FNO''"
| "universe_value U_LISTED = ''LISTED''"

datatype setup_state = PRE_BREAKOUT | BREAKOUT_CONFIRMED | SETUP_MOMENTUM

fun setup_value :: "setup_state \<Rightarrow> string" where
  "setup_value PRE_BREAKOUT = ''PRE_BREAKOUT''"
| "setup_value BREAKOUT_CONFIRMED = ''BREAKOUT_CONFIRMED''"
| "setup_value SETUP_MOMENTUM = ''MOMENTUM''"

datatype alert_category =
  IPO_PRE_BREAKOUT | IPO_BREAKOUT | IPO_MOMENTUM | FNO_PRE_BREAKOUT | FNO_BREAKOUT | FNO_MOMENTUM

fun category_value :: "alert_category \<Rightarrow> string" where
  "category_value IPO_PRE_BREAKOUT = ''IPO_PRE_BREAKOUT''"
| "category_value IPO_BREAKOUT = ''IPO_BREAKOUT''"
| "category_value IPO_MOMENTUM = ''IPO_MOMENTUM''"
| "category_value FNO_PRE_BREAKOUT = ''FNO_PRE_BREAKOUT''"
| "category_value FNO_BREAKOUT = ''FNO_BREAKOUT''"
| "category_value FNO_MOMENTUM = ''FNO_MOMENTUM''"

definition decimal_str :: "rat option \<Rightarrow> pyval" where
  "decimal_str v = (case v of None \<Rightarrow> PyNone | Some x \<Rightarrow> PyStr (dec_str 4 x))"

definition opt_float :: "rat option \<Rightarrow> pyval" where
  "opt_float v = (case v of None \<Rightarrow> PyNone | Some x \<Rightarrow> PyFloat x)"

definition msg_list :: "msg list \<Rightarrow> pyval" where
  "msg_list ms = PyList (map PyMsg ms)"

record stock_candidate =
  ca_symbol :: string
  ca_instrument_type :: string
  ca_universe :: universe
  ca_scanner_type :: string
  ca_price :: "rat option"
  ca_breakout_level :: "rat option"
  ca_support_level :: "rat option"
  ca_resistance_level :: "rat option"
  ca_fundamental_score :: "rat option"
  ca_technical_score :: rat
  ca_overall_score :: rat
  ca_quality :: string
  ca_fundamental_reasons :: "msg list"
  ca_technical_reasons :: "msg list"
  ca_risk_flags :: "msg list"
  ca_passed_rules :: "msg list"
  ca_failed_rules :: "msg list"
  ca_data_completeness_pct :: rat
  ca_technical_data_completeness_pct :: rat
  ca_setup_state :: "setup_state option"
  ca_alert_category :: "alert_category option"
  ca_reason :: msg
  ca_timestamp :: pydatetime
  ca_scanner_sources :: "string list"
  ca_fundamental_factors :: "pyval list"
  ca_technical_factors :: "pyval list"
  ca_fundamental_field_sources :: "pyval list"
  ca_fundamental_status :: string
  ca_technical_feature_snapshot :: snapshot

definition candidate_fields :: "stock_candidate \<Rightarrow> (string \<times> pyval) list" where
  "candidate_fields c =
     [(''price'', decimal_str (ca_price c)),
      (''breakout_level'', decimal_str (ca_breakout_level c)),
      (''support_level'', decimal_str (ca_support_level c)),
      (''resistance_level'', decimal_str (ca_resistance_level c)),
      (''instrument_type'', PyStr (ca_instrument_type c)),
      (''universe'', PyStr (universe_value (ca_universe c))),
      (''scanner_type'', PyStr (ca_scanner_type c)),
      (''fundamental_score'', opt_float (ca_fundamental_score c)),
      (''technical_score'', PyFloat (ca_technical_score c)),
      (''overall_score'', PyFloat (ca_overall_score c)),
      (''quality'', PyStr (ca_quality c)),
      (''scanner_sources'', PyList (map PyStr (ca_scanner_sources c))),
      (''fundamental_reasons'', msg_list (ca_fundamental_reasons c)),
      (''technical_reasons'', msg_list (ca_technical_reasons c)),
      (''fundamental_factors'', PyList (ca_fundamental_factors c)),
      (''technical_factors'', PyList (ca_technical_factors c)),
      (''fundamental_field_sources'', PyList (ca_fundamental_field_sources c)),
      (''fundamental_status'', PyStr (ca_fundamental_status c)),
      (''risk_flags'', msg_list (ca_risk_flags c)),
      (''data_completeness_pct'', PyFloat (ca_data_completeness_pct c)),
      (''technical_data_completeness_pct'', PyFloat (ca_technical_data_completeness_pct c)),
      (''setup_state'', case ca_setup_state c of None \<Rightarrow> PyNone | Some s \<Rightarrow> PyStr (setup_value s)),
      (''alert_category'', case ca_alert_category c of None \<Rightarrow> PyNone | Some a \<Rightarrow> PyStr (category_value a)),
      (''passed_rules'', msg_list (ca_passed_rules c)),
      (''failed_rules'', msg_list (ca_failed_rules c)),
      (''reason'', PyMsg (ca_reason c))]"

definition to_feature_snapshot :: "stock_candidate \<Rightarrow> snapshot" where
  "to_feature_snapshot c = foldl (\<lambda>m (k, v). m(k \<mapsto> v)) (ca_technical_feature_snapshot c) (candidate_fields c)"

record candidate_context =
  cc_symbol :: symbol_row
  cc_candidate :: stock_candidate

definition candidate_scan_date :: "candidate_context \<Rightarrow> int" where
  "candidate_scan_date c = date_of (ca_timestamp (cc_candidate c))"

section \<open>Scores and setups (builder.py)\<close>

definition quality_from_score :: "rat \<Rightarrow> quality" where
  "quality_from_score score = (if score \<ge> 75 then HIGH else if score \<ge> 55 then MEDIUM else LOW)"

definition combine_scores :: "settings \<Rightarrow> rat option \<Rightarrow> rat \<Rightarrow> rat" where
  "combine_scores cfg fundamental_score technical_score =
     (case fundamental_score of
        None \<Rightarrow> technical_score
      | Some f \<Rightarrow> f * overall_fundamental_weight cfg + technical_score * overall_technical_weight cfg)"

definition detect_setup_state :: "settings \<Rightarrow> feature_row \<Rightarrow> rat \<Rightarrow> setup_state option" where
  "detect_setup_state cfg daily price =
     (case dec_col daily ''resistance_level'' of
        None \<Rightarrow> None
      | Some resistance \<Rightarrow>
          if resistance = 0 then None
          else
            (let pct_above = (price / resistance - 1) * 100;
                 proximity = pre_breakout_proximity_pct cfg;
                 rvol = num_or_0 daily ''relative_volume'';
                 adx = num_or_0 daily ''adx14''
             in if - proximity \<le> pct_above \<and> pct_above < 0 then Some PRE_BREAKOUT
                else if 0 \<le> pct_above \<and> pct_above \<le> proximity \<and> rvol \<ge> fno_momentum_min_rvol cfg then
                  Some BREAKOUT_CONFIRMED
                else if pct_above > proximity \<and> adx \<ge> fno_momentum_min_adx cfg then Some SETUP_MOMENTUM
                else None))"

definition daily_feature_snapshot :: "feature_row \<Rightarrow> snapshot" where
  "daily_feature_snapshot daily = columns_snapshot DAILY_FEATURE_COLUMNS daily Map.empty"

lemma combine_scores_range [score_bounds]:
  assumes "0 \<le> overall_fundamental_weight cfg" "0 \<le> overall_technical_weight cfg"
    "overall_fundamental_weight cfg + overall_technical_weight cfg = 1"
    "case f of None \<Rightarrow> True | Some x \<Rightarrow> 0 \<le> x \<and> x \<le> 100" "0 \<le> t \<and> t \<le> 100"
  shows "0 \<le> combine_scores cfg f t \<and> combine_scores cfg f t \<le> 100"
proof (cases f)
  case (Some x)
  with assms(4) have x: "0 \<le> x" "x \<le> 100" by simp_all
  have "x * overall_fundamental_weight cfg \<le> 100 * overall_fundamental_weight cfg"
    "t * overall_technical_weight cfg \<le> 100 * overall_technical_weight cfg"
    using x assms by (auto intro: mult_right_mono)
  then have "x * overall_fundamental_weight cfg + t * overall_technical_weight cfg
      \<le> 100 * (overall_fundamental_weight cfg + overall_technical_weight cfg)" by (simp add: algebra_simps)
  then show ?thesis using Some x assms by (simp add: combine_scores_def)
qed (use assms in \<open>simp add: combine_scores_def\<close>)

end
