(* ===== verification/Factor_Scoring.thy ===== *)
theory Factor_Scoring
  imports Feature_Store
begin

text \<open>
  The factor loop shared by app/technical/scorer.py and app/fundamentals/scorer.py: each factor has an
  extractor, a normalizer to 0..100 and a share of its category's weight; missing factors count for
  nothing, and the score is the weighted mean of the known ones. The locale states what a scorer's
  tables must satisfy for the mean to stay in range.
\<close>

datatype factor_status = POSITIVE | NEGATIVE | UNKNOWN

record factor =
  fa_name :: string
  fa_category :: string
  fa_value :: "msg option"
  fa_normalized :: "rat option"
  fa_weight :: rat
  fa_contribution :: rat
  fa_status :: factor_status
  fa_reason :: msg

record 'd factor_def =
  fd_name :: string
  fd_category :: string
  fd_extract :: "'d \<Rightarrow> rat option"
  fd_normalize :: "rat \<Rightarrow> rat"
  fd_label :: string

text \<open>The band tables: the score of the first threshold met, the last score when none is.\<close>

definition higher_is_better :: "(rat \<times> rat) list \<Rightarrow> rat \<Rightarrow> rat" where
  "higher_is_better bands v =
     (case find (\<lambda>(threshold, score). v \<ge> threshold) bands of Some (_, score) \<Rightarrow> score | None \<Rightarrow> snd (last bands))"

definition lower_is_better :: "(rat \<times> rat) list \<Rightarrow> rat \<Rightarrow> rat" where
  "lower_is_better bands v =
     (case find (\<lambda>(threshold, score). v \<le> threshold) bands of Some (_, score) \<Rightarrow> score | None \<Rightarrow> snd (last bands))"

lemma find_member: "find P xs = Some x \<Longrightarrow> x \<in> set xs"
  by (induction xs) (auto split: if_splits)

lemma bands_range:
  assumes "bands \<noteq> []" "\<forall>b \<in> set bands. 0 \<le> snd b \<and> snd b \<le> 100"
  shows "0 \<le> higher_is_better bands v \<and> higher_is_better bands v \<le> 100"
    and "0 \<le> lower_is_better bands v \<and> lower_is_better bands v \<le> 100"
proof -
  have l: "0 \<le> snd (last bands) \<and> snd (last bands) \<le> 100" using assms last_in_set by blast
  have f: "0 \<le> snd b \<and> snd b \<le> 100" if "find P bands = Some b" for P b using assms(2) find_member [OF that] by blast
  show "0 \<le> higher_is_better bands v \<and> higher_is_better bands v \<le> 100"
    using l f by (auto simp: higher_is_better_def split: option.split)
  show "0 \<le> lower_is_better bands v \<and> lower_is_better bands v \<le> 100"
    using l f by (auto simp: lower_is_better_def split: option.split)
qed

definition category_count :: "'d factor_def list \<Rightarrow> string \<Rightarrow> nat" where
  "category_count defs category = length (filter (\<lambda>d. fd_category d = category) defs)"

definition per_factor_weight :: "(string \<Rightarrow> rat) \<Rightarrow> 'd factor_def list \<Rightarrow> 'd factor_def \<Rightarrow> rat" where
  "per_factor_weight category_weight defs d =
     category_weight (fd_category d) / of_nat (category_count defs (fd_category d))"

definition make_factor ::
  "(string \<Rightarrow> rat) \<Rightarrow> 'd factor_def list \<Rightarrow> (string \<Rightarrow> factor_status \<Rightarrow> rat \<Rightarrow> msg) \<Rightarrow> 'd \<Rightarrow> 'd factor_def \<Rightarrow> factor" where
  "make_factor category_weight defs reason inputs d =
     (let w = per_factor_weight category_weight defs d in
      case fd_extract d inputs of
        None \<Rightarrow>
          \<lparr>fa_name = fd_name d, fa_category = fd_category d, fa_value = None, fa_normalized = None, fa_weight = w,
           fa_contribution = 0, fa_status = UNKNOWN, fa_reason = [Lit (fd_label d), Lit '' unavailable'']\<rparr>
      | Some raw \<Rightarrow>
          (let normalized = fd_normalize d raw; st = (if normalized \<ge> 60 then POSITIVE else NEGATIVE)
           in \<lparr>fa_name = fd_name d, fa_category = fd_category d, fa_value = Some [Gen raw],
               fa_normalized = Some normalized, fa_weight = w, fa_contribution = normalized * w,
               fa_status = st, fa_reason = reason (fd_label d) st raw\<rparr>))"

definition known_factors :: "factor list \<Rightarrow> factor list" where
  "known_factors factors = filter (\<lambda>f. fa_normalized f \<noteq> None) factors"

definition weight_sum :: "factor list \<Rightarrow> rat" where
  "weight_sum factors = sum_list (map fa_weight (known_factors factors))"

definition contribution_sum :: "factor list \<Rightarrow> rat" where
  "contribution_sum factors = sum_list (map fa_contribution (known_factors factors))"

definition completeness_pct :: "factor list \<Rightarrow> rat" where
  "completeness_pct factors = 100 * of_nat (length (known_factors factors)) / of_nat (length factors)"

definition reasons_with :: "factor_status \<Rightarrow> factor list \<Rightarrow> msg list" where
  "reasons_with st factors = map fa_reason (filter (\<lambda>f. fa_status f = st) factors)"

lemma completeness_range: "0 \<le> completeness_pct fs \<and> completeness_pct fs \<le> 100"
proof -
  have "length (known_factors fs) \<le> length fs" by (simp add: known_factors_def)
  then have "100 * (of_nat (length (known_factors fs)) :: rat) \<le> 100 * of_nat (length fs)" by simp
  then show ?thesis by (cases "fs = []") (simp_all add: completeness_pct_def divide_le_eq)
qed

lemma reasons_partition:
  "length (reasons_with POSITIVE fs) + length (reasons_with NEGATIVE fs) + length (reasons_with UNKNOWN fs) = length fs"
proof (induction fs)
  case (Cons f fs)
  then show ?case by (cases "fa_status f") (simp_all add: reasons_with_def)
qed (simp add: reasons_with_def)

locale factor_scorer =
  fixes defs :: "'d factor_def list" and category_weight :: "string \<Rightarrow> rat"
    and reason :: "string \<Rightarrow> factor_status \<Rightarrow> rat \<Rightarrow> msg" and weights_ok :: bool
  assumes normalized_range: "d \<in> set defs \<Longrightarrow> 0 \<le> fd_normalize d v \<and> fd_normalize d v \<le> 100"
    and weights_nonneg: "weights_ok \<Longrightarrow> d \<in> set defs \<Longrightarrow> 0 \<le> category_weight (fd_category d)"
    and some_def: "defs \<noteq> []"
begin

abbreviation factors :: "'d \<Rightarrow> factor list" where
  "factors inputs \<equiv> map (make_factor category_weight defs reason inputs) defs"

lemma factor_bounds:
  assumes "weights_ok" "f \<in> set (factors inputs)" "fa_normalized f \<noteq> None"
  shows "0 \<le> fa_weight f \<and> 0 \<le> fa_contribution f \<and> fa_contribution f \<le> 100 * fa_weight f"
proof -
  from assms(2) obtain d where d: "d \<in> set defs" "f = make_factor category_weight defs reason inputs d" by auto
  have w: "0 \<le> per_factor_weight category_weight defs d"
    using weights_nonneg [OF assms(1) d(1)] by (simp add: per_factor_weight_def)
  from assms(3) d(2) obtain raw where raw: "fd_extract d inputs = Some raw"
    by (auto simp: make_factor_def Let_def split: option.splits)
  note r = normalized_range [OF d(1), of raw]
  show ?thesis using d(2) raw w r by (simp add: make_factor_def Let_def mult_right_mono)
qed

lemma mean_range:
  assumes "weights_ok" "0 < weight_sum (factors inputs)"
  shows "0 \<le> contribution_sum (factors inputs) / weight_sum (factors inputs)
    \<and> contribution_sum (factors inputs) / weight_sum (factors inputs) \<le> 100"
proof -
  let ?k = "known_factors (factors inputs)"
  have b: "0 \<le> fa_weight f \<and> 0 \<le> fa_contribution f \<and> fa_contribution f \<le> 100 * fa_weight f" if "f \<in> set ?k" for f
    using factor_bounds [OF assms(1)] that by (auto simp: known_factors_def)
  have "0 \<le> sum_list (map fa_contribution ?k)" using b by (intro sum_list_nonneg_rat) blast
  moreover have "sum_list (map fa_contribution ?k) \<le> sum_list (map (\<lambda>f. 100 * fa_weight f) ?k)"
    using b by (intro sum_list_mono_rat) blast
  moreover have "sum_list (map (\<lambda>f. 100 * fa_weight f) ?k) = 100 * sum_list (map fa_weight ?k)"
    by (simp add: sum_list_const_mult)
  ultimately show ?thesis
    using assms(2) by (simp add: contribution_sum_def weight_sum_def divide_le_eq)
qed

lemma statuses:
  "f \<in> set (factors inputs) \<Longrightarrow>
     (fa_status f = UNKNOWN \<longleftrightarrow> fa_normalized f = None)
   \<and> (fa_status f = POSITIVE \<longleftrightarrow> (\<exists>x \<ge> 60. fa_normalized f = Some x))"
  by (auto simp: make_factor_def Let_def split: option.splits if_splits)

lemma length_factors: "length (factors inputs) = length defs"
  by simp

end

end
