(* ===== verification/Technical_Scorer.thy ===== *)
theory Technical_Scorer
  imports Factor_Scoring
begin

text \<open>
  The technical score of a candidate: app/technical/inputs.py, models.py and scorer.py.
\<close>

record technical_inputs =
  ti_price :: rat
  ti_ema20 :: "rat option"
  ti_ema50 :: "rat option"
  ti_trend_direction :: "string option"
  ti_trend_strength :: "rat option"
  ti_rsi14 :: "rat option"
  ti_macd_histogram :: "rat option"
  ti_adx14 :: "rat option"
  ti_relative_volume :: "rat option"
  ti_accumulation_score :: "rat option"
  ti_distribution_score :: "rat option"
  ti_volatility_squeeze :: bool
  ti_atr_expansion :: bool
  ti_session_vwap :: "rat option"
  ti_higher_high :: bool
  ti_higher_low :: bool

definition technical_inputs_of :: "rat \<Rightarrow> feature_row \<Rightarrow> feature_row option \<Rightarrow> technical_inputs" where
  "technical_inputs_of price daily session =
     \<lparr>ti_price = price, ti_ema20 = dec_col daily ''ema20'', ti_ema50 = dec_col daily ''ema50'',
      ti_trend_direction = (case col daily ''trend_direction'' of PyStr s \<Rightarrow> Some s | _ \<Rightarrow> None),
      ti_trend_strength = dec_col daily ''trend_strength'', ti_rsi14 = dec_col daily ''rsi14'',
      ti_macd_histogram = dec_col daily ''macd_histogram'', ti_adx14 = dec_col daily ''adx14'',
      ti_relative_volume = dec_col daily ''relative_volume'',
      ti_accumulation_score = dec_col daily ''accumulation_score'',
      ti_distribution_score = dec_col daily ''distribution_score'',
      ti_volatility_squeeze = bool_col daily ''volatility_squeeze'',
      ti_atr_expansion = bool_col daily ''atr_expansion'',
      ti_session_vwap = (case session of None \<Rightarrow> None | Some s \<Rightarrow> dec_col s ''session_vwap''),
      ti_higher_high = bool_col daily ''higher_high'', ti_higher_low = bool_col daily ''higher_low''\<rparr>"

record technical_score_result =
  ts_score :: rat
  ts_completeness_pct :: rat
  ts_factors :: "factor list"
  ts_positive_reasons :: "msg list"
  ts_negative_reasons :: "msg list"
  ts_unknown_reasons :: "msg list"

section \<open>Normalizers\<close>

definition score_trend_direction :: "rat \<Rightarrow> rat" where
  "score_trend_direction v = (if v = 1 then 90 else if v = 1/2 then 50 else if v = 0 then 15 else 50)"

definition score_price_vs_ema :: "rat \<Rightarrow> rat" where
  "score_price_vs_ema = higher_is_better [(3, 100), (0, 70), (-3, 40), (-999, 20)]"

definition score_rsi :: "rat \<Rightarrow> rat" where
  "score_rsi v =
     (if 55 \<le> v \<and> v \<le> 70 then 100
      else if (45 \<le> v \<and> v < 55) \<or> (70 < v \<and> v \<le> 80) then 70
      else if 35 \<le> v \<and> v < 45 then 40
      else if v > 80 then 40
      else 20)"

definition score_macd_histogram :: "rat \<Rightarrow> rat" where
  "score_macd_histogram v = (if v > 0 then 80 else 20)"

definition score_adx :: "rat \<Rightarrow> rat" where
  "score_adx = higher_is_better [(30, 100), (25, 80), (20, 60), (15, 40), (0, 20)]"

definition score_relative_volume :: "rat \<Rightarrow> rat" where
  "score_relative_volume = higher_is_better [(3, 100), (2, 85), (3/2, 70), (1, 50), (0, 30)]"

definition score_accum_dist :: "rat \<Rightarrow> rat" where
  "score_accum_dist = higher_is_better [(20, 90), (5, 70), (-5, 50), (-20, 30), (-999, 10)]"

definition score_volatility_state :: "rat \<Rightarrow> rat" where
  "score_volatility_state v = (if v = 1 then 80 else if v = 1/2 then 65 else 50)"

definition score_vwap :: "rat \<Rightarrow> rat" where
  "score_vwap = higher_is_better [(1, 90), (0, 65), (-1, 40), (-999, 20)]"

definition score_structure :: "rat \<Rightarrow> rat" where
  "score_structure v = (if v = 2 then 90 else if v = 1 then 60 else if v = 0 then 30 else 50)"

section \<open>Factors\<close>

text \<open>\<open>(price / level - 1) * 100 if level else None\<close>.\<close>

definition pct_above :: "rat \<Rightarrow> rat option \<Rightarrow> rat option" where
  "pct_above price level =
     (case level of None \<Rightarrow> None | Some l \<Rightarrow> if l = 0 then None else Some ((price / l - 1) * 100))"

definition trend_value :: "string option \<Rightarrow> rat option" where
  "trend_value t =
     (if t = Some ''up'' then Some 1 else if t = Some ''sideways'' then Some (1/2)
      else if t = Some ''down'' then Some 0 else None)"

definition TECHNICAL_FACTOR_DEFS :: "technical_inputs factor_def list" where
  "TECHNICAL_FACTOR_DEFS =
     [\<lparr>fd_name = ''trend_direction'', fd_category = ''trend'', fd_extract = (\<lambda>i. trend_value (ti_trend_direction i)),
       fd_normalize = score_trend_direction, fd_label = ''Trend direction''\<rparr>,
      \<lparr>fd_name = ''price_vs_ema20'', fd_category = ''trend'', fd_extract = (\<lambda>i. pct_above (ti_price i) (ti_ema20 i)),
       fd_normalize = score_price_vs_ema, fd_label = ''Price vs EMA20''\<rparr>,
      \<lparr>fd_name = ''price_vs_ema50'', fd_category = ''trend'', fd_extract = (\<lambda>i. pct_above (ti_price i) (ti_ema50 i)),
       fd_normalize = score_price_vs_ema, fd_label = ''Price vs EMA50''\<rparr>,
      \<lparr>fd_name = ''rsi14'', fd_category = ''momentum'', fd_extract = ti_rsi14,
       fd_normalize = score_rsi, fd_label = ''RSI(14)''\<rparr>,
      \<lparr>fd_name = ''macd_histogram'', fd_category = ''momentum'', fd_extract = ti_macd_histogram,
       fd_normalize = score_macd_histogram, fd_label = ''MACD histogram''\<rparr>,
      \<lparr>fd_name = ''adx14'', fd_category = ''momentum'', fd_extract = ti_adx14,
       fd_normalize = score_adx, fd_label = ''ADX(14) trend strength''\<rparr>,
      \<lparr>fd_name = ''relative_volume'', fd_category = ''volume'', fd_extract = ti_relative_volume,
       fd_normalize = score_relative_volume, fd_label = ''Relative volume''\<rparr>,
      \<lparr>fd_name = ''accumulation_vs_distribution'', fd_category = ''volume'',
       fd_extract = (\<lambda>i. case (ti_accumulation_score i, ti_distribution_score i) of
          (Some a, Some d) \<Rightarrow> Some (a - d) | _ \<Rightarrow> None),
       fd_normalize = score_accum_dist, fd_label = ''Accumulation vs distribution''\<rparr>,
      \<lparr>fd_name = ''volatility_state'', fd_category = ''volatility'',
       fd_extract = (\<lambda>i. Some (if ti_volatility_squeeze i then 1 else if ti_atr_expansion i then 1/2 else 0)),
       fd_normalize = score_volatility_state, fd_label = ''Volatility state''\<rparr>,
      \<lparr>fd_name = ''price_vs_vwap'', fd_category = ''vwap'', fd_extract = (\<lambda>i. pct_above (ti_price i) (ti_session_vwap i)),
       fd_normalize = score_vwap, fd_label = ''Price vs session VWAP''\<rparr>,
      \<lparr>fd_name = ''market_structure'', fd_category = ''structure'',
       fd_extract = (\<lambda>i. Some ((if ti_higher_high i then 1 else 0) + (if ti_higher_low i then 1 else 0))),
       fd_normalize = score_structure, fd_label = ''Market structure (higher highs/lows)''\<rparr>]"

definition technical_category_weight :: "settings \<Rightarrow> string \<Rightarrow> rat" where
  "technical_category_weight cfg category =
     opt_else (map_of
       [(''trend'', technical_weight_trend cfg), (''momentum'', technical_weight_momentum cfg),
        (''volume'', technical_weight_volume cfg), (''volatility'', technical_weight_volatility cfg),
        (''vwap'', technical_weight_vwap cfg), (''structure'', technical_weight_structure cfg)] category) 0"

definition technical_reason :: "string \<Rightarrow> factor_status \<Rightarrow> rat \<Rightarrow> msg" where
  "technical_reason label st raw = [Lit label, Lit (if st = POSITIVE then '' favorable'' else '' unfavorable'')]"

definition technical_score :: "settings \<Rightarrow> technical_inputs \<Rightarrow> technical_score_result" where
  "technical_score cfg inputs =
     (let factors = map (make_factor (technical_category_weight cfg) TECHNICAL_FACTOR_DEFS technical_reason inputs)
                      TECHNICAL_FACTOR_DEFS
      in \<lparr>ts_score = (if weight_sum factors > 0 then contribution_sum factors / weight_sum factors else 0),
          ts_completeness_pct = completeness_pct factors, ts_factors = factors,
          ts_positive_reasons = reasons_with POSITIVE factors,
          ts_negative_reasons = reasons_with NEGATIVE factors,
          ts_unknown_reasons = reasons_with UNKNOWN factors\<rparr>)"

section \<open>Range\<close>

definition technical_weights_ok :: "settings \<Rightarrow> bool" where
  "technical_weights_ok cfg \<longleftrightarrow>
     0 \<le> technical_weight_trend cfg \<and> 0 \<le> technical_weight_momentum cfg \<and> 0 \<le> technical_weight_volume cfg
   \<and> 0 \<le> technical_weight_volatility cfg \<and> 0 \<le> technical_weight_vwap cfg \<and> 0 \<le> technical_weight_structure cfg"

lemma technical_normalizers:
  "0 \<le> score_trend_direction v \<and> score_trend_direction v \<le> 100"
  "0 \<le> score_price_vs_ema v \<and> score_price_vs_ema v \<le> 100"
  "0 \<le> score_rsi v \<and> score_rsi v \<le> 100"
  "0 \<le> score_macd_histogram v \<and> score_macd_histogram v \<le> 100"
  "0 \<le> score_adx v \<and> score_adx v \<le> 100"
  "0 \<le> score_relative_volume v \<and> score_relative_volume v \<le> 100"
  "0 \<le> score_accum_dist v \<and> score_accum_dist v \<le> 100"
  "0 \<le> score_volatility_state v \<and> score_volatility_state v \<le> 100"
  "0 \<le> score_vwap v \<and> score_vwap v \<le> 100"
  "0 \<le> score_structure v \<and> score_structure v \<le> 100"
  unfolding score_price_vs_ema_def score_adx_def score_relative_volume_def score_accum_dist_def score_vwap_def
  by (simp_all add: score_trend_direction_def score_rsi_def score_macd_histogram_def
      score_volatility_state_def score_structure_def, (rule bands_range(1); simp)+)

interpretation technical: factor_scorer TECHNICAL_FACTOR_DEFS "technical_category_weight cfg" technical_reason
    "technical_weights_ok cfg" for cfg
proof
  show "0 \<le> fd_normalize d v \<and> fd_normalize d v \<le> 100" if "d \<in> set TECHNICAL_FACTOR_DEFS" for d v
    using that technical_normalizers by (auto simp: TECHNICAL_FACTOR_DEFS_def)
  show "0 \<le> technical_category_weight cfg (fd_category d)"
    if "technical_weights_ok cfg" "d \<in> set TECHNICAL_FACTOR_DEFS" for d
    using that by (auto simp: TECHNICAL_FACTOR_DEFS_def technical_category_weight_def technical_weights_ok_def)
  show "TECHNICAL_FACTOR_DEFS \<noteq> []" by (simp add: TECHNICAL_FACTOR_DEFS_def)
qed

text \<open>With non-negative weights the technical score lies between 0 and 100 whatever data is missing,
  completeness is a percentage of at least two elevenths (two factors are always known), and every factor is
  explained by exactly one reason.\<close>

theorem technical_score_bounded:
  assumes "technical_weights_ok cfg"
  shows "0 \<le> ts_score (technical_score cfg i) \<and> ts_score (technical_score cfg i) \<le> 100
    \<and> 200 / 11 \<le> ts_completeness_pct (technical_score cfg i) \<and> ts_completeness_pct (technical_score cfg i) \<le> 100
    \<and> length (ts_positive_reasons (technical_score cfg i)) + length (ts_negative_reasons (technical_score cfg i))
        + length (ts_unknown_reasons (technical_score cfg i)) = 11"
proof -
  let ?mk = "make_factor (technical_category_weight cfg) TECHNICAL_FACTOR_DEFS technical_reason i"
  let ?fs = "map ?mk TECHNICAL_FACTOR_DEFS"
  have n: "length ?fs = 11" by (simp add: TECHNICAL_FACTOR_DEFS_def)
  have "2 \<le> length (known_factors ?fs)"
  proof -
    have "known_factors ?fs = map ?mk (filter (\<lambda>d. fd_extract d i \<noteq> None) TECHNICAL_FACTOR_DEFS)"
      unfolding known_factors_def filter_map o_def
      by (rule arg_cong [where f = "map ?mk"], rule filter_cong)
        (auto simp: make_factor_def Let_def split: option.splits)
    then show ?thesis by (simp add: TECHNICAL_FACTOR_DEFS_def)
  qed
  then have "(2::rat) \<le> of_nat (length (known_factors ?fs))"
    using of_nat_mono [of 2 "length (known_factors ?fs)"] by simp
  then have "200 / 11 \<le> completeness_pct ?fs" unfolding completeness_pct_def n by simp
  moreover note completeness_range [of ?fs] reasons_partition [of ?fs] technical.mean_range [OF assms, of i] n
  ultimately show ?thesis by (simp add: technical_score_def Let_def)
qed

definition sample_inputs :: technical_inputs where
  "sample_inputs = technical_inputs_of 100 \<lparr>fr_symbol_id = 1, fr_date = 1, fr_cols = default_cols DAILY_FEATURE_COLUMNS\<rparr> None"

theorem technical_score_bounded_witness:
  "ts_score (technical_score default_settings sample_inputs) \<le> 100"
  using technical_score_bounded [of default_settings sample_inputs]
  by (simp add: technical_weights_ok_def default_settings_def)

end
