(* ===== verification/Fundamental_Scorer.thy ===== *)
theory Fundamental_Scorer
  imports Factor_Scoring
begin

text \<open>
  The fundamental score of a company: app/fundamentals/models.py and scorer.py. Data may be missing
  altogether, field by field, or be too sparse to report a score.
\<close>

section \<open>Types (models.py)\<close>

datatype fundamental_tier = TIER_GOOD | TIER_WEAK | TIER_UNKNOWN

datatype field_availability =
  FIELD_AVAILABLE | LIMITED_HISTORY | INSUFFICIENT_DATA | NOT_APPLICABLE | FIELD_UNKNOWN

record field_snapshot =
  fs_field_name :: string
  fs_value :: "rat option"
  fs_source :: "string option"
  fs_period :: "string option"
  fs_status :: field_availability
  fs_as_of :: "int option"
  fs_alternates :: "(string \<times> rat) list"

record fundamental_data =
  fu_symbol :: string
  fu_as_of :: "int option"
  fu_pe :: "rat option"
  fu_pb :: "rat option"
  fu_peg :: "rat option"
  fu_ev_ebitda :: "rat option"
  fu_market_cap_cr :: "rat option"
  fu_dividend_yield_pct :: "rat option"
  fu_revenue_ttm_cr :: "rat option"
  fu_net_profit_ttm_cr :: "rat option"
  fu_revenue_growth_3y_pct :: "rat option"
  fu_revenue_growth_5y_pct :: "rat option"
  fu_eps_growth_3y_pct :: "rat option"
  fu_profit_growth_3y_pct :: "rat option"
  fu_roe_pct :: "rat option"
  fu_roce_pct :: "rat option"
  fu_operating_margin_pct :: "rat option"
  fu_net_margin_pct :: "rat option"
  fu_debt_to_equity :: "rat option"
  fu_interest_coverage :: "rat option"
  fu_current_ratio :: "rat option"
  fu_operating_cash_flow_cr :: "rat option"
  fu_free_cash_flow_cr :: "rat option"
  fu_promoter_holding_pct :: "rat option"
  fu_promoter_holding_change_pct :: "rat option"
  fu_promoter_pledge_pct :: "rat option"
  fu_fii_holding_pct :: "rat option"
  fu_dii_holding_pct :: "rat option"
  fu_risk_notes :: "msg list"
  fu_field_snapshots :: "(string \<times> field_snapshot) list"

definition empty_fundamentals :: "string \<Rightarrow> fundamental_data" where
  "empty_fundamentals symbol =
     \<lparr>fu_symbol = symbol, fu_as_of = None, fu_pe = None, fu_pb = None, fu_peg = None, fu_ev_ebitda = None,
      fu_market_cap_cr = None, fu_dividend_yield_pct = None, fu_revenue_ttm_cr = None,
      fu_net_profit_ttm_cr = None, fu_revenue_growth_3y_pct = None, fu_revenue_growth_5y_pct = None,
      fu_eps_growth_3y_pct = None, fu_profit_growth_3y_pct = None, fu_roe_pct = None, fu_roce_pct = None,
      fu_operating_margin_pct = None, fu_net_margin_pct = None, fu_debt_to_equity = None,
      fu_interest_coverage = None, fu_current_ratio = None, fu_operating_cash_flow_cr = None,
      fu_free_cash_flow_cr = None, fu_promoter_holding_pct = None, fu_promoter_holding_change_pct = None,
      fu_promoter_pledge_pct = None, fu_fii_holding_pct = None, fu_dii_holding_pct = None,
      fu_risk_notes = [], fu_field_snapshots = []\<rparr>"

record fundamental_score_result =
  fe_tier :: fundamental_tier
  fe_score :: "rat option"
  fe_completeness_pct :: rat
  fe_factors :: "factor list"
  fe_positive_reasons :: "msg list"
  fe_negative_reasons :: "msg list"
  fe_unknown_reasons :: "msg list"
  fe_risk_flags :: "msg list"

section \<open>Normalizers\<close>

definition score_growth :: "rat \<Rightarrow> rat" where
  "score_growth = higher_is_better [(20, 100), (12, 80), (6, 60), (0, 40), (-999, 20)]"

definition score_roe_roce :: "rat \<Rightarrow> rat" where
  "score_roe_roce = higher_is_better [(20, 100), (15, 80), (10, 60), (5, 40), (-999, 20)]"

definition score_margin :: "rat \<Rightarrow> rat" where
  "score_margin = higher_is_better [(25, 100), (15, 80), (8, 60), (3, 40), (-999, 20)]"

definition score_debt_to_equity :: "rat \<Rightarrow> rat" where
  "score_debt_to_equity = lower_is_better [(3/10, 100), (1/2, 80), (1, 60), (2, 40), (999, 20)]"

definition score_interest_coverage :: "rat \<Rightarrow> rat" where
  "score_interest_coverage = higher_is_better [(10, 100), (5, 80), (2, 60), (1, 40), (-999, 20)]"

definition score_cash_flow_positive :: "rat \<Rightarrow> rat" where
  "score_cash_flow_positive v = (if v > 0 then 80 else 20)"

definition score_pe :: "rat \<Rightarrow> rat" where
  "score_pe v = (if v \<le> 0 then 50 else lower_is_better [(15, 90), (25, 70), (40, 50), (999, 30)] v)"

definition score_promoter_holding :: "rat \<Rightarrow> rat" where
  "score_promoter_holding = higher_is_better [(50, 90), (30, 70), (15, 50), (-999, 30)]"

definition score_promoter_pledge :: "rat \<Rightarrow> rat" where
  "score_promoter_pledge = lower_is_better [(0, 100), (5, 70), (20, 40), (999, 10)]"

section \<open>Factors\<close>

definition FUNDAMENTAL_FACTOR_DEFS :: "fundamental_data factor_def list" where
  "FUNDAMENTAL_FACTOR_DEFS =
     [\<lparr>fd_name = ''revenue_growth_3y'', fd_category = ''growth'', fd_extract = fu_revenue_growth_3y_pct,
       fd_normalize = score_growth, fd_label = ''Revenue growth (3y)''\<rparr>,
      \<lparr>fd_name = ''eps_growth_3y'', fd_category = ''growth'', fd_extract = fu_eps_growth_3y_pct,
       fd_normalize = score_growth, fd_label = ''EPS growth (3y)''\<rparr>,
      \<lparr>fd_name = ''profit_growth_3y'', fd_category = ''growth'', fd_extract = fu_profit_growth_3y_pct,
       fd_normalize = score_growth, fd_label = ''Profit growth (3y)''\<rparr>,
      \<lparr>fd_name = ''roe'', fd_category = ''profitability'', fd_extract = fu_roe_pct,
       fd_normalize = score_roe_roce, fd_label = ''Return on equity''\<rparr>,
      \<lparr>fd_name = ''roce'', fd_category = ''profitability'', fd_extract = fu_roce_pct,
       fd_normalize = score_roe_roce, fd_label = ''Return on capital employed''\<rparr>,
      \<lparr>fd_name = ''operating_margin'', fd_category = ''profitability'', fd_extract = fu_operating_margin_pct,
       fd_normalize = score_margin, fd_label = ''Operating margin''\<rparr>,
      \<lparr>fd_name = ''net_margin'', fd_category = ''profitability'', fd_extract = fu_net_margin_pct,
       fd_normalize = score_margin, fd_label = ''Net margin''\<rparr>,
      \<lparr>fd_name = ''debt_to_equity'', fd_category = ''financial_strength'', fd_extract = fu_debt_to_equity,
       fd_normalize = score_debt_to_equity, fd_label = ''Debt-to-equity''\<rparr>,
      \<lparr>fd_name = ''interest_coverage'', fd_category = ''financial_strength'', fd_extract = fu_interest_coverage,
       fd_normalize = score_interest_coverage, fd_label = ''Interest coverage''\<rparr>,
      \<lparr>fd_name = ''operating_cash_flow'', fd_category = ''cash_flow'', fd_extract = fu_operating_cash_flow_cr,
       fd_normalize = score_cash_flow_positive, fd_label = ''Operating cash flow''\<rparr>,
      \<lparr>fd_name = ''free_cash_flow'', fd_category = ''cash_flow'', fd_extract = fu_free_cash_flow_cr,
       fd_normalize = score_cash_flow_positive, fd_label = ''Free cash flow''\<rparr>,
      \<lparr>fd_name = ''pe'', fd_category = ''valuation'', fd_extract = fu_pe,
       fd_normalize = score_pe, fd_label = ''Valuation (P/E)''\<rparr>,
      \<lparr>fd_name = ''promoter_holding'', fd_category = ''ownership'', fd_extract = fu_promoter_holding_pct,
       fd_normalize = score_promoter_holding, fd_label = ''Promoter holding''\<rparr>,
      \<lparr>fd_name = ''promoter_pledge'', fd_category = ''ownership'', fd_extract = fu_promoter_pledge_pct,
       fd_normalize = score_promoter_pledge, fd_label = ''Promoter pledge''\<rparr>]"

definition fundamental_category_weight :: "settings \<Rightarrow> string \<Rightarrow> rat" where
  "fundamental_category_weight cfg category =
     opt_else (map_of
       [(''growth'', fundamental_weight_growth cfg), (''profitability'', fundamental_weight_profitability cfg),
        (''financial_strength'', fundamental_weight_financial_strength cfg),
        (''cash_flow'', fundamental_weight_cash_flow cfg), (''valuation'', fundamental_weight_valuation cfg),
        (''ownership'', fundamental_weight_ownership cfg)] category) 0"

definition fundamental_reason :: "string \<Rightarrow> factor_status \<Rightarrow> rat \<Rightarrow> msg" where
  "fundamental_reason label st raw =
     [Lit label, Lit (if st = POSITIVE then '' strong at '' else '' weak at ''), Gen raw]"

definition fundamental_risk_flags :: "settings \<Rightarrow> fundamental_data \<Rightarrow> rat \<Rightarrow> msg list" where
  "fundamental_risk_flags cfg d completeness =
     fu_risk_notes d
     @ (case fu_promoter_pledge_pct d of
          Some p \<Rightarrow> if p > 20 then [[Lit ''High promoter pledge ('', Gen p, Lit ''%)'']] else [] | None \<Rightarrow> [])
     @ (case fu_debt_to_equity d of
          Some r \<Rightarrow> if r > 2 then [[Lit ''High debt-to-equity ('', Gen r, Lit '')'']] else [] | None \<Rightarrow> [])
     @ (if completeness < fundamental_min_data_completeness_pct cfg
        then [[Lit ''Limited fundamental data ('', Fix 0 completeness, Lit ''% complete)'']] else [])"

definition fundamental_score :: "settings \<Rightarrow> fundamental_data option \<Rightarrow> fundamental_score_result" where
  "fundamental_score cfg data =
     (case data of
        None \<Rightarrow>
          \<lparr>fe_tier = TIER_UNKNOWN, fe_score = None, fe_completeness_pct = 0, fe_factors = [],
           fe_positive_reasons = [], fe_negative_reasons = [],
           fe_unknown_reasons = [[Lit ''Fundamental data unavailable '', Lit em_dash,
             Lit '' no data source currently integrated'']],
           fe_risk_flags = [lit ''Fundamental Score: UNKNOWN (no data source)'']\<rparr>
      | Some d \<Rightarrow>
          (let factors = map (make_factor (fundamental_category_weight cfg) FUNDAMENTAL_FACTOR_DEFS fundamental_reason d)
                           FUNDAMENTAL_FACTOR_DEFS;
               completeness = completeness_pct factors;
               overall = (if weight_sum factors > 0 then Some (contribution_sum factors / weight_sum factors) else None);
               (tier, reported) =
                 (case overall of
                    None \<Rightarrow> (TIER_UNKNOWN, None)
                  | Some x \<Rightarrow>
                      if completeness < fundamental_min_data_completeness_pct cfg then (TIER_UNKNOWN, None)
                      else if x \<ge> 55 then (TIER_GOOD, Some x) else (TIER_WEAK, Some x))
           in \<lparr>fe_tier = tier, fe_score = reported, fe_completeness_pct = completeness, fe_factors = factors,
               fe_positive_reasons = reasons_with POSITIVE factors, fe_negative_reasons = reasons_with NEGATIVE factors,
               fe_unknown_reasons = reasons_with UNKNOWN factors,
               fe_risk_flags = fundamental_risk_flags cfg d completeness\<rparr>))"

section \<open>Range and tiers\<close>

definition fundamental_weights_ok :: "settings \<Rightarrow> bool" where
  "fundamental_weights_ok cfg \<longleftrightarrow>
     0 \<le> fundamental_weight_growth cfg \<and> 0 \<le> fundamental_weight_profitability cfg
   \<and> 0 \<le> fundamental_weight_financial_strength cfg \<and> 0 \<le> fundamental_weight_cash_flow cfg
   \<and> 0 \<le> fundamental_weight_valuation cfg \<and> 0 \<le> fundamental_weight_ownership cfg"

lemma fundamental_normalizers:
  "0 \<le> score_growth v \<and> score_growth v \<le> 100"
  "0 \<le> score_roe_roce v \<and> score_roe_roce v \<le> 100"
  "0 \<le> score_margin v \<and> score_margin v \<le> 100"
  "0 \<le> score_debt_to_equity v \<and> score_debt_to_equity v \<le> 100"
  "0 \<le> score_interest_coverage v \<and> score_interest_coverage v \<le> 100"
  "0 \<le> score_cash_flow_positive v \<and> score_cash_flow_positive v \<le> 100"
  "0 \<le> score_pe v \<and> score_pe v \<le> 100"
  "0 \<le> score_promoter_holding v \<and> score_promoter_holding v \<le> 100"
  "0 \<le> score_promoter_pledge v \<and> score_promoter_pledge v \<le> 100"
proof -
  show "0 \<le> score_growth v \<and> score_growth v \<le> 100" "0 \<le> score_roe_roce v \<and> score_roe_roce v \<le> 100"
    "0 \<le> score_margin v \<and> score_margin v \<le> 100" "0 \<le> score_interest_coverage v \<and> score_interest_coverage v \<le> 100"
    "0 \<le> score_promoter_holding v \<and> score_promoter_holding v \<le> 100"
    unfolding score_growth_def score_roe_roce_def score_margin_def score_interest_coverage_def score_promoter_holding_def
    by (rule bands_range(1); simp)+
  show "0 \<le> score_debt_to_equity v \<and> score_debt_to_equity v \<le> 100"
    "0 \<le> score_promoter_pledge v \<and> score_promoter_pledge v \<le> 100"
    unfolding score_debt_to_equity_def score_promoter_pledge_def by (rule bands_range(2); simp)+
  have "0 \<le> lower_is_better [(15, 90), (25, 70), (40, 50), (999, 30)] v
      \<and> lower_is_better [(15, 90), (25, 70), (40, 50), (999, 30)] v \<le> 100" by (rule bands_range(2)) simp_all
  then show "0 \<le> score_pe v \<and> score_pe v \<le> 100" by (simp add: score_pe_def)
  show "0 \<le> score_cash_flow_positive v \<and> score_cash_flow_positive v \<le> 100" by (simp add: score_cash_flow_positive_def)
qed

interpretation fundamental: factor_scorer FUNDAMENTAL_FACTOR_DEFS "fundamental_category_weight cfg" fundamental_reason
    "fundamental_weights_ok cfg" for cfg
proof
  show "0 \<le> fd_normalize d v \<and> fd_normalize d v \<le> 100" if "d \<in> set FUNDAMENTAL_FACTOR_DEFS" for d v
    using that fundamental_normalizers by (auto simp: FUNDAMENTAL_FACTOR_DEFS_def)
  show "0 \<le> fundamental_category_weight cfg (fd_category d)"
    if "fundamental_weights_ok cfg" "d \<in> set FUNDAMENTAL_FACTOR_DEFS" for d
    using that by (auto simp: FUNDAMENTAL_FACTOR_DEFS_def fundamental_category_weight_def fundamental_weights_ok_def)
  show "FUNDAMENTAL_FACTOR_DEFS \<noteq> []" by (simp add: FUNDAMENTAL_FACTOR_DEFS_def)
qed

text \<open>A fundamental score is reported exactly when the tier is known; then the data is complete enough, the
  score lies between 0 and 100 and the tier is GOOD exactly from 55 on. Without data nothing is reported.\<close>

theorem fundamental_score_sound:
  assumes "fundamental_weights_ok cfg"
  shows "(fe_score (fundamental_score cfg data) = None \<longleftrightarrow> fe_tier (fundamental_score cfg data) = TIER_UNKNOWN)
    \<and> (\<forall>x. fe_score (fundamental_score cfg data) = Some x \<longrightarrow>
          0 \<le> x \<and> x \<le> 100 \<and> (fe_tier (fundamental_score cfg data) = TIER_GOOD \<longleftrightarrow> 55 \<le> x)
        \<and> fundamental_min_data_completeness_pct cfg \<le> fe_completeness_pct (fundamental_score cfg data))
    \<and> fe_score (fundamental_score cfg None) = None"
proof (cases data)
  case None
  then show ?thesis by (simp add: fundamental_score_def)
next
  case (Some d)
  from fundamental.mean_range [OF assms, of d] show ?thesis
    by (auto simp: Some fundamental_score_def Let_def split: if_splits)
qed

definition sample_company :: fundamental_data where
  "sample_company = (empty_fundamentals ''ABC'')
     \<lparr>fu_pe := Some 12, fu_roe_pct := Some 22, fu_roce_pct := Some 25, fu_debt_to_equity := Some (1/10),
      fu_interest_coverage := Some 9, fu_promoter_holding_pct := Some 60, fu_revenue_growth_3y_pct := Some 20,
      fu_eps_growth_3y_pct := Some 21, fu_profit_growth_3y_pct := Some 18\<rparr>"

theorem fundamental_score_sound_witness:
  "\<exists>x. fe_score (fundamental_score default_settings (Some sample_company)) = Some x \<and> 0 \<le> x \<and> x \<le> 100"
proof -
  have "fundamental_weights_ok default_settings" by (simp add: fundamental_weights_ok_def default_settings_def)
  moreover have "fe_score (fundamental_score default_settings (Some sample_company)) \<noteq> None" by code_simp
  ultimately show ?thesis using fundamental_score_sound [of default_settings "Some sample_company"] by blast
qed

end
