(* ===== verification/Candidates.thy ===== *)
theory Candidates
  imports Scanner_Manager Candidate_Core Technical_Scorer Fundamental_Scorer Delivery Decision_Engine
begin

text \<open>
  Candidate scanners: app/universe/provider.py, app/repositories/fno_universe_repository.py,
  app/candidates/sources.py, builder.py, scanner_base.py, fno_momentum_scanner.py,
  ipo_intraday_scanner.py, pre_breakout_scanner.py and explainer.py. \<open>PreBreakoutScanner\<close> remembers the
  IPO symbols of its last \<open>get_candidate_symbols\<close> call; the engine makes that call right before the
  contexts are built, and the model reads them from the same tables.
\<close>

section \<open>Universes\<close>

record candidate_store = scanner_store +
  fno_universe :: "int list"

definition fno_replace_all :: "int list \<Rightarrow> 'x candidate_store_scheme \<Rightarrow> nat \<times> 'x candidate_store_scheme" where
  "fno_replace_all ids s = (length ids, s\<lparr>fno_universe := ids\<rparr>)"

definition fno_count :: "'x candidate_store_scheme \<Rightarrow> nat" where
  "fno_count s = length (fno_universe s)"

definition get_ipo_universe :: "runtime \<Rightarrow> settings \<Rightarrow> 'x candidate_store_scheme \<Rightarrow> symbol_row list" where
  "get_ipo_universe rt cfg s =
     (let cutoff = market_today cfg (clock rt) (Some (market_timezone cfg)) - 365 * ipo_universe_max_age_years cfg
      in filter (\<lambda>r. sy_is_active r \<and> (case sy_listing_date r of None \<Rightarrow> False | Some d \<Rightarrow> d \<ge> cutoff)) (symbols s))"

definition get_fno_universe :: "'x candidate_store_scheme \<Rightarrow> symbol_row list" where
  "get_fno_universe s = list_by_ids (fno_universe s) s"

section \<open>Sources (sources.py)\<close>

datatype scanner_source = FIVEPAISA | UPSTOX | TRADINGVIEW

fun source_value :: "scanner_source \<Rightarrow> string" where
  "source_value FIVEPAISA = ''5PAISA''"
| "source_value UPSTOX = ''UPSTOX''"
| "source_value TRADINGVIEW = ''TRADINGVIEW''"

definition primary_scanner_source :: "settings \<Rightarrow> scanner_source" where
  "primary_scanner_source cfg = (if active_market_data_provider cfg = ''upstox'' then UPSTOX else FIVEPAISA)"

record source_provider =
  sp_name :: scanner_source
  sp_discover :: "universe \<Rightarrow> string list"

definition tradingview_provider :: source_provider where
  "tradingview_provider = \<lparr>sp_name = TRADINGVIEW, sp_discover = (\<lambda>_. [])\<rparr>"

definition resolve_scanner_sources :: "settings \<Rightarrow> source_provider list \<Rightarrow> universe \<Rightarrow> string \<Rightarrow> string list" where
  "resolve_scanner_sources cfg providers u symbol =
     sort_str id (remdups (source_value (primary_scanner_source cfg)
       # map (\<lambda>p. source_value (sp_name p)) (filter (\<lambda>p. symbol \<in> set (sp_discover p u)) providers)))"

section \<open>Building a candidate (builder.py)\<close>

fun status_str :: "factor_status \<Rightarrow> string" where
  "status_str POSITIVE = ''POSITIVE''"
| "status_str NEGATIVE = ''NEGATIVE''"
| "status_str UNKNOWN = ''UNKNOWN''"

definition factor_to_dict :: "factor \<Rightarrow> pyval" where
  "factor_to_dict f =
     PyDict [(''factor_name'', PyStr (fa_name f)), (''category'', PyStr (fa_category f)),
       (''value'', case fa_value f of None \<Rightarrow> PyNone | Some m \<Rightarrow> PyMsg m),
       (''normalized_score'', opt_float (fa_normalized f)), (''weight'', PyFloat (fa_weight f)),
       (''contribution'', PyFloat (fa_contribution f)), (''status'', PyStr (status_str (fa_status f))),
       (''reason'', PyMsg (fa_reason f))]"

definition candidate_snapshot :: "feature_row \<Rightarrow> feature_row option \<Rightarrow> snapshot" where
  "candidate_snapshot daily session =
     (let base = daily_feature_snapshot daily;
          with_vwap = (case Option.bind session (\<lambda>f. dec_col f ''session_vwap'') of
                         None \<Rightarrow> base | Some v \<Rightarrow> base(''session_vwap'' \<mapsto> PyStr (dec_str 4 v)))
      in with_vwap(''feature_date'' \<mapsto> PyStr (isoformat (fr_date daily))))"

definition build_candidate ::
  "runtime \<Rightarrow> settings \<Rightarrow> source_provider list \<Rightarrow> universe \<Rightarrow> string \<Rightarrow> symbol_row
     \<Rightarrow> 'x candidate_store_scheme \<Rightarrow> string + stock_candidate" where
  "build_candidate rt cfg providers u scanner_name sy s =
     (case get_latest_feature (sy_id sy) s of
        None \<Rightarrow> Inl ''no features computed yet''
      | Some daily \<Rightarrow>
         (case map_option dp_close (get_latest_daily (sy_id sy) s) of
            None \<Rightarrow> Inl ''no price available''
          | Some price \<Rightarrow>
             (let session = get_latest_session_feature (sy_id sy) s;
                  tech = technical_score cfg (technical_inputs_of price daily session);
                  fund = fundamental_score cfg None;
                  overall = combine_scores cfg (fe_score fund) (ts_score tech)
              in Inr \<lparr>ca_symbol = sy_symbol sy, ca_instrument_type = ''EQUITY'', ca_universe = u,
                   ca_scanner_type = scanner_name, ca_price = Some price,
                   ca_breakout_level = dec_col daily ''breakout_level'',
                   ca_support_level = dec_col daily ''support_level'',
                   ca_resistance_level = dec_col daily ''resistance_level'',
                   ca_fundamental_score = fe_score fund, ca_technical_score = ts_score tech,
                   ca_overall_score = py_round 2 (min (max overall 0) 100),
                   ca_quality = quality_value (quality_from_score overall),
                   ca_fundamental_reasons = fe_positive_reasons fund,
                   ca_technical_reasons = ts_positive_reasons tech, ca_risk_flags = fe_risk_flags fund,
                   ca_passed_rules = [], ca_failed_rules = [],
                   ca_data_completeness_pct = fe_completeness_pct fund,
                   ca_technical_data_completeness_pct = ts_completeness_pct tech,
                   ca_setup_state = detect_setup_state cfg daily price, ca_alert_category = None, ca_reason = [],
                   ca_timestamp = now_market_time (app_settings rt) (clock rt) None,
                   ca_scanner_sources = resolve_scanner_sources cfg providers u (sy_symbol sy),
                   ca_fundamental_factors = map factor_to_dict (fe_factors fund),
                   ca_technical_factors = map factor_to_dict (ts_factors tech),
                   ca_fundamental_field_sources = [], ca_fundamental_status = ''PENDING'',
                   ca_technical_feature_snapshot = candidate_snapshot daily session\<rparr>)))"

section \<open>Scanners\<close>

definition base_context ::
  "runtime \<Rightarrow> settings \<Rightarrow> source_provider list \<Rightarrow> universe \<Rightarrow> string \<Rightarrow> symbol_row
     \<Rightarrow> 'x candidate_store_scheme \<Rightarrow> candidate_context option" where
  "base_context rt cfg providers u name sy s =
     (case build_candidate rt cfg providers u name sy s of
        Inl _ \<Rightarrow> None | Inr c \<Rightarrow> Some \<lparr>cc_symbol = sy, cc_candidate = c\<rparr>)"

text \<open>The default \<open>build_context_bulk\<close>: one context per symbol.\<close>

definition contexts_each :: "(symbol_row \<Rightarrow> 'c option) \<Rightarrow> symbol_row list \<Rightarrow> (int \<rightharpoonup> 'c)" where
  "contexts_each build syms = foldl (\<lambda>m sy. m(sy_id sy := build sy)) Map.empty syms"

definition candidate_validate :: "candidate_context \<Rightarrow> validation_result" where
  "candidate_validate c =
     (let candidate = cc_candidate c; snap = ca_technical_feature_snapshot candidate in
      if ca_universe candidate = U_IPO then valid_result
      else if ca_setup_state candidate = None then invalid_result (lit ''no identifiable setup state'')
      else if dict_get snap ''adx14'' = PyNone \<or> dict_get snap ''relative_volume'' = PyNone then
        invalid_result (lit ''missing adx14/relative_volume'')
      else valid_result)"

definition feature_float :: "stock_candidate \<Rightarrow> string \<Rightarrow> rat option" where
  "feature_float c key = float_or_none (dict_get (ca_technical_feature_snapshot c) key)"

definition at_least :: "rat option \<Rightarrow> rat \<Rightarrow> bool" where
  "at_least v threshold \<longleftrightarrow> (case v of None \<Rightarrow> False | Some x \<Rightarrow> x \<ge> threshold)"

text \<open>The verdict recorded on the candidate.\<close>

definition conclude ::
  "(string \<times> bool) list \<Rightarrow> alert_category \<Rightarrow> candidate_context \<Rightarrow> scan_outcome \<times> candidate_context" where
  "conclude checks category c =
     (let outcome = checks_outcome checks; candidate = cc_candidate c
      in (outcome,
          c\<lparr>cc_candidate := candidate
              \<lparr>ca_passed_rules := map lit (map fst (filter snd checks)),
               ca_failed_rules := map lit (map fst (filter (\<lambda>p. \<not> snd p) checks)),
               ca_alert_category := (if so_qualified outcome then Some category else None),
               ca_reason := so_reason outcome\<rparr>\<rparr>))"

definition fno_checks :: "settings \<Rightarrow> stock_candidate \<Rightarrow> (string \<times> bool) list" where
  "fno_checks cfg c =
     [(''setup_state_is_momentum_or_confirmed'',
        ca_setup_state c \<in> {Some SETUP_MOMENTUM, Some BREAKOUT_CONFIRMED}),
      (''relative_volume>=threshold'', at_least (feature_float c ''relative_volume'') (fno_momentum_min_rvol cfg)),
      (''adx>=threshold'', at_least (feature_float c ''adx14'') (fno_momentum_min_adx cfg)),
      (''overall_score>=threshold'', ca_overall_score c \<ge> fno_momentum_min_score cfg)]"

definition fno_scan :: "settings \<Rightarrow> candidate_context \<Rightarrow> scan_outcome \<times> candidate_context" where
  "fno_scan cfg c =
     conclude (fno_checks cfg (cc_candidate c))
       (if ca_setup_state (cc_candidate c) = Some SETUP_MOMENTUM then FNO_MOMENTUM else FNO_BREAKOUT) c"

definition ipo_context ::
  "runtime \<Rightarrow> settings \<Rightarrow> source_provider list \<Rightarrow> int \<Rightarrow> symbol_row \<Rightarrow> 'x candidate_store_scheme \<Rightarrow> candidate_context option" where
  "ipo_context rt cfg providers host_today sy s =
     (case base_context rt cfg providers U_IPO ''ipo_intraday_v1'' sy s of
        None \<Rightarrow> None
      | Some c \<Rightarrow>
         (let snap = ca_technical_feature_snapshot (cc_candidate c);
              snap1 = (case get_52_week_high_low host_today (sy_id sy) s of
                         None \<Rightarrow> snap
                       | Some (high, low) \<Rightarrow>
                           snap(''ipo_52w_high'' \<mapsto> PyStr (dec_str 4 high), ''ipo_52w_low'' \<mapsto> PyStr (dec_str 4 low)));
              snap2 = (case get_latest_daily (sy_id sy) s of
                         None \<Rightarrow> snap1 | Some p \<Rightarrow> snap1(''ipo_latest_volume'' \<mapsto> PyInt (dp_volume p)))
          in Some (c\<lparr>cc_candidate := (cc_candidate c)\<lparr>ca_technical_feature_snapshot := snap2\<rparr>\<rparr>)))"

definition ipo_checks :: "settings \<Rightarrow> stock_candidate \<Rightarrow> (string \<times> bool) list" where
  "ipo_checks cfg c =
     (let rvol = feature_float c ''relative_volume''; price = ca_price c;
          high = feature_float c ''ipo_52w_high''; low = feature_float c ''ipo_52w_low'';
          volume = feature_float c ''ipo_latest_volume'';
          below_high = (case (high, price) of
                          (Some h, Some p) \<Rightarrow> if h > 0 then Some ((h - p) / h * 100) else None | _ \<Rightarrow> None);
          above_low = (case (low, price) of
                         (Some l, Some p) \<Rightarrow> if l > 0 then Some ((p / l - 1) * 100) else None | _ \<Rightarrow> None)
      in [(''setup_state_is_pre_breakout_confirmed_or_momentum'', ca_setup_state c \<noteq> None),
          (''relative_volume>=threshold'', at_least rvol (ipo_intraday_min_rvol cfg)),
          (''overall_score>=threshold'', ca_overall_score c \<ge> ipo_intraday_min_score cfg),
          (''price_within_pct_below_52w_high'',
            case below_high of None \<Rightarrow> False | Some x \<Rightarrow> 0 < x \<and> x < ipo_intraday_max_pct_below_52w_high cfg),
          (''price_above_52w_low_multiple'',
            case above_low of None \<Rightarrow> False | Some x \<Rightarrow> x > ipo_intraday_min_pct_above_52w_low cfg),
          (''price>min_price'', case price of None \<Rightarrow> False | Some p \<Rightarrow> p > ipo_intraday_min_price cfg),
          (''volume>min_volume'', case volume of None \<Rightarrow> False | Some v \<Rightarrow> v > of_int (ipo_intraday_min_volume cfg))])"

definition ipo_scan :: "settings \<Rightarrow> candidate_context \<Rightarrow> scan_outcome \<times> candidate_context" where
  "ipo_scan cfg c =
     conclude (ipo_checks cfg (cc_candidate c))
       (if ca_setup_state (cc_candidate c) = Some SETUP_MOMENTUM then IPO_MOMENTUM
        else if ca_setup_state (cc_candidate c) = Some BREAKOUT_CONFIRMED then IPO_BREAKOUT
        else IPO_PRE_BREAKOUT) c"

definition pre_breakout_symbols :: "runtime \<Rightarrow> settings \<Rightarrow> 'x candidate_store_scheme \<Rightarrow> symbol_row list" where
  "pre_breakout_symbols rt cfg s =
     (let fno = get_fno_universe s; ipo = get_ipo_universe rt cfg s
      in fno @ filter (\<lambda>r. sy_id r \<notin> sy_id ` set fno) ipo)"

definition pre_breakout_context ::
  "runtime \<Rightarrow> settings \<Rightarrow> source_provider list \<Rightarrow> symbol_row \<Rightarrow> 'x candidate_store_scheme \<Rightarrow> candidate_context option" where
  "pre_breakout_context rt cfg providers sy s =
     (let u = (if sy_id sy \<in> sy_id ` set (get_ipo_universe rt cfg s) then U_IPO else U_FNO)
      in base_context rt cfg providers u ''pre_breakout_v1'' sy s)"

definition pre_breakout_checks :: "settings \<Rightarrow> stock_candidate \<Rightarrow> (string \<times> bool) list" where
  "pre_breakout_checks cfg c =
     [(''setup_state_is_pre_breakout'', ca_setup_state c = Some PRE_BREAKOUT),
      (''overall_score>=threshold'', ca_overall_score c \<ge> pre_breakout_min_score cfg)]"

definition pre_breakout_scan :: "settings \<Rightarrow> candidate_context \<Rightarrow> scan_outcome \<times> candidate_context" where
  "pre_breakout_scan cfg c =
     conclude (pre_breakout_checks cfg (cc_candidate c))
       (if ca_universe (cc_candidate c) = U_IPO then IPO_PRE_BREAKOUT else FNO_PRE_BREAKOUT) c"

definition fno_momentum_scanner ::
  "runtime \<Rightarrow> settings \<Rightarrow> source_provider list \<Rightarrow> (candidate_context, 'x candidate_store_scheme) scanner" where
  "fno_momentum_scanner rt cfg providers =
     \<lparr>sn_name = ''fno_momentum_v1'', sn_candidates = (\<lambda>s _. get_fno_universe s),
      sn_contexts = (\<lambda>s. contexts_each (\<lambda>sy. base_context rt cfg providers U_FNO ''fno_momentum_v1'' sy s)),
      sn_validate = candidate_validate, sn_scan = (\<lambda>c. Inr (fno_scan cfg c)),
      sn_score = (\<lambda>c. ca_overall_score (cc_candidate c)), sn_date = candidate_scan_date,
      sn_snapshot = (\<lambda>c. to_feature_snapshot (cc_candidate c))\<rparr>"

definition ipo_intraday_scanner ::
  "runtime \<Rightarrow> settings \<Rightarrow> source_provider list \<Rightarrow> int \<Rightarrow> (candidate_context, 'x candidate_store_scheme) scanner" where
  "ipo_intraday_scanner rt cfg providers host_today =
     \<lparr>sn_name = ''ipo_intraday_v1'', sn_candidates = (\<lambda>s _. get_ipo_universe rt cfg s),
      sn_contexts = (\<lambda>s. contexts_each (\<lambda>sy. ipo_context rt cfg providers host_today sy s)),
      sn_validate = candidate_validate, sn_scan = (\<lambda>c. Inr (ipo_scan cfg c)),
      sn_score = (\<lambda>c. ca_overall_score (cc_candidate c)), sn_date = candidate_scan_date,
      sn_snapshot = (\<lambda>c. to_feature_snapshot (cc_candidate c))\<rparr>"

definition pre_breakout_scanner ::
  "runtime \<Rightarrow> settings \<Rightarrow> source_provider list \<Rightarrow> (candidate_context, 'x candidate_store_scheme) scanner" where
  "pre_breakout_scanner rt cfg providers =
     \<lparr>sn_name = ''pre_breakout_v1'', sn_candidates = (\<lambda>s _. pre_breakout_symbols rt cfg s),
      sn_contexts = (\<lambda>s. contexts_each (\<lambda>sy. pre_breakout_context rt cfg providers sy s)),
      sn_validate = candidate_validate, sn_scan = (\<lambda>c. Inr (pre_breakout_scan cfg c)),
      sn_score = (\<lambda>c. ca_overall_score (cc_candidate c)), sn_date = candidate_scan_date,
      sn_snapshot = (\<lambda>c. to_feature_snapshot (cc_candidate c))\<rparr>"

section \<open>Explanations (explainer.py)\<close>

definition TECHNICAL_CATEGORY_LABELS :: "(string \<times> string) list" where
  "TECHNICAL_CATEGORY_LABELS =
     [(''trend'', ''Trend''), (''momentum'', ''Momentum''), (''volume'', ''Volume''),
      (''volatility'', ''Volatility''), (''vwap'', ''VWAP''), (''structure'', ''Structure'')]"

definition FUNDAMENTAL_CATEGORY_LABELS :: "(string \<times> string) list" where
  "FUNDAMENTAL_CATEGORY_LABELS =
     [(''growth'', ''Growth''), (''profitability'', ''Profitability''),
      (''financial_strength'', ''Financial Strength''), (''cash_flow'', ''Cash Flow''),
      (''valuation'', ''Valuation''), (''ownership'', ''Ownership'')]"

definition technical_category_weights :: "settings \<Rightarrow> (string \<times> rat) list" where
  "technical_category_weights cfg =
     [(''trend'', technical_weight_trend cfg), (''momentum'', technical_weight_momentum cfg),
      (''volume'', technical_weight_volume cfg), (''volatility'', technical_weight_volatility cfg),
      (''vwap'', technical_weight_vwap cfg), (''structure'', technical_weight_structure cfg)]"

definition fundamental_category_weights :: "settings \<Rightarrow> (string \<times> rat) list" where
  "fundamental_category_weights cfg =
     [(''growth'', fundamental_weight_growth cfg), (''profitability'', fundamental_weight_profitability cfg),
      (''financial_strength'', fundamental_weight_financial_strength cfg),
      (''cash_flow'', fundamental_weight_cash_flow cfg), (''valuation'', fundamental_weight_valuation cfg),
      (''ownership'', fundamental_weight_ownership cfg)]"

record category_breakdown =
  cb_category :: string
  cb_label :: string
  cb_score :: rat
  cb_max_score :: rat
  cb_factors :: "pyval list"

definition dict_field :: "string \<Rightarrow> pyval \<Rightarrow> pyval" where
  "dict_field k v = (case v of PyDict kvs \<Rightarrow> (case map_of kvs k of None \<Rightarrow> PyNone | Some x \<Rightarrow> x) | _ \<Rightarrow> PyNone)"

definition factor_contribution :: "pyval \<Rightarrow> rat" where
  "factor_contribution f =
     (case dict_field ''contribution'' f of
        PyFloat x \<Rightarrow> x | PyInt i \<Rightarrow> of_int i | PyBool b \<Rightarrow> (if b then 1 else 0) | _ \<Rightarrow> 0)"

text \<open>\<open>category.replace("_", " ").title()\<close>.\<close>

fun title_from :: "bool \<Rightarrow> string \<Rightarrow> string" where
  "title_from start [] = []"
| "title_from start (c # cs) =
     (if c = CHR ''_'' then CHR '' '' # title_from True cs
      else (if start then upper_char c else c) # title_from False cs)"

definition rollup_by_category ::
  "pyval list \<Rightarrow> (string \<times> rat) list \<Rightarrow> (string \<times> string) list \<Rightarrow> category_breakdown list" where
  "rollup_by_category factors weights labels =
     map (\<lambda>(category, weight).
            (let category_factors = filter (\<lambda>f. dict_field ''category'' f = PyStr category) factors
             in \<lparr>cb_category = category,
                 cb_label = opt_else (map_of labels category) (title_from True category),
                 cb_score = py_round 2 (sum_list (map factor_contribution category_factors)),
                 cb_max_score = py_round 2 (weight * 100), cb_factors = category_factors\<rparr>)) weights"

definition technical_breakdown :: "settings \<Rightarrow> pyval list \<Rightarrow> category_breakdown list" where
  "technical_breakdown cfg factors = rollup_by_category factors (technical_category_weights cfg) TECHNICAL_CATEGORY_LABELS"

definition fundamental_breakdown :: "settings \<Rightarrow> pyval list \<Rightarrow> category_breakdown list" where
  "fundamental_breakdown cfg factors =
     rollup_by_category factors (fundamental_category_weights cfg) FUNDAMENTAL_CATEGORY_LABELS"

section \<open>Verdicts and categories\<close>

lemma conclude_simps:
  "ca_alert_category (cc_candidate (snd (conclude checks cat c))) =
     (if so_qualified (fst (conclude checks cat c)) then Some cat else None)"
  "so_qualified (fst (conclude checks cat c)) \<longleftrightarrow> list_all snd checks"
  "ca_overall_score (cc_candidate (snd (conclude checks cat c))) = ca_overall_score (cc_candidate c)"
  "candidate_scan_date (snd (conclude checks cat c)) = candidate_scan_date c"
  "ca_technical_feature_snapshot (cc_candidate (snd (conclude checks cat c))) = ca_technical_feature_snapshot (cc_candidate c)"
  by (simp_all add: conclude_def checks_outcome_def candidate_scan_date_def Let_def)

lemma snapshot_category:
  "dict_get (to_feature_snapshot c) ''alert_category'' =
     (case ca_alert_category c of None \<Rightarrow> PyNone | Some a \<Rightarrow> PyStr (category_value a))"
  by (simp add: to_feature_snapshot_def candidate_fields_def)

lemma conclude_date: "conclude checks cat c = (out, c') \<Longrightarrow> candidate_scan_date c' = candidate_scan_date c"
  using conclude_simps(4) [of checks cat c] by simp

lemma candidate_scans_keep_date:
  "keeps_date (fno_momentum_scanner rt cfg ps)" "keeps_date (ipo_intraday_scanner rt cfg ps d)"
  "keeps_date (pre_breakout_scanner rt cfg ps)"
  by (simp_all add: keeps_date_def fno_momentum_scanner_def ipo_intraday_scanner_def pre_breakout_scanner_def
      fno_scan_def ipo_scan_def pre_breakout_scan_def conclude_date)

text \<open>A candidate built from the tables has its overall score in range.\<close>

definition candidate_ok :: "candidate_context \<Rightarrow> bool" where
  "candidate_ok c \<longleftrightarrow> 0 \<le> ca_overall_score (cc_candidate c) \<and> ca_overall_score (cc_candidate c) \<le> 100"

lemma base_context_ok: "base_context rt cfg ps u n y s = Some c \<Longrightarrow> candidate_ok c"
proof -
  have "0 \<le> py_round 2 (min (max x 0) 100) \<and> py_round 2 (min (max x 0) 100) \<le> 100" for x
    by (rule py_round_0_100) auto
  then show "base_context rt cfg ps u n y s = Some c \<Longrightarrow> ?thesis"
    by (auto simp: base_context_def build_candidate_def candidate_ok_def Let_def split: option.splits sum.splits)
qed

lemma ipo_context_ok: "ipo_context rt cfg ps d y s = Some c \<Longrightarrow> candidate_ok c"
  by (auto simp: ipo_context_def Let_def candidate_ok_def split: option.splits
      dest!: base_context_ok [unfolded candidate_ok_def])

lemma contexts_each_ok:
  assumes "\<And>y c. build y = Some c \<Longrightarrow> candidate_ok c" "contexts_each build syms k = Some c"
  shows "candidate_ok c"
proof -
  have "foldl (\<lambda>m y. m(sy_id y := build y)) m ys i = Some d \<Longrightarrow> (\<And>j e. m j = Some e \<Longrightarrow> candidate_ok e) \<Longrightarrow> candidate_ok d"
    for m ys i d
  proof (induction ys arbitrary: m)
    case (Cons y ys)
    have "candidate_ok e" if "(m(sy_id y := build y)) j = Some e" for j e
      using that Cons.prems(2) assms(1) by (auto split: if_splits)
    with Cons show ?case by (simp only: foldl_Cons)
  qed simp
  with assms(2) show ?thesis by (simp add: contexts_each_def) blast
qed

lemma conclude_total: "candidate_ok c \<Longrightarrow> \<exists>out c'. conclude checks cat c = (out, c') \<and> candidate_ok c'"
  by (intro exI [of _ "fst (conclude checks cat c)"] exI [of _ "snd (conclude checks cat c)"])
    (simp add: candidate_ok_def conclude_simps(3))

interpretation fno_sc: sound_scanner "fno_momentum_scanner rt cfg ps" candidate_ok for rt cfg ps
  by unfold_locales (auto simp: fno_momentum_scanner_def fno_scan_def candidate_ok_def
      intro!: conclude_total [unfolded candidate_ok_def])

interpretation ipo_sc: sound_scanner "ipo_intraday_scanner rt cfg ps d" candidate_ok for rt cfg ps d
  by unfold_locales (auto simp: ipo_intraday_scanner_def ipo_scan_def candidate_ok_def
      intro!: conclude_total [unfolded candidate_ok_def])

interpretation pre_sc: sound_scanner "pre_breakout_scanner rt cfg ps" candidate_ok for rt cfg ps
  by unfold_locales (auto simp: pre_breakout_scanner_def pre_breakout_scan_def candidate_ok_def
      intro!: conclude_total [unfolded candidate_ok_def])

text \<open>The candidate scanners cannot fail and store scores between 0 and 100, for any tables, any settings
  and any additional sources.\<close>

theorem candidate_scanners_never_fail:
  fixes s :: "'x candidate_store_scheme"
  assumes "scores_ok (scanner_results s)"
    and "sc \<in> {fno_momentum_scanner rt cfg ps, ipo_intraday_scanner rt cfg ps d, pre_breakout_scanner rt cfg ps}"
  shows "st_errors (fst (run_scanner sc syms i s)) = [] \<and> scores_ok (scanner_results (snd (run_scanner sc syms i s)))"
proof -
  have pre: "pre_breakout_context rt cfg ps y s = Some c \<Longrightarrow> candidate_ok c" for y c
    by (auto simp: pre_breakout_context_def Let_def dest: base_context_ok)
  have ctx: "\<forall>k c. sn_contexts sc s syms k = Some c \<longrightarrow> candidate_ok c"
    using assms(2) contexts_each_ok [OF base_context_ok] contexts_each_ok [OF ipo_context_ok] contexts_each_ok [OF pre]
    by (auto simp: fno_momentum_scanner_def ipo_intraday_scanner_def pre_breakout_scanner_def)
  have "sound_scanner sc candidate_ok"
    using assms(2) fno_sc.sound_scanner_axioms ipo_sc.sound_scanner_axioms pre_sc.sound_scanner_axioms by auto
  from run_scanner_sound [OF this ctx] assms(1) show ?thesis by blast
qed

definition sample_candidates :: candidate_store where
  "sample_candidates = scanner_store.extend sample_scan_store (candidate_store.fields [1])"

theorem candidate_scanners_never_fail_witness:
  "st_errors (fst (run_scanner (fno_momentum_scanner demo_runtime default_settings [tradingview_provider])
     (get_fno_universe sample_candidates) 1 sample_candidates)) = []"
proof -
  have "scores_ok (scanner_results sample_candidates)"
    by (simp add: scores_ok_def sample_candidates_def sample_scan_store_def feature_store.defs momentum_store.defs
        scanner_store.defs candidate_store.defs)
  from candidate_scanners_never_fail [OF this] show ?thesis by blast
qed

text \<open>A qualified F&O momentum candidate alerts through the F&O bot, a qualified IPO candidate through the
  IPO bot, and a rejected candidate carries no category: whatever alert is raised from the snapshot the scan
  leaves behind is routed by the universe it was scanned for.\<close>

theorem candidate_alerts_reach_their_bot:
  assumes "al_feature_snapshot a = to_feature_snapshot (cc_candidate (snd (fno_scan cfg c)))"
    and "al_feature_snapshot b = to_feature_snapshot (cc_candidate (snd (ipo_scan cfg c)))"
    and "al_feature_snapshot e = to_feature_snapshot (cc_candidate (snd (pre_breakout_scan cfg c)))"
  shows "resolve r (alert_category_of a) = (if so_qualified (fst (fno_scan cfg c)) then r_fno r else r_default r)
    \<and> resolve r (alert_category_of b) = (if so_qualified (fst (ipo_scan cfg c)) then r_ipo r else r_default r)
    \<and> resolve r (alert_category_of e) =
        (if \<not> so_qualified (fst (pre_breakout_scan cfg c)) then r_default r
         else if ca_universe (cc_candidate c) = U_IPO then r_ipo r else r_fno r)"
  unfolding alert_category_of_def assms snapshot_category
  by (simp add: fno_scan_def ipo_scan_def pre_breakout_scan_def conclude_simps(1) resolve_def
      IPO_ALERT_CATEGORIES_def FNO_ALERT_CATEGORIES_def)

definition sample_alert :: "snapshot \<Rightarrow> alert_row" where
  "sample_alert snap = alert_args demo_runtime default_settings (demo_decision\<lparr>dr_feature_snapshot := snap\<rparr>) HIGH 1 0"

definition sample_context :: candidate_context where
  "sample_context =
     \<lparr>cc_symbol = new_symbol 1 (sample_listing ''NSE''),
      cc_candidate =
        \<lparr>ca_symbol = ''INFY'', ca_instrument_type = ''EQUITY'', ca_universe = U_FNO, ca_scanner_type = ''fno_momentum_v1'',
         ca_price = Some 105, ca_breakout_level = None, ca_support_level = None, ca_resistance_level = Some 100,
         ca_fundamental_score = None, ca_technical_score = 80, ca_overall_score = 80, ca_quality = ''HIGH'',
         ca_fundamental_reasons = [], ca_technical_reasons = [], ca_risk_flags = [], ca_passed_rules = [],
         ca_failed_rules = [], ca_data_completeness_pct = 0, ca_technical_data_completeness_pct = 100,
         ca_setup_state = Some BREAKOUT_CONFIRMED, ca_alert_category = None, ca_reason = [], ca_timestamp = utc_dt 0,
         ca_scanner_sources = [''UPSTOX''], ca_fundamental_factors = [], ca_technical_factors = [],
         ca_fundamental_field_sources = [], ca_fundamental_status = ''PENDING'',
         ca_technical_feature_snapshot = [''adx14'' \<mapsto> PyStr ''31.00'', ''relative_volume'' \<mapsto> PyStr ''2.4000'']\<rparr>\<rparr>"

theorem candidate_alerts_reach_their_bot_witness:
  "p_name (resolve (flaky_router\<lparr>r_fno := flaky_provider\<lparr>p_name := ''fno_bot''\<rparr>\<rparr>)
     (alert_category_of (sample_alert (to_feature_snapshot (cc_candidate (snd (fno_scan default_settings sample_context)))))))
     = ''fno_bot''"
proof -
  have s: "al_feature_snapshot (sample_alert snap) = snap" for snap
    by (simp add: sample_alert_def alert_args_def Let_def)
  have "so_qualified (fst (fno_scan default_settings sample_context))" by code_simp
  with candidate_alerts_reach_their_bot [OF s s s,
      where r = "flaky_router\<lparr>r_fno := flaky_provider\<lparr>p_name := ''fno_bot''\<rparr>\<rparr>" and cfg = default_settings
        and c = sample_context] show ?thesis by simp
qed

end
