(* ===== verification/Compounding.thy ===== *)
theory Compounding
  imports Candidate_Core
begin

text \<open>
  The compounding evaluation of a candidate: app/compounding/models.py, target.py, risk.py and
  engine.py. A target and a stop are derived from the levels of the snapshot, the upside is
  classified into bands, and a weighted score leads to a decision. Missing levels end in UNKNOWN.
\<close>

section \<open>Types (models.py)\<close>

datatype target_classification =
  NOT_ATTRACTIVE_UPSIDE | MINIMUM_OPPORTUNITY | GOOD | STRONG | VERY_STRONG | EXCEPTIONAL | UNKNOWN_UPSIDE

datatype timeframe = DAILY | WEEKLY | MONTHLY | UNKNOWN_TIMEFRAME

datatype htf_confirmation = CONFIRMED | NOT_CONFIRMED | UNKNOWN_HTF

datatype compounding_decision = STRONG_CANDIDATE | TRADE_CANDIDATE | WATCH_CANDIDATE | NOT_ATTRACTIVE

fun upside_value :: "target_classification \<Rightarrow> string" where
  "upside_value NOT_ATTRACTIVE_UPSIDE = ''NOT_ATTRACTIVE''"
| "upside_value MINIMUM_OPPORTUNITY = ''MINIMUM_OPPORTUNITY''"
| "upside_value GOOD = ''GOOD''"
| "upside_value STRONG = ''STRONG''"
| "upside_value VERY_STRONG = ''VERY_STRONG''"
| "upside_value EXCEPTIONAL = ''EXCEPTIONAL''"
| "upside_value UNKNOWN_UPSIDE = ''UNKNOWN''"

fun htf_value :: "htf_confirmation \<Rightarrow> string" where
  "htf_value CONFIRMED = ''CONFIRMED''"
| "htf_value NOT_CONFIRMED = ''NOT_CONFIRMED''"
| "htf_value UNKNOWN_HTF = ''UNKNOWN''"

record target_result =
  tg_price :: "rat option"
  tg_upside_pct :: "rat option"
  tg_classification :: target_classification
  tg_basis :: msg

record risk_result =
  rk_stop_loss :: "rat option"
  rk_risk_pct :: "rat option"
  rk_ratio :: "rat option"
  rk_basis :: msg

record compounding_result =
  cp_timeframe :: timeframe
  cp_setup_type :: "string option"
  cp_current_price :: "rat option"
  cp_target_price :: "rat option"
  cp_upside_pct :: "rat option"
  cp_stop_loss :: "rat option"
  cp_risk_pct :: "rat option"
  cp_ratio :: "rat option"
  cp_classification :: target_classification
  cp_htf :: htf_confirmation
  cp_fundamental_quality :: string
  cp_score :: rat
  cp_decision :: compounding_decision
  cp_reasons :: "msg list"
  cp_data_limitations :: "msg list"

section \<open>Target (target.py)\<close>

definition UPSIDE_BANDS :: "(rat \<times> target_classification) list" where
  "UPSIDE_BANDS = [(20, EXCEPTIONAL), (15, VERY_STRONG), (12, STRONG), (8, GOOD), (5, MINIMUM_OPPORTUNITY)]"

definition classify_upside :: "rat option \<Rightarrow> target_classification" where
  "classify_upside pct =
     (case pct of
        None \<Rightarrow> UNKNOWN_UPSIDE
      | Some p \<Rightarrow>
          (case find (\<lambda>(threshold, label). p \<ge> threshold) UPSIDE_BANDS of
             Some (threshold, label) \<Rightarrow> label
           | None \<Rightarrow> NOT_ATTRACTIVE_UPSIDE))"

definition project_target ::
  "rat \<Rightarrow> rat option \<Rightarrow> rat option \<Rightarrow> rat option \<Rightarrow> (rat \<times> string) option" where
  "project_target price resistance support swing_high =
     (case (resistance, support, swing_high) of
        (Some r, Some s, h) \<Rightarrow>
          if r > s then Some (r + (r - s), ''measured move: resistance + (resistance - support)'')
          else if r > price then Some (r, ''resistance level (not yet cleared)'')
          else (case h of Some x \<Rightarrow> if x > price then Some (x, ''most recent swing high'') else None | None \<Rightarrow> None)
      | (Some r, None, h) \<Rightarrow>
          if r > price then Some (r, ''resistance level (not yet cleared)'')
          else (case h of Some x \<Rightarrow> if x > price then Some (x, ''most recent swing high'') else None | None \<Rightarrow> None)
      | (None, _, h) \<Rightarrow>
          (case h of Some x \<Rightarrow> if x > price then Some (x, ''most recent swing high'') else None | None \<Rightarrow> None))"

definition derive_target :: "rat option \<Rightarrow> rat option \<Rightarrow> rat option \<Rightarrow> rat option \<Rightarrow> target_result" where
  "derive_target price resistance support swing_high =
     (case price of
        None \<Rightarrow> \<lparr>tg_price = None, tg_upside_pct = None, tg_classification = UNKNOWN_UPSIDE,
                 tg_basis = lit ''current price unavailable''\<rparr>
      | Some p \<Rightarrow>
          if p \<le> 0 then \<lparr>tg_price = None, tg_upside_pct = None, tg_classification = UNKNOWN_UPSIDE,
                 tg_basis = lit ''current price unavailable''\<rparr>
          else
            (case project_target p resistance support swing_high of
               None \<Rightarrow> \<lparr>tg_price = None, tg_upside_pct = None, tg_classification = UNKNOWN_UPSIDE,
                 tg_basis = lit ''no resistance/support/swing-high level available to project a target from''\<rparr>
             | Some (target, basis) \<Rightarrow>
                (let upside = py_round 2 ((target / p - 1) * 100)
                 in \<lparr>tg_price = Some (py_round 2 target), tg_upside_pct = Some upside,
                     tg_classification = classify_upside (Some upside), tg_basis = lit basis\<rparr>)))"

section \<open>Risk (risk.py)\<close>

definition no_risk :: "string \<Rightarrow> risk_result" where
  "no_risk basis = \<lparr>rk_stop_loss = None, rk_risk_pct = None, rk_ratio = None, rk_basis = lit basis\<rparr>"

definition stop_candidates :: "rat \<Rightarrow> rat option \<Rightarrow> rat option \<Rightarrow> rat option \<Rightarrow> rat \<Rightarrow> (rat \<times> msg) list" where
  "stop_candidates p support swing_low atr14 atr_multiplier =
     (let c1 = (case support of Some s \<Rightarrow> if 0 < s \<and> s < p then [(s, lit ''support level'')] else [] | None \<Rightarrow> []);
          c2 = (case atr14 of
                  Some a \<Rightarrow> if a > 0 then [(p - a * atr_multiplier, [Lit ''ATR(14) x '', Gen atr_multiplier])] else []
                | None \<Rightarrow> [])
      in if c1 @ c2 \<noteq> [] then c1 @ c2
         else (case swing_low of Some l \<Rightarrow> if 0 < l \<and> l < p then [(l, lit ''swing low'')] else [] | None \<Rightarrow> []))"

text \<open>\<open>max(candidates, key=..)\<close>: the first element with the largest key.\<close>

fun max_by :: "('a \<Rightarrow> rat) \<Rightarrow> 'a \<Rightarrow> 'a list \<Rightarrow> 'a" where
  "max_by f x [] = x"
| "max_by f x (y # ys) = (if f y > f x then max_by f y ys else max_by f x ys)"

definition derive_risk ::
  "rat option \<Rightarrow> rat option \<Rightarrow> rat option \<Rightarrow> rat option \<Rightarrow> rat option \<Rightarrow> rat \<Rightarrow> risk_result" where
  "derive_risk price target_price support swing_low atr14 atr_multiplier =
     (case price of
        None \<Rightarrow> no_risk ''current price unavailable''
      | Some p \<Rightarrow>
          if p \<le> 0 then no_risk ''current price unavailable''
          else
            (case stop_candidates p support swing_low atr14 atr_multiplier of
               [] \<Rightarrow> no_risk ''no support/ATR/swing-low level available below current price''
             | c # cs \<Rightarrow>
                (let (stop_loss, basis) = max_by fst c cs in
                 if stop_loss \<le> 0 then no_risk ''derived stop-loss is non-positive''
                 else
                   (let risk_pct = py_round 2 ((p - stop_loss) / p * 100);
                        ratio = (case target_price of
                                   None \<Rightarrow> None
                                 | Some t \<Rightarrow>
                                     (let risk_amount = p - stop_loss
                                      in if risk_amount > 0 then Some (py_round 2 ((t - p) / risk_amount)) else None))
                    in \<lparr>rk_stop_loss = Some (py_round 2 stop_loss), rk_risk_pct = Some risk_pct,
                        rk_ratio = ratio, rk_basis = basis\<rparr>))))"

section \<open>Engine (engine.py)\<close>

fun UPSIDE_SCORE :: "target_classification \<Rightarrow> rat" where
  "UPSIDE_SCORE UNKNOWN_UPSIDE = 0"
| "UPSIDE_SCORE NOT_ATTRACTIVE_UPSIDE = 10"
| "UPSIDE_SCORE MINIMUM_OPPORTUNITY = 45"
| "UPSIDE_SCORE GOOD = 65"
| "UPSIDE_SCORE STRONG = 80"
| "UPSIDE_SCORE VERY_STRONG = 90"
| "UPSIDE_SCORE EXCEPTIONAL = 90"

fun HTF_SCORE :: "htf_confirmation \<Rightarrow> rat" where
  "HTF_SCORE CONFIRMED = 100"
| "HTF_SCORE NOT_CONFIRMED = 40"
| "HTF_SCORE UNKNOWN_HTF = 50"

definition rr_score :: "rat option \<Rightarrow> rat" where
  "rr_score ratio =
     (case ratio of
        None \<Rightarrow> 30
      | Some r \<Rightarrow> if r < 1 then 20 else if r < 3/2 then 50 else if r < 5/2 then 75 else 100)"

definition higher_timeframe_confirmation :: "settings \<Rightarrow> pyval \<Rightarrow> rat option \<Rightarrow> htf_confirmation" where
  "higher_timeframe_confirmation cfg trend_direction adx14 =
     (if trend_direction = PyNone then UNKNOWN_HTF
      else if trend_direction \<noteq> PyStr ''up'' then NOT_CONFIRMED
      else (case adx14 of
              None \<Rightarrow> UNKNOWN_HTF
            | Some a \<Rightarrow> if a \<ge> fno_momentum_min_adx cfg then CONFIRMED else NOT_CONFIRMED))"

definition classify_timeframe :: "target_classification \<Rightarrow> htf_confirmation \<Rightarrow> timeframe" where
  "classify_timeframe t h =
     (if t \<in> {UNKNOWN_UPSIDE, NOT_ATTRACTIVE_UPSIDE} then UNKNOWN_TIMEFRAME
      else if t = MINIMUM_OPPORTUNITY then DAILY
      else if t \<in> {GOOD, STRONG} then WEEKLY
      else if h = CONFIRMED then MONTHLY else WEEKLY)"

definition compute_score ::
  "settings \<Rightarrow> target_result \<Rightarrow> rat option \<Rightarrow> htf_confirmation \<Rightarrow> rat option \<Rightarrow> rat \<times> msg list" where
  "compute_score cfg target ratio htf fundamental_score =
     (let fundamental_component = opt_else fundamental_score 50;
          score = UPSIDE_SCORE (tg_classification target) * compounding_weight_upside cfg
                + rr_score ratio * compounding_weight_risk_reward cfg
                + HTF_SCORE htf * compounding_weight_higher_timeframe cfg
                + fundamental_component * compounding_weight_fundamental cfg;
          reasons =
            [case tg_upside_pct target of
               None \<Rightarrow> lit ''Potential upside UNKNOWN''
             | Some u \<Rightarrow> [Lit ''Potential upside '', Fix 1 u, Lit ''% ('', Lit (upside_value (tg_classification target)), Lit '')''],
             case ratio of None \<Rightarrow> lit ''Risk/Reward UNKNOWN'' | Some r \<Rightarrow> [Lit ''Risk/Reward '', Fix 2 r],
             [Lit ''Higher-timeframe confirmation: '', Lit (htf_value htf)],
             case fundamental_score of
               None \<Rightarrow> lit ''Fundamental quality: UNKNOWN''
             | Some f \<Rightarrow> [Lit ''Fundamental quality: '', Lit (quality_value (quality_from_score f))]]
      in (py_round 2 (min (max score 0) 100), reasons))"

definition compounding_decide :: "settings \<Rightarrow> target_classification \<Rightarrow> rat \<Rightarrow> compounding_decision" where
  "compounding_decide cfg t score =
     (if t = UNKNOWN_UPSIDE then WATCH_CANDIDATE
      else if t = NOT_ATTRACTIVE_UPSIDE then NOT_ATTRACTIVE
      else if score \<ge> compounding_strong_score_threshold cfg then STRONG_CANDIDATE
      else if score \<ge> compounding_trade_score_threshold cfg then TRADE_CANDIDATE
      else WATCH_CANDIDATE)"

definition evaluate_compounding :: "settings \<Rightarrow> snapshot \<Rightarrow> compounding_result" where
  "evaluate_compounding cfg snap =
     (let price = as_float snap ''price'';
          fundamental_score = as_float snap ''fundamental_score'';
          adx14 = as_float snap ''adx14'';
          target = derive_target price (as_float snap ''resistance_level'') (as_float snap ''support_level'')
                     (as_float snap ''swing_high'');
          risk = derive_risk price (tg_price target) (as_float snap ''support_level'') (as_float snap ''swing_low'')
                   (as_float snap ''atr14'') (compounding_atr_stop_multiplier cfg);
          htf = higher_timeframe_confirmation cfg (dict_get snap ''trend_direction'') adx14;
          (score, reasons) = compute_score cfg target (rk_ratio risk) htf fundamental_score
      in \<lparr>cp_timeframe = classify_timeframe (tg_classification target) htf,
          cp_setup_type = (case dict_get snap ''setup_state'' of PyStr s \<Rightarrow> Some s | _ \<Rightarrow> None),
          cp_current_price = price, cp_target_price = tg_price target, cp_upside_pct = tg_upside_pct target,
          cp_stop_loss = rk_stop_loss risk, cp_risk_pct = rk_risk_pct risk, cp_ratio = rk_ratio risk,
          cp_classification = tg_classification target, cp_htf = htf,
          cp_fundamental_quality =
            (case fundamental_score of None \<Rightarrow> ''UNKNOWN'' | Some f \<Rightarrow> quality_value (quality_from_score f)),
          cp_score = score, cp_decision = compounding_decide cfg (tg_classification target) score,
          cp_reasons = reasons,
          cp_data_limitations =
            (if tg_price target = None then [Lit ''target: '' # tg_basis target] else [])
            @ (if rk_stop_loss risk = None then [Lit ''stop-loss: '' # rk_basis risk] else [])
            @ (if fundamental_score = None then [lit ''fundamental score unavailable (UNKNOWN)''] else [])
            @ (if htf = UNKNOWN_HTF
               then [lit ''trend direction/ADX unavailable for higher-timeframe confirmation''] else [])\<rparr>)"

section \<open>Bands\<close>

fun upside_rank :: "target_classification \<Rightarrow> nat" where
  "upside_rank UNKNOWN_UPSIDE = 0"
| "upside_rank NOT_ATTRACTIVE_UPSIDE = 1"
| "upside_rank MINIMUM_OPPORTUNITY = 2"
| "upside_rank GOOD = 3"
| "upside_rank STRONG = 4"
| "upside_rank VERY_STRONG = 5"
| "upside_rank EXCEPTIONAL = 6"

lemma classify_upside_Some:
  "classify_upside (Some p) =
     (if p \<ge> 20 then EXCEPTIONAL else if p \<ge> 15 then VERY_STRONG else if p \<ge> 12 then STRONG
      else if p \<ge> 8 then GOOD else if p \<ge> 5 then MINIMUM_OPPORTUNITY else NOT_ATTRACTIVE_UPSIDE)"
  by (simp add: classify_upside_def UPSIDE_BANDS_def)

lemma max_by_props:
  "max_by f x ys \<in> set (x # ys) \<and> (\<forall>y \<in> set (x # ys). f y \<le> f (max_by f x ys))"
  by (induction f x ys rule: max_by.induct) (auto intro: order_trans)

lemma stop_candidates_below:
  "0 < k \<Longrightarrow> c \<in> set (stop_candidates p support low atr k) \<Longrightarrow> fst c < p"
  by (auto simp: stop_candidates_def Let_def split: option.splits if_splits)

lemma risk_ratio_range:
  assumes "0 < s" "s < (p::rat)"
  shows "0 \<le> (p - s) / p * 100 \<and> (p - s) / p * 100 \<le> 100"
  using assms by (auto simp: divide_le_eq)

text \<open>A derived stop is positive and below the price before rounding, it is the highest of the levels
  considered, the risk lies between 0 and 100 percent, and a reward/risk ratio is reported exactly when
  there is a target; otherwise nothing is reported.\<close>

theorem derive_risk_sound:
  assumes "0 < atr_multiplier" "derive_risk price target support low atr atr_multiplier = r"
  shows "(rk_stop_loss r = None \<longrightarrow> rk_risk_pct r = None \<and> rk_ratio r = None)
    \<and> (\<forall>x. rk_stop_loss r = Some x \<longrightarrow>
        (\<exists>p s. price = Some p \<and> 0 < s \<and> s < p \<and> x = py_round 2 s
           \<and> s \<in> fst ` set (stop_candidates p support low atr atr_multiplier)
           \<and> (\<forall>c \<in> set (stop_candidates p support low atr atr_multiplier). fst c \<le> s)
           \<and> rk_risk_pct r = Some (py_round 2 ((p - s) / p * 100))
           \<and> (\<forall>q. rk_risk_pct r = Some q \<longrightarrow> 0 \<le> q \<and> q \<le> 100)
           \<and> rk_ratio r = map_option (\<lambda>t. py_round 2 ((t - p) / (p - s))) target))"
proof (cases price)
  case None
  with assms(2) show ?thesis by (auto simp: derive_risk_def no_risk_def)
next
  case (Some p)
  show ?thesis
  proof (cases "stop_candidates p support low atr atr_multiplier")
    case Nil
    with assms(2) Some show ?thesis by (auto simp: derive_risk_def no_risk_def split: if_splits)
  next
    case (Cons c cs)
    obtain s b where m: "max_by fst c cs = (s, b)" by (cases "max_by fst c cs")
    note mp = max_by_props [of fst c cs, unfolded m Cons [symmetric]]
    have below: "s < p" using stop_candidates_below [OF assms(1), of "(s, b)"] mp by auto
    show ?thesis
    proof (cases "p \<le> 0 \<or> s \<le> 0")
      case True
      with assms(2) Some Cons m show ?thesis by (auto simp: derive_risk_def no_risk_def split: if_splits)
    next
      case False
      then have r: "r = \<lparr>rk_stop_loss = Some (py_round 2 s), rk_risk_pct = Some (py_round 2 ((p - s) / p * 100)),
          rk_ratio = map_option (\<lambda>t. py_round 2 ((t - p) / (p - s))) target, rk_basis = b\<rparr>"
        using assms(2) Some Cons m below by (auto simp: derive_risk_def Let_def split: option.splits)
      have "0 \<le> py_round 2 ((p - s) / p * 100) \<and> py_round 2 ((p - s) / p * 100) \<le> 100"
        using risk_ratio_range [of s p] False below py_round_0_100 by auto
      moreover have "s \<in> fst ` set (stop_candidates p support low atr atr_multiplier)" using mp by force
      ultimately show ?thesis using mp False below Some by (auto simp: r intro!: exI [of _ s])
    qed
  qed
qed

theorem derive_risk_sound_witness:
  "rk_stop_loss (derive_risk (Some 100) (Some 120) (Some 95) None (Some 2) 1.5) = Some 97
   \<and> (\<exists>s. 0 < s \<and> s < 100 \<and> (97::rat) = py_round 2 s)"
proof -
  have e: "rk_stop_loss (derive_risk (Some 100) (Some 120) (Some 95) None (Some 2) 1.5) = Some 97"
    by (simp add: derive_risk_def stop_candidates_def Let_def)
  have "\<exists>p s. Some 100 = Some p \<and> 0 < s \<and> s < p \<and> (97::rat) = py_round 2 s"
    using derive_risk_sound [of "1.5" "Some 100" "Some 120" "Some 95" None "Some 2", OF _ refl] e by auto
  with e show ?thesis by auto
qed

text \<open>A larger upside never classifies lower, and the decision follows the score: with known, attractive
  upside a larger score never decides lower, an unknown target is only watched and an unattractive one is
  refused whatever the score.\<close>

theorem compounding_decision_monotone:
  assumes "p \<le> q" "x \<le> y" "compounding_trade_score_threshold cfg \<le> compounding_strong_score_threshold cfg"
  shows "upside_rank (classify_upside (Some p)) \<le> upside_rank (classify_upside (Some q))
    \<and> (t \<notin> {UNKNOWN_UPSIDE, NOT_ATTRACTIVE_UPSIDE} \<longrightarrow>
         (compounding_decide cfg t x = STRONG_CANDIDATE \<longrightarrow> compounding_decide cfg t y = STRONG_CANDIDATE)
       \<and> (compounding_decide cfg t x = TRADE_CANDIDATE \<longrightarrow>
            compounding_decide cfg t y \<in> {TRADE_CANDIDATE, STRONG_CANDIDATE}))
    \<and> compounding_decide cfg UNKNOWN_UPSIDE x = WATCH_CANDIDATE
    \<and> compounding_decide cfg NOT_ATTRACTIVE_UPSIDE x = NOT_ATTRACTIVE"
  using assms by (auto simp: classify_upside_Some compounding_decide_def)

theorem compounding_decision_monotone_witness:
  "upside_rank (classify_upside (Some 8)) \<le> upside_rank (classify_upside (Some 13))"
  using compounding_decision_monotone [of 8 13 1 2 default_settings GOOD] by (simp add: default_settings_def)

text \<open>The compounding score lies between 0 and 100 for every snapshot and every setting, and an
  evaluation without a target is never a trade candidate and says why.\<close>

theorem compounding_score_bounded:
  "0 \<le> cp_score (evaluate_compounding cfg snap) \<and> cp_score (evaluate_compounding cfg snap) \<le> 100
   \<and> (cp_target_price (evaluate_compounding cfg snap) = None \<longrightarrow>
        cp_decision (evaluate_compounding cfg snap) = WATCH_CANDIDATE
      \<and> cp_timeframe (evaluate_compounding cfg snap) = UNKNOWN_TIMEFRAME
      \<and> cp_data_limitations (evaluate_compounding cfg snap) \<noteq> [])"
proof -
  have s: "0 \<le> fst (compute_score cfg t r h f) \<and> fst (compute_score cfg t r h f) \<le> 100" for t r h f
    unfolding compute_score_def Let_def fst_conv by (rule py_round_0_100) auto
  have u: "tg_classification (derive_target a b c d) = UNKNOWN_UPSIDE" if "tg_price (derive_target a b c d) = None"
    for a b c d
    using that by (auto simp: derive_target_def Let_def split: option.splits if_splits prod.splits)
  show ?thesis
    using s u by (auto simp: evaluate_compounding_def Let_def split_beta compounding_decide_def classify_timeframe_def)
qed

theorem compounding_score_bounded_witness:
  "cp_decision (evaluate_compounding default_settings Map.empty) = WATCH_CANDIDATE"
  using compounding_score_bounded [of default_settings Map.empty]
  by (simp add: evaluate_compounding_def derive_target_def as_float_def is_missing_def Let_def split_beta)

end
