(* ===== verification/Derivatives.thy ===== *)
theory Derivatives
  imports Candidates
begin

text \<open>
  Open-interest observations: app/derivatives (models, buildup classification, readings from an option
  chain and from futures bars, the engine), app/models/oi_observation.py and
  app/repositories/oi_repository.py. The broker is a parameter: what it answers per underlying,
  or the exception it raises. \<open>utc_now()\<close> of the chain readings is read once per underlying.
\<close>

section \<open>Readings\<close>

datatype instrument_type = FUTURES | CALL | PUT

fun instrument_value :: "instrument_type \<Rightarrow> string" where
  "instrument_value FUTURES = ''FUT''"
| "instrument_value CALL = ''CE''"
| "instrument_value PUT = ''PE''"

datatype buildup = LONG_BUILDUP | SHORT_BUILDUP | SHORT_COVERING | LONG_UNWINDING | BU_NEUTRAL

fun buildup_value :: "buildup \<Rightarrow> string" where
  "buildup_value LONG_BUILDUP = ''LONG_BUILDUP''"
| "buildup_value SHORT_BUILDUP = ''SHORT_BUILDUP''"
| "buildup_value SHORT_COVERING = ''SHORT_COVERING''"
| "buildup_value LONG_UNWINDING = ''LONG_UNWINDING''"
| "buildup_value BU_NEUTRAL = ''NEUTRAL''"

record option_leg =
  ol_instrument_key :: string
  ol_ltp :: rat
  ol_close_price :: rat
  ol_volume :: int
  ol_oi :: rat
  ol_prev_oi :: rat

record chain_row =
  ch_underlying :: string
  ch_expiry_date :: int
  ch_strike_price :: rat
  ch_call :: "option_leg option"
  ch_put :: "option_leg option"

record futures_bar =
  fb_instrument_key :: string
  fb_expiry_date :: int
  fb_timestamp :: int
  fb_close :: rat
  fb_volume :: int
  fb_open_interest :: int

record oi_reading =
  or_underlying :: string
  or_instrument_key :: string
  or_instrument_type :: instrument_type
  or_strike_price :: "rat option"
  or_expiry_date :: int
  or_observed_at :: int
  or_price :: rat
  or_prev_price :: "rat option"
  or_price_change_pct :: "rat option"
  or_volume :: int
  or_oi :: rat
  or_prev_oi :: "rat option"
  or_oi_change :: "rat option"
  or_oi_change_pct :: "rat option"
  or_classification :: buildup

definition percent_change :: "rat \<Rightarrow> rat option \<Rightarrow> rat option" where
  "percent_change current previous =
     (case previous of None \<Rightarrow> None | Some p \<Rightarrow> if p = 0 then None else Some ((current - p) / p * 100))"

fun classify_buildup :: "rat option \<Rightarrow> rat option \<Rightarrow> buildup" where
  "classify_buildup (Some price_change) (Some oi_change) =
     (if price_change = 0 \<or> oi_change = 0 then BU_NEUTRAL
      else if price_change > 0 \<and> oi_change > 0 then LONG_BUILDUP
      else if price_change < 0 \<and> oi_change > 0 then SHORT_BUILDUP
      else if price_change > 0 \<and> oi_change < 0 then SHORT_COVERING
      else LONG_UNWINDING)"
| "classify_buildup _ _ = BU_NEUTRAL"

definition chain_reading :: "chain_row \<Rightarrow> instrument_type \<Rightarrow> option_leg \<Rightarrow> int \<Rightarrow> oi_reading" where
  "chain_reading row ty leg observed_at =
     (let price_change = ol_ltp leg - ol_close_price leg;
          oi_change = ol_oi leg - ol_prev_oi leg
      in \<lparr>or_underlying = ch_underlying row, or_instrument_key = ol_instrument_key leg,
          or_instrument_type = ty, or_strike_price = Some (ch_strike_price row),
          or_expiry_date = ch_expiry_date row, or_observed_at = observed_at, or_price = ol_ltp leg,
          or_prev_price = Some (ol_close_price leg),
          or_price_change_pct = percent_change (ol_ltp leg) (Some (ol_close_price leg)),
          or_volume = ol_volume leg, or_oi = ol_oi leg, or_prev_oi = Some (ol_prev_oi leg),
          or_oi_change = Some oi_change, or_oi_change_pct = percent_change (ol_oi leg) (Some (ol_prev_oi leg)),
          or_classification = classify_buildup (Some price_change) (Some oi_change)\<rparr>)"

definition readings_from_chain :: "int \<Rightarrow> chain_row list \<Rightarrow> oi_reading list" where
  "readings_from_chain observed_at rows =
     concat (map (\<lambda>row.
       (case ch_call row of None \<Rightarrow> [] | Some leg \<Rightarrow> [chain_reading row CALL leg observed_at]) @
       (case ch_put row of None \<Rightarrow> [] | Some leg \<Rightarrow> [chain_reading row PUT leg observed_at])) rows)"

definition reading_from_futures_bars :: "string \<Rightarrow> futures_bar list \<Rightarrow> oi_reading option" where
  "reading_from_futures_bars underlying bars =
     (if bars = [] then None
      else
        let latest = last bars;
            previous = (if length bars \<ge> 2 then Some (bars ! (length bars - 2)) else None);
            latest_oi = of_int (fb_open_interest latest);
            previous_oi = map_option (\<lambda>b. of_int (fb_open_interest b)) previous;
            price_change = map_option (\<lambda>b. fb_close latest - fb_close b) previous;
            oi_change = map_option (\<lambda>p. latest_oi - p) previous_oi
        in Some \<lparr>or_underlying = underlying, or_instrument_key = fb_instrument_key latest,
             or_instrument_type = FUTURES, or_strike_price = None, or_expiry_date = fb_expiry_date latest,
             or_observed_at = fb_timestamp latest, or_price = fb_close latest,
             or_prev_price = map_option fb_close previous,
             or_price_change_pct = percent_change (fb_close latest) (map_option fb_close previous),
             or_volume = fb_volume latest, or_oi = latest_oi, or_prev_oi = previous_oi,
             or_oi_change = oi_change, or_oi_change_pct = percent_change latest_oi previous_oi,
             or_classification = classify_buildup price_change oi_change\<rparr>)"

section \<open>Observations table\<close>

record oi_row =
  oi_id :: int
  oi_symbol_id :: int
  oi_reading_of :: oi_reading

record oi_store = candidate_store +
  oi_observations :: "oi_row list"
  next_oi_id :: int

definition oi_insert :: "int \<Rightarrow> oi_reading \<Rightarrow> 'x oi_store_scheme \<Rightarrow> 'x oi_store_scheme" where
  "oi_insert symbol_id reading s =
     s\<lparr>oi_observations := oi_observations s @
         [\<lparr>oi_id = next_oi_id s, oi_symbol_id = symbol_id, oi_reading_of = reading\<rparr>],
       next_oi_id := next_oi_id s + 1\<rparr>"

definition oi_time :: "oi_row \<Rightarrow> int" where
  "oi_time r = or_observed_at (oi_reading_of r)"

definition get_latest_for_instrument :: "string \<Rightarrow> 'x oi_store_scheme \<Rightarrow> oi_row option" where
  "get_latest_for_instrument key s =
     newest_by oi_time (\<lambda>r. or_instrument_key (oi_reading_of r) = key) (oi_observations s)"

definition list_for_symbol :: "int \<Rightarrow> nat \<Rightarrow> 'x oi_store_scheme \<Rightarrow> oi_row list" where
  "list_for_symbol symbol_id limit s =
     take limit (sort_key (\<lambda>r. - oi_time r) (filter (\<lambda>r. oi_symbol_id r = symbol_id) (oi_observations s)))"

definition latest_futures :: "'x oi_store_scheme \<Rightarrow> oi_row list" where
  "latest_futures s =
     (let futures = filter (\<lambda>r. or_instrument_type (oi_reading_of r) = FUTURES) (oi_observations s)
      in filter (\<lambda>r. newest_by oi_time (\<lambda>q. oi_symbol_id q = oi_symbol_id r) futures = Some r) futures)"

text \<open>\<open>ORDER BY abs(pct) DESC\<close> puts missing percentages first, as PostgreSQL does.\<close>

definition list_latest_buildups :: "nat \<Rightarrow> 'x oi_store_scheme \<Rightarrow> oi_row list" where
  "list_latest_buildups limit s =
     (let rows = filter (\<lambda>r. or_classification (oi_reading_of r) \<noteq> BU_NEUTRAL) (latest_futures s);
          pct = (\<lambda>r. or_oi_change_pct (oi_reading_of r))
      in take limit (filter (\<lambda>r. pct r = None) rows @
           sort_key (\<lambda>r. case pct r of Some p \<Rightarrow> - \<bar>p\<bar> | None \<Rightarrow> 0) (filter (\<lambda>r. pct r \<noteq> None) rows)))"

section \<open>The engine\<close>

record derivatives_provider =
  dp_option_chain :: "string \<Rightarrow> string \<Rightarrow> py_error + chain_row list"
  dp_futures_history :: "string \<Rightarrow> py_error + futures_bar list"

record oi_run_stats =
  oe_processed :: nat
  oe_written :: nat
  oe_no_data :: nat
  oe_error_count :: nat
  oe_errors :: "(string \<times> py_error) list"

definition oi_empty_run :: oi_run_stats where
  "oi_empty_run = \<lparr>oe_processed = 0, oe_written = 0, oe_no_data = 0, oe_error_count = 0, oe_errors = []\<rparr>"

definition symbol_readings :: "derivatives_provider \<Rightarrow> int \<Rightarrow> symbol_row \<Rightarrow> py_error + oi_reading list" where
  "symbol_readings p observed_at sy =
     (case dp_option_chain p (sy_symbol sy) (sy_instrument_token sy) of
        Inl e \<Rightarrow> Inl e
      | Inr rows \<Rightarrow>
          (case dp_futures_history p (sy_symbol sy) of
             Inl e \<Rightarrow> Inl e
           | Inr bars \<Rightarrow>
               Inr (readings_from_chain observed_at rows @
                 (case reading_from_futures_bars (sy_symbol sy) bars of None \<Rightarrow> [] | Some r \<Rightarrow> [r]))))"

definition oi_step ::
  "derivatives_provider \<Rightarrow> (int \<Rightarrow> int) \<Rightarrow> symbol_row \<Rightarrow> oi_run_stats \<times> 'x oi_store_scheme
     \<Rightarrow> oi_run_stats \<times> 'x oi_store_scheme" where
  "oi_step p clk sy st_s =
     (case st_s of (st, s) \<Rightarrow>
        (let st1 = st\<lparr>oe_processed := Suc (oe_processed st)\<rparr>
         in case symbol_readings p (clk (sy_id sy)) sy of
              Inl e \<Rightarrow> (st1\<lparr>oe_error_count := Suc (oe_error_count st), oe_errors := oe_errors st @ [(sy_symbol sy, e)]\<rparr>, s)
            | Inr readings \<Rightarrow>
                if readings = [] then (st1\<lparr>oe_no_data := Suc (oe_no_data st)\<rparr>, s)
                else (st1\<lparr>oe_written := oe_written st + length readings\<rparr>, fold (oi_insert (sy_id sy)) readings s)))"

definition oi_run :: "derivatives_provider \<Rightarrow> (int \<Rightarrow> int) \<Rightarrow> 'x oi_store_scheme \<Rightarrow> oi_run_stats \<times> 'x oi_store_scheme" where
  "oi_run p clk s = fold (oi_step p clk) (list_by_ids (fno_universe s) s) (oi_empty_run, s)"

section \<open>What a run writes\<close>

lemma oi_insert_effect [simp]:
  "oi_observations (fold (oi_insert i) rs s) = oi_observations s @
     map (\<lambda>(k, r). \<lparr>oi_id = next_oi_id s + int k, oi_symbol_id = i, oi_reading_of = r\<rparr>) (enumerate 0 rs)"
  "fno_universe (fold (oi_insert i) rs s) = fno_universe s" "symbols (fold (oi_insert i) rs s) = symbols s"
proof -
  show "oi_observations (fold (oi_insert i) rs s) = oi_observations s @
     map (\<lambda>(k, r). \<lparr>oi_id = next_oi_id s + int k, oi_symbol_id = i, oi_reading_of = r\<rparr>) (enumerate 0 rs)"
  proof (induction rs arbitrary: s)
    case (Cons r rs)
    have "map (\<lambda>(k, r). \<lparr>oi_id = next_oi_id s + 1 + int k, oi_symbol_id = i, oi_reading_of = r\<rparr>) (enumerate 0 rs) =
        map (\<lambda>(k, r). \<lparr>oi_id = next_oi_id s + int k, oi_symbol_id = i, oi_reading_of = r\<rparr>) (enumerate (Suc 0) rs)"
      by (rule nth_equalityI) (simp_all add: nth_enumerate_eq)
    with Cons show ?case by (simp add: oi_insert_def)
  qed simp
  show "fno_universe (fold (oi_insert i) rs s) = fno_universe s"
    by (induction rs arbitrary: s) (simp_all add: oi_insert_def)
  show "symbols (fold (oi_insert i) rs s) = symbols s"
    by (induction rs arbitrary: s) (simp_all add: oi_insert_def)
qed

text \<open>The specification: what the broker's answers amount to, symbol by symbol.\<close>

definition row_pair :: "oi_row \<Rightarrow> int \<times> oi_reading" where
  "row_pair r = (oi_symbol_id r, oi_reading_of r)"

definition answered :: "derivatives_provider \<Rightarrow> (int \<Rightarrow> int) \<Rightarrow> symbol_row \<Rightarrow> (int \<times> oi_reading) list" where
  "answered p clk sy =
     (case symbol_readings p (clk (sy_id sy)) sy of Inl e \<Rightarrow> [] | Inr rs \<Rightarrow> map (Pair (sy_id sy)) rs)"

lemma oi_step_effect:
  fixes s :: "'x oi_store_scheme" and st sy clk p
  defines "res \<equiv> oi_step p clk sy (st, s)"
  shows "\<exists>rows. oi_observations (snd res) = oi_observations s @ rows \<and> map row_pair rows = answered p clk sy"
    and "oe_processed (fst res) = Suc (oe_processed st)"
    and "oe_written (fst res) = oe_written st + length (answered p clk sy)"
    and "oe_error_count st = length (oe_errors st) \<Longrightarrow> oe_error_count (fst res) = length (oe_errors (fst res))"
    and "map fst (oe_errors (fst res)) = map fst (oe_errors st) @
           (case symbol_readings p (clk (sy_id sy)) sy of Inl e \<Rightarrow> [sy_symbol sy] | Inr _ \<Rightarrow> [])"
proof -
  show "\<exists>rows. oi_observations (snd res) = oi_observations s @ rows \<and> map row_pair rows = answered p clk sy"
  proof (cases "symbol_readings p (clk (sy_id sy)) sy")
    case (Inl e)
    then show ?thesis by (simp add: res_def oi_step_def answered_def Let_def)
  next
    case (Inr rs)
    then have "oi_observations (snd res) = oi_observations (fold (oi_insert (sy_id sy)) rs s)"
      by (auto simp: res_def oi_step_def Let_def)
    then show ?thesis unfolding answered_def Inr sum.case oi_insert_effect(1)
      by (intro exI conjI, assumption) (rule nth_equalityI, simp_all add: row_pair_def nth_enumerate_eq)
  qed
qed (auto simp: res_def oi_step_def answered_def Let_def split: sum.split)

lemma oi_fold_effect:
  fixes s :: "'x oi_store_scheme" and clk p
  defines "res \<equiv> \<lambda>st (s :: 'x oi_store_scheme) syms. fold (oi_step p clk) syms (st, s)"
  shows "\<exists>rows. oi_observations (snd (res st s syms)) = oi_observations s @ rows
      \<and> map row_pair rows = concat (map (answered p clk) syms)"
    and "oe_processed (fst (res st s syms)) = oe_processed st + length syms"
    and "oe_written (fst (res st s syms)) = oe_written st + length (concat (map (answered p clk) syms))"
    and "oe_error_count st = length (oe_errors st) \<Longrightarrow>
      oe_error_count (fst (res st s syms)) = length (oe_errors (fst (res st s syms)))"
  unfolding res_def
proof (induction syms arbitrary: st s)
  case (Cons sy syms)
  note step = oi_step_effect [where p = p and clk = clk and sy = sy]
  {
    case (1 st s)
    let ?r = "oi_step p clk sy (st, s)"
    from step(1) [of st s] obtain a where "oi_observations (snd ?r) = oi_observations s @ a"
      "map row_pair a = answered p clk sy" by blast
    moreover from Cons.IH(1) [of "fst ?r" "snd ?r"] obtain b where
      "oi_observations (snd (fold (oi_step p clk) syms ?r)) = oi_observations (snd ?r) @ b"
      "map row_pair b = concat (map (answered p clk) syms)" by auto
    ultimately show ?case by (intro exI [of _ "a @ b"]) simp
  next
    case (2 st s)
    let ?r = "oi_step p clk sy (st, s)"
    show ?case using Cons.IH(2) [of "fst ?r" "snd ?r"] step(2) [of st s] by simp
  next
    case (3 st s)
    let ?r = "oi_step p clk sy (st, s)"
    show ?case using Cons.IH(3) [of "fst ?r" "snd ?r"] step(3) [of st s] by simp
  next
    case (4 st s)
    let ?r = "oi_step p clk sy (st, s)"
    show ?case using Cons.IH(4) [of "fst ?r" "snd ?r"] step(4) [of st s] 4 by simp
  }
qed simp_all

text \<open>A run of the open-interest engine stores exactly what the broker answered, in order: each F\<open>&\<close>O
  symbol is processed once, the table grows by the readings of the symbols that answered, a symbol
  whose call failed contributes no row and one error, and no earlier observation changes.\<close>

theorem oi_run_stores_answers:
  "let syms = list_by_ids (fno_universe s) s; res = oi_run p clk s
   in (\<exists>rows. oi_observations (snd res) = oi_observations s @ rows
         \<and> map row_pair rows = concat (map (answered p clk) syms)
         \<and> length rows = oe_written (fst res))
    \<and> oe_processed (fst res) = length syms
    \<and> oe_error_count (fst res) = length (oe_errors (fst res))"
proof -
  let ?syms = "list_by_ids (fno_universe s) s"
  note f = oi_fold_effect [where p = p and clk = clk and st = oi_empty_run and s = s and syms = ?syms]
  from f(1) obtain rows where rows: "oi_observations (snd (fold (oi_step p clk) ?syms (oi_empty_run, s))) = oi_observations s @ rows"
    "map row_pair rows = concat (map (answered p clk) ?syms)" by blast
  from rows(2) have "length rows = length (concat (map (answered p clk) ?syms))" by (metis length_map)
  then show ?thesis using rows f(2-4) unfolding Let_def oi_run_def by (auto simp: oi_empty_run_def)
qed

section \<open>What a stored classification means\<close>

text \<open>Both previous values are known and the two moves have the given signs.\<close>

definition moved :: "oi_reading \<Rightarrow> (rat \<Rightarrow> bool) \<Rightarrow> (rat \<Rightarrow> bool) \<Rightarrow> bool" where
  "moved r price oi \<longleftrightarrow>
     (\<exists>p q. or_prev_price r = Some p \<and> or_prev_oi r = Some q \<and> price (or_price r - p) \<and> oi (or_oi r - q))"

definition reading_ok :: "oi_reading \<Rightarrow> bool" where
  "reading_ok r \<longleftrightarrow>
     (or_classification r = LONG_BUILDUP \<longleftrightarrow> moved r (\<lambda>d. d > 0) (\<lambda>d. d > 0))
   \<and> (or_classification r = SHORT_BUILDUP \<longleftrightarrow> moved r (\<lambda>d. d < 0) (\<lambda>d. d > 0))
   \<and> (or_classification r = SHORT_COVERING \<longleftrightarrow> moved r (\<lambda>d. d > 0) (\<lambda>d. d < 0))
   \<and> (or_classification r = LONG_UNWINDING \<longleftrightarrow> moved r (\<lambda>d. d < 0) (\<lambda>d. d < 0))
   \<and> or_oi_change r = map_option (\<lambda>q. or_oi r - q) (or_prev_oi r)
   \<and> or_oi_change_pct r = percent_change (or_oi r) (or_prev_oi r)"

lemma reading_okI:
  assumes "or_classification r = classify_buildup (map_option (\<lambda>p. or_price r - p) (or_prev_price r))
      (map_option (\<lambda>q. or_oi r - q) (or_prev_oi r))"
    and "or_oi_change r = map_option (\<lambda>q. or_oi r - q) (or_prev_oi r)"
    and "or_oi_change_pct r = percent_change (or_oi r) (or_prev_oi r)"
  shows "reading_ok r"
  using assms unfolding reading_ok_def moved_def
  by (cases "or_prev_price r"; cases "or_prev_oi r") auto

lemma chain_reading_ok: "reading_ok (chain_reading row ty leg t)"
  by (rule reading_okI) (simp_all add: chain_reading_def Let_def)

lemma futures_reading_ok:
  assumes "reading_from_futures_bars u bars = Some r"
  shows "reading_ok r"
proof (rule reading_okI)
  define previous where "previous = (if length bars \<ge> 2 then Some (bars ! (length bars - 2)) else None)"
  have r: "or_classification r = classify_buildup (map_option (\<lambda>b. fb_close (last bars) - fb_close b) previous)
      (map_option (\<lambda>p. of_int (fb_open_interest (last bars)) - p) (map_option (\<lambda>b. of_int (fb_open_interest b)) previous))"
    "or_price r = fb_close (last bars)" "or_prev_price r = map_option fb_close previous"
    "or_oi r = of_int (fb_open_interest (last bars))" "or_prev_oi r = map_option (\<lambda>b. of_int (fb_open_interest b)) previous"
    "or_oi_change r = map_option (\<lambda>p. of_int (fb_open_interest (last bars)) - p) (or_prev_oi r)"
    "or_oi_change_pct r = percent_change (or_oi r) (or_prev_oi r)"
    using assms unfolding reading_from_futures_bars_def Let_def previous_def [symmetric]
    by (auto split: if_splits)
  show "or_classification r = classify_buildup (map_option (\<lambda>p. or_price r - p) (or_prev_price r))
      (map_option (\<lambda>q. or_oi r - q) (or_prev_oi r))"
    unfolding r(1-5) by (simp add: option.map_comp o_def)
  show "or_oi_change r = map_option (\<lambda>q. or_oi r - q) (or_prev_oi r)" unfolding r(6) r(4) ..
  show "or_oi_change_pct r = percent_change (or_oi r) (or_prev_oi r)" by (rule r(7))
qed

lemma symbol_readings_ok: "symbol_readings p t sy = Inr rs \<Longrightarrow> r \<in> set rs \<Longrightarrow> reading_ok r"
  by (auto simp: symbol_readings_def readings_from_chain_def chain_reading_ok futures_reading_ok
      split: sum.splits option.splits)

text \<open>In a table filled by runs of the engine every stored classification says what the prices and the
  open interest did: a build-up is a rise of the open interest with the price up (long) or down
  (short), covering and unwinding are falls with the price up and down, and NEUTRAL is everything
  else, a missing previous reading included; the stored changes are the differences.\<close>

theorem oi_classifications_truthful:
  assumes "\<forall>r \<in> set (oi_observations s). reading_ok (oi_reading_of r)"
  shows "\<forall>r \<in> set (oi_observations (snd (oi_run p clk s))). reading_ok (oi_reading_of r)"
proof -
  let ?syms = "list_by_ids (fno_universe s) s"
  obtain rows where rows: "oi_observations (snd (oi_run p clk s)) = oi_observations s @ rows"
    "map row_pair rows = concat (map (answered p clk) ?syms)"
    using oi_fold_effect(1) [of p clk ?syms oi_empty_run s] by (auto simp: oi_run_def)
  have "reading_ok (oi_reading_of r)" if "r \<in> set rows" for r
  proof -
    from that have "row_pair r \<in> set (concat (map (answered p clk) ?syms))" unfolding rows(2) [symmetric] by simp
    then obtain sy where "row_pair r \<in> set (answered p clk sy)" by auto
    then obtain rs where "symbol_readings p (clk (sy_id sy)) sy = Inr rs" "oi_reading_of r \<in> set rs"
      by (cases "symbol_readings p (clk (sy_id sy)) sy") (auto simp: answered_def row_pair_def)
    then show ?thesis by (rule symbol_readings_ok)
  qed
  with assms show ?thesis by (auto simp: rows(1))
qed

definition sample_broker :: derivatives_provider where
  "sample_broker =
     \<lparr>dp_option_chain = (\<lambda>_ _. Inr [\<lparr>ch_underlying = ''INFY'', ch_expiry_date = 739676, ch_strike_price = 1500,
        ch_call = Some \<lparr>ol_instrument_key = ''C'', ol_ltp = 40, ol_close_price = 50, ol_volume = 9, ol_oi = 1200,
          ol_prev_oi = 1000\<rparr>, ch_put = None\<rparr>]),
      dp_futures_history = (\<lambda>_. Inr [\<lparr>fb_instrument_key = ''F'', fb_expiry_date = 739676, fb_timestamp = 1,
          fb_close = 1500, fb_volume = 5, fb_open_interest = 700\<rparr>,
        \<lparr>fb_instrument_key = ''F'', fb_expiry_date = 739676, fb_timestamp = 2, fb_close = 1510, fb_volume = 5,
          fb_open_interest = 650\<rparr>])\<rparr>"

definition sample_oi_store :: oi_store where
  "sample_oi_store = candidate_store.extend (scanner_store.extend sample_scan_store (candidate_store.fields [1]))
     (oi_store.fields [] 1)"

theorem oi_classifications_truthful_witness:
  "map (\<lambda>r. or_classification (oi_reading_of r)) (oi_observations (snd (oi_run sample_broker (\<lambda>_. 9) sample_oi_store)))
     = [SHORT_BUILDUP, SHORT_COVERING]
   \<and> list_all (\<lambda>r. reading_ok (oi_reading_of r)) (oi_observations (snd (oi_run sample_broker (\<lambda>_. 9) sample_oi_store)))"
proof
  show "map (\<lambda>r. or_classification (oi_reading_of r)) (oi_observations (snd (oi_run sample_broker (\<lambda>_. 9) sample_oi_store)))
     = [SHORT_BUILDUP, SHORT_COVERING]" by code_simp
  have "oi_observations sample_oi_store = []" by code_simp
  then show "list_all (\<lambda>r. reading_ok (oi_reading_of r)) (oi_observations (snd (oi_run sample_broker (\<lambda>_. 9) sample_oi_store)))"
    using oi_classifications_truthful [of sample_oi_store sample_broker "\<lambda>_. 9"] by (simp add: list_all_iff)
qed

section \<open>Which observations a reader sees\<close>

lemma prefix_of_sorted:
  fixes key :: "'a \<Rightarrow> int"
  assumes "sorted (map key ys)" "\<forall>x \<in> set ys. m \<le> key x" "n \<le> length (filter (\<lambda>x. key x = m) ys)"
  shows "\<forall>x \<in> set (take n ys). key x = m"
  using assms
proof (induction ys arbitrary: n)
  case (Cons y ys)
  show ?case
  proof (cases "key y = m")
    case True
    show ?thesis
    proof (cases n)
      case (Suc k)
      have "k \<le> length (filter (\<lambda>x. key x = m) ys)" using Cons.prems(3) True Suc by simp
      moreover have "sorted (map key ys)" "\<forall>x \<in> set ys. m \<le> key x" using Cons.prems(1,2) by simp_all
      ultimately have "\<forall>x \<in> set (take k ys). key x = m" using Cons.IH by blast
      then show ?thesis using True Suc by simp
    qed simp
  next
    case False
    then have "m < key y" using Cons.prems(2) by simp
    then have "\<forall>x \<in> set (y # ys). key x \<noteq> m" using Cons.prems(1) by fastforce
    then have "filter (\<lambda>x. key x = m) (y # ys) = []" by (simp only: filter_empty_conv simp_thms)
    then have "n = 0" using Cons.prems(3) by (simp only: list.size le_zero_eq)
    then show ?thesis by simp
  qed
qed simp

lemma first_of_sorted:
  fixes key :: "'a \<Rightarrow> int"
  assumes "\<And>x. x \<in> set xs \<Longrightarrow> m \<le> key x" "n \<le> length (filter (\<lambda>x. key x = m) xs)"
  shows "\<forall>x \<in> set (take n (sort_key key xs)). key x = m"
proof (rule prefix_of_sorted)
  show "n \<le> length (filter (\<lambda>x. key x = m) (sort_key key xs))"
    using assms(2) unfolding size_mset [symmetric] mset_filter mset_sort .
qed (use assms(1) in auto)

text \<open>Options are stamped with the clock, futures with the time of their bar: a chain of twenty legs
  fills the newest twenty observations of its symbol.\<close>

lemma chain_hides_futures:
  assumes r: "dp_option_chain p (sy_symbol sy) (sy_instrument_token sy) = Inr rows"
      "dp_futures_history p (sy_symbol sy) = Inr bars"
    and n: "n \<le> length (readings_from_chain (clk (sy_id sy)) rows)" "0 < n"
    and old: "\<forall>q \<in> set (oi_observations s). oi_time q < clk (sy_id sy)"
    and bar: "\<forall>b \<in> set bars. fb_timestamp b < clk (sy_id sy)"
  shows "\<forall>q \<in> set (list_for_symbol (sy_id sy) n (snd (oi_step p clk sy (st, s)))).
      or_instrument_type (oi_reading_of q) \<noteq> FUTURES"
proof -
  let ?t = "clk (sy_id sy)"
  let ?chain = "readings_from_chain ?t rows"
  define rs where "rs = ?chain @ (case reading_from_futures_bars (sy_symbol sy) bars of None \<Rightarrow> [] | Some r \<Rightarrow> [r])"
  have sr: "symbol_readings p ?t sy = Inr rs" using r by (simp add: symbol_readings_def rs_def)
  have ne: "rs \<noteq> []" using n by (auto simp: rs_def)
  obtain new where new: "oi_observations (snd (oi_step p clk sy (st, s))) = oi_observations s @ new"
    "map row_pair new = map (Pair (sy_id sy)) rs"
    using oi_step_effect(1) [of p clk sy st s] by (auto simp: answered_def sr)
  have chain: "or_observed_at x = ?t \<and> or_instrument_type x \<noteq> FUTURES" if "x \<in> set ?chain" for x
    using that by (auto simp: readings_from_chain_def chain_reading_def Let_def split: option.splits)
  have fut: "or_observed_at x < ?t" if "reading_from_futures_bars (sy_symbol sy) bars = Some x" for x
    using that bar by (auto simp: reading_from_futures_bars_def Let_def split: if_splits)
  have readings: "map oi_reading_of new = rs" using arg_cong [OF new(2), of "map snd"] by (simp add: row_pair_def o_def)
  have ids: "\<forall>q \<in> set new. oi_symbol_id q = sy_id sy"
  proof
    fix q assume "q \<in> set new"
    then have "row_pair q \<in> set (map (Pair (sy_id sy)) rs)" unfolding new(2) [symmetric] by simp
    then show "oi_symbol_id q = sy_id sy" by (auto simp: row_pair_def)
  qed
  let ?xs = "filter (\<lambda>q. oi_symbol_id q = sy_id sy) (oi_observations s @ new)"
  have at: "\<forall>q \<in> set new. oi_time q \<le> ?t \<and> (oi_time q = ?t \<longrightarrow> or_instrument_type (oi_reading_of q) \<noteq> FUTURES)"
  proof
    fix q assume "q \<in> set new"
    then have "oi_reading_of q \<in> set rs" unfolding readings [symmetric] by simp
    then consider "oi_reading_of q \<in> set ?chain" | "reading_from_futures_bars (sy_symbol sy) bars = Some (oi_reading_of q)"
      by (auto simp: rs_def split: option.splits)
    then show "oi_time q \<le> ?t \<and> (oi_time q = ?t \<longrightarrow> or_instrument_type (oi_reading_of q) \<noteq> FUTURES)"
      using chain fut by cases (auto simp: oi_time_def)
  qed
  have "length ?chain = length (filter (\<lambda>x. or_observed_at x = ?t) ?chain)" using chain by simp
  also have "\<dots> \<le> length (filter (\<lambda>x. or_observed_at x = ?t) rs)" by (simp add: rs_def)
  also have "\<dots> = length (filter (\<lambda>q. oi_time q = ?t) new)"
    unfolding readings [symmetric] by (simp add: filter_map oi_time_def o_def)
  also have "\<dots> \<le> length (filter (\<lambda>q. - oi_time q = - ?t) ?xs)"
  proof -
    have "filter (\<lambda>q. oi_symbol_id q = sy_id sy) new = new" using ids by simp
    then show ?thesis by simp
  qed
  finally have "n \<le> length (filter (\<lambda>q. - oi_time q = - ?t) ?xs)" using n by simp
  moreover have "- ?t \<le> - oi_time q" if "q \<in> set ?xs" for q
  proof -
    from that have "q \<in> set (oi_observations s) \<or> q \<in> set new" by auto
    then show ?thesis using at old by (metis less_imp_le neg_le_iff_le)
  qed
  ultimately have first: "\<forall>q \<in> set (take n (sort_key (\<lambda>q. - oi_time q) ?xs)). - oi_time q = - ?t"
    by (intro first_of_sorted)
  show ?thesis unfolding list_for_symbol_def new(1)
  proof
    fix q assume q: "q \<in> set (take n (sort_key (\<lambda>q. - oi_time q) ?xs))"
    then have "q \<in> set ?xs" by (metis in_set_takeD set_sort)
    then have "q \<in> set (oi_observations s) \<or> q \<in> set new" by auto
    moreover have t: "oi_time q = ?t" using bspec [OF first q] by (simp only: neg_equal_iff_equal)
    ultimately have "q \<in> set new" using old by (metis less_irrefl)
    then show "or_instrument_type (oi_reading_of q) \<noteq> FUTURES" using at t by blast
  qed
qed

end
