(* ===== verification/Fundamental_Store.thy ===== *)
theory Fundamental_Store
  imports Fundamental_Scorer Derivatives
begin

text \<open>
  Stored fundamentals: the providers' common interface and the multi-source merge
  (app/fundamentals/provider.py, unavailable_provider.py, orchestrator.py), the cached snapshot of a
  symbol (app/models/fundamental_snapshot.py, app/repositories/fundamental_snapshot_repository.py,
  app/fundamentals/snapshot_models.py) and the log of fetch attempts
  (app/models/fundamental_fetch_log.py, app/repositories/fundamental_fetch_log_repository.py,
  app/fundamentals/queue_models.py). A provider is a parameter: its answer for a symbol or the
  exception it raises. The host's clock is \<open>clock\<close> of the runtime, the database's is in the store.
\<close>

section \<open>Fields of the data record\<close>

datatype fetch_status = FS_PENDING | FS_PROCESSING | FS_SUCCESS | FS_RATE_LIMITED | FS_FAILED | FS_CACHED

fun fetch_status_value :: "fetch_status \<Rightarrow> string" where
  "fetch_status_value FS_PENDING = ''PENDING''"
| "fetch_status_value FS_PROCESSING = ''PROCESSING''"
| "fetch_status_value FS_SUCCESS = ''SUCCESS''"
| "fetch_status_value FS_RATE_LIMITED = ''RATE_LIMITED''"
| "fetch_status_value FS_FAILED = ''FAILED''"
| "fetch_status_value FS_CACHED = ''CACHED''"

text \<open>\<open>fields(FundamentalData)\<close> with \<open>getattr\<close> and \<open>setattr\<close>, in the order of the dataclass; the four fields that
  are not numbers are left out.\<close>

type_synonym number_field =
  "string \<times> (fundamental_data \<Rightarrow> rat option) \<times> ((rat option \<Rightarrow> rat option) \<Rightarrow> fundamental_data \<Rightarrow> fundamental_data)"

definition MERGEABLE_FIELDS :: "number_field list" where
  "MERGEABLE_FIELDS =
     [(''pe'', fu_pe, fu_pe_update),
      (''pb'', fu_pb, fu_pb_update),
      (''peg'', fu_peg, fu_peg_update),
      (''ev_ebitda'', fu_ev_ebitda, fu_ev_ebitda_update),
      (''market_cap_cr'', fu_market_cap_cr, fu_market_cap_cr_update),
      (''dividend_yield_pct'', fu_dividend_yield_pct, fu_dividend_yield_pct_update),
      (''revenue_ttm_cr'', fu_revenue_ttm_cr, fu_revenue_ttm_cr_update),
      (''net_profit_ttm_cr'', fu_net_profit_ttm_cr, fu_net_profit_ttm_cr_update),
      (''revenue_growth_3y_pct'', fu_revenue_growth_3y_pct, fu_revenue_growth_3y_pct_update),
      (''revenue_growth_5y_pct'', fu_revenue_growth_5y_pct, fu_revenue_growth_5y_pct_update),
      (''eps_growth_3y_pct'', fu_eps_growth_3y_pct, fu_eps_growth_3y_pct_update),
      (''profit_growth_3y_pct'', fu_profit_growth_3y_pct, fu_profit_growth_3y_pct_update),
      (''roe_pct'', fu_roe_pct, fu_roe_pct_update),
      (''roce_pct'', fu_roce_pct, fu_roce_pct_update),
      (''operating_margin_pct'', fu_operating_margin_pct, fu_operating_margin_pct_update),
      (''net_margin_pct'', fu_net_margin_pct, fu_net_margin_pct_update),
      (''debt_to_equity'', fu_debt_to_equity, fu_debt_to_equity_update),
      (''interest_coverage'', fu_interest_coverage, fu_interest_coverage_update),
      (''current_ratio'', fu_current_ratio, fu_current_ratio_update),
      (''operating_cash_flow_cr'', fu_operating_cash_flow_cr, fu_operating_cash_flow_cr_update),
      (''free_cash_flow_cr'', fu_free_cash_flow_cr, fu_free_cash_flow_cr_update),
      (''promoter_holding_pct'', fu_promoter_holding_pct, fu_promoter_holding_pct_update),
      (''promoter_holding_change_pct'', fu_promoter_holding_change_pct, fu_promoter_holding_change_pct_update),
      (''promoter_pledge_pct'', fu_promoter_pledge_pct, fu_promoter_pledge_pct_update),
      (''fii_holding_pct'', fu_fii_holding_pct, fu_fii_holding_pct_update),
      (''dii_holding_pct'', fu_dii_holding_pct, fu_dii_holding_pct_update)]"

section \<open>Merging several sources\<close>

text \<open>An error text is a provider's own string or the text of an exception.\<close>

datatype fetch_error = Told string | Raised py_error

record fundamental_provider =
  fp_name :: string
  fp_get :: "string \<Rightarrow> py_error + fundamental_data option"
  fp_with_status :: "(string \<Rightarrow> py_error + fundamental_data option \<times> fetch_status \<times> fetch_error option) option"

definition unavailable_provider :: fundamental_provider where
  "unavailable_provider = \<lparr>fp_name = ''unavailable'', fp_get = (\<lambda>_. Inr None), fp_with_status = None\<rparr>"

definition merge_field :: "number_field \<Rightarrow> (string \<times> fundamental_data) list \<Rightarrow> field_snapshot option" where
  "merge_field f results =
     (case f of (name, get, _) \<Rightarrow>
        foldl (\<lambda>chosen (source, data).
          case get data of
            None \<Rightarrow> chosen
          | Some value \<Rightarrow>
              (case chosen of
                 None \<Rightarrow>
                   (let own = map_of (fu_field_snapshots data) name
                    in Some \<lparr>fs_field_name = name, fs_value = Some value,
                         fs_source = (case own of None \<Rightarrow> Some source | Some p \<Rightarrow> fs_source p),
                         fs_period = Option.bind own fs_period, fs_status = FIELD_AVAILABLE,
                         fs_as_of = Option.bind own fs_as_of, fs_alternates = []\<rparr>)
               | Some c \<Rightarrow>
                   if Some value \<noteq> fs_value c then Some (c\<lparr>fs_alternates := fs_alternates c @ [(source, value)]\<rparr>)
                   else Some c)) None results)"

definition merge_risk_notes :: "(string \<times> fundamental_data) list \<Rightarrow> msg list" where
  "merge_risk_notes results =
     foldl (\<lambda>combined note. if note \<in> set combined then combined else combined @ [note]) []
       (concat (map (\<lambda>(_, d). fu_risk_notes d) results))"

definition answers_of :: "fundamental_provider list \<Rightarrow> string \<Rightarrow> (string \<times> fundamental_data) list" where
  "answers_of ps symbol =
     concat (map (\<lambda>p. case fp_get p symbol of Inr (Some d) \<Rightarrow> [(fp_name p, d)] | _ \<Rightarrow> []) ps)"

definition merge_fields :: "(string \<times> fundamental_data) list \<Rightarrow> fundamental_data \<Rightarrow> fundamental_data" where
  "merge_fields results merged =
     foldl (\<lambda>d f. case merge_field f results of
         None \<Rightarrow> d
       | Some snap \<Rightarrow>
           ((snd (snd f)) (\<lambda>_. fs_value snap) d)
             \<lparr>fu_field_snapshots := fu_field_snapshots d @ [(fst f, snap)]\<rparr>) merged MERGEABLE_FIELDS"

definition multi_get :: "fundamental_provider list \<Rightarrow> string \<Rightarrow> fundamental_data option" where
  "multi_get ps symbol =
     (case answers_of ps symbol of
        [] \<Rightarrow> None
      | (src, first) # rest \<Rightarrow>
          (let results = (src, first) # rest;
               merged = merge_fields results ((empty_fundamentals symbol)\<lparr>fu_as_of := fu_as_of first\<rparr>)
           in Some (merged\<lparr>fu_risk_notes := merge_risk_notes results\<rparr>)))"

definition status_of_answer ::
  "fundamental_provider \<Rightarrow> string \<Rightarrow> fundamental_data option \<times> fetch_status \<times> fetch_error option" where
  "status_of_answer p symbol =
     (case fp_with_status p of
        Some get \<Rightarrow> (case get symbol of Inl e \<Rightarrow> (None, FS_FAILED, Some (Raised e)) | Inr r \<Rightarrow> r)
      | None \<Rightarrow>
          (case fp_get p symbol of
             Inl e \<Rightarrow> (None, FS_FAILED, Some (Raised e))
           | Inr None \<Rightarrow> (None, FS_FAILED, None)
           | Inr (Some d) \<Rightarrow> (Some d, FS_SUCCESS, None)))"

fun multi_status ::
  "fundamental_provider list \<Rightarrow> string \<Rightarrow> fetch_status \<Rightarrow> fetch_error option
     \<Rightarrow> fundamental_data option \<times> fetch_status \<times> fetch_error option" where
  "multi_status [] symbol worst last_error = (None, worst, last_error)"
| "multi_status (p # ps) symbol worst last_error =
     (case status_of_answer p symbol of
        (Some d, status, e) \<Rightarrow> (Some d, status, e)
      | (None, status, e) \<Rightarrow>
          if status = FS_RATE_LIMITED \<or> worst \<noteq> FS_RATE_LIMITED then multi_status ps symbol status e
          else multi_status ps symbol worst last_error)"

definition multi_source_provider :: "fundamental_provider list \<Rightarrow> fundamental_provider" where
  "multi_source_provider ps =
     \<lparr>fp_name = ''multi_source'', fp_get = (\<lambda>symbol. Inr (multi_get ps symbol)),
      fp_with_status = Some (\<lambda>symbol. Inr (multi_status ps symbol FS_FAILED None))\<rparr>"

section \<open>Cached snapshots\<close>

record cached_row =
  fc_symbol_id :: int
  fc_source :: "string option"
  fc_data :: "snapshot option"
  fc_as_of :: "int option"
  fc_fetched_at :: "int option"
  fc_last_checked_at :: int
  fc_status :: fetch_status
  fc_error_message :: "fetch_error option"

record fetch_log_row =
  fl_id :: int
  fl_symbol_id :: int
  fl_status :: fetch_status
  fl_error_message :: "fetch_error option"
  fl_requested_at :: int

record fundamental_store = oi_store +
  fundamental_snapshots :: "cached_row list"
  fetch_log :: "fetch_log_row list"
  next_fetch_id :: int

text \<open>The JSON of the data: numbers under their field's name, missing fields left out, and the risk notes
  unless there are none.\<close>

definition to_cache_dict :: "fundamental_data \<Rightarrow> snapshot" where
  "to_cache_dict d =
     (let numbers = foldl (\<lambda>m (name, get, _). case get d of None \<Rightarrow> m | Some x \<Rightarrow> m(name \<mapsto> PyFloat x))
                      Map.empty MERGEABLE_FIELDS
      in if fu_risk_notes d = [] then numbers
         else numbers(''risk_notes'' \<mapsto> PyList (map PyMsg (fu_risk_notes d))))"

fun cached_number :: "pyval \<Rightarrow> rat option" where
  "cached_number (PyFloat x) = Some x"
| "cached_number (PyInt i) = Some (of_int i)"
| "cached_number _ = None"

fun cached_notes :: "pyval \<Rightarrow> msg list" where
  "cached_notes (PyList vs) = concat (map (\<lambda>v. case v of PyMsg m \<Rightarrow> [m] | _ \<Rightarrow> []) vs)"
| "cached_notes _ = []"

definition from_cache_dict :: "string \<Rightarrow> int option \<Rightarrow> snapshot \<Rightarrow> fundamental_data" where
  "from_cache_dict symbol as_of raw =
     (foldl (\<lambda>d (name, _, set_field). case raw name of None \<Rightarrow> d | Some v \<Rightarrow> set_field (\<lambda>_. cached_number v) d)
        ((empty_fundamentals symbol)\<lparr>fu_as_of := as_of\<rparr>) MERGEABLE_FIELDS)
     \<lparr>fu_risk_notes := (case raw ''risk_notes'' of None \<Rightarrow> [] | Some v \<Rightarrow> cached_notes v)\<rparr>"

record fetch_attempt =
  fa_symbol_id :: int
  fa_at :: int
  fa_data :: "fundamental_data option"
  fa_source :: "string option"
  fa_status :: fetch_status
  fa_error_message :: "fetch_error option"

definition new_cached :: "fetch_attempt \<Rightarrow> cached_row" where
  "new_cached v =
     \<lparr>fc_symbol_id = fa_symbol_id v, fc_source = None, fc_data = None, fc_as_of = None, fc_fetched_at = None,
      fc_last_checked_at = 0, fc_status = fa_status v, fc_error_message = None\<rparr>"

definition assign_cached :: "fetch_attempt \<Rightarrow> cached_row \<Rightarrow> cached_row" where
  "assign_cached v row =
     (let row1 = row\<lparr>fc_last_checked_at := fa_at v, fc_status := fa_status v, fc_error_message := fa_error_message v\<rparr>
      in case fa_data v of
           None \<Rightarrow> row1
         | Some d \<Rightarrow> row1\<lparr>fc_source := fa_source v, fc_data := Some (to_cache_dict d), fc_as_of := fu_as_of d,
                       fc_fetched_at := Some (fa_at v)\<rparr>)"

definition put_cached :: "fetch_attempt \<Rightarrow> cached_row list \<Rightarrow> cached_row list" where
  "put_cached v rows = upsert_by fc_symbol_id (fa_symbol_id v) (new_cached v) (assign_cached v) rows"

definition snapshot_upsert :: "fetch_attempt \<Rightarrow> 'x fundamental_store_scheme \<Rightarrow> 'x fundamental_store_scheme" where
  "snapshot_upsert v s = s\<lparr>fundamental_snapshots := put_cached v (fundamental_snapshots s)\<rparr>"

lemma assign_cached_key [simp]: "fc_symbol_id (assign_cached v r) = fc_symbol_id r"
  by (simp add: assign_cached_def Let_def split: option.split)

interpretation cached_table: upsert_table fc_symbol_id put_cached fa_symbol_id
    "\<lambda>r v. assign_cached v (case r of None \<Rightarrow> new_cached v | Some r \<Rightarrow> r)"
  by unfold_locales (simp_all only: put_cached_def, (subst lookup_upsert keys_upsert; simp add: new_cached_def)+)

record cached_snapshot =
  cs_symbol_id :: int
  cs_data :: "fundamental_data option"
  cs_source :: "string option"
  cs_as_of :: "int option"
  cs_fetched_at :: "int option"
  cs_last_checked_at :: int
  cs_status :: fetch_status
  cs_error_message :: "fetch_error option"
  cs_is_fresh :: bool

definition get_cached :: "settings \<Rightarrow> int \<Rightarrow> int \<Rightarrow> 'x fundamental_store_scheme \<Rightarrow> cached_snapshot option" where
  "get_cached cfg now symbol_id s =
     map_option (\<lambda>row.
       \<lparr>cs_symbol_id = fc_symbol_id row,
        cs_data = map_option (from_cache_dict
            (case symbol_by_id symbol_id s of Some y \<Rightarrow> sy_symbol y | None \<Rightarrow> str_int symbol_id) (fc_as_of row)) (fc_data row),
        cs_source = fc_source row, cs_as_of = fc_as_of row, cs_fetched_at = fc_fetched_at row,
        cs_last_checked_at = fc_last_checked_at row, cs_status = fc_status row,
        cs_error_message = fc_error_message row,
        cs_is_fresh = (case fc_fetched_at row of None \<Rightarrow> False
                         | Some t \<Rightarrow> now - t < fundamental_cache_ttl_minutes cfg * minute_us)\<rparr>)
       (lookup_by fc_symbol_id symbol_id (fundamental_snapshots s))"

record coverage_summary =
  cv_total :: nat
  cv_with_data :: nat
  cv_fresh :: nat
  cv_last_fetched_at :: "int option"

definition get_coverage_summary :: "settings \<Rightarrow> int \<Rightarrow> 'x fundamental_store_scheme \<Rightarrow> coverage_summary" where
  "get_coverage_summary cfg now s =
     (let rows = fundamental_snapshots s;
          cutoff = now - fundamental_cache_ttl_minutes cfg * minute_us;
          fetched = concat (map (\<lambda>r. case fc_fetched_at r of None \<Rightarrow> [] | Some t \<Rightarrow> [t]) rows)
      in \<lparr>cv_total = length rows, cv_with_data = length (filter (\<lambda>r. fc_data r \<noteq> None) rows),
          cv_fresh = length (filter (\<lambda>t. t \<ge> cutoff) fetched),
          cv_last_fetched_at = (if fetched = [] then None else Some (Max (set fetched)))\<rparr>)"

section \<open>Fetch log\<close>

definition record_fetch ::
  "int \<Rightarrow> fetch_status \<Rightarrow> fetch_error option \<Rightarrow> 'x fundamental_store_scheme \<Rightarrow> 'x fundamental_store_scheme" where
  "record_fetch symbol_id status err s =
     s\<lparr>fetch_log := fetch_log s @ [\<lparr>fl_id = next_fetch_id s, fl_symbol_id = symbol_id, fl_status = status,
         fl_error_message = err, fl_requested_at = db_clock s\<rparr>], next_fetch_id := next_fetch_id s + 1\<rparr>"

definition count_today :: "runtime \<Rightarrow> fetch_status option \<Rightarrow> 'x fundamental_store_scheme \<Rightarrow> nat" where
  "count_today rt status s =
     (let cfg = app_settings rt;
          (start_utc, end_utc) = market_day_bounds_utc cfg (market_today cfg (clock rt) None) None
      in length (filter (\<lambda>r. wall start_utc \<le> fl_requested_at r \<and> fl_requested_at r < wall end_utc
           \<and> (case status of None \<Rightarrow> True | Some st \<Rightarrow> fl_status r = st)) (fetch_log s)))"

definition latest_requested :: "(fetch_status \<Rightarrow> bool) \<Rightarrow> 'x fundamental_store_scheme \<Rightarrow> int option" where
  "latest_requested P s =
     (let ts = map fl_requested_at (filter (\<lambda>r. P (fl_status r)) (fetch_log s))
      in if ts = [] then None else Some (Max (set ts)))"

definition last_requested_at :: "'x fundamental_store_scheme \<Rightarrow> int option" where
  "last_requested_at s = latest_requested (\<lambda>_. True) s"

definition answered_status :: "fetch_status \<Rightarrow> bool" where
  "answered_status st \<longleftrightarrow> st = FS_SUCCESS \<or> st = FS_CACHED"

definition most_recent_rate_limit :: "'x fundamental_store_scheme \<Rightarrow> int option" where
  "most_recent_rate_limit s =
     (case latest_requested (\<lambda>st. st = FS_RATE_LIMITED) s of
        None \<Rightarrow> None
      | Some limited_at \<Rightarrow>
          (case latest_requested answered_status s of
             None \<Rightarrow> Some limited_at
           | Some ok_at \<Rightarrow> if ok_at > limited_at then None else Some limited_at))"

definition count_consecutive_rate_limits :: "'x fundamental_store_scheme \<Rightarrow> nat" where
  "count_consecutive_rate_limits s =
     (let ok_at = latest_requested answered_status s
      in length (filter (\<lambda>r. fl_status r = FS_RATE_LIMITED
           \<and> (case ok_at of None \<Rightarrow> True | Some t \<Rightarrow> fl_requested_at r > t)) (fetch_log s)))"

section \<open>Tables of fields\<close>

text \<open>What reading and writing fields through a table of names needs: a setter changes its own field and
  no other, and none of the fields that are not numbers.\<close>

locale field_table =
  fixes number_fields :: "number_field list"
  assumes distinct_names: "distinct (map fst number_fields)"
    and get_set: "(n, g, set_field) \<in> set number_fields \<Longrightarrow> g (set_field h d) = h (g d)"
    and get_other: "(n, g, set_field) \<in> set number_fields \<Longrightarrow> (n', g', set_field') \<in> set number_fields \<Longrightarrow> n \<noteq> n'
      \<Longrightarrow> g (set_field' h d) = g d"
begin

text \<open>Writing a choice per name through the table, with something else done after each field.\<close>

definition write_field ::
  "(string \<Rightarrow> rat option option) \<Rightarrow> (number_field \<Rightarrow> fundamental_data \<Rightarrow> fundamental_data)
     \<Rightarrow> fundamental_data \<Rightarrow> number_field \<Rightarrow> fundamental_data" where
  "write_field choice post d f =
     (case choice (fst f) of None \<Rightarrow> d | Some v \<Rightarrow> post f ((snd (snd f)) (\<lambda>_. v) d))"

lemma written_field:
  assumes post: "\<And>f d. g (post f d) = g d" and mem: "(n, g, st) \<in> set number_fields"
    and "set fs \<subseteq> set number_fields" "distinct (map fst fs)"
  shows "g (foldl (write_field choice post) d fs) =
    (if n \<in> set (map fst fs) then (case choice n of None \<Rightarrow> g d | Some v \<Rightarrow> v) else g d)"
  using assms(3,4)
proof (induction fs arbitrary: d)
  case (Cons f fs)
  obtain m gm sm where f: "f = (m, gm, sm)" by (cases f)
  have mf: "(m, gm, sm) \<in> set number_fields" using Cons.prems f by simp
  have one: "g (write_field choice post d f) = (if n = m then (case choice n of None \<Rightarrow> g d | Some v \<Rightarrow> v) else g d)"
  proof (cases "n = m")
    case True
    have "(n, g, st) = (m, gm, sm)" using eq_key_imp_eq_value [OF distinct_names] mem mf True by metis
    then show ?thesis using get_set [OF mf] post by (simp add: write_field_def f split: option.split)
  next
    case False
    then show ?thesis using get_other [OF mem mf] post by (simp add: write_field_def f split: option.split)
  qed
  have ih: "g (foldl (write_field choice post) (write_field choice post d f) fs) =
      (if n \<in> set (map fst fs) then (case choice n of None \<Rightarrow> g (write_field choice post d f) | Some v \<Rightarrow> v)
       else g (write_field choice post d f))"
    using Cons by simp
  have "m \<notin> set (map fst fs)" using Cons.prems f by simp
  then show ?case unfolding foldl_Cons ih one by (auto simp: f split: option.split)
qed simp

lemma kept_field:
  assumes "\<And>f d. p (post f d) = p d" "\<And>n g st h d. (n, g, st) \<in> set number_fields \<Longrightarrow> p (st h d) = p d"
    and "set fs \<subseteq> set number_fields"
  shows "p (foldl (write_field choice post) d fs) = p d"
  using assms(3)
proof (induction fs arbitrary: d)
  case (Cons f fs)
  then have "p (write_field choice post d f) = p d"
    using assms(1,2) by (cases f) (auto simp: write_field_def split: option.split)
  with Cons show ?case by simp
qed simp

end

lemma MERGEABLE_independent:
  "list_all (\<lambda>f. list_all (\<lambda>f'. fst f = fst f' \<or> (\<forall>h d. fst (snd f) (snd (snd f') h d) = fst (snd f) d))
     MERGEABLE_FIELDS) MERGEABLE_FIELDS"
  by (simp add: MERGEABLE_FIELDS_def)

interpretation fundamental_fields: field_table MERGEABLE_FIELDS
proof
  show "distinct (map fst MERGEABLE_FIELDS)" by (simp add: MERGEABLE_FIELDS_def)
next
  fix n g set_field n' g' set_field' h and d :: fundamental_data
  assume "(n, g, set_field) \<in> set MERGEABLE_FIELDS" "(n', g', set_field') \<in> set MERGEABLE_FIELDS" "n \<noteq> n'"
  then show "g (set_field' h d) = g d"
    using MERGEABLE_independent unfolding list_all_iff by fastforce
qed (auto simp: MERGEABLE_FIELDS_def)

section \<open>The cache returns what was stored\<close>

lemma number_read_back:
  "(n, g, st) \<in> set MERGEABLE_FIELDS \<Longrightarrow> to_cache_dict d n = map_option PyFloat (g d)"
proof -
  assume mem: "(n, g, st) \<in> set MERGEABLE_FIELDS"
  have "foldl (\<lambda>m (name, get, _). case get d of None \<Rightarrow> m | Some x \<Rightarrow> m(name \<mapsto> PyFloat x)) m0 fs n =
      (if n \<in> set (map fst fs) \<and> g d \<noteq> None then map_option PyFloat (g d) else m0 n)"
    if "set fs \<subseteq> set MERGEABLE_FIELDS" "distinct (map fst fs)" for fs :: "number_field list" and m0
    using that
  proof (induction fs arbitrary: m0)
    case (Cons f fs)
    obtain k gk sk where f: "f = (k, gk, sk)" by (cases f)
    have "k = n \<Longrightarrow> gk = g"
      using eq_key_imp_eq_value [OF fundamental_fields.distinct_names, of n "(gk, sk)" "(g, st)"] mem Cons.prems f by auto
    then show ?case using Cons by (cases "gk d"; cases "k = n") (auto simp: f)
  qed simp
  from this [of MERGEABLE_FIELDS Map.empty] mem fundamental_fields.distinct_names
  have "foldl (\<lambda>m (name, get, _). case get d of None \<Rightarrow> m | Some x \<Rightarrow> m(name \<mapsto> PyFloat x)) Map.empty MERGEABLE_FIELDS n =
      map_option PyFloat (g d)" by (cases "g d") (force simp: image_iff)+
  moreover have "n \<noteq> ''risk_notes''" using mem by (auto simp: MERGEABLE_FIELDS_def)
  ultimately show ?thesis by (simp add: to_cache_dict_def Let_def)
qed

lemma notes_read_back:
  "to_cache_dict d ''risk_notes'' = (if fu_risk_notes d = [] then None else Some (PyList (map PyMsg (fu_risk_notes d))))"
proof -
  have "foldl (\<lambda>m (name, get, _). case get d of None \<Rightarrow> m | Some x \<Rightarrow> m(name \<mapsto> PyFloat x)) m0 fs ''risk_notes'' = m0 ''risk_notes''"
    if "''risk_notes'' \<notin> set (map fst fs)" for fs :: "number_field list" and m0
    using that by (induction fs arbitrary: m0) (auto split: option.split)
  moreover have "''risk_notes'' \<notin> set (map fst MERGEABLE_FIELDS)" by (simp add: MERGEABLE_FIELDS_def)
  ultimately show ?thesis by (simp add: to_cache_dict_def Let_def)
qed

text \<open>Two data records with the same symbol, date and notes and the same value in every numeric field are equal
  up to their field snapshots.\<close>

lemma fundamental_data_eqI:
  assumes "\<And>n g st. (n, g, st) \<in> set MERGEABLE_FIELDS \<Longrightarrow> g d = g e"
    and "fu_symbol d = fu_symbol e" "fu_as_of d = fu_as_of e" "fu_risk_notes d = fu_risk_notes e"
    and "fu_field_snapshots d = fu_field_snapshots e"
  shows "d = e"
proof -
  have "\<forall>f \<in> set MERGEABLE_FIELDS. fst (snd f) d = fst (snd f) e" using assms(1) by (auto simp: split_paired_all)
  then show ?thesis using assms(2-5) by (intro fundamental_data.equality) (simp_all add: MERGEABLE_FIELDS_def)
qed

lemma MERGEABLE_keep:
  "(n, g, st) \<in> set MERGEABLE_FIELDS \<Longrightarrow>
     fu_symbol (st h d) = fu_symbol d \<and> fu_as_of (st h d) = fu_as_of d \<and> fu_risk_notes (st h d) = fu_risk_notes d
     \<and> fu_field_snapshots (st h d) = fu_field_snapshots d \<and> g (d\<lparr>fu_field_snapshots := xs\<rparr>) = g d
     \<and> g (d\<lparr>fu_symbol := y\<rparr>) = g d \<and> g (d\<lparr>fu_risk_notes := ns\<rparr>) = g d
     \<and> g ((empty_fundamentals y)\<lparr>fu_as_of := t\<rparr>) = None"
  by (auto simp: MERGEABLE_FIELDS_def empty_fundamentals_def)

lemma cache_dict_roundtrip:
  "from_cache_dict symbol (fu_as_of d) (to_cache_dict d) = d\<lparr>fu_symbol := symbol, fu_field_snapshots := []\<rparr>"
proof -
  let ?raw = "to_cache_dict d"
  let ?e = "(empty_fundamentals symbol)\<lparr>fu_as_of := fu_as_of d\<rparr>"
  define choice where "choice name = map_option cached_number (?raw name)" for name
  define e where "e = foldl (fundamental_fields.write_field choice (\<lambda>_ d. d)) ?e MERGEABLE_FIELDS"
  have from_dict: "from_cache_dict symbol (fu_as_of d) ?raw =
      e\<lparr>fu_risk_notes := (case ?raw ''risk_notes'' of None \<Rightarrow> [] | Some v \<Rightarrow> cached_notes v)\<rparr>"
    unfolding from_cache_dict_def e_def
    by (intro arg_cong [where f = "\<lambda>x. x\<lparr>fu_risk_notes := _\<rparr>"] foldl_cong)
      (auto simp: fundamental_fields.write_field_def choice_def split: option.split)
  have noted: "(case ?raw ''risk_notes'' of None \<Rightarrow> [] | Some v \<Rightarrow> cached_notes v) = fu_risk_notes d"
    by (simp add: notes_read_back o_def)
  have "fu_symbol e = symbol" "fu_as_of e = fu_as_of d" "fu_field_snapshots e = []"
    unfolding e_def
    by (subst fundamental_fields.kept_field; simp add: MERGEABLE_keep empty_fundamentals_def)+
  moreover have "g e = g d" if mem: "(n, g, st) \<in> set MERGEABLE_FIELDS" for n g st
  proof -
    have "g e = (case choice n of None \<Rightarrow> g ?e | Some v \<Rightarrow> v)"
      unfolding e_def using mem fundamental_fields.distinct_names
      by (subst fundamental_fields.written_field [OF _ mem]) force+
    then show ?thesis using number_read_back [OF mem, of d] MERGEABLE_keep [OF mem]
      by (cases "g d") (simp_all add: choice_def)
  qed
  ultimately show ?thesis unfolding from_dict noted
    by (intro fundamental_data_eqI) (simp_all add: MERGEABLE_keep)
qed

text \<open>The row of a symbol after its attempts: the newest status, and the newest data any attempt had.\<close>

definition known :: "fetch_attempt list \<Rightarrow> fetch_attempt list" where
  "known vs = filter (\<lambda>v. fa_data v \<noteq> None) vs"

definition row_after :: "fetch_attempt list \<Rightarrow> cached_row \<Rightarrow> bool" where
  "row_after vs row \<longleftrightarrow> fc_status row = fa_status (last vs)
     \<and> fc_data row = (if known vs = [] then None else map_option to_cache_dict (fa_data (last (known vs))))
     \<and> fc_as_of row = (if known vs = [] then None else Option.bind (fa_data (last (known vs))) fu_as_of)
     \<and> fc_fetched_at row = (if known vs = [] then None else Some (fa_at (last (known vs))))"

lemma row_after_put:
  assumes "case r of None \<Rightarrow> vs = [] | Some row \<Rightarrow> vs \<noteq> [] \<and> row_after vs row"
  shows "row_after (vs @ [v]) (assign_cached v (case r of None \<Rightarrow> new_cached v | Some row \<Rightarrow> row))"
  using assms
  by (cases r; cases "fa_data v")
    (simp_all add: row_after_def known_def assign_cached_def new_cached_def)

lemma cached_row_after:
  assumes "lookup_by fc_symbol_id i rows = None"
  defines "mine \<equiv> filter (\<lambda>v. fa_symbol_id v = i)"
  shows "case lookup_by fc_symbol_id i (fold put_cached vs rows) of
      None \<Rightarrow> mine vs = [] | Some row \<Rightarrow> mine vs \<noteq> [] \<and> row_after (mine vs) row"
proof (induction vs rule: rev_induct)
  case (snoc v vs)
  show ?case
  proof (cases "fa_symbol_id v = i")
    case True
    with row_after_put [OF snoc, of v] show ?thesis by (simp add: mine_def cached_table.lookup_put)
  next
    case False
    then have "mine (vs @ [v]) = mine vs" by (simp add: mine_def)
    with snoc False show ?thesis by (simp add: cached_table.lookup_put split: option.splits)
  qed
qed (simp add: assms)

lemma snapshot_upserts [simp]:
  "fundamental_snapshots (fold snapshot_upsert vs s) = fold put_cached vs (fundamental_snapshots s)"
  "symbols (fold snapshot_upsert vs s) = symbols s"
  by (induction vs arbitrary: s) (simp_all add: snapshot_upsert_def)

text \<open>A symbol's cached fundamentals are the last known ones. After any sequence of attempts for any symbols
  there is a cache entry exactly for the symbols that were tried; its status is that of the symbol's
  last attempt, its data is what the last successful attempt brought, read back exactly, however
  many failures or rate limits followed, and it counts as fresh within the time to live of that attempt.\<close>

theorem cached_fundamentals_last_known:
  assumes "lookup_by fc_symbol_id i (fundamental_snapshots s) = None" "symbol_by_id i s = Some y"
  shows "let mine = filter (\<lambda>v. fa_symbol_id v = i) vs in
    case get_cached cfg now i (fold snapshot_upsert vs s) of
      None \<Rightarrow> mine = []
    | Some c \<Rightarrow> mine \<noteq> [] \<and> cs_status c = fa_status (last mine)
        \<and> (if known mine = [] then cs_data c = None \<and> \<not> cs_is_fresh c
           else cs_data c = map_option (\<lambda>d. d\<lparr>fu_symbol := sy_symbol y, fu_field_snapshots := []\<rparr>)
                  (fa_data (last (known mine)))
             \<and> (cs_is_fresh c \<longleftrightarrow> now - fa_at (last (known mine)) < fundamental_cache_ttl_minutes cfg * minute_us))"
proof -
  define mine where "mine = filter (\<lambda>v. fa_symbol_id v = i) vs"
  note row = cached_row_after [OF assms(1), of vs, folded mine_def]
  have sym_y: "symbol_by_id i (fold snapshot_upsert vs s) = Some y"
    using assms(2) by (simp add: symbol_by_id_def)
  show ?thesis
  proof (cases "lookup_by fc_symbol_id i (fold put_cached vs (fundamental_snapshots s))")
    case None
    with row show ?thesis unfolding Let_def mine_def [symmetric] by (simp add: get_cached_def)
  next
    case (Some r)
    have data: "fa_data (last (known mine)) \<noteq> None" if "known mine \<noteq> []"
      using last_in_set [OF that] by (simp add: known_def)
    from row Some have r: "mine \<noteq> []" "row_after mine r" by simp_all
    show ?thesis
    proof (cases "known mine = []")
      case True
      with r Some sym_y show ?thesis unfolding Let_def mine_def [symmetric] by (simp add: get_cached_def row_after_def)
    next
      case False
      then obtain d where "fa_data (last (known mine)) = Some d" using data by blast
      with r Some sym_y False show ?thesis unfolding Let_def mine_def [symmetric] by (simp add: get_cached_def row_after_def cache_dict_roundtrip)
    qed
  qed
qed

section \<open>The merge follows the priority of the sources\<close>

definition first_reported :: "(fundamental_data \<Rightarrow> rat option) \<Rightarrow> (string \<times> fundamental_data) list \<Rightarrow> rat option" where
  "first_reported g results =
     (case filter (\<lambda>(_, x). g x \<noteq> None) results of [] \<Rightarrow> None | (_, x) # _ \<Rightarrow> g x)"

definition disagreeing ::
  "(fundamental_data \<Rightarrow> rat option) \<Rightarrow> rat option \<Rightarrow> (string \<times> fundamental_data) list \<Rightarrow> (string \<times> rat) list" where
  "disagreeing g chosen results =
     concat (map (\<lambda>(source, x). case g x of None \<Rightarrow> [] | Some v \<Rightarrow> if Some v \<noteq> chosen then [(source, v)] else []) results)"

lemma merge_field_cases:
  "case merge_field (n, g, st) results of
     None \<Rightarrow> first_reported g results = None
   | Some snap \<Rightarrow> first_reported g results \<noteq> None \<and> fs_value snap = first_reported g results
       \<and> fs_alternates snap = disagreeing g (first_reported g results) results"
proof -
  let ?F = "\<lambda>chosen (source, data).
          case g data of
            None \<Rightarrow> chosen
          | Some value \<Rightarrow>
              (case chosen of
                 None \<Rightarrow>
                   (let own = map_of (fu_field_snapshots data) n
                    in Some \<lparr>fs_field_name = n, fs_value = Some value,
                         fs_source = (case own of None \<Rightarrow> Some source | Some p \<Rightarrow> fs_source p),
                         fs_period = Option.bind own fs_period, fs_status = FIELD_AVAILABLE,
                         fs_as_of = Option.bind own fs_as_of, fs_alternates = []\<rparr>)
               | Some c \<Rightarrow>
                   if Some value \<noteq> fs_value c then Some (c\<lparr>fs_alternates := fs_alternates c @ [(source, value)]\<rparr>)
                   else Some c)"
  have later: "\<exists>c'. foldl ?F (Some c) rs = Some c' \<and> fs_value c' = fs_value c
      \<and> fs_alternates c' = fs_alternates c @ disagreeing g (fs_value c) rs" for c rs
  proof (induction rs arbitrary: c)
    case (Cons r rs)
    obtain src x where r: "r = (src, x)" by (cases r)
    show ?case
    proof (cases "g x")
      case None
      with Cons show ?thesis by (simp add: r disagreeing_def)
    next
      case (Some v)
      show ?thesis
      proof (cases "Some v = fs_value c")
        case True
        have "?F (Some c) r = Some c" by (simp add: r Some True [symmetric])
        then have "foldl ?F (Some c) (r # rs) = foldl ?F (Some c) rs" by (simp only: foldl_Cons)
        moreover have "disagreeing g (fs_value c) (r # rs) = disagreeing g (fs_value c) rs"
          by (simp add: r disagreeing_def Some True [symmetric])
        ultimately show ?thesis using Cons [of c] by (simp only:)
      next
        case False
        with Some Cons [of "c\<lparr>fs_alternates := fs_alternates c @ [(src, v)]\<rparr>"] show ?thesis
          by (simp add: r disagreeing_def)
      qed
    qed
  qed (simp add: disagreeing_def)
  have "case foldl ?F None results of
     None \<Rightarrow> first_reported g results = None
   | Some snap \<Rightarrow> first_reported g results \<noteq> None \<and> fs_value snap = first_reported g results
       \<and> fs_alternates snap = disagreeing g (first_reported g results) results"
  proof (induction results)
    case (Cons r rs)
    obtain src x where r: "r = (src, x)" by (cases r)
    show ?case
    proof (cases "g x")
      case None
      then have "foldl ?F None (r # rs) = foldl ?F None rs" "first_reported g (r # rs) = first_reported g rs"
        "disagreeing g c (r # rs) = disagreeing g c rs" for c
        by (simp_all add: r disagreeing_def first_reported_def)
      then show ?thesis using Cons by (simp only:)
    next
      case (Some v)
      let ?c = "\<lparr>fs_field_name = n, fs_value = Some v,
            fs_source = (case map_of (fu_field_snapshots x) n of None \<Rightarrow> Some src | Some p \<Rightarrow> fs_source p),
            fs_period = Option.bind (map_of (fu_field_snapshots x) n) fs_period, fs_status = FIELD_AVAILABLE,
            fs_as_of = Option.bind (map_of (fu_field_snapshots x) n) fs_as_of, fs_alternates = []\<rparr>"
      have "foldl ?F None (r # rs) = foldl ?F (Some ?c) rs" "first_reported g (r # rs) = Some v"
        "disagreeing g (Some v) (r # rs) = disagreeing g (Some v) rs"
        using Some by (simp_all add: r disagreeing_def first_reported_def Let_def)
      moreover obtain c' where "foldl ?F (Some ?c) rs = Some c'" "fs_value c' = Some v"
        "fs_alternates c' = disagreeing g (Some v) rs" using later [of ?c rs] by auto
      ultimately show ?thesis by (simp only: option.case) simp
    qed
  qed (simp add: first_reported_def)
  then show ?thesis unfolding merge_field_def prod.case .
qed

definition field_named :: "string \<Rightarrow> number_field" where
  "field_named name = (name, the (map_of MERGEABLE_FIELDS name))"

lemma field_named: "(n, g, st) \<in> set MERGEABLE_FIELDS \<Longrightarrow> field_named n = (n, g, st)"
  using map_of_is_SomeI [OF fundamental_fields.distinct_names] by (fastforce simp: field_named_def)

text \<open>The merge as a choice per name, with the snapshots it leaves.\<close>

definition note_snapshot :: "(string \<times> fundamental_data) list \<Rightarrow> number_field \<Rightarrow> fundamental_data \<Rightarrow> fundamental_data" where
  "note_snapshot results f d =
     d\<lparr>fu_field_snapshots := fu_field_snapshots d @ [(fst f, the (merge_field (field_named (fst f)) results))]\<rparr>"

lemma merge_fields_write:
  "merge_fields results m =
     foldl (fundamental_fields.write_field (\<lambda>n. map_option fs_value (merge_field (field_named n) results))
       (note_snapshot results)) m MERGEABLE_FIELDS"
  unfolding merge_fields_def
  by (rule foldl_cong) (auto simp: fundamental_fields.write_field_def note_snapshot_def field_named MERGEABLE_keep split: option.split)

lemma merged_snapshots:
  assumes "set fs \<subseteq> set MERGEABLE_FIELDS"
  shows "fu_field_snapshots (foldl (fundamental_fields.write_field (\<lambda>n. map_option fs_value (merge_field (field_named n) results))
       (note_snapshot results)) m fs) =
    fu_field_snapshots m @
      concat (map (\<lambda>f. case merge_field f results of None \<Rightarrow> [] | Some snap \<Rightarrow> [(fst f, snap)]) fs)"
  using assms
proof (induction fs arbitrary: m)
  case (Cons f fs)
  obtain n g st where f: "f = (n, g, st)" by (cases f)
  then have "field_named n = f" using Cons.prems field_named by auto
  moreover have "fu_field_snapshots (st h d) = fu_field_snapshots d" for h d
    using MERGEABLE_keep [of n g st] Cons.prems f by auto
  ultimately show ?case using Cons f
    by (auto simp: fundamental_fields.write_field_def note_snapshot_def split: option.split)
qed simp

lemma map_of_optional:
  assumes "distinct (map fst fs)" "(n, g, st) \<in> set fs"
  shows "map_of (concat (map (\<lambda>f. case h f of None \<Rightarrow> [] | Some v \<Rightarrow> [(fst f, v)]) fs)) n = h (n, g, st)"
  using assms
proof (induction fs)
  case (Cons f fs)
  show ?case
  proof (cases "f = (n, g, st)")
    case True
    have "n \<notin> set (map fst fs)" using Cons.prems(1) True by simp
    then have "map_of (concat (map (\<lambda>f. case h f of None \<Rightarrow> [] | Some v \<Rightarrow> [(fst f, v)]) fs)) n = None"
      by (force simp: map_of_eq_None_iff split: option.splits)
    then show ?thesis by (simp add: True split: option.split)
  next
    case False
    then have "(n, g, st) \<in> set fs" using Cons.prems by simp
    moreover from this have "n \<in> set (map fst fs)" by force
    moreover from this have "fst f \<noteq> n" using Cons.prems(1) by auto
    ultimately show ?thesis using Cons by (simp split: option.split)
  qed
qed simp

text \<open>The merge of several sources has data exactly when one of them answered, and then every field holds
  the value of the first source in priority order that reported it; its provenance entry carries that
  value and lists, in order, the sources that reported a different one. A source that raises counts
  as one without data.\<close>

theorem merge_follows_priority:
  assumes "(n, g, st) \<in> set MERGEABLE_FIELDS"
  shows "case multi_get ps symbol of
      None \<Rightarrow> answers_of ps symbol = []
    | Some d \<Rightarrow> answers_of ps symbol \<noteq> [] \<and> g d = first_reported g (answers_of ps symbol)
        \<and> (case map_of (fu_field_snapshots d) n of
             None \<Rightarrow> g d = None
           | Some snap \<Rightarrow> g d \<noteq> None \<and> fs_value snap = g d
               \<and> fs_alternates snap = disagreeing g (g d) (answers_of ps symbol))"
proof (cases "answers_of ps symbol")
  case Nil
  then show ?thesis by (simp add: multi_get_def)
next
  case (Cons a rest)
  let ?rs = "answers_of ps symbol"
  obtain src first where a: "a = (src, first)" by (cases a)
  define m where "m = (empty_fundamentals symbol)\<lparr>fu_as_of := fu_as_of first\<rparr>"
  have d: "multi_get ps symbol = Some ((merge_fields ?rs m)\<lparr>fu_risk_notes := merge_risk_notes ?rs\<rparr>)"
    by (simp add: multi_get_def Cons a m_def Let_def)
  have ne: "?rs \<noteq> []" by (simp add: Cons)
  have keep: "g (note_snapshot ?rs f e) = g e" for f e
    using MERGEABLE_keep [OF assms] by (simp add: note_snapshot_def)
  have noted: "g (e\<lparr>fu_risk_notes := x\<rparr>) = g e" "g m = None" for e x
    using MERGEABLE_keep [OF assms] by (simp_all add: m_def)
  have "g (merge_fields ?rs m) = (case map_option fs_value (merge_field (n, g, st) ?rs) of None \<Rightarrow> g m | Some v \<Rightarrow> v)"
    unfolding merge_fields_write using assms fundamental_fields.distinct_names
    by (subst fundamental_fields.written_field [OF keep assms]) (force simp: field_named [OF assms])+
  then have g: "g (merge_fields ?rs m) = first_reported g ?rs"
    using merge_field_cases [where n = n and g = g and st = st and results = ?rs] by (auto simp: noted split: option.splits)
  have "fu_field_snapshots m = []" by (simp add: m_def empty_fundamentals_def)
  then have "map_of (fu_field_snapshots (merge_fields ?rs m)) n = merge_field (n, g, st) ?rs"
    unfolding merge_fields_write merged_snapshots [OF order_refl]
    by (simp add: map_of_optional [OF fundamental_fields.distinct_names assms])
  then show ?thesis using merge_field_cases [where n = n and g = g and st = st and results = ?rs] ne
    by (auto simp: d g noted split: option.splits)
qed

definition sample_source :: "string \<Rightarrow> fundamental_data option \<Rightarrow> fundamental_provider" where
  "sample_source name d = \<lparr>fp_name = name, fp_get = (\<lambda>_. Inr d), fp_with_status = None\<rparr>"

theorem merge_follows_priority_witness:
  "map_option fu_pe (multi_get [sample_source ''a'' (Some (empty_fundamentals ''X'')),
      sample_source ''b'' (Some (sample_company\<lparr>fu_pe := Some 9\<rparr>)), unavailable_provider,
      sample_source ''c'' (Some sample_company)] ''X'') = Some (Some 9)"
proof -
  have "(''pe'', fu_pe, fu_pe_update) \<in> set MERGEABLE_FIELDS" by (simp add: MERGEABLE_FIELDS_def)
  from merge_follows_priority [OF this, of "[sample_source ''a'' (Some (empty_fundamentals ''X'')),
      sample_source ''b'' (Some (sample_company\<lparr>fu_pe := Some 9\<rparr>)), unavailable_provider,
      sample_source ''c'' (Some sample_company)]" "''X''"]
  show ?thesis
    by (simp add: answers_of_def sample_source_def unavailable_provider_def first_reported_def
        empty_fundamentals_def sample_company_def split: option.splits)
qed

definition sample_attempt :: "int \<Rightarrow> fundamental_data option \<Rightarrow> fetch_status \<Rightarrow> fetch_attempt" where
  "sample_attempt t d st = \<lparr>fa_symbol_id = 1, fa_at = t, fa_data = d, fa_source = Some ''multi_source'',
     fa_status = st, fa_error_message = None\<rparr>"

definition sample_fundamentals :: fundamental_store where
  "sample_fundamentals = oi_store.extend sample_oi_store (fundamental_store.fields [] [] 1)"

theorem cached_fundamentals_last_known_witness:
  "\<exists>c. get_cached default_settings 500 1 (fold snapshot_upsert
      [sample_attempt 100 (Some sample_company) FS_SUCCESS, sample_attempt 200 None FS_RATE_LIMITED] sample_fundamentals) = Some c
    \<and> cs_data c = Some (sample_company\<lparr>fu_symbol := ''INFY''\<rparr>) \<and> cs_status c = FS_RATE_LIMITED \<and> cs_is_fresh c"
proof -
  have new: "lookup_by fc_symbol_id 1 (fundamental_snapshots sample_fundamentals) = None" by code_simp
  have sy: "symbol_by_id 1 sample_fundamentals = Some (hd (symbols sample_fundamentals))"
    "sy_symbol (hd (symbols sample_fundamentals)) = ''INFY''" by code_simp+
  define vs where "vs = [sample_attempt 100 (Some sample_company) FS_SUCCESS, sample_attempt 200 None FS_RATE_LIMITED]"
  have m: "filter (\<lambda>v. fa_symbol_id v = 1) vs = vs" "vs \<noteq> []" "fa_status (last vs) = FS_RATE_LIMITED"
    "known vs \<noteq> []" "fa_data (last (known vs)) = Some sample_company" "fa_at (last (known vs)) = 100"
    by (simp_all add: vs_def sample_attempt_def known_def)
  have snap: "sample_company\<lparr>fu_symbol := x, fu_field_snapshots := []\<rparr> = sample_company\<lparr>fu_symbol := x\<rparr>" for x
    by (simp add: sample_company_def empty_fundamentals_def)
  have ttl: "500 - 100 < fundamental_cache_ttl_minutes default_settings * minute_us" by code_simp
  note out = cached_fundamentals_last_known [OF new sy(1), where vs = vs and cfg = default_settings and now = 500,
      unfolded Let_def m(1)]
  obtain c where c: "get_cached default_settings 500 1 (fold snapshot_upsert vs sample_fundamentals) = Some c"
    using out m(2) by (cases "get_cached default_settings 500 1 (fold snapshot_upsert vs sample_fundamentals)") simp_all
  then show ?thesis using out m(2-6) ttl by (auto simp: vs_def [symmetric] snap sy(2))
qed

end
