(* ===== verification/Fundamental_Queue.thy ===== *)
theory Fundamental_Queue
  imports Fundamental_Store Decision_Engine
begin

text \<open>
  The fundamental queue: app/fundamentals/queue_service.py and queue_models.py. Candidate rows without
  fresh fundamentals are worked off in order of priority, within a budget per run and per day, and the
  queue pauses after a rate limit. The database's advisory lock is an argument (taken or not), and
  so are the times of the requests, by position: a request's time is both the host's and the
  database's. Sleeping between requests and batches changes no table and is left out.
\<close>

section \<open>Results of a run\<close>

record queue_run =
  qr_processed :: nat
  qr_succeeded :: nat
  qr_cached :: nat
  qr_failed :: nat
  qr_rate_limited :: bool
  qr_budget_exhausted :: bool
  qr_symbols :: "string list"

definition empty_queue_run :: queue_run where
  "empty_queue_run = \<lparr>qr_processed = 0, qr_succeeded = 0, qr_cached = 0, qr_failed = 0, qr_rate_limited = False,
     qr_budget_exhausted = False, qr_symbols = []\<rparr>"

section \<open>Cooldown after a rate limit\<close>

definition escalated_cooldown_seconds :: "settings \<Rightarrow> nat \<Rightarrow> rat" where
  "escalated_cooldown_seconds cfg consecutive =
     min (fundamental_rate_limit_cooldown_seconds cfg
            * fundamental_rate_limit_backoff_multiplier cfg ^ (consecutive - 1))
         (fundamental_rate_limit_max_cooldown_seconds cfg)"

text \<open>\<open>timedelta(seconds=x)\<close> rounds to microseconds.\<close>

definition seconds_us :: "rat \<Rightarrow> int" where
  "seconds_us x = round_half_even (x * of_int second_us)"

definition paused_until :: "settings \<Rightarrow> int \<Rightarrow> 'x fundamental_store_scheme \<Rightarrow> int option" where
  "paused_until cfg now s =
     (case most_recent_rate_limit s of
        None \<Rightarrow> None
      | Some limited_at \<Rightarrow>
          (let resume_at = limited_at + seconds_us (escalated_cooldown_seconds cfg (count_consecutive_rate_limits s))
           in if now < resume_at then Some resume_at else None))"

section \<open>Selecting rows\<close>

definition CANDIDATE_SCANNER_NAMES :: "string list" where
  "CANDIDATE_SCANNER_NAMES = [''fno_momentum_v1'', ''pre_breakout_v1'', ''ipo_intraday_v1'']"

text \<open>The stored fetch time is the text of an instant.\<close>

definition fetched_at_of :: "pyval \<Rightarrow> int option" where
  "fetched_at_of v = (case v of PyMsg [Instant t] \<Rightarrow> Some t | _ \<Rightarrow> None)"

definition is_pending :: "settings \<Rightarrow> int \<Rightarrow> result_row \<Rightarrow> bool" where
  "is_pending cfg now row \<longleftrightarrow>
     \<not> (dict_get (rr_snapshot row) ''fundamental_status'' = PyStr (fetch_status_value FS_SUCCESS)
        \<and> (case fetched_at_of (dict_get (rr_snapshot row) ''fundamental_fetched_at'') of
             None \<Rightarrow> False
           | Some t \<Rightarrow> now - t < fundamental_cache_ttl_minutes cfg * minute_us))"

definition SETUP_STATE_TIER :: "(string \<times> nat) list" where
  "SETUP_STATE_TIER = [(''BREAKOUT_CONFIRMED'', 0), (''MOMENTUM'', 1), (''PRE_BREAKOUT'', 2)]"

definition priority_tier :: "result_row \<Rightarrow> nat" where
  "priority_tier row =
     (let tier = (case dict_get (rr_snapshot row) ''setup_state'' of
                    PyStr v \<Rightarrow> opt_else (map_of SETUP_STATE_TIER v) 4 | _ \<Rightarrow> 4)
      in if tier > 2 then (if rr_status row \<noteq> ''rejected'' then 4 else 3) else tier)"

definition coerce_float :: "pyval \<Rightarrow> rat" where
  "coerce_float v = opt_else (float_or_none v) 0"

definition technical_score_of :: "result_row \<Rightarrow> rat" where
  "technical_score_of row = coerce_float (dict_get (rr_snapshot row) ''technical_score'')"

definition select_pending :: "settings \<Rightarrow> int \<Rightarrow> 'x scanner_store_scheme \<Rightarrow> result_row list" where
  "select_pending cfg now s =
     sort_key priority_tier (sort_key (\<lambda>r. - technical_score_of r)
       (filter (is_pending cfg now)
         (filter (\<lambda>r. rr_scanner_name r \<in> set CANDIDATE_SCANNER_NAMES) (scanner_results s))))"

section \<open>Processing one row\<close>

fun availability_str :: "field_availability \<Rightarrow> string" where
  "availability_str FIELD_AVAILABLE = ''AVAILABLE''"
| "availability_str LIMITED_HISTORY = ''LIMITED_HISTORY''"
| "availability_str INSUFFICIENT_DATA = ''INSUFFICIENT_DATA''"
| "availability_str NOT_APPLICABLE = ''NOT_APPLICABLE''"
| "availability_str FIELD_UNKNOWN = ''UNKNOWN''"

definition field_snapshot_to_dict :: "field_snapshot \<Rightarrow> pyval" where
  "field_snapshot_to_dict f =
     PyDict [(''field_name'', PyStr (fs_field_name f)), (''value'', opt_float (fs_value f)),
       (''source'', opt_str (fs_source f)), (''period'', opt_str (fs_period f)),
       (''status'', PyStr (availability_str (fs_status f))),
       (''as_of'', case fs_as_of f of None \<Rightarrow> PyNone | Some d \<Rightarrow> PyStr (isoformat d)),
       (''alternates'', PyList (map (\<lambda>(src, v). PyList [PyStr src, PyFloat v]) (fs_alternates f)))]"

definition apply_result :: "settings \<Rightarrow> int \<Rightarrow> fundamental_data \<Rightarrow> fetch_status \<Rightarrow> result_row \<Rightarrow> result_row" where
  "apply_result cfg now d status row =
     (let fund = fundamental_score cfg (Some d);
          combined = combine_scores cfg (fe_score fund) (technical_score_of row);
          overall = py_round 2 (min (max combined 0) 100)
      in row\<lparr>rr_score := overall,
           rr_snapshot := (rr_snapshot row)
             (''fundamental_score'' \<mapsto> opt_float (fe_score fund),
              ''overall_score'' \<mapsto> PyFloat overall,
              ''quality'' \<mapsto> PyStr (quality_value (quality_from_score overall)),
              ''fundamental_reasons'' \<mapsto> msg_list (fe_positive_reasons fund),
              ''fundamental_factors'' \<mapsto> PyList (map factor_to_dict (fe_factors fund)),
              ''fundamental_field_sources'' \<mapsto> PyList (map (\<lambda>(_, f). field_snapshot_to_dict f) (fu_field_snapshots d)),
              ''risk_flags'' \<mapsto> msg_list (fe_risk_flags fund),
              ''data_completeness_pct'' \<mapsto> PyFloat (fe_completeness_pct fund),
              ''fundamental_status'' \<mapsto> PyStr (fetch_status_value status),
              ''fundamental_fetched_at'' \<mapsto> PyMsg [Instant now])\<rparr>)"

definition update_row ::
  "settings \<Rightarrow> int \<Rightarrow> fundamental_data option \<Rightarrow> fetch_status \<Rightarrow> result_row \<Rightarrow> result_row" where
  "update_row cfg now data status row =
     (case data of
        Some d \<Rightarrow> apply_result cfg now d status row
      | None \<Rightarrow>
          if status = FS_FAILED \<or> status = FS_RATE_LIMITED then
            row\<lparr>rr_snapshot := (rr_snapshot row)(''fundamental_status'' \<mapsto> PyStr (fetch_status_value status))\<rparr>
          else row)"

definition count_status :: "fetch_status \<Rightarrow> queue_run \<Rightarrow> queue_run" where
  "count_status status run =
     (if status = FS_SUCCESS then run\<lparr>qr_succeeded := Suc (qr_succeeded run)\<rparr>
      else if status = FS_CACHED then run\<lparr>qr_cached := Suc (qr_cached run)\<rparr>
      else if status = FS_FAILED then run\<lparr>qr_failed := Suc (qr_failed run)\<rparr>
      else run)"

definition replace_result :: "result_row \<Rightarrow> 'x scanner_store_scheme \<Rightarrow> 'x scanner_store_scheme" where
  "replace_result row s =
     s\<lparr>scanner_results := map (\<lambda>r. if result_key r = result_key row then row else r) (scanner_results s)\<rparr>"

definition process_one ::
  "settings \<Rightarrow> fundamental_provider \<Rightarrow> int \<Rightarrow> result_row \<Rightarrow> string \<Rightarrow> queue_run \<times> 'x fundamental_store_scheme
     \<Rightarrow> fetch_status \<times> queue_run \<times> 'x fundamental_store_scheme" where
  "process_one cfg p now row symbol run_s =
     (case run_s of (run, s) \<Rightarrow>
       (case status_of_answer p symbol of (data, status, err) \<Rightarrow>
          (let s1 = record_fetch (rr_symbol_id row) status err (s\<lparr>db_clock := now\<rparr>);
               s2 = snapshot_upsert \<lparr>fa_symbol_id = rr_symbol_id row, fa_at = now, fa_data = data,
                      fa_source = Some (fp_name p), fa_status = status, fa_error_message = err\<rparr> s1;
               s3 = replace_result (update_row cfg now data status row) s2
           in (status, count_status status run, s3))))"

section \<open>The run\<close>

text \<open>Rows are processed until one is rate limited; the flag says whether that happened.\<close>

fun process_rows ::
  "settings \<Rightarrow> fundamental_provider \<Rightarrow> (nat \<Rightarrow> int) \<Rightarrow> (int \<rightharpoonup> string) \<Rightarrow> result_row list
     \<Rightarrow> queue_run \<times> 'x fundamental_store_scheme \<Rightarrow> bool \<times> queue_run \<times> 'x fundamental_store_scheme" where
  "process_rows cfg p moments names [] st = (False, st)"
| "process_rows cfg p moments names (row # rows) st =
     (case names (rr_symbol_id row) of
        None \<Rightarrow> process_rows cfg p moments names rows st
      | Some symbol \<Rightarrow>
          (case process_one cfg p (moments (qr_processed (fst st))) row symbol st of
             (status, run, s) \<Rightarrow>
               (let run1 = run\<lparr>qr_processed := Suc (qr_processed run), qr_symbols := qr_symbols run @ [symbol]\<rparr>
                in if status = FS_RATE_LIMITED then (True, run1\<lparr>qr_rate_limited := True\<rparr>, s)
                   else process_rows cfg p moments names rows (run1, s))))"

fun process_batches ::
  "settings \<Rightarrow> fundamental_provider \<Rightarrow> (nat \<Rightarrow> int) \<Rightarrow> (int \<rightharpoonup> string) \<Rightarrow> result_row list list
     \<Rightarrow> queue_run \<times> 'x fundamental_store_scheme \<Rightarrow> queue_run \<times> 'x fundamental_store_scheme" where
  "process_batches cfg p moments names [] st = st"
| "process_batches cfg p moments names (b # bs) st =
     (case process_rows cfg p moments names b st of
        (True, st') \<Rightarrow> st'
      | (False, st') \<Rightarrow> process_batches cfg p moments names bs st')"

text \<open>\<open>xs[:n]\<close>, where a negative bound counts from the end.\<close>

definition slice_to :: "int \<Rightarrow> 'a list \<Rightarrow> 'a list" where
  "slice_to n xs = (if n \<ge> 0 then take (nat n) xs else take (length xs - nat (- n)) xs)"

definition run_queue ::
  "bool \<Rightarrow> fundamental_provider \<Rightarrow> runtime \<Rightarrow> settings \<Rightarrow> (nat \<Rightarrow> int) \<Rightarrow> 'x fundamental_store_scheme
     \<Rightarrow> queue_run \<times> 'x fundamental_store_scheme" where
  "run_queue lock_acquired p rt cfg moments s =
     (if \<not> lock_acquired then (empty_queue_run, s)
      else if paused_until cfg (clock rt) s \<noteq> None then (empty_queue_run, s)
      else
        let requests_today = int (count_today rt None s);
            remaining_today = fundamental_max_requests_per_day cfg - requests_today
        in if remaining_today \<le> 0 then (empty_queue_run\<lparr>qr_budget_exhausted := True\<rparr>, s)
           else
             let run_budget = min (fundamental_max_requests_per_run cfg) remaining_today;
                 pending = select_pending cfg (clock rt) s
             in if pending = [] then (empty_queue_run, s)
                else
                  let todo = slice_to run_budget pending;
                      names = symbol_names (map rr_symbol_id todo) s;
                      batch_size = nat (max 1 (fundamental_batch_size cfg))
                  in process_batches cfg p moments names (batches batch_size todo) (empty_queue_run, s))"

record queue_status =
  qs_pending :: nat
  qs_completed_today :: nat
  qs_rate_limited_today :: nat
  qs_failed_today :: nat
  qs_cached_today :: nat
  qs_batch_size :: int
  qs_is_paused :: bool
  qs_paused_until :: "int option"
  qs_last_request_at :: "int option"
  qs_requests_today :: nat
  qs_daily_budget :: int
  qs_trendlyne_status :: string

definition queue_status_summary ::
  "fundamental_provider \<Rightarrow> runtime \<Rightarrow> settings \<Rightarrow> 'x fundamental_store_scheme \<Rightarrow> queue_status" where
  "queue_status_summary p rt cfg s =
     (let until = paused_until cfg (clock rt) s
      in \<lparr>qs_pending = length (select_pending cfg (clock rt) s),
          qs_completed_today = count_today rt (Some FS_SUCCESS) s,
          qs_rate_limited_today = count_today rt (Some FS_RATE_LIMITED) s,
          qs_failed_today = count_today rt (Some FS_FAILED) s,
          qs_cached_today = count_today rt (Some FS_CACHED) s,
          qs_batch_size = fundamental_batch_size cfg, qs_is_paused = until \<noteq> None, qs_paused_until = until,
          qs_last_request_at = last_requested_at s, qs_requests_today = count_today rt None s,
          qs_daily_budget = fundamental_max_requests_per_day cfg,
          qs_trendlyne_status = (if fp_with_status p = None then ''NOT_CONFIGURED''
             else if until \<noteq> None then ''RATE_LIMITED'' else ''HEALTHY'')\<rparr>)"

section \<open>What a run adds to the fetch log\<close>

text \<open>The records a run adds, against the rows it was given: one per row with a known symbol, in their
  order, each at its own time, up to and including the first that is rate limited.\<close>

definition queue_trace ::
  "(nat \<Rightarrow> int) \<Rightarrow> (int \<rightharpoonup> string) \<Rightarrow> result_row list \<Rightarrow> queue_run \<Rightarrow> queue_run \<Rightarrow> fetch_log_row list \<Rightarrow> bool \<Rightarrow> bool" where
  "queue_trace moments names rows run run' new stop \<longleftrightarrow>
     map fl_requested_at new = map moments [qr_processed run..<qr_processed run']
     \<and> qr_processed run' = qr_processed run + length new
     \<and> map fl_symbol_id new = take (length new) (filter (\<lambda>i. names i \<noteq> None) (map rr_symbol_id rows))
     \<and> (\<forall>r \<in> set (butlast new). fl_status r \<noteq> FS_RATE_LIMITED)
     \<and> stop = (new \<noteq> [] \<and> fl_status (last new) = FS_RATE_LIMITED)
     \<and> (\<not> stop \<longrightarrow> length new = length (filter (\<lambda>i. names i \<noteq> None) (map rr_symbol_id rows)))
     \<and> qr_rate_limited run' = (qr_rate_limited run \<or> stop)
     \<and> qr_budget_exhausted run' = qr_budget_exhausted run"

lemma count_status_keeps [simp]:
  "qr_processed (count_status status run) = qr_processed run"
  "qr_rate_limited (count_status status run) = qr_rate_limited run"
  "qr_budget_exhausted (count_status status run) = qr_budget_exhausted run"
  by (simp_all add: count_status_def)

lemma process_one_effect:
  assumes "process_one cfg p now row symbol (run, s) = (status, run', s')"
  shows "\<exists>r. fetch_log s' = fetch_log s @ [r] \<and> fl_status r = status \<and> fl_requested_at r = now
      \<and> fl_symbol_id r = rr_symbol_id row"
    and "qr_processed run' = qr_processed run" "qr_rate_limited run' = qr_rate_limited run"
    and "qr_budget_exhausted run' = qr_budget_exhausted run"
  using assms
  by (auto simp: process_one_def record_fetch_def snapshot_upsert_def replace_result_def Let_def
      split: prod.splits)

lemma queue_trace_Nil [simp]: "queue_trace moments names [] run run [] False"
  by (simp add: queue_trace_def)

lemma process_rows_trace:
  assumes "process_rows cfg p moments names rows (run, s) = (stop, run', s')"
  shows "\<exists>new. fetch_log s' = fetch_log s @ new \<and> queue_trace moments names rows run run' new stop"
  using assms
proof (induction rows arbitrary: run s)
  case Nil
  then show ?case by (intro exI [of _ "[]"]) simp
next
  case (Cons row rows)
  show ?case
  proof (cases "names (rr_symbol_id row)")
    case None
    with Cons obtain new where "fetch_log s' = fetch_log s @ new" "queue_trace moments names rows run run' new stop"
      by fastforce
    then show ?thesis using None by (auto simp: queue_trace_def)
  next
    case (Some symbol)
    obtain status run1 s1 where one: "process_one cfg p (moments (qr_processed run)) row symbol (run, s) = (status, run1, s1)"
      by (metis prod_cases3)
    define run2 where "run2 = run1\<lparr>qr_processed := Suc (qr_processed run1), qr_symbols := qr_symbols run1 @ [symbol]\<rparr>"
    note eff = process_one_effect [OF one]
    then obtain r where r: "fetch_log s1 = fetch_log s @ [r]" "fl_status r = status"
      "fl_requested_at r = moments (qr_processed run)" "fl_symbol_id r = rr_symbol_id row" by blast
    have run2: "qr_processed run2 = Suc (qr_processed run)" "qr_rate_limited run2 = qr_rate_limited run"
      "qr_budget_exhausted run2 = qr_budget_exhausted run"
      using eff by (simp_all add: run2_def)
    show ?thesis
    proof (cases "status = FS_RATE_LIMITED")
      case True
      then have "stop" "run' = run2\<lparr>qr_rate_limited := True\<rparr>" "s' = s1"
        using Cons.prems one Some by (auto simp: run2_def Let_def)
      then show ?thesis using r True Some run2
        by (intro exI [of _ "[r]"]) (simp add: queue_trace_def)
    next
      case False
      then have "process_rows cfg p moments names rows (run2, s1) = (stop, run', s')"
        using Cons.prems one Some by (simp add: run2_def Let_def)
      from Cons.IH [OF this] obtain new where new: "fetch_log s' = fetch_log s1 @ new"
        "queue_trace moments names rows run2 run' new stop" by blast
      have "[qr_processed run..<qr_processed run'] = qr_processed run # [Suc (qr_processed run)..<qr_processed run']"
        by (rule upt_conv_Cons) (use new(2) in \<open>simp add: queue_trace_def run2\<close>)
      then have "queue_trace moments names (row # rows) run run' (r # new) stop"
        using new(2) r False Some by (auto simp: queue_trace_def run2)
      then show ?thesis using new(1) r(1) by auto
    qed
  qed
qed

text \<open>Batches only say where to wait and commit.\<close>

lemma process_rows_append:
  "process_rows cfg p moments names (xs @ ys) st =
     (case process_rows cfg p moments names xs st of
        (True, st') \<Rightarrow> (True, st') | (False, st') \<Rightarrow> process_rows cfg p moments names ys st')"
  by (induction xs arbitrary: st) (auto simp: Let_def split: option.split prod.split)

lemma process_batches_rows:
  "process_batches cfg p moments names bs st = snd (process_rows cfg p moments names (concat bs) st)"
  by (induction bs arbitrary: st) (auto simp: process_rows_append split: prod.split bool.split)

lemma length_slice_to: "n \<ge> 0 \<Longrightarrow> int (length (slice_to n xs)) \<le> n"
  by (auto simp: slice_to_def)

lemma slice_to_prefix: "\<exists>rest. xs = slice_to n xs @ rest"
proof (cases "n \<ge> 0")
  case True
  then have "xs = slice_to n xs @ drop (nat n) xs" by (simp add: slice_to_def)
  then show ?thesis ..
next
  case False
  then have "xs = slice_to n xs @ drop (length xs - nat (- n)) xs" by (simp add: slice_to_def)
  then show ?thesis ..
qed

lemma run_queue_cases:
  assumes "run_queue lock_acquired p rt cfg moments s = (run, s')"
  obtains (idle) "s' = s" "qr_processed run = 0" "\<not> qr_rate_limited run"
  | (work) todo stop where "lock_acquired" "paused_until cfg (clock rt) s = None"
      "todo = slice_to (min (fundamental_max_requests_per_run cfg)
         (fundamental_max_requests_per_day cfg - int (count_today rt None s))) (select_pending cfg (clock rt) s)"
      "int (count_today rt None s) < fundamental_max_requests_per_day cfg" "\<not> qr_budget_exhausted run"
      "process_rows cfg p moments (symbol_names (map rr_symbol_id todo) s) todo (empty_queue_run, s) = (stop, run, s')"
proof -
  let ?todo = "slice_to (min (fundamental_max_requests_per_run cfg)
     (fundamental_max_requests_per_day cfg - int (count_today rt None s))) (select_pending cfg (clock rt) s)"
  have b: "0 < nat (max 1 (fundamental_batch_size cfg))" by simp
  consider "s' = s \<and> qr_processed run = 0 \<and> \<not> qr_rate_limited run"
    | "lock_acquired" "paused_until cfg (clock rt) s = None" "int (count_today rt None s) < fundamental_max_requests_per_day cfg"
      "(run, s') = snd (process_rows cfg p moments (symbol_names (map rr_symbol_id ?todo) s) ?todo (empty_queue_run, s))"
    using assms unfolding run_queue_def Let_def process_batches_rows concat_batches [OF b]
    by (auto simp: empty_queue_run_def split: if_splits)
  then show ?thesis
  proof cases
    case 2
    then obtain stop where rows: "process_rows cfg p moments (symbol_names (map rr_symbol_id ?todo) s) ?todo (empty_queue_run, s) = (stop, run, s')"
      by (metis prod.collapse)
    from process_rows_trace [OF rows] have "\<not> qr_budget_exhausted run"
      by (auto simp: queue_trace_def empty_queue_run_def)
    with 2 rows show ?thesis by (intro work) simp_all
  qed (use idle in simp)
qed

text \<open>A run of the queue keeps to its budgets and stops at the first rate limit. It logs one attempt per
  request, for a prefix of the pending rows that have a symbol, in their order of priority; at most as
  many as the budget per run and as what is left of the day's budget; only the last attempt may be rate
  limited, and the result says so exactly then.\<close>

theorem queue_run_within_budget:
  assumes "run_queue lock_acquired p rt cfg moments s = (run, s')" "0 \<le> fundamental_max_requests_per_run cfg"
  shows "\<exists>new. fetch_log s' = fetch_log s @ new \<and> length new = qr_processed run
    \<and> int (length new) \<le> fundamental_max_requests_per_run cfg
    \<and> (new = [] \<or> int (count_today rt None s + length new) \<le> fundamental_max_requests_per_day cfg)
    \<and> list_all (\<lambda>r. fl_status r \<noteq> FS_RATE_LIMITED) (butlast new)
    \<and> qr_rate_limited run = (new \<noteq> [] \<and> fl_status (last new) = FS_RATE_LIMITED)
    \<and> (\<exists>names. map fl_symbol_id new =
         take (length new) (filter names (map rr_symbol_id (select_pending cfg (clock rt) s))))"
  using assms(1)
proof (cases rule: run_queue_cases)
  case idle
  with assms(2) show ?thesis by (intro exI [of _ "[]"]) simp
next
  case (work todo stop)
  let ?names = "symbol_names (map rr_symbol_id todo) s"
  obtain new where new: "fetch_log s' = fetch_log s @ new" "queue_trace moments ?names todo empty_queue_run run new stop"
    using process_rows_trace [OF work(6)] by blast
  let ?f = "filter (\<lambda>i. ?names i \<noteq> None)"
  have "length new = length (take (length new) (?f (map rr_symbol_id todo)))"
    using new(2) by (metis length_map queue_trace_def)
  then have short: "length new \<le> length (?f (map rr_symbol_id todo))" by simp
  also have "\<dots> \<le> length todo" by (metis length_filter_le length_map)
  also have "int (length todo) \<le> min (fundamental_max_requests_per_run cfg) (fundamental_max_requests_per_day cfg - int (count_today rt None s))"
    unfolding work(3) using assms(2) work(4) by (intro length_slice_to) simp
  finally have bound: "int (length new) \<le> min (fundamental_max_requests_per_run cfg) (fundamental_max_requests_per_day cfg - int (count_today rt None s))"
    by simp
  have "\<exists>rest. select_pending cfg (clock rt) s = todo @ rest"
    unfolding work(3) by (rule slice_to_prefix)
  then obtain rest where "select_pending cfg (clock rt) s = todo @ rest" ..
  then have "map fl_symbol_id new = take (length new) (?f (map rr_symbol_id (select_pending cfg (clock rt) s)))"
    using new(2) short by (simp add: queue_trace_def)
  then have order: "\<exists>names. map fl_symbol_id new =
      take (length new) (filter names (map rr_symbol_id (select_pending cfg (clock rt) s)))" by blast
  have "int (count_today rt None s + length new) \<le> fundamental_max_requests_per_day cfg"
    "int (length new) \<le> fundamental_max_requests_per_run cfg" using bound by simp_all
  moreover have "length new = qr_processed run" "list_all (\<lambda>r. fl_status r \<noteq> FS_RATE_LIMITED) (butlast new)"
    "qr_rate_limited run = (new \<noteq> [] \<and> fl_status (last new) = FS_RATE_LIMITED)"
    using new(2) by (simp_all add: queue_trace_def empty_queue_run_def list_all_iff)
  ultimately show ?thesis using new(1) order by blast
qed

section \<open>After a rate limit\<close>

lemma latest_requested_last:
  assumes "fetch_log s = xs @ [r]" "P (fl_status r)" "\<And>x. x \<in> set xs \<Longrightarrow> fl_requested_at x \<le> fl_requested_at r"
  shows "latest_requested P s = Some (fl_requested_at r)"
proof -
  have "Max (set (map fl_requested_at (filter (\<lambda>r. P (fl_status r)) (xs @ [r])))) = fl_requested_at r"
    using assms(2,3) by (intro Max_eqI) auto
  then show ?thesis using assms(1,2) by (simp add: latest_requested_def Let_def)
qed

lemma latest_requested_bound:
  assumes "latest_requested P s = Some t" "\<And>x. x \<in> set (fetch_log s) \<Longrightarrow> fl_requested_at x \<le> u"
  shows "t \<le> u"
proof -
  from assms(1) have "t \<in> set (map fl_requested_at (filter (\<lambda>r. P (fl_status r)) (fetch_log s)))"
    unfolding latest_requested_def Let_def
    by (metis (lifting) List.finite_set Max_in option.distinct(1) option.inject set_empty)
  then show ?thesis using assms(2) by auto
qed

lemma rate_limit_last:
  assumes "fetch_log s = xs @ [r]" "fl_status r = FS_RATE_LIMITED"
    and "\<And>x. x \<in> set xs \<Longrightarrow> fl_requested_at x \<le> fl_requested_at r"
  shows "most_recent_rate_limit s = Some (fl_requested_at r)"
proof -
  have "t \<le> fl_requested_at r" if "latest_requested answered_status s = Some t" for t
    using latest_requested_bound [OF that] assms(1,3) by auto
  then show ?thesis
    using latest_requested_last [where P = "\<lambda>st. st = FS_RATE_LIMITED", OF assms(1,2,3)]
    by (fastforce simp: most_recent_rate_limit_def split: option.split)
qed

lemma cooldown_at_least:
  assumes "1 \<le> fundamental_rate_limit_backoff_multiplier cfg" "0 \<le> fundamental_rate_limit_cooldown_seconds cfg"
  shows "min (fundamental_rate_limit_cooldown_seconds cfg) (fundamental_rate_limit_max_cooldown_seconds cfg)
    \<le> escalated_cooldown_seconds cfg k"
proof -
  have "1 \<le> fundamental_rate_limit_backoff_multiplier cfg ^ (k - 1)" using assms(1) by (rule one_le_power)
  then have "fundamental_rate_limit_cooldown_seconds cfg * 1
      \<le> fundamental_rate_limit_cooldown_seconds cfg * fundamental_rate_limit_backoff_multiplier cfg ^ (k - 1)"
    using assms(2) by (rule mult_left_mono)
  then show ?thesis by (simp add: escalated_cooldown_seconds_def)
qed

lemma seconds_us_mono: "x \<le> y \<Longrightarrow> seconds_us x \<le> seconds_us y"
  unfolding seconds_us_def by (intro round_half_even_mono mult_right_mono) (simp_all add: second_us_def)

text \<open>After a run that was rate limited the queue stands still: until the cooldown after the limited
  request is over, no later run changes anything, whatever its provider would answer.\<close>

theorem rate_limit_pauses_queue:
  assumes "run_queue lock_acquired p rt cfg moments s = (run, s')" "qr_rate_limited run"
    and "mono moments" "\<And>r. r \<in> set (fetch_log s) \<Longrightarrow> fl_requested_at r \<le> moments 0"
    and "1 \<le> fundamental_rate_limit_backoff_multiplier cfg" "0 \<le> fundamental_rate_limit_cooldown_seconds cfg"
    and "clock rt' < moments (qr_processed run - 1)
      + seconds_us (min (fundamental_rate_limit_cooldown_seconds cfg) (fundamental_rate_limit_max_cooldown_seconds cfg))"
  shows "run_queue lock_acquired' p' rt' cfg moments' s' = (empty_queue_run, s')"
  using assms(1)
proof (cases rule: run_queue_cases)
  case idle
  with assms(2) show ?thesis by simp
next
  case (work todo stop)
  obtain new where new: "fetch_log s' = fetch_log s @ new"
    "queue_trace moments (symbol_names (map rr_symbol_id todo) s) todo empty_queue_run run new stop"
    using process_rows_trace [OF work(6)] by blast
  have n: "qr_processed run = length new" "map fl_requested_at new = map moments [0..<length new]"
    "new \<noteq> []" "fl_status (last new) = FS_RATE_LIMITED"
    using new(2) assms(2) by (auto simp: queue_trace_def empty_queue_run_def)
  have at: "fl_requested_at (new ! k) = moments k" if "k < length new" for k
    using arg_cong [OF n(2), of "\<lambda>xs. xs ! k"] that by simp
  let ?t = "moments (qr_processed run - 1)"
  have last: "fl_requested_at (last new) = ?t" using n(1,3) at by (simp add: last_conv_nth)
  have "fl_requested_at r \<le> ?t" if "r \<in> set (fetch_log s @ butlast new)" for r
  proof (cases "r \<in> set new")
    case True
    then obtain k where "k < length new" "r = new ! k" by (auto simp: in_set_conv_nth)
    then show ?thesis using n(1) at monoD [OF assms(3), of k "qr_processed run - 1"] by simp
  next
    case False
    then have "r \<in> set (fetch_log s)" using that by (auto dest: in_set_butlastD)
    then show ?thesis using assms(4) monoD [OF assms(3), of 0 "qr_processed run - 1"] by fastforce
  qed
  then have "most_recent_rate_limit s' = Some ?t"
    using rate_limit_last [of s' "fetch_log s @ butlast new" "last new"] new(1) n(3,4) last by simp
  moreover have "seconds_us (min (fundamental_rate_limit_cooldown_seconds cfg) (fundamental_rate_limit_max_cooldown_seconds cfg))
      \<le> seconds_us (escalated_cooldown_seconds cfg (count_consecutive_rate_limits s'))"
    using cooldown_at_least [OF assms(5,6)] by (rule seconds_us_mono)
  ultimately have "paused_until cfg (clock rt') s' \<noteq> None" using assms(7) by (simp add: paused_until_def Let_def)
  then show ?thesis by (simp add: run_queue_def)
qed

section \<open>When a row is done\<close>

text \<open>A row is off the queue only after a success. Once a request answered with data has updated the row, the row is
  pending again exactly when the answer was not a fresh success or the time to live is over: an answer
  taken from the provider's own cache never settles the row. An answer without data leaves the
  stored score and the old data as they were.\<close>

theorem row_settled_by_success_only:
  "(is_pending cfg later (update_row cfg now (Some d) status row)
     \<longleftrightarrow> \<not> (status = FS_SUCCESS \<and> later - now < fundamental_cache_ttl_minutes cfg * minute_us))
   \<and> rr_score (update_row cfg now None status row) = rr_score row
   \<and> rr_snapshot (update_row cfg now None status row) |` (- {''fundamental_status''})
       = rr_snapshot row |` (- {''fundamental_status''})"
proof -
  have "is_pending cfg later (update_row cfg now (Some d) status row)
     \<longleftrightarrow> \<not> (status = FS_SUCCESS \<and> later - now < fundamental_cache_ttl_minutes cfg * minute_us)"
    by (cases status) (auto simp: update_row_def apply_result_def Let_def is_pending_def fetched_at_of_def dict_get_def)
  then show ?thesis by (auto simp: update_row_def restrict_map_def fun_eq_iff)
qed

section \<open>A queue at work\<close>

definition waiting_row :: result_row where
  "waiting_row = \<lparr>rr_symbol_id = 1, rr_scanner_name = ''fno_momentum_v1'', rr_date = 739650, rr_score = 60,
     rr_status = ''validated'', rr_reason = [], rr_snapshot = [''setup_state'' \<mapsto> PyStr ''MOMENTUM'']\<rparr>"

definition waiting_store :: fundamental_store where
  "waiting_store = sample_fundamentals\<lparr>scanner_results := [waiting_row, waiting_row\<lparr>rr_date := 739651\<rparr>]\<rparr>"

definition limited_provider :: fundamental_provider where
  "limited_provider = \<lparr>fp_name = ''multi_source'', fp_get = (\<lambda>_. Inr None),
     fp_with_status = Some (\<lambda>_. Inr (None, FS_RATE_LIMITED, None))\<rparr>"

definition sample_moments :: "nat \<Rightarrow> int" where
  "sample_moments k = int k * second_us"

definition failing_provider :: fundamental_provider where
  "failing_provider = \<lparr>fp_name = ''multi_source'', fp_get = (\<lambda>_. Inr None), fp_with_status = None\<rparr>"

lemma waiting_run:
  "qr_symbols (fst (run_queue True failing_provider demo_runtime default_settings sample_moments waiting_store)) = [''INFY'', ''INFY'']"
  "qr_processed (fst (run_queue True limited_provider demo_runtime default_settings sample_moments waiting_store)) = 1"
  "qr_rate_limited (fst (run_queue True limited_provider demo_runtime default_settings sample_moments waiting_store))"
  "fetch_log waiting_store = []"
  by code_simp+

theorem queue_run_within_budget_witness:
  "int (length (fetch_log (snd (run_queue True limited_provider demo_runtime default_settings sample_moments waiting_store)))) \<le> 5000"
proof -
  have "0 \<le> fundamental_max_requests_per_run default_settings" "fundamental_max_requests_per_run default_settings = 5000"
    by (simp_all add: default_settings_def)
  with queue_run_within_budget [OF prod.collapse [symmetric] this(1), where lock_acquired = True
      and p = limited_provider and rt = demo_runtime and moments = sample_moments and s = waiting_store]
  show ?thesis using waiting_run(4) by auto
qed

theorem rate_limit_pauses_queue_witness:
  "fst (run_queue True failing_provider (demo_runtime\<lparr>clock := 1799 * second_us\<rparr>) default_settings sample_moments
     (snd (run_queue True limited_provider demo_runtime default_settings sample_moments waiting_store))) = empty_queue_run"
proof -
  have c: "(1::rat) \<le> fundamental_rate_limit_backoff_multiplier default_settings"
    "0 \<le> fundamental_rate_limit_cooldown_seconds default_settings"
    "seconds_us (min (fundamental_rate_limit_cooldown_seconds default_settings)
       (fundamental_rate_limit_max_cooldown_seconds default_settings)) = 1800 * second_us"
    by (code_simp)+
  have m: "mono sample_moments" by (simp add: mono_def sample_moments_def second_us_def)
  have at: "clock (demo_runtime\<lparr>clock := 1799 * second_us\<rparr>) < sample_moments
      (qr_processed (fst (run_queue True limited_provider demo_runtime default_settings sample_moments waiting_store)) - 1)
      + seconds_us (min (fundamental_rate_limit_cooldown_seconds default_settings)
       (fundamental_rate_limit_max_cooldown_seconds default_settings))"
    unfolding waiting_run(2) c(3) by (simp add: sample_moments_def second_us_def)
  have "r \<in> set (fetch_log waiting_store) \<Longrightarrow> fl_requested_at r \<le> sample_moments 0" for r
    by (simp add: waiting_run(4))
  from rate_limit_pauses_queue [OF prod.collapse [symmetric] waiting_run(3) m this c(1,2) at,
      where lock_acquired' = True and p' = failing_provider and moments' = sample_moments]
  show ?thesis by simp
qed

end
