(* ===== verification/Rrg.thy ===== *)
theory Rrg
  imports Feature_Store
begin

text \<open>
  The relative rotation graph: app/analytics/rrg (models, engine, stock and sector entry points) and the
  relative strength calculator app/features/relative_strength. The data-frame operations of pandas and
  the normal distribution are parameters, the fields of \<open>frame_ops\<close>; a missing number (NaN) is
  \<open>None\<close>, and it propagates through arithmetic.
\<close>

section \<open>What is used of pandas and statistics\<close>

record frame_ops =
  fo_rolling_mean :: "nat \<Rightarrow> rat option list \<Rightarrow> rat option list"
  fo_rolling_std :: "nat \<Rightarrow> rat option list \<Rightarrow> rat option list"
  fo_pct_change :: "nat \<Rightarrow> rat option list \<Rightarrow> rat option list"
  fo_diff :: "nat \<Rightarrow> rat option list \<Rightarrow> rat option list"
  fo_reindex :: "(int \<times> rat option) list \<Rightarrow> int list \<Rightarrow> rat option list"
  fo_normal_cdf :: "rat \<Rightarrow> rat"

text \<open>Elementwise arithmetic. A standard deviation of zero belongs to a constant window, so the
  deviation it divides is zero as well and the quotient is NaN.\<close>

definition nan_lift :: "(rat \<Rightarrow> rat \<Rightarrow> rat) \<Rightarrow> rat option \<Rightarrow> rat option \<Rightarrow> rat option" where
  "nan_lift f x y = (case (x, y) of (Some a, Some b) \<Rightarrow> Some (f a b) | _ \<Rightarrow> None)"

definition nan_divide :: "rat option \<Rightarrow> rat option \<Rightarrow> rat option" where
  "nan_divide x y = (if y = Some 0 then None else nan_lift (/) x y)"

definition series2 :: "(rat option \<Rightarrow> rat option \<Rightarrow> rat option) \<Rightarrow> rat option list \<Rightarrow> rat option list \<Rightarrow> rat option list" where
  "series2 f xs ys = map (\<lambda>(x, y). f x y) (zip xs ys)"

section \<open>Readings\<close>

datatype rrg_quadrant = Q_LEADING | Q_WEAKENING | Q_LAGGING | Q_IMPROVING

fun quadrant_value :: "rrg_quadrant \<Rightarrow> string" where
  "quadrant_value Q_LEADING = ''LEADING''"
| "quadrant_value Q_WEAKENING = ''WEAKENING''"
| "quadrant_value Q_LAGGING = ''LAGGING''"
| "quadrant_value Q_IMPROVING = ''IMPROVING''"

record rrg_point =
  rg_symbol :: string
  rg_benchmark_symbol :: string
  rg_date :: int
  rg_rs :: "rat option"
  rg_rs_ratio :: "rat option"
  rg_rs_momentum :: "rat option"
  rg_quadrant :: "rrg_quadrant option"
  rg_computed_at :: int

section \<open>The engine\<close>

definition ROLLING_WINDOW :: nat where
  "ROLLING_WINDOW = 14"

definition RS_LOOKBACK_DAYS :: nat where
  "RS_LOOKBACK_DAYS = 20"

type_synonym frame = "(int \<times> rat) list"

definition prices_to_frame :: "daily_price list \<Rightarrow> frame" where
  "prices_to_frame prices = map (\<lambda>p. (dp_date p, dp_close p)) prices"

definition decimal_or_none :: "rat option \<Rightarrow> rat option" where
  "decimal_or_none v = map_option (py_round 4) v"

definition rolling_zscore :: "frame_ops \<Rightarrow> nat \<Rightarrow> rat option list \<Rightarrow> rat option list" where
  "rolling_zscore ops window series =
     map (map_option (\<lambda>z. 100 + z))
       (series2 nan_divide (series2 (nan_lift (-)) series (fo_rolling_mean ops window series))
         (fo_rolling_std ops window series))"

definition classify_quadrant :: "rat option \<Rightarrow> rat option \<Rightarrow> rrg_quadrant option" where
  "classify_quadrant rs_ratio rs_momentum =
     (case (rs_ratio, rs_momentum) of
        (Some ratio, Some mom) \<Rightarrow>
          (let ratio_up = ratio \<ge> 100; momentum_up = mom \<ge> 100
           in Some (if ratio_up \<and> momentum_up then Q_LEADING
                    else if ratio_up \<and> \<not> momentum_up then Q_WEAKENING
                    else if \<not> ratio_up \<and> \<not> momentum_up then Q_LAGGING
                    else Q_IMPROVING))
      | _ \<Rightarrow> None)"

definition relative_strength :: "frame_ops \<Rightarrow> frame \<Rightarrow> frame option \<Rightarrow> rat option list" where
  "relative_strength ops df benchmark =
     (case benchmark of
        None \<Rightarrow> replicate (length df) None
      | Some bench \<Rightarrow>
          if bench = [] then replicate (length df) None
          else
            let returns = (\<lambda>f. map (map_option (\<lambda>x. x * 100)) (fo_pct_change ops RS_LOOKBACK_DAYS (map (Some \<circ> snd) f)))
            in series2 (nan_lift (-)) (returns df)
                 (fo_reindex ops (zip (map fst bench) (returns bench)) (map fst df)))"

definition compute_rrg_series ::
  "frame_ops \<Rightarrow> nat \<Rightarrow> int \<Rightarrow> string \<Rightarrow> string \<Rightarrow> frame \<Rightarrow> frame \<Rightarrow> rrg_point list" where
  "compute_rrg_series ops window computed_at symbol benchmark_symbol security benchmark =
     (let rs = relative_strength ops security (Some benchmark);
          ratio = rolling_zscore ops window rs;
          momentum = rolling_zscore ops window (fo_diff ops 1 ratio)
      in map (\<lambda>(day, rs_value, ratio_value, momentum_value).
           \<lparr>rg_symbol = symbol, rg_benchmark_symbol = benchmark_symbol, rg_date = day,
            rg_rs = decimal_or_none rs_value, rg_rs_ratio = decimal_or_none ratio_value,
            rg_rs_momentum = decimal_or_none momentum_value,
            rg_quadrant = classify_quadrant ratio_value momentum_value, rg_computed_at = computed_at\<rparr>)
          (zip (map fst security) (zip rs (zip ratio momentum))))"

section \<open>Stocks and sectors\<close>

text \<open>\<open>benchmark_symbol or settings.feature_rs_benchmark_symbol\<close>\<close>

definition benchmark_or_default :: "settings \<Rightarrow> string option \<Rightarrow> string" where
  "benchmark_or_default cfg benchmark_symbol =
     (case benchmark_symbol of None \<Rightarrow> feature_rs_benchmark_symbol cfg
      | Some b \<Rightarrow> if b = [] then feature_rs_benchmark_symbol cfg else b)"

definition compute_stock_rrg ::
  "frame_ops \<Rightarrow> settings \<Rightarrow> int \<Rightarrow> string \<Rightarrow> string option \<Rightarrow> nat \<Rightarrow> 'x market_store_scheme \<Rightarrow> rrg_point list option" where
  "compute_stock_rrg ops cfg now symbol benchmark_symbol lookback_days s =
     (let benchmark = benchmark_or_default cfg benchmark_symbol
      in case (get_by_symbol symbol None s, get_by_symbol benchmark None s) of
           (Some security_row, Some benchmark_row) \<Rightarrow>
             (let security_history = get_daily_history (sy_id security_row) lookback_days s;
                  benchmark_history = get_daily_history (sy_id benchmark_row) lookback_days s
              in if security_history = [] \<or> benchmark_history = [] then None
                 else Some (compute_rrg_series ops ROLLING_WINDOW now symbol benchmark
                        (prices_to_frame security_history) (prices_to_frame benchmark_history)))
         | _ \<Rightarrow> None)"

text \<open>The result is a dictionary: a repeated symbol keeps its place and its value is written again.\<close>

definition compute_sector_rrg ::
  "frame_ops \<Rightarrow> settings \<Rightarrow> int \<Rightarrow> string list \<Rightarrow> string option \<Rightarrow> nat \<Rightarrow> 'x market_store_scheme
     \<Rightarrow> (string \<times> rrg_point list) list" where
  "compute_sector_rrg ops cfg now sector_symbols benchmark_symbol lookback_days s =
     (let benchmark = benchmark_or_default cfg benchmark_symbol
      in case get_by_symbol benchmark None s of
           None \<Rightarrow> []
         | Some benchmark_row \<Rightarrow>
             (let benchmark_history = get_daily_history (sy_id benchmark_row) lookback_days s
              in if benchmark_history = [] then []
                 else
                   foldl (\<lambda>results sector_symbol.
                     case get_by_symbol sector_symbol None s of
                       None \<Rightarrow> results
                     | Some sector_row \<Rightarrow>
                         (let sector_history = get_daily_history (sy_id sector_row) lookback_days s
                          in if sector_history = [] then results
                             else AList.update sector_symbol
                               (compute_rrg_series ops ROLLING_WINDOW now sector_symbol benchmark
                                 (prices_to_frame sector_history) (prices_to_frame benchmark_history))
                               results))
                     [] sector_symbols))"

section \<open>What a stored reading says\<close>

text \<open>The quadrant is taken from the unrounded values, so it can only be read off a stored value that
  is not exactly 100.\<close>

definition reading_consistent :: "rrg_point \<Rightarrow> bool" where
  "reading_consistent r \<longleftrightarrow>
     (rg_quadrant r = None) = (rg_rs_ratio r = None \<or> rg_rs_momentum r = None)
   \<and> (case (rg_rs_ratio r, rg_rs_momentum r, rg_quadrant r) of
        (Some ratio, Some momentum, Some q) \<Rightarrow>
          (ratio = 100 \<or> (q \<in> {Q_LEADING, Q_WEAKENING}) = (ratio > 100))
        \<and> (momentum = 100 \<or> (q \<in> {Q_LEADING, Q_IMPROVING}) = (momentum > 100))
      | _ \<Rightarrow> True)"

lemma rounded_side:
  assumes "py_round 4 x \<noteq> (100 :: rat)"
  shows "x \<ge> 100 \<longleftrightarrow> py_round 4 x > 100"
proof -
  have "x \<ge> 100 \<Longrightarrow> py_round 4 x \<ge> 100" using py_round_mono [of 100 x 4] by simp
  moreover have "x < 100 \<Longrightarrow> py_round 4 x \<le> 100" using py_round_mono [of x 100 4] by simp
  ultimately show ?thesis using assms by fastforce
qed

text \<open>Every point of a rotation series has a quadrant exactly when both readings exist, and the quadrant
  agrees with the stored, rounded readings: a ratio above 100 is LEADING or WEAKENING, one below is
  LAGGING or IMPROVING, and in the same way for the momentum; only a reading stored as exactly 100
  leaves the side open.\<close>

theorem rrg_readings_consistent:
  "list_all reading_consistent (compute_rrg_series ops window now symbol benchmark security bench)"
proof -
  have "reading_consistent \<lparr>rg_symbol = symbol, rg_benchmark_symbol = benchmark, rg_date = day,
        rg_rs = decimal_or_none v, rg_rs_ratio = decimal_or_none ratio,
        rg_rs_momentum = decimal_or_none mom, rg_quadrant = classify_quadrant ratio mom, rg_computed_at = now\<rparr>"
    for day v ratio mom
    using rounded_side [of "the ratio"] rounded_side [of "the mom"]
    by (cases ratio; cases mom) (auto simp: reading_consistent_def classify_quadrant_def decimal_or_none_def Let_def)
  then show ?thesis by (auto simp: compute_rrg_series_def list_all_iff Let_def)
qed

section \<open>An instance of the parameters\<close>

text \<open>For examples: means, changes and lookups as documented; the mean absolute deviation stands in for
  the standard deviation and a ramp for the normal distribution, which have no rational values.\<close>

definition window_at :: "nat \<Rightarrow> rat option list \<Rightarrow> nat \<Rightarrow> rat list option" where
  "window_at w xs i =
     (let part = take w (drop (Suc i - w) xs)
      in if Suc i < w \<or> None \<in> set part then None else Some (map the part))"

definition mean_of :: "rat list \<Rightarrow> rat" where
  "mean_of ys = sum_list ys / of_nat (length ys)"

definition against_earlier :: "(rat \<Rightarrow> rat \<Rightarrow> rat) \<Rightarrow> nat \<Rightarrow> rat option list \<Rightarrow> rat option list" where
  "against_earlier f p xs = map (\<lambda>i. if i < p then None else nan_lift f (xs ! i) (xs ! (i - p))) [0..<length xs]"

definition demo_frames :: frame_ops where
  "demo_frames =
     \<lparr>fo_rolling_mean = (\<lambda>w xs. map (\<lambda>i. map_option mean_of (window_at w xs i)) [0..<length xs]),
      fo_rolling_std = (\<lambda>w xs. map (\<lambda>i. map_option (\<lambda>ys. mean_of (map (\<lambda>y. \<bar>y - mean_of ys\<bar>) ys)) (window_at w xs i)) [0..<length xs]),
      fo_pct_change = against_earlier (\<lambda>x y. x / y - 1), fo_diff = against_earlier (-),
      fo_reindex = (\<lambda>pairs days. map (\<lambda>d. case map_of pairs d of None \<Rightarrow> None | Some v \<Rightarrow> v) days),
      fo_normal_cdf = (\<lambda>z. clamp 0 1 (1/2 + z / 6))\<rparr>"

end
