(* ===== verification/Sector_Strength.thy ===== *)
theory Sector_Strength
  imports Rrg
begin

text \<open>
  Sector strength and rotation: app/analytics/sector. The weighted average of the available evidence is
  the one the market regime uses, too.
\<close>

section \<open>Evidence\<close>

datatype rotation_state = R_LEADING | R_WEAKENING | R_LAGGING | R_STRENGTHENING

fun rotation_value :: "rotation_state \<Rightarrow> string" where
  "rotation_value R_LEADING = ''LEADING''"
| "rotation_value R_WEAKENING = ''WEAKENING''"
| "rotation_value R_LAGGING = ''LAGGING''"
| "rotation_value R_STRENGTHENING = ''STRENGTHENING''"

record sector_evidence =
  se_sector_symbol :: string
  se_benchmark_symbol :: string
  se_date :: int
  se_rs :: "rat option"
  se_rs_ratio :: "rat option"
  se_rs_momentum :: "rat option"
  se_rotation_state :: "rotation_state option"
  se_momentum_score :: "rat option"
  se_trend_strength :: "rat option"
  se_price_performance_pct :: "rat option"
  se_momentum_acceleration :: "rat option"
  se_breadth :: "rat option"
  se_volume_participation :: "rat option"
  se_score :: "rat option"
  se_evidence_sources_used :: "string list"
  se_missing_evidence :: "string list"
  se_computed_at :: "int option"

fun rotation_state_from_quadrant :: "rrg_quadrant option \<Rightarrow> rotation_state option" where
  "rotation_state_from_quadrant None = None"
| "rotation_state_from_quadrant (Some Q_LEADING) = Some R_LEADING"
| "rotation_state_from_quadrant (Some Q_WEAKENING) = Some R_WEAKENING"
| "rotation_state_from_quadrant (Some Q_LAGGING) = Some R_LAGGING"
| "rotation_state_from_quadrant (Some Q_IMPROVING) = Some R_STRENGTHENING"

definition to_probability_score :: "frame_ops \<Rightarrow> rat option \<Rightarrow> rat option" where
  "to_probability_score ops z = map_option (\<lambda>z. py_round 4 (fo_normal_cdf ops z * 100)) z"

definition clamp_0_100 :: "rat option \<Rightarrow> rat option" where
  "clamp_0_100 v = map_option (clamp 0 100) v"

section \<open>The weighted average of what is available\<close>

type_synonym components = "(string \<times> rat option \<times> rat) list"

definition available_evidence :: "components \<Rightarrow> (string \<times> rat \<times> rat) list" where
  "available_evidence cs = concat (map (\<lambda>(n, v, w). case v of None \<Rightarrow> [] | Some x \<Rightarrow> [(n, x, w)]) cs)"

definition evidence_score :: "components \<Rightarrow> rat option" where
  "evidence_score cs =
     (let available = available_evidence cs;
          weighted_sum = (\<Sum>(n, x, w)\<leftarrow>available. x * w);
          weight_total = (\<Sum>(n, x, w)\<leftarrow>available. w)
      in if weight_total > 0 then Some (py_round 2 (weighted_sum / weight_total)) else None)"

definition evidence_sources_used :: "components \<Rightarrow> string list" where
  "evidence_sources_used cs = map fst (available_evidence cs)"

definition missing_evidence :: "components \<Rightarrow> string list" where
  "missing_evidence cs = map fst (filter (\<lambda>(n, v, w). v = None) cs)"

lemma weighted_average_range:
  fixes xs :: "('a \<times> rat \<times> rat) list"
  assumes "\<And>n x w. (n, x, w) \<in> set xs \<Longrightarrow> 0 \<le> x \<and> x \<le> 100 \<and> 0 \<le> w"
    and "0 < (\<Sum>(n, x, w)\<leftarrow>xs. w)"
  shows "0 \<le> (\<Sum>(n, x, w)\<leftarrow>xs. x * w) / (\<Sum>(n, x, w)\<leftarrow>xs. w)
    \<and> (\<Sum>(n, x, w)\<leftarrow>xs. x * w) / (\<Sum>(n, x, w)\<leftarrow>xs. w) \<le> 100"
proof -
  have "0 \<le> (\<Sum>(n, x, w)\<leftarrow>xs. x * w)"
    using assms(1) by (intro sum_list_nonneg_rat) auto
  moreover have "(\<Sum>(n, x, w)\<leftarrow>xs. x * w) \<le> (\<Sum>(n, x, w)\<leftarrow>xs. 100 * w)"
    using assms(1) by (intro sum_list_mono_rat) (auto intro: mult_right_mono)
  moreover have "(\<Sum>(n, x, w)\<leftarrow>xs. 100 * w) = 100 * (\<Sum>(n, x, w)\<leftarrow>xs. w)"
    by (induction xs) (auto simp: algebra_simps)
  ultimately show ?thesis using assms(2) by (simp add: field_simps)
qed

definition evidence_ok :: "components \<Rightarrow> bool" where
  "evidence_ok cs \<longleftrightarrow> (\<forall>(n, v, w) \<in> set cs. 0 \<le> w \<and> (case v of None \<Rightarrow> True | Some x \<Rightarrow> 0 \<le> x \<and> x \<le> 100))"

lemma evidence_score_range:
  assumes "evidence_ok cs" "evidence_score cs = Some y"
  shows "0 \<le> y \<and> y \<le> 100"
proof -
  have "0 \<le> x \<and> x \<le> 100 \<and> 0 \<le> w" if "(n, x, w) \<in> set (available_evidence cs)" for n x w
    using that assms(1) by (fastforce simp: available_evidence_def evidence_ok_def split: option.splits)
  from weighted_average_range [of "available_evidence cs", OF this] assms(2) show ?thesis
    by (auto simp: evidence_score_def Let_def py_round_0_100 split: if_splits)
qed

lemma evidence_partition:
  "set (map fst cs) = set (evidence_sources_used cs) \<union> set (missing_evidence cs)"
  "length (evidence_sources_used cs) + length (missing_evidence cs) = length cs"
proof -
  show "set (map fst cs) = set (evidence_sources_used cs) \<union> set (missing_evidence cs)"
    by (induction cs) (auto simp: evidence_sources_used_def missing_evidence_def available_evidence_def split: option.split)
  show "length (evidence_sources_used cs) + length (missing_evidence cs) = length cs"
    by (induction cs) (auto simp: evidence_sources_used_def missing_evidence_def available_evidence_def split: option.split)
qed

section \<open>Breadth of a sector\<close>

definition compute_breadth :: "int \<Rightarrow> int \<Rightarrow> py_error + rat option" where
  "compute_breadth advancing_count total_count =
     (if total_count \<le> 0 then Inr None
      else if advancing_count < 0 \<or> advancing_count > total_count then Inl ValueError
      else Inr (Some (of_int advancing_count / of_int total_count * 100)))"

definition compute_volume_participation :: "int \<Rightarrow> int \<Rightarrow> py_error + rat option" where
  "compute_volume_participation above_average_volume_count total_count =
     (if total_count \<le> 0 then Inr None
      else if above_average_volume_count < 0 \<or> above_average_volume_count > total_count then Inl ValueError
      else Inr (Some (of_int above_average_volume_count / of_int total_count * 100)))"

section \<open>One sector\<close>

definition ZSCORE_WINDOW :: nat where
  "ZSCORE_WINDOW = 14"

definition RETURN_LOOKBACK_DAYS :: nat where
  "RETURN_LOOKBACK_DAYS = 20"

text \<open>\<open>series.iloc[-1]\<close>; a missing last value is NaN.\<close>

definition last_of :: "rat option list \<Rightarrow> rat option" where
  "last_of xs = (if xs = [] then None else last xs)"

definition known_column :: "string \<Rightarrow> feature_row list \<Rightarrow> rat option list" where
  "known_column c rows = map Some (concat (map (\<lambda>r. case dec_col r c of None \<Rightarrow> [] | Some x \<Rightarrow> [x]) rows))"

definition momentum_acceleration_of ::
  "frame_ops \<Rightarrow> feature_row list \<Rightarrow> rat option \<times> rat option" where
  "momentum_acceleration_of ops feature_history =
     (let momentum_series = known_column ''momentum_score'' feature_history
      in if length momentum_series > ZSCORE_WINDOW then
           (let momentum_delta = fo_diff ops ZSCORE_WINDOW momentum_series
            in (last_of momentum_delta, last_of (rolling_zscore ops ZSCORE_WINDOW momentum_delta)))
         else (None, None))"

definition price_performance_of :: "frame_ops \<Rightarrow> daily_price list \<Rightarrow> rat option \<times> rat option" where
  "price_performance_of ops price_history =
     (if price_history = [] then (None, None)
      else
        let returns = map (map_option (\<lambda>x. x * 100))
              (fo_pct_change ops RETURN_LOOKBACK_DAYS (map (Some \<circ> snd) (prices_to_frame price_history)))
        in (last_of returns, last_of (rolling_zscore ops ZSCORE_WINDOW returns)))"

definition sector_components ::
  "frame_ops \<Rightarrow> settings \<Rightarrow> rrg_point \<Rightarrow> rat option \<Rightarrow> rat option \<Rightarrow> rat option \<Rightarrow> rat option \<Rightarrow> components" where
  "sector_components ops cfg last_rrg momentum_score trend_strength performance_z acceleration_z =
     [(''relative_strength'', to_probability_score ops (map_option (\<lambda>x. x - 100) (rg_rs_ratio last_rrg)),
        sector_score_weight_relative_strength cfg),
      (''rrg_momentum'', to_probability_score ops (map_option (\<lambda>x. x - 100) (rg_rs_momentum last_rrg)),
        sector_score_weight_rrg_momentum cfg),
      (''momentum'', clamp_0_100 (map_option (\<lambda>x. (x + 100) / 2) momentum_score), sector_score_weight_momentum cfg),
      (''trend'', clamp_0_100 trend_strength, sector_score_weight_trend cfg),
      (''price_performance'', to_probability_score ops performance_z, sector_score_weight_price_performance cfg),
      (''momentum_acceleration'', to_probability_score ops acceleration_z,
        sector_score_weight_momentum_acceleration cfg),
      (''breadth'', None, sector_score_weight_breadth cfg),
      (''volume_participation'', None, sector_score_weight_volume_participation cfg)]"

definition compute_sector_evidence ::
  "frame_ops \<Rightarrow> settings \<Rightarrow> int \<Rightarrow> string \<Rightarrow> string option \<Rightarrow> nat \<Rightarrow> 'x feature_store_scheme \<Rightarrow> sector_evidence option" where
  "compute_sector_evidence ops cfg now sector_symbol benchmark_symbol lookback_days s =
     (case map_of (compute_sector_rrg ops cfg now [sector_symbol] benchmark_symbol lookback_days s) sector_symbol of
        None \<Rightarrow> None
      | Some rrg_points \<Rightarrow>
          (if rrg_points = [] then None
           else case get_by_symbol sector_symbol None s of
             None \<Rightarrow> None
           | Some symbol_row \<Rightarrow>
               (let last_rrg = last rrg_points;
                    feature_history = get_feature_history (sy_id symbol_row) lookback_days s;
                    price_history = get_daily_history (sy_id symbol_row) lookback_days s;
                    momentum_score = (if feature_history = [] then None else dec_col (last feature_history) ''momentum_score'');
                    trend_strength = (if feature_history = [] then None else dec_col (last feature_history) ''trend_strength'');
                    (acceleration_raw, acceleration_z) = momentum_acceleration_of ops feature_history;
                    (performance_raw, performance_z) = price_performance_of ops price_history;
                    cs = sector_components ops cfg last_rrg momentum_score trend_strength performance_z acceleration_z
                in Some \<lparr>se_sector_symbol = sector_symbol, se_benchmark_symbol = rg_benchmark_symbol last_rrg,
                     se_date = rg_date last_rrg, se_rs = rg_rs last_rrg, se_rs_ratio = rg_rs_ratio last_rrg,
                     se_rs_momentum = rg_rs_momentum last_rrg,
                     se_rotation_state = rotation_state_from_quadrant (rg_quadrant last_rrg),
                     se_momentum_score = momentum_score, se_trend_strength = trend_strength,
                     se_price_performance_pct = map_option (py_round 4) performance_raw,
                     se_momentum_acceleration = map_option (py_round 4) acceleration_raw,
                     se_breadth = None, se_volume_participation = None, se_score = evidence_score cs,
                     se_evidence_sources_used = evidence_sources_used cs,
                     se_missing_evidence = missing_evidence cs, se_computed_at = Some (rg_computed_at last_rrg)\<rparr>)))"

section \<open>Rotation\<close>

record rotation_summary =
  rs_sectors :: "sector_evidence list"
  rs_leading :: "string list"
  rs_weakening :: "string list"
  rs_lagging :: "string list"
  rs_strengthening :: "string list"
  rs_no_data :: "string list"
  rs_computed_at :: int

definition add_to_group :: "rotation_state option \<Rightarrow> string \<Rightarrow> rotation_summary \<Rightarrow> rotation_summary" where
  "add_to_group state symbol r =
     (case state of
        None \<Rightarrow> r
      | Some R_LEADING \<Rightarrow> r\<lparr>rs_leading := rs_leading r @ [symbol]\<rparr>
      | Some R_WEAKENING \<Rightarrow> r\<lparr>rs_weakening := rs_weakening r @ [symbol]\<rparr>
      | Some R_LAGGING \<Rightarrow> r\<lparr>rs_lagging := rs_lagging r @ [symbol]\<rparr>
      | Some R_STRENGTHENING \<Rightarrow> r\<lparr>rs_strengthening := rs_strengthening r @ [symbol]\<rparr>)"

definition rotation_step ::
  "(string \<Rightarrow> sector_evidence option) \<Rightarrow> rotation_summary \<Rightarrow> string \<Rightarrow> rotation_summary" where
  "rotation_step evidence_of r symbol =
     (case evidence_of symbol of
        None \<Rightarrow> r\<lparr>rs_no_data := rs_no_data r @ [symbol]\<rparr>
      | Some e \<Rightarrow> add_to_group (se_rotation_state e) symbol (r\<lparr>rs_sectors := rs_sectors r @ [e]\<rparr>))"

text \<open>The sort key \<open>(score is None, -(score or 0))\<close>: scored sectors first, the highest score first.\<close>

definition rotation_order :: "sector_evidence list \<Rightarrow> sector_evidence list" where
  "rotation_order es = sort_key (\<lambda>e. (if se_score e = None then 1 else 0 :: nat))
     (sort_key (\<lambda>e. - opt_else (se_score e) 0) es)"

definition compute_sector_rotation ::
  "frame_ops \<Rightarrow> settings \<Rightarrow> int \<Rightarrow> string list \<Rightarrow> string option \<Rightarrow> nat \<Rightarrow> 'x feature_store_scheme \<Rightarrow> rotation_summary" where
  "compute_sector_rotation ops cfg now sector_symbols benchmark_symbol lookback_days s =
     (let summary = foldl (rotation_step (\<lambda>symbol. compute_sector_evidence ops cfg now symbol benchmark_symbol lookback_days s))
            \<lparr>rs_sectors = [], rs_leading = [], rs_weakening = [], rs_lagging = [], rs_strengthening = [],
             rs_no_data = [], rs_computed_at = now\<rparr> sector_symbols
      in summary\<lparr>rs_sectors := rotation_order (rs_sectors summary)\<rparr>)"

section \<open>Scores are in range\<close>

definition sector_weights_ok :: "settings \<Rightarrow> bool" where
  "sector_weights_ok cfg \<longleftrightarrow>
     0 \<le> sector_score_weight_relative_strength cfg \<and> 0 \<le> sector_score_weight_rrg_momentum cfg
   \<and> 0 \<le> sector_score_weight_momentum cfg \<and> 0 \<le> sector_score_weight_trend cfg
   \<and> 0 \<le> sector_score_weight_price_performance cfg \<and> 0 \<le> sector_score_weight_momentum_acceleration cfg
   \<and> 0 \<le> sector_score_weight_breadth cfg \<and> 0 \<le> sector_score_weight_volume_participation cfg"

text \<open>What the code relies on of the cumulative distribution function.\<close>

definition cdf_ok :: "frame_ops \<Rightarrow> bool" where
  "cdf_ok ops \<longleftrightarrow> (\<forall>z. 0 \<le> fo_normal_cdf ops z \<and> fo_normal_cdf ops z \<le> 1)"

lemma probability_range:
  "cdf_ok ops \<Longrightarrow> to_probability_score ops z = Some x \<Longrightarrow> 0 \<le> x \<and> x \<le> 100"
  by (auto simp: to_probability_score_def cdf_ok_def intro!: py_round_0_100)

lemma clamp_option_range: "clamp_0_100 v = Some x \<Longrightarrow> 0 \<le> x \<and> x \<le> 100"
  by (auto simp: clamp_0_100_def clamp_def)

lemma sector_components_ok:
  assumes "cdf_ok ops" "sector_weights_ok cfg"
  shows "evidence_ok (sector_components ops cfg r m t p a)"
  using assms probability_range [OF assms(1)] clamp_option_range
  unfolding evidence_ok_def sector_components_def sector_weights_ok_def
  by (auto split: option.split)

lemma sector_evidence_score_range:
  assumes "cdf_ok ops" "sector_weights_ok cfg"
    and "compute_sector_evidence ops cfg now symbol benchmark n s = Some e" "se_score e = Some y"
  shows "0 \<le> y \<and> y \<le> 100"
  using assms(3,4) evidence_score_range [OF sector_components_ok [OF assms(1,2)]]
  by (auto simp: compute_sector_evidence_def Let_def split: option.splits if_splits prod.splits)

section \<open>A rotation accounts for every sector\<close>

definition group_of :: "rotation_state \<Rightarrow> rotation_summary \<Rightarrow> string list" where
  "group_of st r = (case st of R_LEADING \<Rightarrow> rs_leading r | R_WEAKENING \<Rightarrow> rs_weakening r
     | R_LAGGING \<Rightarrow> rs_lagging r | R_STRENGTHENING \<Rightarrow> rs_strengthening r)"

lemma rotation_fold:
  fixes ev :: "string \<Rightarrow> sector_evidence option"
  defines "found \<equiv> \<lambda>syms. concat (map (\<lambda>y. case ev y of None \<Rightarrow> [] | Some e \<Rightarrow> [e]) syms)"
  shows "rs_sectors (foldl (rotation_step ev) r syms) = rs_sectors r @ found syms"
    and "rs_no_data (foldl (rotation_step ev) r syms) = rs_no_data r @ filter (\<lambda>y. ev y = None) syms"
    and "group_of st (foldl (rotation_step ev) r syms) = group_of st r @
           filter (\<lambda>y. Option.bind (ev y) se_rotation_state = Some st) syms"
    and "rs_computed_at (foldl (rotation_step ev) r syms) = rs_computed_at r"
  unfolding found_def
  by (induction syms arbitrary: r)
    (auto simp: rotation_step_def add_to_group_def group_of_def split: option.splits rotation_state.splits)

lemma mset_rotation_order [simp]: "mset (rotation_order es) = mset es" "set (rotation_order es) = set es"
  by (simp_all add: rotation_order_def)

lemma binary_sorted:
  fixes P :: "'a \<Rightarrow> bool"
  assumes "sorted (map (\<lambda>e. (if P e then 1 else 0 :: nat)) xs)"
  shows "xs = filter (\<lambda>e. \<not> P e) xs @ filter P xs"
  using assms
proof (induction xs)
  case (Cons x xs)
  show ?case
  proof (cases "P x")
    case True
    then have "\<forall>y \<in> set xs. P y" using Cons.prems by (auto split: if_splits)
    then have "filter P xs = xs" "filter (\<lambda>e. \<not> P e) xs = []" by (simp_all add: filter_empty_conv)
    with True show ?thesis by simp
  qed (use Cons in simp)
qed simp

lemma rotation_order_sorted:
  "rotation_order es = filter (\<lambda>e. se_score e \<noteq> None) (rotation_order es) @ filter (\<lambda>e. se_score e = None) (rotation_order es)"
  "sorted (map (\<lambda>e. - opt_else (se_score e) 0) (filter (\<lambda>e. se_score e \<noteq> None) (rotation_order es)))"
proof -
  let ?k = "\<lambda>e. (if se_score e = None then 1 else 0 :: nat)"
  let ?inner = "sort_key (\<lambda>e. - opt_else (se_score e) 0) es"
  have "sorted (map ?k (rotation_order es))" by (simp add: rotation_order_def)
  then show "rotation_order es = filter (\<lambda>e. se_score e \<noteq> None) (rotation_order es) @ filter (\<lambda>e. se_score e = None) (rotation_order es)"
    by (rule binary_sorted [where P = "\<lambda>e. se_score e = None"])
  have "filter (\<lambda>e. se_score e \<noteq> None) (rotation_order es) = filter (\<lambda>e. ?k e = 0) (rotation_order es)"
    by (rule filter_cong) simp_all
  also have "\<dots> = filter (\<lambda>e. ?k e = 0) ?inner"
    unfolding rotation_order_def by (rule sort_key_stable)
  also have "\<dots> = filter (\<lambda>e. se_score e \<noteq> None) ?inner"
    by (rule filter_cong) simp_all
  finally have "filter (\<lambda>e. se_score e \<noteq> None) (rotation_order es) = filter (\<lambda>e. se_score e \<noteq> None) ?inner" .
  then show "sorted (map (\<lambda>e. - opt_else (se_score e) 0) (filter (\<lambda>e. se_score e \<noteq> None) (rotation_order es)))"
    by (simp add: sorted_filter)
qed

lemma evidence_symbol:
  "compute_sector_evidence ops cfg now symbol benchmark n s = Some e \<Longrightarrow> se_sector_symbol e = symbol"
  by (auto simp: compute_sector_evidence_def Let_def split: option.splits if_splits prod.splits)

lemma found_symbols:
  assumes "\<And>y e. ev y = Some e \<Longrightarrow> se_sector_symbol e = y"
  shows "mset (map se_sector_symbol (concat (map (\<lambda>y. case ev y of None \<Rightarrow> [] | Some e \<Rightarrow> [e]) syms)))
      + mset (filter (\<lambda>y. ev y = None) syms) = mset syms"
  using assms by (induction syms) (auto split: option.split)

text \<open>A sector rotation accounts for every requested symbol: each one has an evidence row or is listed as
  without data, as often as it was requested; the four groups are the symbols in that state, in order
  of request; the rows with a score come first, the highest score first, and every score lies between 0 and 100.\<close>

theorem sector_rotation_accounts:
  assumes "cdf_ok ops" "sector_weights_ok cfg"
  shows "let r = compute_sector_rotation ops cfg now syms benchmark n s;
      evidence = (\<lambda>y. compute_sector_evidence ops cfg now y benchmark n s);
      scored = filter (\<lambda>e. se_score e \<noteq> None) (rs_sectors r)
    in mset (map se_sector_symbol (rs_sectors r)) + mset (rs_no_data r) = mset syms
     \<and> (\<forall>st. group_of st r = filter (\<lambda>y. Option.bind (evidence y) se_rotation_state = Some st) syms)
     \<and> rs_sectors r = scored @ filter (\<lambda>e. se_score e = None) (rs_sectors r)
     \<and> sorted (rev (map (\<lambda>e. the (se_score e)) scored))
     \<and> list_all (\<lambda>e. 0 \<le> the (se_score e) \<and> the (se_score e) \<le> 100) scored"
proof -
  let ?ev = "\<lambda>y. compute_sector_evidence ops cfg now y benchmark n s"
  let ?r = "compute_sector_rotation ops cfg now syms benchmark n s"
  let ?found = "concat (map (\<lambda>y. case ?ev y of None \<Rightarrow> [] | Some e \<Rightarrow> [e]) syms)"
  let ?scored = "filter (\<lambda>e. se_score e \<noteq> None) (rs_sectors ?r)"
  have r: "rs_sectors ?r = rotation_order ?found" "rs_no_data ?r = filter (\<lambda>y. ?ev y = None) syms"
    unfolding compute_sector_rotation_def Let_def by (simp_all add: rotation_fold)
  have groups: "\<forall>st. group_of st ?r = filter (\<lambda>y. Option.bind (?ev y) se_rotation_state = Some st) syms"
    unfolding compute_sector_rotation_def Let_def
    by (auto simp: group_of_def rotation_fold(3) [unfolded group_of_def, where st = R_LEADING, simplified]
        rotation_fold(3) [unfolded group_of_def, where st = R_WEAKENING, simplified]
        rotation_fold(3) [unfolded group_of_def, where st = R_LAGGING, simplified]
        rotation_fold(3) [unfolded group_of_def, where st = R_STRENGTHENING, simplified] split: rotation_state.split)
  have "mset (map se_sector_symbol (rs_sectors ?r)) + mset (rs_no_data ?r) = mset syms"
    using found_symbols [of ?ev, OF evidence_symbol] by (simp add: r)
  moreover have order: "rs_sectors ?r = ?scored @ filter (\<lambda>e. se_score e = None) (rs_sectors ?r)"
    unfolding r(1) by (rule rotation_order_sorted(1))
  moreover have "sorted (rev (map (\<lambda>e. the (se_score e)) ?scored))"
  proof -
    have "map (\<lambda>e. - opt_else (se_score e) 0) ?scored = map uminus (map (\<lambda>e. the (se_score e)) ?scored)"
      by (auto simp: opt_else_def split: option.split)
    then have "sorted (map uminus (map (\<lambda>e. the (se_score e)) ?scored))"
      using rotation_order_sorted(2) [of ?found] by (simp only: r(1))
    then show ?thesis by (simp add: sorted_wrt_rev sorted_map sorted_wrt_map)
  qed
  moreover have "list_all (\<lambda>e. 0 \<le> the (se_score e) \<and> the (se_score e) \<le> 100) ?scored"
  proof -
    have "0 \<le> y \<and> y \<le> 100" if "e \<in> set (rs_sectors ?r)" "se_score e = Some y" for e y
    proof -
      from that(1) obtain sym where "?ev sym = Some e" by (auto simp: r split: option.splits)
      then show ?thesis using sector_evidence_score_range [OF assms] that(2) by blast
    qed
    then show ?thesis by (auto simp: list_all_iff)
  qed
  ultimately show ?thesis using groups unfolding Let_def by blast
qed

definition sector_symbol_row :: "int \<Rightarrow> string \<Rightarrow> symbol_row" where
  "sector_symbol_row i name = (new_symbol i (sample_listing ''NSE''))\<lparr>sy_symbol := name\<rparr>"

definition sample_sectors :: feature_store where
  "sample_sectors = momentum_store.extend
     (demo_momentum\<lparr>symbols := [sector_symbol_row 1 ''NIFTY'', sector_symbol_row 2 ''NIFTY IT'', sector_symbol_row 3 ''BANKNIFTY''],
        daily_prices := [sample_bar 100, (sample_bar 100)\<lparr>dp_symbol_id := 2\<rparr>, (sample_bar 100)\<lparr>dp_symbol_id := 3\<rparr>]\<rparr>)
     (feature_store.fields
       [\<lparr>fr_symbol_id = 2, fr_date = 100, fr_cols = [''momentum_score'' \<mapsto> PyFloat 20, ''trend_strength'' \<mapsto> PyFloat 30]\<rparr>,
        \<lparr>fr_symbol_id = 3, fr_date = 100, fr_cols = [''momentum_score'' \<mapsto> PyFloat 50, ''trend_strength'' \<mapsto> PyFloat 80]\<rparr>] [])"

lemma demo_cdf_ok: "cdf_ok demo_frames"
  by (simp add: cdf_ok_def demo_frames_def clamp_def)

theorem sector_rotation_accounts_witness:
  "map (\<lambda>e. (se_sector_symbol e, se_score e))
      (rs_sectors (compute_sector_rotation demo_frames default_settings 0 [''NIFTY IT'', ''NIFTY REALTY'', ''BANKNIFTY''] None 250 sample_sectors))
     = [(''BANKNIFTY'', Some (155/2)), (''NIFTY IT'', Some 45)]
   \<and> mset (map se_sector_symbol
        (rs_sectors (compute_sector_rotation demo_frames default_settings 0 [''NIFTY IT'', ''NIFTY REALTY'', ''BANKNIFTY''] None 250 sample_sectors)))
      + mset (rs_no_data (compute_sector_rotation demo_frames default_settings 0 [''NIFTY IT'', ''NIFTY REALTY'', ''BANKNIFTY''] None 250 sample_sectors))
     = {#''NIFTY IT'', ''NIFTY REALTY'', ''BANKNIFTY''#}"
proof
  show "map (\<lambda>e. (se_sector_symbol e, se_score e))
      (rs_sectors (compute_sector_rotation demo_frames default_settings 0 [''NIFTY IT'', ''NIFTY REALTY'', ''BANKNIFTY''] None 250 sample_sectors))
     = [(''BANKNIFTY'', Some (155/2)), (''NIFTY IT'', Some 45)]" by code_simp
  have w: "sector_weights_ok default_settings" by (simp add: sector_weights_ok_def default_settings_def)
  from sector_rotation_accounts [OF demo_cdf_ok w, of 0 "[''NIFTY IT'', ''NIFTY REALTY'', ''BANKNIFTY'']" None 250 sample_sectors]
  show "mset (map se_sector_symbol
        (rs_sectors (compute_sector_rotation demo_frames default_settings 0 [''NIFTY IT'', ''NIFTY REALTY'', ''BANKNIFTY''] None 250 sample_sectors)))
      + mset (rs_no_data (compute_sector_rotation demo_frames default_settings 0 [''NIFTY IT'', ''NIFTY REALTY'', ''BANKNIFTY''] None 250 sample_sectors))
     = {#''NIFTY IT'', ''NIFTY REALTY'', ''BANKNIFTY''#}"
    unfolding Let_def by simp
qed

end
