(* ===== verification/Market_Regime.thy ===== *)
theory Market_Regime
  imports Sector_Strength Fundamental_Store
begin

text \<open>
  Market breadth and regime: app/analytics/market, the snapshot tables of both analytics
  (app/models/market_regime_snapshot.py, sector_rrg_snapshot.py and their repositories) and the job that
  fills them, app/scheduler/analytics_snapshot_jobs.py. The host's date is an argument.
\<close>

section \<open>Breadth\<close>

record breadth_counts =
  bc_advancing :: nat
  bc_declining :: nat
  bc_unchanged :: nat
  bc_up_volume :: int
  bc_down_volume :: int
  bc_with_ema20 :: nat
  bc_above_ema20 :: nat
  bc_with_ema50 :: nat
  bc_above_ema50 :: nat
  bc_with_ema200 :: nat
  bc_above_ema200 :: nat
  bc_new_highs :: nat
  bc_new_lows :: nat
  bc_as_of :: "int option"

record market_breadth =
  mb_as_of :: int
  mb_computed_at :: int
  mb_total_symbols :: nat
  mb_counts :: breadth_counts
  mb_advance_decline_pct :: "rat option"
  mb_up_down_volume_pct :: "rat option"
  mb_pct_above_ema20 :: "rat option"
  mb_pct_above_ema50 :: "rat option"
  mb_pct_above_ema200 :: "rat option"
  mb_symbols_with_52wk_range :: nat
  mb_new_highs_lows_net_pct :: "rat option"
  mb_pct_above_vwap :: "rat option"
  mb_vwap_coverage_symbols :: nat
  mb_vwap_coverage_total :: nat

definition pct :: "int \<Rightarrow> int \<Rightarrow> rat option" where
  "pct numerator denominator =
     (if denominator \<le> 0 then None else Some (of_int numerator / of_int denominator * 100))"

definition no_counts :: breadth_counts where
  "no_counts = \<lparr>bc_advancing = 0, bc_declining = 0, bc_unchanged = 0, bc_up_volume = 0, bc_down_volume = 0,
     bc_with_ema20 = 0, bc_above_ema20 = 0, bc_with_ema50 = 0, bc_above_ema50 = 0, bc_with_ema200 = 0,
     bc_above_ema200 = 0, bc_new_highs = 0, bc_new_lows = 0, bc_as_of = None\<rparr>"

text \<open>The four parts of the loop body.\<close>

definition count_as_of :: "daily_price \<Rightarrow> breadth_counts \<Rightarrow> breadth_counts" where
  "count_as_of today c =
     (if (case bc_as_of c of None \<Rightarrow> True | Some d \<Rightarrow> dp_date today > d) then c\<lparr>bc_as_of := Some (dp_date today)\<rparr> else c)"

definition count_move :: "daily_price \<Rightarrow> daily_price option \<Rightarrow> breadth_counts \<Rightarrow> breadth_counts" where
  "count_move today prior c =
     (case prior of
        None \<Rightarrow> c
      | Some p \<Rightarrow>
          if dp_close today > dp_close p then
            c\<lparr>bc_advancing := Suc (bc_advancing c), bc_up_volume := bc_up_volume c + dp_volume today\<rparr>
          else if dp_close today < dp_close p then
            c\<lparr>bc_declining := Suc (bc_declining c), bc_down_volume := bc_down_volume c + dp_volume today\<rparr>
          else c\<lparr>bc_unchanged := Suc (bc_unchanged c)\<rparr>)"

definition count_emas :: "daily_price \<Rightarrow> feature_row option \<Rightarrow> breadth_counts \<Rightarrow> breadth_counts" where
  "count_emas today feature c =
     (case feature of
        None \<Rightarrow> c
      | Some f \<Rightarrow>
          (let ema = (\<lambda>name. dec_col f name);
               above = (\<lambda>x. if dp_close today > x then 1 else 0);
               c1 = (case ema ''ema20'' of None \<Rightarrow> c
                     | Some x \<Rightarrow> c\<lparr>bc_with_ema20 := Suc (bc_with_ema20 c), bc_above_ema20 := bc_above_ema20 c + above x\<rparr>);
               c2 = (case ema ''ema50'' of None \<Rightarrow> c1
                     | Some x \<Rightarrow> c1\<lparr>bc_with_ema50 := Suc (bc_with_ema50 c1), bc_above_ema50 := bc_above_ema50 c1 + above x\<rparr>)
           in case ema ''ema200'' of None \<Rightarrow> c2
              | Some x \<Rightarrow> c2\<lparr>bc_with_ema200 := Suc (bc_with_ema200 c2), bc_above_ema200 := bc_above_ema200 c2 + above x\<rparr>))"

definition count_extremes :: "daily_price \<Rightarrow> (rat \<times> rat) option \<Rightarrow> breadth_counts \<Rightarrow> breadth_counts" where
  "count_extremes today range_52wk c =
     (case range_52wk of
        None \<Rightarrow> c
      | Some (high_52wk, low_52wk) \<Rightarrow>
          (let c1 = (if dp_high today \<ge> high_52wk then c\<lparr>bc_new_highs := Suc (bc_new_highs c)\<rparr> else c)
           in if dp_low today \<le> low_52wk then c1\<lparr>bc_new_lows := Suc (bc_new_lows c1)\<rparr> else c1))"

definition count_symbol ::
  "(int \<rightharpoonup> daily_price) \<Rightarrow> (int \<rightharpoonup> feature_row) \<Rightarrow> (int \<rightharpoonup> rat \<times> rat) \<Rightarrow> int \<times> daily_price
     \<Rightarrow> breadth_counts \<Rightarrow> breadth_counts" where
  "count_symbol prior_prices features ranges_52wk entry c =
     (case entry of (symbol_id, today) \<Rightarrow>
        count_extremes today (ranges_52wk symbol_id)
          (count_emas today (features symbol_id)
            (count_move today (prior_prices symbol_id) (count_as_of today c))))"

text \<open>The items of a bulk query's dictionary, one per requested key.\<close>

definition bulk_items :: "int list \<Rightarrow> (int \<rightharpoonup> 'a) \<Rightarrow> (int \<times> 'a) list" where
  "bulk_items ids m = concat (map (\<lambda>i. case m i of None \<Rightarrow> [] | Some v \<Rightarrow> [(i, v)]) (remdups ids))"

definition compute_market_breadth :: "int \<Rightarrow> int \<Rightarrow> 'x feature_store_scheme \<Rightarrow> market_breadth" where
  "compute_market_breadth host_today now s =
     (let syms = list_active s;
          symbol_ids = map sy_id syms;
          today_prices = bulk_items symbol_ids (get_daily_bulk_at_rank symbol_ids 1 s);
          prior_prices = get_daily_bulk_at_rank symbol_ids 2 s;
          features = get_latest_features_bulk symbol_ids s;
          ranges_52wk = get_52_week_high_low_bulk host_today symbol_ids s;
          n_ranges = length (bulk_items symbol_ids ranges_52wk);
          vwap_coverage = length (filter (\<lambda>(_, f). dec_col f ''session_vwap'' \<noteq> None)
            (bulk_items symbol_ids (get_latest_session_bulk symbol_ids s)));
          c = fold (count_symbol prior_prices features ranges_52wk) today_prices no_counts;
          net_ratio = clamp (- 1) 1 (of_int (int (bc_new_highs c) - int (bc_new_lows c)) / of_nat n_ranges)
      in \<lparr>mb_as_of = opt_else (bc_as_of c) host_today, mb_computed_at = now, mb_total_symbols = length syms,
          mb_counts = c,
          mb_advance_decline_pct = pct (int (bc_advancing c)) (int (bc_advancing c + bc_declining c)),
          mb_up_down_volume_pct = pct (bc_up_volume c) (bc_up_volume c + bc_down_volume c),
          mb_pct_above_ema20 = pct (int (bc_above_ema20 c)) (int (bc_with_ema20 c)),
          mb_pct_above_ema50 = pct (int (bc_above_ema50 c)) (int (bc_with_ema50 c)),
          mb_pct_above_ema200 = pct (int (bc_above_ema200 c)) (int (bc_with_ema200 c)),
          mb_symbols_with_52wk_range = n_ranges,
          mb_new_highs_lows_net_pct = (if n_ranges = 0 then None else Some (50 + net_ratio * 50)),
          mb_pct_above_vwap = None, mb_vwap_coverage_symbols = vwap_coverage,
          mb_vwap_coverage_total = length syms\<rparr>)"

section \<open>Regime\<close>

datatype regime_state = SUPPORTIVE | RG_NEUTRAL | RISK_OFF

fun regime_value :: "regime_state \<Rightarrow> string" where
  "regime_value SUPPORTIVE = ''SUPPORTIVE''"
| "regime_value RG_NEUTRAL = ''NEUTRAL''"
| "regime_value RISK_OFF = ''RISK_OFF''"

record market_regime =
  mr_as_of :: int
  mr_computed_at :: int
  mr_breadth :: market_breadth
  mr_index_symbol :: string
  mr_index_trend_direction :: "string option"
  mr_index_trend_strength :: "rat option"
  mr_volatility_index_symbol :: "string option"
  mr_volatility_state :: "string option"
  mr_sector_leading_pct :: "rat option"
  mr_score :: "rat option"
  mr_regime :: "regime_state option"
  mr_evidence_sources_used :: "string list"
  mr_missing_evidence :: "string list"

definition SUPPORTIVE_THRESHOLD :: rat where
  "SUPPORTIVE_THRESHOLD = 200 / 3"

definition RISK_OFF_THRESHOLD :: rat where
  "RISK_OFF_THRESHOLD = 100 / 3"

definition index_trend_score :: "string option \<Rightarrow> rat option \<Rightarrow> rat option" where
  "index_trend_score direction strength =
     (case (direction, strength) of
        (Some d, Some x) \<Rightarrow>
          (let clamped = clamp 0 100 x
           in Some (if d = ''up'' then clamped else if d = ''down'' then 100 - clamped else 50))
      | _ \<Rightarrow> None)"

definition average_ma_pct :: "market_breadth \<Rightarrow> rat option" where
  "average_ma_pct b =
     (let vs = concat (map (\<lambda>v. case v of None \<Rightarrow> [] | Some x \<Rightarrow> [x])
            [mb_pct_above_ema20 b, mb_pct_above_ema50 b, mb_pct_above_ema200 b])
      in if vs = [] then None else Some (sum_list vs / of_nat (length vs)))"

definition classify_regime :: "rat option \<Rightarrow> regime_state option" where
  "classify_regime score =
     (case score of
        None \<Rightarrow> None
      | Some x \<Rightarrow>
          Some (if x \<ge> SUPPORTIVE_THRESHOLD then SUPPORTIVE
                else if x \<le> RISK_OFF_THRESHOLD then RISK_OFF else RG_NEUTRAL))"

definition index_volatility :: "frame_ops \<Rightarrow> feature_row list \<Rightarrow> rat option" where
  "index_volatility ops feature_history =
     (let bb_width_series = known_column ''bb_width'' feature_history
      in if length bb_width_series > ZSCORE_WINDOW
         then map_option (\<lambda>z. z - 100) (last_of (rolling_zscore ops ZSCORE_WINDOW bb_width_series)) else None)"

definition volatility_state :: "rat option \<Rightarrow> string option" where
  "volatility_state z =
     map_option (\<lambda>z. if z > 0 then ''expansion'' else if z < 0 then ''contraction'' else ''neutral'') z"

definition str_col :: "feature_row \<Rightarrow> string \<Rightarrow> string option" where
  "str_col f c = (case col f c of PyStr v \<Rightarrow> Some v | _ \<Rightarrow> None)"

definition sector_leading_pct ::
  "frame_ops \<Rightarrow> settings \<Rightarrow> int \<Rightarrow> string list option \<Rightarrow> nat \<Rightarrow> 'x feature_store_scheme \<Rightarrow> rat option" where
  "sector_leading_pct ops cfg now sector_symbols lookback_days s =
     (case sector_symbols of
        None \<Rightarrow> None
      | Some syms \<Rightarrow>
          if syms = [] then None
          else
            let summary = compute_sector_rotation ops cfg now syms None lookback_days s;
                resolved = length (rs_sectors summary);
                leading_count = length (rs_leading summary) + length (rs_strengthening summary)
            in if resolved > 0 then Some (of_nat leading_count / of_nat resolved * 100) else None)"

definition regime_components ::
  "frame_ops \<Rightarrow> settings \<Rightarrow> market_breadth \<Rightarrow> string option \<Rightarrow> rat option \<Rightarrow> rat option \<Rightarrow> rat option \<Rightarrow> components" where
  "regime_components ops cfg b direction strength volatility_z leading_pct =
     [(''advance_decline'', mb_advance_decline_pct b, market_regime_weight_advance_decline cfg),
      (''up_down_volume'', mb_up_down_volume_pct b, market_regime_weight_up_down_volume cfg),
      (''pct_above_ma'', average_ma_pct b, market_regime_weight_pct_above_ma cfg),
      (''new_highs_lows'', mb_new_highs_lows_net_pct b, market_regime_weight_new_highs_lows cfg),
      (''index_trend'', index_trend_score direction strength, market_regime_weight_index_trend cfg),
      (''volatility'', to_probability_score ops (map_option uminus volatility_z), market_regime_weight_volatility cfg),
      (''sector_participation'', leading_pct, market_regime_weight_sector_participation cfg)]"

definition compute_market_regime ::
  "frame_ops \<Rightarrow> settings \<Rightarrow> int \<Rightarrow> int \<Rightarrow> string option \<Rightarrow> string list option \<Rightarrow> nat \<Rightarrow> 'x feature_store_scheme
     \<Rightarrow> market_regime" where
  "compute_market_regime ops cfg host_today now index_symbol sector_symbols lookback_days s =
     (let index = benchmark_or_default cfg index_symbol;
          breadth = compute_market_breadth host_today now s;
          feature_history = (case get_by_symbol index None s of
             None \<Rightarrow> [] | Some row \<Rightarrow> get_feature_history (sy_id row) lookback_days s);
          direction = (if feature_history = [] then None else str_col (last feature_history) ''trend_direction'');
          strength = (if feature_history = [] then None else dec_col (last feature_history) ''trend_strength'');
          volatility_z = index_volatility ops feature_history;
          vstate = volatility_state volatility_z;
          leading_pct = sector_leading_pct ops cfg now sector_symbols lookback_days s;
          cs = regime_components ops cfg breadth direction strength volatility_z leading_pct;
          score = evidence_score cs
      in \<lparr>mr_as_of = mb_as_of breadth, mr_computed_at = now, mr_breadth = breadth, mr_index_symbol = index,
          mr_index_trend_direction = direction, mr_index_trend_strength = strength,
          mr_volatility_index_symbol = (if vstate \<noteq> None then Some index else None),
          mr_volatility_state = vstate, mr_sector_leading_pct = leading_pct, mr_score = score,
          mr_regime = classify_regime score, mr_evidence_sources_used = evidence_sources_used cs,
          mr_missing_evidence = missing_evidence cs\<rparr>)"

section \<open>The counts\<close>

definition counts_ok :: "breadth_counts \<Rightarrow> bool" where
  "counts_ok c \<longleftrightarrow> bc_above_ema20 c \<le> bc_with_ema20 c \<and> bc_above_ema50 c \<le> bc_with_ema50 c
     \<and> bc_above_ema200 c \<le> bc_with_ema200 c \<and> 0 \<le> bc_up_volume c \<and> 0 \<le> bc_down_volume c"

definition moves :: "breadth_counts \<Rightarrow> nat" where
  "moves c = bc_advancing c + bc_declining c + bc_unchanged c"

lemma count_symbol_ok:
  assumes "counts_ok c" "0 \<le> dp_volume today"
  shows "counts_ok (count_symbol prior features ranges (i, today) c)"
proof -
  have "counts_ok (count_as_of today c)" using assms(1) by (simp add: counts_ok_def count_as_of_def)
  then have "counts_ok (count_move today (prior i) (count_as_of today c))"
    using assms(2) by (auto simp: counts_ok_def count_move_def split: option.split)
  then have "counts_ok (count_emas today (features i) (count_move today (prior i) (count_as_of today c)))"
    by (auto simp: counts_ok_def count_emas_def Let_def split: option.split)
  then show ?thesis
    by (auto simp: counts_ok_def count_symbol_def count_extremes_def Let_def split: option.split)
qed

lemma moves_parts:
  "moves (count_as_of today c) = moves c"
  "moves (count_move today prior c) = moves c + (if prior = None then 0 else 1)"
  "moves (count_emas today f c) = moves c"
  "moves (count_extremes today ext c) = moves c"
  by (auto simp: moves_def count_as_of_def count_move_def count_emas_def count_extremes_def Let_def split: option.split)

lemma count_symbol_moves:
  "moves (count_symbol prior features ranges (i, today) c) = moves c + (if prior i = None then 0 else 1)"
  by (simp add: count_symbol_def moves_parts)

lemma count_fold_ok:
  assumes "\<And>i p. (i, p) \<in> set entries \<Longrightarrow> 0 \<le> dp_volume p" "counts_ok c"
  shows "counts_ok (fold (count_symbol prior features ranges) entries c)"
  using assms
proof (induction entries arbitrary: c)
  case (Cons e entries)
  obtain i p where e: "e = (i, p)" by (cases e)
  have "counts_ok (count_symbol prior features ranges e c)"
    using Cons.prems unfolding e by (intro count_symbol_ok) auto
  then show ?case by (auto intro!: Cons.IH Cons.prems(1))
qed simp

lemma count_fold_moves:
  "moves (fold (count_symbol prior features ranges) entries c) =
     moves c + length (filter (\<lambda>(i, p). prior i \<noteq> None) entries)"
  by (induction entries arbitrary: c) (auto simp: count_symbol_moves)

lemma pct_range:
  assumes "0 \<le> a" "a \<le> b" "pct a b = Some x"
  shows "0 \<le> x \<and> x \<le> 100"
proof -
  define q where "q = (of_int a :: rat) / of_int b"
  from assms have "0 < b" "x = q * 100" by (auto simp: pct_def q_def split: if_splits)
  moreover from this assms have "0 \<le> q" "q \<le> 1" by (simp_all add: q_def)
  ultimately show ?thesis by simp
qed

definition volumes_ok :: "'x market_store_scheme \<Rightarrow> bool" where
  "volumes_ok s \<longleftrightarrow> (\<forall>p \<in> set (daily_prices s). 0 \<le> dp_volume p)"

lemma bulk_items_member: "(i, v) \<in> set (bulk_items ids m) \<longleftrightarrow> i \<in> set ids \<and> m i = Some v"
  by (auto simp: bulk_items_def split: option.splits)

lemma bulk_daily_member:
  assumes "get_daily_bulk_at_rank ids rank s i = Some p"
  shows "p \<in> set (daily_prices s)"
proof -
  have "p \<in> set (daily_newest_first i s)"
    using assms by (auto simp: get_daily_bulk_at_rank_def split: if_splits intro!: nth_mem)
  then show ?thesis by (simp add: daily_newest_first_def)
qed

lemma breadth_counts_of:
  assumes "volumes_ok s"
  defines "ids \<equiv> map sy_id (list_active s)"
  shows "counts_ok (mb_counts (compute_market_breadth host now s))"
    and "moves (mb_counts (compute_market_breadth host now s)) =
      length (filter (\<lambda>(i, p). get_daily_bulk_at_rank ids 2 s i \<noteq> None) (bulk_items ids (get_daily_bulk_at_rank ids 1 s)))"
proof -
  have v: "0 \<le> dp_volume p" if "(i, p) \<in> set (bulk_items ids (get_daily_bulk_at_rank ids 1 s))" for i p
    using that bulk_daily_member [of ids 1 s i p] assms(1) by (auto simp: bulk_items_member volumes_ok_def)
  have z: "counts_ok no_counts" "moves no_counts = 0" by (simp_all add: counts_ok_def no_counts_def moves_def)
  show "counts_ok (mb_counts (compute_market_breadth host now s))"
    using count_fold_ok [OF v z(1)] unfolding compute_market_breadth_def Let_def ids_def by simp
  show "moves (mb_counts (compute_market_breadth host now s)) =
      length (filter (\<lambda>(i, p). get_daily_bulk_at_rank ids 2 s i \<noteq> None) (bulk_items ids (get_daily_bulk_at_rank ids 1 s)))"
    using count_fold_moves z(2) unfolding compute_market_breadth_def Let_def ids_def by simp
qed

definition pct_ok :: "rat option \<Rightarrow> bool" where
  "pct_ok v \<longleftrightarrow> (case v of None \<Rightarrow> True | Some x \<Rightarrow> 0 \<le> x \<and> x \<le> 100)"

lemma pct_ok_pct: "0 \<le> a \<Longrightarrow> a \<le> b \<Longrightarrow> pct_ok (pct a b)"
  using pct_range [of a b] by (auto simp: pct_ok_def split: option.split)

definition breadth_ok :: "market_breadth \<Rightarrow> bool" where
  "breadth_ok b \<longleftrightarrow> list_all pct_ok [mb_advance_decline_pct b, mb_up_down_volume_pct b, mb_pct_above_ema20 b,
     mb_pct_above_ema50 b, mb_pct_above_ema200 b, mb_new_highs_lows_net_pct b]"

lemma breadth_percentages:
  assumes "volumes_ok s"
  shows "breadth_ok (compute_market_breadth host now s)"
proof -
  let ?b = "compute_market_breadth host now s"
  let ?c = "mb_counts ?b"
  have c: "counts_ok ?c" using breadth_counts_of(1) [OF assms] .
  have eqs: "mb_advance_decline_pct ?b = pct (int (bc_advancing ?c)) (int (bc_advancing ?c + bc_declining ?c))"
    "mb_up_down_volume_pct ?b = pct (bc_up_volume ?c) (bc_up_volume ?c + bc_down_volume ?c)"
    "mb_pct_above_ema20 ?b = pct (int (bc_above_ema20 ?c)) (int (bc_with_ema20 ?c))"
    "mb_pct_above_ema50 ?b = pct (int (bc_above_ema50 ?c)) (int (bc_with_ema50 ?c))"
    "mb_pct_above_ema200 ?b = pct (int (bc_above_ema200 ?c)) (int (bc_with_ema200 ?c))"
    unfolding compute_market_breadth_def Let_def by simp_all
  have net: "pct_ok (mb_new_highs_lows_net_pct ?b)"
  proof -
    have range: "- 1 \<le> clamp (- 1) 1 x \<and> clamp (- 1) 1 x \<le> 1" for x :: rat by (rule clamp_range) simp
    have "0 \<le> 50 + clamp (- 1) 1 x * 50 \<and> 50 + clamp (- 1) 1 x * 50 \<le> 100" for x :: rat
      using range [of x] by linarith
    then show ?thesis unfolding compute_market_breadth_def Let_def by (simp add: pct_ok_def)
  qed
  have "pct_ok (mb_advance_decline_pct ?b)" "pct_ok (mb_up_down_volume_pct ?b)" "pct_ok (mb_pct_above_ema20 ?b)"
    "pct_ok (mb_pct_above_ema50 ?b)" "pct_ok (mb_pct_above_ema200 ?b)"
    unfolding eqs using c by (auto simp: counts_ok_def intro!: pct_ok_pct)
  with net show ?thesis by (simp add: breadth_ok_def)
qed

section \<open>The regime score\<close>

definition regime_weights_ok :: "settings \<Rightarrow> bool" where
  "regime_weights_ok cfg \<longleftrightarrow>
     0 \<le> market_regime_weight_advance_decline cfg \<and> 0 \<le> market_regime_weight_up_down_volume cfg
   \<and> 0 \<le> market_regime_weight_pct_above_ma cfg \<and> 0 \<le> market_regime_weight_new_highs_lows cfg
   \<and> 0 \<le> market_regime_weight_index_trend cfg \<and> 0 \<le> market_regime_weight_volatility cfg
   \<and> 0 \<le> market_regime_weight_sector_participation cfg"

lemma average_range:
  fixes xs :: "rat list"
  assumes "\<And>x. x \<in> set xs \<Longrightarrow> 0 \<le> x \<and> x \<le> 100" "xs \<noteq> []"
  shows "0 \<le> sum_list xs / of_nat (length xs) \<and> sum_list xs / of_nat (length xs) \<le> 100"
proof -
  have "0 \<le> sum_list xs" using assms(1) by (intro sum_list_nonneg) auto
  moreover have "sum_list xs \<le> 100 * of_nat (length xs)"
    using sum_list_mono_rat [of xs "\<lambda>x. x" "\<lambda>_. 100"] assms(1) by (simp add: sum_list_triv mult.commute)
  ultimately show ?thesis using assms(2) by (simp add: divide_le_eq)
qed

lemma average_ma_ok: "breadth_ok b \<Longrightarrow> pct_ok (average_ma_pct b)"
proof -
  assume ok: "breadth_ok b"
  define vs where "vs = concat (map (\<lambda>v. case v of None \<Rightarrow> [] | Some x \<Rightarrow> [x])
            [mb_pct_above_ema20 b, mb_pct_above_ema50 b, mb_pct_above_ema200 b])"
  have "0 \<le> x \<and> x \<le> 100" if "x \<in> set vs" for x
    using that ok by (auto simp: vs_def breadth_ok_def pct_ok_def split: option.splits)
  from average_range [OF this] show ?thesis
    unfolding average_ma_pct_def Let_def vs_def [symmetric] pct_ok_def by simp
qed

lemma trend_score_ok: "pct_ok (index_trend_score d x)"
  by (cases d; cases x) (auto simp: index_trend_score_def pct_ok_def clamp_def Let_def)

lemma probability_ok: "cdf_ok ops \<Longrightarrow> pct_ok (to_probability_score ops z)"
  using probability_range by (auto simp: pct_ok_def split: option.split)

lemma leading_ok: "pct_ok (sector_leading_pct ops cfg now syms n s)"
proof -
  have "length (filter (\<lambda>y. P y) ys) + length (filter (\<lambda>y. Q y) ys) \<le> length (filter R ys)"
    if "\<And>y. P y \<Longrightarrow> R y \<and> \<not> Q y" "\<And>y. Q y \<Longrightarrow> R y" for P Q R and ys :: "string list"
    using that by (induction ys) auto
  note two = this
  have found: "length (concat (map (\<lambda>y. case ev y of None \<Rightarrow> [] | Some e \<Rightarrow> [e]) ys)) = length (filter (\<lambda>y. ev y \<noteq> None) ys)"
    for ev :: "string \<Rightarrow> sector_evidence option" and ys by (induction ys) (auto split: option.split)
  have "length (rs_leading r) + length (rs_strengthening r) \<le> length (rs_sectors r)"
    if "r = compute_sector_rotation ops cfg now ys None n s" for r ys
  proof -
    let ?ev = "\<lambda>y. compute_sector_evidence ops cfg now y None n s"
    let ?in = "\<lambda>st y. Option.bind (?ev y) se_rotation_state = Some st"
    have "rs_leading r = filter (?in R_LEADING) ys" "rs_strengthening r = filter (?in R_STRENGTHENING) ys"
      using rotation_fold(3) [where st = R_LEADING and ev = ?ev] rotation_fold(3) [where st = R_STRENGTHENING and ev = ?ev]
      by (simp_all add: that compute_sector_rotation_def Let_def group_of_def)
    moreover have "length (rs_sectors r) = length (filter (\<lambda>y. ?ev y \<noteq> None) ys)"
    proof -
      have "mset (rs_sectors r) = mset (concat (map (\<lambda>y. case ?ev y of None \<Rightarrow> [] | Some e \<Rightarrow> [e]) ys))"
        by (simp add: that compute_sector_rotation_def Let_def rotation_fold(1) del: mset_concat)
      then show ?thesis using found [of ?ev ys] mset_eq_length by fastforce
    qed
    moreover have "length (filter (?in R_LEADING) ys) + length (filter (?in R_STRENGTHENING) ys)
        \<le> length (filter (\<lambda>y. ?ev y \<noteq> None) ys)" by (rule two) (auto simp: bind_eq_Some_conv)
    ultimately show ?thesis by (simp only:)
  qed
  then show ?thesis
    by (auto simp: sector_leading_pct_def pct_ok_def Let_def divide_le_eq of_nat_add [symmetric] simp del: of_nat_add
        split: option.split)
qed

lemma regime_components_ok:
  assumes "cdf_ok ops" "regime_weights_ok cfg" "breadth_ok b" "pct_ok l"
  shows "evidence_ok (regime_components ops cfg b d x z l)"
  using assms probability_ok [OF assms(1)] average_ma_ok [OF assms(3)] trend_score_ok
  unfolding evidence_ok_def regime_components_def regime_weights_ok_def breadth_ok_def pct_ok_def
  by (simp split: option.splits)

text \<open>A score has two decimals, so the thirds fall between 66.66 and 66.67, and 33.33 and 33.34.\<close>

lemma regime_thirds:
  assumes "y = py_round 2 x"
  shows "SUPPORTIVE_THRESHOLD \<le> y \<longleftrightarrow> 6667 / 100 \<le> y" "y \<le> RISK_OFF_THRESHOLD \<longleftrightarrow> y \<le> 3333 / 100"
proof -
  obtain k where k: "y = of_int k / 100" using assms by (simp add: py_round_def)
  have "(200 / 3 \<le> (of_int k / 100 :: rat)) = ((of_int 20000 :: rat) \<le> of_int (3 * k))" by (simp add: field_simps)
  also have "\<dots> = (20000 \<le> 3 * k)" by (simp only: of_int_le_iff)
  also have "\<dots> = (6667 \<le> k)" by presburger
  also have "\<dots> = (6667 / 100 \<le> (of_int k / 100 :: rat))" by (simp add: divide_le_cancel)
  finally show "SUPPORTIVE_THRESHOLD \<le> y \<longleftrightarrow> 6667 / 100 \<le> y" by (simp add: SUPPORTIVE_THRESHOLD_def k)
  have "((of_int k / 100 :: rat) \<le> 100 / 3) = ((of_int (3 * k) :: rat) \<le> of_int 10000)" by (simp add: field_simps)
  also have "\<dots> = (3 * k \<le> 10000)" by (simp only: of_int_le_iff)
  also have "\<dots> = (k \<le> 3333)" by presburger
  also have "\<dots> = ((of_int k / 100 :: rat) \<le> 3333 / 100)" by (simp add: divide_le_cancel)
  finally show "y \<le> RISK_OFF_THRESHOLD \<longleftrightarrow> y \<le> 3333 / 100" by (simp add: RISK_OFF_THRESHOLD_def k)
qed

lemma evidence_score_rounded: "evidence_score cs = Some y \<Longrightarrow> \<exists>x. y = py_round 2 x"
  by (auto simp: evidence_score_def Let_def split: if_splits)

text \<open>The market regime is a sound summary of its evidence: every breadth percentage and the score lie
  between 0 and 100; without a score there is no regime; with one it is SUPPORTIVE exactly from 66.67 up
  and RISK_OFF exactly from 33.33 down; and each of the seven sources is listed either as used or as missing.\<close>

theorem market_regime_sound:
  assumes "cdf_ok ops" "regime_weights_ok cfg" "volumes_ok s"
  shows "let r = compute_market_regime ops cfg host now index syms n s
    in breadth_ok (mr_breadth r)
     \<and> (case mr_score r of
          None \<Rightarrow> mr_regime r = None
        | Some y \<Rightarrow> 0 \<le> y \<and> y \<le> 100
            \<and> mr_regime r = Some (if 6667 / 100 \<le> y then SUPPORTIVE else if y \<le> 3333 / 100 then RISK_OFF else RG_NEUTRAL))
     \<and> length (mr_evidence_sources_used r) + length (mr_missing_evidence r) = 7"
proof -
  let ?r = "compute_market_regime ops cfg host now index syms n s"
  obtain d x z where r: "mr_breadth ?r = compute_market_breadth host now s"
    "mr_score ?r = evidence_score (regime_components ops cfg (compute_market_breadth host now s) d x z
        (sector_leading_pct ops cfg now syms n s))"
    "mr_regime ?r = classify_regime (mr_score ?r)"
    "mr_evidence_sources_used ?r = evidence_sources_used (regime_components ops cfg (compute_market_breadth host now s) d x z
        (sector_leading_pct ops cfg now syms n s))"
    "mr_missing_evidence ?r = missing_evidence (regime_components ops cfg (compute_market_breadth host now s) d x z
        (sector_leading_pct ops cfg now syms n s))"
    unfolding compute_market_regime_def Let_def by simp
  let ?cs = "regime_components ops cfg (compute_market_breadth host now s) d x z (sector_leading_pct ops cfg now syms n s)"
  have b: "breadth_ok (compute_market_breadth host now s)" using breadth_percentages [OF assms(3)] .
  have ok: "evidence_ok ?cs" using regime_components_ok [OF assms(1,2) b leading_ok] .
  have "length (evidence_sources_used ?cs) + length (missing_evidence ?cs) = 7"
    unfolding evidence_partition by (simp add: regime_components_def)
  moreover have "0 \<le> y \<and> y \<le> 100
      \<and> classify_regime (Some y) = Some (if 6667 / 100 \<le> y then SUPPORTIVE else if y \<le> 3333 / 100 then RISK_OFF else RG_NEUTRAL)"
    if "evidence_score ?cs = Some y" for y
    using evidence_score_range [OF ok that] regime_thirds evidence_score_rounded [OF that]
    by (auto simp: classify_regime_def)
  ultimately show ?thesis unfolding Let_def r(1,3,4,5) using b
    by (auto simp: r(2) classify_regime_def split: option.split)
qed

text \<open>The breadth counts are exact: advancing, declining and unchanged symbols together are the active symbols with two
  daily bars, and a symbol without an average is in neither the numerator nor the denominator
  of its percentage, so no numerator exceeds its denominator.\<close>

theorem breadth_counts_exact:
  assumes "volumes_ok s"
  shows "let ids = map sy_id (list_active s); c = mb_counts (compute_market_breadth host now s)
    in moves c = length (filter (\<lambda>(i, p). get_daily_bulk_at_rank ids 2 s i \<noteq> None) (bulk_items ids (get_daily_bulk_at_rank ids 1 s)))
     \<and> bc_above_ema20 c \<le> bc_with_ema20 c \<and> bc_above_ema50 c \<le> bc_with_ema50 c \<and> bc_above_ema200 c \<le> bc_with_ema200 c"
  using breadth_counts_of [OF assms] unfolding Let_def counts_ok_def by blast

definition sample_market :: feature_store where
  "sample_market = sample_sectors\<lparr>daily_prices := daily_prices sample_sectors @
     [(sample_bar 101)\<lparr>dp_close := 2, dp_high := 2, dp_volume := 10\<rparr>,
      (sample_bar 101)\<lparr>dp_symbol_id := 2, dp_close := 1/2, dp_low := 1/2, dp_volume := 4\<rparr>]\<rparr>"

lemma sample_volumes: "volumes_ok sample_market"
  by (simp add: volumes_ok_def sample_market_def sample_sectors_def sample_bar_def momentum_store.defs feature_store.defs)

theorem market_regime_sound_witness:
  "mr_score (compute_market_regime demo_frames default_settings 101 0 None (Some [''NIFTY IT'', ''BANKNIFTY'']) 250 sample_market)
     = Some (2143 / 50)
   \<and> mr_regime (compute_market_regime demo_frames default_settings 101 0 None (Some [''NIFTY IT'', ''BANKNIFTY'']) 250 sample_market)
     = Some RG_NEUTRAL"
proof -
  have score: "mr_score (compute_market_regime demo_frames default_settings 101 0 None (Some [''NIFTY IT'', ''BANKNIFTY'']) 250 sample_market)
     = Some (2143 / 50)" by code_simp
  have "regime_weights_ok default_settings" by (simp add: regime_weights_ok_def default_settings_def)
  from market_regime_sound [OF demo_cdf_ok this sample_volumes, of 101 0 None "Some [''NIFTY IT'', ''BANKNIFTY'']" 250] score
  show ?thesis unfolding Let_def by simp
qed

theorem breadth_counts_exact_witness:
  "moves (mb_counts (compute_market_breadth 101 0 sample_market)) = 2
   \<and> bc_above_ema20 (mb_counts (compute_market_breadth 101 0 sample_market))
       \<le> bc_with_ema20 (mb_counts (compute_market_breadth 101 0 sample_market))"
proof
  show "moves (mb_counts (compute_market_breadth 101 0 sample_market)) = 2" by code_simp
  from breadth_counts_exact [OF sample_volumes, of 101 0]
  show "bc_above_ema20 (mb_counts (compute_market_breadth 101 0 sample_market))
       \<le> bc_with_ema20 (mb_counts (compute_market_breadth 101 0 sample_market))"
    unfolding Let_def by blast
qed

section \<open>Snapshots\<close>

record regime_snapshot =
  rsn_id :: int
  rsn_computed_at :: int
  rsn_as_of :: int
  rsn_regime :: "string option"
  rsn_score :: "rat option"
  rsn_index_symbol :: string
  rsn_index_trend_direction :: "string option"
  rsn_index_trend_strength :: "rat option"
  rsn_volatility_state :: "string option"
  rsn_sector_leading_pct :: "rat option"
  rsn_evidence_sources_used :: "string list"
  rsn_missing_evidence :: "string list"

record sector_snapshot =
  ssn_id :: int
  ssn_computed_at :: int
  ssn_sector_symbol :: string
  ssn_benchmark_symbol :: string
  ssn_date :: int
  ssn_rs_ratio :: "rat option"
  ssn_rs_momentum :: "rat option"
  ssn_rotation_state :: "string option"
  ssn_momentum_score :: "rat option"
  ssn_trend_strength :: "rat option"
  ssn_price_performance_pct :: "rat option"
  ssn_score :: "rat option"

record analytics_store = fundamental_store +
  regime_snapshots :: "regime_snapshot list"
  next_regime_id :: int
  sector_snapshots :: "sector_snapshot list"
  next_sector_id :: int

definition regime_insert :: "market_regime \<Rightarrow> 'x analytics_store_scheme \<Rightarrow> 'x analytics_store_scheme" where
  "regime_insert e s =
     s\<lparr>regime_snapshots := regime_snapshots s @
         [\<lparr>rsn_id = next_regime_id s, rsn_computed_at = mr_computed_at e, rsn_as_of = mr_as_of e,
           rsn_regime = map_option regime_value (mr_regime e), rsn_score = mr_score e,
           rsn_index_symbol = mr_index_symbol e, rsn_index_trend_direction = mr_index_trend_direction e,
           rsn_index_trend_strength = mr_index_trend_strength e, rsn_volatility_state = mr_volatility_state e,
           rsn_sector_leading_pct = mr_sector_leading_pct e,
           rsn_evidence_sources_used = mr_evidence_sources_used e, rsn_missing_evidence = mr_missing_evidence e\<rparr>],
       next_regime_id := next_regime_id s + 1\<rparr>"

definition regime_get_latest :: "'x analytics_store_scheme \<Rightarrow> regime_snapshot option" where
  "regime_get_latest s = newest_by rsn_computed_at (\<lambda>_. True) (regime_snapshots s)"

definition sector_insert :: "int \<Rightarrow> sector_evidence \<Rightarrow> 'x analytics_store_scheme \<Rightarrow> 'x analytics_store_scheme" where
  "sector_insert computed_at e s =
     s\<lparr>sector_snapshots := sector_snapshots s @
         [\<lparr>ssn_id = next_sector_id s, ssn_computed_at = computed_at, ssn_sector_symbol = se_sector_symbol e,
           ssn_benchmark_symbol = se_benchmark_symbol e, ssn_date = se_date e, ssn_rs_ratio = se_rs_ratio e,
           ssn_rs_momentum = se_rs_momentum e, ssn_rotation_state = map_option rotation_value (se_rotation_state e),
           ssn_momentum_score = se_momentum_score e, ssn_trend_strength = se_trend_strength e,
           ssn_price_performance_pct = se_price_performance_pct e, ssn_score = se_score e\<rparr>],
       next_sector_id := next_sector_id s + 1\<rparr>"

definition sector_insert_many :: "sector_evidence list \<Rightarrow> int \<Rightarrow> 'x analytics_store_scheme \<Rightarrow> 'x analytics_store_scheme" where
  "sector_insert_many evidences computed_at s = fold (sector_insert computed_at) evidences s"

definition sector_get_latest_batch :: "'x analytics_store_scheme \<Rightarrow> sector_snapshot list" where
  "sector_get_latest_batch s =
     sort_str ssn_sector_symbol
       (filter (\<lambda>r. newest_by ssn_computed_at (\<lambda>q. ssn_sector_symbol q = ssn_sector_symbol r) (sector_snapshots s) = Some r)
         (sector_snapshots s))"

text \<open>The configured sector symbols are an argument.\<close>

definition run_snapshot ::
  "frame_ops \<Rightarrow> settings \<Rightarrow> int \<Rightarrow> int \<Rightarrow> string list \<Rightarrow> 'x analytics_store_scheme \<Rightarrow> 'x analytics_store_scheme" where
  "run_snapshot ops cfg host_today now sector_symbols s =
     (let evidence = compute_market_regime ops cfg host_today now None
            (if sector_symbols = [] then None else Some sector_symbols) 250 s;
          s1 = regime_insert evidence s
      in if sector_symbols = [] then s1
         else sector_insert_many (rs_sectors (compute_sector_rotation ops cfg now sector_symbols None 250 s1)) now s1)"

end
