(* ===== verification/Catalyst.thy ===== *)
theory Catalyst
  imports Market_Store
begin

text \<open>
  News and catalysts: app/catalyst. Keyword classification, materiality, freshness, the matching of the
  provider's articles to symbols, and the provider around its one HTTP call, whose answer is an
  argument. Text is lower-cased as ASCII; a JSON number is an integer or a float.
\<close>

section \<open>Types\<close>

datatype catalyst_type =
    C_RESULTS | ORDER_WIN | MERGER_ACQUISITION | REGULATORY | BROKER_ACTION | MANAGEMENT_COMMENTARY
  | DIVIDEND | SECTOR_CATALYST | C_OTHER

fun catalyst_value :: "catalyst_type \<Rightarrow> string" where
  "catalyst_value C_RESULTS = ''RESULTS''"
| "catalyst_value ORDER_WIN = ''ORDER_WIN''"
| "catalyst_value MERGER_ACQUISITION = ''M&A''"
| "catalyst_value REGULATORY = ''REGULATORY''"
| "catalyst_value BROKER_ACTION = ''BROKER_ACTION''"
| "catalyst_value MANAGEMENT_COMMENTARY = ''MANAGEMENT_COMMENTARY''"
| "catalyst_value DIVIDEND = ''DIVIDEND''"
| "catalyst_value SECTOR_CATALYST = ''SECTOR_CATALYST''"
| "catalyst_value C_OTHER = ''OTHER''"

datatype sentiment = SENT_POSITIVE | SENT_NEGATIVE | SENT_NEUTRAL

fun sentiment_value :: "sentiment \<Rightarrow> string" where
  "sentiment_value SENT_POSITIVE = ''POSITIVE''"
| "sentiment_value SENT_NEGATIVE = ''NEGATIVE''"
| "sentiment_value SENT_NEUTRAL = ''NEUTRAL''"

datatype materiality = HIGH | MEDIUM | LOW

datatype freshness = BREAKING | RECENT | STALE

record raw_article =
  ra_symbol :: string
  ra_headline :: string
  ra_summary :: string
  ra_source :: string
  ra_published_at :: int
  ra_article_url :: "string option"

record news_item =
  ni_symbol :: string
  ni_headline :: string
  ni_source :: string
  ni_published_at :: int
  ni_event_type :: catalyst_type
  ni_sentiment :: sentiment
  ni_materiality :: materiality
  ni_freshness :: freshness
  ni_computed_at :: int
  ni_article_url :: "string option"

section \<open>Classification\<close>

definition EVENT_TYPE_KEYWORDS :: "(catalyst_type \<times> string list) list" where
  "EVENT_TYPE_KEYWORDS =
     [(C_RESULTS,
        [''quarterly results'', ''q1 results'', ''q2 results'', ''q3 results'', ''q4 results'',
         ''net profit'', ''net loss'', ''revenue rises'', ''revenue falls'', ''beats estimates'',
         ''misses estimates'', ''earnings'']),
      (MERGER_ACQUISITION,
        [''acquisition'', ''acquires'', ''to acquire'', ''merger'', ''merges with'',
         ''stake sale'', ''stake purchase'', ''takeover'', ''amalgamation'']),
      (REGULATORY,
        [''sebi'', ''rbi'', ''regulatory'', ''penalty'', ''show cause notice'', ''investigation'',
         ''probe'', ''compliance order'', ''ban on'', ''cci approval'', ''competition commission'']),
      (ORDER_WIN,
        [''order win'', ''bags order'', ''wins order'', ''wins contract'', ''secures contract'',
         ''receives order'', ''order from'', ''contract worth'']),
      (BROKER_ACTION,
        [''upgrade'', ''downgrade'', ''target price'', ''buy rating'', ''sell rating'',
         ''outperform'', ''underperform'', ''initiates coverage'', ''maintains buy'',
         ''maintains sell'']),
      (DIVIDEND,
        [''dividend'', ''interim dividend'', ''final dividend'', ''special dividend'',
         ''ex-dividend'', ''record date'']),
      (MANAGEMENT_COMMENTARY,
        [''ceo says'', ''md says'', ''chairman says'', ''management said'', ''guidance'',
         ''outlook comment'', ''in an interview'']),
      (SECTOR_CATALYST,
        [''sector'', ''industry'', ''nifty it'', ''nifty bank'', ''nifty auto'', ''nifty pharma'',
         ''nifty metal'', ''peers'', ''index surges'', ''index falls''])]"

definition POSITIVE_KEYWORDS :: "string list" where
  "POSITIVE_KEYWORDS =
     [''surge'', ''surges'', ''jump'', ''jumps'', ''soar'', ''soars'', ''rally'', ''rallies'',
      ''gain'', ''gains'', ''beats estimates'', ''profit rises'', ''profit up'', ''upgrade'',
      ''wins'', ''bags order'', ''record high'', ''outperform'']"

definition NEGATIVE_KEYWORDS :: "string list" where
  "NEGATIVE_KEYWORDS =
     [''fall'', ''falls'', ''falling'', ''drop'', ''drops'', ''tumble'', ''tumbles'',
      ''plunge'', ''plunges'', ''decline'', ''declines'', ''loss'', ''misses estimates'',
      ''profit falls'', ''downgrade'', ''penalty'', ''probe'', ''investigation'',
      ''underperform'', ''sell-off'']"

definition lower_char :: "char \<Rightarrow> char" where
  "lower_char c = (let n = (of_char c :: nat) in if 65 \<le> n \<and> n \<le> 90 then char_of (n + 32) else c)"

definition lower :: "string \<Rightarrow> string" where
  "lower s = map lower_char s"

fun occurs :: "string \<Rightarrow> string \<Rightarrow> bool" where
  "occurs keyword [] = (keyword = [])"
| "occurs keyword (c # cs) = (take (length keyword) (c # cs) = keyword \<or> occurs keyword cs)"

definition contains_any :: "string \<Rightarrow> string list \<Rightarrow> bool" where
  "contains_any text keywords = list_ex (\<lambda>keyword. occurs keyword text) keywords"

definition article_text :: "string \<Rightarrow> string \<Rightarrow> string" where
  "article_text headline summary = lower (headline @ '' '' @ summary)"

definition classify_event_type :: "string \<Rightarrow> string \<Rightarrow> catalyst_type" where
  "classify_event_type headline summary =
     (case find (\<lambda>(event_type, keywords). contains_any (article_text headline summary) keywords) EVENT_TYPE_KEYWORDS of
        None \<Rightarrow> C_OTHER | Some (event_type, _) \<Rightarrow> event_type)"

definition hits :: "string \<Rightarrow> string list \<Rightarrow> nat" where
  "hits text keywords = length (filter (\<lambda>keyword. occurs keyword text) keywords)"

definition classify_sentiment :: "string \<Rightarrow> string \<Rightarrow> sentiment" where
  "classify_sentiment headline summary =
     (let text = article_text headline summary;
          positive_hits = hits text POSITIVE_KEYWORDS;
          negative_hits = hits text NEGATIVE_KEYWORDS
      in if positive_hits > negative_hits then SENT_POSITIVE
         else if negative_hits > positive_hits then SENT_NEGATIVE else SENT_NEUTRAL)"

definition classify_freshness :: "int \<Rightarrow> int \<Rightarrow> int \<Rightarrow> int \<Rightarrow> freshness" where
  "classify_freshness published_at now breaking_window stale_window =
     (let age = max 0 (now - published_at)
      in if age \<le> breaking_window then BREAKING else if age \<le> stale_window then RECENT else STALE)"

fun score_materiality :: "catalyst_type \<Rightarrow> materiality" where
  "score_materiality C_RESULTS = HIGH"
| "score_materiality MERGER_ACQUISITION = HIGH"
| "score_materiality REGULATORY = HIGH"
| "score_materiality ORDER_WIN = MEDIUM"
| "score_materiality DIVIDEND = MEDIUM"
| "score_materiality BROKER_ACTION = MEDIUM"
| "score_materiality MANAGEMENT_COMMENTARY = LOW"
| "score_materiality SECTOR_CATALYST = LOW"
| "score_materiality C_OTHER = LOW"

definition normalize_news :: "settings \<Rightarrow> int \<Rightarrow> raw_article \<Rightarrow> news_item" where
  "normalize_news cfg now article =
     (let event_type = classify_event_type (ra_headline article) (ra_summary article)
      in \<lparr>ni_symbol = ra_symbol article, ni_headline = ra_headline article, ni_source = ra_source article,
          ni_published_at = ra_published_at article, ni_event_type = event_type,
          ni_sentiment = classify_sentiment (ra_headline article) (ra_summary article),
          ni_materiality = score_materiality event_type,
          ni_freshness = classify_freshness (ra_published_at article) now
            (catalyst_breaking_news_window_minutes cfg * minute_us)
            (catalyst_stale_news_window_hours cfg * 60 * minute_us),
          ni_computed_at = now, ni_article_url = ra_article_url article\<rparr>)"

section \<open>Matching\<close>

definition resolve_tokens :: "string list \<Rightarrow> (string \<rightharpoonup> symbol_row) \<Rightarrow> (string \<times> string) list" where
  "resolve_tokens syms symbol_by_name =
     foldl (\<lambda>d symbol. case symbol_by_name symbol of
          None \<Rightarrow> d | Some row \<Rightarrow> AList.update symbol (sy_instrument_token row) d) [] syms"

definition field_of :: "(string \<times> pyval) list \<Rightarrow> string \<Rightarrow> pyval" where
  "field_of item name = dict_get (map_of item) name"

fun json_number :: "pyval \<Rightarrow> rat option" where
  "json_number (PyInt i) = Some (of_int i)"
| "json_number (PyFloat x) = Some x"
| "json_number (PyBool b) = Some (if b then 1 else 0)"
| "json_number _ = None"

definition parse_article :: "string \<Rightarrow> pyval \<Rightarrow> py_error + raw_article option" where
  "parse_article symbol item =
     (case item of
        PyDict d \<Rightarrow>
          (case (field_of d ''heading'', json_number (field_of d ''published_time'')) of
             (PyStr heading, Some published_time) \<Rightarrow>
               if heading = [] then Inr None
               else (case from_milliseconds published_time of
                  Inl e \<Rightarrow> Inl e
                | Inr t \<Rightarrow>
                    Inr (Some \<lparr>ra_symbol = symbol, ra_headline = heading,
                      ra_summary = (case field_of d ''summary'' of PyStr x \<Rightarrow> x | _ \<Rightarrow> []),
                      ra_source = ''upstox'', ra_published_at = t,
                      ra_article_url = (case field_of d ''article_link'' of PyStr x \<Rightarrow> Some x | _ \<Rightarrow> None)\<rparr>))
           | _ \<Rightarrow> Inr None)
      | _ \<Rightarrow> Inr None)"

fun parse_articles :: "string \<Rightarrow> pyval list \<Rightarrow> py_error + raw_article list" where
  "parse_articles symbol [] = Inr []"
| "parse_articles symbol (item # items) =
     (case parse_article symbol item of
        Inl e \<Rightarrow> Inl e
      | Inr a \<Rightarrow>
          (case parse_articles symbol items of
             Inl e \<Rightarrow> Inl e
           | Inr arts \<Rightarrow> Inr (case a of None \<Rightarrow> arts | Some a \<Rightarrow> a # arts)))"

fun match_articles ::
  "(string \<times> pyval list) list \<Rightarrow> (string \<rightharpoonup> string) \<Rightarrow> (string \<times> raw_article list) list
     \<Rightarrow> py_error + (string \<times> raw_article list) list" where
  "match_articles [] token_to_symbol results = Inr results"
| "match_articles ((token, raw_items) # rest) token_to_symbol results =
     (case token_to_symbol token of
        None \<Rightarrow> match_articles rest token_to_symbol results
      | Some symbol \<Rightarrow>
          (case parse_articles symbol raw_items of
             Inl e \<Rightarrow> Inl e
           | Inr parsed \<Rightarrow>
               match_articles rest token_to_symbol (if parsed = [] then results else AList.update symbol parsed results)))"

section \<open>The provider\<close>

datatype http_answer = Unreachable | Answer nat "pyval option"

definition news_of_answer :: "http_answer \<Rightarrow> (string \<times> pyval list) list" where
  "news_of_answer answer =
     (case answer of
        Answer status (Some (PyDict body)) \<Rightarrow>
          (if status \<noteq> 200 \<or> field_of body ''status'' \<noteq> PyStr ''success'' then []
           else (case field_of body ''data'' of
                   PyDict data \<Rightarrow>
                     concat (map (\<lambda>(token, v). case v of PyList items \<Rightarrow> [(token, items)] | _ \<Rightarrow> []) data)
                 | _ \<Rightarrow> []))
      | _ \<Rightarrow> [])"

definition active_by_name :: "'x market_store_scheme \<Rightarrow> string \<rightharpoonup> symbol_row" where
  "active_by_name s = map_of (rev (map (\<lambda>r. (sy_symbol r, r)) (list_active s)))"

definition get_news ::
  "(string list \<Rightarrow> http_answer) \<Rightarrow> string list \<Rightarrow> 'x market_store_scheme \<Rightarrow> py_error + (string \<times> raw_article list) list" where
  "get_news http syms s =
     (if syms = [] then Inr []
      else
        let token_by_symbol = resolve_tokens syms (active_by_name s)
        in if token_by_symbol = [] then Inr []
           else
             let token_to_symbol = foldl (\<lambda>d (symbol, token). AList.update token symbol d) [] token_by_symbol
             in match_articles (news_of_answer (http (map fst token_to_symbol))) (map_of token_to_symbol) [])"

section \<open>More text never lowers the priority of the event\<close>

lemma occurs_iff: "occurs k t \<longleftrightarrow> (\<exists>a b. t = a @ k @ b)"
proof (induction t)
  case (Cons c t)
  have "take (length k) (c # t) = k \<longleftrightarrow> (\<exists>b. c # t = k @ b)"
    by (metis append_eq_conv_conj)
  moreover have "(\<exists>a b. c # t = a @ k @ b) \<longleftrightarrow> (\<exists>b. c # t = k @ b) \<or> (\<exists>a b. t = a @ k @ b)"
    by (metis append_Cons append_Nil list.inject neq_Nil_conv)
  ultimately show ?case using Cons by simp
qed auto

lemma occurs_append: "occurs k t \<Longrightarrow> occurs k (t @ u)"
  unfolding occurs_iff by (metis append.assoc)

lemma lower_append [simp]: "lower (a @ b) = lower a @ lower b"
  by (simp add: lower_def)

lemma article_text_append: "article_text h (m @ x) = article_text h m @ lower x"
  by (simp add: article_text_def lower_def)

definition event_rank :: "catalyst_type \<Rightarrow> nat" where
  "event_rank e = (case index_of e (map fst EVENT_TYPE_KEYWORDS) of Some i \<Rightarrow> i | None \<Rightarrow> length EVENT_TYPE_KEYWORDS)"

definition first_type :: "(catalyst_type \<times> string list) list \<Rightarrow> string \<Rightarrow> nat" where
  "first_type groups text =
     (case index_of True (map (\<lambda>(_, keywords). contains_any text keywords) groups) of Some i \<Rightarrow> i | None \<Rightarrow> length groups)"

lemma first_type_mono:
  assumes "\<And>k. occurs k text \<Longrightarrow> occurs k text'"
  shows "first_type groups text' \<le> first_type groups text"
proof (induction groups)
  case (Cons g groups)
  have "contains_any text (snd g) \<Longrightarrow> contains_any text' (snd g)"
    using assms by (auto simp: contains_any_def list_ex_iff)
  with Cons show ?case by (cases g) (auto simp: first_type_def split: option.splits)
qed (simp add: first_type_def)

lemma index_of_complete: "x \<in> set ys \<Longrightarrow> \<exists>i. index_of x ys = Some i"
  by (induction ys) auto

lemma find_rank:
  assumes "distinct (map fst groups)"
  shows "(case find (\<lambda>(e, ks). contains_any text ks) groups of
      None \<Rightarrow> length groups | Some (e, _) \<Rightarrow> the (index_of e (map fst groups))) = first_type groups text"
  using assms
proof (induction groups)
  case (Cons g groups)
  obtain e ks where g: "g = (e, ks)" by (cases g)
  show ?case
  proof (cases "contains_any text ks")
    case True
    then show ?thesis by (simp add: g first_type_def)
  next
    case False
    show ?thesis
    proof (cases "find (\<lambda>(e, ks). contains_any text ks) groups")
      case None
      then show ?thesis using Cons False by (auto simp: g first_type_def split: option.splits)
    next
      case (Some p)
      obtain e' ks' where p: "p = (e', ks')" by (cases p)
      have mem: "(e', ks') \<in> set groups" using Some p by (metis find_Some_iff nth_mem)
      then have "e \<noteq> e'" using Cons.prems g by (auto simp: image_iff)
      moreover from mem obtain i where "index_of e' (map fst groups) = Some i"
        using index_of_complete by (metis fst_conv image_eqI list.set_map)
      ultimately show ?thesis using Cons False Some p by (auto simp: g first_type_def split: option.splits)
    qed
  qed
qed (simp add: first_type_def)

lemma event_rank_classify:
  "event_rank (classify_event_type h m) = first_type EVENT_TYPE_KEYWORDS (article_text h m)"
proof -
  have d: "distinct (map fst EVENT_TYPE_KEYWORDS)" "index_of C_OTHER (map fst EVENT_TYPE_KEYWORDS) = None"
    by (simp_all add: EVENT_TYPE_KEYWORDS_def)
  show ?thesis
  proof (cases "find (\<lambda>(e, ks). contains_any (article_text h m) ks) EVENT_TYPE_KEYWORDS")
    case None
    then show ?thesis using find_rank [OF d(1), of "article_text h m"] d(2)
      by (simp add: classify_event_type_def event_rank_def)
  next
    case (Some p)
    obtain e ks where p: "p = (e, ks)" by (cases p)
    have "(e, ks) \<in> set EVENT_TYPE_KEYWORDS" using Some p by (metis find_Some_iff nth_mem)
    then obtain i where "index_of e (map fst EVENT_TYPE_KEYWORDS) = Some i"
      using index_of_complete by (metis fst_conv image_eqI list.set_map)
    then show ?thesis using find_rank [OF d(1), of "article_text h m"] Some p
      by (simp add: classify_event_type_def event_rank_def)
  qed
qed

fun freshness_rank :: "freshness \<Rightarrow> nat" where
  "freshness_rank BREAKING = 0"
| "freshness_rank RECENT = 1"
| "freshness_rank STALE = 2"

text \<open>The classification of an article is monotone: further text in the summary can only move its event up
  in the order of priority, never down, high materiality belongs exactly to the first three event types,
  and as time passes an article only grows older; one from the future counts as breaking news.\<close>

theorem catalyst_classification_monotone:
  "event_rank (classify_event_type h (m @ x)) \<le> event_rank (classify_event_type h m)
   \<and> (score_materiality e = HIGH \<longleftrightarrow> event_rank e < 3)
   \<and> freshness_rank (classify_freshness t now b st) \<le> freshness_rank (classify_freshness t (now + int d) b st)
   \<and> classify_freshness (now + int d) now (int w) st = BREAKING"
proof -
  have "event_rank (classify_event_type h (m @ x)) \<le> event_rank (classify_event_type h m)"
    unfolding event_rank_classify article_text_append by (rule first_type_mono) (rule occurs_append)
  moreover have "score_materiality e = HIGH \<longleftrightarrow> event_rank e < 3"
    by (cases e) (simp_all add: event_rank_def EVENT_TYPE_KEYWORDS_def)
  ultimately show ?thesis by (simp add: classify_freshness_def Let_def)
qed

section \<open>Articles go to the symbol they were asked for\<close>

lemma resolve_tokens_member:
  assumes "(y, token) \<in> set (resolve_tokens syms names)"
  shows "y \<in> set syms \<and> (\<exists>row. names y = Some row \<and> sy_instrument_token row = token)"
proof -
  have "set (foldl (\<lambda>d symbol. case names symbol of
          None \<Rightarrow> d | Some row \<Rightarrow> AList.update symbol (sy_instrument_token row) d) d0 ys)
      \<subseteq> set d0 \<union> {(y, sy_instrument_token row) | y row. y \<in> set ys \<and> names y = Some row}" for d0 ys
  proof (induction ys arbitrary: d0)
    case (Cons y ys)
    show ?case
    proof (cases "names y")
      case None
      with Cons [of d0] show ?thesis by auto
    next
      case (Some row)
      have "set (AList.update y (sy_instrument_token row) d) \<subseteq> set d \<union> {(y, sy_instrument_token row)}"
        for d :: "(string \<times> string) list" by (induction d) auto
      from this [of d0] Cons [of "AList.update y (sy_instrument_token row) d0"] Some show ?thesis by simp blast
    qed
  qed simp
  from this [of "[]" syms] assms show ?thesis by (auto simp: resolve_tokens_def)
qed

lemma swapped_member:
  assumes "map_of (foldl (\<lambda>d (symbol, token). AList.update token symbol d) d0 pairs) token = Some y"
  shows "map_of d0 token = Some y \<or> (y, token) \<in> set pairs"
  using assms
proof (induction pairs arbitrary: d0)
  case (Cons p pairs)
  obtain a b where p: "p = (a, b)" by (cases p)
  from Cons.IH [of "AList.update b a d0"] Cons.prems p
  have "map_of (AList.update b a d0) token = Some y \<or> (y, token) \<in> set pairs" by simp
  then show ?case by (auto simp: p update_conv' split: if_splits)
qed simp

lemma parse_articles_member:
  "parse_articles y items = Inr arts \<Longrightarrow> a \<in> set arts \<Longrightarrow>
     \<exists>item \<in> set items. parse_article y item = Inr (Some a)"
  by (induction items arbitrary: arts) (auto split: sum.splits option.splits)

lemma match_articles_member:
  assumes "match_articles raw names results = Inr found" "(y, arts) \<in> set found"
  shows "(y, arts) \<in> set results \<or>
    (arts \<noteq> [] \<and> (\<exists>(token, items) \<in> set raw. names token = Some y \<and> parse_articles y items = Inr arts))"
  using assms
proof (induction raw names results arbitrary: found rule: match_articles.induct)
  case (2 token items rest names results)
  have upd: "set (AList.update k v d) \<subseteq> set d \<union> {(k, v)}" for k v and d :: "(string \<times> raw_article list) list"
    by (induction d) auto
  show ?case
  proof (cases "names token")
    case None
    then show ?thesis using 2 by auto
  next
    case (Some z)
    then obtain parsed where parsed: "parse_articles z items = Inr parsed"
      using 2(3) by (cases "parse_articles z items") auto
    then have "(y, arts) \<in> set (if parsed = [] then results else AList.update z parsed results) \<or>
        (arts \<noteq> [] \<and> (\<exists>(token, items) \<in> set rest. names token = Some y \<and> parse_articles y items = Inr arts))"
      using 2(2) [OF Some parsed] 2(3,4) Some by simp
    then show ?thesis using upd [of z parsed results] Some parsed by (auto split: if_splits)
  qed
qed simp

text \<open>News reaches only the symbol it was asked for: an article listed under a symbol belongs to a requested
  symbol that is active, came under that symbol's own instrument token in a successful answer, has a
  headline, and carries the publication time the provider gave.\<close>

theorem news_matched_to_requested_symbols:
  assumes "get_news http syms s = Inr found" "(y, arts) \<in> set found" "a \<in> set arts"
  shows "y \<in> set syms \<and> ra_symbol a = y \<and> ra_headline a \<noteq> []
    \<and> (\<exists>row tokens items d ms. active_by_name s y = Some row
        \<and> (sy_instrument_token row, items) \<in> set (news_of_answer (http tokens)) \<and> PyDict d \<in> set items
        \<and> json_number (field_of d ''published_time'') = Some ms \<and> from_milliseconds ms = Inr (ra_published_at a))"
proof -
  let ?pairs = "resolve_tokens syms (active_by_name s)"
  let ?swap = "foldl (\<lambda>d (symbol, token). AList.update token symbol d) [] ?pairs"
  have m: "match_articles (news_of_answer (http (map fst ?swap))) (map_of ?swap) [] = Inr found"
    using assms(1,2) by (auto simp: get_news_def Let_def split: if_splits)
  from match_articles_member [OF m assms(2)] obtain token items where
    token: "(token, items) \<in> set (news_of_answer (http (map fst ?swap)))" "map_of ?swap token = Some y"
    "parse_articles y items = Inr arts" by auto
  from swapped_member [OF token(2)] have "(y, token) \<in> set ?pairs" by simp
  from resolve_tokens_member [OF this] obtain row where row: "y \<in> set syms" "active_by_name s y = Some row"
    "sy_instrument_token row = token" by blast
  from parse_articles_member [OF token(3) assms(3)] obtain item where
    item: "item \<in> set items" "parse_article y item = Inr (Some a)" by blast
  then obtain d ms where d: "item = PyDict d" "json_number (field_of d ''published_time'') = Some ms"
    "from_milliseconds ms = Inr (ra_published_at a)" "ra_symbol a = y" "ra_headline a \<noteq> []"
    by (auto simp: parse_article_def split: pyval.splits option.splits if_splits sum.splits)
  with row token(1) item(1) show ?thesis by blast
qed

definition sample_news_answer :: http_answer where
  "sample_news_answer = Answer 200 (Some (PyDict [(''status'', PyStr ''success''),
     (''data'', PyDict [(''1'', PyList [PyDict [(''heading'', PyStr ''INFY wins order''), (''published_time'', PyInt 86400000)]]),
        (''9'', PyList [PyDict [(''heading'', PyStr ''Other''), (''published_time'', PyInt 0)]])])]))"

theorem news_matched_to_requested_symbols_witness:
  "map_option (map (\<lambda>(y, arts). (y, map ra_headline arts)))
      (case get_news (\<lambda>_. sample_news_answer) [''INFY''] (snd (upsert_symbols [sample_listing ''NSE''] (empty_market 0)))
       of Inl e \<Rightarrow> None | Inr found \<Rightarrow> Some found) = Some [(''INFY'', [''INFY wins order''])]
   \<and> ''INFY'' \<in> set [''INFY'']"
proof -
  let ?s = "snd (upsert_symbols [sample_listing ''NSE''] (empty_market 0))"
  obtain a where found: "get_news (\<lambda>_. sample_news_answer) [''INFY''] ?s = Inr [(''INFY'', [a])]"
    "ra_headline a = ''INFY wins order''"
  proof
    show "get_news (\<lambda>_. sample_news_answer) [''INFY''] ?s = Inr [(''INFY'',
       [\<lparr>ra_symbol = ''INFY'', ra_headline = ''INFY wins order'', ra_summary = [], ra_source = ''upstox'',
         ra_published_at = 86400000000, ra_article_url = None\<rparr>])]" by code_simp
  qed simp
  from news_matched_to_requested_symbols [OF found(1)] have "''INFY'' \<in> set [''INFY'']" by simp
  then show ?thesis using found by simp
qed

end
