(* ===== verification/Signal_Fusion.thy ===== *)
theory Signal_Fusion
  imports Market_Regime Catalyst Technical_Scorer
begin

text \<open>
  Signal fusion: app/signals. Seven components, each with its own source, are combined into one score
  with a confidence. The news provider is an argument that answers or raises; everything else is read
  from the tables. The clock is read once.
\<close>

section \<open>Component scores\<close>

datatype data_status = DS_AVAILABLE | DS_NEUTRAL | DS_MISSING

fun data_status_value :: "data_status \<Rightarrow> string" where
  "data_status_value DS_AVAILABLE = ''AVAILABLE''"
| "data_status_value DS_NEUTRAL = ''NEUTRAL''"
| "data_status_value DS_MISSING = ''MISSING''"

record component_score =
  co_name :: string
  co_status :: data_status
  co_score :: "rat option"
  co_weight :: rat
  co_reasons :: "msg list"

record fusion_result =
  sf_symbol :: string
  sf_overall_score :: "rat option"
  sf_component_scores :: "component_score list"
  sf_positive_factors :: "msg list"
  sf_negative_factors :: "msg list"
  sf_missing_data :: "string list"
  sf_confidence :: rat
  sf_timestamp :: int

definition missing_component :: "string \<Rightarrow> rat \<Rightarrow> msg \<Rightarrow> component_score" where
  "missing_component name weight reason =
     \<lparr>co_name = name, co_status = DS_MISSING, co_score = None, co_weight = weight, co_reasons = [reason]\<rparr>"

definition available_component :: "string \<Rightarrow> data_status \<Rightarrow> rat \<Rightarrow> rat \<Rightarrow> msg list \<Rightarrow> component_score" where
  "available_component name status score weight reasons =
     \<lparr>co_name = name, co_status = status, co_score = Some score, co_weight = weight, co_reasons = reasons\<rparr>"

definition fusion_weights :: "settings \<Rightarrow> (string \<times> rat) list" where
  "fusion_weights cfg =
     [(''technical'', signal_fusion_weight_technical cfg), (''volume'', signal_fusion_weight_volume cfg),
      (''oi'', signal_fusion_weight_oi cfg), (''sector_rrg'', signal_fusion_weight_sector_rrg cfg),
      (''market_regime'', signal_fusion_weight_market_regime cfg), (''news'', signal_fusion_weight_news cfg),
      (''fundamentals'', signal_fusion_weight_fundamentals cfg)]"

definition score_technical ::
  "settings \<Rightarrow> int \<Rightarrow> feature_row option \<Rightarrow> daily_price option \<Rightarrow> 'x feature_store_scheme \<Rightarrow> component_score" where
  "score_technical cfg symbol_id daily latest_price s =
     (let weight = signal_fusion_weight_technical cfg
      in case (daily, latest_price) of
           (Some d, Some p) \<Rightarrow>
             (let result = technical_score cfg (technical_inputs_of (dp_close p) d (get_latest_session_feature symbol_id s))
              in available_component ''technical'' DS_AVAILABLE (ts_score result) weight
                   (map (\<lambda>r. Lit ''Technical: '' # r) (ts_positive_reasons result @ ts_negative_reasons result)))
         | _ \<Rightarrow> missing_component ''technical'' weight (lit ''no daily features/price computed yet''))"

definition score_volume :: "settings \<Rightarrow> feature_row option \<Rightarrow> component_score" where
  "score_volume cfg daily =
     (let weight = signal_fusion_weight_volume cfg
      in case Option.bind daily (\<lambda>d. dec_col d ''relative_volume'') of
           None \<Rightarrow> missing_component ''volume'' weight (lit ''no relative_volume computed yet'')
         | Some rv \<Rightarrow>
             available_component ''volume'' DS_AVAILABLE (clamp 0 100 (min (rv / 2) 1 * 100)) weight
               [[Lit ''Volume: relative_volume='', Fix 2 rv, Lit ''x average'']])"

definition score_oi :: "settings \<Rightarrow> int \<Rightarrow> 'x oi_store_scheme \<Rightarrow> component_score" where
  "score_oi cfg symbol_id s =
     (let weight = signal_fusion_weight_oi cfg
      in case find (\<lambda>r. or_instrument_type (oi_reading_of r) = FUTURES) (list_for_symbol symbol_id 20 s) of
           None \<Rightarrow> missing_component ''oi'' weight
             (lit ''no futures OI observation available (not F&O-eligible, or not yet observed)'')
         | Some futures \<Rightarrow>
             (let c = or_classification (oi_reading_of futures);
                  score = (if c \<in> {LONG_BUILDUP, SHORT_COVERING} then 75
                           else if c \<in> {SHORT_BUILDUP, LONG_UNWINDING} then 25 else 50)
              in available_component ''oi'' DS_AVAILABLE score weight [[Lit ''OI: futures '', Lit (buildup_value c)]]))"

definition score_sector_rrg ::
  "frame_ops \<Rightarrow> settings \<Rightarrow> int \<Rightarrow> string \<Rightarrow> 'x market_store_scheme \<Rightarrow> component_score" where
  "score_sector_rrg ops cfg now symbol s =
     (let weight = signal_fusion_weight_sector_rrg cfg;
          points = opt_else (compute_stock_rrg ops cfg now symbol None 250 s) []
      in if points = [] then missing_component ''sector_rrg'' weight
           (lit ''insufficient price history for RRG (own or benchmark)'')
         else
           let latest = last points
           in case (rg_rs_ratio latest, rg_rs_momentum latest, rg_quadrant latest) of
                (Some ratio, Some momentum, Some q) \<Rightarrow>
                  available_component ''sector_rrg'' DS_AVAILABLE
                    (clamp 0 100 (50 + ((ratio - 100) + (momentum - 100)) / 2 * 20)) weight
                    [[Lit ''Sector/RRG: '', Lit (quadrant_value q), Lit '' vs '', Lit (rg_benchmark_symbol latest)]]
              | _ \<Rightarrow> missing_component ''sector_rrg'' weight (lit ''not enough history yet for a stable RRG reading''))"

definition score_market_regime :: "settings \<Rightarrow> market_regime option \<Rightarrow> component_score" where
  "score_market_regime cfg regime =
     (let weight = signal_fusion_weight_market_regime cfg
      in case regime of
           None \<Rightarrow> missing_component ''market_regime'' weight (lit ''no MarketRegimeEvidence supplied for this scan cycle'')
         | Some r \<Rightarrow>
             (case (mr_score r, mr_regime r) of
                (Some x, Some state) \<Rightarrow>
                  available_component ''market_regime'' (if regime_value state = ''NEUTRAL'' then DS_NEUTRAL else DS_AVAILABLE)
                    x weight [[Lit ''Market regime: '', Lit (regime_value state)]]
              | _ \<Rightarrow> missing_component ''market_regime'' weight (lit ''market regime had no evidence at all'')))"

fun materiality_weight :: "materiality \<Rightarrow> rat" where
  "materiality_weight HIGH = 3"
| "materiality_weight MEDIUM = 2"
| "materiality_weight LOW = 1"

fun sentiment_number :: "sentiment \<Rightarrow> rat" where
  "sentiment_number SENT_POSITIVE = 1"
| "sentiment_number SENT_NEGATIVE = - 1"
| "sentiment_number SENT_NEUTRAL = 0"

definition news_reason :: "news_item \<Rightarrow> msg" where
  "news_reason item =
     [Lit ''News: '', Lit (catalyst_value (ni_event_type item)), Lit '' ('', Lit (sentiment_value (ni_sentiment item)),
      Lit '') '', Lit em_dash, Lit '' '', Lit (ni_headline item), Lit '' ['', Lit (ni_source item), Lit '', '',
      Instant (ni_published_at item), Lit '']'']"

type_synonym news_provider = "string list \<Rightarrow> py_error + (string \<times> raw_article list) list"

definition score_news :: "settings \<Rightarrow> int \<Rightarrow> string \<Rightarrow> news_provider option \<Rightarrow> py_error + component_score" where
  "score_news cfg now symbol provider =
     (let weight = signal_fusion_weight_news cfg
      in case provider of
           None \<Rightarrow> Inr (missing_component ''news'' weight (lit ''no NewsProvider supplied (live-call opt-in)''))
         | Some get \<Rightarrow>
             (case get [symbol] of
                Inl e \<Rightarrow> Inl e
              | Inr raw_by_symbol \<Rightarrow>
                  (let items = map (normalize_news cfg now) (opt_else (map_of raw_by_symbol symbol) []);
                       active = filter (\<lambda>item. ni_freshness item \<noteq> STALE) items
                   in if active = [] then Inr (missing_component ''news'' weight (lit ''no recent (non-stale) news found''))
                      else
                        let total_weight = (\<Sum>item\<leftarrow>active. materiality_weight (ni_materiality item));
                            weighted_sentiment = (\<Sum>item\<leftarrow>active. sentiment_number (ni_sentiment item)
                              * materiality_weight (ni_materiality item)) / total_weight
                        in Inr (available_component ''news'' DS_AVAILABLE (clamp 0 100 (50 + weighted_sentiment * 50)) weight
                             (map news_reason (take 3 active))))))"

definition score_fundamentals :: "settings \<Rightarrow> int \<Rightarrow> int \<Rightarrow> 'x fundamental_store_scheme \<Rightarrow> component_score" where
  "score_fundamentals cfg now symbol_id s =
     (let weight = signal_fusion_weight_fundamentals cfg;
          missing = missing_component ''fundamentals'' weight
      in case get_cached cfg now symbol_id s of
           None \<Rightarrow> missing (lit ''no cached fundamental snapshot yet'')
         | Some cached \<Rightarrow>
             (case cs_data cached of
                None \<Rightarrow> missing (lit ''no cached fundamental snapshot yet'')
              | Some d \<Rightarrow>
                  (let result = fundamental_score cfg (Some d);
                       freshness_note = (if cs_is_fresh cached then ''fresh'' else ''stale cache, last known value'')
                   in case fe_score result of
                        None \<Rightarrow> missing (lit ''fundamental tier is UNKNOWN (no usable factors)'')
                      | Some x \<Rightarrow>
                          available_component ''fundamentals'' DS_AVAILABLE x weight
                            (map (\<lambda>r. [Lit ''Fundamentals ('', Lit freshness_note, Lit ''): ''] @ r)
                              (fe_positive_reasons result @ fe_negative_reasons result)))))"

section \<open>The composite\<close>

definition is_available :: "component_score \<Rightarrow> bool" where
  "is_available c \<longleftrightarrow> co_status c \<noteq> DS_MISSING"

definition assemble :: "string \<Rightarrow> component_score list \<Rightarrow> int \<Rightarrow> fusion_result" where
  "assemble symbol cs timestamp =
     (let available = filter is_available cs;
          total_configured_weight = (\<Sum>c\<leftarrow>cs. co_weight c);
          available_weight = (\<Sum>c\<leftarrow>available. co_weight c);
          weighted_sum = (\<Sum>c\<leftarrow>available. opt_else (co_score c) 0 * co_weight c);
          scored = filter (\<lambda>c. co_score c \<noteq> None) available;
          positive = filter (\<lambda>c. opt_else (co_score c) 0 \<ge> 50) scored;
          negative = filter (\<lambda>c. \<not> opt_else (co_score c) 0 \<ge> 50) scored
      in \<lparr>sf_symbol = symbol,
          sf_overall_score = (if available \<noteq> [] \<and> available_weight > 0
            then Some (py_round 2 (clamp 0 100 (weighted_sum / available_weight))) else None),
          sf_component_scores = cs,
          sf_positive_factors = concat (map co_reasons positive),
          sf_negative_factors = concat (map co_reasons negative),
          sf_missing_data = map co_name (filter (\<lambda>c. co_status c = DS_MISSING) cs),
          sf_confidence = (if total_configured_weight > 0
            then py_round 2 (available_weight / total_configured_weight * 100) else 0),
          sf_timestamp = timestamp\<rparr>)"

definition fusion_compute ::
  "frame_ops \<Rightarrow> settings \<Rightarrow> news_provider option \<Rightarrow> int \<Rightarrow> string \<Rightarrow> market_regime option \<Rightarrow> 'x fundamental_store_scheme
     \<Rightarrow> py_error + fusion_result" where
  "fusion_compute ops cfg provider now symbol regime s =
     (case get_by_symbol symbol None s of
        None \<Rightarrow>
          Inr (assemble symbol
            (map (\<lambda>(name, weight). missing_component name weight [Lit ''unknown symbol '', Lit (CHR 0x27 # symbol @ [CHR 0x27])]) (fusion_weights cfg)) now)
      | Some row \<Rightarrow>
          (let daily = get_latest_feature (sy_id row) s;
               latest_price = get_latest_daily (sy_id row) s
           in case score_news cfg now symbol provider of
                Inl e \<Rightarrow> Inl e
              | Inr news \<Rightarrow>
                  Inr (assemble symbol
                    [score_technical cfg (sy_id row) daily latest_price s, score_volume cfg daily, score_oi cfg (sy_id row) s,
                     score_sector_rrg ops cfg now symbol s, score_market_regime cfg regime, news,
                     score_fundamentals cfg now (sy_id row) s] now)))"

section \<open>Every component is in range\<close>

definition component_ok :: "component_score \<Rightarrow> bool" where
  "component_ok c \<longleftrightarrow> (co_status c = DS_MISSING) = (co_score c = None) \<and> pct_ok (co_score c) \<and> 0 \<le> co_weight c"

lemma missing_ok [intro]: "0 \<le> w \<Longrightarrow> component_ok (missing_component n w r)"
  by (simp add: component_ok_def missing_component_def pct_ok_def)

lemma available_ok [intro]:
  "0 \<le> w \<Longrightarrow> st \<noteq> DS_MISSING \<Longrightarrow> 0 \<le> x \<Longrightarrow> x \<le> 100 \<Longrightarrow> component_ok (available_component n st x w r)"
  by (simp add: component_ok_def available_component_def pct_ok_def)

lemma clamped [simp]: "0 \<le> clamp 0 100 x" "clamp 0 100 x \<le> 100"
  using clamp_range [of 0 100 x] by simp_all

definition fusion_weights_ok :: "settings \<Rightarrow> bool" where
  "fusion_weights_ok cfg \<longleftrightarrow> list_all (\<lambda>(_, w). 0 \<le> w) (fusion_weights cfg)"

lemma components_ok:
  assumes "fusion_weights_ok cfg"
  shows "technical_weights_ok cfg \<Longrightarrow> component_ok (score_technical cfg i daily price s)"
    and "component_ok (score_volume cfg daily)"
    and "component_ok (score_oi cfg i t)"
    and "component_ok (score_sector_rrg ops cfg now symbol u)"
    and "pct_ok (Option.bind regime mr_score) \<Longrightarrow> component_ok (score_market_regime cfg regime)"
    and "score_news cfg now symbol provider = Inr c \<Longrightarrow> component_ok c"
    and "fundamental_weights_ok cfg \<Longrightarrow> component_ok (score_fundamentals cfg now i v)"
proof -
  have w: "0 \<le> signal_fusion_weight_technical cfg" "0 \<le> signal_fusion_weight_volume cfg" "0 \<le> signal_fusion_weight_oi cfg"
    "0 \<le> signal_fusion_weight_sector_rrg cfg" "0 \<le> signal_fusion_weight_market_regime cfg"
    "0 \<le> signal_fusion_weight_news cfg" "0 \<le> signal_fusion_weight_fundamentals cfg"
    using assms by (simp_all add: fusion_weights_ok_def fusion_weights_def)
  show "component_ok (score_technical cfg i daily price s)" if "technical_weights_ok cfg"
    using w technical.mean_range [OF that]
    by (auto simp: score_technical_def technical_score_def Let_def split: option.split)
  show "component_ok (score_volume cfg daily)"
    using w by (auto simp: score_volume_def Let_def split: option.split)
  show "component_ok (score_oi cfg i t)"
    using w by (auto simp: score_oi_def Let_def split: option.split)
  show "component_ok (score_sector_rrg ops cfg now symbol u)"
    using w by (auto simp: score_sector_rrg_def Let_def split: option.split)
  show "component_ok (score_market_regime cfg regime)" if "pct_ok (Option.bind regime mr_score)"
    using w that by (auto simp: score_market_regime_def pct_ok_def Let_def split: option.splits)
  show "component_ok c" if "score_news cfg now symbol provider = Inr c"
    using w that by (auto simp: score_news_def Let_def split: option.splits sum.splits if_splits)
  show "component_ok (score_fundamentals cfg now i v)" if "fundamental_weights_ok cfg"
  proof -
    have "0 \<le> x \<and> x \<le> 100" if "fe_score (fundamental_score cfg (Some d)) = Some x" for d x
      using that fundamental.mean_range [OF \<open>fundamental_weights_ok cfg\<close>, of d]
      by (auto simp: fundamental_score_def Let_def split: option.splits if_splits)
    with w show ?thesis by (auto simp: score_fundamentals_def Let_def split: option.split)
  qed
qed

lemma component_names [simp]:
  "co_name (missing_component n w r) = n" "co_name (available_component n st x w rs) = n"
  by (simp_all add: missing_component_def available_component_def)

lemma named_components:
  "co_name (score_technical cfg i daily price s) = ''technical''" "co_name (score_volume cfg daily) = ''volume''"
  "co_name (score_oi cfg i t) = ''oi''" "co_name (score_sector_rrg ops cfg now symbol u) = ''sector_rrg''"
  "co_name (score_market_regime cfg regime) = ''market_regime''"
  "score_news cfg now symbol provider = Inr c \<Longrightarrow> co_name c = ''news''"
  "co_name (score_fundamentals cfg now i v) = ''fundamentals''"
  by (auto simp: score_technical_def score_volume_def score_oi_def score_sector_rrg_def score_market_regime_def
      score_news_def score_fundamentals_def Let_def split: option.splits sum.splits if_splits)

lemma weight_share:
  assumes "list_all component_ok cs" "0 < (\<Sum>c\<leftarrow>cs. co_weight c)"
  shows "0 \<le> (\<Sum>c\<leftarrow>filter is_available cs. co_weight c) / (\<Sum>c\<leftarrow>cs. co_weight c) * 100
    \<and> (\<Sum>c\<leftarrow>filter is_available cs. co_weight c) / (\<Sum>c\<leftarrow>cs. co_weight c) * 100 \<le> 100"
proof -
  have "0 \<le> (\<Sum>c\<leftarrow>filter is_available cs. co_weight c)
      \<and> (\<Sum>c\<leftarrow>filter is_available cs. co_weight c) \<le> (\<Sum>c\<leftarrow>cs. co_weight c)"
    using assms(1) by (induction cs) (auto simp: component_ok_def)
  with assms(2) show ?thesis by (simp add: divide_le_eq)
qed

lemma assemble_overall:
  assumes "list_all component_ok cs"
  shows "case sf_overall_score (assemble symbol cs now) of
      None \<Rightarrow> (\<Sum>c\<leftarrow>filter is_available cs. co_weight c) = 0
    | Some x \<Rightarrow> 0 \<le> x \<and> x \<le> 100 \<and> 0 < (\<Sum>c\<leftarrow>filter is_available cs. co_weight c)"
proof -
  have "0 \<le> (\<Sum>c\<leftarrow>filter is_available cs. co_weight c)"
    using assms by (induction cs) (auto simp: component_ok_def)
  then show ?thesis by (auto simp: assemble_def Let_def intro!: py_round_0_100)
qed

lemma assemble_factors:
  assumes "list_all component_ok cs"
  shows "mset (sf_positive_factors (assemble symbol cs now) @ sf_negative_factors (assemble symbol cs now)) =
    mset (concat (map co_reasons (filter is_available cs)))"
proof -
  have scored: "filter (\<lambda>c. co_score c \<noteq> None) (filter is_available cs) = filter is_available cs"
    unfolding filter_filter using assms
    by (intro filter_cong) (auto simp: list_all_iff component_ok_def is_available_def)
  have split: "mset (concat (map co_reasons (filter P xs)) @ concat (map co_reasons (filter (\<lambda>c. \<not> P c) xs))) =
      mset (concat (map co_reasons xs))" for P xs
    by (induction xs) auto
  show ?thesis
    unfolding assemble_def Let_def scored fusion_result.simps by (rule split)
qed

text \<open>A fused signal is a sound summary of its seven components. The components are always the same seven
  in the same order; one is MISSING exactly when it has no score, and scores lie between 0 and 100. There
  is an overall score exactly when components of positive weight are available, it lies between 0 and 100,
  and so does the confidence; the missing components are listed, and each reason of an available
  component is either a positive or a negative factor.\<close>

theorem fusion_sound:
  assumes "fusion_compute ops cfg provider now symbol regime s = Inr r"
    and "fusion_weights_ok cfg" "technical_weights_ok cfg" "fundamental_weights_ok cfg"
    and "pct_ok (Option.bind regime mr_score)"
  shows "map co_name (sf_component_scores r) = map fst (fusion_weights cfg)
    \<and> list_all component_ok (sf_component_scores r)
    \<and> (case sf_overall_score r of
         None \<Rightarrow> (\<Sum>c\<leftarrow>filter is_available (sf_component_scores r). co_weight c) = 0
       | Some x \<Rightarrow> 0 \<le> x \<and> x \<le> 100 \<and> 0 < (\<Sum>c\<leftarrow>filter is_available (sf_component_scores r). co_weight c))
    \<and> 0 \<le> sf_confidence r \<and> sf_confidence r \<le> 100
    \<and> sf_missing_data r = map co_name (filter (\<lambda>c. co_score c = None) (sf_component_scores r))
    \<and> mset (sf_positive_factors r @ sf_negative_factors r)
        = mset (concat (map co_reasons (filter is_available (sf_component_scores r))))"
proof -
  have "\<exists>cs. r = assemble symbol cs now \<and> map co_name cs = map fst (fusion_weights cfg) \<and> list_all component_ok cs"
  proof (cases "get_by_symbol symbol None s")
    case None
    let ?cs = "map (\<lambda>(name, weight). missing_component name weight [Lit ''unknown symbol '', Lit (CHR 0x27 # symbol @ [CHR 0x27])]) (fusion_weights cfg)"
    have "r = assemble symbol ?cs now" using assms(1) None by (simp add: fusion_compute_def)
    moreover have "map co_name ?cs = map fst (fusion_weights cfg)"
      by (simp add: fusion_weights_def missing_component_def)
    moreover have "list_all component_ok ?cs"
      using assms(2) by (auto simp: fusion_weights_ok_def list_all_iff)
    ultimately show ?thesis by blast
  next
    case (Some row)
    let ?daily = "get_latest_feature (sy_id row) s"
    let ?price = "get_latest_daily (sy_id row) s"
    obtain news where news: "score_news cfg now symbol provider = Inr news"
      using assms(1) Some by (cases "score_news cfg now symbol provider") (auto simp: fusion_compute_def Let_def)
    let ?cs = "[score_technical cfg (sy_id row) ?daily ?price s, score_volume cfg ?daily, score_oi cfg (sy_id row) s,
       score_sector_rrg ops cfg now symbol s, score_market_regime cfg regime, news,
       score_fundamentals cfg now (sy_id row) s]"
    have "r = assemble symbol ?cs now" using assms(1) Some news by (simp add: fusion_compute_def Let_def)
    moreover have "map co_name ?cs = map fst (fusion_weights cfg)"
      using named_components(6) [OF news] by (simp add: named_components fusion_weights_def)
    moreover have "list_all component_ok ?cs"
      using components_ok(6) [OF assms(2) news]
      by (simp add: components_ok(1) [OF assms(2,3)] components_ok(2-4) [OF assms(2)] components_ok(5) [OF assms(2,5)]
          components_ok(7) [OF assms(2,4)])
    ultimately show ?thesis by blast
  qed
  then obtain cs where r: "r = assemble symbol cs now" and cs: "map co_name cs = map fst (fusion_weights cfg)"
    "list_all component_ok cs" by blast
  have scores: "sf_component_scores r = cs" "sf_confidence r = (if 0 < (\<Sum>c\<leftarrow>cs. co_weight c)
      then py_round 2 ((\<Sum>c\<leftarrow>filter is_available cs. co_weight c) / (\<Sum>c\<leftarrow>cs. co_weight c) * 100) else 0)"
    "sf_missing_data r = map co_name (filter (\<lambda>c. co_status c = DS_MISSING) cs)"
    by (simp_all add: r assemble_def Let_def)
  have "0 \<le> sf_confidence r \<and> sf_confidence r \<le> 100"
    unfolding scores(2) using py_round_0_100 weight_share [OF cs(2)] by simp
  moreover have "filter (\<lambda>c. co_status c = DS_MISSING) cs = filter (\<lambda>c. co_score c = None) cs"
    using cs(2) by (intro filter_cong) (auto simp: list_all_iff component_ok_def)
  then have "sf_missing_data r = map co_name (filter (\<lambda>c. co_score c = None) cs)" by (simp only: scores(3))
  ultimately show ?thesis
    using cs assemble_overall [OF cs(2), of symbol now, folded r] assemble_factors [OF cs(2), of symbol now, folded r]
    unfolding scores(1) by blast
qed

section \<open>The open-interest component does not see the futures of a busy chain\<close>

text \<open>C36: The open-interest component goes blind when it should know most: after a run in which the option chain of a
  symbol had twenty or more legs, the component of that symbol is MISSING although the run
  stored a fresh futures reading. Option legs are stamped with the current time, the futures reading with
  the time of its last bar, and only the newest twenty rows are read.\<close>

theorem oi_component_blind:
  assumes "dp_option_chain p (sy_symbol sy) (sy_instrument_token sy) = Inr rows"
    and "dp_futures_history p (sy_symbol sy) = Inr bars" "bars \<noteq> []"
    and "20 \<le> length (readings_from_chain (clk (sy_id sy)) rows)"
    and "\<forall>q \<in> set (oi_observations s). oi_time q < clk (sy_id sy)"
    and "\<forall>b \<in> set bars. fb_timestamp b < clk (sy_id sy)"
  shows "co_status (score_oi cfg (sy_id sy) (snd (oi_step p clk sy (st, s)))) = DS_MISSING
    \<and> (\<exists>q \<in> set (oi_observations (snd (oi_step p clk sy (st, s)))).
         oi_symbol_id q = sy_id sy \<and> or_instrument_type (oi_reading_of q) = FUTURES)"
proof
  let ?t = "snd (oi_step p clk sy (st, s))"
  have "\<forall>q \<in> set (list_for_symbol (sy_id sy) 20 ?t). or_instrument_type (oi_reading_of q) \<noteq> FUTURES"
    by (rule chain_hides_futures [where clk = clk, OF assms(1,2,4) _ assms(5,6)]) simp
  then have "find (\<lambda>r. or_instrument_type (oi_reading_of r) = FUTURES) (list_for_symbol (sy_id sy) 20 ?t) = None"
    by (simp add: find_None_iff)
  then show "co_status (score_oi cfg (sy_id sy) ?t) = DS_MISSING" by (simp add: score_oi_def missing_component_def)
  obtain fut where fut: "reading_from_futures_bars (sy_symbol sy) bars = Some fut" "or_instrument_type fut = FUTURES"
    using assms(3) by (auto simp: reading_from_futures_bars_def Let_def)
  have sr: "symbol_readings p (clk (sy_id sy)) sy = Inr (readings_from_chain (clk (sy_id sy)) rows @ [fut])"
    using assms(1,2) fut(1) by (simp add: symbol_readings_def)
  obtain new where new: "oi_observations ?t = oi_observations s @ new"
    "map row_pair new = map (Pair (sy_id sy)) (readings_from_chain (clk (sy_id sy)) rows @ [fut])"
    using oi_step_effect(1) [of p clk sy st s] by (auto simp: answered_def sr)
  from new(2) have "(sy_id sy, fut) \<in> row_pair ` set new"
    by (metis in_set_conv_decomp list.simps(9) list.set_map map_append)
  then obtain q where "q \<in> set new" "oi_symbol_id q = sy_id sy" "oi_reading_of q = fut"
    by (auto simp: row_pair_def)
  then show "\<exists>q \<in> set (oi_observations ?t). oi_symbol_id q = sy_id sy \<and> or_instrument_type (oi_reading_of q) = FUTURES"
    using new(1) fut(2) by (intro bexI [of _ q]) simp_all
qed

section \<open>Examples\<close>

lemma no_news_total: "\<exists>r. fusion_compute ops cfg None now symbol regime s = Inr r"
  by (auto simp: fusion_compute_def score_news_def Let_def split: option.split)

definition sample_signal :: fundamental_store where
  "sample_signal = snapshot_upsert (sample_attempt 100 (Some sample_company) FS_SUCCESS)
     (sample_fundamentals\<lparr>daily_features := [\<lparr>fr_symbol_id = 1, fr_date = 100,
          fr_cols = [''relative_volume'' \<mapsto> PyFloat (3 / 2), ''ema20'' \<mapsto> PyFloat (1 / 2)]\<rparr>],
        daily_prices := [sample_bar 100]\<rparr>)"

definition busy_broker :: derivatives_provider where
  "busy_broker = sample_broker\<lparr>dp_option_chain := (\<lambda>_ _. Inr (replicate 20
     \<lparr>ch_underlying = ''INFY'', ch_expiry_date = 739676, ch_strike_price = 1500,
      ch_call = Some \<lparr>ol_instrument_key = ''C'', ol_ltp = 40, ol_close_price = 50, ol_volume = 9, ol_oi = 1200,
        ol_prev_oi = 1000\<rparr>, ch_put = None\<rparr>))\<rparr>"

theorem oi_component_blind_witness:
  "co_status (score_oi default_settings 1 (snd (oi_step busy_broker (\<lambda>_. 9) (hd (symbols sample_oi_store)) (oi_empty_run, sample_oi_store))))
     = DS_MISSING"
proof -
  let ?sy = "hd (symbols sample_oi_store)"
  have sy: "sy_id ?sy = 1" by code_simp
  have none: "oi_observations sample_oi_store = []" by code_simp
  have len: "20 \<le> length (readings_from_chain ((\<lambda>_. 9) (sy_id ?sy)) (replicate 20
     \<lparr>ch_underlying = ''INFY'', ch_expiry_date = 739676, ch_strike_price = 1500,
      ch_call = Some \<lparr>ol_instrument_key = ''C'', ol_ltp = 40, ol_close_price = 50, ol_volume = 9, ol_oi = 1200,
        ol_prev_oi = 1000\<rparr>, ch_put = None\<rparr>))"
    by (simp add: readings_from_chain_def)
  have chain: "dp_option_chain busy_broker a b = Inr (replicate 20
     \<lparr>ch_underlying = ''INFY'', ch_expiry_date = 739676, ch_strike_price = 1500,
      ch_call = Some \<lparr>ol_instrument_key = ''C'', ol_ltp = 40, ol_close_price = 50, ol_volume = 9, ol_oi = 1200,
        ol_prev_oi = 1000\<rparr>, ch_put = None\<rparr>)" for a b by (simp add: busy_broker_def)
  obtain bars where bars: "dp_futures_history busy_broker (sy_symbol ?sy) = Inr bars" "bars \<noteq> []"
    "\<forall>b \<in> set bars. fb_timestamp b < 9" by (simp add: busy_broker_def sample_broker_def)
  from oi_component_blind [where clk = "\<lambda>_. 9" and s = sample_oi_store, OF chain bars(1,2) len] bars(3) none
  show ?thesis by (simp add: sy)
qed

theorem fusion_sound_witness:
  "case fusion_compute demo_frames default_settings None 0 ''INFY'' None sample_signal of Inl _ \<Rightarrow> False
   | Inr r \<Rightarrow> 0 \<le> sf_confidence r \<and> sf_confidence r \<le> 100
       \<and> map co_name (sf_component_scores r) = [''technical'', ''volume'', ''oi'', ''sector_rrg'', ''market_regime'', ''news'', ''fundamentals'']"
proof -
  obtain r where r: "fusion_compute demo_frames default_settings None 0 ''INFY'' None sample_signal = Inr r"
    using no_news_total by blast
  have "fusion_weights_ok default_settings" "technical_weights_ok default_settings" "fundamental_weights_ok default_settings"
    "pct_ok (Option.bind None mr_score)"
    by (simp_all add: fusion_weights_ok_def fusion_weights_def technical_weights_ok_def fundamental_weights_ok_def
        default_settings_def pct_ok_def)
  from fusion_sound [OF r this] show ?thesis unfolding r by (simp add: fusion_weights_def)
qed

end
