(* ===== verification/Momentum_Pipeline.thy ===== *)
theory Momentum_Pipeline
  imports Signal_Fusion Decision_Engine
begin

text \<open>
  The momentum pipeline: app/decision/momentum_decision_engine.py and momentum_pipeline_coordinator.py,
  the observation rows of app/models/momentum_alert_observation.py and their repository, and the two
  jobs app/scheduler/momentum_pipeline_jobs.py and momentum_observation_followup_jobs.py. One run takes
  the qualified scanner results, fuses the signals of every symbol once, moves its momentum state, and
  records one observation for each transition that calls for an alert; a later job fills in the prices
  that followed. Rows come back in table order where a query gives no order.
\<close>

section \<open>The verdict\<close>

datatype pipeline_verdict = PV_TRIGGER | PV_WATCH | PV_REJECT | PV_INVALIDATE

record pipeline_decision =
  pd_symbol :: string
  pd_verdict :: pipeline_verdict
  pd_reason :: msg
  pd_momentum_state :: "momentum_state option"
  pd_signal_score :: "rat option"
  pd_confidence :: rat
  pd_alert_id :: "int option"
  pd_timestamp :: int

definition INVALIDATED_STATES :: "momentum_state list" where
  "INVALIDATED_STATES = [M_INVALIDATED, M_EXHAUSTED]"

definition low_confidence :: "settings \<Rightarrow> rat \<Rightarrow> msg" where
  "low_confidence cfg confidence =
     [Lit ''confidence='', Fix 2 confidence, Lit ''% below minimum ('', Fix 2 (pipeline_min_confidence_pct cfg), Lit ''%)'']"

definition pipeline_decide :: "settings \<Rightarrow> rat \<Rightarrow> momentum_state option \<Rightarrow> pipeline_verdict \<times> msg" where
  "pipeline_decide cfg confidence state =
     (if confidence < pipeline_min_confidence_pct cfg then (PV_REJECT, low_confidence cfg confidence)
      else case state of
        None \<Rightarrow> (PV_REJECT, lit ''no momentum state available'')
      | Some st \<Rightarrow>
          (if st \<in> set ALERT_WORTHY_STATES then (PV_TRIGGER, [Lit ''momentum state is '', Lit (state_value st)])
           else if st \<in> set INVALIDATED_STATES then (PV_INVALIDATE, [Lit ''momentum state is '', Lit (state_value st)])
           else (PV_WATCH, [Lit ''momentum state is '', Lit (state_value st)])))"

section \<open>Observations\<close>

record observation =
  ob_id :: int
  ob_transition_id :: int
  ob_symbol_id :: int
  ob_alert_id :: "int option"
  ob_momentum_state :: string
  ob_trigger_at :: int
  ob_signal_score :: rat
  ob_signal_confidence :: "rat option"
  ob_as_of_data_at :: "int option"
  ob_data_age_seconds :: "rat option"
  ob_is_stale :: bool
  ob_price_at_trigger :: "rat option"
  ob_price_after_15m :: "rat option"
  ob_price_after_1h :: "rat option"
  ob_price_after_1d :: "rat option"
  ob_change_pct_15m :: "rat option"
  ob_change_pct_1h :: "rat option"
  ob_change_pct_1d :: "rat option"

record pipeline_store = analytics_store +
  observations :: "observation list"
  next_observation_id :: int

text \<open>A second row for one transition violates the unique constraint of \<open>transition_id\<close>.\<close>

definition observation_insert ::
  "(int \<Rightarrow> observation) \<Rightarrow> 'x pipeline_store_scheme \<Rightarrow> (py_error + observation) \<times> 'x pipeline_store_scheme" where
  "observation_insert data s =
     (let row = data (next_observation_id s)
      in if ob_transition_id row \<in> ob_transition_id ` set (observations s) then (Inl (OtherError ''IntegrityError''), s)
         else (Inr row, s\<lparr>observations := observations s @ [row], next_observation_id := next_observation_id s + 1\<rparr>))"

definition new_observation ::
  "int \<Rightarrow> int \<Rightarrow> int option \<Rightarrow> string \<Rightarrow> int \<Rightarrow> rat \<Rightarrow> rat \<Rightarrow> int option \<Rightarrow> rat option \<Rightarrow> bool \<Rightarrow> rat option
     \<Rightarrow> int \<Rightarrow> observation" where
  "new_observation transition_id symbol_id alert_id state trigger_at score confidence as_of age stale price i =
     \<lparr>ob_id = i, ob_transition_id = transition_id, ob_symbol_id = symbol_id, ob_alert_id = alert_id,
      ob_momentum_state = state, ob_trigger_at = trigger_at, ob_signal_score = score,
      ob_signal_confidence = Some confidence, ob_as_of_data_at = as_of, ob_data_age_seconds = age,
      ob_is_stale = stale, ob_price_at_trigger = price, ob_price_after_15m = None, ob_price_after_1h = None,
      ob_price_after_1d = None, ob_change_pct_15m = None, ob_change_pct_1h = None, ob_change_pct_1d = None\<rparr>"

definition observations_recent :: "nat \<Rightarrow> 'x pipeline_store_scheme \<Rightarrow> observation list" where
  "observations_recent limit s = take limit (sort_key (\<lambda>r. - ob_trigger_at r) (observations s))"

definition list_awaiting_15m :: "int \<Rightarrow> nat \<Rightarrow> 'x pipeline_store_scheme \<Rightarrow> observation list" where
  "list_awaiting_15m cutoff limit s =
     take limit (filter (\<lambda>r. ob_trigger_at r \<le> cutoff \<and> ob_price_after_15m r = None) (observations s))"

definition list_awaiting_1h :: "int \<Rightarrow> nat \<Rightarrow> 'x pipeline_store_scheme \<Rightarrow> observation list" where
  "list_awaiting_1h cutoff limit s =
     take limit (filter (\<lambda>r. ob_trigger_at r \<le> cutoff \<and> ob_price_after_1h r = None) (observations s))"

definition list_awaiting_1d :: "int \<Rightarrow> nat \<Rightarrow> 'x pipeline_store_scheme \<Rightarrow> observation list" where
  "list_awaiting_1d cutoff limit s =
     take limit (filter (\<lambda>r. ob_trigger_at r \<le> cutoff \<and> ob_price_after_1d r = None) (observations s))"

section \<open>The coordinator\<close>

record pipeline_run =
  pr_evaluated :: nat
  pr_trigger :: nat
  pr_watch :: nat
  pr_reject :: nat
  pr_invalidate :: nat
  pr_alerts_created :: nat
  pr_errors :: "(string \<times> py_error) list"

definition empty_pipeline_run :: pipeline_run where
  "empty_pipeline_run = \<lparr>pr_evaluated = 0, pr_trigger = 0, pr_watch = 0, pr_reject = 0, pr_invalidate = 0,
     pr_alerts_created = 0, pr_errors = []\<rparr>"

definition opt_float :: "rat option \<Rightarrow> pyval" where
  "opt_float x = (case x of None \<Rightarrow> PyNone | Some v \<Rightarrow> PyFloat v)"

definition fusion_evidence :: "rat \<Rightarrow> fusion_result \<Rightarrow> metadata" where
  "fusion_evidence score fusion =
     [(''overall_score'', PyFloat score),
      (''confidence'', PyFloat (sf_confidence fusion)),
      (''positive_factors'', PyList (map PyMsg (sf_positive_factors fusion))),
      (''negative_factors'', PyList (map PyMsg (sf_negative_factors fusion))),
      (''missing_data'', PyList (map PyStr (sf_missing_data fusion))),
      (''component_scores'', PyDict (map (\<lambda>c. (co_name c, PyDict
         [(''status'', PyStr (data_status_value (co_status c))), (''score'', opt_float (co_score c)),
          (''weight'', PyFloat (co_weight c)), (''reasons'', PyList (map PyMsg (co_reasons c)))]))
        (sf_component_scores fusion)))]"

definition record_observation ::
  "settings \<Rightarrow> string \<Rightarrow> int \<Rightarrow> int option \<Rightarrow> momentum_state \<Rightarrow> rat \<Rightarrow> rat \<Rightarrow> int \<Rightarrow> 'x pipeline_store_scheme
     \<Rightarrow> (py_error + unit) \<times> 'x pipeline_store_scheme" where
  "record_observation cfg symbol transition_id alert_id state score confidence moment s =
     (case get_by_symbol symbol None s of
        None \<Rightarrow> (Inr (), s)
      | Some row \<Rightarrow>
          (let latest = get_latest_intraday (sy_id row) s;
               as_of = map_option ip_datetime latest;
               age = map_option (\<lambda>d. of_int (moment - d) / 1000000) as_of;
               stale = (case age of None \<Rightarrow> False
                        | Some a \<Rightarrow> momentum_observation_stale_data_threshold_seconds cfg < a)
           in case observation_insert (new_observation transition_id (sy_id row) alert_id (state_value state) moment
                     (py_round 2 score) (py_round 2 confidence) as_of age stale (map_option ip_close latest)) s of
                (Inl e, s') \<Rightarrow> (Inl e, s')
              | (Inr _, s') \<Rightarrow> (Inr (), s')))"

definition standing_state :: "string \<Rightarrow> 'x momentum_store_scheme \<Rightarrow> py_error + momentum_state option" where
  "standing_state symbol s =
     (case get_by_symbol symbol None s of None \<Rightarrow> state_of None | Some row \<Rightarrow> state_of (get_current (sy_id row) s))"

text \<open>One symbol. The fusion engine has no news provider here.\<close>

definition evaluate_symbol ::
  "frame_ops \<Rightarrow> runtime \<Rightarrow> settings \<Rightarrow> string \<Rightarrow> market_regime option \<Rightarrow> int \<Rightarrow> 'x pipeline_store_scheme
     \<Rightarrow> (py_error + pipeline_decision) \<times> 'x pipeline_store_scheme" where
  "evaluate_symbol ops rt cfg symbol regime moment s =
     (case fusion_compute ops cfg None (clock rt) symbol regime s of
        Inl e \<Rightarrow> (Inl e, s)
      | Inr fusion \<Rightarrow>
         (let confidence = sf_confidence fusion;
              decided = (\<lambda>v reason st alert. \<lparr>pd_symbol = symbol, pd_verdict = v, pd_reason = reason,
                pd_momentum_state = st, pd_signal_score = sf_overall_score fusion, pd_confidence = confidence,
                pd_alert_id = alert, pd_timestamp = moment\<rparr>)
          in case sf_overall_score fusion of
               None \<Rightarrow> (Inr (decided PV_REJECT (lit ''no signal fusion evidence available at all'') None None), s)
             | Some score \<Rightarrow>
                (if confidence < pipeline_min_confidence_pct cfg
                 then (Inr (decided PV_REJECT (low_confidence cfg confidence) None None), s)
                 else case momentum_evaluate rt cfg symbol score (fusion_evidence score fusion) (Some moment) s of
                   (Inl e, s1) \<Rightarrow> (Inl e, s1)
                 | (Inr m, s1) \<Rightarrow>
                    (let (outcome, s2) =
                       (case me_transition m of
                          None \<Rightarrow> (standing_state symbol s1, s1)
                        | Some t \<Rightarrow>
                           (case (if tr_to_state t \<in> set ALERT_WORTHY_STATES then me_transition_id m else None) of
                              None \<Rightarrow> (Inr (Some (tr_to_state t)), s1)
                            | Some i \<Rightarrow>
                               (case record_observation cfg symbol i (me_alert_id m) (tr_to_state t) score confidence moment s1 of
                                  (Inl e, s2) \<Rightarrow> (Inl e, s2)
                                | (Inr _, s2) \<Rightarrow> (Inr (Some (tr_to_state t)), s2))))
                     in case outcome of
                          Inl e \<Rightarrow> (Inl e, s2)
                        | Inr st \<Rightarrow>
                           (let (v, reason) = pipeline_decide cfg confidence st
                            in (Inr (decided v reason st (me_alert_id m)), s2))))))"

definition count_verdict :: "pipeline_decision \<Rightarrow> pipeline_run \<Rightarrow> pipeline_run" where
  "count_verdict d run =
     (case pd_verdict d of
        PV_TRIGGER \<Rightarrow> run\<lparr>pr_trigger := Suc (pr_trigger run),
          pr_alerts_created := pr_alerts_created run + (if pd_alert_id d \<noteq> None then 1 else 0)\<rparr>
      | PV_WATCH \<Rightarrow> run\<lparr>pr_watch := Suc (pr_watch run)\<rparr>
      | PV_REJECT \<Rightarrow> run\<lparr>pr_reject := Suc (pr_reject run)\<rparr>
      | PV_INVALIDATE \<Rightarrow> run\<lparr>pr_invalidate := Suc (pr_invalidate run)\<rparr>)"

definition pipeline_step ::
  "frame_ops \<Rightarrow> runtime \<Rightarrow> settings \<Rightarrow> market_regime option \<Rightarrow> int \<Rightarrow> (int \<rightharpoonup> string) \<Rightarrow> result_row
     \<Rightarrow> string list \<times> pipeline_run \<times> 'x pipeline_store_scheme \<Rightarrow> string list \<times> pipeline_run \<times> 'x pipeline_store_scheme" where
  "pipeline_step ops rt cfg regime moment names r p =
     (case p of (seen, run, s) \<Rightarrow>
        (case names (rr_symbol_id r) of
           None \<Rightarrow> (seen, run, s)
         | Some symbol \<Rightarrow>
            (if symbol \<in> set seen then (seen, run, s)
             else let run1 = run\<lparr>pr_evaluated := Suc (pr_evaluated run)\<rparr>
                  in case evaluate_symbol ops rt cfg symbol regime moment s of
                       (Inl e, s') \<Rightarrow> (symbol # seen, run1\<lparr>pr_errors := pr_errors run1 @ [(symbol, e)]\<rparr>, s')
                     | (Inr d, s') \<Rightarrow> (symbol # seen, count_verdict d run1, s'))))"

definition pipeline_run_all ::
  "frame_ops \<Rightarrow> runtime \<Rightarrow> settings \<Rightarrow> market_regime option \<Rightarrow> int option \<Rightarrow> 'x pipeline_store_scheme
     \<Rightarrow> pipeline_run \<times> 'x pipeline_store_scheme" where
  "pipeline_run_all ops rt cfg regime now s =
     (let moment = opt_else now (clock rt);
          qualified = list_results None (Some ''qualified'') 5000 s;
          names = symbol_names (map rr_symbol_id qualified) s
      in snd (fold (pipeline_step ops rt cfg regime moment names) qualified ([], empty_pipeline_run, s)))"

section \<open>The scheduled job\<close>

definition MOMENTUM_PIPELINE_WORKER_NAME :: string where
  "MOMENTUM_PIPELINE_WORKER_NAME = ''momentum_pipeline''"

text \<open>The job runs between the open and the close of the market; the regime evidence is computed once.
  A failed heartbeat write is logged only, so the heartbeat never changes the result.\<close>

definition momentum_pipeline_job ::
  "frame_ops \<Rightarrow> runtime \<Rightarrow> settings \<Rightarrow> int \<Rightarrow> string list \<Rightarrow> 'x pipeline_store_scheme \<Rightarrow> 'x pipeline_store_scheme" where
  "momentum_pipeline_job ops rt cfg host_today sector_symbols s =
     (if \<not> is_market_open cfg (clock rt) None
      then ping_run (clock rt) MOMENTUM_PIPELINE_WORKER_NAME (Some ''skipped: market_closed'') s
      else let regime = compute_market_regime ops cfg host_today (clock rt) None
                 (if sector_symbols = [] then None else Some sector_symbols) 250 s;
               (run, s') = pipeline_run_all ops rt cfg (Some regime) (Some (clock rt)) s
           in ping_success (clock rt) MOMENTUM_PIPELINE_WORKER_NAME
                (Some (str_int (int (pr_evaluated run)) @ '' evaluated'')) s')"

section \<open>The follow-up job\<close>

definition HORIZON_15M :: int where "HORIZON_15M = 15 * minute_us"

definition HORIZON_1H :: int where "HORIZON_1H = 60 * minute_us"

definition HORIZON_1D :: int where "HORIZON_1D = 24 * 60 * minute_us"

definition pct_change :: "rat option \<Rightarrow> rat option \<Rightarrow> rat option" where
  "pct_change base later =
     (case (base, later) of
        (Some b, Some l) \<Rightarrow> if b = 0 then None else Some (py_round 4 ((l - b) / b * 100))
      | _ \<Rightarrow> None)"

definition fill_15m :: "'x market_store_scheme \<Rightarrow> observation \<Rightarrow> observation option" where
  "fill_15m s r =
     (case get_intraday_at_or_after (ob_symbol_id r) (ob_trigger_at r + HORIZON_15M) s of
        None \<Rightarrow> None
      | Some bar \<Rightarrow> Some (r\<lparr>ob_price_after_15m := Some (ip_close bar),
          ob_change_pct_15m := pct_change (ob_price_at_trigger r) (Some (ip_close bar))\<rparr>))"

definition fill_1h :: "'x market_store_scheme \<Rightarrow> observation \<Rightarrow> observation option" where
  "fill_1h s r =
     (case get_intraday_at_or_after (ob_symbol_id r) (ob_trigger_at r + HORIZON_1H) s of
        None \<Rightarrow> None
      | Some bar \<Rightarrow> Some (r\<lparr>ob_price_after_1h := Some (ip_close bar),
          ob_change_pct_1h := pct_change (ob_price_at_trigger r) (Some (ip_close bar))\<rparr>))"

definition fill_1d :: "timezone \<Rightarrow> 'x market_store_scheme \<Rightarrow> observation \<Rightarrow> observation option" where
  "fill_1d tz s r =
     (let target_date = date_of (to_market_time (utc_dt (ob_trigger_at r + HORIZON_1D)) tz)
      in case get_daily_at_or_after (ob_symbol_id r) target_date s of
        None \<Rightarrow> None
      | Some bar \<Rightarrow> Some (r\<lparr>ob_price_after_1d := Some (dp_close bar),
          ob_change_pct_1d := pct_change (ob_price_at_trigger r) (Some (dp_close bar))\<rparr>))"

text \<open>The loop over one list of waiting rows: a filled row is written back, the count goes up.\<close>

definition write_observation :: "observation \<Rightarrow> 'x pipeline_store_scheme \<Rightarrow> 'x pipeline_store_scheme" where
  "write_observation r s = s\<lparr>observations := map (\<lambda>q. if ob_id q = ob_id r then r else q) (observations s)\<rparr>"

definition fill_rows ::
  "('x pipeline_store_scheme \<Rightarrow> observation \<Rightarrow> observation option) \<Rightarrow> observation list \<Rightarrow> 'x pipeline_store_scheme
     \<Rightarrow> nat \<times> 'x pipeline_store_scheme" where
  "fill_rows fill rows s =
     fold (\<lambda>r (n, u). case fill u r of None \<Rightarrow> (n, u) | Some r' \<Rightarrow> (Suc n, write_observation r' u)) rows (0, s)"

definition run_followup :: "settings \<Rightarrow> int \<Rightarrow> 'x pipeline_store_scheme \<Rightarrow> (nat \<times> nat \<times> nat) \<times> 'x pipeline_store_scheme" where
  "run_followup cfg now s =
     (let (n15, s1) = fill_rows fill_15m (list_awaiting_15m (now - HORIZON_15M) 200 s) s;
          (n60, s2) = fill_rows fill_1h (list_awaiting_1h (now - HORIZON_1H) 200 s1) s1;
          (n1d, s3) = fill_rows (fill_1d (market_timezone cfg)) (list_awaiting_1d (now - HORIZON_1D) 200 s2) s2
      in ((n15, n60, n1d), s3))"

section \<open>One symbol\<close>

definition alert_worthy :: "transition_row \<Rightarrow> bool" where
  "alert_worthy t \<longleftrightarrow> mt_to_state t \<in> state_value ` set ALERT_WORTHY_STATES"

text \<open>An observation records a transition.\<close>

definition observes :: "observation \<Rightarrow> transition_row \<Rightarrow> bool" where
  "observes ob t \<longleftrightarrow> ob_transition_id ob = mt_id t \<and> ob_symbol_id ob = mt_symbol_id t
     \<and> ob_momentum_state ob = mt_to_state t \<and> ob_signal_score ob = py_round 2 (mt_score t)
     \<and> ob_trigger_at ob = instant_of (mt_timestamp t)
     \<and> ob_price_after_15m ob = None \<and> ob_price_after_1h ob = None \<and> ob_price_after_1d ob = None"

definition observations_known :: "'x pipeline_store_scheme \<Rightarrow> bool" where
  "observations_known s \<longleftrightarrow> (\<forall>ob \<in> set (observations s). ob_transition_id ob < next_transition_id s)"

lemma observation_frame:
  fixes s :: "'x pipeline_store_scheme"
  shows "observations (log_event i ty m s) = observations s" "observations (ping_run t w d s) = observations s"
    "observations (ping_success t w d s) = observations s" "observations (snd (create_alert a s)) = observations s"
    "observations (snd (store_transition y tr s)) = observations s"
  by (simp_all add: log_event_def ping_run_def ping_success_def create_alert_def Let_def store_transition_def)

lemma observation_frame_process:
  fixes s :: "'x pipeline_store_scheme"
  shows "observations (snd (process rt cfg d y now s)) = observations s"
  by (auto simp: process_def process_impl_def Let_def split_beta observation_frame log_suppressed_def split: option.splits)

lemma state_value_worthy: "state_value st \<in> state_value ` set ALERT_WORTHY_STATES \<longleftrightarrow> st \<in> set ALERT_WORTHY_STATES"
  by (cases st) (simp_all add: ALERT_WORTHY_STATES_def)

text \<open>The effect of one evaluation on the logs.\<close>

definition logged :: "'x pipeline_store_scheme \<Rightarrow> nat \<Rightarrow> 'x pipeline_store_scheme \<Rightarrow> bool" where
  "logged s n s' \<longleftrightarrow> momentum_inv s' \<and> observations_known s' \<and> symbols s' = symbols s
     \<and> length (alerts s') = length (alerts s) + n
     \<and> (\<exists>ts obs. transitions s' = transitions s @ ts \<and> observations s' = observations s @ obs
          \<and> list_all2 observes obs (filter alert_worthy ts))"

lemma logged_refl: "momentum_inv s \<Longrightarrow> observations_known s \<Longrightarrow> logged s 0 s"
  by (auto simp: logged_def intro!: exI [of _ "[]"])

lemma logged_trans: "logged s m u \<Longrightarrow> logged u n v \<Longrightarrow> logged s (m + n) v"
  unfolding logged_def by (fastforce intro: list_all2_appendI)


lemma new_observation_simps:
  "ob_id (new_observation t y a st w sc c as_of age stale p i) = i"
  "ob_transition_id (new_observation t y a st w sc c as_of age stale p i) = t"
  "ob_symbol_id (new_observation t y a st w sc c as_of age stale p i) = y"
  "ob_momentum_state (new_observation t y a st w sc c as_of age stale p i) = st"
  "ob_trigger_at (new_observation t y a st w sc c as_of age stale p i) = w"
  "ob_signal_score (new_observation t y a st w sc c as_of age stale p i) = sc"
  "ob_price_after_15m (new_observation t y a st w sc c as_of age stale p i) = None"
  "ob_price_after_1h (new_observation t y a st w sc c as_of age stale p i) = None"
  "ob_price_after_1d (new_observation t y a st w sc c as_of age stale p i) = None"
  by (simp_all add: new_observation_def)
lemma record_observation_known:
  assumes "get_by_symbol symbol None s = Some y" "observations_known s"
    and fresh: "\<forall>ob \<in> set (observations s). ob_transition_id ob \<noteq> i"
  obtains s' ob where "record_observation cfg symbol i a st score c t s = (Inr (), s')"
    "observations s' = observations s @ [ob]" "ob_transition_id ob = i" "ob_symbol_id ob = sy_id y"
    "ob_momentum_state ob = state_value st" "ob_signal_score ob = py_round 2 score" "ob_trigger_at ob = t"
    "ob_price_after_15m ob = None" "ob_price_after_1h ob = None" "ob_price_after_1d ob = None"
    "momentum_states s' = momentum_states s" "transitions s' = transitions s" "symbols s' = symbols s"
    "alerts s' = alerts s" "next_transition_id s' = next_transition_id s"
proof -
  define mk where "mk = (let latest = get_latest_intraday (sy_id y) s; as_of = map_option ip_datetime latest;
      age = map_option (\<lambda>d. of_int (t - d) / 1000000) as_of
    in new_observation i (sy_id y) a (state_value st) t (py_round 2 score) (py_round 2 c) as_of age
         (case age of None \<Rightarrow> False | Some x \<Rightarrow> momentum_observation_stale_data_threshold_seconds cfg < x)
         (map_option ip_close latest))"
  have "ob_transition_id (mk (next_observation_id s)) = i" by (simp add: mk_def Let_def new_observation_simps)
  then have r: "record_observation cfg symbol i a st score c t s =
      (Inr (), s\<lparr>observations := observations s @ [mk (next_observation_id s)], next_observation_id := next_observation_id s + 1\<rparr>)"
    using assms(1) fresh by (auto simp: record_observation_def observation_insert_def mk_def Let_def)
  show ?thesis
    by (rule that [OF r, of "mk (next_observation_id s)"]) (simp_all add: mk_def Let_def new_observation_simps)
qed

lemma stored_alerts: "alerts (snd (store_transition i t s)) = alerts s"
  by (simp add: store_transition_def)

lemma move_effect:
  fixes s :: "'x pipeline_store_scheme"
  assumes move: "momentum_evaluate rt cfg symbol score ev now s =
      (let s1 = snd (store_transition y t s); out = raise_alert rt cfg symbol y m t s1
       in if tr_to_state t \<in> set ALERT_WORTHY_STATES then (Inr r, snd out) else (Inr r, s1))"
    and a: "me_alert_id r \<noteq> None \<longrightarrow> tr_to_state t \<in> set ALERT_WORTHY_STATES"
    and b: "tr_to_state t \<in> set ALERT_WORTHY_STATES \<longrightarrow>
      fst (raise_alert rt cfg symbol y m t (snd (store_transition y t s))) = Inr (me_alert_id r)"
    and e: "momentum_evaluate rt cfg symbol score ev now s = (Inr r, s')"
  shows "transitions s' = transitions s @ [transition_of (next_transition_id s) y t]"
    "next_transition_id s' = next_transition_id s + 1" "observations s' = observations s" "symbols s' = symbols s"
    "length (alerts s') = length (alerts s) + (if me_alert_id r = None then 0 else 1)"
proof -
  let ?s1 = "snd (store_transition y t s)" and ?w = "tr_to_state t \<in> set ALERT_WORTHY_STATES"
  have s': "s' = (if ?w then snd (raise_alert rt cfg symbol y m t ?s1) else ?s1)"
    using move e by (auto simp: Let_def split: if_splits)
  show "transitions s' = transitions s @ [transition_of (next_transition_id s) y t]"
    "next_transition_id s' = next_transition_id s + 1" "observations s' = observations s" "symbols s' = symbols s"
    using s' by (simp_all add: raise_alert_def process_frame observation_frame_process observation_frame store_transition_simps)
  show "length (alerts s') = length (alerts s) + (if me_alert_id r = None then 0 else 1)"
  proof (cases ?w)
    case True
    from process_issues [OF mp [OF b True, unfolded raise_alert_def]] show ?thesis
      by (simp add: s' True raise_alert_def stored_alerts)
  next
    case False
    with a show ?thesis by (simp add: s' stored_alerts)
  qed
qed

lemma instant_of_utc_dt [simp]: "instant_of (utc_dt m) = m"
  by (simp add: utc_dt_def)

lemma evaluate_symbol_move:
  fixes s :: "'x pipeline_store_scheme"
  assumes known: "momentum_inv s" "observations_known s"
    and e: "momentum_evaluate rt cfg symbol score ev (Some m) s = (Inr r, s1)"
    and t: "me_transition r = Some t" "me_transition_id r = Some (next_transition_id s)" "tr_score t = score"
      "tr_timestamp t = utc_dt m" "get_by_symbol symbol None s = Some y"
    and eff: "transitions s1 = transitions s @ [transition_of (next_transition_id s) (sy_id y) t]"
      "next_transition_id s1 = next_transition_id s + 1" "observations s1 = observations s" "symbols s1 = symbols s"
      "length (alerts s1) = length (alerts s) + n"
    and w: "tr_to_state t \<in> set ALERT_WORTHY_STATES"
  obtains s2 where "record_observation cfg symbol (next_transition_id s) (me_alert_id r) (tr_to_state t) score c m s1 = (Inr (), s2)"
    "logged s n s2"
proof -
  have g: "get_by_symbol symbol None s1 = Some y" using t(5) eff(4) by (simp add: get_by_symbol_def)
  have k1: "observations_known s1" using known(2) eff(2,3) by (force simp: observations_known_def)
  have fresh: "\<forall>ob \<in> set (observations s1). ob_transition_id ob \<noteq> next_transition_id s"
    using known(2) eff(3) by (auto simp: observations_known_def)
  have inv1: "momentum_inv s1" using momentum_evaluate_inv [OF known(1), of rt cfg symbol score ev "Some m"] e by simp
  let ?t = "transition_of (next_transition_id s) (sy_id y) t"
  have aw: "alert_worthy ?t" using w by (simp add: alert_worthy_def transition_of_def)
  from record_observation_known [OF g k1 fresh, of cfg "me_alert_id r" "tr_to_state t" score c m]
  obtain s2 ob where o: "record_observation cfg symbol (next_transition_id s) (me_alert_id r) (tr_to_state t) score c m s1 = (Inr (), s2)"
    "observations s2 = observations s1 @ [ob]" "ob_transition_id ob = next_transition_id s" "ob_symbol_id ob = sy_id y"
    "ob_momentum_state ob = state_value (tr_to_state t)" "ob_signal_score ob = py_round 2 score" "ob_trigger_at ob = m"
    "ob_price_after_15m ob = None" "ob_price_after_1h ob = None" "ob_price_after_1d ob = None"
    "momentum_states s2 = momentum_states s1" "transitions s2 = transitions s1" "symbols s2 = symbols s1"
    "alerts s2 = alerts s1" "next_transition_id s2 = next_transition_id s1" by metis
  have "observes ob ?t" using o t by (simp add: observes_def transition_of_def)
  then have l: "list_all2 observes [ob] (filter alert_worthy [?t])" using aw by simp
  have "\<exists>ts obs. transitions s2 = transitions s @ ts \<and> observations s2 = observations s @ obs
      \<and> list_all2 observes obs (filter alert_worthy ts)"
    using l o(2,12) eff(1,3) by (intro exI [of _ "[?t]"] exI [of _ "[ob]"]) simp
  moreover have "momentum_inv s2" using inv1 momentum_inv_frame [OF o(11,12)] by simp
  moreover have "observations_known s2" using known(2) o(2,3,15) eff(2,3) by (auto simp: observations_known_def)
  ultimately have "logged s n s2" using o(13,14) eff(4,5) by (simp add: logged_def)
  with o(1) show ?thesis by (rule that)
qed

lemma standing_state_total:
  assumes "momentum_inv s"
  obtains st where "standing_state symbol s = Inr st"
proof (cases "get_by_symbol symbol None s")
  case None
  then show ?thesis by (intro that [of None]) (simp add: standing_state_def state_of_def)
next
  case (Some y)
  from assms obtain sts where "position_ok (sy_id y) s sts" by (auto simp: momentum_inv_def)
  from state_of_current [OF this] Some show ?thesis
    by (intro that [of "if sts = [] then None else Some (last sts)"]) (simp add: standing_state_def)
qed

lemma evaluate_symbol_effect:
  fixes s :: "'x pipeline_store_scheme"
  assumes known: "momentum_inv s" "observations_known s"
  obtains d s' where "evaluate_symbol ops rt cfg symbol regime m s = (Inr d, s')"
    "logged s (if pd_alert_id d = None then 0 else 1) s'"
    "pd_alert_id d \<noteq> None \<longrightarrow> pd_verdict d = PV_TRIGGER"
proof -
  obtain f where f: "fusion_compute ops cfg None (clock rt) symbol regime s = Inr f" using no_news_total by blast
  note defs = evaluate_symbol_def f Let_def
  note refl = logged_refl [OF known]
  show ?thesis
  proof (cases "sf_overall_score f = None \<or> sf_confidence f < pipeline_min_confidence_pct cfg")
    case True
    then have "\<exists>d. evaluate_symbol ops rt cfg symbol regime m s = (Inr d, s) \<and> pd_alert_id d = None"
      by (cases "sf_overall_score f") (auto simp: defs)
    then obtain d where "evaluate_symbol ops rt cfg symbol regime m s = (Inr d, s)" "pd_alert_id d = None" by blast
    then show ?thesis by (intro that [of d s]) (simp_all add: refl)
  next
    case False
    then obtain score where sc: "sf_overall_score f = Some score" "\<not> sf_confidence f < pipeline_min_confidence_pct cfg" by auto
    let ?ev = "fusion_evidence score f"
    from known(1) show ?thesis
    proof (cases rule: momentum_evaluate_cases [where rt = rt and cfg = cfg and symbol = symbol
          and score = score and ev = ?ev and now = "Some m"])
      case unknown
      obtain st where "standing_state symbol s = Inr st" by (rule standing_state_total [OF known(1)])
      with unknown sc obtain d where "evaluate_symbol ops rt cfg symbol regime m s = (Inr d, s)" "pd_alert_id d = None"
        by (cases "pipeline_decide cfg (sf_confidence f) st") (auto simp: defs no_transition_def)
      then show ?thesis by (intro that [of d s]) (simp_all add: refl)
    next
      case (stay y sts)
      obtain st where "standing_state symbol s = Inr st" by (rule standing_state_total [OF known(1)])
      with stay sc obtain d where "evaluate_symbol ops rt cfg symbol regime m s = (Inr d, s)" "pd_alert_id d = None"
        by (cases "pipeline_decide cfg (sf_confidence f) st") (auto simp: defs no_transition_def)
      then show ?thesis by (intro that [of d s]) (simp_all add: refl)
    next
      case (move y sts t r)
      obtain s1 where e: "momentum_evaluate rt cfg symbol score ?ev (Some m) s = (Inr r, s1)"
        using move(6) by (auto simp: Let_def split: if_splits)
      note eff = move_effect [OF move(6,9,11) e]
      let ?n = "if me_alert_id r = None then 0 else 1 :: nat"
      show ?thesis
      proof (cases "tr_to_state t \<in> set ALERT_WORTHY_STATES")
        case True
        obtain s2 where o: "record_observation cfg symbol (next_transition_id s) (me_alert_id r) (tr_to_state t) score
            (sf_confidence f) m s1 = (Inr (), s2)" "logged s ?n s2"
          by (rule evaluate_symbol_move [OF known e move(7,8,5) _ move(1) eff True]) (use move(10) in simp_all)
        let ?p = "pipeline_decide cfg (sf_confidence f) (Some (tr_to_state t))"
        have "evaluate_symbol ops rt cfg symbol regime m s =
            (Inr \<lparr>pd_symbol = symbol, pd_verdict = fst ?p, pd_reason = snd ?p, pd_momentum_state = Some (tr_to_state t),
               pd_signal_score = Some score, pd_confidence = sf_confidence f, pd_alert_id = me_alert_id r, pd_timestamp = m\<rparr>, s2)"
          using sc e move(7,8) True o(1) by (cases ?p) (simp add: defs)
        then show ?thesis
          by (rule that) (use o(2) sc(2) True in \<open>simp_all add: pipeline_decide_def\<close>)
      next
        case False
        let ?p = "pipeline_decide cfg (sf_confidence f) (Some (tr_to_state t))"
        have none: "me_alert_id r = None" using move(9) False by blast
        have d: "evaluate_symbol ops rt cfg symbol regime m s =
            (Inr \<lparr>pd_symbol = symbol, pd_verdict = fst ?p, pd_reason = snd ?p, pd_momentum_state = Some (tr_to_state t),
               pd_signal_score = Some score, pd_confidence = sf_confidence f, pd_alert_id = None, pd_timestamp = m\<rparr>, s1)"
          using sc e move(7,8) False none by (cases ?p) (simp add: defs)
        have aw: "\<not> alert_worthy (transition_of (next_transition_id s) (sy_id y) t)"
          using False state_value_worthy by (simp add: alert_worthy_def transition_of_def)
        have "observations_known s1" using known(2) eff(2,3) by (force simp: observations_known_def)
        moreover have "momentum_inv s1" using momentum_evaluate_inv [OF known(1), of rt cfg symbol score ?ev "Some m"] e by simp
        ultimately have "logged s 0 s1"
          using eff none aw unfolding logged_def by (intro conjI exI [of _ "[transition_of (next_transition_id s) (sy_id y) t]"] exI [of _ "[]"]) simp_all
        then show ?thesis by (intro that [OF d]) simp_all
      qed
    qed
  qed
qed

section \<open>A whole run\<close>

definition run_ok ::
  "'x pipeline_store_scheme \<Rightarrow> string list \<times> pipeline_run \<times> 'x pipeline_store_scheme \<Rightarrow> bool" where
  "run_ok s p \<longleftrightarrow> (case p of (seen, run, u) \<Rightarrow>
     logged s (pr_alerts_created run) u \<and> pr_errors run = [] \<and> distinct seen \<and> pr_evaluated run = length seen
     \<and> pr_evaluated run = pr_trigger run + pr_watch run + pr_reject run + pr_invalidate run
     \<and> pr_alerts_created run \<le> pr_trigger run)"

lemma pipeline_step_ok:
  assumes "run_ok s p"
  shows "run_ok s (pipeline_step ops rt cfg regime m names r p)"
    and "set (fst (pipeline_step ops rt cfg regime m names r p)) =
      set_option (names (rr_symbol_id r)) \<union> set (fst p)"
proof -
  obtain seen run u where p: "p = (seen, run, u)" by (cases p)
  show "run_ok s (pipeline_step ops rt cfg regime m names r p)"
    "set (fst (pipeline_step ops rt cfg regime m names r p)) = set_option (names (rr_symbol_id r)) \<union> set (fst p)"
  proof (atomize(full), cases "names (rr_symbol_id r)")
    case None
    with assms p show "run_ok s (pipeline_step ops rt cfg regime m names r p)
      \<and> set (fst (pipeline_step ops rt cfg regime m names r p)) = set_option (names (rr_symbol_id r)) \<union> set (fst p)"
      by (simp add: pipeline_step_def)
  next
    case (Some symbol)
    from assms p have u: "logged s (pr_alerts_created run) u" "momentum_inv u" "observations_known u"
      by (simp_all add: run_ok_def logged_def)
    obtain d u' where e: "evaluate_symbol ops rt cfg symbol regime m u = (Inr d, u')"
      "logged u (if pd_alert_id d = None then 0 else 1) u'" "pd_alert_id d \<noteq> None \<longrightarrow> pd_verdict d = PV_TRIGGER"
      by (rule evaluate_symbol_effect [OF u(2,3)])
    from logged_trans [OF u(1) e(2)] e(1,3) assms p Some
    show "run_ok s (pipeline_step ops rt cfg regime m names r p)
      \<and> set (fst (pipeline_step ops rt cfg regime m names r p)) = set_option (names (rr_symbol_id r)) \<union> set (fst p)"
      by (cases "symbol \<in> set seen"; cases "pd_verdict d"; cases "pd_alert_id d")
        (auto simp: pipeline_step_def run_ok_def count_verdict_def Let_def)
  qed
qed

lemma pipeline_fold_ok:
  assumes "run_ok s p"
  shows "run_ok s (fold (pipeline_step ops rt cfg regime m names) rs p)"
    and "set (fst (fold (pipeline_step ops rt cfg regime m names) rs p)) =
      {y. \<exists>r \<in> set rs. names (rr_symbol_id r) = Some y} \<union> set (fst p)"
proof -
  show "run_ok s (fold (pipeline_step ops rt cfg regime m names) rs p)"
    using assms by (induction rs arbitrary: p) (simp_all add: pipeline_step_ok(1))
  show "set (fst (fold (pipeline_step ops rt cfg regime m names) rs p)) =
      {y. \<exists>r \<in> set rs. names (rr_symbol_id r) = Some y} \<union> set (fst p)"
    using assms
  proof (induction rs arbitrary: p)
    case (Cons r rs)
    from Cons.IH [OF pipeline_step_ok(1) [OF Cons.prems]] pipeline_step_ok(2) [OF Cons.prems]
    show ?case by (auto simp: elem_set)
  qed simp
qed

lemma run_all_ok:
  fixes s :: "'x pipeline_store_scheme"
  assumes "momentum_inv s" "observations_known s"
  defines "qualified \<equiv> list_results None (Some ''qualified'') 5000 s"
  defines "names \<equiv> symbol_names (map rr_symbol_id qualified) s"
  obtains seen where "run_ok s (seen, pipeline_run_all ops rt cfg regime now s)"
    "set seen = {y. \<exists>r \<in> set qualified. names (rr_symbol_id r) = Some y}"
proof -
  have "run_ok s ([], empty_pipeline_run, s)"
    using logged_refl [OF assms(1,2)] by (simp add: run_ok_def empty_pipeline_run_def)
  note run_ok = pipeline_fold_ok [OF this, where ops = ops and rt = rt and cfg = cfg and regime = regime
    and m = "opt_else now (clock rt)" and names = "names" and rs = "qualified"]
  let ?f = "fold (pipeline_step ops rt cfg regime (opt_else now (clock rt)) names) qualified ([], empty_pipeline_run, s)"
  have "?f = (fst ?f, pipeline_run_all ops rt cfg regime now s)"
    by (simp add: pipeline_run_all_def qualified_def names_def Let_def)
  with run_ok show ?thesis by (intro that [of "fst ?f"]) (simp_all)
qed

text \<open>On consistent tables a pipeline run fails on no symbol and evaluates every symbol with a qualified
  result exactly once, however many scanners reported it. The four verdicts partition the evaluated symbols,
  and the alerts it reports are the growth of the alerts table, each belonging to a TRIGGER verdict.\<close>

theorem pipeline_run_accounts:
  assumes "momentum_inv s" "observations_known s"
  shows "let (run, s') = pipeline_run_all ops rt cfg regime now s;
             qualified = list_results None (Some ''qualified'') 5000 s;
             names = symbol_names (map rr_symbol_id qualified) s
     in pr_errors run = []
      \<and> pr_evaluated run = card {y. \<exists>r. r \<in> set qualified \<and> names (rr_symbol_id r) = Some y}
      \<and> pr_evaluated run = pr_trigger run + pr_watch run + pr_reject run + pr_invalidate run
      \<and> length (alerts s') = length (alerts s) + pr_alerts_created run
      \<and> pr_alerts_created run \<le> pr_trigger run"
proof -
  obtain seen where r: "run_ok s (seen, pipeline_run_all ops rt cfg regime now s)"
    "set seen = {y. \<exists>r \<in> set (list_results None (Some ''qualified'') 5000 s).
       symbol_names (map rr_symbol_id (list_results None (Some ''qualified'') 5000 s)) s (rr_symbol_id r) = Some y}"
    by (rule run_all_ok [OF assms])
  have "length seen = card (set seen)" using r(1) by (auto simp: run_ok_def distinct_card)
  with r show ?thesis
    by (cases "pipeline_run_all ops rt cfg regime now s") (simp add: run_ok_def logged_def Let_def Bex_def)
qed

lemma pipeline_run_kept:
  assumes "momentum_inv s" "observations_known s"
  shows "momentum_inv (snd (pipeline_run_all ops rt cfg regime now s))
    \<and> observations_known (snd (pipeline_run_all ops rt cfg regime now s))"
proof -
  obtain seen where "run_ok s (seen, pipeline_run_all ops rt cfg regime now s)" by (rule run_all_ok [OF assms])
  then show ?thesis
    by (cases "pipeline_run_all ops rt cfg regime now s") (simp add: run_ok_def logged_def)
qed

text \<open>C10: A pipeline run records one observation for each transition into TRIGGERED or CONFIRMED that it logs,
  in the order of the log and with the transition's symbol, state, score and time, and for no other; earlier
  observations and transitions stay as they were, and the position of every symbol remains the end of a legal history.\<close>

theorem pipeline_observes_alert_transitions:
  assumes "momentum_inv s" "observations_known s"
  shows "let s' = snd (pipeline_run_all ops rt cfg regime now s)
     in (\<exists>ts obs. transitions s' = transitions s @ ts \<and> observations s' = observations s @ obs
           \<and> list_all2 observes obs (filter alert_worthy ts))
      \<and> momentum_inv s' \<and> observations_known s' \<and> symbols s' = symbols s"
proof -
  obtain seen where "run_ok s (seen, pipeline_run_all ops rt cfg regime now s)" by (rule run_all_ok [OF assms])
  then show ?thesis
    by (cases "pipeline_run_all ops rt cfg regime now s") (simp add: run_ok_def logged_def)
qed

section \<open>Filling in the prices\<close>

text \<open>One horizon: how a row is filled, and the column that says whether it still waits.\<close>

locale horizon =
  fixes fill :: "'x pipeline_store_scheme \<Rightarrow> observation \<Rightarrow> observation option"
    and price :: "observation \<Rightarrow> rat option"
  assumes reads_prices: "fill (write_observation r s) q = fill s q"
    and keeps_id: "fill s q = Some q' \<Longrightarrow> ob_id q' = ob_id q"
    and sets_price: "fill s q = Some q' \<Longrightarrow> price q' \<noteq> None"
begin

definition awaiting :: "int \<Rightarrow> nat \<Rightarrow> 'x pipeline_store_scheme \<Rightarrow> observation list" where
  "awaiting cutoff limit s =
     take limit (filter (\<lambda>r. ob_trigger_at r \<le> cutoff \<and> price r = None) (observations s))"

definition filled :: "'x pipeline_store_scheme \<Rightarrow> observation list \<Rightarrow> observation \<Rightarrow> observation" where
  "filled s rows q = (if q \<in> set rows then opt_else (fill s q) q else q)"

lemma filled_id [simp]: "ob_id (filled s rows q) = ob_id q"
  by (cases "fill s q") (simp_all add: filled_def opt_else_def keeps_id)

lemma fill_fold:
  assumes "distinct (map ob_id rows)" "\<forall>r \<in> set rows. \<forall>q \<in> set (observations s). ob_id q = ob_id r \<longrightarrow> q = r"
  shows "snd (fold (\<lambda>r (n, u). case fill u r of None \<Rightarrow> (n, u) | Some r' \<Rightarrow> (Suc n, write_observation r' u)) rows (n, s))
    = s\<lparr>observations := map (filled s rows) (observations s)\<rparr>"
  using assms
proof (induction rows arbitrary: n s)
  case Nil
  have "filled s [] = (\<lambda>q. q)" by (simp add: filled_def fun_eq_iff)
  then show ?case by simp
next
  case (Cons r rows)
  show ?case
  proof (cases "fill s r")
    case None
    have "filled s (r # rows) q = filled s rows q" for q using None by (auto simp: filled_def opt_else_def)
    moreover have "filled s (r # rows) = filled s rows" using calculation by blast
    ultimately show ?thesis using Cons.IH [of s n] Cons.prems None by simp
  next
    case (Some r')
    let ?u = "write_observation r' s"
    have i: "ob_id r' = ob_id r" using keeps_id [OF Some] .
    have "\<forall>x \<in> set rows. \<forall>q \<in> set (observations ?u). ob_id q = ob_id x \<longrightarrow> q = x"
      using Cons.prems i by (auto simp: write_observation_def) (metis rev_image_eqI)
    from Cons.IH [OF _ this, of "Suc n"] Cons.prems(1)
    have s: "snd (fold (\<lambda>r (n, u). case fill u r of None \<Rightarrow> (n, u) | Some r' \<Rightarrow> (Suc n, write_observation r' u)) rows (Suc n, ?u))
      = ?u\<lparr>observations := map (filled ?u rows) (observations ?u)\<rparr>" by simp
    have "filled ?u rows (if ob_id q = ob_id r' then r' else q) = filled s (r # rows) q" if "q \<in> set (observations s)" for q
    proof (cases "ob_id q = ob_id r")
      case True
      then have q: "q = r" using Cons.prems(2) that by auto
      have "r' \<notin> set rows" using Cons.prems(1) i by (metis distinct.simps(2) image_eqI list.map(2) list.set_map)
      with q i Some show ?thesis by (simp add: filled_def opt_else_def)
    next
      case False
      with i show ?thesis by (auto simp: filled_def reads_prices)
    qed
    then have "map (filled ?u rows) (observations ?u) = map (filled s (r # rows)) (observations s)"
      by (simp add: write_observation_def o_def cong: map_cong)
    with s Some show ?thesis by (simp add: write_observation_def)
  qed
qed

lemma fill_awaiting:
  assumes "distinct (map ob_id (observations s))"
  shows "snd (fill_rows fill (awaiting cutoff limit s) s)
    = s\<lparr>observations := map (filled s (awaiting cutoff limit s)) (observations s)\<rparr>"
  unfolding fill_rows_def
proof (rule fill_fold)
  show "distinct (map ob_id (awaiting cutoff limit s))"
    using assms by (simp add: awaiting_def take_map [symmetric] distinct_map_filter)
  have sub: "set (awaiting cutoff limit s) \<subseteq> set (observations s)"
    by (auto simp: awaiting_def dest: in_set_takeD)
  from assms have "inj_on ob_id (set (observations s))" by (simp add: distinct_map)
  with sub show "\<forall>r \<in> set (awaiting cutoff limit s). \<forall>q \<in> set (observations s). ob_id q = ob_id r \<longrightarrow> q = r"
    by (meson inj_onD subsetD)
qed

text \<open>A price that appears is the fill of a waiting row; a waiting row within the limit is filled when it can be.\<close>

lemma filled_cases:
  assumes "q \<in> set (observations s)"
  obtains (same) "filled s (awaiting cutoff limit s) q = q"
    | (new) q' where "ob_trigger_at q \<le> cutoff" "price q = None" "fill s q = Some q'"
        "filled s (awaiting cutoff limit s) q = q'"
  by (cases "q \<in> set (awaiting cutoff limit s)"; cases "fill s q")
    (auto simp: filled_def opt_else_def awaiting_def dest!: in_set_takeD)

lemma filled_when_possible:
  assumes "q \<in> set (observations s)" "ob_trigger_at q \<le> cutoff" "fill s q \<noteq> None"
    and "length (filter (\<lambda>r. ob_trigger_at r \<le> cutoff \<and> price r = None) (observations s)) \<le> limit"
  shows "price (filled s (awaiting cutoff limit s) q) \<noteq> None"
  using assms sets_price by (auto simp: filled_def awaiting_def opt_else_def)

lemma stuck:
  assumes "\<forall>r \<in> set (awaiting cutoff limit s). fill s r = None"
  shows "filled s (awaiting cutoff limit s) q = q"
  using assms by (auto simp: filled_def opt_else_def)

end

lemma prices_unchanged:
  "intraday_prices (write_observation r s) = intraday_prices s" "daily_prices (write_observation r s) = daily_prices s"
  by (simp_all add: write_observation_def)

interpretation quarter: horizon fill_15m ob_price_after_15m
  by unfold_locales (auto simp: fill_15m_def get_intraday_at_or_after_def prices_unchanged split: option.splits)

interpretation hour: horizon fill_1h ob_price_after_1h
  by unfold_locales (auto simp: fill_1h_def get_intraday_at_or_after_def prices_unchanged split: option.splits)

interpretation day: horizon "fill_1d tz" ob_price_after_1d for tz
  by unfold_locales (auto simp: fill_1d_def Let_def get_daily_at_or_after_def prices_unchanged split: option.splits)

lemma awaiting_lists:
  "list_awaiting_15m = quarter.awaiting" "list_awaiting_1h = hour.awaiting" "list_awaiting_1d = day.awaiting"
  by (simp_all add: fun_eq_iff list_awaiting_15m_def list_awaiting_1h_def list_awaiting_1d_def
      quarter.awaiting_def hour.awaiting_def day.awaiting_def)

text \<open>The three passes as one map over the rows.\<close>

definition pass_15m :: "int \<Rightarrow> 'x pipeline_store_scheme \<Rightarrow> observation \<Rightarrow> observation" where
  "pass_15m now s = quarter.filled s (quarter.awaiting (now - HORIZON_15M) 200 s)"

definition pass_1h :: "int \<Rightarrow> 'x pipeline_store_scheme \<Rightarrow> observation \<Rightarrow> observation" where
  "pass_1h now s = hour.filled s (hour.awaiting (now - HORIZON_1H) 200 s)"

definition pass_1d :: "timezone \<Rightarrow> int \<Rightarrow> 'x pipeline_store_scheme \<Rightarrow> observation \<Rightarrow> observation" where
  "pass_1d tz now s = day.filled tz s (day.awaiting (now - HORIZON_1D) 200 s)"

definition after_15m :: "int \<Rightarrow> 'x pipeline_store_scheme \<Rightarrow> 'x pipeline_store_scheme" where
  "after_15m now s = s\<lparr>observations := map (pass_15m now s) (observations s)\<rparr>"

definition after_1h :: "int \<Rightarrow> 'x pipeline_store_scheme \<Rightarrow> 'x pipeline_store_scheme" where
  "after_1h now s = (let u = after_15m now s in u\<lparr>observations := map (pass_1h now u) (observations u)\<rparr>)"

lemma pass_ids [simp]: "ob_id (pass_15m now s q) = ob_id q" "ob_id (pass_1h now s q) = ob_id q"
  by (simp_all add: pass_15m_def pass_1h_def)

lemma followup_passes:
  assumes "distinct (map ob_id (observations s))"
  shows "observations (snd (run_followup cfg now s)) =
    map (\<lambda>q. pass_1d (market_timezone cfg) now (after_1h now s) (pass_1h now (after_15m now s) (pass_15m now s q))) (observations s)"
proof -
  have d1: "distinct (map ob_id (observations (after_15m now s)))" using assms by (simp add: after_15m_def o_def)
  have d2: "distinct (map ob_id (observations (after_1h now s)))" using assms by (simp add: after_1h_def after_15m_def o_def Let_def)
  have "snd (fill_rows fill_15m (list_awaiting_15m (now - HORIZON_15M) 200 s) s) = after_15m now s"
    unfolding awaiting_lists quarter.fill_awaiting [OF assms] by (simp add: after_15m_def pass_15m_def)
  moreover have "snd (fill_rows fill_1h (list_awaiting_1h (now - HORIZON_1H) 200 (after_15m now s)) (after_15m now s)) = after_1h now s"
    unfolding awaiting_lists hour.fill_awaiting [OF d1] by (simp add: after_1h_def pass_1h_def Let_def)
  moreover have "observations (snd (fill_rows (fill_1d (market_timezone cfg)) (list_awaiting_1d (now - HORIZON_1D) 200 (after_1h now s)) (after_1h now s)))
      = map (pass_1d (market_timezone cfg) now (after_1h now s)) (observations (after_1h now s))"
    unfolding awaiting_lists day.fill_awaiting [OF d2] by (simp add: pass_1d_def)
  ultimately show ?thesis
    by (simp add: run_followup_def split_beta after_1h_def after_15m_def Let_def o_def)
qed

text \<open>The columns written when the alert was raised.\<close>

definition trigger_facts :: "observation \<Rightarrow> observation" where
  "trigger_facts q = q\<lparr>ob_price_after_15m := None, ob_price_after_1h := None, ob_price_after_1d := None,
     ob_change_pct_15m := None, ob_change_pct_1h := None, ob_change_pct_1d := None\<rparr>"

lemma trigger_factsD:
  "trigger_facts q' = trigger_facts q \<Longrightarrow> ob_trigger_at q' = ob_trigger_at q \<and> ob_symbol_id q' = ob_symbol_id q"
  by (cases q; cases q') (simp add: trigger_facts_def)

definition real_price :: "rat option \<Rightarrow> bool \<Rightarrow> rat option \<Rightarrow> rat option \<Rightarrow> bool" where
  "real_price old due bar new \<longleftrightarrow> new = old \<or> (old = None \<and> due \<and> bar \<noteq> None \<and> new = bar)"

definition later_bar :: "int \<Rightarrow> observation \<Rightarrow> 'x market_store_scheme \<Rightarrow> rat option" where
  "later_bar d q s = map_option ip_close (get_intraday_at_or_after (ob_symbol_id q) (ob_trigger_at q + d) s)"

definition later_day :: "timezone \<Rightarrow> observation \<Rightarrow> 'x market_store_scheme \<Rightarrow> rat option" where
  "later_day tz q s = map_option dp_close
     (get_daily_at_or_after (ob_symbol_id q) (date_of (to_market_time (utc_dt (ob_trigger_at q + HORIZON_1D)) tz)) s)"

lemma fill_15mD:
  assumes "fill_15m s q = Some q'"
  shows "trigger_facts q' = trigger_facts q \<and> ob_price_after_1h q' = ob_price_after_1h q
    \<and> ob_price_after_1d q' = ob_price_after_1d q \<and> ob_price_after_15m q' = later_bar HORIZON_15M q s
    \<and> later_bar HORIZON_15M q s \<noteq> None"
  using assms by (auto simp: fill_15m_def trigger_facts_def later_bar_def split: option.splits)

lemma fill_1hD:
  assumes "fill_1h s q = Some q'"
  shows "trigger_facts q' = trigger_facts q \<and> ob_price_after_15m q' = ob_price_after_15m q
    \<and> ob_price_after_1d q' = ob_price_after_1d q \<and> ob_price_after_1h q' = later_bar HORIZON_1H q s
    \<and> later_bar HORIZON_1H q s \<noteq> None"
  using assms by (auto simp: fill_1h_def trigger_facts_def later_bar_def split: option.splits)

lemma fill_1dD:
  assumes "fill_1d tz s q = Some q'"
  shows "trigger_facts q' = trigger_facts q \<and> ob_price_after_15m q' = ob_price_after_15m q
    \<and> ob_price_after_1h q' = ob_price_after_1h q \<and> ob_price_after_1d q' = later_day tz q s
    \<and> later_day tz q s \<noteq> None"
  using assms by (auto simp: fill_1d_def trigger_facts_def later_day_def Let_def split: option.splits)

lemma pass_15m_effect:
  assumes "q \<in> set (observations s)"
  shows "trigger_facts (pass_15m now s q) = trigger_facts q \<and> ob_price_after_1h (pass_15m now s q) = ob_price_after_1h q
    \<and> ob_price_after_1d (pass_15m now s q) = ob_price_after_1d q
    \<and> real_price (ob_price_after_15m q) (ob_trigger_at q + HORIZON_15M \<le> now) (later_bar HORIZON_15M q s) (ob_price_after_15m (pass_15m now s q))"
  using assms
proof (cases rule: quarter.filled_cases [where cutoff = "now - HORIZON_15M" and limit = 200])
  case same
  show ?thesis unfolding pass_15m_def same by (simp add: real_price_def)
next
  case (new q')
  show ?thesis unfolding pass_15m_def new(4) using new(1,2) fill_15mD [OF new(3)] by (simp add: real_price_def)
qed

lemma pass_1h_effect:
  assumes "q \<in> set (observations s)"
  shows "trigger_facts (pass_1h now s q) = trigger_facts q \<and> ob_price_after_15m (pass_1h now s q) = ob_price_after_15m q
    \<and> ob_price_after_1d (pass_1h now s q) = ob_price_after_1d q
    \<and> real_price (ob_price_after_1h q) (ob_trigger_at q + HORIZON_1H \<le> now) (later_bar HORIZON_1H q s) (ob_price_after_1h (pass_1h now s q))"
  using assms
proof (cases rule: hour.filled_cases [where cutoff = "now - HORIZON_1H" and limit = 200])
  case same
  show ?thesis unfolding pass_1h_def same by (simp add: real_price_def)
next
  case (new q')
  show ?thesis unfolding pass_1h_def new(4) using new(1,2) fill_1hD [OF new(3)] by (simp add: real_price_def)
qed

lemma pass_1d_effect:
  assumes "q \<in> set (observations s)"
  shows "trigger_facts (pass_1d tz now s q) = trigger_facts q \<and> ob_price_after_15m (pass_1d tz now s q) = ob_price_after_15m q
    \<and> ob_price_after_1h (pass_1d tz now s q) = ob_price_after_1h q
    \<and> real_price (ob_price_after_1d q) (ob_trigger_at q + HORIZON_1D \<le> now) (later_day tz q s) (ob_price_after_1d (pass_1d tz now s q))"
  using assms
proof (cases rule: day.filled_cases [where tz = tz and cutoff = "now - HORIZON_1D" and limit = 200])
  case same
  show ?thesis unfolding pass_1d_def same by (simp add: real_price_def)
next
  case (new q')
  show ?thesis unfolding pass_1d_def new(4) using new(1,2) fill_1dD [OF new(3)] by (simp add: real_price_def)
qed

lemma prices_of_passes:
  "intraday_prices (after_15m now s) = intraday_prices s" "intraday_prices (after_1h now s) = intraday_prices s"
  "daily_prices (after_1h now s) = daily_prices s"
  by (simp_all add: after_15m_def after_1h_def Let_def)

text \<open>C29: The follow-up job never estimates a price. A run leaves everything recorded at the trigger as it was; a
  15-minute, one-hour or one-day price either stays what it was or, where it was still missing and its time has
  come, becomes the close of the first stored bar at or after that time.\<close>

theorem followup_prices_real:
  assumes "distinct (map ob_id (observations s))"
  shows "list_all2 (\<lambda>q q'. trigger_facts q' = trigger_facts q
      \<and> real_price (ob_price_after_15m q) (ob_trigger_at q + HORIZON_15M \<le> now) (later_bar HORIZON_15M q s) (ob_price_after_15m q')
      \<and> real_price (ob_price_after_1h q) (ob_trigger_at q + HORIZON_1H \<le> now) (later_bar HORIZON_1H q s) (ob_price_after_1h q')
      \<and> real_price (ob_price_after_1d q) (ob_trigger_at q + HORIZON_1D \<le> now) (later_day (market_timezone cfg) q s) (ob_price_after_1d q'))
    (observations s) (observations (snd (run_followup cfg now s)))"
  unfolding followup_passes [OF assms] list_all2_map2 list_all2_same
proof (rule ballI)
  fix q assume q: "q \<in> set (observations s)"
  let ?q1 = "pass_15m now s q"
  have q1: "?q1 \<in> set (observations (after_15m now s))" using q by (simp add: after_15m_def)
  let ?q2 = "pass_1h now (after_15m now s) ?q1"
  have q2: "?q2 \<in> set (observations (after_1h now s))" using q1 by (simp add: after_1h_def Let_def)
  note e1 = pass_15m_effect [OF q, of now] and e2 = pass_1h_effect [OF q1, of now]
    and e3 = pass_1d_effect [OF q2, of "market_timezone cfg" now]
  have "trigger_facts ?q2 = trigger_facts q" using e1 e2 by simp
  with e1 have t: "ob_trigger_at ?q1 = ob_trigger_at q" "ob_symbol_id ?q1 = ob_symbol_id q"
    "ob_trigger_at ?q2 = ob_trigger_at q" "ob_symbol_id ?q2 = ob_symbol_id q" using trigger_factsD by blast+
  have l: "later_bar HORIZON_1H ?q1 (after_15m now s) = later_bar HORIZON_1H q s"
    "later_day (market_timezone cfg) ?q2 (after_1h now s) = later_day (market_timezone cfg) q s"
    by (simp_all add: later_bar_def later_day_def get_intraday_at_or_after_def get_daily_at_or_after_def t prices_of_passes)
  show "trigger_facts (pass_1d (market_timezone cfg) now (after_1h now s) ?q2) = trigger_facts q
      \<and> real_price (ob_price_after_15m q) (ob_trigger_at q + HORIZON_15M \<le> now) (later_bar HORIZON_15M q s)
          (ob_price_after_15m (pass_1d (market_timezone cfg) now (after_1h now s) ?q2))
      \<and> real_price (ob_price_after_1h q) (ob_trigger_at q + HORIZON_1H \<le> now) (later_bar HORIZON_1H q s)
          (ob_price_after_1h (pass_1d (market_timezone cfg) now (after_1h now s) ?q2))
      \<and> real_price (ob_price_after_1d q) (ob_trigger_at q + HORIZON_1D \<le> now) (later_day (market_timezone cfg) q s)
          (ob_price_after_1d (pass_1d (market_timezone cfg) now (after_1h now s) ?q2))"
    using e1 e2 e3 t l by simp
qed

lemma length_filter_weaker: "(\<And>x. P x \<Longrightarrow> Q x) \<Longrightarrow> length (filter P xs) \<le> length (filter Q xs)"
  by (induction xs) (auto intro: le_SucI)

text \<open>C30: Every due price whose bar is stored gets filled: as long as at most 200 observations still miss a price,
  one run fills the 15-minute, one-hour and one-day price of each observation whose time has come and for which
  a bar at or after that time exists.\<close>

theorem followup_completes:
  assumes ids: "distinct (map ob_id (observations s))"
    and few: "length (filter (\<lambda>q. ob_price_after_15m q = None \<or> ob_price_after_1h q = None \<or> ob_price_after_1d q = None)
      (observations s)) \<le> 200"
  shows "list_all2 (\<lambda>q q'.
        (ob_trigger_at q + HORIZON_15M \<le> now \<longrightarrow> later_bar HORIZON_15M q s \<noteq> None \<longrightarrow> ob_price_after_15m q' \<noteq> None)
      \<and> (ob_trigger_at q + HORIZON_1H \<le> now \<longrightarrow> later_bar HORIZON_1H q s \<noteq> None \<longrightarrow> ob_price_after_1h q' \<noteq> None)
      \<and> (ob_trigger_at q + HORIZON_1D \<le> now \<longrightarrow> later_day (market_timezone cfg) q s \<noteq> None \<longrightarrow> ob_price_after_1d q' \<noteq> None))
    (observations s) (observations (snd (run_followup cfg now s)))"
  unfolding followup_passes [OF ids] list_all2_map2 list_all2_same
proof (rule ballI)
  let ?tz = "market_timezone cfg"
  let ?u = "after_15m now s" and ?v = "after_1h now s"
  have few': "length (filter P (observations s)) \<le> 200"
    if "\<And>q. P q \<Longrightarrow> ob_price_after_15m q = None \<or> ob_price_after_1h q = None \<or> ob_price_after_1d q = None" for P
    using length_filter_weaker [OF that] few by (rule le_trans)
  have f1: "length (filter (\<lambda>r. ob_trigger_at r \<le> c \<and> ob_price_after_15m r = None) (observations s)) \<le> 200" for c
    by (rule few') simp
  have same1: "ob_price_after_1h (pass_15m now s q) = ob_price_after_1h q" "ob_price_after_1d (pass_15m now s q) = ob_price_after_1d q"
    "ob_trigger_at (pass_15m now s q) = ob_trigger_at q" "ob_symbol_id (pass_15m now s q) = ob_symbol_id q"
    if "q \<in> set (observations s)" for q
    using pass_15m_effect [OF that, of now] trigger_factsD by blast+
  have same2: "ob_price_after_1d (pass_1h now ?u q) = ob_price_after_1d q" "ob_price_after_15m (pass_1h now ?u q) = ob_price_after_15m q"
    "ob_trigger_at (pass_1h now ?u q) = ob_trigger_at q" "ob_symbol_id (pass_1h now ?u q) = ob_symbol_id q"
    if "q \<in> set (observations ?u)" for q
    using pass_1h_effect [OF that, of now] trigger_factsD by blast+
  have f2: "length (filter (\<lambda>r. ob_trigger_at r \<le> c \<and> ob_price_after_1h r = None) (observations ?u)) \<le> 200" for c
    unfolding after_15m_def using few' [of "\<lambda>q. ob_trigger_at q \<le> c \<and> ob_price_after_1h q = None"] same1
    by (simp add: filter_map o_def cong: filter_cong)
  have obs_v: "observations ?v = map (\<lambda>q. pass_1h now ?u (pass_15m now s q)) (observations s)"
    by (simp add: after_1h_def after_15m_def Let_def o_def)
  have in_u: "pass_15m now s q \<in> set (observations ?u)" if "q \<in> set (observations s)" for q
    using that by (simp add: after_15m_def)
  have f3: "length (filter (\<lambda>r. ob_trigger_at r \<le> c \<and> ob_price_after_1d r = None) (observations ?v)) \<le> 200" for c
    unfolding obs_v using few' [of "\<lambda>q. ob_trigger_at q \<le> c \<and> ob_price_after_1d q = None"] same1 same2 in_u
    by (simp add: filter_map o_def cong: filter_cong)
  fix q assume q: "q \<in> set (observations s)"
  let ?q1 = "pass_15m now s q" let ?q2 = "pass_1h now ?u ?q1"
  note s1 = same1 [OF q] and s2 = same2 [OF in_u [OF q]]
  have q2: "?q2 \<in> set (observations ?v)" using q by (auto simp: obs_v)
  have l: "later_bar HORIZON_1H ?q1 ?u = later_bar HORIZON_1H q s" "later_day ?tz ?q2 ?v = later_day ?tz q s"
    by (simp_all add: later_bar_def later_day_def get_intraday_at_or_after_def get_daily_at_or_after_def s1 s2 prices_of_passes)
  have "ob_price_after_15m ?q1 \<noteq> None" if "ob_trigger_at q + HORIZON_15M \<le> now" "later_bar HORIZON_15M q s \<noteq> None"
    unfolding pass_15m_def using that
    by (intro quarter.filled_when_possible [OF q _ _ f1]) (auto simp: fill_15m_def later_bar_def split: option.splits)
  moreover have "ob_price_after_1h ?q2 \<noteq> None" if "ob_trigger_at q + HORIZON_1H \<le> now" "later_bar HORIZON_1H ?q1 ?u \<noteq> None"
    unfolding pass_1h_def using that s1
    by (intro hour.filled_when_possible [OF in_u [OF q] _ _ f2]) (auto simp: fill_1h_def later_bar_def split: option.splits)
  moreover have "ob_price_after_1d (pass_1d ?tz now ?v ?q2) \<noteq> None" if "ob_trigger_at q + HORIZON_1D \<le> now" "later_day ?tz ?q2 ?v \<noteq> None"
    unfolding pass_1d_def using that s1 s2
    by (intro day.filled_when_possible [OF q2 _ _ f3]) (auto simp: fill_1d_def later_day_def Let_def split: option.splits)
  ultimately show "(ob_trigger_at q + HORIZON_15M \<le> now \<longrightarrow> later_bar HORIZON_15M q s \<noteq> None \<longrightarrow>
        ob_price_after_15m (pass_1d ?tz now ?v ?q2) \<noteq> None)
    \<and> (ob_trigger_at q + HORIZON_1H \<le> now \<longrightarrow> later_bar HORIZON_1H q s \<noteq> None \<longrightarrow>
        ob_price_after_1h (pass_1d ?tz now ?v ?q2) \<noteq> None)
    \<and> (ob_trigger_at q + HORIZON_1D \<le> now \<longrightarrow> later_day ?tz q s \<noteq> None \<longrightarrow>
        ob_price_after_1d (pass_1d ?tz now ?v ?q2) \<noteq> None)"
    using pass_1d_effect [OF q2, of ?tz now] s2 l by simp
qed

text \<open>Two hundred observations that can never be filled starve all later ones. When the first 200 observations
  still without a 15-minute price have no later bar, a run leaves every 15-minute price as it was,
  also for observations beyond them whose bar is stored.\<close>

theorem followup_starved:
  assumes ids: "distinct (map ob_id (observations s))"
    and stuck: "\<forall>r \<in> set (list_awaiting_15m (now - HORIZON_15M) 200 s). later_bar HORIZON_15M r s = None"
  shows "map ob_price_after_15m (observations (snd (run_followup cfg now s))) = map ob_price_after_15m (observations s)"
proof -
  have "\<forall>r \<in> set (quarter.awaiting (now - HORIZON_15M) 200 s). fill_15m s r = None"
    using stuck unfolding awaiting_lists by (simp add: later_bar_def fill_15m_def)
  from quarter.stuck [OF this] have p: "pass_15m now s q = q" for q by (simp add: pass_15m_def)
  then have "pass_15m now s = (\<lambda>q. q)" by blast
  then have u: "after_15m now s = s" by (simp add: after_15m_def)
  have "ob_price_after_15m (pass_1d (market_timezone cfg) now (after_1h now s) (pass_1h now s q)) = ob_price_after_15m q"
    if q: "q \<in> set (observations s)" for q
  proof -
    have "pass_1h now s q \<in> set (observations (after_1h now s))" using q by (simp add: after_1h_def Let_def u)
    from pass_1d_effect [OF this, of "market_timezone cfg" now] pass_1h_effect [OF q, of now] show ?thesis by simp
  qed
  then show ?thesis by (simp add: followup_passes [OF ids] p u)
qed

text \<open>The scheduled job keeps the tables consistent as well.\<close>

lemma ping_inv:
  fixes s :: "'x pipeline_store_scheme"
  shows "momentum_inv (ping_run t w d s) = momentum_inv s" "momentum_inv (ping_success t w d s) = momentum_inv s"
    "observations_known (ping_run t w d s) = observations_known s"
    "observations_known (ping_success t w d s) = observations_known s"
  by (simp_all only: momentum_inv_frame [OF store_frame(3,4)] momentum_inv_frame [OF store_frame(5,6)])
    (simp_all add: observations_known_def observation_frame store_frame)

lemma momentum_pipeline_job_inv:
  assumes "momentum_inv s" "observations_known s"
  shows "momentum_inv (momentum_pipeline_job ops rt cfg host_today syms s)
    \<and> observations_known (momentum_pipeline_job ops rt cfg host_today syms s)"
proof (cases "is_market_open cfg (clock rt) None")
  case True
  let ?regime = "compute_market_regime ops cfg host_today (clock rt) None (if syms = [] then None else Some syms) 250 s"
  let ?out = "pipeline_run_all ops rt cfg (Some ?regime) (Some (clock rt)) s"
  have "momentum_pipeline_job ops rt cfg host_today syms s = ping_success (clock rt) MOMENTUM_PIPELINE_WORKER_NAME
      (Some (str_int (int (pr_evaluated (fst ?out))) @ '' evaluated'')) (snd ?out)"
    unfolding momentum_pipeline_job_def Let_def split_beta using True by simp
  with pipeline_run_kept [OF assms, of ops rt cfg "Some ?regime" "Some (clock rt)"] show ?thesis
    by (simp only: ping_inv)
next
  case False
  with assms show ?thesis by (simp only: momentum_pipeline_job_def ping_inv not_False_eq_True if_True)
qed

section \<open>Examples\<close>

definition sample_result :: result_row where
  "sample_result = \<lparr>rr_symbol_id = 1, rr_scanner_name = ''momentum_v1'', rr_date = 100, rr_score = 80,
     rr_status = ''qualified'', rr_reason = lit '''', rr_snapshot = Map.empty\<rparr>"

definition sample_pipeline :: pipeline_store where
  "sample_pipeline = analytics_store.extend
     (fundamental_store.extend (sample_signal\<lparr>scanner_results := [sample_result, sample_result\<lparr>rr_scanner_name := ''vcp_v1''\<rparr>]\<rparr>)
        (analytics_store.fields [] 1 [] 1))
     (pipeline_store.fields [] 1)"

lemma sample_pipeline_inv: "momentum_inv sample_pipeline" "observations_known sample_pipeline"
proof -
  have "momentum_states sample_pipeline = []" "transitions sample_pipeline = []" "observations sample_pipeline = []"
    by code_simp+
  then show "momentum_inv sample_pipeline" "observations_known sample_pipeline"
    by (simp_all add: fresh_momentum_inv fresh_momentum_def observations_known_def)
qed

lemma sample_pipeline_results:
  "list_results None (Some ''qualified'') 5000 sample_pipeline = [sample_result, sample_result\<lparr>rr_scanner_name := ''vcp_v1''\<rparr>]"
  "symbol_names [1, 1] sample_pipeline 1 = Some ''INFY''"
proof -
  have "scanner_results sample_pipeline = [sample_result, sample_result\<lparr>rr_scanner_name := ''vcp_v1''\<rparr>]"
    by (simp add: sample_pipeline_def sample_signal_def analytics_store.defs fundamental_store.defs pipeline_store.defs)
  then show "list_results None (Some ''qualified'') 5000 sample_pipeline = [sample_result, sample_result\<lparr>rr_scanner_name := ''vcp_v1''\<rparr>]"
    by (simp add: list_results_def sample_result_def)
  show "symbol_names [1, 1] sample_pipeline 1 = Some ''INFY''" by code_simp
qed

lemma single_name:
  "(\<And>r. r \<in> S \<Longrightarrow> i r = k) \<Longrightarrow> x \<in> S \<Longrightarrow> f k = Some n \<Longrightarrow> {y. \<exists>r. r \<in> S \<and> f (i r) = Some y} = {n}"
  by auto

theorem pipeline_run_accounts_witness:
  "pr_evaluated (fst (pipeline_run_all demo_frames demo_runtime default_settings None (Some 0) sample_pipeline)) = 1
   \<and> pr_errors (fst (pipeline_run_all demo_frames demo_runtime default_settings None (Some 0) sample_pipeline)) = []"
proof -
  let ?q = "list_results None (Some ''qualified'') 5000 sample_pipeline"
  let ?names = "\<lambda>i. symbol_names (map rr_symbol_id ?q) sample_pipeline i"
  have e: "{y. \<exists>r. r \<in> set ?q \<and> ?names (rr_symbol_id r) = Some y} = {''INFY''}"
  proof -
    have i: "rr_symbol_id r = 1" if "r \<in> set ?q" for r
      using that unfolding sample_pipeline_results(1) by (auto simp: sample_result_def)
    have m: "map rr_symbol_id ?q = [1, 1]" unfolding sample_pipeline_results(1) by (simp add: sample_result_def)
    have r: "sample_result \<in> set ?q" unfolding sample_pipeline_results(1) by simp
    show ?thesis unfolding m by (rule single_name [where i = rr_symbol_id and f = "symbol_names [1, 1] sample_pipeline", OF i r sample_pipeline_results(2)])
  qed
  have "card {y. \<exists>r. r \<in> set ?q \<and> ?names (rr_symbol_id r) = Some y} = 1" unfolding e by simp
  moreover have "pr_evaluated (fst (pipeline_run_all demo_frames demo_runtime default_settings None (Some 0) sample_pipeline))
        = card {y. \<exists>r. r \<in> set ?q \<and> ?names (rr_symbol_id r) = Some y}
      \<and> pr_errors (fst (pipeline_run_all demo_frames demo_runtime default_settings None (Some 0) sample_pipeline)) = []"
    using pipeline_run_accounts [OF sample_pipeline_inv, of demo_frames demo_runtime default_settings None "Some 0"]
    unfolding Let_def split_beta by blast
  ultimately show ?thesis by (simp only: simp_thms)
qed

theorem pipeline_observes_alert_transitions_witness:
  "\<exists>ts obs. transitions (snd (pipeline_run_all demo_frames demo_runtime default_settings None (Some 0) sample_pipeline)) = ts
     \<and> observations (snd (pipeline_run_all demo_frames demo_runtime default_settings None (Some 0) sample_pipeline)) = obs
     \<and> list_all2 observes obs (filter alert_worthy ts)"
proof -
  have "transitions sample_pipeline = []" "observations sample_pipeline = []" by code_simp+
  with pipeline_observes_alert_transitions [OF sample_pipeline_inv, of demo_frames demo_runtime default_settings None "Some 0"]
  show ?thesis by (simp add: Let_def)
qed

definition sample_observation :: "int \<Rightarrow> int \<Rightarrow> observation" where
  "sample_observation symbol_id i = new_observation i symbol_id None ''TRIGGERED'' 0 80 90 None None False (Some 100) i"

definition observed_store :: "observation list \<Rightarrow> pipeline_store" where
  "observed_store obs = sample_pipeline\<lparr>observations := obs,
     intraday_prices := [\<lparr>ip_symbol_id = 1, ip_datetime = 20 * minute_us, ip_open = 100, ip_high = 110, ip_low = 100,
       ip_close = 105, ip_volume = 10, ip_vwap = None\<rparr>]\<rparr>"

lemma sample_bar_later:
  "later_bar HORIZON_15M (sample_observation 1 i) (observed_store obs) = Some 105"
  "later_bar HORIZON_15M (sample_observation 99 i) (observed_store obs) = None"
  by (simp_all add: later_bar_def sample_observation_def new_observation_simps observed_store_def
      get_intraday_at_or_after_def newest_by_def HORIZON_15M_def minute_us_def)

lemma sample_trigger [simp]: "ob_trigger_at (sample_observation y i) = 0" "ob_price_after_15m (sample_observation y i) = None"
  "ob_id (sample_observation y i) = i"
  by (simp_all add: sample_observation_def new_observation_simps)

lemma observed_rows [simp]: "observations (observed_store obs) = obs" by (simp add: observed_store_def)

lemma sample_due: "HORIZON_15M \<le> 30 * minute_us" by (simp add: HORIZON_15M_def minute_us_def)

theorem followup_prices_real_witness:
  "\<exists>q'. observations (snd (run_followup default_settings (30 * minute_us) (observed_store [sample_observation 1 1]))) = [q']
     \<and> real_price None True (Some 105) (ob_price_after_15m q')"
  using followup_prices_real [of "observed_store [sample_observation 1 1]" "30 * minute_us" default_settings]
    sample_due
  by (auto simp: list_all2_Cons1 sample_bar_later)

theorem followup_completes_witness:
  "\<exists>q'. observations (snd (run_followup default_settings (30 * minute_us) (observed_store [sample_observation 1 1]))) = [q']
     \<and> ob_price_after_15m q' \<noteq> None"
  using followup_completes [of "observed_store [sample_observation 1 1]" "30 * minute_us" default_settings]
    sample_due
  by (auto simp: list_all2_Cons1 sample_bar_later)

theorem followup_starved_witness:
  "ob_price_after_15m (last (observations (snd (run_followup default_settings (30 * minute_us)
     (observed_store (map (\<lambda>i. sample_observation 99 (int i)) [0..<200] @ [sample_observation 1 200])))))) = None
   \<and> later_bar HORIZON_15M (sample_observation 1 200)
       (observed_store (map (\<lambda>i. sample_observation 99 (int i)) [0..<200] @ [sample_observation 1 200])) = Some 105"
proof
  let ?obs = "map (\<lambda>i. sample_observation 99 (int i)) [0..<200] @ [sample_observation 1 200]"
  have ids: "distinct (map ob_id (observations (observed_store ?obs)))"
    by (auto simp: o_def distinct_map inj_on_def)
  have w: "list_awaiting_15m (30 * minute_us - HORIZON_15M) 200 (observed_store ?obs) = map (\<lambda>i. sample_observation 99 (int i)) [0..<200]"
    by (simp add: list_awaiting_15m_def filter_map o_def HORIZON_15M_def minute_us_def)
  have "map ob_price_after_15m (observations (snd (run_followup default_settings (30 * minute_us) (observed_store ?obs))))
      = map ob_price_after_15m ?obs"
    using followup_starved [OF ids, of "30 * minute_us" default_settings] unfolding w by (auto simp: sample_bar_later)
  then have "map ob_price_after_15m (observations (snd (run_followup default_settings (30 * minute_us) (observed_store ?obs))))
      = replicate 200 None @ [None]" by (simp add: o_def map_replicate_const)
  then show "ob_price_after_15m (last (observations (snd (run_followup default_settings (30 * minute_us) (observed_store ?obs))))) = None"
    by (metis (no_types) append_is_Nil_conv last_map last_snoc list.map_disc_iff not_Cons_self2)
  show "later_bar HORIZON_15M (sample_observation 1 200) (observed_store ?obs) = Some 105" by (rule sample_bar_later)
qed

end
