(* ===== verification/Data_Collection.thy ===== *)
theory Data_Collection
  imports Market_Store
begin

text \<open>
  Market data collection: app/data/validator.py, app/data/collector.py and the status writes of
  app/data/market_updater.py. A provider answers with symbols and candles whose fields may be absent or
  not a number; the validator drops what is malformed, the repositories store the rest, and every run
  leaves a row in the collector log. The provider is an argument that answers or raises.
\<close>

section \<open>Raw provider data\<close>

text \<open>A numeric field as the provider sends it: a finite number, or a value whose \<open>float\<close> is NaN, infinite or
  not defined, with its \<open>repr\<close>. Volumes are whole numbers.\<close>

datatype raw_number = Num rat | Corrupt string

record raw_candle =
  rc_timestamp :: int
  rc_open :: "raw_number option"
  rc_high :: "raw_number option"
  rc_low :: "raw_number option"
  rc_close :: "raw_number option"
  rc_volume :: "raw_number option"
  rc_vwap :: "raw_number option"

section \<open>Validator\<close>

definition is_space :: "char \<Rightarrow> bool" where
  "is_space c \<longleftrightarrow> (let n = (of_char c :: nat) in (9 \<le> n \<and> n \<le> 13) \<or> (28 \<le> n \<and> n \<le> 32))"

definition blank :: "string \<Rightarrow> bool" where
  "blank s \<longleftrightarrow> list_all is_space s"

definition validate_symbol :: "provider_symbol \<Rightarrow> msg + unit" where
  "validate_symbol p =
     (if blank (ps_symbol p) then Inl (lit ''Symbol code is empty'')
      else if blank (ps_exchange p) then Inl [Lit ''Symbol '', Lit (ps_symbol p), Lit '' has no exchange'']
      else if blank (ps_instrument_token p) then Inl [Lit ''Symbol '', Lit (ps_symbol p), Lit '' has no instrument token'']
      else Inr ())"

definition validate_non_negative :: "raw_number option \<Rightarrow> string \<Rightarrow> string \<Rightarrow> msg + rat" where
  "validate_non_negative value name ctx =
     (case value of
        None \<Rightarrow> Inl [Lit ctx, Lit '': '', Lit name, Lit '' is missing or corrupted (None)'']
      | Some (Corrupt r) \<Rightarrow> Inl [Lit ctx, Lit '': '', Lit name, Lit '' is missing or corrupted ('', Lit r, Lit '')'']
      | Some (Num x) \<Rightarrow> (if x < 0 then Inl [Lit ctx, Lit '': '', Lit name, Lit '' is negative ('', Shown x, Lit '')'']
                          else Inr x))"

definition validate_price :: "string \<Rightarrow> string \<Rightarrow> raw_number option \<Rightarrow> msg + rat" where
  "validate_price ctx name value =
     (case value of
        Some (Num x) \<Rightarrow> (if x < 0 then Inl [Lit ctx, Lit '': negative '', Lit name, Lit '' ('', Shown x, Lit '')''] else Inr x)
      | _ \<Rightarrow> Inl [Lit ctx, Lit '': missing/corrupted '', Lit name])"

definition validate_ohlc ::
  "raw_number option \<Rightarrow> raw_number option \<Rightarrow> raw_number option \<Rightarrow> raw_number option \<Rightarrow> string
     \<Rightarrow> msg + rat \<times> rat \<times> rat \<times> rat" where
  "validate_ohlc op hi lo cl ctx =
     (case validate_price ctx ''open'' op of Inl e \<Rightarrow> Inl e | Inr po \<Rightarrow>
      (case validate_price ctx ''high'' hi of Inl e \<Rightarrow> Inl e | Inr h \<Rightarrow>
      (case validate_price ctx ''low'' lo of Inl e \<Rightarrow> Inl e | Inr l \<Rightarrow>
      (case validate_price ctx ''close'' cl of Inl e \<Rightarrow> Inl e | Inr c \<Rightarrow>
        (if h < l then Inl [Lit ctx, Lit '': high ('', Shown h, Lit '') < low ('', Shown l, Lit '')'']
         else if h < po \<or> h < c then Inl [Lit ctx, Lit '': high ('', Shown h, Lit '') is less than open/close'']
         else if l > po \<or> l > c then Inl [Lit ctx, Lit '': low ('', Shown l, Lit '') is greater than open/close'']
         else Inr (po, h, l, c))))))"

text \<open>A valid candle is returned with its numbers read.\<close>

definition validate_candle :: "string \<Rightarrow> raw_candle \<Rightarrow> msg + candle" where
  "validate_candle ctx c =
     (case validate_ohlc (rc_open c) (rc_high c) (rc_low c) (rc_close c) ctx of
        Inl e \<Rightarrow> Inl e
      | Inr (po, h, l, cl) \<Rightarrow>
          (case validate_non_negative (rc_volume c) ''volume'' ctx of
             Inl e \<Rightarrow> Inl e
           | Inr v \<Rightarrow>
               (let done = (\<lambda>w. \<lparr>cn_timestamp = rc_timestamp c, cn_open = po, cn_high = h, cn_low = l, cn_close = cl,
                  cn_volume = \<lfloor>v\<rfloor>, cn_vwap = w\<rparr>)
                in case rc_vwap c of
                     None \<Rightarrow> Inr (done None)
                   | Some w \<Rightarrow> (case validate_non_negative (Some w) ''vwap'' ctx of
                                  Inl e \<Rightarrow> Inl e | Inr x \<Rightarrow> Inr (done (Some x))))))"

definition validate_step :: "string \<Rightarrow> raw_candle \<Rightarrow> candle list \<times> int list \<Rightarrow> candle list \<times> int list" where
  "validate_step ctx c p =
     (case p of (clean, seen) \<Rightarrow>
        (if rc_timestamp c \<in> set seen then (clean, seen)
         else case validate_candle ctx c of
                Inl _ \<Rightarrow> (clean, seen)
              | Inr k \<Rightarrow> (clean @ [k], rc_timestamp c # seen)))"

definition validate_candles :: "string \<Rightarrow> raw_candle list \<Rightarrow> candle list" where
  "validate_candles ctx candles = fst (fold (validate_step ctx) candles ([], []))"

section \<open>Collector\<close>

record collector_run =
  cr_symbols_processed :: nat
  cr_success_count :: nat
  cr_failed_count :: nat
  cr_errors :: "msg list"
  cr_deactivated_symbols :: "string list"
  cr_reconciliation_note :: "msg option"

definition empty_collector_run :: collector_run where
  "empty_collector_run = \<lparr>cr_symbols_processed = 0, cr_success_count = 0, cr_failed_count = 0, cr_errors = [],
     cr_deactivated_symbols = [], cr_reconciliation_note = None\<rparr>"

definition error_message :: "collector_run \<Rightarrow> msg option" where
  "error_message r =
     (if cr_errors r = [] then None
      else Some (join_msgs (lit ''; '') (take 10 (cr_errors r)) @
        (if length (cr_errors r) > 10 then [Lit '' (+'', IntP (int (length (cr_errors r)) - 10), Lit '' more)''] else [])))"

text \<open>The market data provider: whether it is connected before a run and after it, and its answers.\<close>

record market_provider =
  mp_connected :: bool
  mp_connect :: "msg + unit"
  mp_connected_after :: bool
  mp_symbols :: "msg + provider_symbol list"
  mp_intraday :: "string \<Rightarrow> msg + raw_candle list"
  mp_daily :: "string \<Rightarrow> msg + raw_candle list"

definition record_success :: "settings \<Rightarrow> int \<Rightarrow> bool \<Rightarrow> 'x market_store_scheme \<Rightarrow> 'x market_store_scheme" where
  "record_success cfg now connected_after s =
     upsert_market_status (Some (is_market_open cfg now (Some now))) (Some connected_after) (Some now) (Some now) None s"

definition record_failure :: "settings \<Rightarrow> int \<Rightarrow> bool \<Rightarrow> 'x market_store_scheme \<Rightarrow> 'x market_store_scheme" where
  "record_failure cfg now connected_after s =
     upsert_market_status (Some (is_market_open cfg now (Some now))) (Some connected_after) (Some now) None (Some now) s"

definition reconcile_universe ::
  "settings \<Rightarrow> string list \<Rightarrow> collector_run \<Rightarrow> 'x market_store_scheme \<Rightarrow> collector_run \<times> 'x market_store_scheme" where
  "reconcile_universe cfg confirmed result s =
     (let previous_count = length (list_active s);
          n = card (set confirmed);
          min_fraction = universe_reconciliation_min_fraction cfg
      in if previous_count = 0 then (result, s)
         else if of_nat n < of_nat previous_count * min_fraction then
           (result\<lparr>cr_reconciliation_note := Some [Lit ''skipped: fetch returned '', IntP (int n),
              Lit '' confirmed symbols, below '', Fix 0 (min_fraction * 100), Lit ''% of the '', IntP (int previous_count),
              Lit '' currently active - treated as a suspicious/partial response, not a real mass-delisting'']\<rparr>, s)
         else (let (deactivated, s') = deactivate_missing confirmed s
               in (result\<lparr>cr_deactivated_symbols := deactivated\<rparr>, s')))"

definition collect_symbol_step ::
  "provider_symbol \<Rightarrow> string list \<times> collector_run \<times> 'x market_store_scheme
     \<Rightarrow> string list \<times> collector_run \<times> 'x market_store_scheme" where
  "collect_symbol_step p q =
     (case q of (confirmed, r, s) \<Rightarrow>
        (case validate_symbol p of
           Inl e \<Rightarrow> (confirmed, r\<lparr>cr_failed_count := Suc (cr_failed_count r), cr_errors := cr_errors r @ [e]\<rparr>, s)
         | Inr _ \<Rightarrow> (ps_symbol p # confirmed, r\<lparr>cr_success_count := Suc (cr_success_count r)\<rparr>, upsert_symbol p s)))"

definition collect_symbols_impl ::
  "market_provider \<Rightarrow> settings \<Rightarrow> 'x market_store_scheme \<Rightarrow> (msg + collector_run) \<times> 'x market_store_scheme" where
  "collect_symbols_impl p cfg s =
     (case mp_symbols p of
        Inl e \<Rightarrow> (Inl e, s)
      | Inr provider_symbols \<Rightarrow>
          (let (confirmed, r, s1) = fold collect_symbol_step provider_symbols
                 ([], empty_collector_run\<lparr>cr_symbols_processed := length provider_symbols\<rparr>, s);
               (r', s2) = reconcile_universe cfg confirmed r s1
           in (Inr r', s2)))"

definition collect_candle_step ::
  "(string \<Rightarrow> msg + raw_candle list) \<Rightarrow> (int \<Rightarrow> candle list \<Rightarrow> 'x market_store_scheme \<Rightarrow> nat \<times> 'x market_store_scheme)
     \<Rightarrow> symbol_row \<Rightarrow> collector_run \<times> 'x market_store_scheme \<Rightarrow> collector_run \<times> 'x market_store_scheme" where
  "collect_candle_step answer store_bars y q =
     (case q of (r, s) \<Rightarrow>
        (case answer (sy_symbol y) of
           Inl e \<Rightarrow> (r\<lparr>cr_failed_count := Suc (cr_failed_count r),
                       cr_errors := cr_errors r @ [[Lit (sy_symbol y), Lit '': ''] @ e]\<rparr>, s)
         | Inr candles \<Rightarrow> (r\<lparr>cr_success_count := Suc (cr_success_count r)\<rparr>,
              snd (store_bars (sy_id y) (validate_candles (sy_symbol y) candles) s))))"

definition collect_candles ::
  "market_provider \<Rightarrow> settings \<Rightarrow> bool \<Rightarrow> symbol_row list option \<Rightarrow> 'x market_store_scheme
     \<Rightarrow> (msg + collector_run) \<times> 'x market_store_scheme" where
  "collect_candles p cfg intraday targets s =
     (let syms = opt_else targets (list_active s);
          start = empty_collector_run\<lparr>cr_symbols_processed := length syms\<rparr>;
          (r, s') = fold (if intraday then collect_candle_step (mp_intraday p) upsert_intraday_many
                          else collect_candle_step (mp_daily p) (upsert_daily_many cfg)) syms (start, s)
      in (Inr r, s'))"

text \<open>The frame of a run: connect when needed, run, then the market status and the log row.\<close>

definition collector_run ::
  "settings \<Rightarrow> market_provider \<Rightarrow> int \<Rightarrow> int
     \<Rightarrow> ('x market_store_scheme \<Rightarrow> (msg + collector_run) \<times> 'x market_store_scheme)
     \<Rightarrow> 'x market_store_scheme \<Rightarrow> collector_run \<times> 'x market_store_scheme" where
  "collector_run cfg p start_time finish_time impl s =
     (let (i, s1) = collector_start start_time s;
          (outcome, s2) = (case (if mp_connected p then Inr () else mp_connect p) of
             Inl e \<Rightarrow> (Inl e, s1)
           | Inr _ \<Rightarrow> impl s1);
          (r, s3) = (case outcome of
             Inl e \<Rightarrow> (empty_collector_run\<lparr>cr_errors := [e]\<rparr>, record_failure cfg finish_time (mp_connected_after p) s2)
           | Inr r \<Rightarrow> (r, record_success cfg finish_time (mp_connected_after p) s2))
      in (r, collector_finish i finish_time (cr_symbols_processed r) (cr_success_count r) (cr_failed_count r)
               (error_message r) s3))"

definition collect_symbols :: "settings \<Rightarrow> market_provider \<Rightarrow> int \<Rightarrow> int \<Rightarrow> 'x market_store_scheme \<Rightarrow> collector_run \<times> 'x market_store_scheme" where
  "collect_symbols cfg p t t' = collector_run cfg p t t' (collect_symbols_impl p cfg)"

definition collect_intraday ::
  "settings \<Rightarrow> market_provider \<Rightarrow> int \<Rightarrow> int \<Rightarrow> symbol_row list option \<Rightarrow> 'x market_store_scheme \<Rightarrow> collector_run \<times> 'x market_store_scheme" where
  "collect_intraday cfg p t t' targets = collector_run cfg p t t' (collect_candles p cfg True targets)"

definition collect_daily :: "settings \<Rightarrow> market_provider \<Rightarrow> int \<Rightarrow> int \<Rightarrow> 'x market_store_scheme \<Rightarrow> collector_run \<times> 'x market_store_scheme" where
  "collect_daily cfg p t t' = collector_run cfg p t t' (collect_candles p cfg False None)"

section \<open>What the validator lets through\<close>

definition ohlc_ok :: "rat \<Rightarrow> rat \<Rightarrow> rat \<Rightarrow> rat \<Rightarrow> int \<Rightarrow> rat option \<Rightarrow> bool" where
  "ohlc_ok po h l c v w \<longleftrightarrow> 0 \<le> l \<and> l \<le> po \<and> l \<le> c \<and> po \<le> h \<and> c \<le> h \<and> 0 \<le> v \<and> (case w of None \<Rightarrow> True | Some x \<Rightarrow> 0 \<le> x)"

definition candle_ok :: "candle \<Rightarrow> bool" where
  "candle_ok k \<longleftrightarrow> ohlc_ok (cn_open k) (cn_high k) (cn_low k) (cn_close k) (cn_volume k) (cn_vwap k)"

lemma validate_priceD: "validate_price ctx n v = Inr x \<Longrightarrow> v = Some (Num x) \<and> 0 \<le> x"
  by (auto simp: validate_price_def split: option.splits raw_number.splits if_splits)

lemma validate_non_negativeD: "validate_non_negative v n ctx = Inr x \<Longrightarrow> v = Some (Num x) \<and> 0 \<le> x"
  by (auto simp: validate_non_negative_def split: option.splits raw_number.splits if_splits)

lemma validate_ohlcD:
  assumes "validate_ohlc op hi lo cl ctx = Inr (po, h, l, c)"
  shows "0 \<le> l \<and> l \<le> po \<and> l \<le> c \<and> po \<le> h \<and> c \<le> h"
  using assms by (auto simp: validate_ohlc_def split: sum.splits if_splits dest!: validate_priceD)

lemma validate_candle_ok:
  assumes "validate_candle ctx c = Inr k"
  shows "candle_ok k" "cn_timestamp k = rc_timestamp c"
proof -
  obtain po h l cl where e: "validate_ohlc (rc_open c) (rc_high c) (rc_low c) (rc_close c) ctx = Inr (po, h, l, cl)"
    using assms by (auto simp: validate_candle_def split: sum.splits)
  obtain v where v: "validate_non_negative (rc_volume c) ''volume'' ctx = Inr v"
    using assms by (auto simp: validate_candle_def e split: sum.splits)
  have k: "cn_timestamp k = rc_timestamp c" "cn_open k = po" "cn_high k = h" "cn_low k = l" "cn_close k = cl"
    "cn_volume k = \<lfloor>v\<rfloor>" "\<And>x. cn_vwap k = Some x \<Longrightarrow> 0 \<le> x"
    using assms by (auto simp: validate_candle_def e v Let_def split: option.splits sum.splits dest!: validate_non_negativeD)
  then show "cn_timestamp k = rc_timestamp c" by simp
  from validate_ohlcD [OF e] validate_non_negativeD [OF v] k show "candle_ok k"
    by (auto simp: candle_ok_def ohlc_ok_def split: option.split)
qed

text \<open>The reference: read every readable candle, keep the first of each timestamp.\<close>

fun keep_first :: "('a \<Rightarrow> 'k) \<Rightarrow> 'a list \<Rightarrow> 'a list" where
  "keep_first key [] = []"
| "keep_first key (x # xs) = x # filter (\<lambda>y. key y \<noteq> key x) (keep_first key xs)"

fun readable :: "string \<Rightarrow> raw_candle list \<Rightarrow> candle list" where
  "readable ctx [] = []"
| "readable ctx (c # cs) = (case validate_candle ctx c of Inl _ \<Rightarrow> readable ctx cs | Inr k \<Rightarrow> k # readable ctx cs)"

lemma keep_first_subset: "set (keep_first key xs) \<subseteq> set xs"
  by (induction xs) auto

lemma keep_first_distinct: "distinct (map key (keep_first key xs))"
  by (induction xs) (auto simp: distinct_map_filter)

lemma keep_first_keys: "key ` set (keep_first key xs) = key ` set xs"
proof (induction xs)
  case (Cons x xs)
  have "insert (key x) (key ` {y \<in> A. key y \<noteq> key x}) = insert (key x) (key ` A)" for A by auto
  with Cons show ?case by simp
qed simp

lemma readable_member: "k \<in> set (readable ctx cs) \<longleftrightarrow> (\<exists>c \<in> set cs. validate_candle ctx c = Inr k)"
  by (induction cs) (auto split: sum.splits)

lemma validate_step_simps:
  "validate_candle ctx c = Inl e \<Longrightarrow> validate_step ctx c (out, seen) = (out, seen)"
  "validate_candle ctx c = Inr k \<Longrightarrow> validate_step ctx c (out, seen) =
    (if rc_timestamp c \<in> set seen then (out, seen) else (out @ [k], rc_timestamp c # seen))"
  by (simp_all add: validate_step_def)

lemma validate_fold:
  "fst (fold (validate_step ctx) cs (out, seen)) =
     out @ filter (\<lambda>k. cn_timestamp k \<notin> set seen) (keep_first cn_timestamp (readable ctx cs))"
proof (induction cs arbitrary: out seen)
  case (Cons c cs)
  show ?case
  proof (cases "validate_candle ctx c")
    case (Inl e)
    then show ?thesis by (simp add: validate_step_simps Cons.IH)
  next
    case (Inr k)
    note t = validate_candle_ok(2) [OF Inr]
    show ?thesis
    proof (cases "rc_timestamp c \<in> set seen")
      case True
      have "filter (\<lambda>x. cn_timestamp x \<notin> set seen) (filter (\<lambda>x. cn_timestamp x \<noteq> cn_timestamp k) xs)
          = filter (\<lambda>x. cn_timestamp x \<notin> set seen) xs" for xs :: "candle list"
        using True t by (induction xs) auto
      with True Inr t show ?thesis by (simp add: validate_step_simps Cons.IH)
    next
      case False
      have "filter (\<lambda>x. cn_timestamp x \<notin> set seen) (filter (\<lambda>x. cn_timestamp x \<noteq> cn_timestamp k) xs)
          = filter (\<lambda>x. cn_timestamp x \<notin> set (rc_timestamp c # seen)) xs" for xs :: "candle list"
        using t by (induction xs) auto
      with False Inr t show ?thesis by (simp add: validate_step_simps Cons.IH)
    qed
  qed
qed simp

lemma validate_candles_reference: "validate_candles ctx cs = keep_first cn_timestamp (readable ctx cs)"
  by (simp add: validate_candles_def validate_fold)

lemma validated_ok: "k \<in> set (validate_candles ctx cs) \<Longrightarrow> candle_ok k"
  using keep_first_subset validate_candle_ok(1) by (fastforce simp: validate_candles_reference readable_member)

text \<open>The candle validator keeps, in order, the first readable candle of every timestamp and nothing else: a
  malformed candle never shadows a later good one with the same timestamp. What it keeps has unique timestamps,
  non-negative volume and vwap, and 0 <= low <= open, close <= high.\<close>

theorem validator_keeps_first_valid:
  "validate_candles ctx cs = keep_first cn_timestamp (readable ctx cs)
   \<and> distinct (map cn_timestamp (validate_candles ctx cs))
   \<and> list_all candle_ok (validate_candles ctx cs)
   \<and> cn_timestamp ` set (validate_candles ctx cs) = {t. \<exists>c k. c \<in> set cs \<and> validate_candle ctx c = Inr k \<and> t = rc_timestamp c}"
proof -
  have "cn_timestamp ` set (validate_candles ctx cs) = cn_timestamp ` set (readable ctx cs)"
    by (simp add: validate_candles_reference keep_first_keys)
  also have "\<dots> = {t. \<exists>c k. c \<in> set cs \<and> validate_candle ctx c = Inr k \<and> t = rc_timestamp c}"
    using validate_candle_ok(2) by (force simp: readable_member image_iff)
  finally show ?thesis
    using validate_candles_reference [of ctx cs] keep_first_distinct [of cn_timestamp "readable ctx cs"]
      validated_ok [of _ ctx cs] by (simp add: list_all_iff)
qed

section \<open>Stored bars\<close>

definition daily_ok :: "daily_price \<Rightarrow> bool" where
  "daily_ok r \<longleftrightarrow> ohlc_ok (dp_open r) (dp_high r) (dp_low r) (dp_close r) (dp_volume r) (dp_vwap r)"

definition intraday_ok :: "intraday_price \<Rightarrow> bool" where
  "intraday_ok r \<longleftrightarrow> ohlc_ok (ip_open r) (ip_high r) (ip_low r) (ip_close r) (ip_volume r) (ip_vwap r)"

definition bars_ok :: "'x market_store_scheme \<Rightarrow> bool" where
  "bars_ok s \<longleftrightarrow> list_all daily_ok (daily_prices s) \<and> list_all intraday_ok (intraday_prices s)
     \<and> distinct (map daily_key (daily_prices s)) \<and> distinct (map intraday_key (intraday_prices s))"

lemma upsert_by_members:
  assumes "\<And>r. P (assign r)" "list_all P rows"
  shows "list_all P (upsert_by key k fresh assign rows)"
  using assms by (auto simp: upsert_by_def list_all_iff split: option.split)

lemma put_daily_ok: "candle_ok (snd v) \<Longrightarrow> list_all daily_ok rows \<Longrightarrow> list_all daily_ok (put_daily cfg v rows)"
  by (auto simp: put_daily_def Let_def candle_ok_def daily_ok_def assign_daily_def intro!: upsert_by_members)

lemma put_intraday_ok: "candle_ok (snd v) \<Longrightarrow> list_all intraday_ok rows \<Longrightarrow> list_all intraday_ok (put_intraday v rows)"
  by (auto simp: put_intraday_def candle_ok_def intraday_ok_def assign_intraday_def intro!: upsert_by_members)

lemma fold_keeps: "(\<And>v r. v \<in> set vs \<Longrightarrow> P r \<Longrightarrow> P (f v r)) \<Longrightarrow> P r \<Longrightarrow> P (fold f vs r)"
  by (induction vs arbitrary: r) auto

lemma store_bars_ok:
  assumes "\<forall>k \<in> set ks. candle_ok k" "bars_ok s"
  shows "bars_ok (snd (upsert_intraday_many i ks s))" "bars_ok (snd (upsert_daily_many cfg i ks s))"
proof -
  have "list_all daily_ok (fold (put_daily cfg) (map (Pair i) ks) (daily_prices s))"
    using assms by (intro fold_keeps [where P = "list_all daily_ok"]) (auto simp: bars_ok_def intro: put_daily_ok)
  moreover have "list_all intraday_ok (fold put_intraday (map (Pair i) ks) (intraday_prices s))"
    using assms by (intro fold_keeps [where P = "list_all intraday_ok"]) (auto simp: bars_ok_def intro: put_intraday_ok)
  moreover have "distinct (map daily_key (fold (put_daily cfg) (map (Pair i) ks) (daily_prices s)))"
    "distinct (map intraday_key (fold put_intraday (map (Pair i) ks) (intraday_prices s)))"
    using assms(2) by (simp_all add: bars_ok_def daily_table.distinct_puts intraday_table.distinct_puts)
  ultimately show "bars_ok (snd (upsert_intraday_many i ks s))" "bars_ok (snd (upsert_daily_many cfg i ks s))"
    using assms(2) by (simp_all add: bars_ok_def upsert_intraday_many_def upsert_daily_many_def)
qed

text \<open>The frame of a run leaves prices and symbols alone.\<close>

lemma run_frame:
  "daily_prices (snd (collector_start t s)) = daily_prices s" "intraday_prices (snd (collector_start t s)) = intraday_prices s"
  "symbols (snd (collector_start t s)) = symbols s"
  "daily_prices (collector_finish i t a b c e s) = daily_prices s" "intraday_prices (collector_finish i t a b c e s) = intraday_prices s"
  "symbols (collector_finish i t a b c e s) = symbols s"
  "daily_prices (record_success cfg t d s) = daily_prices s" "intraday_prices (record_success cfg t d s) = intraday_prices s"
  "symbols (record_success cfg t d s) = symbols s" "collector_logs (record_success cfg t d s) = collector_logs s"
  "daily_prices (record_failure cfg t d s) = daily_prices s" "intraday_prices (record_failure cfg t d s) = intraday_prices s"
  "symbols (record_failure cfg t d s) = symbols s" "collector_logs (record_failure cfg t d s) = collector_logs s"
  by (simp_all add: collector_start_def collector_finish_def record_success_def record_failure_def
      upsert_market_status_def Let_def)

lemma bars_ok_frame:
  "bars_ok (snd (collector_start t s)) = bars_ok s" "bars_ok (collector_finish i t a b c e s) = bars_ok s"
  "bars_ok (record_success cfg t d s) = bars_ok s" "bars_ok (record_failure cfg t d s) = bars_ok s"
  by (simp_all add: bars_ok_def run_frame)

definition provider_ready :: "market_provider \<Rightarrow> bool" where
  "provider_ready p \<longleftrightarrow> mp_connected p \<or> mp_connect p = Inr ()"

lemma collector_run_ready:
  assumes "provider_ready p" "impl (snd (collector_start t s)) = (Inr r, s2)"
  shows "collector_run cfg p t t' impl s =
    (r, collector_finish (next_collector_id s) t' (cr_symbols_processed r) (cr_success_count r) (cr_failed_count r)
          (error_message r) (record_success cfg t' (mp_connected_after p) s2))"
  using assms by (cases "mp_connected p") (auto simp: collector_run_def provider_ready_def collector_start_def Let_def)

lemma collector_run_keeps:
  assumes "\<And>u. P u \<Longrightarrow> P (snd (impl u))" "P s"
    and "\<And>u t. P u \<Longrightarrow> P (snd (collector_start t u))" "\<And>u t d. P u \<Longrightarrow> P (record_success cfg t d u)"
    and "\<And>u t d. P u \<Longrightarrow> P (record_failure cfg t d u)" "\<And>u i t a b c e. P u \<Longrightarrow> P (collector_finish i t a b c e u)"
  shows "P (snd (collector_run cfg p t t' impl s))"
proof -
  obtain i s1 where s1: "collector_start t s = (i, s1)" by fastforce
  have P1: "P s1" using assms(2,3) s1 by (metis snd_conv)
  obtain outcome s2 where o: "(case (if mp_connected p then Inr () else mp_connect p) of
       Inl e \<Rightarrow> (Inl e, s1) | Inr _ \<Rightarrow> impl s1) = (outcome, s2)" by fastforce
  have "P s2" using o P1 assms(1) [OF P1] by (auto split: sum.splits if_splits)
  with assms(4-6) show ?thesis
    by (cases outcome) (simp_all add: collector_run_def s1 o)
qed

lemma candle_step_bars:
  assumes "bars_ok (snd q)"
  shows "bars_ok (snd (collect_candle_step answer upsert_intraday_many y q))"
    "bars_ok (snd (collect_candle_step answer (upsert_daily_many cfg) y q))"
  using assms store_bars_ok [OF ballI [OF validated_ok]]
  by (auto simp: collect_candle_step_def split: prod.splits sum.splits)

lemma collect_candles_bars: "bars_ok s \<Longrightarrow> bars_ok (snd (collect_candles p cfg intraday targets s))"
  unfolding collect_candles_def Let_def split_beta
  by (auto intro!: fold_keeps [where P = "\<lambda>q. bars_ok (snd q)"] candle_step_bars)

lemma collect_symbols_bars:
  fixes s :: "'x market_store_scheme"
  assumes s: "bars_ok s"
  shows "bars_ok (snd (collect_symbols_impl p cfg s))"
proof -
  have step: "bars_ok (snd (snd (collect_symbol_step x q)))" if "bars_ok (snd (snd q))"
    for x and q :: "string list \<times> collector_run \<times> 'x market_store_scheme"
    using that by (auto simp: collect_symbol_step_def upsert_symbol_def bars_ok_def split: prod.splits sum.splits)
  have "bars_ok (snd (snd (fold collect_symbol_step xs ([], r, s))))" for xs r
    using s by (intro fold_keeps [where P = "\<lambda>q. bars_ok (snd (snd q))"] step) auto
  moreover have "bars_ok (snd (reconcile_universe cfg confirmed r u))" if "bars_ok u"
    for confirmed r and u :: "'x market_store_scheme"
    using that by (simp add: reconcile_universe_def deactivate_missing_def bars_ok_def Let_def)
  ultimately show ?thesis
    using s by (auto simp: collect_symbols_impl_def Let_def split_beta split: sum.split)
qed

text \<open>C11: Every stored bar is well formed: starting from tables whose bars satisfy 0 <= low <= open, close <= high with
  non-negative volume and one row per symbol and time, an intraday, daily or symbol run keeps this, whatever
  the provider sends and whether it fails or not.\<close>

theorem collection_keeps_bars_valid:
  assumes "bars_ok s"
  shows "bars_ok (snd (collect_intraday cfg p t t' targets s)) \<and> bars_ok (snd (collect_daily cfg p t t' s))
    \<and> bars_ok (snd (collect_symbols cfg p t t' s))"
  unfolding collect_intraday_def collect_daily_def collect_symbols_def
  by (intro conjI collector_run_keeps [where P = bars_ok] collect_candles_bars collect_symbols_bars assms)
    (simp_all add: bars_ok_frame)

section \<open>A candle run accounts for every symbol\<close>

lemma candle_fold_counts:
  "cr_success_count (fst (fold (collect_candle_step answer st) ys q)) + cr_failed_count (fst (fold (collect_candle_step answer st) ys q))
     = cr_success_count (fst q) + cr_failed_count (fst q) + length ys"
  "length (cr_errors (fst (fold (collect_candle_step answer st) ys q)))
     = length (cr_errors (fst q)) + (cr_failed_count (fst (fold (collect_candle_step answer st) ys q)) - cr_failed_count (fst q))
   \<and> cr_failed_count (fst q) \<le> cr_failed_count (fst (fold (collect_candle_step answer st) ys q))"
  "cr_symbols_processed (fst (fold (collect_candle_step answer st) ys q)) = cr_symbols_processed (fst q)"
proof -
  have step: "cr_success_count (fst (collect_candle_step answer st y q)) + cr_failed_count (fst (collect_candle_step answer st y q))
      = Suc (cr_success_count (fst q) + cr_failed_count (fst q))"
    "length (cr_errors (fst (collect_candle_step answer st y q))) + cr_failed_count (fst q)
      = length (cr_errors (fst q)) + cr_failed_count (fst (collect_candle_step answer st y q))"
    "cr_failed_count (fst q) \<le> cr_failed_count (fst (collect_candle_step answer st y q))"
    "cr_symbols_processed (fst (collect_candle_step answer st y q)) = cr_symbols_processed (fst q)" for y q
    by (auto simp: collect_candle_step_def split: prod.split sum.split)
  show "cr_success_count (fst (fold (collect_candle_step answer st) ys q)) + cr_failed_count (fst (fold (collect_candle_step answer st) ys q))
     = cr_success_count (fst q) + cr_failed_count (fst q) + length ys"
    by (induction ys arbitrary: q) (simp_all add: step)
  have "length (cr_errors (fst (fold (collect_candle_step answer st) ys q))) + cr_failed_count (fst q)
      = length (cr_errors (fst q)) + cr_failed_count (fst (fold (collect_candle_step answer st) ys q))"
  proof (induction ys arbitrary: q)
    case (Cons y ys)
    from Cons [of "collect_candle_step answer st y q"] step(2) [of y q] show ?case by simp
  qed simp
  moreover have "cr_failed_count (fst q) \<le> cr_failed_count (fst (fold (collect_candle_step answer st) ys q))"
  proof (induction ys arbitrary: q)
    case (Cons y ys)
    from step(3) [of q y] Cons [of "collect_candle_step answer st y q"] show ?case by simp
  qed simp
  ultimately show "length (cr_errors (fst (fold (collect_candle_step answer st) ys q)))
     = length (cr_errors (fst q)) + (cr_failed_count (fst (fold (collect_candle_step answer st) ys q)) - cr_failed_count (fst q))
   \<and> cr_failed_count (fst q) \<le> cr_failed_count (fst (fold (collect_candle_step answer st) ys q))" by simp
  show "cr_symbols_processed (fst (fold (collect_candle_step answer st) ys q)) = cr_symbols_processed (fst q)"
    by (induction ys arbitrary: q) (simp_all add: step)
qed

lemma candle_step_simps:
  "answer (sy_symbol y) = Inl e \<Longrightarrow> snd (collect_candle_step answer st y q) = snd q"
  "answer (sy_symbol y) = Inr cs \<Longrightarrow>
    snd (collect_candle_step answer st y q) = snd (st (sy_id y) (validate_candles (sy_symbol y) cs) (snd q))"
  by (cases q; simp add: collect_candle_step_def)+

text \<open>A validated candle is found under its key after the batch.\<close>

lemma intraday_batch_lookup:
  assumes "distinct (map cn_timestamp ks)" "k \<in> set ks"
  shows "lookup_by intraday_key (i, cn_timestamp k) (intraday_prices (snd (upsert_intraday_many i ks s))) = Some (intraday_of i k)"
proof -
  let ?vs = "map (Pair i) ks"
  have "filter (\<lambda>c. cn_timestamp c = cn_timestamp k) ks = [k]"
    using assms by (induction ks) (auto simp: filter_empty_conv image_iff)
  then have f: "filter (\<lambda>v. (fst v, cn_timestamp (snd v)) = (i, cn_timestamp k)) ?vs = [(i, k)]"
    by (simp add: filter_map o_def)
  have "lookup_by intraday_key (i, cn_timestamp k) (fold put_intraday ?vs (intraday_prices s))
      = Some (intraday_of (fst (last [(i, k)])) (snd (last [(i, k)])))"
    using intraday_table.lookup_puts_last [of "(i, cn_timestamp k)" ?vs "intraday_prices s"] unfolding f by simp
  then show ?thesis by (simp add: upsert_intraday_many_def)
qed

lemma intraday_batch_other:
  "i \<noteq> j \<Longrightarrow> lookup_by intraday_key (i, t) (intraday_prices (snd (upsert_intraday_many j ks s))) = lookup_by intraday_key (i, t) (intraday_prices s)"
  by (auto simp: upsert_intraday_many_def intro!: intraday_table.lookup_puts_other)

lemma intraday_fold_lookup:
  assumes "inj_on sy_id (set ys)" "y \<in> set ys" "answer (sy_symbol y) = Inr cs"
    and k: "k \<in> set (validate_candles (sy_symbol y) cs)"
  shows "lookup_by intraday_key (sy_id y, cn_timestamp k)
      (intraday_prices (snd (fold (collect_candle_step answer upsert_intraday_many) ys q))) = Some (intraday_of (sy_id y) k)"
  using assms(1,2)
proof (induction ys rule: rev_induct)
  case (snoc x xs)
  show ?case
  proof (cases "x = y")
    case True
    have "distinct (map cn_timestamp (validate_candles (sy_symbol y) cs))"
      by (simp add: validate_candles_reference keep_first_distinct)
    from intraday_batch_lookup [OF this k] True assms(3) show ?thesis by (simp add: candle_step_simps)
  next
    case False
    with snoc.prems have x: "y \<in> set xs" "inj_on sy_id (set xs)" by (auto intro: inj_on_subset)
    have x1: "sy_id y \<noteq> sy_id x" using inj_onD [OF snoc.prems(1), of y x] False snoc.prems(2) by auto
    from snoc.IH [OF x(2,1)] show ?thesis
      by (cases "answer (sy_symbol x)") (simp_all add: candle_step_simps intraday_batch_other [OF x1])
  qed
qed simp

text \<open>One bad symbol does not spoil an intraday run: with a provider that connects, every active symbol is
  counted as a success or a failure, each failure has its message, the log row of the run carries the same
  numbers, and every validated candle of a symbol the provider answered for is stored under its symbol and time,
  whatever happened to the others.\<close>

theorem intraday_run_isolated:
  fixes s :: "'x market_store_scheme"
  assumes "provider_ready p" "inj_on sy_id (set (symbols s))"
  shows "let (r, s') = collect_intraday cfg p t t' None s
     in cr_symbols_processed r = length (list_active s)
      \<and> cr_success_count r + cr_failed_count r = cr_symbols_processed r
      \<and> length (cr_errors r) = cr_failed_count r
      \<and> (\<exists>row. row \<in> set (collector_logs s') \<and> cl_id row = next_collector_id s \<and> cl_finish_time row = Some t'
           \<and> cl_symbols_processed row = cr_symbols_processed r \<and> cl_success_count row = cr_success_count r
           \<and> cl_failed_count row = cr_failed_count r \<and> cl_error_message row = error_message r)
      \<and> (\<forall>y cs k. y \<in> set (list_active s) \<longrightarrow> mp_intraday p (sy_symbol y) = Inr cs
           \<longrightarrow> k \<in> set (validate_candles (sy_symbol y) cs)
           \<longrightarrow> lookup_by intraday_key (sy_id y, cn_timestamp k) (intraday_prices s') = Some (intraday_of (sy_id y) k))"
proof -
  let ?s1 = "snd (collector_start t s)" and ?st = "collect_candle_step (mp_intraday p) upsert_intraday_many"
  let ?q0 = "(empty_collector_run\<lparr>cr_symbols_processed := length (list_active s)\<rparr>, ?s1)"
  obtain r s2 where f: "fold ?st (list_active s) ?q0 = (r, s2)" by fastforce
  have la: "list_active ?s1 = list_active s" by (simp add: list_active_def run_frame)
  have impl: "collect_candles p cfg True None ?s1 = (Inr r, s2)"
    using f by (simp add: collect_candles_def la Let_def opt_else_def)
  note run = collector_run_ready [where impl = "collect_candles p cfg True None", OF assms(1) impl, of cfg t']
  have logs: "collector_logs s2 = collector_logs ?s1"
  proof -
    have step: "collector_logs (snd (?st y q)) = collector_logs (snd q)" for y and q :: "collector_run \<times> 'x market_store_scheme"
      by (cases "mp_intraday p (sy_symbol y)") (simp_all add: candle_step_simps upsert_intraday_many_def)
    have "collector_logs (snd (fold ?st ys q)) = collector_logs (snd q)" for ys and q :: "collector_run \<times> 'x market_store_scheme"
      by (induction ys arbitrary: q) (simp_all add: step)
    from this [of "list_active s" ?q0] f show ?thesis by simp
  qed
  have counts: "cr_symbols_processed r = length (list_active s)" "cr_success_count r + cr_failed_count r = length (list_active s)"
    "length (cr_errors r) = cr_failed_count r"
    using candle_fold_counts [of "mp_intraday p" upsert_intraday_many "list_active s" ?q0] f
    by (simp_all add: empty_collector_run_def)
  have inj: "inj_on sy_id (set (list_active s))"
    using assms(2) by (rule inj_on_subset) (auto simp: list_active_def)
  have bars: "lookup_by intraday_key (sy_id y, cn_timestamp k) (intraday_prices s2) = Some (intraday_of (sy_id y) k)"
    if "y \<in> set (list_active s)" "mp_intraday p (sy_symbol y) = Inr cs" "k \<in> set (validate_candles (sy_symbol y) cs)" for y cs k
    using intraday_fold_lookup [where q = ?q0 and answer = "mp_intraday p" and cs = cs, OF inj that] f by simp
  define s' where "s' = collector_finish (next_collector_id s) t' (cr_symbols_processed r) (cr_success_count r)
    (cr_failed_count r) (error_message r) (record_success cfg t' (mp_connected_after p) s2)"
  let ?start = "last (collector_logs ?s1)"
  let ?row = "?start\<lparr>cl_finish_time := Some t', cl_duration := Some (of_int (t' - cl_start_time ?start) / 1000000),
    cl_symbols_processed := cr_symbols_processed r, cl_success_count := cr_success_count r,
    cl_failed_count := cr_failed_count r, cl_error_message := error_message r\<rparr>"
  let ?f = "\<lambda>w. if cl_id w = next_collector_id s then w\<lparr>cl_finish_time := Some t',
    cl_duration := Some (of_int (t' - cl_start_time w) / 1000000), cl_symbols_processed := cr_symbols_processed r,
    cl_success_count := cr_success_count r, cl_failed_count := cr_failed_count r, cl_error_message := error_message r\<rparr> else w"
  have start: "?start \<in> set (collector_logs ?s1)" "cl_id ?start = next_collector_id s" by (simp_all add: collector_start_def)
  have logs': "collector_logs s' = map ?f (collector_logs ?s1)" by (simp only: s'_def collector_finish_def run_frame logs) simp
  have fill: "?f ?start = ?row" using start(2) by (rule if_P)
  have "?f ?start \<in> ?f ` set (collector_logs ?s1)" using start(1) by (rule imageI)
  then have row: "?row \<in> set (collector_logs s')" by (simp only: logs' list.set_map fill)
  have row_id: "cl_id ?row = next_collector_id s" using start(2) by simp
  have ip: "intraday_prices s' = intraday_prices s2" by (simp add: s'_def run_frame)
  show ?thesis
    unfolding collect_intraday_def run s'_def [symmetric] Let_def prod.case ip using counts bars row row_id
    by (intro conjI exI [of _ ?row]) simp_all
qed

section \<open>Reconciling the universe\<close>

definition active_symbols :: "'x market_store_scheme \<Rightarrow> string set" where
  "active_symbols s = sy_symbol ` {r \<in> set (symbols s). sy_is_active r}"

definition confirmed_by :: "provider_symbol list \<Rightarrow> string set" where
  "confirmed_by ps = ps_symbol ` {p \<in> set ps. validate_symbol p = Inr ()}"

lemma active_list: "sy_symbol ` set (list_active s) = active_symbols s"
  by (auto simp: list_active_def active_symbols_def)

lemma active_map:
  assumes "\<And>x. sy_symbol (f x) = sy_symbol x" "symbols s' = map f (symbols s)"
  shows "active_symbols s' = sy_symbol ` {x \<in> set (symbols s). sy_is_active (f x)}"
proof -
  have "{y \<in> f ` A. sy_is_active y} = f ` {x \<in> A. sy_is_active (f x)}" for A by auto
  then show ?thesis by (simp add: active_symbols_def assms image_image)
qed

lemma active_upsert: "active_symbols (upsert_symbol p s) = insert (ps_symbol p) (active_symbols s)"
proof (cases "lookup_by sy_symbol (ps_symbol p) (symbols s)")
  case None
  define x where "x = assign_symbol p (new_symbol (next_symbol_id s) p)"
  have "symbols (upsert_symbol p s) = symbols s @ [x]"
    using None by (simp add: x_def upsert_symbol_def put_symbol_def upsert_by_def)
  moreover have "sy_symbol x = ps_symbol p" "sy_is_active x" by (simp_all add: x_def assign_symbol_def new_symbol_def)
  ultimately show ?thesis by (force simp: active_symbols_def)
next
  case (Some r)
  then have r: "r \<in> set (symbols s)" "sy_symbol r = ps_symbol p" by (auto dest: lookup_by_SomeD)
  let ?f = "\<lambda>r. if sy_symbol r = ps_symbol p then assign_symbol p r else r"
  have f: "sy_symbol (?f x) = sy_symbol x" "sy_is_active (?f x) = (sy_symbol x = ps_symbol p \<or> sy_is_active x)" for x
    by (simp_all add: assign_symbol_def)
  have m: "symbols (upsert_symbol p s) = map ?f (symbols s)"
    using Some by (simp add: upsert_symbol_def put_symbol_def upsert_by_def)
  have "active_symbols (upsert_symbol p s) = sy_symbol ` {x \<in> set (symbols s). sy_symbol x = ps_symbol p \<or> sy_is_active x}"
    using active_map [where f = ?f, OF f(1) m] unfolding f(2) .
  also have "\<dots> = insert (ps_symbol p) (active_symbols s)"
    using r by (auto simp: active_symbols_def intro: rev_image_eqI)
  finally show ?thesis .
qed

lemma symbol_fold:
  assumes "fold collect_symbol_step ps q = (confirmed, r, s')"
  shows "set confirmed = set (fst q) \<union> confirmed_by ps" "active_symbols s' = active_symbols (snd (snd q)) \<union> confirmed_by ps"
    "cr_deactivated_symbols r = cr_deactivated_symbols (fst (snd q))"
    "cr_reconciliation_note r = cr_reconciliation_note (fst (snd q))"
    "cr_success_count r + cr_failed_count r = cr_success_count (fst (snd q)) + cr_failed_count (fst (snd q)) + length ps"
    "cr_symbols_processed r = cr_symbols_processed (fst (snd q))"
  using assms
proof (atomize(full), induction ps arbitrary: q)
  case Nil
  then show ?case by (simp add: confirmed_by_def)
next
  case (Cons p ps)
  obtain c0 r0 s0 where q: "q = (c0, r0, s0)" by (cases q)
  from Cons.prems have f: "fold collect_symbol_step ps (collect_symbol_step p q) = (confirmed, r, s')" by simp
  have c: "confirmed_by (p # ps) = (if validate_symbol p = Inr () then {ps_symbol p} else {}) \<union> confirmed_by ps"
    by (auto simp: confirmed_by_def)
  show ?case
    unfolding c using Cons.IH [OF f] by (cases "validate_symbol p") (auto simp: q collect_symbol_step_def active_upsert)
qed

text \<open>A symbol refresh activates every symbol the broker confirms. It deactivates the others only when the answer is
  plausible: unless it skips with a note, the active symbols afterwards are exactly the confirmed ones and the
  reported ones are those it switched off; it skips exactly when fewer symbols are confirmed than the configured
  fraction of the active rows, and then nothing is switched off.\<close>

theorem universe_reconciled:
  assumes "provider_ready p" "mp_symbols p = Inr ps"
  shows "let (r, s') = collect_symbols cfg p t t' s
     in cr_symbols_processed r = length ps \<and> cr_success_count r + cr_failed_count r = length ps
      \<and> (if cr_reconciliation_note r = None
         then active_symbols s' = confirmed_by ps \<and> set (cr_deactivated_symbols r) = active_symbols s - confirmed_by ps
         else active_symbols s' = active_symbols s \<union> confirmed_by ps \<and> cr_deactivated_symbols r = []
            \<and> of_nat (card (confirmed_by ps)) < of_nat (length (list_active s')) * universe_reconciliation_min_fraction cfg)"
proof -
  let ?s1 = "snd (collector_start t s)"
  let ?q0 = "([], empty_collector_run\<lparr>cr_symbols_processed := length ps\<rparr>, ?s1)"
  obtain confirmed r0 s0 where f: "fold collect_symbol_step ps ?q0 = (confirmed, r0, s0)" by (metis prod_cases3)
  obtain r s2 where rec: "reconcile_universe cfg confirmed r0 s0 = (r, s2)" by fastforce
  have impl: "collect_symbols_impl p cfg ?s1 = (Inr r, s2)"
    by (simp add: collect_symbols_impl_def assms(2) f rec)
  note run = collector_run_ready [where impl = "collect_symbols_impl p cfg", OF assms(1) impl, of cfg t']
  define s' where "s' = collector_finish (next_collector_id s) t' (cr_symbols_processed r) (cr_success_count r)
    (cr_failed_count r) (error_message r) (record_success cfg t' (mp_connected_after p) s2)"
  have sym: "symbols s' = symbols s2" by (simp add: s'_def run_frame)
  then have act: "active_symbols s' = active_symbols s2" "list_active s' = list_active s2"
    by (simp_all add: active_symbols_def list_active_def)
  have a0: "set confirmed = confirmed_by ps" "active_symbols s0 = active_symbols s \<union> confirmed_by ps"
    "cr_deactivated_symbols r0 = []" "cr_reconciliation_note r0 = None"
    "cr_success_count r0 + cr_failed_count r0 = length ps" "cr_symbols_processed r0 = length ps"
    using symbol_fold [OF f] by (simp_all add: empty_collector_run_def active_symbols_def run_frame)
  have counts: "cr_symbols_processed r = length ps \<and> cr_success_count r + cr_failed_count r = length ps"
    using rec a0(5,6) by (auto simp: reconcile_universe_def Let_def split_beta split: if_splits)
  have "if cr_reconciliation_note r = None
         then active_symbols s2 = confirmed_by ps \<and> set (cr_deactivated_symbols r) = active_symbols s - confirmed_by ps
         else active_symbols s2 = active_symbols s \<union> confirmed_by ps \<and> cr_deactivated_symbols r = []
            \<and> of_nat (card (confirmed_by ps)) < of_nat (length (list_active s2)) * universe_reconciliation_min_fraction cfg"
  proof (cases "list_active s0 = []")
    case True
    then have "active_symbols s0 = {}" using active_list [of s0] by simp
    with True rec a0 show ?thesis by (auto simp: reconcile_universe_def)
  next
    case ne: False
    show ?thesis
    proof (cases "of_nat (card (set confirmed)) < of_nat (length (list_active s0)) * universe_reconciliation_min_fraction cfg")
      case True
      with ne rec a0 show ?thesis by (auto simp: reconcile_universe_def Let_def)
    next
      case False
      with ne rec have r: "r = r0\<lparr>cr_deactivated_symbols := fst (deactivate_missing confirmed s0)\<rparr>" "s2 = snd (deactivate_missing confirmed s0)"
        by (auto simp: reconcile_universe_def Let_def split_beta)
      have "active_symbols s2 = active_symbols s0 \<inter> set confirmed"
      proof -
        let ?f = "\<lambda>x. if sy_is_active x \<and> sy_symbol x \<notin> set confirmed then x\<lparr>sy_is_active := False\<rparr> else x"
        have "active_symbols s2 = sy_symbol ` {x \<in> set (symbols s0). sy_is_active (?f x)}"
          by (rule active_map) (simp_all add: r(2) deactivate_missing_def)
        then show ?thesis by (auto simp: active_symbols_def split: if_splits)
      qed
      moreover have "set (fst (deactivate_missing confirmed s0)) = active_symbols s0 - set confirmed"
        by (auto simp: deactivate_missing_def active_symbols_def list_active_def)
      ultimately show ?thesis using a0 r(1) by auto
    qed
  qed
  with counts show ?thesis
    unfolding collect_symbols_def run s'_def [symmetric] Let_def prod.case act by blast
qed

section \<open>Examples\<close>

definition good_candle :: "int \<Rightarrow> raw_candle" where
  "good_candle t = \<lparr>rc_timestamp = t, rc_open = Some (Num 100), rc_high = Some (Num 110), rc_low = Some (Num 95),
     rc_close = Some (Num 105), rc_volume = Some (Num 10), rc_vwap = None\<rparr>"

definition sample_provider :: market_provider where
  "sample_provider = \<lparr>mp_connected = False, mp_connect = Inr (), mp_connected_after = True,
     mp_symbols = Inr [sample_listing ''NSE''],
     mp_intraday = (\<lambda>_. Inr [(good_candle 60)\<lparr>rc_high := Some (Corrupt ''NaN'')\<rparr>, good_candle 60, good_candle 120]),
     mp_daily = (\<lambda>_. Inl (lit ''timeout''))\<rparr>"

definition sample_universe :: market_store where
  "sample_universe = (empty_market 0)\<lparr>symbols := put_symbol (1, sample_listing ''NSE'') []\<rparr>"

lemma sample_provider_ready: "provider_ready sample_provider"
  by (simp add: provider_ready_def sample_provider_def)

lemma sample_validated: "map cn_timestamp (validate_candles y [(good_candle 60)\<lparr>rc_high := Some (Corrupt ''NaN'')\<rparr>, good_candle 60, good_candle 120]) = [60, 120]"
  by (simp add: validate_candles_def validate_step_def validate_candle_def validate_ohlc_def validate_price_def
      validate_non_negative_def good_candle_def)

theorem collection_keeps_bars_valid_witness:
  "bars_ok (snd (collect_intraday default_settings sample_provider 0 1 None sample_universe))"
proof -
  have "bars_ok sample_universe" by (simp add: bars_ok_def sample_universe_def empty_market_def)
  from collection_keeps_bars_valid [OF this] show ?thesis by blast
qed

theorem intraday_run_isolated_witness:
  "let (r, s') = collect_intraday default_settings sample_provider 0 1 None sample_universe
   in cr_symbols_processed r = 1 \<and> cr_success_count r + cr_failed_count r = 1"
proof -
  have "length (list_active sample_universe) = 1" by code_simp
  moreover have "inj_on sy_id (set (symbols sample_universe))"
    by (simp add: sample_universe_def put_symbol_def upsert_by_def lookup_by_def)
  ultimately show ?thesis
    using intraday_run_isolated [of sample_provider sample_universe default_settings 0 1, OF sample_provider_ready]
    by (auto simp: Let_def split: prod.splits)
qed

theorem universe_reconciled_witness:
  "let (r, s') = collect_symbols default_settings sample_provider 0 1 sample_universe
   in cr_symbols_processed r = 1 \<and> cr_success_count r + cr_failed_count r = 1"
proof -
  have "mp_symbols sample_provider = Inr [sample_listing ''NSE'']" by (simp add: sample_provider_def)
  from universe_reconciled [OF sample_provider_ready this, of default_settings 0 1 sample_universe]
  show ?thesis by (auto simp: Let_def split: prod.splits)
qed

end
