(* ===== verification/Event_Pipeline.thy ===== *)
theory Event_Pipeline
  imports Alert_Store Decimal_Text Py_Time
begin

text \<open>
  The event pipeline: app/pipeline. Ingestion publishes a small event on a Redis stream, the worker reads
  it through a consumer group, runs the feature, scanner and decision engines and acknowledges it.
  Redis is a parameter: the record of the four stream commands the queue issues. The engines are
  parameters of the worker, as in the source's constructor.
\<close>

section \<open>Events as stream fields\<close>

record pipeline_event =
  pe_source :: string
  pe_symbol_count :: int
  pe_as_of :: int

type_synonym fields = "(string \<times> string) list"

text \<open>\<open>isoformat\<close> and \<open>fromisoformat\<close> of an aware UTC datetime; other spellings of a datetime are read as errors.\<close>

definition micro_text :: "int \<Rightarrow> string" where
  "micro_text us = pad2 (us div 10000) @ pad2 (us div 100 mod 100) @ pad2 (us mod 100)"

definition clock_text :: "int \<Rightarrow> string" where
  "clock_text secs = pad2 (secs div 3600) @ '':'' @ pad2 (secs div 60 mod 60) @ '':'' @ pad2 (secs mod 60)"

definition iso_utc :: "int \<Rightarrow> string" where
  "iso_utc t =
     (let tod = t mod day_us; us = tod mod second_us
      in isoformat (date_of (utc_dt t)) @ ''T'' @ clock_text (tod div second_us)
           @ (if us = 0 then [] else ''.'' @ micro_text us) @ ''+00:00'')"

fun read_clock :: "string \<Rightarrow> (int \<times> string) option" where
  "read_clock (a # b # c # d # e # f # g # h # rest) =
     (if c = CHR '':'' \<and> f = CHR '':'' then
        (case (parse2 a b, parse2 d e, parse2 g h) of
           (Some hh, Some mm, Some ss) \<Rightarrow>
             (if hh < 24 \<and> mm < 60 \<and> ss < 60 then Some ((hh * 60 + mm) * 60 + ss, rest) else None)
         | _ \<Rightarrow> None)
      else None)"
| "read_clock _ = None"

fun read_micro :: "string \<Rightarrow> (int \<times> string) option" where
  "read_micro (a # b # c # d # e # f # rest) =
     (case (parse2 a b, parse2 c d, parse2 e f) of
        (Some x, Some y, Some z) \<Rightarrow> Some ((x * 100 + y) * 100 + z, rest)
      | _ \<Rightarrow> None)"
| "read_micro _ = None"

definition from_iso_utc :: "string \<Rightarrow> int option" where
  "from_iso_utc s =
     (case (fromisoformat (take 10 s), drop 10 s) of
        (Some d, c # r) \<Rightarrow>
          (if c \<noteq> CHR ''T'' then None
           else case read_clock r of
             None \<Rightarrow> None
           | Some (secs, r') \<Rightarrow>
               (case (case r' of [] \<Rightarrow> None | p # q \<Rightarrow> if p = CHR ''.'' then read_micro q else Some (0, r')) of
                  None \<Rightarrow> None
                | Some (us, zone) \<Rightarrow>
                    (if zone = ''+00:00'' then Some ((d - epoch_ord) * day_us + secs * second_us + us) else None)))
      | _ \<Rightarrow> None)"

definition int_of_string :: "string \<Rightarrow> int option" where
  "int_of_string s =
     (let (neg, body) = strip_sign s; (ds, rest) = take_digits body
      in if ds \<noteq> [] \<and> rest = [] then Some (if neg then - digits_value ds else digits_value ds) else None)"

definition event_fields :: "pipeline_event \<Rightarrow> fields" where
  "event_fields e = [(''source'', pe_source e), (''symbol_count'', str_int (pe_symbol_count e)), (''as_of'', iso_utc (pe_as_of e))]"

definition to_event :: "fields \<Rightarrow> py_error + pipeline_event" where
  "to_event f =
     (case (map_of f ''source'', map_of f ''symbol_count'', map_of f ''as_of'') of
        (Some src, Some n, Some t) \<Rightarrow>
          (case (int_of_string n, from_iso_utc t) of
             (Some i, Some u) \<Rightarrow> Inr \<lparr>pe_source = src, pe_symbol_count = i, pe_as_of = u\<rparr>
           | _ \<Rightarrow> Inl ValueError)
      | _ \<Rightarrow> Inl (OtherError ''KeyError''))"

section \<open>The queue over Redis\<close>

text \<open>\<open>XGROUP CREATE\<close>, \<open>XADD\<close>, \<open>XREADGROUP\<close> (of the pending entries or of new ones, with a count) and \<open>XACK\<close>.\<close>

record 'r redis_ops =
  rd_create :: "'r \<Rightarrow> (string + unit) \<times> 'r"
  rd_add :: "fields \<Rightarrow> 'r \<Rightarrow> (py_error + unit) \<times> 'r"
  rd_read :: "bool \<Rightarrow> nat \<Rightarrow> 'r \<Rightarrow> (py_error + (string \<times> fields) list) \<times> 'r"
  rd_ack :: "string \<Rightarrow> 'r \<Rightarrow> (py_error + unit) \<times> 'r"

definition contains_text :: "string \<Rightarrow> string \<Rightarrow> bool" where
  "contains_text needle s \<longleftrightarrow> (\<exists>i \<in> set [0..<Suc (length s)]. take (length needle) (drop i s) = needle)"

text \<open>An error that says the group exists is ignored, any other is raised again.\<close>

definition ensure_group :: "'r redis_ops \<Rightarrow> 'r \<Rightarrow> (py_error + unit) \<times> 'r" where
  "ensure_group ops r =
     (case rd_create ops r of
        (Inl e, r') \<Rightarrow> (if contains_text ''BUSYGROUP'' e then Inr () else Inl (OtherError e), r')
      | (Inr _, r') \<Rightarrow> (Inr (), r'))"

definition publish_event :: "'r redis_ops \<Rightarrow> pipeline_event \<Rightarrow> 'r \<Rightarrow> (py_error + unit) \<times> 'r" where
  "publish_event ops e r = rd_add ops (event_fields e) r"

text \<open>The queue object: whether the next read drains the pending entries, and Redis.\<close>

record 'r event_queue =
  eq_draining :: bool
  eq_redis :: 'r

fun events_of :: "(string \<times> fields) list \<Rightarrow> py_error + (string \<times> pipeline_event) list" where
  "events_of [] = Inr []"
| "events_of ((i, f) # rest) =
     (case to_event f of
        Inl e \<Rightarrow> Inl e
      | Inr ev \<Rightarrow> (case events_of rest of Inl e \<Rightarrow> Inl e | Inr evs \<Rightarrow> Inr ((i, ev) # evs)))"

definition read_queue :: "'r redis_ops \<Rightarrow> 'r event_queue \<Rightarrow> (py_error + (string \<times> pipeline_event) list) \<times> 'r event_queue" where
  "read_queue ops q =
     (case rd_read ops (eq_draining q) 10 (eq_redis q) of
        (Inl e, r) \<Rightarrow> (Inl e, q\<lparr>eq_redis := r\<rparr>)
      | (Inr entries, r) \<Rightarrow> (events_of entries, \<lparr>eq_draining = False, eq_redis = r\<rparr>))"

definition ack_message :: "'r redis_ops \<Rightarrow> string \<Rightarrow> 'r event_queue \<Rightarrow> (py_error + unit) \<times> 'r event_queue" where
  "ack_message ops i q = (let (a, r) = rd_ack ops i (eq_redis q) in (a, q\<lparr>eq_redis := r\<rparr>))"

section \<open>The worker\<close>

definition WORKER_NAME :: string where
  "WORKER_NAME = ''pipeline_worker''"

type_synonym 's engine = "'s \<Rightarrow> (py_error + unit) \<times> 's"

definition then_run :: "'s engine \<Rightarrow> 's engine \<Rightarrow> 's engine" where
  "then_run f g s = (case f s of (Inl e, s') \<Rightarrow> (Inl e, s') | (Inr _, s') \<Rightarrow> g s')"

record 's engines =
  en_session :: "'s engine"
  en_daily :: "'s engine"
  en_scanners :: "'s engine"
  en_decisions :: "'s engine"

definition process_event :: "'s engines \<Rightarrow> bool \<Rightarrow> 's engine" where
  "process_event en market_open =
     then_run (if market_open then en_session en else Pair (Inr ()))
       (then_run (en_daily en) (then_run (en_scanners en) (en_decisions en)))"

record ('r, 's) worker =
  wk_queue :: "'r event_queue"
  wk_tables :: 's
  wk_done :: "string list"

text \<open>One message: whether the market is open, and the time, when it is handled are given by \<open>env\<close>. The heartbeat
  is best effort; \<open>wk_done\<close> lists the acknowledged messages.\<close>

definition worker_entry ::
  "'r redis_ops \<Rightarrow> ('x store_scheme) engines \<Rightarrow> (string \<Rightarrow> bool \<times> int) \<Rightarrow> string \<times> pipeline_event
     \<Rightarrow> ('r, 'x store_scheme) worker \<Rightarrow> ('r, 'x store_scheme) worker" where
  "worker_entry ops en env m w =
     (case process_event en (fst (env (fst m))) (wk_tables w) of
        (Inl e, s) \<Rightarrow> w\<lparr>wk_tables := s\<rparr>
      | (Inr _, s) \<Rightarrow>
          (case ack_message ops (fst m) (wk_queue w) of
             (Inl e, q) \<Rightarrow> w\<lparr>wk_queue := q, wk_tables := s\<rparr>
           | (Inr _, q) \<Rightarrow>
               \<lparr>wk_queue = q,
                wk_tables = ping_success (snd (env (fst m))) WORKER_NAME (Some (''processed source='' @ pe_source (snd m))) s,
                wk_done = wk_done w @ [fst m]\<rparr>))"

text \<open>One turn of the loop; after a failed read the loop waits and goes on.\<close>

definition worker_turn ::
  "'r redis_ops \<Rightarrow> ('x store_scheme) engines \<Rightarrow> (string \<Rightarrow> bool \<times> int)
     \<Rightarrow> ('r, 'x store_scheme) worker \<Rightarrow> ('r, 'x store_scheme) worker" where
  "worker_turn ops en env w =
     (case read_queue ops (wk_queue w) of
        (Inl e, q) \<Rightarrow> w\<lparr>wk_queue := q\<rparr>
      | (Inr entries, q) \<Rightarrow> fold (worker_entry ops en env) entries (w\<lparr>wk_queue := q\<rparr>))"

definition worker_run ::
  "'r redis_ops \<Rightarrow> ('x store_scheme) engines \<Rightarrow> (string \<Rightarrow> bool \<times> int) list
     \<Rightarrow> ('r, 'x store_scheme) worker \<Rightarrow> ('r, 'x store_scheme) worker" where
  "worker_run ops en turns w = fold (worker_turn ops en) turns w"

section \<open>Events survive the stream\<close>

lemma int_of_string_str_int: "int_of_string (str_int i) = Some i"
proof -
  have nat_case: "int_of_string (str_nat k) = Some (int k)" for k
  proof -
    note d = str_nat_digits [of k]
    obtain c cs where c: "str_nat k = c # cs" using d by (cases "str_nat k") auto
    have "digit_value c \<noteq> None" using d c by (auto simp: all_digits_def)
    then have "c \<noteq> CHR ''-''" "c \<noteq> CHR ''+''" by (auto simp: digit_value_def Let_def)
    then have s: "strip_sign (str_nat k) = (False, str_nat k)" by (simp add: strip_sign_def c)
    have t: "take_digits (str_nat k) = (digit_values (str_nat k), [])"
      using take_digits_append [of "str_nat k" "[]"] d by simp
    have "digit_values (str_nat k) \<noteq> []" using d by (simp add: digit_values_def)
    then show ?thesis using d by (simp add: int_of_string_def s t)
  qed
  show ?thesis
  proof (cases "i < 0")
    case True
    note d = str_nat_digits [of "nat (- i)"]
    have t: "take_digits (str_nat (nat (- i))) = (digit_values (str_nat (nat (- i))), [])"
      using take_digits_append [of "str_nat (nat (- i))" "[]"] d by simp
    have "digit_values (str_nat (nat (- i))) \<noteq> []" using d by (simp add: digit_values_def)
    then show ?thesis using True d t by (simp add: str_int_def int_of_string_def strip_sign_def)
  next
    case False
    then show ?thesis using nat_case [of "nat i"] by (simp add: str_int_def)
  qed
qed

lemma read_clock_parts:
  assumes "0 \<le> h" "h < 24" "0 \<le> m" "m < 60" "0 \<le> sec" "sec < 60"
  shows "read_clock (pad2 h @ '':'' @ pad2 m @ '':'' @ pad2 sec @ rest) = Some ((h * 60 + m) * 60 + sec, rest)"
proof -
  have "parse2 (Py_Time.digit_char (h div 10)) (Py_Time.digit_char (h mod 10)) = Some h"
    "parse2 (Py_Time.digit_char (m div 10)) (Py_Time.digit_char (m mod 10)) = Some m"
    "parse2 (Py_Time.digit_char (sec div 10)) (Py_Time.digit_char (sec mod 10)) = Some sec"
    using assms by (simp_all add: parse2_pad2)
  with assms show ?thesis by (simp add: pad2_def)
qed

lemma read_clock_text:
  assumes "0 \<le> secs" "secs < 86400"
  shows "read_clock (clock_text secs @ rest) = Some (secs, rest)"
proof -
  have "0 \<le> secs div 3600" "secs div 3600 < 24" "0 \<le> secs div 60 mod 60" "secs div 60 mod 60 < 60"
    "0 \<le> secs mod 60" "secs mod 60 < 60" using assms by auto
  note parts = read_clock_parts [OF this, of rest]
  have "secs div 3600 = secs div 60 div 60" using zdiv_zmult2_eq [of 60 secs 60] by simp
  then have "(secs div 3600 * 60 + secs div 60 mod 60) * 60 + secs mod 60 = secs" by (simp only: div_mult_mod_eq)
  with parts show ?thesis by (simp only: clock_text_def append_assoc)
qed

lemma read_micro_parts:
  assumes "0 \<le> x" "x < 100" "0 \<le> y" "y < 100" "0 \<le> z" "z < 100"
  shows "read_micro (pad2 x @ pad2 y @ pad2 z @ rest) = Some ((x * 100 + y) * 100 + z, rest)"
proof -
  have "parse2 (Py_Time.digit_char (x div 10)) (Py_Time.digit_char (x mod 10)) = Some x"
    "parse2 (Py_Time.digit_char (y div 10)) (Py_Time.digit_char (y mod 10)) = Some y"
    "parse2 (Py_Time.digit_char (z div 10)) (Py_Time.digit_char (z mod 10)) = Some z"
    using assms by (simp_all add: parse2_pad2)
  then show ?thesis by (simp add: pad2_def)
qed

lemma read_micro_text:
  assumes "0 \<le> us" "us < 1000000"
  shows "read_micro (micro_text us @ rest) = Some (us, rest)"
proof -
  have "0 \<le> us div 10000" "us div 10000 < 100" "0 \<le> us div 100 mod 100" "us div 100 mod 100 < 100"
    "0 \<le> us mod 100" "us mod 100 < 100" using assms by auto
  note parts = read_micro_parts [OF this, of rest]
  have "us div 10000 = us div 100 div 100" using zdiv_zmult2_eq [of 100 us 100] by simp
  then have "(us div 10000 * 100 + us div 100 mod 100) * 100 + us mod 100 = us" by (simp only: div_mult_mod_eq)
  with parts show ?thesis by (simp only: micro_text_def append_assoc)
qed

lemma length_isoformat: "length (isoformat n) = 10"
  by (simp add: isoformat_def pad4_def pad2_def split: prod.split)

lemma from_iso_utc_text:
  assumes "valid_ord (date_of (utc_dt t))"
  shows "from_iso_utc (iso_utc t) = Some t"
proof -
  define tod where "tod = t mod day_us"
  define secs where "secs = tod div second_us"
  define us where "us = tod mod second_us"
  define d where "d = date_of (utc_dt t)"
  define tail where "tail = (if us = 0 then [] else ''.'' @ micro_text us) @ ''+00:00''"
  have b: "0 \<le> tod" "tod < 86400000000" by (simp_all add: tod_def day_us_def)
  then have s: "0 \<le> secs" "secs < 86400" and u: "0 \<le> us" "us < 1000000" by (simp_all add: secs_def us_def second_us_def)
  have e: "iso_utc t = isoformat d @ CHR ''T'' # clock_text secs @ tail"
    by (simp add: iso_utc_def tod_def secs_def us_def d_def tail_def Let_def)
  have "secs * second_us + us = tod" unfolding secs_def us_def by (rule div_mult_mod_eq)
  moreover have "(d - epoch_ord) * day_us + tod = t"
    by (simp add: d_def date_of_def utc_dt_def tod_def)
  ultimately have v: "(d - epoch_ord) * day_us + secs * second_us + us = t" by simp
  have d10: "take 10 (iso_utc t) = isoformat d" "drop 10 (iso_utc t) = CHR ''T'' # clock_text secs @ tail"
    unfolding e by (simp_all add: length_isoformat)
  have frac: "(case tail of [] \<Rightarrow> None | p # q \<Rightarrow> if p = CHR ''.'' then read_micro q else Some (0, tail)) = Some (us, ''+00:00'')"
    using read_micro_text [OF u] by (simp add: tail_def)
  show ?thesis
    using fromisoformat_isoformat [of d] assms v
    by (simp add: from_iso_utc_def d10 read_clock_text [OF s] frac d_def [symmetric])
qed

text \<open>C31: What the publisher writes the worker reads back: the fields of an event, with the count as text and the time in
  ISO format, parse to the same event for every count and every time of the years 1 to 9999.\<close>

theorem event_fields_roundtrip:
  assumes "valid_ord (date_of (utc_dt (pe_as_of e)))"
  shows "to_event (event_fields e) = Inr e"
  using from_iso_utc_text [OF assms] by (cases e) (simp add: to_event_def event_fields_def int_of_string_str_int)

section \<open>What happens to a message\<close>

text \<open>What the worker relies on of a consumer group, as Redis documents it. A read of new entries hands out the
  oldest undelivered ones and makes them pending, a read of the history repeats pending ones, an
  acknowledgement takes an entry off the pending list, a failing command changes nothing.\<close>

definition redis_laws :: "'r redis_ops \<Rightarrow> ('r \<Rightarrow> string list) \<Rightarrow> ('r \<Rightarrow> string list) \<Rightarrow> bool" where
  "redis_laws ops backlog pending \<longleftrightarrow>
     (\<forall>d n r e r'. rd_read ops d n r = (Inl e, r') \<longrightarrow> backlog r' = backlog r \<and> pending r' = pending r)
   \<and> (\<forall>n r es r'. rd_read ops False n r = (Inr es, r') \<longrightarrow>
        map fst es = take n (backlog r) \<and> backlog r' = drop n (backlog r) \<and> pending r' = pending r @ map fst es)
   \<and> (\<forall>n r es r'. rd_read ops True n r = (Inr es, r') \<longrightarrow>
        map fst es = take n (pending r) \<and> backlog r' = backlog r \<and> pending r' = pending r)
   \<and> (\<forall>i r e r'. rd_ack ops i r = (Inl e, r') \<longrightarrow> backlog r' = backlog r \<and> pending r' = pending r)
   \<and> (\<forall>i r u r'. rd_ack ops i r = (Inr u, r') \<longrightarrow>
        backlog r' = backlog r \<and> pending r' = filter (\<lambda>j. j \<noteq> i) (pending r))"

lemma redis_lawsD:
  assumes "redis_laws ops backlog pending"
  shows "rd_read ops d n r = (Inl e, r') \<Longrightarrow> backlog r' = backlog r \<and> pending r' = pending r"
    "rd_read ops False n r = (Inr es, r') \<Longrightarrow>
        map fst es = take n (backlog r) \<and> backlog r' = drop n (backlog r) \<and> pending r' = pending r @ map fst es"
    "rd_read ops True n r = (Inr es, r') \<Longrightarrow> map fst es = take n (pending r) \<and> backlog r' = backlog r \<and> pending r' = pending r"
    "rd_ack ops i r = (Inl e, r') \<Longrightarrow> backlog r' = backlog r \<and> pending r' = pending r"
    "rd_ack ops i r = (Inr u, r') \<Longrightarrow> backlog r' = backlog r \<and> pending r' = filter (\<lambda>j. j \<noteq> i) (pending r)"
  using assms unfolding redis_laws_def by (elim conjE; simp)+

lemma events_of_ids: "events_of es = Inr evs \<Longrightarrow> map fst evs = map fst es"
  by (induction es arbitrary: evs rule: events_of.induct) (auto split: sum.splits)

definition waiting :: "('r \<Rightarrow> string list) \<Rightarrow> ('r, 's) worker \<Rightarrow> string list" where
  "waiting view w = view (eq_redis (wk_queue w))"

lemma worker_entry_effect:
  assumes "redis_laws ops backlog pending"
  shows "waiting backlog (worker_entry ops en env m w) = waiting backlog w
    \<and> eq_draining (wk_queue (worker_entry ops en env m w)) = eq_draining (wk_queue w)
    \<and> (waiting pending (worker_entry ops en env m w) = waiting pending w \<and> wk_done (worker_entry ops en env m w) = wk_done w
       \<or> waiting pending (worker_entry ops en env m w) = filter (\<lambda>j. j \<noteq> fst m) (waiting pending w)
         \<and> wk_done (worker_entry ops en env m w) = wk_done w @ [fst m])"
proof -
  obtain e s where p: "process_event en (fst (env (fst m))) (wk_tables w) = (e, s)" by fastforce
  obtain a r where a: "rd_ack ops (fst m) (eq_redis (wk_queue w)) = (a, r)" by fastforce
  show ?thesis
  proof (cases a)
    case (Inl x)
    from redis_lawsD(4) [OF assms a [unfolded Inl]] p a Inl show ?thesis
      by (cases e) (simp_all add: worker_entry_def ack_message_def waiting_def)
  next
    case (Inr x)
    from redis_lawsD(5) [OF assms a [unfolded Inr]] p a Inr show ?thesis
      by (cases e) (simp_all add: worker_entry_def ack_message_def waiting_def)
  qed
qed

lemma worker_entries_effect:
  assumes "redis_laws ops backlog pending"
  shows "waiting backlog (fold (worker_entry ops en env) ms w) = waiting backlog w" "eq_draining (wk_queue (fold (worker_entry ops en env) ms w)) = eq_draining (wk_queue w)"
    "set (wk_done w) \<subseteq> set (wk_done (fold (worker_entry ops en env) ms w))"
    "set (waiting pending w) \<subseteq> set (waiting pending (fold (worker_entry ops en env) ms w)) \<union> set (wk_done (fold (worker_entry ops en env) ms w))"
    "set (waiting pending w) - fst ` set ms \<subseteq> set (waiting pending (fold (worker_entry ops en env) ms w))"
proof -
  have "waiting backlog (fold (worker_entry ops en env) ms w) = waiting backlog w \<and> eq_draining (wk_queue (fold (worker_entry ops en env) ms w)) = eq_draining (wk_queue w)
    \<and> set (wk_done w) \<subseteq> set (wk_done (fold (worker_entry ops en env) ms w))
    \<and> set (waiting pending w) \<subseteq> set (waiting pending (fold (worker_entry ops en env) ms w)) \<union> set (wk_done (fold (worker_entry ops en env) ms w))
    \<and> set (waiting pending w) - fst ` set ms \<subseteq> set (waiting pending (fold (worker_entry ops en env) ms w))"
  proof (induction ms arbitrary: w)
    case (Cons m ms)
    from Cons [of "worker_entry ops en env m w"] worker_entry_effect [OF assms(1), of en env m w]
    show ?case by auto
  qed simp
  then show "waiting backlog (fold (worker_entry ops en env) ms w) = waiting backlog w" "eq_draining (wk_queue (fold (worker_entry ops en env) ms w)) = eq_draining (wk_queue w)"
    "set (wk_done w) \<subseteq> set (wk_done (fold (worker_entry ops en env) ms w))"
    "set (waiting pending w) \<subseteq> set (waiting pending (fold (worker_entry ops en env) ms w)) \<union> set (wk_done (fold (worker_entry ops en env) ms w))"
    "set (waiting pending w) - fst ` set ms \<subseteq> set (waiting pending (fold (worker_entry ops en env) ms w))" by blast+
qed

lemma read_queue_effect:
  assumes "redis_laws ops backlog pending" "read_queue ops q = (outcome, q')"
  shows "eq_draining q' \<longrightarrow> eq_draining q"
    "set (pending (eq_redis q)) \<subseteq> set (pending (eq_redis q'))"
    "set (backlog (eq_redis q)) \<subseteq> set (backlog (eq_redis q')) \<union> set (pending (eq_redis q'))"
    "set (backlog (eq_redis q')) \<subseteq> set (backlog (eq_redis q))"
    "\<And>es. outcome = Inr es \<Longrightarrow> \<not> eq_draining q' \<and> map fst es = take 10 ((if eq_draining q then pending else backlog) (eq_redis q))"
    "eq_draining q' \<longrightarrow> pending (eq_redis q') = pending (eq_redis q)"
proof -
  obtain a r where a: "rd_read ops (eq_draining q) 10 (eq_redis q) = (a, r)" by fastforce
  have b: "set (take 10 xs) \<union> set (drop 10 xs) = set xs" for xs :: "string list"
    by (metis append_take_drop_id set_append)
  have "(eq_draining q' \<longrightarrow> eq_draining q) \<and> set (pending (eq_redis q)) \<subseteq> set (pending (eq_redis q'))
    \<and> set (backlog (eq_redis q)) \<subseteq> set (backlog (eq_redis q')) \<union> set (pending (eq_redis q'))
    \<and> set (backlog (eq_redis q')) \<subseteq> set (backlog (eq_redis q))
    \<and> (\<forall>es. outcome = Inr es \<longrightarrow> \<not> eq_draining q' \<and> map fst es = take 10 ((if eq_draining q then pending else backlog) (eq_redis q)))
    \<and> (eq_draining q' \<longrightarrow> pending (eq_redis q') = pending (eq_redis q))"
  proof (cases a)
    case (Inl x)
    from redis_lawsD(1) [OF assms(1) a [unfolded Inl]] assms(2) a Inl show ?thesis by (auto simp: read_queue_def)
  next
    case (Inr es)
    then have q': "outcome = events_of es" "q' = \<lparr>eq_draining = False, eq_redis = r\<rparr>"
      using assms(2) a by (auto simp: read_queue_def)
    show ?thesis
    proof (cases "eq_draining q")
      case True
      have "rd_read ops True 10 (eq_redis q) = (Inr es, r)" using a Inr True by simp
      from redis_lawsD(3) [OF assms(1) this] True show ?thesis unfolding q' by (auto simp: events_of_ids)
    next
      case False
      have "rd_read ops False 10 (eq_redis q) = (Inr es, r)" using a Inr False by simp
      from redis_lawsD(2) [OF assms(1) this] False b [of "backlog (eq_redis q)"]
      show ?thesis unfolding q' by (auto simp: events_of_ids)
    qed
  qed
  then show "eq_draining q' \<longrightarrow> eq_draining q" "set (pending (eq_redis q)) \<subseteq> set (pending (eq_redis q'))"
    "set (backlog (eq_redis q)) \<subseteq> set (backlog (eq_redis q')) \<union> set (pending (eq_redis q'))"
    "set (backlog (eq_redis q')) \<subseteq> set (backlog (eq_redis q))"
    "\<And>es. outcome = Inr es \<Longrightarrow> \<not> eq_draining q' \<and> map fst es = take 10 ((if eq_draining q then pending else backlog) (eq_redis q))"
    "eq_draining q' \<longrightarrow> pending (eq_redis q') = pending (eq_redis q)"
    by blast+
qed

lemma worker_turn_effect:
  assumes laws: "redis_laws ops backlog pending"
  shows "set (waiting backlog w) \<union> set (waiting pending w) \<union> set (wk_done w)
      \<subseteq> set (waiting backlog (worker_turn ops en env w)) \<union> set (waiting pending (worker_turn ops en env w))
        \<union> set (wk_done (worker_turn ops en env w))"
    and "i \<in> set (waiting pending w) \<Longrightarrow> i \<notin> set (waiting backlog w) \<Longrightarrow>
      (eq_draining (wk_queue w) \<Longrightarrow> i \<notin> set (take 10 (waiting pending w))) \<Longrightarrow>
      i \<in> set (waiting pending (worker_turn ops en env w)) \<and> i \<notin> set (waiting backlog (worker_turn ops en env w))
      \<and> (eq_draining (wk_queue (worker_turn ops en env w)) \<longrightarrow> i \<notin> set (take 10 (waiting pending (worker_turn ops en env w))))"
proof -
  obtain a q where r: "read_queue ops (wk_queue w) = (a, q)" by fastforce
  note e = read_queue_effect [OF laws r]
  show "set (waiting backlog w) \<union> set (waiting pending w) \<union> set (wk_done w)
      \<subseteq> set (waiting backlog (worker_turn ops en env w)) \<union> set (waiting pending (worker_turn ops en env w))
        \<union> set (wk_done (worker_turn ops en env w))"
  proof (cases a)
    case (Inl x)
    with e(2,3) r show ?thesis by (auto simp: worker_turn_def waiting_def)
  next
    case (Inr es)
    let ?w = "w\<lparr>wk_queue := q\<rparr>"
    from worker_entries_effect [OF laws, where en = en and env = env and ms = es and w = ?w] e(2,3) r Inr show ?thesis
      by (auto simp: worker_turn_def waiting_def)
  qed
  assume i: "i \<in> set (waiting pending w)" "i \<notin> set (waiting backlog w)"
    "eq_draining (wk_queue w) \<Longrightarrow> i \<notin> set (take 10 (waiting pending w))"
  show "i \<in> set (waiting pending (worker_turn ops en env w)) \<and> i \<notin> set (waiting backlog (worker_turn ops en env w))
      \<and> (eq_draining (wk_queue (worker_turn ops en env w)) \<longrightarrow> i \<notin> set (take 10 (waiting pending (worker_turn ops en env w))))"
  proof (cases a)
    case (Inl x)
    with e r i show ?thesis by (auto simp: worker_turn_def waiting_def)
  next
    case (Inr es)
    let ?w = "w\<lparr>wk_queue := q\<rparr>"
    have m: "\<not> eq_draining q" "map fst es = take 10 ((if eq_draining (wk_queue w) then pending else backlog) (eq_redis (wk_queue w)))"
      using e(5) [OF Inr] by blast+
    have "i \<notin> set (map fst es)"
      unfolding m(2) using i by (cases "eq_draining (wk_queue w)") (auto simp: waiting_def dest: in_set_takeD)
    then have ni: "i \<notin> fst ` set es" by simp
    note step = worker_entries_effect [OF laws, where en = en and env = env and ms = es and w = ?w]
    have t: "worker_turn ops en env w = fold (worker_entry ops en env) es ?w" by (simp add: worker_turn_def r Inr)
    have "i \<in> set (waiting pending ?w)" using e(2) i(1) by (auto simp: waiting_def)
    then have "i \<in> set (waiting pending (worker_turn ops en env w))"
      using step(5) ni unfolding t by blast
    moreover have "i \<notin> set (waiting backlog (worker_turn ops en env w))"
      using step(1) e(4) i(2) unfolding t by (auto simp: waiting_def)
    moreover have "\<not> eq_draining (wk_queue (worker_turn ops en env w))"
      using step(2) m(1) unfolding t by simp
    ultimately show ?thesis by blast
  qed
qed


text \<open>C38: A message whose processing failed is not retried while the worker runs. A delivered but unacknowledged message
  that the first read of the history does not return (it returns ten at most, and there is only one such read)
  stays pending through any number of turns, until the process is started again.\<close>

theorem failed_event_waits_for_restart:
  assumes laws: "redis_laws ops backlog pending"
    and "i \<in> set (waiting pending w)" "i \<notin> set (waiting backlog w)"
    and "eq_draining (wk_queue w) \<Longrightarrow> i \<notin> set (take 10 (waiting pending w))"
  shows "i \<in> set (waiting pending (worker_run ops en turns w))"
  using assms(2-4) unfolding worker_run_def
proof (induction turns arbitrary: w)
  case (Cons env turns)
  from worker_turn_effect(2) [OF laws Cons.prems, of en env] Cons.IH [of "worker_turn ops en env w"] show ?case by simp
qed simp

section \<open>An example\<close>

type_synonym demo_stream = "(string \<times> fields) list \<times> (string \<times> fields) list"

definition demo_redis :: "demo_stream redis_ops" where
  "demo_redis =
     \<lparr>rd_create = (\<lambda>r. (Inl ''BUSYGROUP Consumer Group name already exists'', r)),
      rd_add = (\<lambda>f r. (Inr (), r)),
      rd_read = (\<lambda>history n (b, p). if history then (Inr (take n p), (b, p)) else (Inr (take n b), (drop n b, p @ take n b))),
      rd_ack = (\<lambda>i (b, p). (Inr (), (b, filter (\<lambda>m. fst m \<noteq> i) p)))\<rparr>"

definition demo_backlog :: "demo_stream \<Rightarrow> string list" where "demo_backlog r = map fst (fst r)"

definition demo_pending :: "demo_stream \<Rightarrow> string list" where "demo_pending r = map fst (snd r)"

lemma demo_redis_laws: "redis_laws demo_redis demo_backlog demo_pending"
  by (auto simp: redis_laws_def demo_redis_def demo_backlog_def demo_pending_def take_map drop_map filter_map o_def
      split: prod.splits if_splits)

definition demo_event :: pipeline_event where
  "demo_event = \<lparr>pe_source = ''intraday'', pe_symbol_count = 3, pe_as_of = 1751340600000000\<rparr>"

definition failing_engines :: "store engines" where
  "failing_engines = \<lparr>en_session = Pair (Inr ()), en_daily = Pair (Inl RuntimeError), en_scanners = Pair (Inr ()),
     en_decisions = Pair (Inr ())\<rparr>"

definition demo_worker :: "(demo_stream, store) worker" where
  "demo_worker = \<lparr>wk_queue = \<lparr>eq_draining = False, eq_redis = ([], [(''1-0'', event_fields demo_event)])\<rparr>,
     wk_tables = \<lparr>alerts = [], next_alert_id = 1, alert_events = [], next_event_id = 1, delivery_logs = [],
       next_log_id = 1, heartbeats = Map.empty, db_clock = 0, queue = empty_queue\<rparr>, wk_done = []\<rparr>"

theorem event_fields_roundtrip_witness: "to_event (event_fields demo_event) = Inr demo_event"
  by (rule event_fields_roundtrip) code_simp


theorem failed_event_waits_for_restart_witness:
  "''1-0'' \<in> set (waiting demo_pending (worker_run demo_redis failing_engines (replicate 100 (\<lambda>_. (True, 0))) demo_worker))"
  by (rule failed_event_waits_for_restart [OF demo_redis_laws])
    (simp_all add: waiting_def demo_worker_def demo_pending_def demo_backlog_def)

end
