(* ===== verification/Tick_Aggregator.thy ===== *)
theory Tick_Aggregator
  imports Market_Store
begin

text \<open>
  Minute bars from ticks: app/providers/tick_aggregator.py. Ticks of many instruments arrive interleaved;
  a tick that is not newer than the last one of its instrument is dropped, a tick of a new minute completes the
  bar of the old one. The bars are compared with a direct definition over the accepted ticks.
\<close>

section \<open>The aggregator\<close>

record tick =
  tk_key :: string
  tk_ltp :: rat
  tk_ltt_ms :: int
  tk_ltq :: int

record open_bucket =
  bk_minute :: int
  bk_open :: rat
  bk_high :: rat
  bk_low :: rat
  bk_close :: rat
  bk_volume :: int

record aggregator =
  ag_buckets :: "string \<rightharpoonup> open_bucket"
  ag_last_ltt_ms :: "string \<rightharpoonup> int"
  ag_duplicates_dropped :: nat
  ag_ticks_processed :: nat

definition new_aggregator :: aggregator where
  "new_aggregator = \<lparr>ag_buckets = Map.empty, ag_last_ltt_ms = Map.empty, ag_duplicates_dropped = 0, ag_ticks_processed = 0\<rparr>"

text \<open>\<open>fromtimestamp(ltt_ms / 1000, tz=UTC).replace(second=0, microsecond=0)\<close>\<close>

definition minute_start :: "int \<Rightarrow> int" where
  "minute_start t = t - t mod minute_us"

definition to_candle :: "open_bucket \<Rightarrow> candle" where
  "to_candle b = \<lparr>cn_timestamp = bk_minute b, cn_open = bk_open b, cn_high = bk_high b, cn_low = bk_low b,
     cn_close = bk_close b, cn_volume = bk_volume b, cn_vwap = None\<rparr>"

definition fresh_bucket :: "int \<Rightarrow> rat \<Rightarrow> int \<Rightarrow> open_bucket" where
  "fresh_bucket minute price q =
     \<lparr>bk_minute = minute, bk_open = price, bk_high = price, bk_low = price, bk_close = price, bk_volume = q\<rparr>"

definition extend_bucket :: "rat \<Rightarrow> int \<Rightarrow> open_bucket \<Rightarrow> open_bucket" where
  "extend_bucket price q b =
     b\<lparr>bk_high := max (bk_high b) price, bk_low := min (bk_low b) price, bk_close := price, bk_volume := bk_volume b + q\<rparr>"

definition ingest :: "tick \<Rightarrow> aggregator \<Rightarrow> (py_error + candle option) \<times> aggregator" where
  "ingest t a =
     (if (case ag_last_ltt_ms a (tk_key t) of None \<Rightarrow> False | Some last_ltt \<Rightarrow> tk_ltt_ms t \<le> last_ltt)
      then (Inr None, a\<lparr>ag_duplicates_dropped := Suc (ag_duplicates_dropped a)\<rparr>)
      else
        let a1 = a\<lparr>ag_last_ltt_ms := (ag_last_ltt_ms a)(tk_key t \<mapsto> tk_ltt_ms t),
                   ag_ticks_processed := Suc (ag_ticks_processed a)\<rparr>
        in case from_milliseconds (of_int (tk_ltt_ms t)) of
             Inl e \<Rightarrow> (Inl e, a1)
           | Inr moment \<Rightarrow>
               (let minute = minute_start moment;
                    (completed, bucket) =
                      (case ag_buckets a1 (tk_key t) of
                         None \<Rightarrow> (None, None)
                       | Some b \<Rightarrow> if bk_minute b \<noteq> minute then (Some (to_candle b), None) else (None, Some b));
                    bucket' = (case bucket of
                         None \<Rightarrow> fresh_bucket minute (tk_ltp t) (tk_ltq t)
                       | Some b \<Rightarrow> extend_bucket (tk_ltp t) (tk_ltq t) b)
                in (Inr completed, a1\<lparr>ag_buckets := (ag_buckets a1)(tk_key t \<mapsto> bucket')\<rparr>)))"

definition flush_open_buckets :: "aggregator \<Rightarrow> string \<rightharpoonup> candle" where
  "flush_open_buckets a = (\<lambda>k. map_option to_candle (ag_buckets a k))"

text \<open>A run over ticks, with the completed candles of every instrument in order.\<close>

fun ingest_all :: "tick list \<Rightarrow> aggregator \<Rightarrow> (py_error + (string \<times> candle) list) \<times> aggregator" where
  "ingest_all [] a = (Inr [], a)"
| "ingest_all (t # ts) a =
     (case ingest t a of
        (Inl e, a') \<Rightarrow> (Inl e, a')
      | (Inr c, a') \<Rightarrow>
          (case ingest_all ts a' of
             (Inl e, a'') \<Rightarrow> (Inl e, a'')
           | (Inr cs, a'') \<Rightarrow> (Inr ((case c of None \<Rightarrow> cs | Some k \<Rightarrow> (tk_key t, k) # cs)), a'')))"

section \<open>The reference\<close>

text \<open>The ticks of one instrument that are newer than every earlier one.\<close>

fun accepted :: "int option \<Rightarrow> tick list \<Rightarrow> tick list" where
  "accepted last_ltt [] = []"
| "accepted last_ltt (t # ts) =
     (if (case last_ltt of None \<Rightarrow> False | Some l \<Rightarrow> tk_ltt_ms t \<le> l) then accepted last_ltt ts
      else t # accepted (Some (tk_ltt_ms t)) ts)"

definition tick_minute :: "tick \<Rightarrow> int" where
  "tick_minute t = minute_start (tk_ltt_ms t * 1000)"

definition bar_of :: "int \<Rightarrow> tick list \<Rightarrow> candle" where
  "bar_of m ts =
     \<lparr>cn_timestamp = m, cn_open = tk_ltp (hd ts), cn_high = Max (tk_ltp ` set ts), cn_low = Min (tk_ltp ` set ts),
      cn_close = tk_ltp (last ts), cn_volume = (\<Sum>t\<leftarrow>ts. tk_ltq t), cn_vwap = None\<rparr>"

definition minute_bars :: "tick list \<Rightarrow> candle list" where
  "minute_bars ts = map (\<lambda>m. bar_of m (filter (\<lambda>t. tick_minute t = m) ts)) (remdups_adj (map tick_minute ts))"

section \<open>The aggregator builds the reference\<close>

lemma from_milliseconds_int: "from_milliseconds (of_int ms) = Inr moment \<Longrightarrow> moment = ms * 1000"
  using round_half_even_of_int [of "ms * 1000"] by (auto simp: from_milliseconds_def Let_def split: if_splits)

lemma minute_start_mono: "s \<le> t \<Longrightarrow> minute_start s \<le> minute_start t"
proof -
  assume "s \<le> t"
  then have "s div minute_us \<le> t div minute_us" by (simp add: zdiv_mono1 minute_us_def)
  moreover have "minute_start x = x div minute_us * minute_us" for x
    by (simp add: minute_start_def minus_mod_eq_div_mult)
  ultimately show ?thesis by (simp add: minute_us_def)
qed

lemma accepted_later: "t \<in> set (accepted (Some l) ts) \<Longrightarrow> l < tk_ltt_ms t"
proof (induction ts arbitrary: l)
  case (Cons x ts)
  show ?case
  proof (cases "tk_ltt_ms x \<le> l")
    case True
    with Cons show ?thesis by simp
  next
    case False
    with Cons.prems Cons.IH [of "tk_ltt_ms x"] show ?thesis by auto
  qed
qed simp

lemma bar_of_snoc:
  assumes "to_candle b = bar_of m F" "F \<noteq> []"
  shows "to_candle (extend_bucket (tk_ltp t) (tk_ltq t) b) = bar_of m (F @ [t])"
proof -
  have "Max (tk_ltp ` set (F @ [t])) = max (Max (tk_ltp ` set F)) (tk_ltp t)"
    "Min (tk_ltp ` set (F @ [t])) = min (Min (tk_ltp ` set F)) (tk_ltp t)"
    using assms(2) by (simp_all add: max.commute min.commute)
  moreover have "bk_minute b = m" "bk_open b = tk_ltp (hd F)" "bk_high b = Max (tk_ltp ` set F)"
    "bk_low b = Min (tk_ltp ` set F)" "bk_volume b = (\<Sum>t\<leftarrow>F. tk_ltq t)"
    using assms(1) by (simp_all add: to_candle_def bar_of_def)
  ultimately show ?thesis using assms(2) by (simp add: to_candle_def bar_of_def extend_bucket_def del: set_append)
qed

lemma bar_of_single: "to_candle (fresh_bucket m (tk_ltp t) (tk_ltq t)) = bar_of m [t]"
  by (simp add: to_candle_def fresh_bucket_def bar_of_def)

lemma minute_bars_same: "F \<noteq> [] \<Longrightarrow> \<forall>t \<in> set F. tick_minute t = m \<Longrightarrow> minute_bars F = [bar_of m F]"
proof -
  assume F: "F \<noteq> []" "\<forall>t \<in> set F. tick_minute t = m"
  then have "map tick_minute F = replicate (length F) m" by (intro replicate_eqI) auto
  moreover have "filter (\<lambda>t. tick_minute t = m) F = F" using F(2) by (simp add: filter_id_conv)
  ultimately show ?thesis using F(1) by (simp add: minute_bars_def remdups_adj_replicate)
qed

lemma remdups_adj_skip: "ys \<noteq> [] \<Longrightarrow> hd ys \<noteq> m \<Longrightarrow> remdups_adj (replicate (Suc n) m @ ys) = m # remdups_adj ys"
  by (induction n) (cases ys; simp)+

lemma minute_bars_next:
  assumes F: "F \<noteq> []" "\<forall>t \<in> set F. tick_minute t = m" and G: "G \<noteq> []" "\<forall>t \<in> set G. tick_minute t \<noteq> m"
  shows "minute_bars (F @ G) = bar_of m F # minute_bars G"
proof -
  obtain n where n: "length F = Suc n" using F(1) by (cases F) auto
  have mf: "map tick_minute F = replicate (Suc n) m" using F(2) n by (intro replicate_eqI) auto
  have "hd (map tick_minute G) \<noteq> m" using G by (cases G) auto
  with G(1) have r: "remdups_adj (map tick_minute (F @ G)) = m # remdups_adj (map tick_minute G)"
    unfolding map_append mf by (intro remdups_adj_skip) simp_all
  have own: "filter (\<lambda>t. tick_minute t = m) (F @ G) = F"
    using F(2) G(2) by (simp add: filter_id_conv filter_empty_conv)
  have other: "filter (\<lambda>t. tick_minute t = m') (F @ G) = filter (\<lambda>t. tick_minute t = m') G" if "m' \<noteq> m" for m'
    using F(2) that by (simp add: filter_empty_conv)
  have "m' \<noteq> m" if "m' \<in> set (remdups_adj (map tick_minute G))" for m' using that G(2) by auto
  then show ?thesis unfolding minute_bars_def r using own other by simp
qed

definition candles_of :: "string \<Rightarrow> (string \<times> candle) list \<Rightarrow> candle list" where
  "candles_of k es = map snd (filter (\<lambda>e. fst e = k) es)"

definition open_bar :: "string \<Rightarrow> aggregator \<Rightarrow> candle list" where
  "open_bar k a = (case flush_open_buckets a k of None \<Rightarrow> [] | Some c \<Rightarrow> [c])"

text \<open>What the state of one instrument stands for: the ticks of its open bucket.\<close>

definition open_ticks :: "string \<Rightarrow> tick list \<Rightarrow> aggregator \<Rightarrow> bool" where
  "open_ticks k F a \<longleftrightarrow>
     (if F = [] then ag_buckets a k = None \<and> ag_last_ltt_ms a k = None
      else \<exists>b. ag_buckets a k = Some b \<and> to_candle b = bar_of (bk_minute b) F
             \<and> (\<forall>t \<in> set F. tick_minute t = bk_minute b) \<and> ag_last_ltt_ms a k = Some (tk_ltt_ms (last F)))"

lemma ingest_cases:
  assumes "ingest t a = (Inr c, a')" "open_ticks (tk_key t) F a"
  obtains (dropped) "c = None" "open_ticks (tk_key t) F a'" "F \<noteq> []" "tk_ltt_ms t \<le> tk_ltt_ms (last F)"
    | (first) "c = None" "F = []" "open_ticks (tk_key t) [t] a'"
    | (same) "c = None" "F \<noteq> []" "tk_ltt_ms (last F) < tk_ltt_ms t" "open_ticks (tk_key t) (F @ [t]) a'"
    | (fresh) m where "F \<noteq> []" "c = Some (bar_of m F)" "\<forall>x \<in> set F. tick_minute x = m"
        "tk_ltt_ms (last F) < tk_ltt_ms t" "m < tick_minute t" "open_ticks (tk_key t) [t] a'"
proof (cases "F = []")
  case True
  with assms have s: "ag_buckets a (tk_key t) = None" "ag_last_ltt_ms a (tk_key t) = None" by (simp_all add: open_ticks_def)
  with assms(1) have c: "c = None" and "open_ticks (tk_key t) [t] a'"
    by (auto simp: ingest_def Let_def open_ticks_def bar_of_single tick_minute_def fresh_bucket_def
        dest!: from_milliseconds_int split: sum.splits) (simp_all add: to_candle_def bar_of_def)
  then show ?thesis using True by (intro first)
next
  case F: False
  with assms(2) obtain b where b: "ag_buckets a (tk_key t) = Some b" "to_candle b = bar_of (bk_minute b) F"
    "\<forall>x \<in> set F. tick_minute x = bk_minute b" "ag_last_ltt_ms a (tk_key t) = Some (tk_ltt_ms (last F))"
    by (auto simp: open_ticks_def)
  show ?thesis
  proof (cases "tk_ltt_ms t \<le> tk_ltt_ms (last F)")
    case True
    with assms(1) b have c: "c = None" and a': "a' = a\<lparr>ag_duplicates_dropped := Suc (ag_duplicates_dropped a)\<rparr>"
      by (auto simp: ingest_def)
    then show ?thesis using F True assms(2) by (intro dropped) (simp_all add: open_ticks_def)
  next
    case False
    then obtain moment where m: "from_milliseconds (of_int (tk_ltt_ms t)) = Inr moment"
      using assms(1) b by (auto simp: ingest_def Let_def split: sum.splits)
    have mm: "minute_start moment = tick_minute t" using from_milliseconds_int [OF m] by (simp add: tick_minute_def)
    have last: "tick_minute (last F) = bk_minute b" using b(3) F by simp
    show ?thesis
    proof (cases "bk_minute b = tick_minute t")
      case True
      have e: "c = None" "ag_buckets a' (tk_key t) = Some (extend_bucket (tk_ltp t) (tk_ltq t) b)"
        "ag_last_ltt_ms a' (tk_key t) = Some (tk_ltt_ms t)"
        using assms(1) b False m mm True by (auto simp: ingest_def Let_def)
      then have "open_ticks (tk_key t) (F @ [t]) a'"
        using bar_of_snoc [OF b(2) F, of t] b(3) True by (auto simp: open_ticks_def extend_bucket_def)
      then show ?thesis using e(1) F False by (intro same) simp_all
    next
      case new: False
      have e: "c = Some (to_candle b)" "ag_buckets a' (tk_key t) = Some (fresh_bucket (tick_minute t) (tk_ltp t) (tk_ltq t))"
        "ag_last_ltt_ms a' (tk_key t) = Some (tk_ltt_ms t)"
        using assms(1) b False m mm new by (auto simp: ingest_def Let_def)
      then have o: "open_ticks (tk_key t) [t] a'"
        using bar_of_single [of "tick_minute t" t] by (simp add: open_ticks_def fresh_bucket_def)
      have "tick_minute (last F) \<le> tick_minute t"
        unfolding tick_minute_def by (rule minute_start_mono) (use False in simp)
      with last new have "bk_minute b < tick_minute t" by simp
      then show ?thesis using e(1) b(2,3) F False o by (intro fresh [of "bk_minute b"]) simp_all
    qed
  qed
qed

lemma ingest_other:
  assumes "ingest t a = (Inr c, a')" "tk_key t \<noteq> k"
  shows "open_ticks k F a' = open_ticks k F a" "flush_open_buckets a' k = flush_open_buckets a k"
  using assms by (auto simp: ingest_def Let_def open_ticks_def flush_open_buckets_def split: if_splits sum.splits option.splits)

definition last_tick :: "tick list \<Rightarrow> int option" where
  "last_tick F = (if F = [] then None else Some (tk_ltt_ms (last F)))"

lemma candles_of_simps:
  "candles_of k [] = []" "candles_of k (e # es) = (if fst e = k then snd e # candles_of k es else candles_of k es)"
  by (simp_all add: candles_of_def)

lemma ingest_all_bars:
  assumes "ingest_all ts a = (Inr es, a')" "open_ticks k F a"
  shows "candles_of k es @ open_bar k a' = minute_bars (F @ accepted (last_tick F) (filter (\<lambda>t. tk_key t = k) ts))"
  using assms
proof (induction ts arbitrary: a F es)
  case Nil
  show ?case
  proof (cases "F = []")
    case True
    with Nil show ?thesis by (simp add: candles_of_simps open_bar_def flush_open_buckets_def open_ticks_def minute_bars_def)
  next
    case False
    with Nil obtain b where b: "ag_buckets a' k = Some b" "to_candle b = bar_of (bk_minute b) F"
      "\<forall>t \<in> set F. tick_minute t = bk_minute b" by (auto simp: open_ticks_def)
    with minute_bars_same [OF False b(3)] Nil show ?thesis
      by (simp add: candles_of_simps open_bar_def flush_open_buckets_def)
  qed
next
  case (Cons t ts)
  from Cons.prems(1) obtain c a1 es1 where s: "ingest t a = (Inr c, a1)" "ingest_all ts a1 = (Inr es1, a')"
    "es = (case c of None \<Rightarrow> es1 | Some x \<Rightarrow> (tk_key t, x) # es1)"
    by (auto split: prod.splits sum.splits)
  show ?case
  proof (cases "tk_key t = k")
    case False
    then have "candles_of k es = candles_of k es1" using s(3) by (cases c) (simp_all add: candles_of_simps)
    with Cons.IH [OF s(2)] ingest_other [OF s(1) False] Cons.prems(2) False show ?thesis by simp
  next
    case True
    have F: "open_ticks (tk_key t) F a" using Cons.prems(2) True by simp
    from s(1) F show ?thesis
    proof (cases rule: ingest_cases)
      case dropped
      with Cons.IH [OF s(2) dropped(2) [unfolded True]] s(3) True show ?thesis by (simp add: last_tick_def)
    next
      case first
      with Cons.IH [OF s(2) first(3) [unfolded True]] s(3) True show ?thesis by (simp add: last_tick_def)
    next
      case same
      with Cons.IH [OF s(2) same(4) [unfolded True]] s(3) True show ?thesis by (simp add: last_tick_def)
    next
      case (fresh m)
      let ?G = "t # accepted (Some (tk_ltt_ms t)) (filter (\<lambda>x. tk_key x = k) ts)"
      have "tick_minute x \<noteq> m" if "x \<in> set ?G" for x
      proof -
        have "tk_ltt_ms t \<le> tk_ltt_ms x" using that accepted_later by fastforce
        then have "tick_minute t \<le> tick_minute x" unfolding tick_minute_def by (intro minute_start_mono) simp
        with fresh(5) show ?thesis by simp
      qed
      then have "minute_bars (F @ ?G) = bar_of m F # minute_bars ?G"
        by (intro minute_bars_next fresh) auto
      with Cons.IH [OF s(2) fresh(6) [unfolded True]] s(3) fresh True show ?thesis
        by (simp add: last_tick_def candles_of_simps)
    qed
  qed
qed

text \<open>An instrument without an open bucket never completed a bar.\<close>

lemma ingest_bucket: "ingest t a = (Inr c, a') \<Longrightarrow> ag_buckets a' k = None \<Longrightarrow> ag_buckets a k = None \<and> (tk_key t = k \<longrightarrow> c = None)"
  by (auto simp: ingest_def Let_def split: if_splits sum.splits option.splits)

lemma ingest_all_buckets: "ingest_all ts a = (Inr es, a') \<Longrightarrow> ag_buckets a' k = None \<Longrightarrow> ag_buckets a k = None"
proof (induction ts arbitrary: a es)
  case (Cons t ts)
  from Cons.prems(1) obtain c a1 es1 where "ingest t a = (Inr c, a1)" "ingest_all ts a1 = (Inr es1, a')"
    by (auto split: prod.splits sum.splits)
  with Cons.IH [of a1 es1] Cons.prems(2) ingest_bucket [of t a c a1 k] show ?case by simp
qed simp

lemma ingest_all_closed: "ingest_all ts a = (Inr es, a') \<Longrightarrow> ag_buckets a' k = None \<Longrightarrow> candles_of k es = []"
proof (induction ts arbitrary: a es)
  case (Cons t ts)
  from Cons.prems(1) obtain c a1 es1 where s: "ingest t a = (Inr c, a1)" "ingest_all ts a1 = (Inr es1, a')"
    "es = (case c of None \<Rightarrow> es1 | Some x \<Rightarrow> (tk_key t, x) # es1)"
    by (auto split: prod.splits sum.splits)
  have "ag_buckets a1 k = None" using ingest_all_buckets [OF s(2) Cons.prems(2)] .
  with ingest_bucket [OF s(1)] Cons.IH [OF s(2) Cons.prems(2)] s(3) show ?case
    by (cases c) (auto simp: candles_of_simps)
qed (simp add: candles_of_simps)

lemma remdups_adj_sorted_distinct: "sorted xs \<Longrightarrow> distinct (remdups_adj (xs :: int list))"
  by (induction xs rule: remdups_adj.induct) (auto simp: less_le)

lemma accepted_sorted: "sorted (map tk_ltt_ms (accepted l ts))"
proof (induction l ts rule: accepted.induct)
  case (2 l t ts)
  have "tk_ltt_ms t \<le> tk_ltt_ms x" if "x \<in> set (accepted (Some (tk_ltt_ms t)) ts)" for x
    using accepted_later [OF that] by simp
  with 2 show ?case by auto
qed simp

lemma minute_bars_distinct: "distinct (map cn_timestamp (minute_bars (accepted l ts)))"
proof -
  have "sorted (map tick_minute (accepted l ts))"
    using accepted_sorted [of l ts] minute_start_mono by (auto simp: sorted_map tick_minute_def elim!: sorted_wrt_mono_rel [rotated])
  then show ?thesis by (simp add: minute_bars_def bar_of_def o_def remdups_adj_sorted_distinct)
qed

text \<open>The completed bars are all but the last one: the bar of the newest minute is still open.\<close>

lemma completed_bars:
  assumes "ingest_all ts new_aggregator = (Inr es, a)"
  shows "candles_of k es = butlast (minute_bars (accepted None (filter (\<lambda>t. tk_key t = k) ts)))"
proof -
  let ?acc = "accepted None (filter (\<lambda>t. tk_key t = k) ts)"
  have "open_ticks k [] new_aggregator" by (simp add: open_ticks_def new_aggregator_def)
  note bars = ingest_all_bars [OF assms this]
  from bars have e: "candles_of k es @ open_bar k a = minute_bars ?acc" by (simp add: last_tick_def)
  show ?thesis
  proof (cases "open_bar k a")
    case Nil
    then have "ag_buckets a k = None" by (auto simp: open_bar_def flush_open_buckets_def split: option.splits)
    with ingest_all_closed [OF assms] have "candles_of k es = []" by (simp add: new_aggregator_def)
    with e Nil show ?thesis by simp
  next
    case (Cons c cs)
    then have "open_bar k a = [c]" by (auto simp: open_bar_def split: option.splits)
    with e have "minute_bars ?acc = candles_of k es @ [c]" by simp
    then show ?thesis by (metis butlast_snoc)
  qed
qed

lemma ingest_counts:
  "ingest t a = (Inr c, a') \<Longrightarrow>
    ag_ticks_processed a' + ag_duplicates_dropped a' = Suc (ag_ticks_processed a + ag_duplicates_dropped a)"
  by (auto simp: ingest_def Let_def split: if_splits sum.splits prod.splits option.splits)

lemma ingest_all_counts:
  "ingest_all ts a = (Inr es, a') \<Longrightarrow>
    ag_ticks_processed a' + ag_duplicates_dropped a' = ag_ticks_processed a + ag_duplicates_dropped a + length ts"
  by (induction ts a arbitrary: es rule: ingest_all.induct) (auto split: prod.splits sum.splits dest!: ingest_counts)

text \<open>The aggregator builds the minute bars of the accepted ticks. Whatever the interleaving of the instruments, the
  candles it emitted for one of them, followed by the bar still open, are the bars obtained by keeping the ticks
  that are newer than every earlier one of the instrument and taking, minute by minute, the first, highest, lowest and last price and
  the total quantity; every tick is counted as processed or as dropped.\<close>

theorem aggregator_builds_minute_bars:
  assumes "ingest_all ts new_aggregator = (Inr es, a)"
  shows "candles_of k es @ open_bar k a = minute_bars (accepted None (filter (\<lambda>t. tk_key t = k) ts))
    \<and> ag_ticks_processed a + ag_duplicates_dropped a = length ts"
proof
  have "open_ticks k [] new_aggregator" by (simp add: open_ticks_def new_aggregator_def)
  from ingest_all_bars [OF assms this] show "candles_of k es @ open_bar k a = minute_bars (accepted None (filter (\<lambda>t. tk_key t = k) ts))"
    by (simp add: last_tick_def)
  show "ag_ticks_processed a + ag_duplicates_dropped a = length ts"
    using ingest_all_counts [OF assms] by (simp add: new_aggregator_def)
qed

definition sample_ticks :: "tick list" where
  "sample_ticks =
     [\<lparr>tk_key = ''A'', tk_ltp = 100, tk_ltt_ms = 1000, tk_ltq = 5\<rparr>, \<lparr>tk_key = ''B'', tk_ltp = 7, tk_ltt_ms = 2000, tk_ltq = 1\<rparr>,
      \<lparr>tk_key = ''A'', tk_ltp = 102, tk_ltt_ms = 1000, tk_ltq = 9\<rparr>, \<lparr>tk_key = ''A'', tk_ltp = 99, tk_ltt_ms = 59000, tk_ltq = 2\<rparr>,
      \<lparr>tk_key = ''A'', tk_ltp = 101, tk_ltt_ms = 60000, tk_ltq = 3\<rparr>]"

theorem aggregator_builds_minute_bars_witness:
  "\<exists>es a. ingest_all sample_ticks new_aggregator = (Inr es, a)
     \<and> map cn_volume (candles_of ''A'' es @ open_bar ''A'' a) = [7, 3]
     \<and> ag_ticks_processed a + ag_duplicates_dropped a = 5"
proof -
  have "isl (fst (ingest_all sample_ticks new_aggregator)) = False" by code_simp
  then obtain es a where e: "ingest_all sample_ticks new_aggregator = (Inr es, a)"
    by (cases "ingest_all sample_ticks new_aggregator"; cases "fst (ingest_all sample_ticks new_aggregator)") auto
  have "map cn_volume (minute_bars (accepted None (filter (\<lambda>t. tk_key t = ''A'') sample_ticks))) = [7, 3]" by code_simp
  moreover have "length sample_ticks = 5" by (simp add: sample_ticks_def)
  ultimately have "map cn_volume (candles_of ''A'' es @ open_bar ''A'' a) = [7, 3]"
    "ag_ticks_processed a + ag_duplicates_dropped a = 5"
    using aggregator_builds_minute_bars [OF e, of "''A''"] by metis+
  with e show ?thesis by (intro exI conjI)
qed

end
