(* ===== verification/Market_Feed.thy ===== *)
theory Market_Feed
  imports Data_Collection Event_Pipeline Tick_Aggregator Catalyst
begin

text \<open>
  Live ingestion: app/providers/upstox_websocket.py and app/data/ingestion_worker.py. A session authorizes,
  subscribes in batches, backfills over REST, then turns frames into minute bars, which it stores at flush
  points and announces on the event stream. The protobuf decoder, Redis, the HTTP answers and what
  arrives on the socket are arguments.
\<close>

section \<open>Settings and state\<close>

record feed_settings =
  upstox_ws_mode :: string
  upstox_ws_reconnect_backoff_seconds :: rat
  upstox_ws_reconnect_max_backoff_seconds :: rat
  upstox_ws_subscribe_batch_size :: int

definition default_feed_settings :: feed_settings where
  "default_feed_settings = \<lparr>upstox_ws_mode = ''ltpc'', upstox_ws_reconnect_backoff_seconds = 2,
     upstox_ws_reconnect_max_backoff_seconds = 60, upstox_ws_subscribe_batch_size = 5000\<rparr>"

record ltpc =
  lt_ltp :: rat
  lt_ltt :: int
  lt_ltq :: int

text \<open>The feeds of a decoded frame; \<open>None\<close> stands for a message that is not in the \<open>ltpc\<close> branch of the union.\<close>

type_synonym feeds = "(string \<times> ltpc option) list"

datatype frame = Text_Frame string | Binary_Frame string

record ('r, 's) feed =
  fd_aggregator :: aggregator
  fd_pending :: "(string \<times> candle list) list"
  fd_symbols :: "symbol_row list"
  fd_flushed :: nat
  fd_tables :: 's
  fd_redis :: 'r

definition new_feed :: "'s \<Rightarrow> 'r \<Rightarrow> ('r, 's) feed" where
  "new_feed s r = \<lparr>fd_aggregator = new_aggregator, fd_pending = [], fd_symbols = [], fd_flushed = 0, fd_tables = s, fd_redis = r\<rparr>"

section \<open>Messages\<close>

text \<open>\<open>setdefault(key, []).append(candle)\<close>\<close>

fun add_pending :: "string \<Rightarrow> candle \<Rightarrow> (string \<times> candle list) list \<Rightarrow> (string \<times> candle list) list" where
  "add_pending k c [] = [(k, [c])]"
| "add_pending k c ((j, cs) # rest) = (if j = k then (j, cs @ [c]) # rest else (j, cs) # add_pending k c rest)"

definition tick_of :: "string \<Rightarrow> ltpc \<Rightarrow> tick" where
  "tick_of k l = \<lparr>tk_key = k, tk_ltp = lt_ltp l, tk_ltt_ms = lt_ltt l, tk_ltq = lt_ltq l\<rparr>"

fun ingest_feeds :: "feeds \<Rightarrow> ('r, 's) feed \<Rightarrow> (py_error + unit) \<times> ('r, 's) feed" where
  "ingest_feeds [] fd = (Inr (), fd)"
| "ingest_feeds ((k, None) # rest) fd = ingest_feeds rest fd"
| "ingest_feeds ((k, Some l) # rest) fd =
     (case ingest (tick_of k l) (fd_aggregator fd) of
        (Inl e, a) \<Rightarrow> (Inl e, fd\<lparr>fd_aggregator := a\<rparr>)
      | (Inr c, a) \<Rightarrow>
          ingest_feeds rest (fd\<lparr>fd_aggregator := a,
            fd_pending := (case c of None \<Rightarrow> fd_pending fd | Some b \<Rightarrow> add_pending k b (fd_pending fd))\<rparr>))"

definition handle_message :: "(string \<Rightarrow> feeds option) \<Rightarrow> frame \<Rightarrow> ('r, 's) feed \<Rightarrow> (py_error + unit) \<times> ('r, 's) feed" where
  "handle_message decode raw fd =
     (case raw of
        Text_Frame _ \<Rightarrow> (Inr (), fd)
      | Binary_Frame bytes \<Rightarrow> (case decode bytes of None \<Rightarrow> (Inr (), fd) | Some fs \<Rightarrow> ingest_feeds fs fd))"

section \<open>Flush\<close>

definition symbol_by_key :: "symbol_row list \<Rightarrow> string \<rightharpoonup> symbol_row" where
  "symbol_by_key syms = map_of (rev (map (\<lambda>y. (sy_instrument_token y, y)) syms))"

definition raw_bar :: "candle \<Rightarrow> raw_candle" where
  "raw_bar c = \<lparr>rc_timestamp = cn_timestamp c, rc_open = Some (Num (cn_open c)), rc_high = Some (Num (cn_high c)),
     rc_low = Some (Num (cn_low c)), rc_close = Some (Num (cn_close c)), rc_volume = Some (Num (of_int (cn_volume c))),
     rc_vwap = map_option Num (cn_vwap c)\<rparr>"

definition flush_entry ::
  "symbol_row list \<Rightarrow> string \<times> candle list \<Rightarrow> nat \<times> 'x market_store_scheme \<Rightarrow> nat \<times> 'x market_store_scheme" where
  "flush_entry syms e p =
     (case (e, p) of ((k, candles), (written, s)) \<Rightarrow>
        (case symbol_by_key syms k of
           None \<Rightarrow> (written, s)
         | Some y \<Rightarrow>
             (let clean = validate_candles (sy_symbol y) (map raw_bar candles)
              in (written + length clean, snd (upsert_intraday_many (sy_id y) clean s)))))"

text \<open>\<open>committed\<close> says whether the transaction succeeds. The pending bars are swapped out first.\<close>

definition flush_feed ::
  "'r redis_ops \<Rightarrow> bool \<Rightarrow> int \<Rightarrow> ('r, 'x market_store_scheme) feed \<Rightarrow> (py_error + unit) \<times> ('r, 'x market_store_scheme) feed" where
  "flush_feed ops committed now fd =
     (if fd_pending fd = [] then (Inr (), fd)
      else
        let pending = fd_pending fd;
            fd0 = fd\<lparr>fd_pending := []\<rparr>;
            (written, s) = fold (flush_entry (fd_symbols fd)) pending (0, fd_tables fd)
        in if \<not> committed then (Inl (OtherError ''database''), fd0)
           else if written = 0 then (Inr (), fd0\<lparr>fd_tables := s\<rparr>)
           else
             let (out, r) = publish_event ops \<lparr>pe_source = ''intraday_ws'', pe_symbol_count = int (length pending), pe_as_of = now\<rparr>
                   (fd_redis fd)
             in (out, fd0\<lparr>fd_tables := s, fd_flushed := fd_flushed fd + written, fd_redis := r\<rparr>))"

section \<open>A session\<close>

definition authorize :: "http_answer \<Rightarrow> py_error + string" where
  "authorize answer =
     (case answer of
        Unreachable \<Rightarrow> Inl (ProviderError ''Upstox market feed authorize failed'')
      | Answer status body \<Rightarrow>
          (if status = 401 then Inl (ProviderError ''Upstox market feed authorize rejected (expired or invalid token)'')
           else if status \<noteq> 200 then Inl (ProviderError (''Upstox market feed authorize failed: HTTP '' @ str_nat status))
           else case body of
                  None \<Rightarrow> Inl (ProviderError ''Upstox market feed authorize returned invalid JSON'')
                | Some b \<Rightarrow>
                    (let data = (case b of PyDict d \<Rightarrow> field_of d ''data'' | _ \<Rightarrow> PyNone);
                         url = (case data of PyDict d \<Rightarrow> field_of d ''authorized_redirect_uri'' | _ \<Rightarrow> PyNone)
                     in case url of
                          PyStr u \<Rightarrow> if u = [] then Inl (ProviderError ''Upstox market feed authorize response missing authorized_redirect_uri'')
                                     else Inr u
                        | _ \<Rightarrow> Inl (ProviderError ''Upstox market feed authorize response missing authorized_redirect_uri''))))"

text \<open>The \<open>instrumentKeys\<close> of the \<open>sub\<close> messages: \<open>range(0, n, size)\<close> raises for a step of 0 and is empty for a
  negative one.\<close>

definition subscribe_batches :: "int \<Rightarrow> 'a list \<Rightarrow> py_error + 'a list list" where
  "subscribe_batches batch keys =
     (if batch = 0 then Inl ValueError
      else if batch < 0 then Inr []
      else (let n = nat batch in
            Inr (map (\<lambda>i. take n (drop (i * n) keys)) [0..<(length keys + n - 1) div n])))"

datatype connection_loss = Closed string | Os_Error string

definition loss_text :: "connection_loss \<Rightarrow> string" where
  "loss_text l = (case l of Closed e \<Rightarrow> ''connection closed: '' @ e | Os_Error e \<Rightarrow> ''connection error: '' @ e)"

text \<open>What \<open>recv\<close> brings: a frame (with whether the flush interval has passed, whether that flush commits, and its
  time), nothing within the stale threshold, or the loss of the connection.\<close>

datatype reception = Received frame bool bool int | Silence | Lost connection_loss

text \<open>The receive loop; the list ends when \<open>stop()\<close> is seen. It returns the reason and the messages received.\<close>

fun receive_loop ::
  "(string \<Rightarrow> feeds option) \<Rightarrow> 'r redis_ops \<Rightarrow> reception list \<Rightarrow> nat \<Rightarrow> ('r, 'x market_store_scheme) feed
     \<Rightarrow> (py_error + string) \<times> nat \<times> ('r, 'x market_store_scheme) feed" where
  "receive_loop decode ops [] n fd = (Inr ''graceful shutdown'', n, fd)"
| "receive_loop decode ops (Silence # _) n fd = (Inr ''stale connection (no messages received)'', n, fd)"
| "receive_loop decode ops (Lost l # _) n fd = (Inr (loss_text l), n, fd)"
| "receive_loop decode ops (Received raw due committed now # rest) n fd =
     (case handle_message decode raw fd of
        (Inl e, fd1) \<Rightarrow> (Inl e, Suc n, fd1)
      | (Inr _, fd1) \<Rightarrow>
          (case (if due then flush_feed ops committed now fd1 else (Inr (), fd1)) of
             (Inl e, fd2) \<Rightarrow> (Inl e, Suc n, fd2)
           | (Inr _, fd2) \<Rightarrow> receive_loop decode ops rest (Suc n) fd2))"

record session_io =
  si_answer :: http_answer
  si_connected_at :: int
  si_opening :: "connection_loss option"
  si_backfill :: "(market_provider \<times> int \<times> int) option"
  si_backfill_at :: int
  si_receptions :: "reception list"
  si_final_commit :: bool
  si_closed_at :: int

text \<open>The backfill: \<open>None\<close> is a call cut off by the timeout, which leaves the tables as \<open>cut_off\<close> says.\<close>

definition gap_fill ::
  "settings \<Rightarrow> 'r redis_ops \<Rightarrow> ('x market_store_scheme \<Rightarrow> 'x market_store_scheme) \<Rightarrow> session_io
     \<Rightarrow> ('r, 'x market_store_scheme) feed \<Rightarrow> (py_error + unit) \<times> ('r, 'x market_store_scheme) feed" where
  "gap_fill cfg ops cut_off io fd =
     (case si_backfill io of
        None \<Rightarrow> (Inr (), fd\<lparr>fd_tables := cut_off (fd_tables fd)\<rparr>)
      | Some (p, t, t') \<Rightarrow>
          (let (result, s) = collect_intraday cfg p t t' (Some (fd_symbols fd)) (fd_tables fd)
           in if cr_success_count result = 0 then (Inr (), fd\<lparr>fd_tables := s\<rparr>)
              else let (out, r) = publish_event ops \<lparr>pe_source = ''intraday'', pe_symbol_count = int (cr_success_count result),
                         pe_as_of = si_backfill_at io\<rparr> (fd_redis fd)
                   in (out, fd\<lparr>fd_tables := s, fd_redis := r\<rparr>)))"

definition stream_body ::
  "(string \<Rightarrow> feeds option) \<Rightarrow> 'r redis_ops \<Rightarrow> ('x market_store_scheme \<Rightarrow> 'x market_store_scheme) \<Rightarrow> settings
     \<Rightarrow> feed_settings \<Rightarrow> session_io \<Rightarrow> ('r, 'x market_store_scheme) feed
     \<Rightarrow> (py_error + string) \<times> nat \<times> ('r, 'x market_store_scheme) feed" where
  "stream_body decode ops cut_off cfg fs io fd =
     (case si_opening io of
        Some l \<Rightarrow> (Inr (loss_text l), 0, fd)
      | None \<Rightarrow>
          (case subscribe_batches (upstox_ws_subscribe_batch_size fs) (map sy_instrument_token (fd_symbols fd)) of
             Inl e \<Rightarrow> (Inl e, 0, fd)
           | Inr _ \<Rightarrow>
               (case gap_fill cfg ops cut_off io fd of
                  (Inl e, fd1) \<Rightarrow> (Inl e, 0, fd1)
                | (Inr _, fd1) \<Rightarrow> receive_loop decode ops (si_receptions io) 0 fd1)))"

text \<open>The \<open>finally\<close> block flushes, then closes the feed log; an error of the flush skips the second.\<close>

definition finish_stream ::
  "'r redis_ops \<Rightarrow> session_io \<Rightarrow> int \<Rightarrow> (py_error + string) \<times> nat \<times> ('r, 'x market_store_scheme) feed
     \<Rightarrow> (py_error + unit) \<times> ('r, 'x market_store_scheme) feed" where
  "finish_stream ops io log_id q =
     (case q of (outcome, n, fd) \<Rightarrow>
        (case flush_feed ops (si_final_commit io) (si_closed_at io) fd of
           (Inl e, fd1) \<Rightarrow> (Inl e, fd1)
         | (Inr _, fd1) \<Rightarrow>
             ((case outcome of Inl e \<Rightarrow> Inl e | Inr _ \<Rightarrow> Inr ()),
              fd1\<lparr>fd_tables := feed_close log_id (si_closed_at io) n (ag_ticks_processed (fd_aggregator fd1))
                    (ag_duplicates_dropped (fd_aggregator fd1)) (fd_flushed fd1)
                    (case outcome of Inl _ \<Rightarrow> None | Inr why \<Rightarrow> Some why) (fd_tables fd1)\<rparr>)))"

definition connect_and_stream ::
  "(string \<Rightarrow> feeds option) \<Rightarrow> 'r redis_ops \<Rightarrow> ('x market_store_scheme \<Rightarrow> 'x market_store_scheme) \<Rightarrow> settings
     \<Rightarrow> feed_settings \<Rightarrow> session_io \<Rightarrow> ('r, 'x market_store_scheme) feed
     \<Rightarrow> (py_error + unit) \<times> ('r, 'x market_store_scheme) feed" where
  "connect_and_stream decode ops cut_off cfg fs io fd =
     (let syms = list_active (fd_tables fd)
      in if syms = [] then (Inr (), fd)
         else
           let fd0 = fd\<lparr>fd_symbols := syms\<rparr>
           in case authorize (si_answer io) of
                Inl e \<Rightarrow> (Inl e, fd0)
              | Inr _ \<Rightarrow>
                  (let (log_id, s) = feed_open (si_connected_at io) (fd_tables fd0)
                   in finish_stream ops io log_id (stream_body decode ops cut_off cfg fs io (fd0\<lparr>fd_tables := s\<rparr>))))"

text \<open>\<open>run_forever\<close>: a session per entry, with the pause after it. The pause after a session without symbols comes on
  top of the one \<open>_connect_and_stream\<close> makes itself.\<close>

fun feed_run ::
  "(session_io \<Rightarrow> ('r, 's) feed \<Rightarrow> (py_error + unit) \<times> ('r, 's) feed) \<Rightarrow> feed_settings \<Rightarrow> rat \<Rightarrow> session_io list
     \<Rightarrow> ('r, 's) feed \<Rightarrow> rat list \<times> ('r, 's) feed" where
  "feed_run session fs backoff [] fd = ([], fd)"
| "feed_run session fs backoff (io # ios) fd =
     (let (out, fd1) = session io fd;
          pause = (case out of Inr _ \<Rightarrow> upstox_ws_reconnect_backoff_seconds fs | Inl _ \<Rightarrow> backoff);
          (pauses, fd2) = feed_run session fs (min (pause * 2) (upstox_ws_reconnect_max_backoff_seconds fs)) ios fd1
      in (pause # pauses, fd2))"

section \<open>The REST ingestion loop\<close>

text \<open>One pass of the worker: nothing while the market is closed; otherwise an event when a symbol succeeded. The pass
  started at \<open>t\<close> and its work ended at \<open>ended\<close> (both in seconds); the result is the pause before the next one.\<close>

definition ingestion_pass ::
  "settings \<Rightarrow> 'r redis_ops \<Rightarrow> rat \<Rightarrow> rat \<Rightarrow> bool \<Rightarrow> market_provider \<times> int \<times> int \<Rightarrow> int \<Rightarrow> rat \<Rightarrow> rat
     \<Rightarrow> 'x market_store_scheme \<times> 'r \<Rightarrow> rat \<times> 'x market_store_scheme \<times> 'r" where
  "ingestion_pass cfg ops min_interval closed_poll open_now call now started ended w =
     (case w of (s, r) \<Rightarrow>
        if \<not> open_now then (closed_poll, s, r)
        else
          case call of (p, t, t') \<Rightarrow>
            (let (result, s') = collect_intraday cfg p t t' None s;
                 r' = (if cr_success_count result = 0 then r
                       else snd (publish_event ops \<lparr>pe_source = ''intraday'', pe_symbol_count = int (cr_success_count result), pe_as_of = now\<rparr> r));
                 remaining = min_interval - (ended - started)
             in (max 0 remaining, s', r')))"

section \<open>Every instrument is subscribed\<close>

lemma concat_chunks: "0 < n \<Longrightarrow> concat (map (\<lambda>i. take n (drop (i * n) xs)) [0..<m]) = take (m * n) xs"
proof (induction m)
  case (Suc m)
  then show ?case by (simp add: take_add add.commute [of n])
qed simp

lemma subscribe_batchesD:
  assumes "0 < k" "subscribe_batches k xs = Inr bs"
  shows "concat bs = xs" "\<forall>b \<in> set bs. length b \<le> nat k" "length bs = (length xs + nat k - 1) div nat k"
proof -
  let ?n = "nat k" and ?m = "(length xs + nat k - 1) div nat k"
  have n: "0 < ?n" using assms(1) by simp
  have bs: "bs = map (\<lambda>i. take ?n (drop (i * ?n) xs)) [0..<?m]" using assms by (simp add: subscribe_batches_def Let_def)
  have "length xs \<le> ?m * ?n"
  proof -
    have "length xs + ?n - 1 = ?m * ?n + (length xs + ?n - 1) mod ?n" by simp
    moreover have "(length xs + ?n - 1) mod ?n < ?n" using n by simp
    ultimately show ?thesis using n by linarith
  qed
  then show "concat bs = xs" unfolding bs concat_chunks [OF n] by simp
  show "\<forall>b \<in> set bs. length b \<le> ?n" "length bs = ?m" unfolding bs by auto
qed

text \<open>The subscription reaches every instrument exactly once, in order, in messages of at most the batch size (5000 by
  default: a larger one is silently dropped by the server), and no message is empty.\<close>

theorem subscription_covers_symbols:
  assumes "0 < upstox_ws_subscribe_batch_size fs"
  shows "\<exists>bs. subscribe_batches (upstox_ws_subscribe_batch_size fs) keys = Inr bs \<and> concat bs = keys
     \<and> (\<forall>b \<in> set bs. b \<noteq> [] \<and> int (length b) \<le> upstox_ws_subscribe_batch_size fs)"
proof -
  let ?k = "upstox_ws_subscribe_batch_size fs"
  obtain bs where bs: "subscribe_batches ?k keys = Inr bs"
    using assms by (simp add: subscribe_batches_def Let_def)
  note d = subscribe_batchesD [OF assms bs]
  have "b \<noteq> []" if mem: "b \<in> set bs" for b
  proof -
    let ?n = "nat ?k"
    obtain i where i: "b = take ?n (drop (i * ?n) keys)" "i < (length keys + ?n - 1) div ?n"
      using mem bs assms by (auto simp: subscribe_batches_def Let_def)
    have n: "0 < ?n" using assms by simp
    have "Suc i * ?n \<le> length keys + ?n - 1" using i(2) n by (metis Suc_leI less_eq_div_iff_mult_less_eq)
    then have "i * ?n < length keys" using n by simp
    then show ?thesis using i(1) n by simp
  qed
  moreover have "int (length b) \<le> ?k" if "b \<in> set bs" for b using d(2) that assms by (simp add: le_nat_iff)
  ultimately show ?thesis using bs d(1) by blast
qed

theorem subscription_covers_symbols_witness:
  "0 < upstox_ws_subscribe_batch_size (default_feed_settings\<lparr>upstox_ws_subscribe_batch_size := 2\<rparr>)
   \<and> (\<exists>bs. subscribe_batches (upstox_ws_subscribe_batch_size (default_feed_settings\<lparr>upstox_ws_subscribe_batch_size := 2\<rparr>)) [''A'', ''B'', ''C''] = Inr bs
        \<and> concat bs = [''A'', ''B'', ''C''])"
proof -
  have p: "0 < upstox_ws_subscribe_batch_size (default_feed_settings\<lparr>upstox_ws_subscribe_batch_size := 2\<rparr>)" by simp
  from subscription_covers_symbols [OF p, of "[''A'', ''B'', ''C'']"] p show ?thesis by blast
qed

section \<open>Reconnect pauses\<close>

text \<open>The pauses between sessions never leave the interval from the first backoff to the maximum, are the first backoff
  after every session that ended without an error, and grow as the minimum of the maximum and the doubled
  values while sessions keep failing: a run of failures is never retried faster than before.\<close>

lemma feed_run_pauses:
  assumes "0 < upstox_ws_reconnect_backoff_seconds fs" "upstox_ws_reconnect_backoff_seconds fs \<le> upstox_ws_reconnect_max_backoff_seconds fs"
    and "upstox_ws_reconnect_backoff_seconds fs \<le> b" "b \<le> upstox_ws_reconnect_max_backoff_seconds fs"
  shows "\<forall>p \<in> set (fst (feed_run session fs b ios fd)). upstox_ws_reconnect_backoff_seconds fs \<le> p \<and> p \<le> upstox_ws_reconnect_max_backoff_seconds fs"
  using assms(3,4)
proof (induction ios arbitrary: b fd)
  case (Cons io ios)
  let ?lo = "upstox_ws_reconnect_backoff_seconds fs" and ?hi = "upstox_ws_reconnect_max_backoff_seconds fs"
  obtain out fd1 where s: "session io fd = (out, fd1)" by fastforce
  define p where "p = (case out of Inr _ \<Rightarrow> ?lo | Inl _ \<Rightarrow> b)"
  have p: "?lo \<le> p" "p \<le> ?hi" using Cons.prems assms(2) by (auto simp: p_def split: sum.split)
  have "?lo \<le> min (p * 2) ?hi" "min (p * 2) ?hi \<le> ?hi" using p assms by simp_all
  from Cons.IH [OF this, of fd1] p show ?case
    by (simp add: s p_def [symmetric] split_beta)
qed simp

lemma feed_run_failing:
  assumes "\<And>io fd. isl (fst (session io fd))" "0 < upstox_ws_reconnect_max_backoff_seconds fs" "0 < b" "b \<le> upstox_ws_reconnect_max_backoff_seconds fs"
    "i < length ios"
  shows "fst (feed_run session fs b ios fd) ! i = min (b * 2 ^ i) (upstox_ws_reconnect_max_backoff_seconds fs)"
  using assms(3-5)
proof (induction ios arbitrary: b fd i)
  case (Cons io ios)
  let ?hi = "upstox_ws_reconnect_max_backoff_seconds fs"
  obtain e fd1 where s: "session io fd = (Inl e, fd1)"
    using assms(1) [of io fd] by (cases "session io fd") (auto simp: isl_def)
  show ?case
  proof (cases i)
    case 0
    with s Cons.prems show ?thesis by (simp add: split_beta)
  next
    case (Suc j)
    have "fst (feed_run session fs (min (b * 2) ?hi) ios fd1) ! j = min (min (b * 2) ?hi * 2 ^ j) ?hi"
      using Cons.prems assms(2) Suc by (intro Cons.IH) (simp_all add: min_def)
    also have "min (min (b * 2) ?hi * 2 ^ j) ?hi = min (b * 2 ^ i) ?hi"
    proof (cases "b * 2 \<le> ?hi")
      case True
      then show ?thesis by (simp add: Suc mult.assoc)
    next
      case False
      have one: "(1::rat) \<le> 2 ^ j" by simp
      have "?hi * 1 \<le> ?hi * 2 ^ j" using one assms(2) by (intro mult_left_mono) simp_all
      moreover have "b * 2 * 1 \<le> b * 2 * 2 ^ j" using one Cons.prems(1) by (intro mult_left_mono) simp_all
      ultimately show ?thesis using False by (simp add: Suc mult.assoc min_def)
    qed
    finally show ?thesis using s Suc by (simp add: split_beta)
  qed
qed simp

section \<open>A session stores the minute bars\<close>

definition feed_ticks :: "feeds \<Rightarrow> tick list" where
  "feed_ticks fs = concat (map (\<lambda>(k, l). case l of None \<Rightarrow> [] | Some x \<Rightarrow> [tick_of k x]) fs)"

definition frame_ticks :: "(string \<Rightarrow> feeds option) \<Rightarrow> frame \<Rightarrow> tick list" where
  "frame_ticks decode raw =
     (case raw of Text_Frame _ \<Rightarrow> [] | Binary_Frame b \<Rightarrow> (case decode b of None \<Rightarrow> [] | Some fs \<Rightarrow> feed_ticks fs))"

fun received_ticks :: "(string \<Rightarrow> feeds option) \<Rightarrow> reception list \<Rightarrow> tick list" where
  "received_ticks decode (Received raw due committed now # rest) = frame_ticks decode raw @ received_ticks decode rest"
| "received_ticks decode _ = []"

definition pending_of :: "string \<Rightarrow> (string \<times> candle list) list \<Rightarrow> candle list" where
  "pending_of k ps = (case map_of ps k of None \<Rightarrow> [] | Some cs \<Rightarrow> cs)"

lemma add_pending_keys: "fst ` set (add_pending k c ps) = insert k (fst ` set ps)"
  by (induction k c ps rule: add_pending.induct) auto

lemma add_pending_distinct: "distinct (map fst ps) \<Longrightarrow> distinct (map fst (add_pending k c ps))"
  by (induction k c ps rule: add_pending.induct) (auto simp: add_pending_keys)

lemma pending_of_add: "pending_of j (add_pending k c ps) = (if j = k then pending_of k ps @ [c] else pending_of j ps)"
  by (induction k c ps rule: add_pending.induct) (auto simp: pending_of_def split: option.splits)

definition add_all :: "(string \<times> candle) list \<Rightarrow> (string \<times> candle list) list \<Rightarrow> (string \<times> candle list) list" where
  "add_all es ps = fold (\<lambda>(k, c). add_pending k c) es ps"

lemma add_all_distinct: "distinct (map fst ps) \<Longrightarrow> distinct (map fst (add_all es ps))"
  by (induction es arbitrary: ps) (auto simp: add_all_def add_pending_distinct split: prod.splits)

lemma pending_of_add_all: "pending_of j (add_all es ps) = pending_of j ps @ candles_of j es"
proof (induction es arbitrary: ps)
  case (Cons e es)
  from Cons [of "add_pending (fst e) (snd e) ps"] show ?case
    by (simp add: add_all_def candles_of_simps pending_of_add split_beta)
qed (simp add: add_all_def candles_of_simps)

lemma ingest_all_append:
  "ingest_all ts a = (Inr es, a1) \<Longrightarrow> ingest_all us a1 = (Inr fs, a2) \<Longrightarrow> ingest_all (ts @ us) a = (Inr (es @ fs), a2)"
  by (induction ts a arbitrary: es rule: ingest_all.induct) (auto split: prod.splits sum.splits option.splits)

lemma ingest_feeds_ticks:
  assumes "ingest_feeds fs fd = (Inr u, fd')"
  shows "\<exists>es. ingest_all (feed_ticks fs) (fd_aggregator fd) = (Inr es, fd_aggregator fd')
    \<and> fd' = fd\<lparr>fd_aggregator := fd_aggregator fd', fd_pending := add_all es (fd_pending fd)\<rparr>"
  using assms
proof (induction fs fd rule: ingest_feeds.induct)
  case (3 k l rest fd)
  obtain c a where i: "ingest (tick_of k l) (fd_aggregator fd) = (Inr c, a)"
    using "3.prems" by (auto split: prod.splits sum.splits)
  let ?fd = "fd\<lparr>fd_aggregator := a, fd_pending := (case c of None \<Rightarrow> fd_pending fd | Some b \<Rightarrow> add_pending k b (fd_pending fd))\<rparr>"
  have "ingest_feeds rest ?fd = (Inr u, fd')" using "3.prems" i by simp
  from "3.IH" [OF i [symmetric] refl this] obtain es where
    es: "ingest_all (feed_ticks rest) a = (Inr es, fd_aggregator fd')"
    "fd' = ?fd\<lparr>fd_aggregator := fd_aggregator fd', fd_pending := add_all es (fd_pending ?fd)\<rparr>" by auto
  have k: "tk_key (tick_of k l) = k" by (simp add: tick_of_def)
  show ?case
    using i es k by (cases c) (auto simp: feed_ticks_def add_all_def)
qed (simp_all add: feed_ticks_def add_all_def)

lemma handle_message_ticks:
  assumes "handle_message decode raw fd = (Inr u, fd')"
  shows "\<exists>es. ingest_all (frame_ticks decode raw) (fd_aggregator fd) = (Inr es, fd_aggregator fd')
    \<and> fd' = fd\<lparr>fd_aggregator := fd_aggregator fd', fd_pending := add_all es (fd_pending fd)\<rparr>"
proof (cases "\<exists>b fs. raw = Binary_Frame b \<and> decode b = Some fs")
  case True
  then obtain b fs where r: "raw = Binary_Frame b" "decode b = Some fs" by blast
  with assms have "ingest_feeds fs fd = (Inr u, fd')" by (simp add: handle_message_def)
  from ingest_feeds_ticks [OF this] r show ?thesis by (simp add: frame_ticks_def)
next
  case False
  with assms show ?thesis
    by (cases raw) (auto simp: handle_message_def frame_ticks_def add_all_def split: option.splits)
qed

subsection \<open>What a flush writes\<close>

lemma raw_bar_readable: "candle_ok c \<Longrightarrow> validate_candle ctx (raw_bar c) = Inr c"
  by (cases "cn_vwap c") (auto simp: candle_ok_def ohlc_ok_def raw_bar_def validate_candle_def validate_ohlc_def
      validate_price_def validate_non_negative_def Let_def)

lemma readable_raw_bars: "readable ctx (map raw_bar cs) = filter candle_ok cs"
proof (induction cs)
  case (Cons c cs)
  show ?case
  proof (cases "validate_candle ctx (raw_bar c)")
    case (Inl e)
    then have "\<not> candle_ok c" using raw_bar_readable [of c ctx] by auto
    with Inl Cons show ?thesis by simp
  next
    case (Inr k)
    have "k = c"
      using Inr by (auto simp: raw_bar_def validate_candle_def validate_ohlc_def validate_price_def validate_non_negative_def
          Let_def split: if_splits sum.splits option.splits)
    with Inr validate_candle_ok(1) [OF Inr] Cons show ?thesis by simp
  qed
qed simp

lemma keep_first_id: "distinct (map key xs) \<Longrightarrow> keep_first key xs = xs"
  by (induction xs) (auto simp: filter_id_conv image_iff)

lemma validate_raw_bars:
  assumes "distinct (map cn_timestamp cs)"
  shows "validate_candles ctx (map raw_bar cs) = filter candle_ok cs"
  using assms by (simp add: validate_candles_reference readable_raw_bars keep_first_id distinct_map_filter)

definition entry_writes :: "symbol_row list \<Rightarrow> string \<times> candle list \<Rightarrow> (int \<times> candle) list" where
  "entry_writes syms e =
     (case symbol_by_key syms (fst e) of
        None \<Rightarrow> [] | Some y \<Rightarrow> map (Pair (sy_id y)) (validate_candles (sy_symbol y) (map raw_bar (snd e))))"

definition flush_writes :: "symbol_row list \<Rightarrow> (string \<times> candle list) list \<Rightarrow> (int \<times> candle) list" where
  "flush_writes syms ps = concat (map (entry_writes syms) ps)"

lemma flush_fold:
  "snd (fold (flush_entry syms) ps (w, s)) = s\<lparr>intraday_prices := fold put_intraday (flush_writes syms ps) (intraday_prices s)\<rparr>"
proof (induction ps arbitrary: w s)
  case (Cons e ps)
  obtain w' s' where q: "flush_entry syms e (w, s) = (w', s')" by fastforce
  have "snd (flush_entry syms e (w, s)) = s\<lparr>intraday_prices := fold put_intraday (entry_writes syms e) (intraday_prices s)\<rparr>"
    by (cases "symbol_by_key syms (fst e)") (auto simp: flush_entry_def entry_writes_def upsert_intraday_many_def split_beta Let_def)
  with Cons [of w' s'] q show ?case by (simp add: flush_writes_def)
qed (simp add: flush_writes_def)

lemma flush_feed_ok:
  assumes "flush_feed ops committed now fd = (Inr u, fd')"
  shows "fd_pending fd' = [] \<and> fd_symbols fd' = fd_symbols fd \<and> fd_aggregator fd' = fd_aggregator fd
    \<and> fd_tables fd' = (fd_tables fd)\<lparr>intraday_prices :=
       fold put_intraday (flush_writes (fd_symbols fd) (fd_pending fd)) (intraday_prices (fd_tables fd))\<rparr>"
proof (cases "fd_pending fd = []")
  case True
  with assms show ?thesis by (auto simp: flush_feed_def flush_writes_def)
next
  case False
  with assms flush_fold [of "fd_symbols fd" "fd_pending fd" 0 "fd_tables fd"] show ?thesis
    by (auto simp: flush_feed_def Let_def split_beta split: if_splits)
qed

lemma symbol_by_key_iff:
  assumes "distinct (map sy_instrument_token syms)"
  shows "symbol_by_key syms k = Some y \<longleftrightarrow> y \<in> set syms \<and> sy_instrument_token y = k"
proof -
  have "distinct (map fst (rev (map (\<lambda>y. (sy_instrument_token y, y)) syms)))"
    using assms by (simp add: rev_map [symmetric] o_def)
  from map_of_eq_Some_iff [OF this, of k y] show ?thesis by (auto simp: symbol_by_key_def)
qed

lemma flush_writes_iff:
  assumes "distinct (map sy_instrument_token syms)" "distinct (map fst ps)" "\<And>k. distinct (map cn_timestamp (pending_of k ps))"
  shows "(i, c) \<in> set (flush_writes syms ps) \<longleftrightarrow>
    (\<exists>y \<in> set syms. sy_id y = i \<and> c \<in> set (pending_of (sy_instrument_token y) ps) \<and> candle_ok c)"
proof -
  have e: "(i, c) \<in> set (entry_writes syms (k, cs)) \<longleftrightarrow>
      (\<exists>y \<in> set syms. sy_id y = i \<and> sy_instrument_token y = k \<and> c \<in> set cs \<and> candle_ok c)"
    if "(k, cs) \<in> set ps" for k cs
  proof -
    have "pending_of k ps = cs" using that assms(2) by (simp add: pending_of_def)
    then have "distinct (map cn_timestamp cs)" using assms(3) [of k] by simp
    note v = validate_raw_bars [OF this]
    show ?thesis
    proof (cases "symbol_by_key syms k")
      case None
      then have "\<not> (y \<in> set syms \<and> sy_instrument_token y = k)" for y
        using symbol_by_key_iff [OF assms(1), of k y] by simp
      with None show ?thesis by (auto simp: entry_writes_def)
    next
      case (Some y)
      have u: "y' = y" if "y' \<in> set syms" "sy_instrument_token y' = k" for y'
        using symbol_by_key_iff [OF assms(1), of k y'] Some that by simp
      from symbol_by_key_iff [OF assms(1), of k y] Some have y: "y \<in> set syms" "sy_instrument_token y = k" by simp_all
      have "(i, c) \<in> set (entry_writes syms (k, cs)) \<longleftrightarrow> sy_id y = i \<and> c \<in> set cs \<and> candle_ok c"
        using Some by (auto simp: entry_writes_def v)
      then show ?thesis using y u by metis
    qed
  qed
  have p: "c \<in> set (pending_of k ps) \<longleftrightarrow> (\<exists>cs. (k, cs) \<in> set ps \<and> c \<in> set cs)" for k
  proof (cases "map_of ps k")
    case None
    then have "(k, cs) \<notin> set ps" for cs by (force simp: map_of_eq_None_iff)
    with None show ?thesis by (simp add: pending_of_def)
  next
    case (Some cs)
    then have "(k, cs') \<in> set ps \<longleftrightarrow> cs' = cs" for cs' using assms(2) map_of_eq_Some_iff [of ps k cs'] by auto
    with Some show ?thesis by (simp add: pending_of_def)
  qed
  have "(i, c) \<in> set (flush_writes syms ps) \<longleftrightarrow> (\<exists>k cs. (k, cs) \<in> set ps \<and> (i, c) \<in> set (entry_writes syms (k, cs)))"
    by (auto simp: flush_writes_def)
  also have "\<dots> \<longleftrightarrow> (\<exists>k cs. (k, cs) \<in> set ps \<and>
      (\<exists>y \<in> set syms. sy_id y = i \<and> sy_instrument_token y = k \<and> c \<in> set cs \<and> candle_ok c))"
    by (intro ex_cong1 conj_cong refl e)
  also have "\<dots> \<longleftrightarrow> (\<exists>y \<in> set syms. sy_id y = i \<and> c \<in> set (pending_of (sy_instrument_token y) ps) \<and> candle_ok c)"
    by (simp only: p) blast
  finally show ?thesis .
qed

subsection \<open>The receive loop\<close>

text \<open>What a stretch of the session does to a feed: the prices gain the writes \<open>W\<close> of the bars \<open>done\<close>, and the bars
  completed before or during it are those written followed by those still pending.\<close>

definition stretch ::
  "(string \<times> candle) list \<Rightarrow> (int \<times> candle) list \<Rightarrow> (string \<Rightarrow> candle list) \<Rightarrow> ('r, 'x market_store_scheme) feed
     \<Rightarrow> ('r, 'x market_store_scheme) feed \<Rightarrow> bool" where
  "stretch es W written fd fd' \<longleftrightarrow>
     fd_symbols fd' = fd_symbols fd \<and> distinct (map fst (fd_pending fd'))
   \<and> intraday_prices (fd_tables fd') = fold put_intraday W (intraday_prices (fd_tables fd))
   \<and> (\<forall>k. written k @ pending_of k (fd_pending fd') = pending_of k (fd_pending fd) @ candles_of k es)
   \<and> (\<forall>i c. (i, c) \<in> set W \<longleftrightarrow> (\<exists>y \<in> set (fd_symbols fd). sy_id y = i \<and> c \<in> set (written (sy_instrument_token y)) \<and> candle_ok c))"

lemma stretch_compose:
  assumes "stretch es W f fd fd1" "stretch es' W' f' fd1 fd2"
  shows "stretch (es @ es') (W @ W') (\<lambda>k. f k @ f' k) fd fd2"
proof -
  have "(f k @ f' k) @ pending_of k (fd_pending fd2) = pending_of k (fd_pending fd) @ candles_of k (es @ es')" for k
  proof -
    have "(f k @ f' k) @ pending_of k (fd_pending fd2) = f k @ (pending_of k (fd_pending fd1) @ candles_of k es')"
      using assms(2) by (simp add: stretch_def)
    also have "\<dots> = (f k @ pending_of k (fd_pending fd1)) @ candles_of k es'" by simp
    also have "\<dots> = pending_of k (fd_pending fd) @ candles_of k (es @ es')"
      using assms(1) by (simp add: stretch_def candles_of_def)
    finally show ?thesis .
  qed
  moreover have "(i, c) \<in> set (W @ W') \<longleftrightarrow>
      (\<exists>y \<in> set (fd_symbols fd). sy_id y = i \<and> c \<in> set (f (sy_instrument_token y) @ f' (sy_instrument_token y)) \<and> candle_ok c)" for i c
    using assms by (auto simp: stretch_def)
  ultimately show ?thesis using assms by (simp add: stretch_def)
qed

lemma stretch_refl: "distinct (map fst (fd_pending fd)) \<Longrightarrow> stretch [] [] (\<lambda>_. []) fd fd"
  by (simp add: stretch_def candles_of_simps)

lemma stretch_message:
  assumes "distinct (map fst (fd_pending fd))"
  shows "stretch es [] (\<lambda>_. []) fd (fd\<lparr>fd_aggregator := a, fd_pending := add_all es (fd_pending fd)\<rparr>)"
  using assms by (simp add: stretch_def pending_of_add_all add_all_distinct)

lemma stretch_flush:
  assumes "flush_feed ops committed now fd = (Inr u, fd')" "distinct (map sy_instrument_token (fd_symbols fd))"
    "distinct (map fst (fd_pending fd))" "\<And>k. distinct (map cn_timestamp (pending_of k (fd_pending fd)))"
  shows "stretch [] (flush_writes (fd_symbols fd) (fd_pending fd)) (\<lambda>k. pending_of k (fd_pending fd)) fd fd'"
  using flush_feed_ok [OF assms(1)] flush_writes_iff [OF assms(2-4)]
  by (simp add: stretch_def candles_of_simps pending_of_def [of _ "[]"])

lemma receive_loop_stretch:
  assumes "receive_loop decode ops rs n fd = (Inr why, m, fd')" "distinct (map sy_instrument_token (fd_symbols fd))"
    "distinct (map fst (fd_pending fd))"
  obtains es where "ingest_all (received_ticks decode rs) (fd_aggregator fd) = (Inr es, fd_aggregator fd')"
    "(\<And>k. distinct (map cn_timestamp (pending_of k (fd_pending fd) @ candles_of k es))) \<Longrightarrow> \<exists>W written. stretch es W written fd fd'"
proof -
  have "\<exists>es. ingest_all (received_ticks decode rs) (fd_aggregator fd) = (Inr es, fd_aggregator fd')
    \<and> ((\<forall>k. distinct (map cn_timestamp (pending_of k (fd_pending fd) @ candles_of k es))) \<longrightarrow> (\<exists>W written. stretch es W written fd fd'))"
    using assms
  proof (induction decode ops rs n fd rule: receive_loop.induct)
    case (4 decode ops raw due committed now rest n fd)
    obtain fd1 where h: "handle_message decode raw fd = (Inr (), fd1)"
      using "4.prems"(1) by (auto split: prod.splits sum.splits)
    obtain fd2 where f: "(if due then flush_feed ops committed now fd1 else (Inr (), fd1)) = (Inr (), fd2)"
      using "4.prems"(1) h by (auto split: prod.splits sum.splits if_splits)
    have l: "receive_loop decode ops rest (Suc n) fd2 = (Inr why, m, fd')" using "4.prems"(1) h f by simp
    from handle_message_ticks [OF h] obtain es where
      es: "ingest_all (frame_ticks decode raw) (fd_aggregator fd) = (Inr es, fd_aggregator fd1)"
        "fd1 = fd\<lparr>fd_aggregator := fd_aggregator fd1, fd_pending := add_all es (fd_pending fd)\<rparr>" by blast
    have s1: "stretch es [] (\<lambda>_. []) fd fd1" using stretch_message [OF "4.prems"(3), of es "fd_aggregator fd1"] es(2) by simp
    have d1: "distinct (map fst (fd_pending fd1))" "fd_symbols fd1 = fd_symbols fd"
      "\<And>k. pending_of k (fd_pending fd1) = pending_of k (fd_pending fd) @ candles_of k es"
      using s1 by (simp_all add: stretch_def)
    have a2: "fd_aggregator fd2 = fd_aggregator fd1" "fd_symbols fd2 = fd_symbols fd" "distinct (map fst (fd_pending fd2))"
    proof (atomize(full), cases due)
      case True
      with f have "flush_feed ops committed now fd1 = (Inr (), fd2)" by simp
      from flush_feed_ok [OF this] d1(2)
      show "fd_aggregator fd2 = fd_aggregator fd1 \<and> fd_symbols fd2 = fd_symbols fd \<and> distinct (map fst (fd_pending fd2))" by simp
    next
      case False
      with f d1(1,2)
      show "fd_aggregator fd2 = fd_aggregator fd1 \<and> fd_symbols fd2 = fd_symbols fd \<and> distinct (map fst (fd_pending fd2))" by simp
    qed
    have s2: "\<exists>W written. stretch [] W written fd1 fd2" if "\<And>k. distinct (map cn_timestamp (pending_of k (fd_pending fd1)))"
    proof (cases due)
      case True
      with f have "flush_feed ops committed now fd1 = (Inr (), fd2)" by simp
      from stretch_flush [OF this _ d1(1) that] d1(2) "4.prems"(2) show ?thesis by auto
    next
      case False
      with f stretch_refl [OF d1(1)] have "stretch [] [] (\<lambda>_. []) fd1 fd2" by simp
      then show ?thesis by blast
    qed
    have syms2: "distinct (map sy_instrument_token (fd_symbols fd2))" using a2(2) "4.prems"(2) by simp
    from "4.IH" [OF h [symmetric] refl f [symmetric] refl l syms2 a2(3)] obtain es' where
      es': "ingest_all (received_ticks decode rest) (fd_aggregator fd2) = (Inr es', fd_aggregator fd')"
        "(\<forall>k. distinct (map cn_timestamp (pending_of k (fd_pending fd2) @ candles_of k es'))) \<longrightarrow> (\<exists>W written. stretch es' W written fd2 fd')"
      by blast
    have "ingest_all (received_ticks decode (Received raw due committed now # rest)) (fd_aggregator fd) = (Inr (es @ es'), fd_aggregator fd')"
      using ingest_all_append [OF es(1), of "received_ticks decode rest" es' "fd_aggregator fd'"] es'(1) a2(1) by simp
    moreover have "\<exists>W written. stretch (es @ es') W written fd fd'"
      if D: "\<forall>k. distinct (map cn_timestamp (pending_of k (fd_pending fd) @ candles_of k (es @ es')))"
    proof -
      have c: "candles_of k (es @ es') = candles_of k es @ candles_of k es'" for k by (simp add: candles_of_def)
      have "distinct (map cn_timestamp (pending_of k (fd_pending fd1)))" for k
        using D [rule_format, of k] unfolding d1(3) c by (simp add: Int_Un_distrib)
      from s2 [OF this] obtain W g where g: "stretch [] W g fd1 fd2" by blast
      have p: "g k @ pending_of k (fd_pending fd2) = pending_of k (fd_pending fd) @ candles_of k es" for k
        using g d1(3) [of k] by (simp add: stretch_def candles_of_simps)
      have "distinct (map cn_timestamp (pending_of k (fd_pending fd2) @ candles_of k es'))" for k
      proof -
        have "distinct (map cn_timestamp ((g k @ pending_of k (fd_pending fd2)) @ candles_of k es'))"
          using D [rule_format, of k] unfolding p c by simp
        then show ?thesis by (simp add: Int_Un_distrib Int_Un_distrib2)
      qed
      with es'(2) obtain W' g' where g': "stretch es' W' g' fd2 fd'" by blast
      from stretch_compose [OF stretch_compose [OF s1 g] g'] show ?thesis by auto
    qed
    ultimately show ?case by blast
  next
    case (1 decode ops n fd)
    then show ?case using stretch_refl [of fd] by auto
  next
    case (2 decode ops uu n fd)
    then show ?case using stretch_refl [of fd] by auto
  next
    case (3 decode ops l uv n fd)
    then show ?case using stretch_refl [of fd] by auto
  qed
  then obtain es where "ingest_all (received_ticks decode rs) (fd_aggregator fd) = (Inr es, fd_aggregator fd')"
    "(\<forall>k. distinct (map cn_timestamp (pending_of k (fd_pending fd) @ candles_of k es))) \<longrightarrow> (\<exists>W written. stretch es W written fd fd')"
    by blast
  then show thesis by (intro that [of es]) simp_all
qed

subsection \<open>The session\<close>

definition completed :: "tick list \<Rightarrow> symbol_row \<Rightarrow> candle list" where
  "completed ticks y = butlast (minute_bars (accepted None (filter (\<lambda>t. tk_key t = sy_instrument_token y) ticks)))"

text \<open>The feed when the backfill begins.\<close>

definition opened :: "session_io \<Rightarrow> 'x market_store_scheme \<Rightarrow> 'r \<Rightarrow> ('r, 'x market_store_scheme) feed" where
  "opened io s r = (new_feed (snd (feed_open (si_connected_at io) s)) r)\<lparr>fd_symbols := list_active s\<rparr>"

lemma gap_fill_frame:
  "fd_symbols (snd (gap_fill cfg ops cut_off io fd)) = fd_symbols fd" "fd_pending (snd (gap_fill cfg ops cut_off io fd)) = fd_pending fd"
  "fd_aggregator (snd (gap_fill cfg ops cut_off io fd)) = fd_aggregator fd"
  by (auto simp: gap_fill_def split_beta Let_def split: option.split)

lemma session_parts:
  assumes "connect_and_stream decode ops cut_off cfg fs io (new_feed s r) = (Inr (), fd)" "si_opening io = None" "list_active s \<noteq> []"
  obtains why n fd1 fd2 fd3 where "gap_fill cfg ops cut_off io (opened io s r) = (Inr (), fd1)"
    "receive_loop decode ops (si_receptions io) 0 fd1 = (Inr why, n, fd2)"
    "flush_feed ops (si_final_commit io) (si_closed_at io) fd2 = (Inr (), fd3)"
    "fd_pending fd = fd_pending fd3" "intraday_prices (fd_tables fd) = intraday_prices (fd_tables fd3)"
proof -
  have o: "(new_feed s r)\<lparr>fd_symbols := list_active s, fd_tables := snd (feed_open (si_connected_at io) s)\<rparr> = opened io s r"
    by (simp add: opened_def new_feed_def)
  have t: "fd_tables (new_feed s r) = s" by (simp add: new_feed_def)
  obtain q where q: "stream_body decode ops cut_off cfg fs io (opened io s r) = q" by blast
  have fin: "finish_stream ops io (fst (feed_open (si_connected_at io) s)) q = (Inr (), fd)"
    using assms(1,3) q o t by (auto simp: connect_and_stream_def Let_def split_beta new_feed_def split: sum.splits)
  obtain outcome n fd2 where qq: "q = (outcome, n, fd2)" by (cases q)
  from fin qq obtain fd3 why where f: "flush_feed ops (si_final_commit io) (si_closed_at io) fd2 = (Inr (), fd3)" "outcome = Inr why"
    "fd_pending fd = fd_pending fd3" "intraday_prices (fd_tables fd) = intraday_prices (fd_tables fd3)"
    by (auto simp: finish_stream_def feed_close_def split: prod.splits sum.splits)
  from q qq f(2) obtain fd1 where g: "gap_fill cfg ops cut_off io (opened io s r) = (Inr (), fd1)"
    "receive_loop decode ops (si_receptions io) 0 fd1 = (Inr why, n, fd2)"
    using assms(2) by (auto simp: stream_body_def split: sum.splits prod.splits)
  show thesis by (rule that [OF g f(1,3,4)])
qed

lemma stored_after:
  assumes W: "\<And>i c. (i, c) \<in> set W \<longleftrightarrow> (\<exists>y \<in> set syms. sy_id y = i \<and> c \<in> set (f y) \<and> candle_ok c)"
    and ids: "distinct (map sy_id syms)" and d: "\<And>y. distinct (map cn_timestamp (f y))"
  shows "y \<in> set syms \<Longrightarrow> c \<in> set (f y) \<Longrightarrow> candle_ok c \<Longrightarrow>
      lookup_by intraday_key (sy_id y, cn_timestamp c) (fold put_intraday W rows) = Some (intraday_of (sy_id y) c)"
    "(\<And>y c. y \<in> set syms \<Longrightarrow> c \<in> set (f y) \<Longrightarrow> candle_ok c \<Longrightarrow> (sy_id y, cn_timestamp c) \<noteq> k) \<Longrightarrow>
      lookup_by intraday_key k (fold put_intraday W rows) = lookup_by intraday_key k rows"
proof -
  assume y: "y \<in> set syms" "c \<in> set (f y)" "candle_ok c"
  let ?k = "(sy_id y, cn_timestamp c)" and ?own = "filter (\<lambda>v. (fst v, cn_timestamp (snd v)) = (sy_id y, cn_timestamp c)) W"
  have "\<exists>z \<in> set syms. sy_id z = sy_id y \<and> c \<in> set (f z) \<and> candle_ok c" using y by auto
  then have "(sy_id y, c) \<in> set W" by (simp only: W)
  then have ne: "?own \<noteq> []" by (force simp: filter_empty_conv)
  have one: "v = (sy_id y, c)" if "v \<in> set ?own" for v
  proof -
    obtain j e where v: "v = (j, e)" by (cases v)
    with that have j: "j = sy_id y" "cn_timestamp e = cn_timestamp c" and "(j, e) \<in> set W" by auto
    from this(3) [unfolded W] obtain z where z: "z \<in> set syms" "sy_id z = j" "e \<in> set (f z)" by blast
    have "z = y" using ids z(1,2) y(1) j(1) by (auto simp: distinct_map inj_on_def)
    with d [of y] z(3) y(2) j(2) have "e = c" by (auto simp: distinct_map inj_on_def)
    with v j show ?thesis by simp
  qed
  from one [OF last_in_set [OF ne]] have l: "last ?own = (sy_id y, c)" .
  show "lookup_by intraday_key ?k (fold put_intraday W rows) = Some (intraday_of (sy_id y) c)"
    using intraday_table.lookup_puts_last [of ?k W rows] ne unfolding l by simp
next
  assume other: "\<And>y c. y \<in> set syms \<Longrightarrow> c \<in> set (f y) \<Longrightarrow> candle_ok c \<Longrightarrow> (sy_id y, cn_timestamp c) \<noteq> k"
  have "k \<noteq> (fst v, cn_timestamp (snd v))" if v: "v \<in> set W" for v
  proof -
    have "(fst v, snd v) \<in> set W" using v by simp
    then obtain y where "y \<in> set syms" "sy_id y = fst v" "snd v \<in> set (f y)" "candle_ok (snd v)" unfolding W by blast
    with other show ?thesis by metis
  qed
  then show "lookup_by intraday_key k (fold put_intraday W rows) = lookup_by intraday_key k rows"
    by (intro intraday_table.lookup_puts_other) auto
qed


section \<open>A failing flush\<close>

text \<open>A final flush whose transaction fails loses the completed bars and leaves the row of the feed log open: the bars are
  neither in the tables nor pending afterwards.\<close>

lemma failed_flush_loses_bars:
  assumes "fd_pending fd \<noteq> []" "\<not> si_final_commit io"
  shows "finish_stream ops io log_id (outcome, n, fd) = (Inl (OtherError ''database''), fd\<lparr>fd_pending := []\<rparr>)"
  using assms by (simp add: finish_stream_def flush_feed_def Let_def split_beta)

section \<open>An example\<close>

definition demo_decode :: "string \<Rightarrow> feeds option" where
  "demo_decode b =
     (if b = ''a'' then Some [(''T1'', Some \<lparr>lt_ltp = 100, lt_ltt = 1000, lt_ltq = 5\<rparr>), (''T1'', None)]
      else if b = ''b'' then Some [(''T1'', Some \<lparr>lt_ltp = 101, lt_ltt = 2000, lt_ltq = 2\<rparr>)]
      else if b = ''c'' then Some [(''T1'', Some \<lparr>lt_ltp = 99, lt_ltt = 61000, lt_ltq = 1\<rparr>)]
      else None)"

definition demo_io :: session_io where
  "demo_io = \<lparr>si_answer = Answer 200 (Some (PyDict [(''data'', PyDict [(''authorized_redirect_uri'', PyStr ''wss://feed'')])])),
     si_connected_at = 0, si_opening = None, si_backfill = None, si_backfill_at = 0,
     si_receptions = [Received (Binary_Frame ''a'') False True 0, Received (Text_Frame ''x'') True True 0,
       Received (Binary_Frame ''b'') False True 0, Received (Binary_Frame ''?'') False True 0, Received (Binary_Frame ''c'') True True 1, Silence],
     si_final_commit = True, si_closed_at = 2\<rparr>"

definition demo_listing :: provider_symbol where
  "demo_listing = \<lparr>ps_symbol = ''TCS'', ps_exchange = ''NSE'', ps_instrument_token = ''T1'', ps_company_name = None,
     ps_sector = None, ps_industry = None, ps_listing_date = None, ps_isin = None\<rparr>"

definition demo_market :: market_store where
  "demo_market = (empty_market 0)\<lparr>symbols := put_symbol (1, demo_listing) []\<rparr>"


end
