(* ===== verification/Upstox_Client.thy ===== *)
theory Upstox_Client
  imports Market_Feed Derivatives
begin

text \<open>
  The REST client of the broker: app/providers/upstox_provider.py. Connection check, rate limit, retry of
  transient answers, the instrument master and what is read from it, candles, quotes, option chain and futures
  bars. The network is a record of operations on a state of its own; a response carries its parsed JSON body
  (numbers finite), the downloaded master what its bytes unzip and parse to. The conversions of pydantic are
  arguments.
\<close>

section \<open>Settings, network and state\<close>

record upstox_settings =
  upstox_access_token :: string
  upstox_base_url :: string
  upstox_instruments_url :: string
  upstox_ws_authorize_url :: string
  upstox_max_retries :: nat
  upstox_retry_backoff_seconds :: rat
  upstox_rate_limit_per_sec :: rat
  upstox_daily_history_days :: int

definition default_upstox_settings :: upstox_settings where
  "default_upstox_settings =
     \<lparr>upstox_access_token = [], upstox_base_url = ''https://api.upstox.com/v2'',
      upstox_instruments_url = ''https://assets.upstox.com/market-quote/instruments/exchange/NSE.json.gz'',
      upstox_ws_authorize_url = ''https://api.upstox.com/v3/feed/market-data-feed/authorize'',
      upstox_max_retries = 3, upstox_retry_backoff_seconds = 2, upstox_rate_limit_per_sec = 50,
      upstox_daily_history_days = 400\<rparr>"

definition upstox_configured :: "upstox_settings \<Rightarrow> bool" where
  "upstox_configured us \<longleftrightarrow> upstox_access_token us \<noteq> []"

record http_request =
  rq_url :: string
  rq_params :: "(string \<times> string) list"

datatype http_result = Timed_Out | Http_Failure string | Response nat "pyval option"

datatype content = Not_Gzip string | Unzipped "pyval option"

datatype download = Fetch_Failure string | Fetched nat content

record 'h net =
  net_clock :: "'h \<Rightarrow> rat"
  net_sleep :: "rat \<Rightarrow> 'h \<Rightarrow> 'h"
  net_send :: "http_request \<Rightarrow> 'h \<Rightarrow> http_result \<times> 'h"
  net_fetch :: "string \<Rightarrow> 'h \<Rightarrow> download \<times> 'h"

type_synonym instrument = "(string \<times> pyval) list"

record 'h upstox =
  ux_connected :: bool
  ux_symbol_cache :: "string \<rightharpoonup> provider_symbol"
  ux_fno_records :: "instrument list option"
  ux_last_call :: rat
  ux_net :: 'h

definition new_upstox :: "'h \<Rightarrow> 'h upstox" where
  "new_upstox h = \<lparr>ux_connected = False, ux_symbol_cache = Map.empty, ux_fno_records = None, ux_last_call = 0, ux_net = h\<rparr>"

abbreviation attribute_error :: py_error where "attribute_error \<equiv> OtherError ''AttributeError''"
abbreviation index_error :: py_error where "index_error \<equiv> OtherError ''IndexError''"
abbreviation key_error :: py_error where "key_error \<equiv> OtherError ''KeyError''"
abbreviation type_error :: py_error where "type_error \<equiv> OtherError ''TypeError''"

section \<open>Connection\<close>

definition connect_upstox :: "'h net \<Rightarrow> upstox_settings \<Rightarrow> 'h upstox \<Rightarrow> (py_error + unit) \<times> 'h upstox" where
  "connect_upstox net us u =
     (if \<not> upstox_configured us then (Inl (ProviderError ''Upstox access token is not configured''), u)
      else
        let (res, h) = net_send net \<lparr>rq_url = upstox_ws_authorize_url us, rq_params = []\<rparr> (ux_net u);
            lost = u\<lparr>ux_net := h, ux_connected := False\<rparr>
        in case res of
             Timed_Out \<Rightarrow> (Inl (ProviderError ''Upstox connection check failed: request timed out''), lost)
           | Http_Failure e \<Rightarrow> (Inl (ProviderError (''Upstox connection check failed: '' @ e)), lost)
           | Response status _ \<Rightarrow>
               (if status = 200 then (Inr (), u\<lparr>ux_net := h, ux_connected := True\<rparr>)
                else if status = 401 then (Inl (ProviderError ''Upstox access token rejected (expired or invalid)''), lost)
                else (Inl (ProviderError (''Upstox connection check failed: HTTP '' @ str_nat status)), lost)))"

definition disconnect_upstox :: "'h upstox \<Rightarrow> 'h upstox" where
  "disconnect_upstox u = u\<lparr>ux_connected := False\<rparr>"

section \<open>One call\<close>

definition respect_rate_limit :: "'h net \<Rightarrow> upstox_settings \<Rightarrow> 'h upstox \<Rightarrow> py_error + 'h upstox" where
  "respect_rate_limit net us u =
     (if upstox_rate_limit_per_sec us = 0 then Inl ZeroDivisionError
      else
        let min_interval = 1 / upstox_rate_limit_per_sec us;
            elapsed = net_clock net (ux_net u) - ux_last_call u;
            h = (if elapsed < min_interval then net_sleep net (min_interval - elapsed) (ux_net u) else ux_net u)
        in Inr (u\<lparr>ux_net := h, ux_last_call := net_clock net h\<rparr>))"

fun error_text :: "runtime \<Rightarrow> instrument \<Rightarrow> string option" where
  "error_text rt body =
     (case field_of body ''errors'' of
        PyList (PyDict e # _) \<Rightarrow> (case field_of e ''message'' of PyNone \<Rightarrow> None | v \<Rightarrow> Some (py_str rt v))
      | _ \<Rightarrow> None)"

text \<open>\<open>x or y\<close> for an optional string.\<close>

definition str_or :: "string option \<Rightarrow> string \<Rightarrow> string" where
  "str_or x y = (case x of None \<Rightarrow> y | Some s \<Rightarrow> if s = [] then y else s)"

definition as_object :: "pyval \<Rightarrow> pyval" where
  "as_object v = (case v of PyDict _ \<Rightarrow> v | _ \<Rightarrow> PyDict [])"

definition as_array :: "pyval \<Rightarrow> pyval" where
  "as_array v = (case v of PyList _ \<Rightarrow> v | _ \<Rightarrow> PyList [])"

text \<open>What one response means: the data, \<open>None\<close> for another try, or an error. A body that is not JSON counts as an
  empty object; a body of another JSON type has no \<open>get\<close>.\<close>

definition answer_of :: "runtime \<Rightarrow> (pyval \<Rightarrow> pyval) \<Rightarrow> string \<Rightarrow> nat \<Rightarrow> pyval option \<Rightarrow> py_error + pyval option" where
  "answer_of rt pick path status json =
     (let body = (case json of None \<Rightarrow> Some [] | Some (PyDict d) \<Rightarrow> Some d | _ \<Rightarrow> None)
      in if status = 200 \<and> body = None then Inl attribute_error
         else if status = 200 \<and> field_of (the body) ''status'' = PyStr ''success'' then Inr (Some (pick (field_of (the body) ''data'')))
         else if status = 429 \<or> (500 \<le> status \<and> status < 600) then Inr None
         else case body of
                None \<Rightarrow> Inl attribute_error
              | Some d \<Rightarrow>
                  (if status = 401 then Inl (ProviderError (''Upstox auth failed: '' @ str_or (error_text rt d) ''access token rejected''))
                   else Inl (ProviderError (''Upstox API error on GET '' @ path @ '': '' @
                          str_or (error_text rt d) (''HTTP '' @ str_nat status)))))"

definition handle_answer ::
  "runtime \<Rightarrow> (pyval \<Rightarrow> pyval) \<Rightarrow> string \<Rightarrow> nat \<Rightarrow> pyval option \<Rightarrow> 'h upstox \<Rightarrow> (py_error + pyval option) \<times> 'h upstox" where
  "handle_answer rt pick path status json u =
     (answer_of rt pick path status json, if status = 401 then u\<lparr>ux_connected := False\<rparr> else u)"

definition handle_response where "handle_response rt = handle_answer rt as_object"
definition handle_response_list where "handle_response_list rt = handle_answer rt as_array"

definition retries_failed :: "string \<Rightarrow> string option \<Rightarrow> py_error" where
  "retries_failed path last_error =
     ProviderError (''Upstox call GET '' @ path @ '' failed after retries: '' @ (case last_error of None \<Rightarrow> ''None'' | Some e \<Rightarrow> e))"

text \<open>The loop over the attempts: \<open>n\<close> are left, \<open>attempt\<close> is the number of the next one.\<close>

fun request_loop ::
  "(string \<Rightarrow> nat \<Rightarrow> pyval option \<Rightarrow> 'h upstox \<Rightarrow> (py_error + pyval option) \<times> 'h upstox) \<Rightarrow> 'h net \<Rightarrow> upstox_settings
     \<Rightarrow> string \<Rightarrow> (string \<times> string) list \<Rightarrow> nat \<Rightarrow> nat \<Rightarrow> string option \<Rightarrow> 'h upstox \<Rightarrow> (py_error + pyval) \<times> 'h upstox" where
  "request_loop handle net us path params 0 attempt last_error u = (Inl (retries_failed path last_error), u)"
| "request_loop handle net us path params (Suc n) attempt last_error u =
     (case respect_rate_limit net us u of
        Inl e \<Rightarrow> (Inl e, u)
      | Inr u1 \<Rightarrow>
          (let (res, h) = net_send net \<lparr>rq_url = upstox_base_url us @ path, rq_params = params\<rparr> (ux_net u1);
               u2 = u1\<lparr>ux_net := h\<rparr>;
               pause = (\<lambda>v. if n = 0 then v
                            else v\<lparr>ux_net := net_sleep net (upstox_retry_backoff_seconds us * of_nat attempt) (ux_net v)\<rparr>);
               again = (\<lambda>e v. request_loop handle net us path params n (Suc attempt) (Some e) (pause v))
           in case res of
                Timed_Out \<Rightarrow> again ''request timed out'' u2
              | Http_Failure e \<Rightarrow> again e u2
              | Response status json \<Rightarrow>
                  (case handle path status json u2 of
                     (Inl e, u3) \<Rightarrow> (Inl e, u3)
                   | (Inr (Some data), u3) \<Rightarrow> (Inr data, u3)
                   | (Inr None, u3) \<Rightarrow> again (''HTTP '' @ str_nat status) u3)))"

definition request ::
  "runtime \<Rightarrow> 'h net \<Rightarrow> upstox_settings \<Rightarrow> string \<Rightarrow> (string \<times> string) list \<Rightarrow> 'h upstox \<Rightarrow> (py_error + pyval) \<times> 'h upstox" where
  "request rt net us path params u = request_loop (handle_response rt) net us path params (upstox_max_retries us) 1 None u"

definition request_list ::
  "runtime \<Rightarrow> 'h net \<Rightarrow> upstox_settings \<Rightarrow> string \<Rightarrow> (string \<times> string) list \<Rightarrow> 'h upstox \<Rightarrow> (py_error + pyval) \<times> 'h upstox" where
  "request_list rt net us path params u = request_loop (handle_response_list rt) net us path params (upstox_max_retries us) 1 None u"

section \<open>The instrument master\<close>

fun download_loop :: "'h net \<Rightarrow> upstox_settings \<Rightarrow> nat \<Rightarrow> nat \<Rightarrow> string option \<Rightarrow> 'h \<Rightarrow> (py_error + pyval option) \<times> 'h" where
  "download_loop net us 0 attempt last_error h =
     (Inl (ProviderError (''Upstox instruments download failed after retries: '' @ (case last_error of None \<Rightarrow> ''None'' | Some e \<Rightarrow> e))), h)"
| "download_loop net us (Suc n) attempt last_error h =
     (let (res, h1) = net_fetch net (upstox_instruments_url us) h;
          again = (\<lambda>e. download_loop net us n (Suc attempt) (Some e)
            (if n = 0 then h1 else net_sleep net (upstox_retry_backoff_seconds us * of_nat attempt) h1))
      in case res of
           Fetch_Failure e \<Rightarrow> again e
         | Fetched status content \<Rightarrow>
             (if status = 200
              then (case content of
                      Not_Gzip e \<Rightarrow> (Inl (ProviderError (''Upstox instruments master is not valid gzip: '' @ e)), h1)
                    | Unzipped json \<Rightarrow> (Inr json, h1))
              else again (''HTTP '' @ str_nat status)))"

text \<open>Download and parse: the records, of any JSON type.\<close>

definition load_instruments :: "'h net \<Rightarrow> upstox_settings \<Rightarrow> 'h upstox \<Rightarrow> (py_error + pyval list) \<times> 'h upstox" where
  "load_instruments net us u =
     (let (res, h) = download_loop net us (upstox_max_retries us) 1 None (ux_net u)
      in (case res of
            Inl e \<Rightarrow> Inl e
          | Inr None \<Rightarrow> Inl (ProviderError ''Upstox instruments master is not valid JSON'')
          | Inr (Some (PyList records)) \<Rightarrow> Inr records
          | Inr (Some _) \<Rightarrow> Inl (ProviderError ''Upstox instruments master returned no data''),
          u\<lparr>ux_net := h\<rparr>))"

definition py_strip :: "string \<Rightarrow> string" where
  "py_strip s = rev (dropWhile is_space (rev (dropWhile is_space s)))"

fun in_segment :: "string \<Rightarrow> pyval \<Rightarrow> instrument option" where
  "in_segment seg (PyDict r) = (if field_of r ''segment'' = PyStr seg then Some r else None)"
| "in_segment seg _ = None"

definition none_if_empty :: "string \<Rightarrow> string option" where
  "none_if_empty s = (if s = [] then None else Some s)"

text \<open>One record of the \<open>NSE_EQ\<close> segment; a missing key skips it.\<close>

definition symbol_of_record :: "runtime \<Rightarrow> instrument \<Rightarrow> provider_symbol option" where
  "symbol_of_record rt r =
     (case (map_of r ''trading_symbol'', map_of r ''instrument_key'') of
        (Some ts, Some ik) \<Rightarrow>
          Some \<lparr>ps_symbol = py_strip (py_str rt ts), ps_exchange = py_strip (py_str rt (py_or (field_of r ''exchange'') (PyStr ''NSE''))),
            ps_instrument_token = py_strip (py_str rt ik),
            ps_company_name = none_if_empty (py_strip (py_str rt (py_or (field_of r ''name'') (PyStr [])))),
            ps_sector = None, ps_industry = None, ps_listing_date = None,
            ps_isin = none_if_empty (py_strip (py_str rt (py_or (field_of r ''isin'') (PyStr []))))\<rparr>
      | _ \<Rightarrow> None)"

definition symbols_of :: "runtime \<Rightarrow> pyval list \<Rightarrow> provider_symbol list" where
  "symbols_of rt records = List.map_filter (\<lambda>v. Option.bind (in_segment ''NSE_EQ'' v) (symbol_of_record rt)) records"

definition get_symbols :: "runtime \<Rightarrow> 'h net \<Rightarrow> upstox_settings \<Rightarrow> 'h upstox \<Rightarrow> (py_error + provider_symbol list) \<times> 'h upstox" where
  "get_symbols rt net us u =
     (case load_instruments net us u of
        (Inl e, u1) \<Rightarrow> (Inl e, u1)
      | (Inr records, u1) \<Rightarrow>
          (let syms = symbols_of rt records
           in (Inr syms, u1\<lparr>ux_symbol_cache := map_of (rev (map (\<lambda>s. (ps_symbol s, s)) syms))\<rparr>)))"

definition resolve_symbol :: "runtime \<Rightarrow> 'h net \<Rightarrow> upstox_settings \<Rightarrow> string \<Rightarrow> 'h upstox \<Rightarrow> (py_error + provider_symbol) \<times> 'h upstox" where
  "resolve_symbol rt net us symbol u =
     (case (if ux_symbol_cache u symbol = None then get_symbols rt net us u else (Inr [], u)) of
        (Inl e, u1) \<Rightarrow> (Inl e, u1)
      | (Inr _, u1) \<Rightarrow>
          (case ux_symbol_cache u1 symbol of
             None \<Rightarrow> (Inl (ProviderError (''Unknown symbol: '' @ symbol)), u1)
           | Some p \<Rightarrow> (Inr p, u1)))"

definition fno_roots_of :: "runtime \<Rightarrow> pyval list \<Rightarrow> string list" where
  "fno_roots_of rt records =
     remdups (List.map_filter (\<lambda>v. case in_segment ''NSE_FO'' v of
        None \<Rightarrow> None
      | Some r \<Rightarrow> (let root = field_of r ''underlying_symbol'' in if truthy root then Some (py_strip (py_str rt root)) else None)) records)"

definition get_fno_symbol_roots :: "runtime \<Rightarrow> 'h net \<Rightarrow> upstox_settings \<Rightarrow> 'h upstox \<Rightarrow> (py_error + string list) \<times> 'h upstox" where
  "get_fno_symbol_roots rt net us u =
     (case load_instruments net us u of
        (Inl e, u1) \<Rightarrow> (Inl e, u1)
      | (Inr records, u1) \<Rightarrow> (Inr (fno_roots_of rt records), u1))"

definition all_fno_records :: "'h net \<Rightarrow> upstox_settings \<Rightarrow> 'h upstox \<Rightarrow> (py_error + instrument list) \<times> 'h upstox" where
  "all_fno_records net us u =
     (case ux_fno_records u of
        Some rs \<Rightarrow> (Inr rs, u)
      | None \<Rightarrow>
          (case load_instruments net us u of
             (Inl e, u1) \<Rightarrow> (Inl e, u1)
           | (Inr records, u1) \<Rightarrow>
               (let rs = List.map_filter (in_segment ''NSE_FO'') records in (Inr rs, u1\<lparr>ux_fno_records := Some rs\<rparr>))))"

definition fno_records_for :: "string \<Rightarrow> instrument list \<Rightarrow> instrument list" where
  "fno_records_for underlying rs = filter (\<lambda>r. field_of r ''underlying_symbol'' = PyStr underlying) rs"

section \<open>Contracts\<close>

definition milliseconds :: "int \<Rightarrow> int" where
  "milliseconds now = cut_fraction (of_int now / 1000)"

definition expiry_of :: "instrument \<Rightarrow> rat option" where
  "expiry_of r = number_of (field_of r ''expiry'')"

definition live_expiry :: "int \<Rightarrow> instrument \<Rightarrow> bool" where
  "live_expiry now r = (case expiry_of r of None \<Rightarrow> False | Some x \<Rightarrow> milliseconds now \<le> cut_fraction x)"

text \<open>\<open>min(xs, key=f)\<close>: the first of the least.\<close>

fun first_min :: "('a \<Rightarrow> 'b::linorder) \<Rightarrow> 'a list \<Rightarrow> 'a option" where
  "first_min f [] = None"
| "first_min f (x # xs) = (case first_min f xs of None \<Rightarrow> Some x | Some y \<Rightarrow> Some (if f y < f x then y else x))"

definition contract_candidates :: "int \<Rightarrow> string \<Rightarrow> instrument list \<Rightarrow> instrument list" where
  "contract_candidates now ty rs =
     filter (\<lambda>r. field_of r ''instrument_type'' = PyStr ty \<and> live_expiry now r \<and> map_of r ''instrument_key'' \<noteq> None) rs"

definition nearest_fno_contract ::
  "'h net \<Rightarrow> upstox_settings \<Rightarrow> int \<Rightarrow> string \<Rightarrow> string \<Rightarrow> 'h upstox \<Rightarrow> (py_error + instrument option) \<times> 'h upstox" where
  "nearest_fno_contract net us now ty underlying u =
     (case all_fno_records net us u of
        (Inl e, u1) \<Rightarrow> (Inl e, u1)
      | (Inr rs, u1) \<Rightarrow> (Inr (first_min (\<lambda>r. the (expiry_of r)) (contract_candidates now ty (fno_records_for underlying rs))), u1))"

text \<open>\<open>datetime.fromtimestamp(ms / 1000, tz=UTC).date()\<close>\<close>

definition expiry_date :: "rat \<Rightarrow> py_error + int" where
  "expiry_date ms = (case from_milliseconds ms of Inl e \<Rightarrow> Inl e | Inr t \<Rightarrow> Inr (t div day_us + epoch_ord))"

definition nearest_fno_expiry ::
  "'h net \<Rightarrow> upstox_settings \<Rightarrow> int \<Rightarrow> string \<Rightarrow> 'h upstox \<Rightarrow> (py_error + int option) \<times> 'h upstox" where
  "nearest_fno_expiry net us now underlying u =
     (case all_fno_records net us u of
        (Inl e, u1) \<Rightarrow> (Inl e, u1)
      | (Inr rs, u1) \<Rightarrow>
          (let expiries = map (\<lambda>r. cut_fraction (the (expiry_of r))) (filter (live_expiry now) (fno_records_for underlying rs))
           in (if expiries = [] then Inr None
               else case expiry_date (of_int (Min (set expiries))) of Inl e \<Rightarrow> Inl e | Inr d \<Rightarrow> Inr (Some d), u1)))"

section \<open>Rows\<close>

text \<open>The conversions of pydantic's models: a decimal and a point in time, \<open>None\<close> for a validation error.\<close>

record pydantic =
  co_decimal :: "pyval \<Rightarrow> rat option"
  co_time :: "pyval \<Rightarrow> int option"

text \<open>\<open>row[i]\<close> of a JSON value and \<open>int(v)\<close>.\<close>

fun item :: "pyval \<Rightarrow> nat \<Rightarrow> py_error + pyval" where
  "item (PyList vs) i = (if i < length vs then Inr (vs ! i) else Inl index_error)"
| "item (PyStr s) i = (if i < length s then Inr (PyStr [s ! i]) else Inl index_error)"
| "item (PyDict _) i = Inl key_error"
| "item _ i = Inl type_error"

fun int_of_value :: "pyval \<Rightarrow> py_error + int" where
  "int_of_value (PyInt i) = Inr i"
| "int_of_value (PyFloat x) = Inr (cut_fraction x)"
| "int_of_value (PyBool b) = Inr (if b then 1 else 0)"
| "int_of_value (PyStr s) = (case int_of_string s of None \<Rightarrow> Inl ValueError | Some i \<Rightarrow> Inr i)"
| "int_of_value _ = Inl type_error"


definition and_then :: "py_error + 'a \<Rightarrow> ('a \<Rightarrow> py_error + 'b) \<Rightarrow> py_error + 'b" where
  "and_then x f = (case x of Inl e \<Rightarrow> Inl e | Inr v \<Rightarrow> f v)"

definition checked :: "'a option \<Rightarrow> py_error + 'a" where
  "checked x = (case x of None \<Rightarrow> Inl ValueError | Some v \<Rightarrow> Inr v)"

text \<open>The arguments of \<open>Candle(...)\<close> are read first, then pydantic converts them.\<close>

definition candle_of_row :: "pydantic \<Rightarrow> pyval \<Rightarrow> py_error + candle" where
  "candle_of_row co row =
     and_then (item row 0) (\<lambda>ts. and_then (item row 1) (\<lambda>po. and_then (item row 2) (\<lambda>h. and_then (item row 3) (\<lambda>l.
     and_then (item row 4) (\<lambda>c. and_then (item row 5) (\<lambda>v5. and_then (int_of_value v5) (\<lambda>v.
     and_then (checked (co_time co ts)) (\<lambda>t. and_then (checked (co_decimal co po)) (\<lambda>po'. and_then (checked (co_decimal co h)) (\<lambda>h'.
     and_then (checked (co_decimal co l)) (\<lambda>l'. and_then (checked (co_decimal co c)) (\<lambda>c'.
       Inr \<lparr>cn_timestamp = t, cn_open = po', cn_high = h', cn_low = l', cn_close = c', cn_volume = v, cn_vwap = None\<rparr>))))))))))))"

definition futures_bar_of_row :: "pydantic \<Rightarrow> string \<Rightarrow> int \<Rightarrow> pyval \<Rightarrow> py_error + futures_bar" where
  "futures_bar_of_row co key expiry row =
     and_then (item row 0) (\<lambda>ts. and_then (item row 4) (\<lambda>c. and_then (item row 5) (\<lambda>v5. and_then (int_of_value v5) (\<lambda>v.
     and_then (item row 6) (\<lambda>o6. and_then (int_of_value o6) (\<lambda>oi.
     and_then (checked (co_time co ts)) (\<lambda>t. and_then (checked (co_decimal co c)) (\<lambda>c'.
       Inr \<lparr>fb_instrument_key = key, fb_expiry_date = expiry, fb_timestamp = t, fb_close = c', fb_volume = v,
            fb_open_interest = oi\<rparr>))))))))"

text \<open>The loop over the rows: the errors \<open>skipped\<close> drop a row, any other ends the call.\<close>

fun read_rows :: "py_error set \<Rightarrow> (pyval \<Rightarrow> py_error + 'a) \<Rightarrow> pyval list \<Rightarrow> py_error + 'a list" where
  "read_rows skipped f [] = Inr []"
| "read_rows skipped f (row # rows) =
     (case f row of
        Inr x \<Rightarrow> (case read_rows skipped f rows of Inl e \<Rightarrow> Inl e | Inr xs \<Rightarrow> Inr (x # xs))
      | Inl e \<Rightarrow> if e \<in> skipped then read_rows skipped f rows else Inl e)"

definition row_errors :: "py_error set" where "row_errors = {index_error, type_error, ValueError}"

definition chain_errors :: "py_error set" where "chain_errors = {key_error, type_error, ValueError}"

text \<open>\<open>data.get("candles")\<close> when it is a list.\<close>

fun candle_rows :: "pyval \<Rightarrow> pyval list" where
  "candle_rows (PyDict d) = (case field_of d ''candles'' of PyList rows \<Rightarrow> rows | _ \<Rightarrow> [])"
| "candle_rows _ = []"

definition history_path :: "settings \<Rightarrow> string \<Rightarrow> string \<Rightarrow> int \<Rightarrow> int \<Rightarrow> string" where
  "history_path cfg key interval lookback now =
     (let today = date_of (to_market_time (utc_dt now) (market_timezone cfg))
      in ''/historical-candle/'' @ key @ ''/'' @ interval @ ''/'' @ isoformat today @ ''/'' @ isoformat (today - lookback))"

definition get_candles ::
  "runtime \<Rightarrow> pydantic \<Rightarrow> 'h net \<Rightarrow> settings \<Rightarrow> upstox_settings \<Rightarrow> int \<Rightarrow> string \<Rightarrow> string \<Rightarrow> int \<Rightarrow> 'h upstox
     \<Rightarrow> (py_error + candle list) \<times> 'h upstox" where
  "get_candles rt co net cfg us now symbol interval lookback u =
     (case resolve_symbol rt net us symbol u of
        (Inl e, u1) \<Rightarrow> (Inl e, u1)
      | (Inr p, u1) \<Rightarrow>
          (case request rt net us (history_path cfg (ps_instrument_token p) interval lookback now) [] u1 of
             (Inl e, u2) \<Rightarrow> (Inl e, u2)
           | (Inr data, u2) \<Rightarrow> (read_rows row_errors (candle_of_row co) (candle_rows data), u2)))"

definition get_intraday where
  "get_intraday rt co net cfg us now symbol = get_candles rt co net cfg us now symbol ''1minute'' 1"

definition get_daily where
  "get_daily rt co net cfg us now symbol = get_candles rt co net cfg us now symbol ''day'' (upstox_daily_history_days us)"

section \<open>Quote\<close>

record quote =
  qt_symbol :: string
  qt_ltp :: rat
  qt_open :: rat
  qt_high :: rat
  qt_low :: rat
  qt_close :: rat
  qt_volume :: int
  qt_timestamp :: int

definition get_or :: "instrument \<Rightarrow> string \<Rightarrow> pyval \<Rightarrow> pyval" where
  "get_or d k v = (case map_of d k of None \<Rightarrow> v | Some w \<Rightarrow> w)"

definition need :: "instrument \<Rightarrow> string \<Rightarrow> py_error + pyval" where
  "need d k = (case map_of d k of None \<Rightarrow> Inl key_error | Some v \<Rightarrow> Inr v)"

definition quote_of_row :: "pydantic \<Rightarrow> string \<Rightarrow> int \<Rightarrow> instrument \<Rightarrow> py_error + quote" where
  "quote_of_row co symbol now row =
     (case py_or (field_of row ''ohlc'') (PyDict []) of
        PyDict ohlc \<Rightarrow>
          and_then (need row ''last_price'') (\<lambda>lp. and_then (int_of_value (get_or row ''volume'' (PyInt 0))) (\<lambda>v.
          and_then (checked (co_decimal co lp)) (\<lambda>ltp.
          and_then (checked (co_decimal co (get_or ohlc ''open'' lp))) (\<lambda>po.
          and_then (checked (co_decimal co (get_or ohlc ''high'' lp))) (\<lambda>h.
          and_then (checked (co_decimal co (get_or ohlc ''low'' lp))) (\<lambda>l.
          and_then (checked (co_decimal co (get_or ohlc ''close'' lp))) (\<lambda>c.
            Inr \<lparr>qt_symbol = symbol, qt_ltp = ltp, qt_open = po, qt_high = h, qt_low = l, qt_close = c, qt_volume = v,
                 qt_timestamp = now\<rparr>)))))))
      | _ \<Rightarrow> and_then (need row ''last_price'') (\<lambda>_. Inl attribute_error))"

definition get_quote ::
  "runtime \<Rightarrow> pydantic \<Rightarrow> 'h net \<Rightarrow> upstox_settings \<Rightarrow> int \<Rightarrow> string \<Rightarrow> 'h upstox \<Rightarrow> (py_error + quote) \<times> 'h upstox" where
  "get_quote rt co net us now symbol u =
     (case resolve_symbol rt net us symbol u of
        (Inl e, u1) \<Rightarrow> (Inl e, u1)
      | (Inr p, u1) \<Rightarrow>
          (case request rt net us ''/market-quote/quotes'' [(''instrument_key'', ps_instrument_token p)] u1 of
             (Inl e, u2) \<Rightarrow> (Inl e, u2)
           | (Inr data, u2) \<Rightarrow>
               (case data of
                  PyDict ((_, PyDict row) # _) \<Rightarrow> quote_of_row co symbol now row
                | PyDict (_ # _) \<Rightarrow> Inl (ProviderError (''Malformed quote data returned for '' @ symbol))
                | _ \<Rightarrow> Inl (ProviderError (''No quote data returned for '' @ symbol)), u2)))"

section \<open>Derivatives\<close>

definition option_leg_of :: "runtime \<Rightarrow> pydantic \<Rightarrow> pyval \<Rightarrow> option_leg option" where
  "option_leg_of rt co raw =
     (case raw of
        PyDict r \<Rightarrow>
          (case (field_of r ''market_data'', field_of r ''instrument_key'') of
             (PyDict m, ik) \<Rightarrow>
               (if \<not> truthy ik then None
                else case and_then (need m ''ltp'') (\<lambda>ltp. and_then (need m ''close_price'') (\<lambda>cp.
                       and_then (int_of_value (get_or m ''volume'' (PyInt 0))) (\<lambda>v. and_then (need m ''oi'') (\<lambda>oi.
                       and_then (need m ''prev_oi'') (\<lambda>po. and_then (checked (co_decimal co ltp)) (\<lambda>ltp'.
                       and_then (checked (co_decimal co cp)) (\<lambda>cp'. and_then (checked (co_decimal co oi)) (\<lambda>oi'.
                       and_then (checked (co_decimal co po)) (\<lambda>po'.
                         Inr \<lparr>ol_instrument_key = py_str rt ik, ol_ltp = ltp', ol_close_price = cp', ol_volume = v, ol_oi = oi',
                              ol_prev_oi = po'\<rparr>))))))))) of
                     Inl _ \<Rightarrow> None | Inr leg \<Rightarrow> Some leg)
           | _ \<Rightarrow> None)
      | _ \<Rightarrow> None)"

text \<open>A row of the chain; the underlying's price is required and checked, and not used further.\<close>

definition chain_row_of :: "runtime \<Rightarrow> pydantic \<Rightarrow> string \<Rightarrow> int \<Rightarrow> pyval \<Rightarrow> py_error + chain_row" where
  "chain_row_of rt co underlying expiry row =
     (case row of
        PyDict r \<Rightarrow>
          and_then (need r ''strike_price'') (\<lambda>k. and_then (need r ''underlying_spot_price'') (\<lambda>sp.
          and_then (checked (co_decimal co k)) (\<lambda>k'. and_then (checked (co_decimal co sp)) (\<lambda>_.
            Inr \<lparr>ch_underlying = underlying, ch_expiry_date = expiry, ch_strike_price = k',
                 ch_call = option_leg_of rt co (field_of r ''call_options''),
                 ch_put = option_leg_of rt co (field_of r ''put_options'')\<rparr>))))
      | _ \<Rightarrow> Inl type_error)"

definition get_option_chain ::
  "runtime \<Rightarrow> pydantic \<Rightarrow> 'h net \<Rightarrow> upstox_settings \<Rightarrow> int \<Rightarrow> string \<Rightarrow> string \<Rightarrow> 'h upstox \<Rightarrow> (py_error + chain_row list) \<times> 'h upstox" where
  "get_option_chain rt co net us now underlying key u =
     (case nearest_fno_expiry net us now underlying u of
        (Inl e, u1) \<Rightarrow> (Inl e, u1)
      | (Inr None, u1) \<Rightarrow> (Inr [], u1)
      | (Inr (Some expiry), u1) \<Rightarrow>
          (case request_list rt net us ''/option/chain'' [(''instrument_key'', key), (''expiry_date'', isoformat expiry)] u1 of
             (Inl e, u2) \<Rightarrow> (Inl e, u2)
           | (Inr data, u2) \<Rightarrow>
               (read_rows chain_errors (chain_row_of rt co underlying expiry) (case data of PyList rows \<Rightarrow> rows | _ \<Rightarrow> []), u2)))"

definition get_futures_oi_history ::
  "runtime \<Rightarrow> pydantic \<Rightarrow> 'h net \<Rightarrow> settings \<Rightarrow> upstox_settings \<Rightarrow> int \<Rightarrow> string \<Rightarrow> int \<Rightarrow> 'h upstox
     \<Rightarrow> (py_error + futures_bar list) \<times> 'h upstox" where
  "get_futures_oi_history rt co net cfg us now underlying lookback_days u =
     (case nearest_fno_contract net us now ''FUT'' underlying u of
        (Inl e, u1) \<Rightarrow> (Inl e, u1)
      | (Inr None, u1) \<Rightarrow> (Inr [], u1)
      | (Inr (Some contract), u1) \<Rightarrow>
          (let key = py_str rt (field_of contract ''instrument_key'')
           in case expiry_date (the (expiry_of contract)) of
                Inl e \<Rightarrow> (Inl e, u1)
              | Inr expiry \<Rightarrow>
                  (case request rt net us (history_path cfg key ''day'' lookback_days now) [] u1 of
                     (Inl e, u2) \<Rightarrow> (Inl e, u2)
                   | (Inr data, u2) \<Rightarrow>
                       (case read_rows row_errors (futures_bar_of_row co key expiry) (candle_rows data) of
                          Inl e \<Rightarrow> Inl e
                        | Inr bars \<Rightarrow> Inr (sort_key fb_timestamp bars), u2))))"

section \<open>The retry loop\<close>

text \<open>What the network is known to do: the \<open>k\<close>-th call gets the answer \<open>script k\<close>, and the clock does not run
  backwards and is moved on by sleeping.\<close>

definition scripted :: "'h net \<Rightarrow> (nat \<Rightarrow> http_result) \<Rightarrow> ('h \<Rightarrow> nat) \<Rightarrow> bool" where
  "scripted net script seen \<longleftrightarrow>
     (\<forall>rq h. fst (net_send net rq h) = script (seen h) \<and> seen (snd (net_send net rq h)) = Suc (seen h))
   \<and> (\<forall>d h. seen (net_sleep net d h) = seen h)"

definition clock_laws :: "'h net \<Rightarrow> bool" where
  "clock_laws net \<longleftrightarrow>
     (\<forall>rq h. net_clock net h \<le> net_clock net (snd (net_send net rq h)))
   \<and> (\<forall>d h. net_clock net h + d \<le> net_clock net (net_sleep net d h))"

text \<open>The reference: an answer is final, or a reason to try again.\<close>

definition verdict_on :: "runtime \<Rightarrow> (pyval \<Rightarrow> pyval) \<Rightarrow> string \<Rightarrow> http_result \<Rightarrow> (py_error + pyval) + string" where
  "verdict_on rt pick path res =
     (case res of
        Timed_Out \<Rightarrow> Inr ''request timed out''
      | Http_Failure e \<Rightarrow> Inr e
      | Response status json \<Rightarrow>
          (case answer_of rt pick path status json of
             Inl e \<Rightarrow> Inl (Inl e)
           | Inr (Some d) \<Rightarrow> Inl (Inr d)
           | Inr None \<Rightarrow> Inr (''HTTP '' @ str_nat status)))"

fun settle :: "(http_result \<Rightarrow> (py_error + pyval) + string) \<Rightarrow> string \<Rightarrow> http_result list \<Rightarrow> string option \<Rightarrow> py_error + pyval" where
  "settle v path [] last_error = Inl (retries_failed path last_error)"
| "settle v path (a # as) last_error = (case v a of Inl r \<Rightarrow> r | Inr e \<Rightarrow> settle v path as (Some e))"

fun calls_used :: "(http_result \<Rightarrow> (py_error + pyval) + string) \<Rightarrow> http_result list \<Rightarrow> nat" where
  "calls_used v [] = 0"
| "calls_used v (a # as) = Suc (case v a of Inl _ \<Rightarrow> 0 | Inr _ \<Rightarrow> calls_used v as)"

fun unauthorized :: "http_result \<Rightarrow> bool" where
  "unauthorized (Response status _) = (status = 401)"
| "unauthorized _ = False"

lemma calls_used_le: "calls_used v as \<le> length as"
  by (induction as) (auto split: sum.split)

text \<open>One turn of the loop against the reference.\<close>

definition after_answer :: "http_result \<Rightarrow> 'h \<Rightarrow> 'h upstox \<Rightarrow> 'h upstox" where
  "after_answer res h u = (if unauthorized res then u\<lparr>ux_net := h, ux_connected := False\<rparr> else u\<lparr>ux_net := h\<rparr>)"

definition paused :: "'h net \<Rightarrow> upstox_settings \<Rightarrow> nat \<Rightarrow> nat \<Rightarrow> 'h upstox \<Rightarrow> 'h upstox" where
  "paused net us n attempt u =
     (if n = 0 then u else u\<lparr>ux_net := net_sleep net (upstox_retry_backoff_seconds us * of_nat attempt) (ux_net u)\<rparr>)"

lemma request_step:
  assumes "respect_rate_limit net us u = Inr u1"
    and "net_send net \<lparr>rq_url = upstox_base_url us @ path, rq_params = params\<rparr> (ux_net u1) = (res, h)"
  shows "request_loop (handle_answer rt pick) net us path params (Suc n) attempt err u =
    (case verdict_on rt pick path res of
       Inl r \<Rightarrow> (r, after_answer res h u1)
     | Inr e \<Rightarrow> request_loop (handle_answer rt pick) net us path params n (Suc attempt) (Some e) (paused net us n attempt (after_answer res h u1)))"
  using assms
  by (cases res)
    (simp_all add: verdict_on_def handle_answer_def after_answer_def paused_def Let_def split: sum.split option.split)

definition same_caches :: "'h upstox \<Rightarrow> 'h upstox \<Rightarrow> bool" where
  "same_caches u u' \<longleftrightarrow> ux_symbol_cache u' = ux_symbol_cache u \<and> ux_fno_records u' = ux_fno_records u"

lemma request_loop_follows:
  assumes "scripted net script seen" "upstox_rate_limit_per_sec us \<noteq> 0"
    and "request_loop (handle_answer rt pick) net us path params n attempt err u = (r, u')"
  shows "let as = map script [seen (ux_net u)..<seen (ux_net u) + n]; v = verdict_on rt pick path
     in r = settle v path as err \<and> seen (ux_net u') = seen (ux_net u) + calls_used v as
      \<and> ux_connected u' = (ux_connected u \<and> \<not> list_ex unauthorized (take (calls_used v as) as)) \<and> same_caches u u'"
  using assms(3)
proof (induction n arbitrary: attempt err u)
  case 0
  then show ?case by (simp add: same_caches_def)
next
  case (Suc n)
  let ?v = "verdict_on rt pick path"
  obtain u1 where u1: "respect_rate_limit net us u = Inr u1" "seen (ux_net u1) = seen (ux_net u)" "ux_connected u1 = ux_connected u" "same_caches u u1"
    using assms(1,2) by (auto simp: respect_rate_limit_def Let_def scripted_def same_caches_def)
  obtain res h where sd: "net_send net \<lparr>rq_url = upstox_base_url us @ path, rq_params = params\<rparr> (ux_net u1) = (res, h)" by fastforce
  have res: "res = script (seen (ux_net u))" "seen h = Suc (seen (ux_net u))"
    using assms(1) sd u1(2) unfolding scripted_def by (metis fst_conv, metis snd_conv)
  have p: "seen (ux_net (paused net us n attempt w)) = seen (ux_net w)" "ux_connected (paused net us n attempt w) = ux_connected w"
    "same_caches w (paused net us n attempt w)" for w
    using assms(1) by (simp_all add: paused_def scripted_def same_caches_def)
  have up: "[seen (ux_net u)..<seen (ux_net u) + Suc n] = seen (ux_net u) # [Suc (seen (ux_net u))..<Suc (seen (ux_net u)) + n]"
    by (simp add: upt_conv_Cons del: upt_Suc)
  let ?u3 = "after_answer res h u1"
  have u3: "seen (ux_net ?u3) = Suc (seen (ux_net u))" "ux_connected ?u3 = (ux_connected u \<and> \<not> unauthorized res)" "same_caches u ?u3"
    using res(2) u1(3,4) by (simp_all add: after_answer_def same_caches_def)
  note step = Suc.prems [unfolded request_step [OF u1(1) sd]]
  show ?case
  proof (cases "?v res")
    case (Inl a)
    then show ?thesis unfolding up using step res(1) u3 by simp
  next
    case (Inr e)
    with step have l: "request_loop (handle_answer rt pick) net us path params n (Suc attempt) (Some e) (paused net us n attempt ?u3) = (r, u')"
      by simp
    from Suc.IH [OF l] show ?thesis
      unfolding up using Inr res(1) u3 p [of ?u3] by (auto simp: Let_def same_caches_def)
  qed
qed

lemma request_loop_rate:
  assumes "scripted net script seen" "clock_laws net" "0 < upstox_rate_limit_per_sec us"
    and "request_loop (handle_answer rt pick) net us path params n attempt err u = (r, u')"
  shows "seen (ux_net u) \<le> seen (ux_net u')
    \<and> of_nat (seen (ux_net u') - seen (ux_net u)) \<le> (ux_last_call u' - ux_last_call u) * upstox_rate_limit_per_sec us"
  using assms(4)
proof (induction n arbitrary: attempt err u)
  case 0
  then show ?case by simp
next
  case (Suc n)
  let ?rate = "upstox_rate_limit_per_sec us"
  obtain u1 where r1: "respect_rate_limit net us u = Inr u1" using assms(3) by (simp add: respect_rate_limit_def Let_def)
  have u1: "seen (ux_net u1) = seen (ux_net u)" "ux_last_call u + 1 / ?rate \<le> ux_last_call u1"
  proof -
    have sleep: "net_clock net k + d \<le> net_clock net (net_sleep net d k)" for d k using assms(2) unfolding clock_laws_def by blast
    have "net_clock net (ux_net u) + (1 / ?rate - (net_clock net (ux_net u) - ux_last_call u)) \<le>
        net_clock net (net_sleep net (1 / ?rate - (net_clock net (ux_net u) - ux_last_call u)) (ux_net u))" by (rule sleep)
    then show "ux_last_call u + 1 / ?rate \<le> ux_last_call u1"
      using r1 assms(3) by (auto simp: respect_rate_limit_def Let_def)
    show "seen (ux_net u1) = seen (ux_net u)"
      using r1 assms(1,3) by (auto simp: respect_rate_limit_def Let_def scripted_def)
  qed
  obtain res h where sd: "net_send net \<lparr>rq_url = upstox_base_url us @ path, rq_params = params\<rparr> (ux_net u1) = (res, h)" by fastforce
  have h: "seen h = Suc (seen (ux_net u))" using assms(1) sd u1(1) unfolding scripted_def by (metis snd_conv)
  have one: "1 \<le> (ux_last_call u1 - ux_last_call u) * ?rate"
    using u1(2) assms(3) by (simp add: field_simps)
  let ?u3 = "after_answer res h u1" let ?u4 = "paused net us n attempt ?u3"
  have w: "seen (ux_net ?u3) = Suc (seen (ux_net u))" "ux_last_call ?u3 = ux_last_call u1"
    "seen (ux_net ?u4) = Suc (seen (ux_net u))" "ux_last_call ?u4 = ux_last_call u1"
    using h assms(1) by (simp_all add: after_answer_def paused_def scripted_def)
  note step = Suc.prems [unfolded request_step [OF r1 sd]]
  show ?case
  proof (cases "verdict_on rt pick path res")
    case (Inl a)
    with step w one show ?thesis by simp
  next
    case (Inr e)
    with step have l: "request_loop (handle_answer rt pick) net us path params n (Suc attempt) (Some e) ?u4 = (r, u')" by simp
    note ih = Suc.IH [OF l, unfolded w]
    have "(of_nat (seen (ux_net u') - Suc (seen (ux_net u))) :: rat) = of_nat (seen (ux_net u')) - of_nat (seen (ux_net u)) - 1"
      using ih by (simp add: of_nat_diff)
    with ih one show ?thesis by (simp add: algebra_simps of_nat_diff)
  qed
qed

text \<open>C13: A REST call is the fold of its answers: the outcome is that of the first decisive one among at most
  \<open>upstox_max_retries\<close> answers, or the retry error with the last reason; nothing is sent after the decisive answer,
  a 401 marks the client disconnected and nothing else changes that flag, and the caches are untouched.\<close>

theorem request_follows_answers:
  assumes "scripted net script seen" "upstox_rate_limit_per_sec us \<noteq> 0"
  shows "let v = verdict_on rt as_object path;
             as = map script [seen (ux_net u)..<seen (ux_net u) + upstox_max_retries us];
             (r, u') = request rt net us path params u
         in r = settle v path as None
          \<and> seen (ux_net u') = seen (ux_net u) + calls_used v as \<and> calls_used v as \<le> upstox_max_retries us
          \<and> ux_connected u' = (ux_connected u \<and> \<not> list_ex unauthorized (take (calls_used v as) as))
          \<and> same_caches u u'"
proof -
  obtain r u' where q: "request rt net us path params u = (r, u')" by fastforce
  have "calls_used v (map script [k..<k + m]) \<le> m" for v k m using calls_used_le [of v "map script [k..<k + m]"] by simp
  with request_loop_follows [OF assms q [unfolded request_def handle_response_def]] q show ?thesis by (simp add: Let_def)
qed

text \<open>A sequence of calls through the one client.\<close>

definition run_requests ::
  "runtime \<Rightarrow> 'h net \<Rightarrow> upstox_settings \<Rightarrow> (bool \<times> string \<times> (string \<times> string) list) list \<Rightarrow> 'h upstox \<Rightarrow> 'h upstox" where
  "run_requests rt net us calls u =
     fold (\<lambda>(as_list, path, params) v. snd (if as_list then request_list rt net us path params v else request rt net us path params v)) calls u"

lemma run_requests_rate:
  assumes "scripted net script seen" "clock_laws net" "0 < upstox_rate_limit_per_sec us"
  shows "seen (ux_net u) \<le> seen (ux_net (run_requests rt net us calls u))
    \<and> of_nat (seen (ux_net (run_requests rt net us calls u)) - seen (ux_net u))
        \<le> (ux_last_call (run_requests rt net us calls u) - ux_last_call u) * upstox_rate_limit_per_sec us"
proof (induction calls arbitrary: u)
  case Nil
  then show ?case by (simp add: run_requests_def)
next
  case (Cons c calls)
  obtain as_list path params where c: "c = (as_list, path, params)" by (cases c)
  define w where "w = snd (if as_list then request_list rt net us path params u else request rt net us path params u)"
  have one: "seen (ux_net u) \<le> seen (ux_net w)
    \<and> of_nat (seen (ux_net w) - seen (ux_net u)) \<le> (ux_last_call w - ux_last_call u) * upstox_rate_limit_per_sec us"
    unfolding w_def request_def request_list_def handle_response_def handle_response_list_def
    by (cases as_list; simp only: if_True if_False; rule request_loop_rate [OF assms prod.collapse [symmetric]])
  have "run_requests rt net us (c # calls) u = run_requests rt net us calls w"
    by (simp add: run_requests_def c w_def)
  with one Cons.IH [of w] show ?case by (auto simp: algebra_simps of_nat_diff)
qed

text \<open>C23: The client keeps to the rate limit across retries and calls: from the last call before a sequence of requests to its
  last call at least the number of calls sent divided by the calls allowed per second has passed.\<close>

theorem calls_respect_rate_limit:
  assumes "scripted net script seen" "clock_laws net" "0 < upstox_rate_limit_per_sec us"
  shows "of_nat (seen (ux_net (run_requests rt net us calls u)) - seen (ux_net u))
    \<le> (ux_last_call (run_requests rt net us calls u) - ux_last_call u) * upstox_rate_limit_per_sec us"
  using run_requests_rate [OF assms] by blast

section \<open>Contracts and rows\<close>

lemma first_min_None: "first_min f xs = None \<longleftrightarrow> xs = []"
  by (cases xs) (auto split: option.splits)

lemma first_min_Some: "first_min f xs = Some x \<Longrightarrow> x \<in> set xs \<and> (\<forall>y \<in> set xs. f x \<le> f y)"
proof (induction xs arbitrary: x)
  case (Cons a xs)
  show ?case
  proof (cases "first_min f xs")
    case None
    with Cons.prems show ?thesis by (simp add: first_min_None)
  next
    case (Some y)
    with Cons.IH [OF Some] Cons.prems show ?thesis by (auto split: if_splits)
  qed
qed simp

text \<open>The contract used for open interest is a live one: it belongs to the underlying, has the requested type and an
  instrument key, has not expired, and no other such contract expires earlier; the answer is none exactly
  when the master has no such contract.\<close>

theorem nearest_contract_is_live:
  assumes "nearest_fno_contract net us now ty underlying u = (Inr c, u')"
  shows "\<exists>rs. ux_fno_records u' = Some rs \<and>
     (let live = {r \<in> set rs. field_of r ''underlying_symbol'' = PyStr underlying \<and> field_of r ''instrument_type'' = PyStr ty
                    \<and> live_expiry now r \<and> map_of r ''instrument_key'' \<noteq> None}
      in case c of
           None \<Rightarrow> live = {}
         | Some r \<Rightarrow> r \<in> live \<and> (\<forall>q \<in> live. the (expiry_of r) \<le> the (expiry_of q)))"
proof -
  obtain rs where rs: "all_fno_records net us u = (Inr rs, u')"
    "c = first_min (\<lambda>r. the (expiry_of r)) (contract_candidates now ty (fno_records_for underlying rs))"
    using assms by (auto simp: nearest_fno_contract_def split: prod.splits sum.splits)
  have cache: "ux_fno_records u' = Some rs"
    using rs(1) by (auto simp: all_fno_records_def Let_def split: option.splits prod.splits sum.splits)
  have live: "{r \<in> set rs. field_of r ''underlying_symbol'' = PyStr underlying \<and> field_of r ''instrument_type'' = PyStr ty
      \<and> live_expiry now r \<and> map_of r ''instrument_key'' \<noteq> None} = set (contract_candidates now ty (fno_records_for underlying rs))"
    by (auto simp: contract_candidates_def fno_records_for_def)
  show ?thesis
  proof (intro exI conjI)
    show "ux_fno_records u' = Some rs" by (rule cache)
    show "let live = {r \<in> set rs. field_of r ''underlying_symbol'' = PyStr underlying \<and> field_of r ''instrument_type'' = PyStr ty
        \<and> live_expiry now r \<and> map_of r ''instrument_key'' \<noteq> None}
      in case c of None \<Rightarrow> live = {} | Some r \<Rightarrow> r \<in> live \<and> (\<forall>q \<in> live. the (expiry_of r) \<le> the (expiry_of q))"
      unfolding live Let_def
    proof (cases c)
      case None
      with rs(2) [symmetric] show "case c of None \<Rightarrow> set (contract_candidates now ty (fno_records_for underlying rs)) = {}
          | Some r \<Rightarrow> r \<in> set (contract_candidates now ty (fno_records_for underlying rs))
              \<and> (\<forall>q \<in> set (contract_candidates now ty (fno_records_for underlying rs)). the (expiry_of r) \<le> the (expiry_of q))"
        by (simp add: first_min_None)
    next
      case (Some r)
      with first_min_Some [OF rs(2) [symmetric, unfolded Some]]
      show "case c of None \<Rightarrow> set (contract_candidates now ty (fno_records_for underlying rs)) = {}
          | Some r \<Rightarrow> r \<in> set (contract_candidates now ty (fno_records_for underlying rs))
              \<and> (\<forall>q \<in> set (contract_candidates now ty (fno_records_for underlying rs)). the (expiry_of r) \<le> the (expiry_of q))"
        by simp
    qed
  qed
qed

fun is_object :: "pyval \<Rightarrow> bool" where
  "is_object (PyDict _) = True"
| "is_object _ = False"

lemma and_then_simps [simp]: "and_then (Inl e) f = Inl e" "and_then (Inr v) f = f v"
  by (simp_all add: and_then_def)

lemma and_then_Inl: "and_then x f = Inl e \<longleftrightarrow> x = Inl e \<or> (\<exists>v. x = Inr v \<and> f v = Inl e)"
  by (cases x) auto

lemma item_errors: "item v i = Inl e \<Longrightarrow> \<not> is_object v \<Longrightarrow> e \<in> row_errors"
  by (cases v) (auto simp: row_errors_def split: if_splits)

lemma int_of_value_errors: "int_of_value v = Inl e \<Longrightarrow> e \<in> row_errors"
  by (cases v) (auto simp: row_errors_def split: option.splits)

lemma checked_errors: "checked x = Inl e \<Longrightarrow> e \<in> row_errors"
  by (cases x) (auto simp: checked_def row_errors_def)

lemma candle_of_row_errors:
  assumes "\<not> is_object row" "candle_of_row co row = Inl e"
  shows "e \<in> row_errors"
  using assms(2) item_errors [OF _ assms(1)] unfolding candle_of_row_def and_then_Inl
  by (auto dest: int_of_value_errors checked_errors)

lemma candle_of_object: "is_object row \<Longrightarrow> candle_of_row co row = Inl key_error"
  by (cases row) (simp_all add: candle_of_row_def)

definition readable_rows :: "(pyval \<Rightarrow> py_error + 'a) \<Rightarrow> pyval list \<Rightarrow> 'a list" where
  "readable_rows f rows = List.map_filter (\<lambda>r. case f r of Inl _ \<Rightarrow> None | Inr x \<Rightarrow> Some x) rows"

lemma readable_rows_simps:
  "readable_rows f [] = []" "readable_rows f (r # rs) = (case f r of Inl _ \<Rightarrow> readable_rows f rs | Inr x \<Rightarrow> x # readable_rows f rs)"
  by (simp_all add: readable_rows_def map_filter_simps split: sum.split)

lemma read_rows_total:
  assumes "\<forall>r \<in> set rows. \<forall>e. f r = Inl e \<longrightarrow> e \<in> skipped"
  shows "read_rows skipped f rows = Inr (readable_rows f rows)"
  using assms by (induction rows) (auto simp: readable_rows_simps split: sum.splits)

lemma read_rows_fatal:
  assumes "r \<in> set rows" "\<forall>r \<in> set rows. \<forall>e. f r = Inl e \<longrightarrow> e \<in> skipped \<or> e = err" "f r = Inl err" "err \<notin> skipped"
  shows "read_rows skipped f rows = Inl err"
  using assms(1,2)
proof (induction rows)
  case (Cons a rows)
  have ih: "read_rows skipped f rows = Inl err" if "r \<in> set rows" using Cons.IH [OF that] Cons.prems(2) by simp
  show ?case
  proof (cases "f a")
    case (Inl e)
    show ?thesis
    proof (cases "e \<in> skipped")
      case True
      with Inl assms(3,4) Cons.prems(1) have "r \<in> set rows" by auto
      from ih [OF this] True Inl show ?thesis by simp
    next
      case False
      with Inl Cons.prems(2) show ?thesis by simp
    qed
  next
    case (Inr x)
    with assms(3) Cons.prems(1) have "r \<in> set rows" by auto
    from ih [OF this] Inr show ?thesis by simp
  qed
qed simp


section \<open>An example\<close>

text \<open>A network that counts its calls and lets each take a second.\<close>

definition demo_contract :: "string \<Rightarrow> int \<Rightarrow> pyval" where
  "demo_contract key expiry = PyDict [(''segment'', PyStr ''NSE_FO''), (''underlying_symbol'', PyStr ''TCS''), (''instrument_type'', PyStr ''FUT''),
     (''expiry'', PyInt expiry), (''instrument_key'', PyStr key)]"

definition demo_master :: pyval where
  "demo_master = PyList [PyDict [(''segment'', PyStr ''NSE_EQ''), (''trading_symbol'', PyStr '' TCS ''), (''instrument_key'', PyStr ''T1'')],
     demo_contract ''F0'' 10, demo_contract ''F2'' 3000, demo_contract ''F1'' 2000, PyInt 7]"

definition demo_candle_row :: "pyval list" where
  "demo_candle_row = [PyInt 60, PyInt 1, PyInt 3, PyInt 1, PyInt 2, PyInt 10, PyInt 0]"

definition demo_answer :: "pyval \<Rightarrow> http_result" where
  "demo_answer data = Response 200 (Some (PyDict [(''status'', PyStr ''success''), (''data'', data)]))"

definition demo_script :: "nat \<Rightarrow> http_result" where
  "demo_script k = (if k = 0 then Timed_Out else if k = 1 then Response 503 None
     else demo_answer (PyDict [(''candles'', PyList [PyList demo_candle_row, PyNone, PyList []])]))"

definition demo_net :: "(nat \<times> rat) net" where
  "demo_net = \<lparr>net_clock = snd, net_sleep = (\<lambda>d (n, c). (n, c + max 0 d)),
     net_send = (\<lambda>rq (n, c). (demo_script n, (Suc n, c + 1))),
     net_fetch = (\<lambda>url h. (Fetched 200 (Unzipped (Some demo_master)), h))\<rparr>"

definition demo_pydantic :: pydantic where
  "demo_pydantic = \<lparr>co_decimal = number_of, co_time = (\<lambda>v. map_option cut_fraction (number_of v))\<rparr>"

lemma demo_net_laws: "scripted demo_net demo_script fst" "clock_laws demo_net"
  by (simp_all add: scripted_def clock_laws_def demo_net_def split_beta)

theorem request_follows_answers_witness:
  "fst (request demo_runtime demo_net default_upstox_settings ''/x'' [] (new_upstox (0, 0)))
     = Inr (PyDict [(''candles'', PyList [PyList demo_candle_row, PyNone, PyList []])])
   \<and> fst (ux_net (snd (request demo_runtime demo_net default_upstox_settings ''/x'' [] (new_upstox (0, 0))))) = 3"
proof -
  let ?as = "map demo_script [fst (ux_net (new_upstox (0::nat, 0::rat)))..<fst (ux_net (new_upstox (0::nat, 0::rat))) + upstox_max_retries default_upstox_settings]"
  let ?v = "verdict_on demo_runtime as_object ''/x''"
  have "upstox_rate_limit_per_sec default_upstox_settings \<noteq> 0" by (simp add: default_upstox_settings_def)
  from request_follows_answers [OF demo_net_laws(1) this, where u = "new_upstox (0, 0)" and rt = demo_runtime and path = "''/x''" and params = "[]"]
  have "fst (request demo_runtime demo_net default_upstox_settings ''/x'' [] (new_upstox (0, 0))) = settle ?v ''/x'' ?as None"
    "fst (ux_net (snd (request demo_runtime demo_net default_upstox_settings ''/x'' [] (new_upstox (0, 0))))) = fst (ux_net (new_upstox (0::nat, 0::rat))) + calls_used ?v ?as"
    by (simp_all add: Let_def split_beta)
  moreover have "settle ?v ''/x'' ?as None = Inr (PyDict [(''candles'', PyList [PyList demo_candle_row, PyNone, PyList []])])"
    "fst (ux_net (new_upstox (0::nat, 0::rat))) + calls_used ?v ?as = 3" by code_simp+
  ultimately show ?thesis by simp
qed

theorem calls_respect_rate_limit_witness:
  "0 < upstox_rate_limit_per_sec default_upstox_settings
   \<and> of_nat (fst (ux_net (run_requests demo_runtime demo_net default_upstox_settings [(False, ''/x'', []), (True, ''/y'', [])] (new_upstox (0, 0)))) - 0)
      \<le> (ux_last_call (run_requests demo_runtime demo_net default_upstox_settings [(False, ''/x'', []), (True, ''/y'', [])] (new_upstox (0, 0))) - 0)
         * upstox_rate_limit_per_sec default_upstox_settings"
proof -
  have r: "0 < upstox_rate_limit_per_sec default_upstox_settings" by (simp add: default_upstox_settings_def)
  have z: "fst (ux_net (new_upstox (0::nat, 0::rat))) = 0" "ux_last_call (new_upstox (0::nat, 0::rat)) = 0" by (simp_all add: new_upstox_def)
  show ?thesis
    using r calls_respect_rate_limit [OF demo_net_laws r, of demo_runtime "[(False, ''/x'', []), (True, ''/y'', [])]" "new_upstox (0, 0)"]
    unfolding z by blast
qed

theorem nearest_contract_is_live_witness:
  "\<exists>r u'. nearest_fno_contract demo_net default_upstox_settings 1500000 ''FUT'' ''TCS'' (new_upstox (0, 0)) = (Inr (Some r), u')
     \<and> field_of r ''instrument_key'' = PyStr ''F1'' \<and> live_expiry 1500000 r"
proof -
  let ?q = "nearest_fno_contract demo_net default_upstox_settings 1500000 ''FUT'' ''TCS'' (new_upstox (0, 0))"
  have "map_option (\<lambda>r. field_of r ''instrument_key'') (case fst ?q of Inl _ \<Rightarrow> None | Inr c \<Rightarrow> c) = Some (PyStr ''F1'')" by code_simp
  then obtain r u' where q: "?q = (Inr (Some r), u')" "field_of r ''instrument_key'' = PyStr ''F1''"
    by (cases ?q) (auto split: sum.splits)
  from nearest_contract_is_live [OF q(1)] have "live_expiry 1500000 r" by (auto simp: Let_def)
  with q show ?thesis by blast
qed


end
