(* ===== verification/Indicators.thy ===== *)
theory Indicators
  imports Rrg
begin

text \<open>
  Technical indicators: app/features/indicators.py. A series is a list with \<open>None\<close> for NaN; arithmetic and
  comparisons are elementwise. The window, cumulative and filling operations of pandas and the fit of numpy are
  parameters, the fields of \<open>window_ops\<close>. \<open>settled\<close> says that a column computed from a price history does
  not change for the old bars when newer bars are added.
\<close>

section \<open>Series\<close>

type_synonym series = "rat option list"

record window_ops = frame_ops +
  wo_roll_max :: "nat \<Rightarrow> series \<Rightarrow> series"
  wo_roll_min :: "nat \<Rightarrow> series \<Rightarrow> series"
  wo_roll_sum :: "nat \<Rightarrow> series \<Rightarrow> series"
  wo_roll_apply :: "nat \<Rightarrow> (rat list \<Rightarrow> rat) \<Rightarrow> series \<Rightarrow> series"
  wo_centered_max :: "nat \<Rightarrow> series \<Rightarrow> series"
  wo_centered_min :: "nat \<Rightarrow> series \<Rightarrow> series"
  wo_ewm :: "rat \<Rightarrow> nat \<Rightarrow> series \<Rightarrow> series"
  wo_cumsum :: "series \<Rightarrow> series"
  wo_ffill :: "series \<Rightarrow> series"
  wo_polyfit :: "rat list \<Rightarrow> rat list \<Rightarrow> rat \<times> rat"
  wo_argmin :: "rat list \<Rightarrow> nat"

text \<open>Elementwise arithmetic; \<open>x / y.replace(0, nan)\<close> is \<open>s_div\<close>.\<close>

definition s_add where "s_add = series2 (nan_lift (+))"
definition s_sub where "s_sub = series2 (nan_lift (-))"
definition s_mul where "s_mul = series2 (nan_lift (*))"
definition s_div where "s_div = series2 nan_divide"

definition s_map :: "(rat \<Rightarrow> rat) \<Rightarrow> series \<Rightarrow> series" where
  "s_map f s = map (map_option f) s"

definition s_fill :: "rat \<Rightarrow> series \<Rightarrow> series" where
  "s_fill v s = map (\<lambda>x. Some (opt_else x v)) s"

definition s_cmp :: "(rat \<Rightarrow> rat \<Rightarrow> bool) \<Rightarrow> series \<Rightarrow> series \<Rightarrow> bool list" where
  "s_cmp r xs ys = map (\<lambda>(x, y). case (x, y) of (Some a, Some b) \<Rightarrow> r a b | _ \<Rightarrow> False) (zip xs ys)"

definition s_test :: "(rat \<Rightarrow> bool) \<Rightarrow> series \<Rightarrow> bool list" where
  "s_test p s = map (\<lambda>x. case x of None \<Rightarrow> False | Some v \<Rightarrow> p v) s"

definition b_and :: "bool list \<Rightarrow> bool list \<Rightarrow> bool list" where
  "b_and xs ys = map (\<lambda>(x, y). x \<and> y) (zip xs ys)"

definition b_not :: "bool list \<Rightarrow> bool list" where
  "b_not xs = map Not xs"

definition s_where :: "bool list \<Rightarrow> series \<Rightarrow> series" where
  "s_where bs s = map (\<lambda>(b, x). if b then x else None) (zip bs s)"

text \<open>\<open>shift(k, fill_value=v)\<close>\<close>

definition shifted :: "'a \<Rightarrow> nat \<Rightarrow> 'a list \<Rightarrow> 'a list" where
  "shifted v k s = take (length s) (replicate k v @ s)"

section \<open>The indicators\<close>

definition sma :: "window_ops \<Rightarrow> series \<Rightarrow> nat \<Rightarrow> series" where
  "sma ops s period = fo_rolling_mean ops period s"

definition ema :: "window_ops \<Rightarrow> series \<Rightarrow> nat \<Rightarrow> series" where
  "ema ops s periods = wo_ewm ops (2 / (of_nat periods + 1)) periods s"

definition wilder_smooth :: "window_ops \<Rightarrow> series \<Rightarrow> nat \<Rightarrow> series" where
  "wilder_smooth ops s period = wo_ewm ops (1 / of_nat period) period s"

text \<open>\<open>concat(...).max(axis=1)\<close> skips NaN.\<close>

definition max_skip :: "rat option \<Rightarrow> rat option \<Rightarrow> rat option" where
  "max_skip x y = (case x of None \<Rightarrow> y | Some a \<Rightarrow> (case y of None \<Rightarrow> x | Some b \<Rightarrow> Some (max a b)))"

definition true_range :: "series \<Rightarrow> series \<Rightarrow> series \<Rightarrow> series" where
  "true_range high low close =
     (let prev_close = shifted None 1 close
      in series2 max_skip (s_sub high low)
           (series2 max_skip (s_map abs (s_sub high prev_close)) (s_map abs (s_sub low prev_close))))"

definition atr :: "window_ops \<Rightarrow> series \<Rightarrow> series \<Rightarrow> series \<Rightarrow> nat \<Rightarrow> series" where
  "atr ops high low close period = wilder_smooth ops (true_range high low close) period"

definition rsi :: "window_ops \<Rightarrow> series \<Rightarrow> nat \<Rightarrow> series" where
  "rsi ops close period =
     (let delta = fo_diff ops 1 close;
          avg_gain = wilder_smooth ops (s_map (max 0) delta) period;
          avg_loss = wilder_smooth ops (s_map (\<lambda>x. - min 0 x) delta) period;
          rs = s_div avg_gain avg_loss;
          result = s_map (\<lambda>q. 100 - q) (map (\<lambda>x. nan_divide (Some 100) x) (s_map (\<lambda>x. 1 + x) rs))
      in map (\<lambda>(x, l). if l = Some 0 then Some 100 else x) (zip result avg_loss))"

definition macd :: "window_ops \<Rightarrow> series \<Rightarrow> series \<times> series \<times> series" where
  "macd ops close =
     (let macd_line = s_sub (ema ops close 12) (ema ops close 26);
          signal_line = ema ops macd_line 9
      in (macd_line, signal_line, s_sub macd_line signal_line))"

definition directional_move :: "series \<Rightarrow> series \<Rightarrow> series" where
  "directional_move move other = map (\<lambda>(b, x). if b then x else Some 0) (zip (b_and (s_cmp (>) move other) (s_test (\<lambda>x. x > 0) move)) move)"

definition adx :: "window_ops \<Rightarrow> series \<Rightarrow> series \<Rightarrow> series \<Rightarrow> nat \<Rightarrow> series \<times> series \<times> series" where
  "adx ops high low close period =
     (let up_move = fo_diff ops 1 high;
          down_move = s_map uminus (fo_diff ops 1 low);
          atr_value = atr ops high low close period;
          plus_di = s_div (s_map (\<lambda>x. 100 * x) (wilder_smooth ops (directional_move up_move down_move) period)) atr_value;
          minus_di = s_div (s_map (\<lambda>x. 100 * x) (wilder_smooth ops (directional_move down_move up_move) period)) atr_value;
          dx = s_div (s_map (\<lambda>x. 100 * x) (s_map abs (s_sub plus_di minus_di))) (s_add plus_di minus_di)
      in (wilder_smooth ops (s_fill 0 dx) period, plus_di, minus_di))"

definition bollinger_bands :: "window_ops \<Rightarrow> series \<Rightarrow> nat \<Rightarrow> rat \<Rightarrow> series \<times> series \<times> series" where
  "bollinger_bands ops close period num_std =
     (let middle = sma ops close period;
          width = s_map (\<lambda>x. num_std * x) (fo_rolling_std ops period close)
      in (s_add middle width, middle, s_sub middle width))"

definition keltner_channels ::
  "window_ops \<Rightarrow> series \<Rightarrow> series \<Rightarrow> series \<Rightarrow> nat \<Rightarrow> nat \<Rightarrow> rat \<Rightarrow> series \<times> series \<times> series" where
  "keltner_channels ops high low close period atr_period multiplier =
     (let middle = ema ops close period;
          width = s_map (\<lambda>x. multiplier * x) (atr ops high low close atr_period)
      in (s_add middle width, middle, s_sub middle width))"

definition obv :: "window_ops \<Rightarrow> series \<Rightarrow> series \<Rightarrow> series" where
  "obv ops close volume = wo_cumsum ops (s_mul (s_map sgn (s_fill 0 (fo_diff ops 1 close))) volume)"

definition typical_price :: "rat \<Rightarrow> rat \<Rightarrow> rat \<Rightarrow> rat" where
  "typical_price high low close = (high + low + close) / 3"

definition swing_points :: "window_ops \<Rightarrow> series \<Rightarrow> series \<Rightarrow> nat \<Rightarrow> bool list \<times> bool list" where
  "swing_points ops high low window =
     (let width = 2 * window + 1
      in (s_cmp (=) high (wo_centered_max ops width high), s_cmp (=) low (wo_centered_min ops width low)))"

section \<open>No look-ahead\<close>

text \<open>A series operation whose value at a bar depends on the bars up to it.\<close>

definition causal :: "('a list \<Rightarrow> 'b list) \<Rightarrow> bool" where
  "causal f \<longleftrightarrow> (\<forall>s. length (f s) = length s) \<and> (\<forall>n s. f (take n s) = take n (f s))"

definition settled :: "('p list \<Rightarrow> 'a list) \<Rightarrow> bool" where
  "settled f \<longleftrightarrow> (\<forall>ps. length (f ps) = length ps) \<and> (\<forall>n ps. f (take n ps) = take n (f ps))"

definition ops_causal :: "window_ops \<Rightarrow> bool" where
  "ops_causal ops \<longleftrightarrow>
     (\<forall>w. causal (fo_rolling_mean ops w) \<and> causal (fo_rolling_std ops w) \<and> causal (fo_pct_change ops w)
        \<and> causal (fo_diff ops w) \<and> causal (wo_roll_max ops w) \<and> causal (wo_roll_min ops w) \<and> causal (wo_roll_sum ops w)
        \<and> (\<forall>g. causal (wo_roll_apply ops w g)) \<and> (\<forall>a. causal (wo_ewm ops a w)))
   \<and> causal (wo_cumsum ops) \<and> causal (wo_ffill ops) \<and> (\<forall>bench. causal (fo_reindex ops bench))"

named_theorems settled_intros

lemma settled_causal: "causal f \<Longrightarrow> settled g \<Longrightarrow> settled (\<lambda>ps. f (g ps))"
  by (simp add: causal_def settled_def)

lemma settled_map [settled_intros]: "settled g \<Longrightarrow> settled (\<lambda>ps. map h (g ps))"
  by (simp add: settled_def take_map)

lemma settled_id: "settled (\<lambda>ps. ps)"
  by (simp add: settled_def)

lemma settled_zip [settled_intros]: "settled f \<Longrightarrow> settled g \<Longrightarrow> settled (\<lambda>ps. zip (f ps) (g ps))"
  by (simp add: settled_def take_zip)

lemma settled_shifted [settled_intros]: "settled g \<Longrightarrow> settled (\<lambda>ps. shifted v k (g ps))"
proof -
  assume g: "settled g"
  have "take (min m n) (replicate k v @ take n s) = take (min m n) (replicate k v @ s)" for m n and s :: "'b list"
  proof -
    have "min (min m n - k) n = min m n - k" by simp
    then show ?thesis by (simp add: take_append)
  qed
  then have "shifted v k (take n s) = take n (shifted v k s)" for n and s :: "'b list"
    unfolding shifted_def length_take take_take by (simp only: min.commute [of n])
  moreover have "length (shifted v k s) = length s" for s :: "'b list" by (simp add: shifted_def)
  ultimately show ?thesis using g by (simp add: settled_def)
qed

lemma settled_elementwise [settled_intros]:
  "settled f \<Longrightarrow> settled (\<lambda>ps. s_map h (f ps))"
  "settled f \<Longrightarrow> settled (\<lambda>ps. s_fill v (f ps))"
  "settled f \<Longrightarrow> settled (\<lambda>ps. s_test p (f ps))"
  "settled b \<Longrightarrow> settled (\<lambda>ps. b_not (b ps))"
  "settled f \<Longrightarrow> settled g \<Longrightarrow> settled (\<lambda>ps. series2 q (f ps) (g ps))"
  "settled f \<Longrightarrow> settled g \<Longrightarrow> settled (\<lambda>ps. s_add (f ps) (g ps))"
  "settled f \<Longrightarrow> settled g \<Longrightarrow> settled (\<lambda>ps. s_sub (f ps) (g ps))"
  "settled f \<Longrightarrow> settled g \<Longrightarrow> settled (\<lambda>ps. s_mul (f ps) (g ps))"
  "settled f \<Longrightarrow> settled g \<Longrightarrow> settled (\<lambda>ps. s_div (f ps) (g ps))"
  "settled f \<Longrightarrow> settled g \<Longrightarrow> settled (\<lambda>ps. s_cmp r (f ps) (g ps))"
  "settled b \<Longrightarrow> settled c \<Longrightarrow> settled (\<lambda>ps. b_and (b ps) (c ps))"
  "settled b \<Longrightarrow> settled f \<Longrightarrow> settled (\<lambda>ps. s_where (b ps) (f ps))"
  by (simp_all add: s_map_def s_fill_def s_test_def b_not_def series2_def s_add_def s_sub_def s_mul_def s_div_def
      s_cmp_def b_and_def s_where_def settled_map settled_zip)

text \<open>The operations of pandas that look back only.\<close>

lemma settled_ops:
  assumes "ops_causal ops" "settled f"
  shows "settled (\<lambda>ps. fo_rolling_mean ops w (f ps))" "settled (\<lambda>ps. fo_rolling_std ops w (f ps))"
    "settled (\<lambda>ps. fo_pct_change ops w (f ps))" "settled (\<lambda>ps. fo_diff ops w (f ps))"
    "settled (\<lambda>ps. wo_roll_max ops w (f ps))" "settled (\<lambda>ps. wo_roll_min ops w (f ps))" "settled (\<lambda>ps. wo_roll_sum ops w (f ps))"
    "settled (\<lambda>ps. wo_roll_apply ops w h (f ps))" "settled (\<lambda>ps. wo_ewm ops a w (f ps))"
    "settled (\<lambda>ps. wo_cumsum ops (f ps))" "settled (\<lambda>ps. wo_ffill ops (f ps))"
  using assms by (simp_all add: ops_causal_def settled_causal)

lemma settled_reindex:
  assumes "ops_causal ops" "settled f"
  shows "settled (\<lambda>ps. fo_reindex ops bench (f ps))"
  using assms by (simp add: ops_causal_def settled_causal)

text \<open>The indicators look back only.\<close>

lemma settled_smooth:
  assumes "ops_causal ops" "settled f"
  shows "settled (\<lambda>ps. sma ops (f ps) n)" "settled (\<lambda>ps. ema ops (f ps) n)" "settled (\<lambda>ps. wilder_smooth ops (f ps) n)"
  using settled_ops [OF assms] by (simp_all add: sma_def ema_def wilder_smooth_def)

lemma settled_true_range [settled_intros]:
  "settled h \<Longrightarrow> settled l \<Longrightarrow> settled c \<Longrightarrow> settled (\<lambda>ps. true_range (h ps) (l ps) (c ps))"
  unfolding true_range_def Let_def by (intro settled_intros)

lemma settled_atr:
  "ops_causal ops \<Longrightarrow> settled h \<Longrightarrow> settled l \<Longrightarrow> settled c \<Longrightarrow> settled (\<lambda>ps. atr ops (h ps) (l ps) (c ps) n)"
  unfolding atr_def by (intro settled_smooth settled_intros)

lemma settled_rsi: "ops_causal ops \<Longrightarrow> settled c \<Longrightarrow> settled (\<lambda>ps. rsi ops (c ps) n)"
  unfolding rsi_def Let_def by (intro settled_intros settled_smooth settled_ops)

lemma settled_macd:
  assumes "ops_causal ops" "settled c"
  shows "settled (\<lambda>ps. fst (macd ops (c ps)))" "settled (\<lambda>ps. fst (snd (macd ops (c ps))))" "settled (\<lambda>ps. snd (snd (macd ops (c ps))))"
  unfolding macd_def Let_def fst_conv snd_conv
  by (atomize(full), insert assms, intro conjI settled_intros settled_smooth)

lemma settled_directional [settled_intros]: "settled f \<Longrightarrow> settled g \<Longrightarrow> settled (\<lambda>ps. directional_move (f ps) (g ps))"
  unfolding directional_move_def by (intro settled_intros)

lemma settled_adx:
  assumes "ops_causal ops" "settled h" "settled l" "settled c"
  shows "settled (\<lambda>ps. fst (adx ops (h ps) (l ps) (c ps) n))" "settled (\<lambda>ps. fst (snd (adx ops (h ps) (l ps) (c ps) n)))"
    "settled (\<lambda>ps. snd (snd (adx ops (h ps) (l ps) (c ps) n)))"
  unfolding adx_def Let_def fst_conv snd_conv
  by (atomize(full), insert assms, intro conjI settled_intros settled_smooth settled_ops settled_atr)

lemma settled_bands:
  assumes "ops_causal ops" "settled c"
  shows "settled (\<lambda>ps. fst (bollinger_bands ops (c ps) n k))" "settled (\<lambda>ps. fst (snd (bollinger_bands ops (c ps) n k)))"
    "settled (\<lambda>ps. snd (snd (bollinger_bands ops (c ps) n k)))"
  unfolding bollinger_bands_def Let_def fst_conv snd_conv
  by (atomize(full), insert assms, intro conjI settled_intros settled_smooth settled_ops)

lemma settled_channels:
  assumes "ops_causal ops" "settled h" "settled l" "settled c"
  shows "settled (\<lambda>ps. fst (keltner_channels ops (h ps) (l ps) (c ps) n m k))"
    "settled (\<lambda>ps. fst (snd (keltner_channels ops (h ps) (l ps) (c ps) n m k)))"
    "settled (\<lambda>ps. snd (snd (keltner_channels ops (h ps) (l ps) (c ps) n m k)))"
  unfolding keltner_channels_def Let_def fst_conv snd_conv
  by (atomize(full), insert assms, intro conjI settled_intros settled_smooth settled_atr)

lemma settled_obv: "ops_causal ops \<Longrightarrow> settled c \<Longrightarrow> settled v \<Longrightarrow> settled (\<lambda>ps. obv ops (c ps) (v ps))"
  unfolding obv_def by (intro settled_intros settled_ops)

end
