(* ===== verification/Feature_Calculators.thy ===== *)
theory Feature_Calculators
  imports Indicators
begin

text \<open>
  The daily feature calculators app/features/*/calculator.py, their combination app/features/calculator.py and
  the cleaning of app/features/validator.py. A calculator maps a price history, oldest bar first, to named
  columns with one cell per bar. All columns but those of the centered swing points look back only.
\<close>

section \<open>Columns\<close>

type_synonym columns = "(string \<times> pyval list) list"

definition highs where "highs ps = map (\<lambda>p. Some (dp_high p)) ps"
definition lows where "lows ps = map (\<lambda>p. Some (dp_low p)) ps"
definition closes where "closes ps = map (\<lambda>p. Some (dp_close p)) ps"
definition volumes where "volumes ps = map (\<lambda>p. Some (of_int (dp_volume p) :: rat)) ps"

definition num :: "series \<Rightarrow> pyval list" where
  "num s = map (\<lambda>x. case x of None \<Rightarrow> PyNone | Some v \<Rightarrow> PyFloat v) s"

definition flag :: "bool list \<Rightarrow> pyval list" where
  "flag bs = map PyBool bs"

section \<open>Trend\<close>

definition trend_columns :: "window_ops \<Rightarrow> daily_price list \<Rightarrow> columns" where
  "trend_columns ops ps =
     (let close = closes ps;
          ema20 = ema ops close 20; ema50 = ema ops close 50; ema200 = ema ops close 200;
          uptrend = b_and (b_and (s_cmp (>) close ema20) (s_cmp (>) ema20 ema50)) (s_cmp (>) ema50 ema200);
          downtrend = b_and (b_and (s_cmp (<) close ema20) (s_cmp (<) ema20 ema50)) (s_cmp (<) ema50 ema200);
          spread_pct = s_map (\<lambda>x. x * 100) (s_div (s_map abs (s_sub ema20 ema200)) close);
          above = s_cmp (>) ema50 ema200;
          prev_above = shifted False 1 above
      in [(''ema20'', num ema20), (''ema50'', num ema50), (''ema200'', num ema200), (''sma20'', num (sma ops close 20)),
          (''trend_direction'', map (\<lambda>(u, d). PyStr (if u then ''up'' else if d then ''down'' else ''sideways'')) (zip uptrend downtrend)),
          (''trend_strength'', num (s_map (\<lambda>x. min 100 (x * 10)) spread_pct)),
          (''golden_cross'', flag (b_and above (b_not prev_above))),
          (''death_cross'', flag (b_and (b_not above) prev_above))])"

section \<open>Momentum\<close>

definition momentum_columns :: "window_ops \<Rightarrow> daily_price list \<Rightarrow> columns" where
  "momentum_columns ops ps =
     (let high = highs ps; low = lows ps; close = closes ps;
          rsi14 = rsi ops close 14;
          m = macd ops close;
          a = adx ops high low close 14;
          macd_hist_pct = s_map (\<lambda>x. x * 100) (s_div (snd (snd m)) close);
          momentum_score = s_map (clamp (- 100) 100)
            (s_add (s_map (\<lambda>r. 1 / 2 * (r - 50) * 2) rsi14) (s_map (\<lambda>p. 1 / 2 * clamp (- 100) 100 (p * 50)) macd_hist_pct))
      in [(''rsi14'', num rsi14), (''macd_line'', num (fst m)), (''macd_signal'', num (fst (snd m))),
          (''macd_histogram'', num (snd (snd m))), (''adx14'', num (fst a)), (''plus_di14'', num (fst (snd a))),
          (''minus_di14'', num (snd (snd a))), (''momentum_score'', num momentum_score)])"

section \<open>Volatility\<close>

definition volatility_columns :: "window_ops \<Rightarrow> daily_price list \<Rightarrow> columns" where
  "volatility_columns ops ps =
     (let high = highs ps; low = lows ps; close = closes ps;
          atr14 = atr ops high low close 14;
          atr_avg20 = fo_rolling_mean ops 20 atr14;
          bb = bollinger_bands ops close 20 2;
          bb_width = s_map (\<lambda>x. x * 100) (s_div (s_sub (fst bb) (snd (snd bb))) (fst (snd bb)));
          kc = keltner_channels ops high low close 20 10 2
      in [(''atr14'', num atr14),
          (''atr_expansion'', flag (s_cmp (>) atr14 (s_map (\<lambda>x. x * (12 / 10)) atr_avg20))),
          (''atr_contraction'', flag (s_cmp (<) atr14 (s_map (\<lambda>x. x * (8 / 10)) atr_avg20))),
          (''bb_upper'', num (fst bb)), (''bb_middle'', num (fst (snd bb))), (''bb_lower'', num (snd (snd bb))),
          (''bb_width'', num bb_width),
          (''kc_upper'', num (fst kc)), (''kc_middle'', num (fst (snd kc))), (''kc_lower'', num (snd (snd kc))),
          (''volatility_squeeze'', flag (b_and (s_cmp (<) (fst bb) (fst kc)) (s_cmp (>) (snd (snd bb)) (snd (snd kc)))))])"

section \<open>Volume\<close>

definition volume_share :: "window_ops \<Rightarrow> series \<Rightarrow> series \<Rightarrow> series" where
  "volume_share ops flow volume =
     s_map (clamp 0 100) (s_map (\<lambda>x. x * 100)
       (s_div (wo_roll_sum ops 20 (s_map (max 0) flow)) (wo_roll_sum ops 20 volume)))"

definition volume_columns :: "window_ops \<Rightarrow> daily_price list \<Rightarrow> columns" where
  "volume_columns ops ps =
     (let high = highs ps; low = lows ps; close = closes ps; volume = volumes ps;
          volume_ma20 = sma ops volume 20;
          relative_volume = s_div volume volume_ma20;
          money_flow_multiplier = s_div (s_sub (s_sub close low) (s_sub high close)) (s_sub high low);
          money_flow_volume = s_mul (s_fill 0 money_flow_multiplier) volume
      in [(''volume_ma20'', num volume_ma20), (''relative_volume'', num relative_volume), (''obv'', num (obv ops close volume)),
          (''volume_spike'', flag (s_test (\<lambda>x. x > 2) relative_volume)),
          (''volume_dry_up'', flag (s_test (\<lambda>x. x < 1 / 2) relative_volume)),
          (''accumulation_score'', num (volume_share ops money_flow_volume volume)),
          (''distribution_score'', num (volume_share ops (s_map uminus money_flow_volume) volume))])"

section \<open>Price action\<close>

definition price_action_columns :: "window_ops \<Rightarrow> daily_price list \<Rightarrow> columns" where
  "price_action_columns ops ps =
     (let high = highs ps; low = lows ps; close = closes ps;
          prev_high = shifted None 1 high; prev_low = shifted None 1 low;
          higher_high = s_cmp (>) high prev_high; higher_low = s_cmp (>) low prev_low;
          lower_high = s_cmp (<) high prev_high; lower_low = s_cmp (<) low prev_low;
          bos_bullish = s_cmp (>) close (wo_roll_max ops 20 prev_high);
          bos_bearish = s_cmp (<) close (wo_roll_min ops 20 prev_low);
          bar_range = s_sub high low
      in [(''higher_high'', flag higher_high), (''higher_low'', flag higher_low),
          (''lower_high'', flag lower_high), (''lower_low'', flag lower_low),
          (''break_of_structure'', map (\<lambda>(u, d). if d then PyStr ''bearish'' else if u then PyStr ''bullish'' else PyNone) (zip bos_bullish bos_bearish)),
          (''inside_bar'', flag (b_and lower_high higher_low)), (''outside_bar'', flag (b_and higher_high lower_low)),
          (''gap_up'', flag (s_cmp (>) low prev_high)), (''gap_down'', flag (s_cmp (<) high prev_low)),
          (''nr4'', flag (s_cmp (=) bar_range (wo_roll_min ops 4 bar_range))),
          (''nr7'', flag (s_cmp (=) bar_range (wo_roll_min ops 7 bar_range)))])"

section \<open>Market structure\<close>

text \<open>\<open>x = arange(len(values))\<close> and the value of the fitted line at the last point.\<close>

definition arange :: "nat \<Rightarrow> rat list" where
  "arange n = map of_nat [0..<n]"

definition regression_line_value :: "window_ops \<Rightarrow> rat list \<Rightarrow> rat" where
  "regression_line_value ops values =
     (let (slope, intercept) = wo_polyfit ops (arange (length values)) values
      in slope * (of_nat (length values) - 1) + intercept)"

definition width_pct :: "window_ops \<Rightarrow> series \<Rightarrow> series \<Rightarrow> series \<Rightarrow> nat \<Rightarrow> series" where
  "width_pct ops high low close w =
     s_map (\<lambda>x. x * 100) (s_div (s_sub (wo_roll_max ops w high) (wo_roll_min ops w low)) close)"

text \<open>\<open>groupby((~flag).cumsum()).cumcount() + 1\<close>, 0 outside the streak.\<close>

definition running_count :: "bool list \<Rightarrow> nat list" where
  "running_count bs = map (\<lambda>i. length (filter id (take (Suc i) bs))) [0..<length bs]"

definition earlier_equal :: "nat list \<Rightarrow> nat list" where
  "earlier_equal ids = map (\<lambda>i. length (filter ((=) (ids ! i)) (take i ids))) [0..<length ids]"

definition base_length :: "bool list \<Rightarrow> int list" where
  "base_length flags = map (\<lambda>(b, k). if b then int k + 1 else 0) (zip flags (earlier_equal (running_count (b_not flags))))"

definition structure_columns :: "window_ops \<Rightarrow> daily_price list \<Rightarrow> columns" where
  "structure_columns ops ps =
     (let high = highs ps; low = lows ps; close = closes ps;
          swing = swing_points ops high low 2;
          regression_line = wo_roll_apply ops 20 (regression_line_value ops) close;
          spread = s_map (\<lambda>x. 2 * x) (fo_rolling_std ops 20 close);
          range_width_pct = width_pct ops high low close 20;
          is_consolidation = s_test (\<lambda>x. x < 8) (width_pct ops high low close 10)
      in [(''swing_high'', num (wo_ffill ops (s_where (fst swing) high))),
          (''swing_low'', num (wo_ffill ops (s_where (snd swing) low))),
          (''trend_channel_upper'', num (s_add regression_line spread)),
          (''trend_channel_lower'', num (s_sub regression_line spread)),
          (''is_range'', flag (s_test (\<lambda>x. x < 15) range_width_pct)),
          (''is_consolidation'', flag is_consolidation),
          (''base_length_days'', map PyInt (base_length is_consolidation)),
          (''range_width_pct'', num range_width_pct)])"

section \<open>Support and resistance\<close>

definition support_resistance_columns :: "window_ops \<Rightarrow> daily_price list \<Rightarrow> columns" where
  "support_resistance_columns ops ps =
     (let high = highs ps; low = lows ps; close = closes ps;
          resistance_level = wo_roll_max ops 20 high;
          pivot_point = s_map (\<lambda>x. x / 3) (s_add (s_add (shifted None 1 high) (shifted None 1 low)) (shifted None 1 close));
          swing = swing_points ops high low 2;
          swing_high = wo_ffill ops (s_where (fst swing) high);
          swing_low = wo_ffill ops (s_where (snd swing) low);
          move = s_sub swing_high swing_low
      in [(''support_level'', num (wo_roll_min ops 20 low)), (''resistance_level'', num resistance_level),
          (''pivot_point'', num pivot_point), (''breakout_level'', num resistance_level),
          (''pullback_zone_low'', num (s_sub swing_high (s_map (\<lambda>x. 1 / 2 * x) move))),
          (''pullback_zone_high'', num (s_sub swing_high (s_map (\<lambda>x. 382 / 1000 * x) move)))])"

section \<open>Patterns\<close>

definition rolling_slope :: "window_ops \<Rightarrow> series \<Rightarrow> nat \<Rightarrow> series" where
  "rolling_slope ops s w = wo_roll_apply ops w (\<lambda>values. fst (wo_polyfit ops (arange (length values)) values)) s"

definition pattern_columns :: "window_ops \<Rightarrow> daily_price list \<Rightarrow> columns" where
  "pattern_columns ops ps =
     (let high = highs ps; low = lows ps; close = closes ps;
          triangle = b_and (s_test (\<lambda>x. x < 0) (rolling_slope ops high 15)) (s_test (\<lambda>x. x > 0) (rolling_slope ops low 15));
          impulse_return = shifted None 5 (fo_pct_change ops 10 close);
          flag_range_pct = width_pct ops high low close 5;
          flag_slope = rolling_slope ops close 5;
          bull_flag = b_and (b_and (s_test (\<lambda>x. x > 15 / 100) impulse_return) (s_test (\<lambda>x. x < 10) flag_range_pct)) (s_test (\<lambda>x. x \<le> 0) flag_slope);
          bear_flag = b_and (b_and (s_test (\<lambda>x. x < - (15 / 100)) impulse_return) (s_test (\<lambda>x. x < 10) flag_range_pct)) (s_test (\<lambda>x. x \<ge> 0) flag_slope);
          base_range_pct = width_pct ops high low close 15;
          near_base_highs = s_cmp (\<ge>) close (s_map (\<lambda>x. x * (90 / 100)) (wo_roll_max ops 15 high));
          flat_base = b_and (s_test (\<lambda>x. x < 15) base_range_pct) near_base_highs;
          rectangle = b_and (s_test (\<lambda>x. x < 12) base_range_pct) (b_not near_base_highs);
          ipo_base = map (\<lambda>(i, b). i < 40 \<and> b) (zip [0..<length ps] flat_base);
          cup_start_high = wo_roll_max ops 40 (shifted None 40 high);
          low_position = wo_roll_apply ops 40 (\<lambda>v. of_nat (wo_argmin ops v) / of_nat (length v)) low;
          u_shaped = s_test (\<lambda>x. 1 / 4 \<le> x \<and> x \<le> 3 / 4) low_position;
          recovered = s_cmp (\<ge>) close (s_map (\<lambda>x. x * (90 / 100)) cup_start_high);
          cup_handle = b_and (b_and u_shaped recovered) (s_test (\<lambda>x. x < 8) (width_pct ops high low close 8));
          leg_1 = width_pct ops high low close 10;
          leg_2 = shifted None 10 leg_1;
          leg_3 = shifted None 20 leg_1;
          vcp = b_and (s_cmp (<) leg_1 leg_2) (s_cmp (<) leg_2 leg_3)
      in [(''pattern_triangle'', flag triangle), (''pattern_bull_flag'', flag bull_flag), (''pattern_bear_flag'', flag bear_flag),
          (''pattern_flat_base'', flag flat_base), (''pattern_ipo_base'', flag ipo_base), (''pattern_rectangle'', flag rectangle),
          (''pattern_cup_handle'', flag cup_handle), (''pattern_vcp'', flag vcp)])"

section \<open>All columns\<close>

definition rs_columns :: "window_ops \<Rightarrow> daily_price list \<Rightarrow> frame option \<Rightarrow> columns" where
  "rs_columns ops ps benchmark =
     [(''rs_vs_nifty'', num (relative_strength (frame_ops.truncate ops) (prices_to_frame ps) benchmark))]"

definition BOUNDED_COLUMNS :: "(string \<times> rat \<times> rat) list" where
  "BOUNDED_COLUMNS =
     [(''rsi14'', 0, 100), (''adx14'', 0, 100), (''plus_di14'', 0, 100), (''minus_di14'', 0, 100),
      (''momentum_score'', - 100, 100), (''trend_strength'', 0, 100), (''accumulation_score'', 0, 100),
      (''distribution_score'', 0, 100)]"

fun clip_cell :: "rat \<Rightarrow> rat \<Rightarrow> pyval \<Rightarrow> pyval" where
  "clip_cell lo hi (PyFloat x) = PyFloat (clamp lo hi x)"
| "clip_cell lo hi v = v"

definition clean_columns :: "columns \<Rightarrow> columns" where
  "clean_columns cols =
     map (\<lambda>(c, vs). (c, case map_of BOUNDED_COLUMNS c of None \<Rightarrow> vs | Some (lo, hi) \<Rightarrow> map (clip_cell lo hi) vs)) cols"

definition raw_columns :: "window_ops \<Rightarrow> daily_price list \<Rightarrow> frame option \<Rightarrow> columns" where
  "raw_columns ops ps benchmark =
     trend_columns ops ps @ momentum_columns ops ps @ volatility_columns ops ps @ volume_columns ops ps
       @ price_action_columns ops ps @ structure_columns ops ps @ support_resistance_columns ops ps
       @ pattern_columns ops ps @ rs_columns ops ps benchmark"

definition calculate_features :: "window_ops \<Rightarrow> daily_price list \<Rightarrow> frame option \<Rightarrow> columns" where
  "calculate_features ops ps benchmark = clean_columns (raw_columns ops ps benchmark)"

section \<open>The columns look back only\<close>

definition LOOKAHEAD_COLUMNS :: "string list" where
  "LOOKAHEAD_COLUMNS = [''swing_high'', ''swing_low'', ''pullback_zone_low'', ''pullback_zone_high'']"

definition settled_columns :: "string list \<Rightarrow> (daily_price list \<Rightarrow> columns) \<Rightarrow> bool" where
  "settled_columns skip cols \<longleftrightarrow>
     (\<forall>c n ps. c \<notin> set skip \<longrightarrow> map_of (cols (take n ps)) c = map_option (take n) (map_of (cols ps) c))
   \<and> (\<forall>ps. \<forall>(c, vs) \<in> set (cols ps). length vs = length ps)"

lemma settled_columns_Nil: "settled_columns skip (\<lambda>ps. [])"
  by (simp add: settled_columns_def)

lemma settled_columns_Cons:
  "settled f \<Longrightarrow> settled_columns skip cols \<Longrightarrow> settled_columns skip (\<lambda>ps. (c, f ps) # cols ps)"
  by (auto simp: settled_columns_def settled_def)

lemma settled_columns_skip:
  "c \<in> set skip \<Longrightarrow> (\<And>ps. length (f ps) = length ps) \<Longrightarrow> settled_columns skip cols \<Longrightarrow> settled_columns skip (\<lambda>ps. (c, f ps) # cols ps)"
  by (auto simp: settled_columns_def)

lemma settled_columns_append:
  "settled_columns skip f \<Longrightarrow> settled_columns skip g \<Longrightarrow> settled_columns skip (\<lambda>ps. f ps @ g ps)"
  by (auto simp: settled_columns_def map_of_append map_add_def split: option.split)

lemmas settled_columns_intros = settled_columns_Nil settled_columns_Cons

lemma settled_bars [settled_intros]: "settled highs" "settled lows" "settled closes" "settled volumes"
  unfolding highs_def lows_def closes_def volumes_def by (intro settled_intros settled_id)+

lemma settled_cells [settled_intros]: "settled f \<Longrightarrow> settled (\<lambda>ps. num (f ps))" "settled b \<Longrightarrow> settled (\<lambda>ps. flag (b ps))"
  unfolding num_def flag_def by (intro settled_intros; assumption)+

lemma settled_columns_trend: "ops_causal ops \<Longrightarrow> settled_columns skip (trend_columns ops)"
  unfolding trend_columns_def Let_def
  by (intro settled_columns_intros settled_intros settled_smooth)

lemma settled_columns_momentum: "ops_causal ops \<Longrightarrow> settled_columns skip (momentum_columns ops)"
  unfolding momentum_columns_def Let_def
  by (intro settled_columns_intros settled_intros settled_rsi settled_macd settled_adx)

lemma settled_columns_volatility: "ops_causal ops \<Longrightarrow> settled_columns skip (volatility_columns ops)"
  unfolding volatility_columns_def Let_def
  by (intro settled_columns_intros settled_intros settled_ops settled_atr settled_bands settled_channels)

lemma settled_share: "ops_causal ops \<Longrightarrow> settled f \<Longrightarrow> settled v \<Longrightarrow> settled (\<lambda>ps. volume_share ops (f ps) (v ps))"
  unfolding volume_share_def by (intro settled_intros settled_ops)

lemma settled_columns_volume: "ops_causal ops \<Longrightarrow> settled_columns skip (volume_columns ops)"
  unfolding volume_columns_def Let_def
  by (intro settled_columns_intros settled_intros settled_smooth settled_obv settled_share)

lemma settled_columns_price_action: "ops_causal ops \<Longrightarrow> settled_columns skip (price_action_columns ops)"
  unfolding price_action_columns_def Let_def
  by (intro settled_columns_intros settled_intros settled_ops)

lemma settled_width: "ops_causal ops \<Longrightarrow> settled h \<Longrightarrow> settled l \<Longrightarrow> settled c \<Longrightarrow> settled (\<lambda>ps. width_pct ops (h ps) (l ps) (c ps) w)"
  unfolding width_pct_def by (intro settled_intros settled_ops)

lemma settled_slope: "ops_causal ops \<Longrightarrow> settled f \<Longrightarrow> settled (\<lambda>ps. rolling_slope ops (f ps) w)"
  unfolding rolling_slope_def by (intro settled_ops)

lemma take_index_map:
  assumes "\<And>i. i < n \<Longrightarrow> i < length xs \<Longrightarrow> f (take n xs) i = f xs i"
  shows "map (f (take n xs)) [0..<length (take n xs)] = take n (map (f xs) [0..<length xs])"
  using assms by (intro nth_equalityI) auto

lemma settled_running_count [settled_intros]: "settled b \<Longrightarrow> settled (\<lambda>ps. running_count (b ps))"
proof -
  have "running_count (take n bs) = take n (running_count bs)" for n bs
    unfolding running_count_def by (rule take_index_map [where f = "\<lambda>xs i. length (filter id (take (Suc i) xs))"]) (simp add: min_def)
  then show "settled b \<Longrightarrow> settled (\<lambda>ps. running_count (b ps))" by (simp add: settled_def) (simp add: running_count_def)
qed

lemma settled_earlier_equal [settled_intros]: "settled b \<Longrightarrow> settled (\<lambda>ps. earlier_equal (b ps))"
proof -
  have "earlier_equal (take n ids) = take n (earlier_equal ids)" for n ids
    unfolding earlier_equal_def by (rule take_index_map [where f = "\<lambda>xs i. length (filter ((=) (xs ! i)) (take i xs))"]) (simp add: min_def)
  then show "settled b \<Longrightarrow> settled (\<lambda>ps. earlier_equal (b ps))" by (simp add: settled_def) (simp add: earlier_equal_def)
qed

lemma settled_base_length [settled_intros]: "settled b \<Longrightarrow> settled (\<lambda>ps. base_length (b ps))"
  unfolding base_length_def by (intro settled_intros)

definition centered_lengths :: "window_ops \<Rightarrow> bool" where
  "centered_lengths ops \<longleftrightarrow> (\<forall>w s. length (wo_centered_max ops w s) = length s \<and> length (wo_centered_min ops w s) = length s)"

lemma swing_lengths:
  assumes "ops_causal ops" "centered_lengths ops" "length h = length ps" "length l = length ps"
  shows "length (wo_ffill ops (s_where (fst (swing_points ops h l k)) h)) = length ps"
    "length (wo_ffill ops (s_where (snd (swing_points ops h l k)) l)) = length ps"
  using assms by (simp_all add: ops_causal_def centered_lengths_def causal_def swing_points_def s_where_def s_cmp_def)

lemma bar_lengths [simp]: "length (highs ps) = length ps" "length (lows ps) = length ps" "length (closes ps) = length ps"
  by (simp_all add: highs_def lows_def closes_def)

lemma settled_columns_structure:
  assumes "ops_causal ops" "centered_lengths ops"
  shows "settled_columns LOOKAHEAD_COLUMNS (structure_columns ops)"
proof -
  have len: "length (num x) = length ps" if "length x = length ps" for x and ps :: "daily_price list"
    using that by (simp add: num_def)
  show ?thesis
    unfolding structure_columns_def Let_def
    by (rule settled_columns_skip, simp add: LOOKAHEAD_COLUMNS_def, rule len, rule swing_lengths, simp_all add: assms,
      rule settled_columns_skip, simp add: LOOKAHEAD_COLUMNS_def, rule len, rule swing_lengths, simp_all add: assms,
      insert assms, intro settled_columns_intros settled_intros settled_ops settled_width)
qed

lemma settled_columns_support:
  assumes "ops_causal ops" "centered_lengths ops"
  shows "settled_columns LOOKAHEAD_COLUMNS (support_resistance_columns ops)"
proof -
  have len: "length (num (s_sub x (s_map f (s_sub x y)))) = length ps" if "length x = length ps" "length y = length ps"
    for x y f and ps :: "daily_price list"
    using that by (simp add: num_def s_sub_def s_map_def series2_def)
  have zones: "settled_columns LOOKAHEAD_COLUMNS (\<lambda>ps. [(''pullback_zone_low'', num (s_sub (x ps) (s_map f (s_sub (x ps) (y ps))))),
      (''pullback_zone_high'', num (s_sub (x ps) (s_map g (s_sub (x ps) (y ps)))))])"
    if "\<And>ps. length (x ps) = length ps" "\<And>ps. length (y ps) = length ps" for x y f g
    using that by (intro settled_columns_skip settled_columns_Nil len) (simp_all add: LOOKAHEAD_COLUMNS_def)
  show ?thesis
    unfolding support_resistance_columns_def Let_def
    using assms by (intro settled_columns_Cons zones settled_intros settled_ops swing_lengths bar_lengths)
qed

lemma settled_positions [settled_intros]: "settled (\<lambda>ps. [0..<length ps])"
proof -
  have "[0..<min n k] = take n [0..<k]" for n k :: nat by (cases "n \<le> k") simp_all
  then show ?thesis by (simp add: settled_def min.commute)
qed

lemma settled_columns_pattern: "ops_causal ops \<Longrightarrow> settled_columns skip (pattern_columns ops)"
  unfolding pattern_columns_def Let_def
  by (intro settled_columns_intros settled_intros settled_ops settled_width settled_slope)

lemma settled_columns_rs:
  assumes "ops_causal ops"
  shows "settled_columns skip (\<lambda>ps. rs_columns ops ps benchmark)"
proof -
  have t: "fo_pct_change (frame_ops.truncate ops) = fo_pct_change ops" "fo_reindex (frame_ops.truncate ops) = fo_reindex ops"
    by (simp_all add: frame_ops.truncate_def)
  have "settled (\<lambda>ps. relative_strength (frame_ops.truncate ops) (prices_to_frame ps) benchmark)"
  proof (cases "benchmark = None \<or> benchmark = Some []")
    case True
    then show ?thesis by (auto simp: relative_strength_def settled_def prices_to_frame_def)
  next
    case False
    then obtain bench where b: "benchmark = Some bench" "bench \<noteq> []" by auto
    show ?thesis
      unfolding relative_strength_def b t prices_to_frame_def option.case Let_def
      using b(2) assms by (simp, intro settled_intros settled_reindex settled_ops settled_id)
  qed
  then show ?thesis unfolding rs_columns_def by (intro settled_columns_intros settled_intros)
qed

lemma settled_raw_columns:
  assumes "ops_causal ops" "centered_lengths ops"
  shows "settled_columns LOOKAHEAD_COLUMNS (\<lambda>ps. raw_columns ops ps benchmark)"
  unfolding raw_columns_def using assms
  by (intro settled_columns_append settled_columns_trend settled_columns_momentum settled_columns_volatility settled_columns_volume
      settled_columns_price_action settled_columns_structure settled_columns_support settled_columns_pattern settled_columns_rs)

lemma column_lengths:
  assumes "ops_causal ops" "centered_lengths ops" "(d, vs) \<in> set (calculate_features ops ps benchmark)"
  shows "length vs = length ps"
  using assms(3) settled_raw_columns [OF assms(1,2), of benchmark]
  by (fastforce simp: calculate_features_def clean_columns_def settled_columns_def split: option.splits)


text \<open>Window operations the hypotheses hold for.\<close>

definition trailing :: "(series \<Rightarrow> 'a) \<Rightarrow> series \<Rightarrow> 'a list" where
  "trailing g s = map (\<lambda>i. g (take (Suc i) s)) [0..<length s]"

definition last_window :: "(rat list \<Rightarrow> rat) \<Rightarrow> nat \<Rightarrow> series \<Rightarrow> rat option" where
  "last_window f w s =
     (let part = drop (length s - w) s in if length s < w \<or> None \<in> set part then None else Some (f (map the part)))"

definition smoothed :: "rat \<Rightarrow> nat \<Rightarrow> series \<Rightarrow> rat option" where
  "smoothed a n s =
     (let vs = map the (filter (\<lambda>x. x \<noteq> None) s)
      in if length vs < max n 1 then None else Some (foldl (\<lambda>m v. a * v + (1 - a) * m) (hd vs) (tl vs)))"

definition earlier_value :: "(rat \<Rightarrow> rat \<Rightarrow> rat) \<Rightarrow> nat \<Rightarrow> series \<Rightarrow> rat option" where
  "earlier_value f k s = (if length s \<le> k then None else nan_lift f (last s) (s ! (length s - Suc k)))"

definition centered :: "(rat list \<Rightarrow> rat) \<Rightarrow> nat \<Rightarrow> series \<Rightarrow> series" where
  "centered f w s =
     map (\<lambda>i. let part = take w (drop (i - w div 2) s)
              in if i < w div 2 \<or> length part < w \<or> None \<in> set part then None else Some (f (map the part))) [0..<length s]"

definition demo_windows :: window_ops where
  "demo_windows =
     \<lparr>fo_rolling_mean = \<lambda>w. trailing (last_window mean_of w),
      fo_rolling_std = \<lambda>w. trailing (last_window (\<lambda>ys. mean_of (map (\<lambda>y. \<bar>y - mean_of ys\<bar>) ys)) w),
      fo_pct_change = \<lambda>k. trailing (earlier_value (\<lambda>x y. x / y - 1) k), fo_diff = \<lambda>k. trailing (earlier_value (-) k),
      fo_reindex = \<lambda>pairs. map (\<lambda>d. case map_of pairs d of None \<Rightarrow> None | Some v \<Rightarrow> v),
      fo_normal_cdf = \<lambda>z. clamp 0 1 (1/2 + z / 6),
      wo_roll_max = \<lambda>w. trailing (last_window (\<lambda>ys. Max (set ys)) w), wo_roll_min = \<lambda>w. trailing (last_window (\<lambda>ys. Min (set ys)) w),
      wo_roll_sum = \<lambda>w. trailing (last_window sum_list w), wo_roll_apply = \<lambda>w f. trailing (last_window f w),
      wo_centered_max = centered (\<lambda>ys. Max (set ys)), wo_centered_min = centered (\<lambda>ys. Min (set ys)),
      wo_ewm = \<lambda>a n. trailing (smoothed a n),
      wo_cumsum = trailing (\<lambda>s. map_option (\<lambda>_. sum_list (map the (filter (\<lambda>x. x \<noteq> None) s))) (last s)),
      wo_ffill = trailing (\<lambda>s. find (\<lambda>_. True) (map the (filter (\<lambda>x. x \<noteq> None) (rev s)))),
      wo_polyfit = \<lambda>xs ys. (0, mean_of ys), wo_argmin = \<lambda>ys. opt_else (index_of (Min (set ys)) ys) 0\<rparr>"

lemma causal_trailing: "causal (trailing g)"
proof -
  have "trailing g (take n s) = take n (trailing g s)" for n s
    unfolding trailing_def by (rule take_index_map [where f = "\<lambda>s i. g (take (Suc i) s)"]) (simp add: min_def)
  then show ?thesis by (simp add: causal_def) (simp add: trailing_def)
qed

lemma demo_windows_causal: "ops_causal demo_windows" "centered_lengths demo_windows"
  by (simp_all add: ops_causal_def demo_windows_def causal_trailing centered_lengths_def centered_def)
    (simp add: causal_def take_map)

definition demo_bar :: "int \<Rightarrow> rat \<Rightarrow> daily_price" where
  "demo_bar d x = \<lparr>dp_symbol_id = 1, dp_date = d, dp_open = x, dp_high = x + 1, dp_low = x - 1, dp_close = x,
     dp_volume = 100, dp_vwap = None\<rparr>"


section \<open>The base length\<close>

text \<open>The streak of consolidation days that ends at a bar.\<close>

fun streak :: "bool list \<Rightarrow> nat \<Rightarrow> nat" where
  "streak fs 0 = (if fs ! 0 then 1 else 0)"
| "streak fs (Suc i) = (if fs ! Suc i then Suc (streak fs i) else 0)"

lemma running_count_Suc:
  assumes "Suc i < length bs"
  shows "running_count bs ! Suc i = running_count bs ! i + (if bs ! Suc i then 1 else 0)"
  using assms by (simp add: running_count_def take_Suc_conv_app_nth)

lemma running_count_mono: "i \<le> j \<Longrightarrow> j < length bs \<Longrightarrow> running_count bs ! i \<le> running_count bs ! j"
  by (induction rule: dec_induct) (simp_all add: running_count_Suc)

lemma length_running_count [simp]: "length (running_count bs) = length bs"
  by (simp add: running_count_def)

lemma earlier_equal_streak:
  assumes "i < length fs"
  shows "earlier_equal (running_count (b_not fs)) ! i + (if streak fs i = Suc i then 1 else 0) = streak fs i"
  using assms
proof (induction i)
  case 0
  then show ?case by (simp add: earlier_equal_def b_not_def)
next
  case (Suc i)
  let ?c = "running_count (b_not fs)"
  have len: "length (b_not fs) = length fs" by (simp add: b_not_def)
  have step: "?c ! Suc i = ?c ! i + (if fs ! Suc i then 0 else 1)"
    using running_count_Suc [of i "b_not fs"] Suc.prems by (simp add: b_not_def)
  have e: "earlier_equal ?c ! Suc i = length (filter ((=) (?c ! Suc i)) (take (Suc i) ?c))"
    "earlier_equal ?c ! i = length (filter ((=) (?c ! i)) (take i ?c))"
    using Suc.prems len by (simp_all add: earlier_equal_def)
  have t: "take (Suc i) ?c = take i ?c @ [?c ! i]" using Suc.prems len by (simp add: take_Suc_conv_app_nth)
  show ?case
  proof (cases "fs ! Suc i")
    case True
    then have "earlier_equal ?c ! Suc i = Suc (earlier_equal ?c ! i)" unfolding e t using step by simp
    with Suc True show ?thesis by auto
  next
    case False
    have "?c ! Suc i \<noteq> x" if "x \<in> set (take (Suc i) ?c)" for x
    proof -
      obtain j where j: "j < Suc i" "x = ?c ! j" using \<open>x \<in> set (take (Suc i) ?c)\<close> Suc.prems len by (auto simp: in_set_conv_nth)
      have "?c ! j \<le> ?c ! i" using j(1) Suc.prems len by (intro running_count_mono) simp_all
      with j(2) step False show ?thesis by simp
    qed
    then have "filter ((=) (?c ! Suc i)) (take (Suc i) ?c) = []" by (auto simp: filter_empty_conv)
    with False show ?thesis by (simp add: e)
  qed
qed

text \<open>\<open>base_length_days\<close> overcounts: on a consolidation day it is the length of the streak plus one, because the bar before
  the streak falls into the same group; only a streak that reaches back to the first loaded bar is counted
  exactly. Outside a streak it is 0.\<close>

theorem base_length_overcounts:
  assumes "i < length flags"
  shows "base_length flags ! i =
    (if flags ! i then int (streak flags i) + (if streak flags i = Suc i then 0 else 1) else 0)"
  using earlier_equal_streak [OF assms] assms by (auto simp: base_length_def earlier_equal_def b_not_def)

theorem base_length_overcounts_witness:
  "base_length [False, True, True, False, True] = [0, 2, 3, 0, 2]"
proof -
  have "length (base_length [False, True, True, False, True]) = 5" by (simp add: base_length_def earlier_equal_def b_not_def)
  then show ?thesis
    using base_length_overcounts [of 0 "[False, True, True, False, True]"] base_length_overcounts [of 1 "[False, True, True, False, True]"]
      base_length_overcounts [of 2 "[False, True, True, False, True]"] base_length_overcounts [of 3 "[False, True, True, False, True]"]
      base_length_overcounts [of 4 "[False, True, True, False, True]"]
    by (intro nth_equalityI) (auto simp: numeral_eq_Suc less_Suc_eq)
qed

end
