(* ===== verification/Feature_Engine.thy ===== *)
theory Feature_Engine
  imports Feature_Calculators
begin

text \<open>
  The feature engine: app/features/engine.py and app/features/session/calculator.py. The daily run brings the
  features of every active symbol up to its newest bar, the session run rewrites today's session row. What
  third-party code raises while a symbol is computed is an argument; a failure is recorded and the run goes on.
\<close>

section \<open>Cells and rows\<close>

definition FEATURE_ENGINE_WORKER_NAME :: string where
  "FEATURE_ENGINE_WORKER_NAME = ''feature_engine''"

definition INTEGER_COLUMNS :: "string list" where
  "INTEGER_COLUMNS = [''base_length_days'', ''sector_rank'', ''volume_ma20'']"

definition STRING_COLUMNS :: "string list" where
  "STRING_COLUMNS = [''trend_direction'', ''break_of_structure'']"

definition BOOLEAN_COLUMNS :: "string list" where
  "BOOLEAN_COLUMNS =
     [''golden_cross'', ''death_cross'', ''atr_expansion'', ''atr_contraction'', ''volatility_squeeze'',
      ''volume_spike'', ''volume_dry_up'', ''higher_high'', ''higher_low'', ''lower_high'', ''lower_low'',
      ''inside_bar'', ''outside_bar'', ''gap_up'', ''gap_down'', ''nr4'', ''nr7'', ''is_range'', ''is_consolidation'',
      ''pattern_triangle'', ''pattern_bull_flag'', ''pattern_bear_flag'', ''pattern_flat_base'',
      ''pattern_ipo_base'', ''pattern_rectangle'', ''pattern_cup_handle'', ''pattern_vcp'']"

definition clean_value :: "runtime \<Rightarrow> string \<Rightarrow> pyval \<Rightarrow> pyval" where
  "clean_value rt c v =
     (if v = PyNone then PyNone
      else if c \<in> set BOOLEAN_COLUMNS then PyBool (truthy v)
      else if c \<in> set INTEGER_COLUMNS then (case number_of v of None \<Rightarrow> PyNone | Some x \<Rightarrow> PyInt (cut_fraction x))
      else if c \<in> set STRING_COLUMNS then PyStr (py_str rt v)
      else (case number_of v of None \<Rightarrow> v | Some x \<Rightarrow> PyFloat (py_round 6 x)))"

definition row_to_values :: "runtime \<Rightarrow> columns \<Rightarrow> nat \<Rightarrow> (string \<times> pyval) list" where
  "row_to_values rt cols j = map (\<lambda>(c, vs). (c, clean_value rt c (vs ! j))) cols"

section \<open>The daily run\<close>

record feature_run =
  ft_symbols_processed :: nat
  ft_symbols_updated :: nat
  ft_rows_written :: nat
  ft_errors :: "(string \<times> py_error) list"

definition load_benchmark :: "settings \<Rightarrow> 'x market_store_scheme \<Rightarrow> frame option" where
  "load_benchmark cfg s =
     (case get_by_symbol (feature_rs_benchmark_symbol cfg) None s of
        None \<Rightarrow> None
      | Some y \<Rightarrow>
          (let past = get_daily_history (sy_id y) (feature_daily_lookback_bars cfg) s
           in if past = [] then None else Some (prices_to_frame past)))"

definition up_to_date :: "int option \<Rightarrow> int \<Rightarrow> bool" where
  "up_to_date latest_feature_date price_date = (case latest_feature_date of None \<Rightarrow> False | Some d \<Rightarrow> price_date \<le> d)"

definition new_bars :: "int option \<Rightarrow> daily_price list \<Rightarrow> nat list" where
  "new_bars cutoff past =
     filter (\<lambda>j. case cutoff of None \<Rightarrow> True | Some d \<Rightarrow> d < dp_date (past ! j)) [0..<length past]"

definition run_daily_for_symbol ::
  "window_ops \<Rightarrow> runtime \<Rightarrow> settings \<Rightarrow> (int \<Rightarrow> py_error option) \<Rightarrow> frame option \<Rightarrow> int \<Rightarrow> 'x feature_store_scheme
     \<Rightarrow> (py_error + nat) \<times> 'x feature_store_scheme" where
  "run_daily_for_symbol ops rt cfg fault benchmark i s =
     (case get_latest_daily i s of
        None \<Rightarrow> (Inr 0, s)
      | Some latest_price \<Rightarrow>
          if up_to_date (get_latest_feature_date i s) (dp_date latest_price) then (Inr 0, s)
          else
            let past = get_daily_history i (feature_daily_lookback_bars cfg) s
            in if length past < 2 then (Inr 0, s)
               else case fault i of
                      Some e \<Rightarrow> (Inl e, s)
                    | None \<Rightarrow>
                        (let cols = calculate_features ops past benchmark;
                             rows = new_bars (get_latest_feature_date i s) past
                         in (Inr (length rows),
                             fold (\<lambda>j. upsert_daily_feature i (dp_date (past ! j)) (row_to_values rt cols j)) rows s)))"

definition needs_features :: "int list \<Rightarrow> 'x feature_store_scheme \<Rightarrow> int \<Rightarrow> bool" where
  "needs_features ids s i =
     (case get_latest_daily_bulk ids s i of
        None \<Rightarrow> False
      | Some p \<Rightarrow> \<not> up_to_date (map_option fr_date (get_latest_features_bulk ids s i)) (dp_date p))"

definition daily_step ::
  "window_ops \<Rightarrow> runtime \<Rightarrow> settings \<Rightarrow> (int \<Rightarrow> py_error option) \<Rightarrow> frame option \<Rightarrow> symbol_row
     \<Rightarrow> feature_run \<times> 'x feature_store_scheme \<Rightarrow> feature_run \<times> 'x feature_store_scheme" where
  "daily_step ops rt cfg fault benchmark y q =
     (case q of (r, s) \<Rightarrow>
        (case run_daily_for_symbol ops rt cfg fault benchmark (sy_id y) s of
           (Inl e, s') \<Rightarrow> (r\<lparr>ft_errors := ft_errors r @ [(sy_symbol y, e)]\<rparr>, s')
         | (Inr n, s') \<Rightarrow>
             (if n = 0 then r else r\<lparr>ft_symbols_updated := Suc (ft_symbols_updated r), ft_rows_written := ft_rows_written r + n\<rparr>, s')))"

definition feature_detail :: "feature_run \<Rightarrow> string" where
  "feature_detail r = str_nat (ft_symbols_updated r) @ '' updated, '' @ str_nat (ft_rows_written r) @ '' rows, '' @
     str_nat (length (ft_errors r)) @ '' errors''"

definition run_daily ::
  "window_ops \<Rightarrow> runtime \<Rightarrow> settings \<Rightarrow> (int \<Rightarrow> py_error option) \<Rightarrow> int \<Rightarrow> 'x feature_store_scheme
     \<Rightarrow> feature_run \<times> 'x feature_store_scheme" where
  "run_daily ops rt cfg fault now s =
     (let syms = list_active s;
          benchmark = load_benchmark cfg s;
          to_process = filter (\<lambda>y. needs_features (map sy_id syms) s (sy_id y)) syms;
          (r, s') = fold (daily_step ops rt cfg fault benchmark) to_process
             (\<lparr>ft_symbols_processed = length syms, ft_symbols_updated = 0, ft_rows_written = 0, ft_errors = []\<rparr>, s)
      in (r, ping_success now FEATURE_ENGINE_WORKER_NAME (Some (feature_detail r)) s'))"

section \<open>Session features\<close>

record session_values =
  sv_opening_range_high :: "rat option"
  sv_opening_range_low :: "rat option"
  sv_initial_balance_high :: "rat option"
  sv_initial_balance_low :: "rat option"
  sv_day_high :: "rat option"
  sv_day_low :: "rat option"
  sv_session_vwap :: "rat option"

text \<open>09:15 of the session date in the market's zone, as an instant.\<close>

definition session_open :: "timezone \<Rightarrow> int \<Rightarrow> int" where
  "session_open zone first_bar =
     (let day = date_of (to_market_time (utc_dt first_bar) zone);
          wall_open = (day - epoch_ord) * day_us + (9 * 60 + 15) * minute_us
      in wall_open - wall_off zone wall_open)"

definition max_of :: "('a \<Rightarrow> rat) \<Rightarrow> 'a list \<Rightarrow> rat option" where
  "max_of f xs = (if xs = [] then None else Some (py_round 4 (Max (set (map f xs)))))"

definition min_of :: "('a \<Rightarrow> rat) \<Rightarrow> 'a list \<Rightarrow> rat option" where
  "min_of f xs = (if xs = [] then None else Some (py_round 4 (Min (set (map f xs)))))"

definition session_vwap :: "intraday_price list \<Rightarrow> rat option" where
  "session_vwap bars =
     (let volume = (\<Sum>b\<leftarrow>bars. of_int (ip_volume b));
          pv = (\<Sum>b\<leftarrow>bars. typical_price (ip_high b) (ip_low b) (ip_close b) * of_int (ip_volume b))
      in if bars = [] \<or> volume = 0 then None else Some (py_round 4 (pv / volume)))"

definition calculate_session :: "timezone \<Rightarrow> intraday_price list \<Rightarrow> session_values" where
  "calculate_session zone bars =
     (if bars = [] then
        \<lparr>sv_opening_range_high = None, sv_opening_range_low = None, sv_initial_balance_high = None,
         sv_initial_balance_low = None, sv_day_high = None, sv_day_low = None, sv_session_vwap = None\<rparr>
      else
        let market_open = session_open zone (ip_datetime (hd bars));
            opening_range = filter (\<lambda>b. ip_datetime b < market_open + 15 * minute_us) bars;
            initial_balance = filter (\<lambda>b. ip_datetime b < market_open + 60 * minute_us) bars
        in \<lparr>sv_opening_range_high = max_of ip_high opening_range, sv_opening_range_low = min_of ip_low opening_range,
            sv_initial_balance_high = max_of ip_high initial_balance, sv_initial_balance_low = min_of ip_low initial_balance,
            sv_day_high = max_of ip_high bars, sv_day_low = min_of ip_low bars,
            sv_session_vwap = session_vwap bars\<rparr>)"

definition opt_cell :: "rat option \<Rightarrow> pyval" where
  "opt_cell x = (case x of None \<Rightarrow> PyNone | Some v \<Rightarrow> PyFloat v)"

definition previous_day :: "int \<Rightarrow> int \<Rightarrow> 'x market_store_scheme \<Rightarrow> daily_price option" where
  "previous_day today i s =
     (let recent = get_daily_history i 2 s
      in if recent \<noteq> [] \<and> dp_date (last recent) = today then (if length recent > 1 then Some (hd recent) else None)
         else if recent \<noteq> [] then Some (last recent) else None)"

definition session_row_values :: "session_values \<Rightarrow> daily_price option \<Rightarrow> (string \<times> pyval) list" where
  "session_row_values v prev =
     [(''opening_range_high'', opt_cell (sv_opening_range_high v)), (''opening_range_low'', opt_cell (sv_opening_range_low v)),
      (''initial_balance_high'', opt_cell (sv_initial_balance_high v)), (''initial_balance_low'', opt_cell (sv_initial_balance_low v)),
      (''day_high'', opt_cell (sv_day_high v)), (''day_low'', opt_cell (sv_day_low v)),
      (''prev_day_high'', opt_cell (map_option dp_high prev)), (''prev_day_low'', opt_cell (map_option dp_low prev)),
      (''session_vwap'', opt_cell (sv_session_vwap v))]"

text \<open>\<open>zone\<close> is the zone of the database session, which the naive bounds of a day are read in.\<close>

definition run_session_for_symbol ::
  "settings \<Rightarrow> timezone \<Rightarrow> (int \<Rightarrow> py_error option) \<Rightarrow> int \<Rightarrow> int \<Rightarrow> 'x feature_store_scheme
     \<Rightarrow> (py_error + bool) \<times> 'x feature_store_scheme" where
  "run_session_for_symbol cfg zone fault today i s =
     (let bars = get_intraday_for_date zone i today s
      in if bars = [] then (Inr False, s)
         else case fault i of
                Some e \<Rightarrow> (Inl e, s)
              | None \<Rightarrow>
                  (Inr True, upsert_session_feature i today
                     (session_row_values (calculate_session (market_timezone cfg) bars) (previous_day today i s)) s))"

definition session_step ::
  "settings \<Rightarrow> timezone \<Rightarrow> (int \<Rightarrow> py_error option) \<Rightarrow> int \<Rightarrow> symbol_row
     \<Rightarrow> feature_run \<times> 'x feature_store_scheme \<Rightarrow> feature_run \<times> 'x feature_store_scheme" where
  "session_step cfg zone fault today y q =
     (case q of (r, s) \<Rightarrow>
        (case run_session_for_symbol cfg zone fault today (sy_id y) s of
           (Inl e, s') \<Rightarrow> (r\<lparr>ft_errors := ft_errors r @ [(sy_symbol y, e)]\<rparr>, s')
         | (Inr updated, s') \<Rightarrow>
             (if updated then r\<lparr>ft_symbols_updated := Suc (ft_symbols_updated r), ft_rows_written := Suc (ft_rows_written r)\<rparr> else r, s')))"

definition run_session ::
  "settings \<Rightarrow> timezone \<Rightarrow> (int \<Rightarrow> py_error option) \<Rightarrow> int \<Rightarrow> 'x feature_store_scheme \<Rightarrow> feature_run \<times> 'x feature_store_scheme" where
  "run_session cfg zone fault now s =
     (let syms = list_active s;
          today = date_of (to_market_time (utc_dt now) (market_timezone cfg));
          has_data = list_symbol_ids_with_intraday_on zone (map sy_id syms) today s
      in fold (session_step cfg zone fault today) (filter (\<lambda>y. sy_id y \<in> set has_data) syms)
           (\<lparr>ft_symbols_processed = length syms, ft_symbols_updated = 0, ft_rows_written = 0, ft_errors = []\<rparr>, s))"

section \<open>Session ranges\<close>

lemma max_of_subset:
  assumes "set xs \<subseteq> set ys" "max_of f xs = Some a"
  shows "\<exists>b. max_of f ys = Some b \<and> a \<le> b"
proof -
  have x: "xs \<noteq> []" using assms(2) by (auto simp: max_of_def)
  with assms(1) have y: "ys \<noteq> []" by auto
  have "Max (set (map f xs)) \<le> Max (set (map f ys))" using assms(1) x by (intro Max_mono) auto
  then show ?thesis using assms(2) x y by (auto simp: max_of_def intro: py_round_mono)
qed

lemma min_of_subset:
  assumes "set xs \<subseteq> set ys" "min_of f xs = Some a"
  shows "\<exists>b. min_of f ys = Some b \<and> b \<le> a"
proof -
  have x: "xs \<noteq> []" using assms(2) by (auto simp: min_of_def)
  with assms(1) have y: "ys \<noteq> []" by auto
  have "Min (set (map f ys)) \<le> Min (set (map f xs))" using assms(1) x by (intro Min_antimono) auto
  then show ?thesis using assms(2) x y by (auto simp: min_of_def intro: py_round_mono)
qed

definition bar_shape :: "intraday_price \<Rightarrow> bool" where
  "bar_shape b \<longleftrightarrow> ip_low b \<le> ip_close b \<and> ip_close b \<le> ip_high b \<and> 0 \<le> ip_volume b"

lemma typical_price_bounds:
  assumes "lo \<le> l" "l \<le> c" "c \<le> h" "h \<le> hi"
  shows "lo \<le> typical_price h l c \<and> typical_price h l c \<le> hi"
  using assms by (simp add: typical_price_def)

lemma weighted_bounds:
  fixes w x :: "'a \<Rightarrow> rat"
  assumes "\<And>b. b \<in> set bs \<Longrightarrow> 0 \<le> w b \<and> lo \<le> x b \<and> x b \<le> hi"
  shows "lo * (\<Sum>b\<leftarrow>bs. w b) \<le> (\<Sum>b\<leftarrow>bs. x b * w b) \<and> (\<Sum>b\<leftarrow>bs. x b * w b) \<le> hi * (\<Sum>b\<leftarrow>bs. w b) \<and> 0 \<le> (\<Sum>b\<leftarrow>bs. w b)"
  using assms
proof (induction bs)
  case (Cons b bs)
  then have "0 \<le> w b" "lo \<le> x b" "x b \<le> hi" by auto
  then have "lo * w b \<le> x b * w b" "x b * w b \<le> hi * w b" by (simp_all add: mult_right_mono)
  with Cons \<open>0 \<le> w b\<close> show ?case by (auto simp: distrib_left)
qed simp

lemma session_vwap_bounds:
  assumes "\<forall>b \<in> set bars. bar_shape b" "session_vwap bars = Some v"
  shows "\<exists>lo hi. min_of ip_low bars = Some lo \<and> max_of ip_high bars = Some hi \<and> lo \<le> v \<and> v \<le> hi"
proof -
  let ?lo = "Min (set (map ip_low bars))" and ?hi = "Max (set (map ip_high bars))"
  let ?v = "\<Sum>b\<leftarrow>bars. of_int (ip_volume b) :: rat"
  let ?pv = "\<Sum>b\<leftarrow>bars. typical_price (ip_high b) (ip_low b) (ip_close b) * of_int (ip_volume b)"
  have ne: "bars \<noteq> []" "?v \<noteq> 0" "v = py_round 4 (?pv / ?v)"
    using assms(2) by (auto simp: session_vwap_def Let_def split: if_splits)
  have "0 \<le> (of_int (ip_volume b) :: rat) \<and> ?lo \<le> typical_price (ip_high b) (ip_low b) (ip_close b)
      \<and> typical_price (ip_high b) (ip_low b) (ip_close b) \<le> ?hi" if b: "b \<in> set bars" for b
  proof -
    have "?lo \<le> ip_low b" by (rule Min_le) (use b in simp_all)
    moreover have "ip_high b \<le> ?hi" by (rule Max_ge) (use b in simp_all)
    moreover have "ip_low b \<le> ip_close b" "ip_close b \<le> ip_high b" "0 \<le> ip_volume b"
      using assms(1) b by (simp_all add: bar_shape_def)
    ultimately show ?thesis using typical_price_bounds by simp
  qed
  from weighted_bounds [of bars "\<lambda>b. of_int (ip_volume b)" ?lo "\<lambda>b. typical_price (ip_high b) (ip_low b) (ip_close b)" ?hi, OF this]
  have "?lo * ?v \<le> ?pv" "?pv \<le> ?hi * ?v" "0 < ?v" using ne(2) by auto
  then have "?lo \<le> ?pv / ?v" "?pv / ?v \<le> ?hi" by (simp_all add: pos_le_divide_eq pos_divide_le_eq)
  then show ?thesis using ne by (auto simp: min_of_def max_of_def intro: py_round_mono)
qed

text \<open>Session features are nested: the opening range lies within the initial balance and that within the day's range, and
  with bars whose close lies between low and high and whose volume is not negative the session VWAP lies
  within the day's range, after rounding.\<close>

theorem session_ranges_nested:
  assumes "v = calculate_session zone bars"
  shows "(\<forall>a. sv_opening_range_high v = Some a \<longrightarrow> (\<exists>b. sv_initial_balance_high v = Some b \<and> a \<le> b))
    \<and> (\<forall>a. sv_opening_range_low v = Some a \<longrightarrow> (\<exists>b. sv_initial_balance_low v = Some b \<and> b \<le> a))
    \<and> (\<forall>a. sv_initial_balance_high v = Some a \<longrightarrow> (\<exists>b. sv_day_high v = Some b \<and> a \<le> b))
    \<and> (\<forall>a. sv_initial_balance_low v = Some a \<longrightarrow> (\<exists>b. sv_day_low v = Some b \<and> b \<le> a))
    \<and> ((\<forall>b \<in> set bars. bar_shape b) \<longrightarrow> (\<forall>w. sv_session_vwap v = Some w \<longrightarrow>
         (\<exists>lo hi. sv_day_low v = Some lo \<and> sv_day_high v = Some hi \<and> lo \<le> w \<and> w \<le> hi)))"
proof (cases "bars = []")
  case True
  then show ?thesis by (simp add: assms calculate_session_def)
next
  case False
  let ?o = "session_open zone (ip_datetime (hd bars))"
  let ?or = "filter (\<lambda>b. ip_datetime b < ?o + 15 * minute_us) bars" and ?ib = "filter (\<lambda>b. ip_datetime b < ?o + 60 * minute_us) bars"
  have v: "sv_opening_range_high v = max_of ip_high ?or" "sv_opening_range_low v = min_of ip_low ?or"
    "sv_initial_balance_high v = max_of ip_high ?ib" "sv_initial_balance_low v = min_of ip_low ?ib"
    "sv_day_high v = max_of ip_high bars" "sv_day_low v = min_of ip_low bars" "sv_session_vwap v = session_vwap bars"
    using False by (simp_all add: assms calculate_session_def Let_def)
  have "set ?or \<subseteq> set ?ib" "set ?ib \<subseteq> set bars" by (auto simp: minute_us_def)
  then show ?thesis unfolding v using max_of_subset min_of_subset session_vwap_bounds by (intro conjI allI impI) blast+
qed

definition session_bar :: "int \<Rightarrow> rat \<Rightarrow> intraday_price" where
  "session_bar t x = \<lparr>ip_symbol_id = 1, ip_datetime = t, ip_open = x, ip_high = x + 1, ip_low = x - 1, ip_close = x,
     ip_volume = 100, ip_vwap = None\<rparr>"

definition demo_session :: "intraday_price list" where
  "demo_session = [session_bar (230 * minute_us) 10, session_bar (270 * minute_us) 14, session_bar (480 * minute_us) 12]"

theorem session_ranges_nested_witness:
  "(\<exists>b. sv_initial_balance_high (calculate_session ist demo_session) = Some b \<and> 11 \<le> b)
   \<and> (\<exists>lo hi. sv_day_low (calculate_session ist demo_session) = Some lo
        \<and> sv_day_high (calculate_session ist demo_session) = Some hi \<and> lo \<le> 12 \<and> 12 \<le> hi)"
proof -
  have v: "sv_opening_range_high (calculate_session ist demo_session) = Some 11"
    "sv_session_vwap (calculate_session ist demo_session) = Some 12" "\<forall>b \<in> set demo_session. bar_shape b"
    by code_simp+
  show ?thesis using session_ranges_nested [OF refl, of ist demo_session] v by simp
qed

end
