(* ===== verification/Feature_Runs.thy ===== *)
theory Feature_Runs
  imports Feature_Engine
begin

text \<open>
  What the runs of the feature engine (app/features/engine.py) do to the stored feature tables: the cells have
  the types of app/models/daily_feature.py and session_feature.py, stored daily rows are never rewritten, every
  newer bar gets its row, and the bulk filters before the loops leave nothing out.
\<close>

section \<open>Column types\<close>

fun cell_typed :: "column_type \<Rightarrow> pyval \<Rightarrow> bool" where
  "cell_typed (C_Dec n) v = (case v of PyNone \<Rightarrow> True | PyFloat x \<Rightarrow> True | _ \<Rightarrow> False)"
| "cell_typed C_Int v = (case v of PyNone \<Rightarrow> True | PyInt i \<Rightarrow> True | _ \<Rightarrow> False)"
| "cell_typed C_Bool v = (case v of PyBool b \<Rightarrow> True | _ \<Rightarrow> False)"
| "cell_typed C_Str v = (case v of PyNone \<Rightarrow> True | PyStr x \<Rightarrow> True | _ \<Rightarrow> False)"

definition row_typed :: "(string \<times> column_type) list \<Rightarrow> feature_row \<Rightarrow> bool" where
  "row_typed columns r \<longleftrightarrow> (\<forall>(c, ty) \<in> set columns. cell_typed ty (col r c))"

definition features_typed :: "'x feature_store_scheme \<Rightarrow> bool" where
  "features_typed s \<longleftrightarrow> (\<forall>r \<in> set (daily_features s). row_typed DAILY_FEATURE_COLUMNS r)
     \<and> (\<forall>r \<in> set (session_features s). row_typed SESSION_FEATURE_COLUMNS r)"

text \<open>Values that fit the columns, before and after cleaning.\<close>

definition values_typed :: "(string \<times> column_type) list \<Rightarrow> (string \<times> pyval) list \<Rightarrow> bool" where
  "values_typed columns vals \<longleftrightarrow> (\<forall>(c, v) \<in> set vals. \<forall>ty. (c, ty) \<in> set columns \<longrightarrow> cell_typed ty v)"

fun raw_typed :: "column_type \<Rightarrow> pyval \<Rightarrow> bool" where
  "raw_typed C_Int (PyFloat x) = True"
| "raw_typed ty v = cell_typed ty v"

definition feature_type :: "string \<Rightarrow> column_type option" where
  "feature_type c = map_of DAILY_FEATURE_COLUMNS c"

definition column_typed :: "string \<times> pyval list \<Rightarrow> bool" where
  "column_typed cv = (case feature_type (fst cv) of None \<Rightarrow> False | Some ty \<Rightarrow> list_all (raw_typed ty) (snd cv))"

lemma set_cols_typed:
  assumes "row_typed columns r" "values_typed columns vals"
  shows "row_typed columns (set_cols columns vals r)"
proof -
  let ?step = "\<lambda>m (c, v). if c \<in> fst ` set columns then m(c \<mapsto> v) else m"
  have "\<forall>(c, ty) \<in> set columns. cell_typed ty (dict_get (foldl ?step m vals) c)"
    if "\<forall>(c, ty) \<in> set columns. cell_typed ty (dict_get m c)" for m
    using that assms(2)
  proof (induction vals arbitrary: m)
    case (Cons x vals)
    obtain d w where x: "x = (d, w)" by (cases x)
    have "\<forall>(c, ty) \<in> set columns. cell_typed ty (dict_get (?step m x) c)"
      using Cons.prems by (auto simp: x values_typed_def)
    with Cons.IH [of "?step m x"] Cons.prems(2) show ?case by (auto simp: values_typed_def)
  qed simp
  with assms(1) show ?thesis by (simp add: row_typed_def col_def set_cols_def)
qed

lemma put_features_typed:
  assumes "\<forall>r \<in> set rows. row_typed columns r" "distinct (map fst columns)" "values_typed columns (snd v)"
  shows "\<forall>r \<in> set (put_features columns v rows). row_typed columns r"
proof -
  have "cell_typed ty (dict_get (default_cols columns) c)" if mem: "(c, ty) \<in> set columns" for c ty
  proof -
    have "map_of columns c = Some ty" using mem assms(2) by simp
    then have "default_cols columns c = Some (if ty = C_Bool then PyBool False else PyNone)"
      using map_of_map [of "\<lambda>ty. if ty = C_Bool then PyBool False else PyNone" columns] by (simp add: default_cols_def)
    then show ?thesis by (cases ty) (simp_all add: dict_get_def)
  qed
  then have "row_typed columns \<lparr>fr_symbol_id = i, fr_date = d, fr_cols = default_cols columns\<rparr>" for i d
    by (auto simp: row_typed_def col_def)
  then show ?thesis
    using assms by (auto simp: put_features_def upsert_by_def intro: set_cols_typed split: option.split)
qed

lemma distinct_feature_columns: "distinct (map fst DAILY_FEATURE_COLUMNS)" "distinct (map fst SESSION_FEATURE_COLUMNS)"
  by code_simp+

lemma feature_type_iff: "feature_type c = Some ty \<longleftrightarrow> (c, ty) \<in> set DAILY_FEATURE_COLUMNS"
  using distinct_feature_columns(1) by (simp add: feature_type_def)

lemma feature_type_list: "list_all (\<lambda>(c, ty). feature_type c = Some ty) DAILY_FEATURE_COLUMNS"
  by (auto simp: list_all_iff feature_type_iff)

lemmas feature_types = feature_type_list [unfolded DAILY_FEATURE_COLUMNS_def list.pred_inject prod.case]

text \<open>Every calculator fills its columns with cells of the column's type.\<close>

lemma raw_typed_cells:
  "list_all (raw_typed (C_Dec n)) (num x)" "list_all (raw_typed C_Int) (num x)" "list_all (raw_typed C_Bool) (flag b)"
  "list_all (raw_typed C_Int) (map PyInt k)"
  by (simp_all add: num_def flag_def list_all_iff split: option.split)

lemma raw_typed_texts:
  "list_all (raw_typed C_Str) (map (\<lambda>(u, d). PyStr (f u d)) ps)"
  "list_all (raw_typed C_Str) (map (\<lambda>(u, d). if d then PyStr a else if u then PyStr b else PyNone) qs)"
  by (auto simp: list_all_iff)

lemma columns_typed_trend: "list_all column_typed (trend_columns ops ps)"
  by (simp add: trend_columns_def Let_def column_typed_def feature_types raw_typed_cells raw_typed_texts)

lemma columns_typed_momentum: "list_all column_typed (momentum_columns ops ps)"
  by (simp add: momentum_columns_def Let_def column_typed_def feature_types raw_typed_cells)

lemma columns_typed_volatility: "list_all column_typed (volatility_columns ops ps)"
  by (simp add: volatility_columns_def Let_def column_typed_def feature_types raw_typed_cells)

lemma columns_typed_volume: "list_all column_typed (volume_columns ops ps)"
  by (simp add: volume_columns_def Let_def column_typed_def feature_types raw_typed_cells)

lemma columns_typed_price_action: "list_all column_typed (price_action_columns ops ps)"
  by (simp add: price_action_columns_def Let_def column_typed_def feature_types raw_typed_cells raw_typed_texts)

lemma columns_typed_structure: "list_all column_typed (structure_columns ops ps)"
  by (simp add: structure_columns_def Let_def column_typed_def feature_types raw_typed_cells)

lemma columns_typed_support: "list_all column_typed (support_resistance_columns ops ps)"
  by (simp add: support_resistance_columns_def Let_def column_typed_def feature_types raw_typed_cells)

lemma columns_typed_pattern: "list_all column_typed (pattern_columns ops ps)"
  by (simp add: pattern_columns_def Let_def column_typed_def feature_types raw_typed_cells)

lemma columns_typed_rs: "list_all column_typed (rs_columns ops ps benchmark)"
  by (simp add: rs_columns_def column_typed_def feature_types raw_typed_cells)

lemma clip_cell_typed: "raw_typed ty v \<Longrightarrow> raw_typed ty (clip_cell lo hi v)"
  by (cases ty; cases v) auto

lemma features_columns_typed: "list_all column_typed (calculate_features ops ps benchmark)"
proof -
  have "list_all column_typed (raw_columns ops ps benchmark)"
    unfolding raw_columns_def list_all_append
    by (intro conjI columns_typed_trend columns_typed_momentum columns_typed_volatility columns_typed_volume
        columns_typed_price_action columns_typed_structure columns_typed_support columns_typed_pattern columns_typed_rs)
  moreover have "list_all column_typed (clean_columns cols)" if "list_all column_typed cols" for cols
    using that by (induction cols)
      (auto simp: clean_columns_def column_typed_def list_all_iff clip_cell_typed split: option.splits)
  ultimately show ?thesis by (simp add: calculate_features_def)
qed

text \<open>The column sets of the cleaning agree with the types of the table.\<close>

lemma column_sets:
  assumes "feature_type c = Some ty"
  shows "c \<in> set BOOLEAN_COLUMNS \<longleftrightarrow> ty = C_Bool" "c \<in> set INTEGER_COLUMNS \<longleftrightarrow> ty = C_Int" "c \<in> set STRING_COLUMNS \<longleftrightarrow> ty = C_Str"
proof -
  have "list_all (\<lambda>(c, ty). (c \<in> set BOOLEAN_COLUMNS \<longleftrightarrow> ty = C_Bool) \<and> (c \<in> set INTEGER_COLUMNS \<longleftrightarrow> ty = C_Int)
      \<and> (c \<in> set STRING_COLUMNS \<longleftrightarrow> ty = C_Str)) DAILY_FEATURE_COLUMNS"
    by code_simp
  with assms [unfolded feature_type_iff] show "c \<in> set BOOLEAN_COLUMNS \<longleftrightarrow> ty = C_Bool" "c \<in> set INTEGER_COLUMNS \<longleftrightarrow> ty = C_Int"
    "c \<in> set STRING_COLUMNS \<longleftrightarrow> ty = C_Str"
    by (auto simp: list_all_iff)
qed

lemma clean_value_typed:
  assumes "feature_type c = Some ty" "raw_typed ty v"
  shows "cell_typed ty (clean_value rt c v)"
  using column_sets [OF assms(1)] assms(2)
  by (cases ty; cases v) (auto simp: clean_value_def)

lemma row_values_typed:
  assumes "list_all column_typed cols" "\<forall>(c, vs) \<in> set cols. j < length vs"
  shows "values_typed DAILY_FEATURE_COLUMNS (row_to_values rt cols j)"
proof -
  have "cell_typed ty (clean_value rt c (vs ! j))" if m: "(c, vs) \<in> set cols" and d: "(c, ty) \<in> set DAILY_FEATURE_COLUMNS" for c vs ty
  proof -
    have ty: "feature_type c = Some ty" using d by (simp add: feature_type_iff)
    have "raw_typed ty (vs ! j)" using assms m ty by (fastforce simp: list_all_iff column_typed_def)
    with ty show ?thesis by (rule clean_value_typed)
  qed
  then show ?thesis by (auto simp: values_typed_def row_to_values_def)
qed

lemma session_values_typed: "values_typed SESSION_FEATURE_COLUMNS (session_row_values v prev)"
  by (auto simp: values_typed_def session_row_values_def SESSION_FEATURE_COLUMNS_def opt_cell_def split: option.split)

section \<open>The runs keep the types\<close>

lemma typed_upserts:
  assumes "features_typed s"
  shows "values_typed DAILY_FEATURE_COLUMNS vals \<Longrightarrow> features_typed (upsert_daily_feature i d vals s)"
    and "values_typed SESSION_FEATURE_COLUMNS vals \<Longrightarrow> features_typed (upsert_session_feature i d vals s)"
  using assms put_features_typed [OF _ distinct_feature_columns(1), of "daily_features s" "((i, d), vals)"]
    put_features_typed [OF _ distinct_feature_columns(2), of "session_features s" "((i, d), vals)"]
  by (simp_all add: features_typed_def upsert_daily_feature_def upsert_session_feature_def)

lemma ping_tables [simp]:
  "daily_features (ping_success now w d s) = daily_features s" "session_features (ping_success now w d s) = session_features s"
  "daily_prices (ping_success now w d s) = daily_prices s" "symbols (ping_success now w d s) = symbols s"
  by (simp_all add: ping_success_def Let_def)

lemma typed_ping [simp]: "features_typed (ping_success now w d s) = features_typed s"
  by (simp add: features_typed_def)

text \<open>What a symbol's daily run does: nothing, or one upsert for each newer bar.\<close>

definition write_rows :: "runtime \<Rightarrow> int \<Rightarrow> daily_price list \<Rightarrow> columns \<Rightarrow> nat list \<Rightarrow> 'x feature_store_scheme \<Rightarrow> 'x feature_store_scheme" where
  "write_rows rt i past cols js s = fold (\<lambda>j. upsert_daily_feature i (dp_date (past ! j)) (row_to_values rt cols j)) js s"

lemma daily_symbol_cases:
  fixes s :: "'x feature_store_scheme"
  obtains (skip) "snd (run_daily_for_symbol ops rt cfg fault benchmark i s) = s"
  | (rows) past where "past = get_daily_history i (feature_daily_lookback_bars cfg) s" "2 \<le> length past" "fault i = None"
      "snd (run_daily_for_symbol ops rt cfg fault benchmark i s)
         = write_rows rt i past (calculate_features ops past benchmark) (new_bars (get_latest_feature_date i s) past) s"
proof (cases "get_latest_daily i s")
  case None
  then show ?thesis by (intro skip) (simp add: run_daily_for_symbol_def)
next
  case (Some p)
  let ?past = "get_daily_history i (feature_daily_lookback_bars cfg) s"
  show ?thesis
  proof (cases "up_to_date (get_latest_feature_date i s) (dp_date p) \<or> length ?past < 2 \<or> fault i \<noteq> None")
    case True
    then show ?thesis by (intro skip) (auto simp: run_daily_for_symbol_def Some Let_def split: option.split)
  next
    case False
    then show ?thesis by (intro rows [OF refl]) (simp_all add: run_daily_for_symbol_def Some Let_def write_rows_def)
  qed
qed

lemma daily_step_store: "snd (daily_step ops rt cfg fault benchmark y q) = snd (run_daily_for_symbol ops rt cfg fault benchmark (sy_id y) (snd q))"
  by (simp add: daily_step_def split: prod.split sum.split)

lemma daily_fold_store:
  "snd (fold (daily_step ops rt cfg fault benchmark) ys q)
     = fold (\<lambda>y s. snd (run_daily_for_symbol ops rt cfg fault benchmark (sy_id y) s)) ys (snd q)"
  by (induction ys arbitrary: q) (simp_all add: daily_step_store)

definition to_process :: "'x feature_store_scheme \<Rightarrow> symbol_row list" where
  "to_process s = filter (\<lambda>y. needs_features (map sy_id (list_active s)) s (sy_id y)) (list_active s)"

definition process_all where
  "process_all ops rt cfg fault benchmark ys s = fold (\<lambda>y s. snd (run_daily_for_symbol ops rt cfg fault benchmark (sy_id y) s)) ys s"

lemma run_daily_store:
  obtains d where "snd (run_daily ops rt cfg fault now s)
    = ping_success now FEATURE_ENGINE_WORKER_NAME d (process_all ops rt cfg fault (load_benchmark cfg s) (to_process s) s)"
  by (simp add: run_daily_def Let_def case_prod_beta daily_fold_store process_all_def to_process_def)

lemma typed_write_rows:
  assumes "ops_causal ops" "centered_lengths ops" "features_typed s" "set js \<subseteq> {..<length past}"
  shows "features_typed (write_rows rt i past (calculate_features ops past benchmark) js s)"
  unfolding write_rows_def
proof (rule fold_invariant [where Q = "\<lambda>j. j < length past"])
  fix j and t :: "'a feature_store_scheme"
  assume j: "j < length past" and t: "features_typed t"
  have "values_typed DAILY_FEATURE_COLUMNS (row_to_values rt (calculate_features ops past benchmark) j)"
    using features_columns_typed column_lengths [OF assms(1,2)] j by (intro row_values_typed) auto
  with t show "features_typed (upsert_daily_feature i (dp_date (past ! j)) (row_to_values rt (calculate_features ops past benchmark) j) t)"
    by (rule typed_upserts(1))
qed (use assms in auto)

lemma new_bars_range: "set (new_bars cutoff past) \<subseteq> {..<length past}"
  by (auto simp: new_bars_def)

lemma typed_daily_symbol:
  assumes "ops_causal ops" "centered_lengths ops" "features_typed s"
  shows "features_typed (snd (run_daily_for_symbol ops rt cfg fault benchmark i s))"
  using assms(3) by (cases ops rt cfg fault benchmark i s rule: daily_symbol_cases)
    (simp_all only: typed_write_rows [OF assms new_bars_range])

lemma typed_process_all:
  assumes "ops_causal ops" "centered_lengths ops" "features_typed s"
  shows "features_typed (process_all ops rt cfg fault benchmark ys s)"
  unfolding process_all_def using assms(3)
  by (rule fold_invariant [where Q = "\<lambda>_. True", rotated]) (auto intro: typed_daily_symbol assms)

lemma typed_session_step: "features_typed (snd q) \<Longrightarrow> features_typed (snd (session_step cfg zone fault today y q))"
  by (auto simp: session_step_def run_session_for_symbol_def Let_def typed_upserts(2) session_values_typed split: option.split prod.split)

text \<open>C20: The feature tables stay well typed: with a calculator whose windows look back only, a daily run and a session run
  leave in every row a cell of its column's type: a number or NULL in numeric columns, an integer or NULL in
  integer columns, a text or NULL in text columns, and never NULL in the Boolean columns, which the table
  declares NOT NULL.\<close>

theorem feature_tables_stay_typed:
  fixes s :: "'x feature_store_scheme"
  assumes "ops_causal ops" "centered_lengths ops" "features_typed s"
  shows "features_typed (snd (run_daily ops rt cfg fault now s)) \<and> features_typed (snd (run_session cfg zone fault now s))"
proof
  obtain d where "snd (run_daily ops rt cfg fault now s)
      = ping_success now FEATURE_ENGINE_WORKER_NAME d (process_all ops rt cfg fault (load_benchmark cfg s) (to_process s) s)"
    by (rule run_daily_store)
  then show "features_typed (snd (run_daily ops rt cfg fault now s))" using typed_process_all [OF assms] by simp
  have "features_typed (snd (fold (session_step cfg zone fault today) ys q))" if "features_typed (snd q)"
    for today ys and q :: "feature_run \<times> 'x feature_store_scheme"
    using that by (induction ys arbitrary: q) (simp_all add: typed_session_step)
  then show "features_typed (snd (run_session cfg zone fault now s))" using assms(3) by (simp add: run_session_def Let_def)
qed

section \<open>Stored rows are kept\<close>

text \<open>\<open>t\<close> has the rows of \<open>s\<close> and beyond them only rows of newer bars.\<close>

definition features_grow :: "'x feature_store_scheme \<Rightarrow> 'x feature_store_scheme \<Rightarrow> bool" where
  "features_grow s t \<longleftrightarrow> daily_prices t = daily_prices s \<and> symbols t = symbols s \<and> session_features t = session_features s
     \<and> set (daily_features s) \<subseteq> set (daily_features t)
     \<and> (\<forall>r \<in> set (daily_features t) - set (daily_features s).
          (\<exists>p \<in> set (daily_prices s). dp_symbol_id p = fr_symbol_id r \<and> dp_date p = fr_date r)
        \<and> (\<forall>q \<in> set (daily_features s). fr_symbol_id q = fr_symbol_id r \<longrightarrow> fr_date q < fr_date r))"

lemma put_features_members:
  shows "r \<in> set (put_features columns ((i, d), vals) rows) \<Longrightarrow> r \<in> set rows \<or> feature_key r = (i, d)"
    and "r \<in> set rows \<Longrightarrow> feature_key r \<noteq> (i, d) \<Longrightarrow> r \<in> set (put_features columns ((i, d), vals) rows)"
  by (auto simp: put_features_def upsert_by_def set_cols_def feature_key_def split: option.splits if_splits)

lemma upsert_daily_frame [simp]:
  "daily_prices (upsert_daily_feature i d vals s) = daily_prices s" "symbols (upsert_daily_feature i d vals s) = symbols s"
  "session_features (upsert_daily_feature i d vals s) = session_features s"
  by (simp_all add: upsert_daily_feature_def)

lemma grow_refl: "features_grow s s"
  by (simp add: features_grow_def)

lemma growD:
  assumes "features_grow s t"
  shows "q \<in> set (daily_features s) \<Longrightarrow> q \<in> set (daily_features t)"
    and "r \<in> set (daily_features t) \<Longrightarrow> r \<notin> set (daily_features s)
      \<Longrightarrow> (\<exists>p \<in> set (daily_prices s). dp_symbol_id p = fr_symbol_id r \<and> dp_date p = fr_date r)
        \<and> (\<forall>q \<in> set (daily_features s). fr_symbol_id q = fr_symbol_id r \<longrightarrow> fr_date q < fr_date r)"
  using assms by (simp_all add: features_grow_def subset_iff)

lemma growI:
  assumes "daily_prices t = daily_prices s" "symbols t = symbols s" "session_features t = session_features s"
    and "\<And>q. q \<in> set (daily_features s) \<Longrightarrow> q \<in> set (daily_features t)"
    and "\<And>r. r \<in> set (daily_features t) \<Longrightarrow> r \<notin> set (daily_features s)
      \<Longrightarrow> (\<exists>p \<in> set (daily_prices s). dp_symbol_id p = fr_symbol_id r \<and> dp_date p = fr_date r)
        \<and> (\<forall>q \<in> set (daily_features s). fr_symbol_id q = fr_symbol_id r \<longrightarrow> fr_date q < fr_date r)"
  shows "features_grow s t"
  using assms by (simp add: features_grow_def subset_iff)

lemma grow_frame:
  assumes "features_grow s t"
  shows "daily_prices t = daily_prices s" "symbols t = symbols s" "session_features t = session_features s"
  using assms by (simp_all add: features_grow_def)

lemma grow_trans:
  assumes st: "features_grow s t" and tu: "features_grow t u"
  shows "features_grow s u"
proof (rule growI)
  fix r assume r: "r \<in> set (daily_features u)" "r \<notin> set (daily_features s)"
  show "(\<exists>p \<in> set (daily_prices s). dp_symbol_id p = fr_symbol_id r \<and> dp_date p = fr_date r)
        \<and> (\<forall>q \<in> set (daily_features s). fr_symbol_id q = fr_symbol_id r \<longrightarrow> fr_date q < fr_date r)"
  proof (cases "r \<in> set (daily_features t)")
    case True
    then show ?thesis using r(2) by (rule growD(2) [OF st])
  next
    case False
    then show ?thesis using growD(2) [OF tu r(1)] growD(1) [OF st] grow_frame(1) [OF st] by simp
  qed
qed (simp_all add: grow_frame [OF st] grow_frame [OF tu] growD(1) [OF st] growD(1) [OF tu])

lemma grow_upsert:
  assumes "features_grow s t" "p \<in> set (daily_prices s)" "dp_symbol_id p = i"
    and "\<forall>q \<in> set (daily_features s). fr_symbol_id q = i \<longrightarrow> fr_date q < dp_date p"
  shows "features_grow s (upsert_daily_feature i (dp_date p) vals t)"
proof (rule growI)
  let ?t = "upsert_daily_feature i (dp_date p) vals t"
  have rows: "daily_features ?t = put_features DAILY_FEATURE_COLUMNS ((i, dp_date p), vals) (daily_features t)"
    by (simp add: upsert_daily_feature_def)
  show "q \<in> set (daily_features ?t)" if q: "q \<in> set (daily_features s)" for q
  proof -
    have "feature_key q \<noteq> (i, dp_date p)" using assms(4) q by (auto simp: feature_key_def)
    with growD(1) [OF assms(1) q] show ?thesis unfolding rows by (rule put_features_members(2))
  qed
  show "(\<exists>p \<in> set (daily_prices s). dp_symbol_id p = fr_symbol_id r \<and> dp_date p = fr_date r)
      \<and> (\<forall>q \<in> set (daily_features s). fr_symbol_id q = fr_symbol_id r \<longrightarrow> fr_date q < fr_date r)"
    if r: "r \<in> set (daily_features ?t)" "r \<notin> set (daily_features s)" for r
  proof (cases "feature_key r = (i, dp_date p)")
    case True
    then show ?thesis using assms(2-4) by (auto simp: feature_key_def)
  next
    case False
    with put_features_members(1) [OF r(1) [unfolded rows]] have "r \<in> set (daily_features t)" by blast
    then show ?thesis using r(2) by (rule growD(2) [OF assms(1)])
  qed
qed (simp_all add: grow_frame [OF assms(1)])

lemma history_bars: "p \<in> set (get_daily_history i limit s) \<Longrightarrow> p \<in> set (daily_prices s) \<and> dp_symbol_id p = i"
  by (auto simp: get_daily_history_def daily_newest_first_def dest: in_set_takeD)

lemma latest_feature_bound:
  "get_latest_feature_date i s = None \<Longrightarrow> q \<in> set (daily_features s) \<Longrightarrow> fr_symbol_id q \<noteq> i"
  "get_latest_feature_date i s = Some d \<Longrightarrow> q \<in> set (daily_features s) \<Longrightarrow> fr_symbol_id q = i \<Longrightarrow> fr_date q \<le> d"
  by (auto simp: get_latest_feature_date_def newest_by_None_iff dest: newest_by_SomeD(3))

lemma new_bar_newer:
  assumes "j \<in> set (new_bars (get_latest_feature_date i s) past)" "q \<in> set (daily_features s)" "fr_symbol_id q = i"
  shows "fr_date q < dp_date (past ! j)"
  using assms latest_feature_bound [of i s] by (fastforce simp: new_bars_def split: option.splits)

lemma grow_daily_symbol: "features_grow s (snd (run_daily_for_symbol ops rt cfg fault benchmark i s))"
proof (cases ops rt cfg fault benchmark i s rule: daily_symbol_cases)
  case (rows past)
  have "features_grow s (write_rows rt i past cols (new_bars (get_latest_feature_date i s) past) s)" for cols
    unfolding write_rows_def
  proof (rule fold_invariant [where Q = "\<lambda>j. j \<in> set (new_bars (get_latest_feature_date i s) past)"])
    fix j and t :: "'a feature_store_scheme"
    assume j: "j \<in> set (new_bars (get_latest_feature_date i s) past)" and t: "features_grow s t"
    then have "past ! j \<in> set past" using new_bars_range by (auto intro!: nth_mem)
    with history_bars rows(1) have "past ! j \<in> set (daily_prices s)" "dp_symbol_id (past ! j) = i" by auto
    with t show "features_grow s (upsert_daily_feature i (dp_date (past ! j)) (row_to_values rt cols j) t)"
      using j new_bar_newer by (intro grow_upsert) auto
  qed (simp_all add: grow_refl)
  then show ?thesis by (simp only: rows(4))
qed (simp add: grow_refl)

lemma grow_process_all: "features_grow s (process_all ops rt cfg fault benchmark ys s)"
  unfolding process_all_def
  by (rule fold_invariant [where Q = "\<lambda>_. True"]) (auto intro: grow_refl grow_trans grow_daily_symbol)

text \<open>C14: A daily run never rewrites a stored feature row: every row is still there afterwards, unchanged, and each added row
  belongs to a stored bar of its symbol and is dated after every row the symbol had. So the row of a day is the
  one computed from the bar as it was when the row was first written.\<close>

theorem daily_features_append_only:
  "set (daily_features s) \<subseteq> set (daily_features (snd (run_daily ops rt cfg fault now s)))
   \<and> (\<forall>r \<in> set (daily_features (snd (run_daily ops rt cfg fault now s))) - set (daily_features s).
        (\<exists>p \<in> set (daily_prices s). dp_symbol_id p = fr_symbol_id r \<and> dp_date p = fr_date r)
      \<and> (\<forall>q \<in> set (daily_features s). fr_symbol_id q = fr_symbol_id r \<longrightarrow> fr_date q < fr_date r))"
proof -
  obtain d where "snd (run_daily ops rt cfg fault now s)
      = ping_success now FEATURE_ENGINE_WORKER_NAME d (process_all ops rt cfg fault (load_benchmark cfg s) (to_process s) s)"
    by (rule run_daily_store)
  then show ?thesis
    using grow_process_all [of s ops rt cfg fault "load_benchmark cfg s" "to_process s"] by (simp add: features_grow_def)
qed

section \<open>The bulk filters\<close>

text \<open>The runs without the filters before their loops.\<close>

definition run_daily_unfiltered ::
  "window_ops \<Rightarrow> runtime \<Rightarrow> settings \<Rightarrow> (int \<Rightarrow> py_error option) \<Rightarrow> int \<Rightarrow> 'x feature_store_scheme
     \<Rightarrow> feature_run \<times> 'x feature_store_scheme" where
  "run_daily_unfiltered ops rt cfg fault now s =
     (let syms = list_active s;
          (r, s') = fold (daily_step ops rt cfg fault (load_benchmark cfg s)) syms
             (\<lparr>ft_symbols_processed = length syms, ft_symbols_updated = 0, ft_rows_written = 0, ft_errors = []\<rparr>, s)
      in (r, ping_success now FEATURE_ENGINE_WORKER_NAME (Some (feature_detail r)) s'))"

definition run_session_unfiltered ::
  "settings \<Rightarrow> timezone \<Rightarrow> (int \<Rightarrow> py_error option) \<Rightarrow> int \<Rightarrow> 'x feature_store_scheme \<Rightarrow> feature_run \<times> 'x feature_store_scheme" where
  "run_session_unfiltered cfg zone fault now s =
     fold (session_step cfg zone fault (date_of (to_market_time (utc_dt now) (market_timezone cfg)))) (list_active s)
       (\<lparr>ft_symbols_processed = length (list_active s), ft_symbols_updated = 0, ft_rows_written = 0, ft_errors = []\<rparr>, s)"

lemma fold_skip:
  assumes "I q" "\<And>x q. x \<in> set xs \<Longrightarrow> I q \<Longrightarrow> I (f x q)" "\<And>x q. x \<in> set xs \<Longrightarrow> I q \<Longrightarrow> \<not> P x \<Longrightarrow> f x q = q"
  shows "fold f (filter P xs) q = fold f xs q"
  using assms by (induction xs arbitrary: q) auto

lemma bulk_latest_daily: "i \<in> set ids \<Longrightarrow> get_latest_daily_bulk ids s i = get_latest_daily i s"
  by (simp add: get_latest_daily_bulk_def get_daily_bulk_at_rank_def get_latest_daily_def newest_by_def daily_newest_first_def
      Suc_le_eq split: list.split)

lemma needs_features_iff:
  assumes "i \<in> set ids"
  shows "needs_features ids s i \<longleftrightarrow> (\<exists>p. get_latest_daily i s = Some p \<and> \<not> up_to_date (get_latest_feature_date i s) (dp_date p))"
  using assms by (auto simp: needs_features_def bulk_latest_daily get_latest_features_bulk_def get_latest_feature_def
      get_latest_feature_date_def split: option.split)

lemma up_to_date_iff:
  "up_to_date (get_latest_feature_date i s) d \<longleftrightarrow> (\<exists>r \<in> set (daily_features s). fr_symbol_id r = i \<and> d \<le> fr_date r)"
proof (cases "get_latest_feature_date i s")
  case None
  then show ?thesis using latest_feature_bound(1) by (auto simp: up_to_date_def)
next
  case (Some e)
  then obtain r where r: "r \<in> set (daily_features s)" "fr_symbol_id r = i" "fr_date r = e"
    by (auto simp: get_latest_feature_date_def dest: newest_by_SomeD)
  have "d \<le> e \<longleftrightarrow> (\<exists>r \<in> set (daily_features s). fr_symbol_id r = i \<and> d \<le> fr_date r)"
    using latest_feature_bound(2) [OF Some] r by (blast intro: order_trans)
  then show ?thesis by (simp add: up_to_date_def Some)
qed

lemma skip_when_up_to_date:
  assumes "i \<in> set ids" "\<not> needs_features ids s i" "features_grow s t"
  shows "run_daily_for_symbol ops rt cfg fault benchmark i t = (Inr 0, t)"
proof (cases "get_latest_daily i t")
  case (Some p)
  then have "get_latest_daily i s = Some p" by (simp add: get_latest_daily_def grow_frame [OF assms(3)])
  with assms(1,2) have "up_to_date (get_latest_feature_date i s) (dp_date p)" by (simp add: needs_features_iff)
  then have "up_to_date (get_latest_feature_date i t) (dp_date p)"
    unfolding up_to_date_iff using growD(1) [OF assms(3)] by blast
  then show ?thesis by (simp add: run_daily_for_symbol_def Some)
qed (simp add: run_daily_for_symbol_def)

lemma no_bars_iff:
  "get_intraday_for_date zone i day s = [] \<longleftrightarrow> (\<forall>r \<in> set (intraday_prices s). \<not> (ip_symbol_id r = i \<and> in_naive_day zone day (ip_datetime r)))"
  by (simp add: get_intraday_for_date_def filter_empty_conv)

lemma session_step_frame: "intraday_prices (snd (session_step cfg zone fault today y q)) = intraday_prices (snd q)"
  by (auto simp: session_step_def run_session_for_symbol_def Let_def upsert_session_feature_def split: option.split prod.split)

lemma daily_filter_exact:
  fixes s :: "'x feature_store_scheme"
  shows "run_daily ops rt cfg fault now s = run_daily_unfiltered ops rt cfg fault now s"
proof -
  let ?ids = "map sy_id (list_active s)" and ?step = "daily_step ops rt cfg fault (load_benchmark cfg s)"
  have "fold ?step (filter (\<lambda>y. needs_features ?ids s (sy_id y)) (list_active s)) (r, s) = fold ?step (list_active s) (r, s)" for r
  proof (rule fold_skip [where I = "\<lambda>q. features_grow s (snd q)"])
    fix y and q :: "feature_run \<times> 'x feature_store_scheme"
    assume y: "y \<in> set (list_active s)" and q: "features_grow s (snd q)"
    show "features_grow s (snd (?step y q))" unfolding daily_step_store using q grow_daily_symbol by (rule grow_trans)
    assume "\<not> needs_features ?ids s (sy_id y)"
    then have "run_daily_for_symbol ops rt cfg fault (load_benchmark cfg s) (sy_id y) (snd q) = (Inr 0, snd q)"
      using y q by (intro skip_when_up_to_date [where ids = ?ids and s = s]) auto
    then show "?step y q = q" by (cases q) (simp add: daily_step_def)
  qed (simp add: grow_refl)
  then show ?thesis
    by (simp add: run_daily_def run_daily_unfiltered_def Let_def)
qed

lemma session_filter_exact:
  fixes s :: "'x feature_store_scheme"
  shows "run_session cfg zone fault now s = run_session_unfiltered cfg zone fault now s"
proof -
  let ?today = "date_of (to_market_time (utc_dt now) (market_timezone cfg))"
  let ?step = "session_step cfg zone fault ?today :: symbol_row \<Rightarrow> feature_run \<times> 'x feature_store_scheme \<Rightarrow> _"
  have "fold ?step (filter (\<lambda>y. sy_id y \<in> set (list_symbol_ids_with_intraday_on zone (map sy_id (list_active s)) ?today s)) (list_active s)) (r, s)
      = fold ?step (list_active s) (r, s)" for r
  proof (rule fold_skip [where I = "\<lambda>q. intraday_prices (snd q) = intraday_prices s"])
    fix y and q :: "feature_run \<times> 'x feature_store_scheme"
    assume y: "y \<in> set (list_active s)" and q: "intraday_prices (snd q) = intraday_prices s"
    show "intraday_prices (snd (?step y q)) = intraday_prices s" by (simp add: session_step_frame q)
    assume "\<not> sy_id y \<in> set (list_symbol_ids_with_intraday_on zone (map sy_id (list_active s)) ?today s)"
    then have "get_intraday_for_date zone (sy_id y) ?today (snd q) = []"
      using y unfolding no_bars_iff q by (auto simp: list_symbol_ids_with_intraday_on_def image_iff)
    then show "?step y q = q" by (cases q) (simp add: session_step_def run_session_for_symbol_def)
  qed simp
  then show ?thesis
    by (simp add: run_session_def run_session_unfiltered_def Let_def)
qed

text \<open>The bulk filters of both runs leave nothing out: the daily run equals the run that asks each active symbol whether it is
  up to date, and the session run the one that looks for today's bars of each active symbol, in the stored
  rows, the counts, the errors and the heartbeat.\<close>

theorem bulk_filters_exact:
  "run_daily ops rt cfg fault now s = run_daily_unfiltered ops rt cfg fault now s
    \<and> run_session cfg zone fault now s = run_session_unfiltered cfg zone fault now s"
  by (intro conjI daily_filter_exact session_filter_exact)

section \<open>Newer bars get their rows\<close>

definition FEATURE_NAMES :: "string list" where
  "FEATURE_NAMES =
     [''ema20'', ''ema50'', ''ema200'', ''sma20'', ''trend_direction'', ''trend_strength'', ''golden_cross'',
      ''death_cross'', ''rsi14'', ''macd_line'', ''macd_signal'', ''macd_histogram'', ''adx14'', ''plus_di14'',
      ''minus_di14'', ''momentum_score'', ''atr14'', ''atr_expansion'', ''atr_contraction'', ''bb_upper'',
      ''bb_middle'', ''bb_lower'', ''bb_width'', ''kc_upper'', ''kc_middle'', ''kc_lower'', ''volatility_squeeze'',
      ''volume_ma20'', ''relative_volume'', ''obv'', ''volume_spike'', ''volume_dry_up'', ''accumulation_score'',
      ''distribution_score'', ''higher_high'', ''higher_low'', ''lower_high'', ''lower_low'', ''break_of_structure'',
      ''inside_bar'', ''outside_bar'', ''gap_up'', ''gap_down'', ''nr4'', ''nr7'', ''swing_high'', ''swing_low'',
      ''trend_channel_upper'', ''trend_channel_lower'', ''is_range'', ''is_consolidation'', ''base_length_days'',
      ''range_width_pct'', ''support_level'', ''resistance_level'', ''pivot_point'', ''breakout_level'',
      ''pullback_zone_low'', ''pullback_zone_high'', ''pattern_triangle'', ''pattern_bull_flag'',
      ''pattern_bear_flag'', ''pattern_flat_base'', ''pattern_ipo_base'', ''pattern_rectangle'',
      ''pattern_cup_handle'', ''pattern_vcp'', ''rs_vs_nifty'']"

lemma feature_names: "map fst (calculate_features ops ps benchmark) = FEATURE_NAMES"
proof -
  have "map fst (clean_columns cols) = map fst cols" for cols by (auto simp: clean_columns_def)
  then have "map fst (calculate_features ops ps benchmark) = map fst (raw_columns ops ps benchmark)"
    by (simp only: calculate_features_def)
  also have "\<dots> = FEATURE_NAMES"
    by (simp add: raw_columns_def trend_columns_def momentum_columns_def volatility_columns_def volume_columns_def
        price_action_columns_def structure_columns_def support_resistance_columns_def pattern_columns_def rs_columns_def
        Let_def FEATURE_NAMES_def)
  finally show ?thesis .
qed

lemma distinct_feature_names: "distinct FEATURE_NAMES" "set FEATURE_NAMES \<subseteq> fst ` set DAILY_FEATURE_COLUMNS"
proof -
  show "distinct FEATURE_NAMES" by code_simp
  have "list_all (\<lambda>c. c \<in> set (map fst DAILY_FEATURE_COLUMNS)) FEATURE_NAMES" by code_simp
  then show "set FEATURE_NAMES \<subseteq> fst ` set DAILY_FEATURE_COLUMNS" by (auto simp: list_all_iff)
qed

lemma set_cols_get:
  assumes "distinct (map fst vals)" "(c, v) \<in> set vals" "c \<in> fst ` set columns"
  shows "col (set_cols columns vals r) c = v"
proof -
  let ?step = "\<lambda>m (c, v). if c \<in> fst ` set columns then m(c \<mapsto> v) else m"
  have other: "c \<notin> fst ` set us \<Longrightarrow> foldl ?step m us c = m c" for us m
    by (induction us arbitrary: m) auto
  have "foldl ?step m vals c = Some v" for m
    using assms(1,2)
  proof (induction vals arbitrary: m)
    case (Cons x vals)
    show ?case
    proof (cases "x = (c, v)")
      case True
      with Cons.prems(1) show ?thesis using assms(3) by (simp add: other)
    next
      case False
      with Cons show ?thesis by simp
    qed
  qed simp
  then show ?thesis by (simp add: col_def dict_get_def set_cols_def)
qed

lemma row_values_get:
  assumes "(c, vs) \<in> set (calculate_features ops ps benchmark)"
  shows "col (set_cols DAILY_FEATURE_COLUMNS (row_to_values rt (calculate_features ops ps benchmark) j) r) c = clean_value rt c (vs ! j)"
proof (rule set_cols_get)
  have "map fst (row_to_values rt cols j) = map fst cols" for cols by (auto simp: row_to_values_def)
  then show "distinct (map fst (row_to_values rt (calculate_features ops ps benchmark) j))"
    by (simp only: feature_names distinct_feature_names)
  show "(c, clean_value rt c (vs ! j)) \<in> set (row_to_values rt (calculate_features ops ps benchmark) j)"
    using assms by (force simp: row_to_values_def)
  have "c \<in> set (map fst (calculate_features ops ps benchmark))" using assms by force
  then show "c \<in> fst ` set DAILY_FEATURE_COLUMNS" using distinct_feature_names(2) by (auto simp only: feature_names)
qed

text \<open>What another symbol's run leaves of a symbol's rows.\<close>

definition rows_of :: "int \<Rightarrow> 'x feature_store_scheme \<Rightarrow> feature_row list" where
  "rows_of i s = filter (\<lambda>r. fr_symbol_id r = i) (daily_features s)"

lemma lookup_rows_of: "lookup_by feature_key (i, d) (daily_features s) = lookup_by feature_key (i, d) (rows_of i s)"
proof -
  have "lookup_by feature_key (i, d) rows = lookup_by feature_key (i, d) (filter (\<lambda>r. fr_symbol_id r = i) rows)" for rows
    by (induction rows) (auto simp: lookup_by_def feature_key_def)
  then show ?thesis by (simp add: rows_of_def)
qed

lemma rows_of_upsert: "i \<noteq> k \<Longrightarrow> rows_of i (upsert_daily_feature k d vals s) = rows_of i s"
proof -
  assume ik: "i \<noteq> k"
  have "filter (\<lambda>r. fr_symbol_id r = i) (map (\<lambda>r. if feature_key r = (k, d) then set_cols cs vals r else r) rows)
      = filter (\<lambda>r. fr_symbol_id r = i) rows" for rows cs
    using ik by (induction rows) (auto simp: feature_key_def set_cols_def)
  with ik show ?thesis
    by (simp add: rows_of_def upsert_daily_feature_def put_features_def upsert_by_def set_cols_def split: option.split)
qed

lemma rows_of_daily_symbol:
  assumes "i \<noteq> k"
  shows "rows_of i (snd (run_daily_for_symbol ops rt cfg fault benchmark k s)) = rows_of i s"
proof (cases ops rt cfg fault benchmark k s rule: daily_symbol_cases)
  case (rows past)
  have "rows_of i (write_rows rt k past cols js s) = rows_of i s" for cols js
    unfolding write_rows_def by (rule fold_invariant [where Q = "\<lambda>_. True"]) (simp_all add: rows_of_upsert assms)
  then show ?thesis by (simp only: rows(4))
qed simp

lemma rows_of_process_all:
  assumes "i \<notin> sy_id ` set ys"
  shows "rows_of i (process_all ops rt cfg fault benchmark ys s) = rows_of i s"
  using assms unfolding process_all_def by (induction ys arbitrary: s) (simp_all add: rows_of_daily_symbol)

lemma write_rows_lookup:
  assumes "distinct (map dp_date past)" "distinct js" "set js \<subseteq> {..<length past}" "j \<in> set js"
  shows "\<exists>r. lookup_by feature_key (i, dp_date (past ! j)) (daily_features (write_rows rt i past cols js s))
    = Some (set_cols DAILY_FEATURE_COLUMNS (row_to_values rt cols j) r)"
proof -
  let ?v = "\<lambda>j. ((i, dp_date (past ! j)), row_to_values rt cols j)"
  have tab: "daily_features (write_rows rt i past cols ks t) = fold (put_features DAILY_FEATURE_COLUMNS) (map ?v ks) (daily_features t)" for ks t
    unfolding write_rows_def by (induction ks arbitrary: t) (simp_all add: upsert_daily_feature_def)
  obtain before after where js: "js = before @ j # after" using assms(4) by (auto dest: split_list)
  have "\<forall>k \<in> set after. dp_date (past ! j) \<noteq> dp_date (past ! k)"
  proof
    fix k assume "k \<in> set after"
    then have "k \<noteq> j" "k < length past" "j < length past" using assms(2,3) by (auto simp: js)
    then show "dp_date (past ! j) \<noteq> dp_date (past ! k)" using nth_eq_iff_index_eq [OF assms(1), of k j] by simp
  qed
  then have "(i, dp_date (past ! j)) \<notin> fst ` set (map ?v after)" by (simp add: image_iff)
  then show ?thesis
    unfolding tab js by (simp add: feature_table.lookup_puts_other feature_table.lookup_put) blast
qed

lemma distinct_new_bars: "distinct (new_bars cutoff past)"
  by (simp add: new_bars_def)

lemma daily_symbol_writes:
  assumes "past = get_daily_history i (feature_daily_lookback_bars cfg) s" "2 \<le> length past" "fault i = None"
    and "j \<in> set (new_bars (get_latest_feature_date i s) past)"
  shows "snd (run_daily_for_symbol ops rt cfg fault benchmark i s)
    = write_rows rt i past (calculate_features ops past benchmark) (new_bars (get_latest_feature_date i s) past) s"
proof -
  have "past ! j \<in> set past" using assms(4) new_bars_range by (auto intro!: nth_mem)
  then have bar: "past ! j \<in> set (daily_prices s)" "dp_symbol_id (past ! j) = i" using history_bars assms(1) by auto
  then obtain p where p: "get_latest_daily i s = Some p"
    by (cases "get_latest_daily i s") (auto simp: get_latest_daily_def newest_by_None_iff)
  then have "dp_date (past ! j) \<le> dp_date p" using bar by (auto simp: get_latest_daily_def dest: newest_by_SomeD(3))
  then have "\<not> up_to_date (get_latest_feature_date i s) (dp_date p)"
    using assms(4) by (auto simp: new_bars_def up_to_date_def split: option.splits)
  with assms p show ?thesis by (simp add: run_daily_for_symbol_def Let_def write_rows_def)
qed

lemma mset_sort_str: "mset (sort_str f xs) = mset xs"
proof -
  have "mset (insort_str f x ys) = add_mset x (mset ys)" for x ys by (induction ys) simp_all
  then show ?thesis by (induction xs) (simp_all add: sort_str_def)
qed

lemma distinct_list_active:
  assumes "distinct (map sy_id (symbols s))"
  shows "distinct (map sy_id (list_active s))"
proof -
  have "mset (map sy_id (list_active s)) = mset (map sy_id (filter sy_is_active (symbols s)))"
    by (simp add: list_active_def mset_sort_str)
  moreover have "distinct (map sy_id (filter sy_is_active (symbols s)))" using assms by (rule distinct_map_filter)
  ultimately show ?thesis by (metis mset_eq_imp_distinct_iff)
qed

text \<open>C9: Every newer bar gets its features: when symbol ids are distinct, the daily run stores, for each active symbol with at
  least two loaded bars that are dated apart and whose computation does not fail, a row for each loaded bar
  newer than the symbol's newest feature row, and each of its columns holds the cleaned cell that the calculator computes from the loaded
  bars and the benchmark, whatever happens to other symbols.\<close>

theorem new_bars_get_features:
  fixes s :: "'x feature_store_scheme"
  assumes "distinct (map sy_id (symbols s))" "y \<in> set (list_active s)" "fault (sy_id y) = None"
    and past: "past = get_daily_history (sy_id y) (feature_daily_lookback_bars cfg) s" "2 \<le> length past" "distinct (map dp_date past)"
    and j: "j \<in> set (new_bars (get_latest_feature_date (sy_id y) s) past)"
  shows "\<exists>r. lookup_by feature_key (sy_id y, dp_date (past ! j)) (daily_features (snd (run_daily ops rt cfg fault now s))) = Some r
    \<and> (\<forall>(c, vs) \<in> set (calculate_features ops past (load_benchmark cfg s)). col r c = clean_value rt c (vs ! j))"
proof -
  let ?run = "\<lambda>ys t. process_all ops rt cfg fault (load_benchmark cfg s) ys t"
  let ?cols = "calculate_features ops past (load_benchmark cfg s)"
  obtain d where store: "snd (run_daily_unfiltered ops rt cfg fault now s)
      = ping_success now FEATURE_ENGINE_WORKER_NAME d (?run (list_active s) s)"
    by (simp add: run_daily_unfiltered_def Let_def case_prod_beta daily_fold_store process_all_def)
  obtain before after where split: "list_active s = before @ y # after" using assms(2) by (auto dest: split_list)
  have others: "sy_id y \<notin> sy_id ` set before" "sy_id y \<notin> sy_id ` set after"
    using distinct_list_active [OF assms(1)] unfolding split by auto
  define t where "t = ?run before s"
  have t: "features_grow s t" "rows_of (sy_id y) t = rows_of (sy_id y) s"
    by (simp_all only: t_def grow_process_all rows_of_process_all [OF others(1)])
  have same: "get_daily_history (sy_id y) n t = get_daily_history (sy_id y) n s" "get_latest_feature_date (sy_id y) t = get_latest_feature_date (sy_id y) s" for n
    using t by (simp_all add: get_daily_history_def daily_newest_first_def grow_frame get_latest_feature_date_def newest_by_def rows_of_def)
  define u where "u = snd (run_daily_for_symbol ops rt cfg fault (load_benchmark cfg s) (sy_id y) t)"
  have u: "u = write_rows rt (sy_id y) past ?cols (new_bars (get_latest_feature_date (sy_id y) s) past) t"
    using daily_symbol_writes [of past "sy_id y" cfg t fault j ops rt "load_benchmark cfg s"] assms(3) past j by (simp add: u_def same)
  obtain q where q: "lookup_by feature_key (sy_id y, dp_date (past ! j)) (daily_features u)
      = Some (set_cols DAILY_FEATURE_COLUMNS (row_to_values rt ?cols j) q)"
    using write_rows_lookup [OF past(3) distinct_new_bars new_bars_range j, of "sy_id y" rt ?cols t] unfolding u by blast
  have "?run (list_active s) s = ?run after u" by (simp add: split process_all_def u_def t_def)
  then have "rows_of (sy_id y) (?run (list_active s) s) = rows_of (sy_id y) u" using rows_of_process_all [OF others(2)] by simp
  then have "lookup_by feature_key (sy_id y, dp_date (past ! j)) (daily_features (snd (run_daily ops rt cfg fault now s)))
      = Some (set_cols DAILY_FEATURE_COLUMNS (row_to_values rt ?cols j) q)"
    using q unfolding daily_filter_exact store ping_tables lookup_rows_of by simp
  then show ?thesis using row_values_get by (intro exI conjI) auto
qed

text \<open>A store with three bars of an active symbol and no feature rows.\<close>

definition demo_feature_store :: feature_store where
  "demo_feature_store = momentum_store.extend
     (demo_momentum\<lparr>symbols := [new_symbol 1 (sample_listing ''NSE'')],
        daily_prices := [demo_bar 100 10, demo_bar 101 20, demo_bar 102 15]\<rparr>)
     (feature_store.fields [] [])"

theorem new_bars_get_features_witness:
  "\<exists>r. lookup_by feature_key (1, 101)
      (daily_features (snd (run_daily demo_windows demo_runtime default_settings (\<lambda>_. None) 0 demo_feature_store))) = Some r"
proof -
  let ?y = "new_symbol 1 (sample_listing ''NSE'')"
  have h: "get_daily_history 1 (feature_daily_lookback_bars default_settings) demo_feature_store
      = [demo_bar 100 10, demo_bar 101 20, demo_bar 102 15]" by code_simp
  have e: "distinct (map sy_id (symbols demo_feature_store))" "list_active demo_feature_store = [?y]" "sy_id ?y = 1"
    "distinct (map dp_date [demo_bar 100 10, demo_bar 101 20, demo_bar 102 15])"
    "1 \<in> set (new_bars (get_latest_feature_date 1 demo_feature_store) [demo_bar 100 10, demo_bar 101 20, demo_bar 102 15])"
    by code_simp+
  show ?thesis
    using new_bars_get_features [of demo_feature_store ?y "\<lambda>_. None" "[demo_bar 100 10, demo_bar 101 20, demo_bar 102 15]"
        default_settings 1 demo_windows demo_runtime 0] e h by (auto simp: demo_bar_def)
qed

theorem feature_tables_stay_typed_witness:
  "features_typed (snd (run_daily demo_windows demo_runtime default_settings (\<lambda>_. None) 0 demo_feature_store))"
proof -
  have "daily_features demo_feature_store = []" "session_features demo_feature_store = []" by code_simp+
  then have "features_typed demo_feature_store" by (simp add: features_typed_def)
  then show ?thesis using feature_tables_stay_typed [OF demo_windows_causal] by blast
qed

definition bar_row :: feature_row where
  "bar_row = \<lparr>fr_symbol_id = 1, fr_date = 100, fr_cols = [''rsi14'' \<mapsto> PyFloat 50]\<rparr>"

theorem daily_features_append_only_witness:
  "bar_row \<in> set (daily_features (snd (run_daily demo_windows demo_runtime default_settings (\<lambda>_. None) 0
     (demo_feature_store\<lparr>daily_features := [bar_row]\<rparr>))))"
  using daily_features_append_only [of "demo_feature_store\<lparr>daily_features := [bar_row]\<rparr>"] by (auto simp: subset_iff)

end
