(* ===== verification/Auth.thy ===== *)
theory Auth
  imports Upstox_Client Catalyst
begin

text \<open>
  Accounts and sessions: app/auth, models/user.py, repositories/user_repository.py, services/user_service.py and the
  handlers of api/auth.py and api/admin_users.py. A handler maps the cookie, its payload and the state to a
  response and the new state. Redis is a record of its commands, with the clock as an argument; the JSON text of a session is represented by
  the dictionary it encodes. bcrypt and the random source are fields of the request's environment.
\<close>

section \<open>Accounts\<close>

datatype user_role = R_ADMIN | R_VIEWER

fun role_value :: "user_role \<Rightarrow> string" where
  "role_value R_ADMIN = ''ADMIN''"
| "role_value R_VIEWER = ''VIEWER''"

definition role_of :: "string \<Rightarrow> user_role option" where
  "role_of s = (if s = ''ADMIN'' then Some R_ADMIN else if s = ''VIEWER'' then Some R_VIEWER else None)"

record user_row =
  us_id :: int
  us_email :: string
  us_name :: string
  us_password_hash :: string
  us_role :: string
  us_status :: string
  us_must_change_password :: bool
  us_created_at :: int
  us_last_login_at :: "int option"

record authenticated_user =
  at_id :: int
  at_email :: string
  at_name :: string
  at_role :: user_role

section \<open>Redis and the session store\<close>

record session_data =
  sd_user_id :: int
  sd_role :: string

text \<open>The commands; the first argument is the clock of the server, in seconds.\<close>

record 'r kv =
  kv_setex :: "int \<Rightarrow> string \<Rightarrow> int \<Rightarrow> session_data \<Rightarrow> 'r \<Rightarrow> 'r"
  kv_get :: "int \<Rightarrow> string \<Rightarrow> 'r \<Rightarrow> session_data option"
  kv_expire :: "int \<Rightarrow> string \<Rightarrow> int \<Rightarrow> 'r \<Rightarrow> 'r"
  kv_delete :: "string \<Rightarrow> 'r \<Rightarrow> 'r"
  kv_scan :: "int \<Rightarrow> nat \<Rightarrow> 'r \<Rightarrow> nat \<times> string list"

definition SESSION_KEY_PREFIX :: string where
  "SESSION_KEY_PREFIX = ''session:''"

definition session_create :: "'r kv \<Rightarrow> int \<Rightarrow> int \<Rightarrow> string \<Rightarrow> int \<Rightarrow> string \<Rightarrow> 'r \<Rightarrow> 'r" where
  "session_create kv now ttl token user_id role = kv_setex kv now (SESSION_KEY_PREFIX @ token) ttl \<lparr>sd_user_id = user_id, sd_role = role\<rparr>"

definition session_get :: "'r kv \<Rightarrow> int \<Rightarrow> string \<Rightarrow> 'r \<Rightarrow> session_data option" where
  "session_get kv now token = kv_get kv now (SESSION_KEY_PREFIX @ token)"

definition session_touch :: "'r kv \<Rightarrow> int \<Rightarrow> int \<Rightarrow> string \<Rightarrow> 'r \<Rightarrow> 'r" where
  "session_touch kv now ttl token = kv_expire kv now (SESSION_KEY_PREFIX @ token) ttl"

definition session_delete :: "'r kv \<Rightarrow> string \<Rightarrow> 'r \<Rightarrow> 'r" where
  "session_delete kv token = kv_delete kv (SESSION_KEY_PREFIX @ token)"

text \<open>One page of the scan, and the loop over the pages, which Redis ends with the cursor 0.\<close>

definition drop_if_owned :: "'r kv \<Rightarrow> int \<Rightarrow> int \<Rightarrow> string \<Rightarrow> 'r \<Rightarrow> 'r" where
  "drop_if_owned kv now uid k r =
     (case kv_get kv now k r of None \<Rightarrow> r | Some d \<Rightarrow> if sd_user_id d = uid then kv_delete kv k r else r)"

partial_function (option) delete_pages :: "'r kv \<Rightarrow> int \<Rightarrow> int \<Rightarrow> nat \<Rightarrow> 'r \<Rightarrow> 'r option" where
  [code]: "delete_pages kv now uid cursor r =
     (let (cursor', keys) = kv_scan kv now cursor r; r' = fold (drop_if_owned kv now uid) keys r
      in if cursor' = 0 then Some r' else delete_pages kv now uid cursor' r')"

definition delete_all_for_user :: "'r kv \<Rightarrow> int \<Rightarrow> int \<Rightarrow> 'r \<Rightarrow> 'r option" where
  "delete_all_for_user kv now uid r = delete_pages kv now uid 0 r"

section \<open>The repository\<close>

record 'r auth =
  au_users :: "user_row list"
  au_next_id :: int
  au_redis :: 'r

definition user_by_id :: "int \<Rightarrow> 'r auth \<Rightarrow> user_row option" where
  "user_by_id i a = lookup_by us_id i (au_users a)"

definition get_by_email :: "string \<Rightarrow> 'r auth \<Rightarrow> user_row option" where
  "get_by_email e a = lookup_by us_email e (au_users a)"

definition list_all_users :: "'r auth \<Rightarrow> user_row list" where
  "list_all_users a = sort_key us_created_at (au_users a)"

definition create_row :: "int \<Rightarrow> string \<Rightarrow> string \<Rightarrow> string \<Rightarrow> string \<Rightarrow> bool \<Rightarrow> 'r auth \<Rightarrow> user_row \<times> 'r auth" where
  "create_row now email name password_hash role must_change a =
     (let u = \<lparr>us_id = au_next_id a, us_email = email, us_name = name, us_password_hash = password_hash, us_role = role,
               us_status = ''ACTIVE'', us_must_change_password = must_change, us_created_at = now, us_last_login_at = None\<rparr>
      in (u, a\<lparr>au_users := au_users a @ [u], au_next_id := au_next_id a + 1\<rparr>))"

definition edit_user :: "(user_row \<Rightarrow> user_row) \<Rightarrow> int \<Rightarrow> 'r auth \<Rightarrow> 'r auth" where
  "edit_user f i a = a\<lparr>au_users := map (\<lambda>u. if us_id u = i then f u else u) (au_users a)\<rparr>"

definition set_user_status :: "string \<Rightarrow> int \<Rightarrow> 'r auth \<Rightarrow> 'r auth" where
  "set_user_status st = edit_user (\<lambda>u. u\<lparr>us_status := st\<rparr>)"

definition set_password :: "string \<Rightarrow> bool \<Rightarrow> int \<Rightarrow> 'r auth \<Rightarrow> 'r auth" where
  "set_password h must_change = edit_user (\<lambda>u. u\<lparr>us_password_hash := h, us_must_change_password := must_change\<rparr>)"

definition set_role :: "string \<Rightarrow> int \<Rightarrow> 'r auth \<Rightarrow> 'r auth" where
  "set_role r = edit_user (\<lambda>u. u\<lparr>us_role := r\<rparr>)"

definition record_login :: "int \<Rightarrow> int \<Rightarrow> 'r auth \<Rightarrow> 'r auth" where
  "record_login now = edit_user (\<lambda>u. u\<lparr>us_last_login_at := Some now\<rparr>)"

definition delete_row :: "int \<Rightarrow> 'r auth \<Rightarrow> 'r auth" where
  "delete_row i a = a\<lparr>au_users := filter (\<lambda>u. us_id u \<noteq> i) (au_users a)\<rparr>"

section \<open>The service\<close>

text \<open>What a request meets: the clock, the session length, a fresh token and temporary password, and bcrypt,
  whose check raises \<open>ValueError\<close> (\<open>None\<close>) on a malformed hash.\<close>

record 'r env =
  en_kv :: "'r kv"
  en_now :: int
  en_ttl_minutes :: int
  en_token :: string
  en_temporary_password :: string
  en_hash :: "string \<Rightarrow> string"
  en_checkpw :: "string \<Rightarrow> string \<Rightarrow> bool option"

definition verify_password :: "'r env \<Rightarrow> string \<Rightarrow> string \<Rightarrow> bool" where
  "verify_password env password h = (case en_checkpw env password h of None \<Rightarrow> False | Some b \<Rightarrow> b)"

definition authenticate :: "'r env \<Rightarrow> string \<Rightarrow> string \<Rightarrow> 'r auth \<Rightarrow> user_row option \<times> 'r auth" where
  "authenticate env email password a =
     (case get_by_email email a of
        None \<Rightarrow> (None, a)
      | Some u \<Rightarrow>
          if us_status u \<noteq> ''ACTIVE'' \<or> \<not> verify_password env password (us_password_hash u) then (None, a)
          else (Some (u\<lparr>us_last_login_at := Some (en_now env)\<rparr>), record_login (en_now env) (us_id u) a))"

definition change_own_password :: "'r env \<Rightarrow> user_row \<Rightarrow> string \<Rightarrow> string \<Rightarrow> 'r auth \<Rightarrow> bool \<times> 'r auth" where
  "change_own_password env u current_password new_password a =
     (if \<not> verify_password env current_password (us_password_hash u) then (False, a)
      else (True, set_password (en_hash env new_password) False (us_id u) a))"

definition revoke_sessions :: "'r env \<Rightarrow> int \<Rightarrow> 'r auth \<Rightarrow> 'r auth option" where
  "revoke_sessions env i a = map_option (\<lambda>r. a\<lparr>au_redis := r\<rparr>) (delete_all_for_user (en_kv env) (en_now env) i (au_redis a))"

section \<open>Responses and the dependencies\<close>

datatype response =
    User_Out user_row
  | Users_Out "user_row list"
  | Created user_row string
  | New_Password string
  | Logged_In user_row string
  | No_Content
  | Http_Error nat string

definition UNAUTHORIZED :: response where
  "UNAUTHORIZED = Http_Error 401 ''Not authenticated''"

definition ttl_seconds :: "'r env \<Rightarrow> int" where
  "ttl_seconds env = en_ttl_minutes env * 60"

definition get_current_user :: "'r env \<Rightarrow> string option \<Rightarrow> 'r auth \<Rightarrow> (response + authenticated_user) \<times> 'r auth" where
  "get_current_user env cookie a =
     (case cookie of
        None \<Rightarrow> (Inl UNAUTHORIZED, a)
      | Some token \<Rightarrow>
          if token = [] then (Inl UNAUTHORIZED, a)
          else (case session_get (en_kv env) (en_now env) token (au_redis a) of
                  None \<Rightarrow> (Inl UNAUTHORIZED, a)
                | Some d \<Rightarrow>
                    (case user_by_id (sd_user_id d) a of
                       None \<Rightarrow> (Inl UNAUTHORIZED, a\<lparr>au_redis := session_delete (en_kv env) token (au_redis a)\<rparr>)
                     | Some u \<Rightarrow>
                         if us_status u \<noteq> ''ACTIVE''
                         then (Inl UNAUTHORIZED, a\<lparr>au_redis := session_delete (en_kv env) token (au_redis a)\<rparr>)
                         else ((case role_of (us_role u) of
                                  None \<Rightarrow> Inl (Http_Error 500 ''ValueError'')
                                | Some r \<Rightarrow> Inr \<lparr>at_id = us_id u, at_email = us_email u, at_name = us_name u, at_role = r\<rparr>),
                               a\<lparr>au_redis := session_touch (en_kv env) (en_now env) (ttl_seconds env) token (au_redis a)\<rparr>))))"

definition require_admin :: "'r env \<Rightarrow> string option \<Rightarrow> 'r auth \<Rightarrow> (response + authenticated_user) \<times> 'r auth" where
  "require_admin env cookie a =
     (case get_current_user env cookie a of
        (Inl e, a1) \<Rightarrow> (Inl e, a1)
      | (Inr u, a1) \<Rightarrow> (if at_role u \<noteq> R_ADMIN then Inl (Http_Error 403 ''Admin access required'') else Inr u, a1))"

section \<open>The handlers\<close>

text \<open>\<open>None\<close> stands for a request that does not return, which only the scan loop of the session store could cause.\<close>

definition login :: "'r env \<Rightarrow> string \<Rightarrow> string \<Rightarrow> 'r auth \<Rightarrow> response \<times> 'r auth" where
  "login env email password a =
     (case authenticate env (lower (py_strip email)) password a of
        (None, a1) \<Rightarrow> (Http_Error 401 ''Invalid email or password'', a1)
      | (Some u, a1) \<Rightarrow>
          (Logged_In u (en_token env),
           a1\<lparr>au_redis := session_create (en_kv env) (en_now env) (ttl_seconds env) (en_token env) (us_id u) (us_role u) (au_redis a1)\<rparr>))"

definition logout :: "'r env \<Rightarrow> string option \<Rightarrow> 'r auth \<Rightarrow> response \<times> 'r auth" where
  "logout env cookie a =
     (No_Content,
      case cookie of None \<Rightarrow> a
      | Some token \<Rightarrow> if token = [] then a else a\<lparr>au_redis := session_delete (en_kv env) token (au_redis a)\<rparr>)"

definition me :: "'r env \<Rightarrow> string option \<Rightarrow> 'r auth \<Rightarrow> response \<times> 'r auth" where
  "me env cookie a =
     (case get_current_user env cookie a of
        (Inl e, a1) \<Rightarrow> (e, a1)
      | (Inr v, a1) \<Rightarrow> (case user_by_id (at_id v) a1 of None \<Rightarrow> Http_Error 404 ''User not found'' | Some u \<Rightarrow> User_Out u, a1))"

definition change_password :: "'r env \<Rightarrow> string option \<Rightarrow> string \<Rightarrow> string \<Rightarrow> 'r auth \<Rightarrow> response \<times> 'r auth" where
  "change_password env cookie current_password new_password a =
     (case get_current_user env cookie a of
        (Inl e, a1) \<Rightarrow> (e, a1)
      | (Inr v, a1) \<Rightarrow>
          (case user_by_id (at_id v) a1 of
             None \<Rightarrow> (Http_Error 404 ''User not found'', a1)
           | Some u \<Rightarrow>
               (case change_own_password env u current_password new_password a1 of
                  (True, a2) \<Rightarrow> (No_Content, a2)
                | (False, a2) \<Rightarrow> (Http_Error 401 ''Current password is incorrect'', a2))))"

definition get_user_or_404 :: "int \<Rightarrow> 'r auth \<Rightarrow> response + user_row" where
  "get_user_or_404 i a = (case user_by_id i a of None \<Rightarrow> Inl (Http_Error 404 (''No user with id '' @ str_int i)) | Some u \<Rightarrow> Inr u)"

definition is_active_admin :: "user_row \<Rightarrow> bool" where
  "is_active_admin u \<longleftrightarrow> us_role u = ''ADMIN'' \<and> us_status u = ''ACTIVE''"

definition guard_not_last_admin :: "user_row \<Rightarrow> 'r auth \<Rightarrow> response option" where
  "guard_not_last_admin target a =
     (if \<not> is_active_admin target then None
      else if length (filter is_active_admin (list_all_users a)) \<le> 1
           then Some (Http_Error 400 ''Cannot remove the last remaining active admin account'') else None)"

definition list_users :: "'r auth \<Rightarrow> response \<times> 'r auth" where
  "list_users a = (Users_Out (list_all_users a), a)"

definition create_user :: "'r env \<Rightarrow> string \<Rightarrow> string \<Rightarrow> string \<Rightarrow> 'r auth \<Rightarrow> response \<times> 'r auth" where
  "create_user env email name role a =
     (case role_of (map upper_char role) of
        None \<Rightarrow> (Http_Error 400 ''role must be ADMIN or VIEWER'', a)
      | Some r \<Rightarrow>
          if get_by_email (lower (py_strip email)) a \<noteq> None then (Http_Error 409 ''A user with this email already exists'', a)
          else (let (u, a1) = create_row (en_now env) (lower (py_strip email)) (py_strip name) (en_hash env (en_temporary_password env))
                      (role_value r) True a
                in (Created u (en_temporary_password env), a1)))"

definition disable_user :: "'r env \<Rightarrow> int \<Rightarrow> 'r auth \<Rightarrow> (response \<times> 'r auth) option" where
  "disable_user env i a =
     (case get_user_or_404 i a of
        Inl e \<Rightarrow> Some (e, a)
      | Inr target \<Rightarrow>
          (case guard_not_last_admin target a of
             Some e \<Rightarrow> Some (e, a)
           | None \<Rightarrow> map_option (Pair (User_Out (target\<lparr>us_status := ''DISABLED''\<rparr>))) (revoke_sessions env i (set_user_status ''DISABLED'' i a))))"

definition enable_user :: "int \<Rightarrow> 'r auth \<Rightarrow> response \<times> 'r auth" where
  "enable_user i a =
     (case get_user_or_404 i a of
        Inl e \<Rightarrow> (e, a)
      | Inr target \<Rightarrow> (User_Out (target\<lparr>us_status := ''ACTIVE''\<rparr>), set_user_status ''ACTIVE'' i a))"

definition change_role :: "int \<Rightarrow> string \<Rightarrow> 'r auth \<Rightarrow> response \<times> 'r auth" where
  "change_role i role a =
     (case role_of (map upper_char role) of
        None \<Rightarrow> (Http_Error 400 ''role must be ADMIN or VIEWER'', a)
      | Some r \<Rightarrow>
          (case get_user_or_404 i a of
             Inl e \<Rightarrow> (e, a)
           | Inr target \<Rightarrow>
               (case (if r \<noteq> R_ADMIN then guard_not_last_admin target a else None) of
                  Some e \<Rightarrow> (e, a)
                | None \<Rightarrow> (User_Out (target\<lparr>us_role := role_value r\<rparr>), set_role (role_value r) i a))))"

definition reset_password :: "'r env \<Rightarrow> int \<Rightarrow> 'r auth \<Rightarrow> (response \<times> 'r auth) option" where
  "reset_password env i a =
     (case get_user_or_404 i a of
        Inl e \<Rightarrow> Some (e, a)
      | Inr target \<Rightarrow>
          map_option (Pair (New_Password (en_temporary_password env)))
            (revoke_sessions env i (set_password (en_hash env (en_temporary_password env)) True i a)))"

definition delete_user :: "'r env \<Rightarrow> int \<Rightarrow> 'r auth \<Rightarrow> (response \<times> 'r auth) option" where
  "delete_user env i a =
     (case get_user_or_404 i a of
        Inl e \<Rightarrow> Some (e, a)
      | Inr target \<Rightarrow>
          (case guard_not_last_admin target a of
             Some e \<Rightarrow> Some (e, a)
           | None \<Rightarrow> map_option (\<lambda>a1. (No_Content, delete_row i a1)) (revoke_sessions env i a)))"

text \<open>The routes.\<close>

datatype auth_request =
    Login string string
  | Logout
  | Me
  | Change_Password string string
  | List_Users
  | Create_User string string string
  | Disable_User int
  | Enable_User int
  | Change_Role int string
  | Reset_Password int
  | Delete_User int

definition as_admin :: "'r env \<Rightarrow> string option \<Rightarrow> ('r auth \<Rightarrow> (response \<times> 'r auth) option) \<Rightarrow> 'r auth \<Rightarrow> (response \<times> 'r auth) option" where
  "as_admin env cookie h a = (case require_admin env cookie a of (Inl e, a1) \<Rightarrow> Some (e, a1) | (Inr _, a1) \<Rightarrow> h a1)"

fun handle :: "'r env \<Rightarrow> string option \<Rightarrow> auth_request \<Rightarrow> 'r auth \<Rightarrow> (response \<times> 'r auth) option" where
  "handle env cookie (Login email password) a = Some (login env email password a)"
| "handle env cookie Logout a = Some (logout env cookie a)"
| "handle env cookie Me a = Some (me env cookie a)"
| "handle env cookie (Change_Password cur new) a = Some (change_password env cookie cur new a)"
| "handle env cookie List_Users a = as_admin env cookie (\<lambda>a. Some (list_users a)) a"
| "handle env cookie (Create_User email name role) a = as_admin env cookie (\<lambda>a. Some (create_user env email name role a)) a"
| "handle env cookie (Disable_User i) a = as_admin env cookie (disable_user env i) a"
| "handle env cookie (Enable_User i) a = as_admin env cookie (\<lambda>a. Some (enable_user i a)) a"
| "handle env cookie (Change_Role i role) a = as_admin env cookie (\<lambda>a. Some (change_role i role a)) a"
| "handle env cookie (Reset_Password i) a = as_admin env cookie (reset_password env i) a"
| "handle env cookie (Delete_User i) a = as_admin env cookie (delete_user env i) a"

section \<open>What Redis promises\<close>

text \<open>\<open>view\<close> gives the session keys with their values and deadlines. A full scan ends, and returns every key that was present, and live, all the
  way through it.\<close>

type_synonym 'r session_view = "'r \<Rightarrow> string \<rightharpoonup> session_data \<times> int"

definition scan_law :: "'r kv \<Rightarrow> 'r session_view \<Rightarrow> bool" where
  "scan_law kv view \<longleftrightarrow>
     (\<forall>now c r. c 0 = 0 \<longrightarrow> (\<forall>i. c (Suc i) = fst (kv_scan kv now (c i) (r i))) \<longrightarrow> (\<forall>i. view (r (Suc i)) \<subseteq>\<^sub>m view (r i)) \<longrightarrow>
        (\<exists>n. c (Suc n) = 0 \<and> (\<forall>i<n. c (Suc i) \<noteq> 0)
           \<and> (\<forall>k v d. view (r n) k = Some (v, d) \<longrightarrow> now < d \<longrightarrow> (\<exists>i\<le>n. k \<in> set (snd (kv_scan kv now (c i) (r i)))))))"

lemma scan_lawD:
  assumes "scan_law kv view" "c 0 = 0" "\<forall>i. c (Suc i) = fst (kv_scan kv now (c i) (r i))" "\<forall>i. view (r (Suc i)) \<subseteq>\<^sub>m view (r i)"
  shows "\<exists>n. c (Suc n) = 0 \<and> (\<forall>i<n. c (Suc i) \<noteq> 0)
    \<and> (\<forall>k v d. view (r n) k = Some (v, d) \<longrightarrow> now < d \<longrightarrow> (\<exists>i\<le>n. k \<in> set (snd (kv_scan kv now (c i) (r i)))))"
  using assms(1) [unfolded scan_law_def, rule_format, OF assms(2) assms(3) [rule_format] assms(4) [rule_format]] by simp

definition kv_laws :: "'r kv \<Rightarrow> 'r session_view \<Rightarrow> bool" where
  "kv_laws kv view \<longleftrightarrow>
     (\<forall>now k r. kv_get kv now k r = (case view r k of None \<Rightarrow> None | Some (v, d) \<Rightarrow> if now < d then Some v else None))
   \<and> (\<forall>now k ttl v r. 0 < ttl \<longrightarrow> view (kv_setex kv now k ttl v r) = (view r)(k \<mapsto> (v, now + ttl)))
   \<and> (\<forall>now k ttl r. view (kv_expire kv now k ttl r) =
        (case view r k of None \<Rightarrow> view r | Some (v, d) \<Rightarrow> if now < d then (view r)(k \<mapsto> (v, now + ttl)) else view r))
   \<and> (\<forall>k r. view (kv_delete kv k r) = (view r)(k := None))
   \<and> scan_law kv view"

lemma kv_lawsD:
  assumes "kv_laws kv view"
  shows "kv_get kv now k r = (case view r k of None \<Rightarrow> None | Some (v, d) \<Rightarrow> if now < d then Some v else None)"
    "0 < ttl \<Longrightarrow> view (kv_setex kv now k ttl v r) = (view r)(k \<mapsto> (v, now + ttl))"
    "view (kv_expire kv now k ttl r) =
       (case view r k of None \<Rightarrow> view r | Some (v, d) \<Rightarrow> if now < d then (view r)(k \<mapsto> (v, now + ttl)) else view r)"
    "view (kv_delete kv k r) = (view r)(k := None)" "scan_law kv view"
  using assms unfolding kv_laws_def by blast+

definition owned :: "'r session_view \<Rightarrow> int \<Rightarrow> int \<Rightarrow> 'r \<Rightarrow> string \<Rightarrow> bool" where
  "owned view now uid r k \<longleftrightarrow> (case view r k of None \<Rightarrow> False | Some (v, d) \<Rightarrow> now < d \<and> sd_user_id v = uid)"

lemma view_drop:
  assumes "kv_laws kv view"
  shows "view (drop_if_owned kv now uid k r) = (if owned view now uid r k then (view r)(k := None) else view r)"
  by (auto simp: drop_if_owned_def owned_def kv_lawsD [OF assms] split: option.split)

lemma view_page:
  assumes "kv_laws kv view"
  shows "view (fold (drop_if_owned kv now uid) keys r) k = (if k \<in> set keys \<and> owned view now uid r k then None else view r k)"
proof (induction keys arbitrary: r)
  case (Cons k' keys)
  let ?r = "drop_if_owned kv now uid k' r"
  have "view ?r k = (if k = k' \<and> owned view now uid r k then None else view r k)" by (cases "k = k'") (simp_all add: view_drop [OF assms])
  then show ?case by (auto simp: Cons.IH owned_def)
qed simp

lemma delete_all:
  assumes "kv_laws kv view"
  shows "\<exists>r'. delete_all_for_user kv now uid r = Some r'
    \<and> (\<forall>k. view r' k = (if owned view now uid r k then None else view r k))"
proof -
  define step where "step = (\<lambda>(c, r). (fst (kv_scan kv now c r), fold (drop_if_owned kv now uid) (snd (kv_scan kv now c r)) r))"
  define c where "c i = fst ((step ^^ i) (0, r))" for i
  define s where "s i = snd ((step ^^ i) (0, r))" for i
  have c: "c 0 = 0" "c (Suc i) = fst (kv_scan kv now (c i) (s i))" for i
    by (simp_all add: c_def s_def step_def split_beta)
  have s: "s 0 = r" "s (Suc i) = fold (drop_if_owned kv now uid) (snd (kv_scan kv now (c i) (s i))) (s i)" for i
    by (simp_all add: c_def s_def step_def split_beta)
  have page: "view (s (Suc i)) k = (if k \<in> set (snd (kv_scan kv now (c i) (s i))) \<and> owned view now uid (s i) k then None else view (s i) k)" for i k
    unfolding s(2) by (rule view_page [OF assms])
  have "view (s (Suc i)) \<subseteq>\<^sub>m view (s i)" for i by (auto simp: map_le_def page split: if_splits)
  with c have "\<exists>n. c (Suc n) = 0 \<and> (\<forall>i<n. c (Suc i) \<noteq> 0)
      \<and> (\<forall>k v d. view (s n) k = Some (v, d) \<longrightarrow> now < d \<longrightarrow> (\<exists>i\<le>n. k \<in> set (snd (kv_scan kv now (c i) (s i)))))"
    by (intro scan_lawD [OF kv_lawsD(5) [OF assms]]) auto
  then obtain n where n: "c (Suc n) = 0" "\<forall>i<n. c (Suc i) \<noteq> 0"
    and seen: "\<And>k v d. view (s n) k = Some (v, d) \<Longrightarrow> now < d \<Longrightarrow> \<exists>i\<le>n. k \<in> set (snd (kv_scan kv now (c i) (s i)))"
    by auto
  have loop: "delete_pages kv now uid (c i) (s i) = (if c (Suc i) = 0 then Some (s (Suc i)) else delete_pages kv now uid (c (Suc i)) (s (Suc i)))" for i
    by (subst delete_pages.simps) (simp add: split_beta c s)
  have "delete_pages kv now uid (c i) (s i) = Some (s (Suc n))" if "i \<le> n" for i
    using that by (induction rule: inc_induct) (simp_all add: loop n)
  from this [of 0] have ret: "delete_all_for_user kv now uid r = Some (s (Suc n))" by (simp add: delete_all_for_user_def c s)
  have kept: "view (s i) k = (if owned view now uid r k \<and> (\<exists>j<i. k \<in> set (snd (kv_scan kv now (c j) (s j)))) then None else view r k)" for i k
  proof (induction i)
    case (Suc i)
    show ?case
    proof (cases "owned view now uid r k \<and> (\<exists>j<i. k \<in> set (snd (kv_scan kv now (c j) (s j))))")
      case True
      then have "view (s i) k = None" using Suc by simp
      with True show ?thesis unfolding page by (auto simp: less_Suc_eq)
    next
      case False
      then have e: "view (s i) k = view r k" using Suc by auto
      then have "owned view now uid (s i) k = owned view now uid r k" by (simp add: owned_def)
      with False e show ?thesis unfolding page less_Suc_eq by auto
    qed
  qed (simp add: s)
  have "view (s (Suc n)) k = (if owned view now uid r k then None else view r k)" for k
  proof (cases "owned view now uid r k \<and> view (s n) k \<noteq> None")
    case True
    then have "view (s n) k = view r k" using kept [of n k] by (auto split: if_splits)
    with True seen obtain i where "i \<le> n" "k \<in> set (snd (kv_scan kv now (c i) (s i)))"
      by (force simp: owned_def split: option.splits prod.splits)
    then show ?thesis unfolding kept [of "Suc n"] by (auto simp: less_Suc_eq_le)
  next
    case False
    then show ?thesis
    proof (cases "owned view now uid r k")
      case True
      with False have "view (s n) k = None" by blast
      then show ?thesis using True by (simp add: page)
    next
      case False
      then show ?thesis using kept [of "Suc n" k] by simp
    qed
  qed
  with ret show ?thesis by blast
qed

section \<open>Who is signed in\<close>

text \<open>The user a cookie stands for: the session is live, its user exists and is active.\<close>

definition signed_in :: "'r session_view \<Rightarrow> int \<Rightarrow> string option \<Rightarrow> 'r auth \<Rightarrow> user_row option" where
  "signed_in view now cookie a =
     (case cookie of
        None \<Rightarrow> None
      | Some token \<Rightarrow>
          (case view (au_redis a) (SESSION_KEY_PREFIX @ token) of
             None \<Rightarrow> None
           | Some (v, d) \<Rightarrow>
               if token = [] \<or> d \<le> now then None
               else (case user_by_id (sd_user_id v) a of None \<Rightarrow> None | Some u \<Rightarrow> if us_status u = ''ACTIVE'' then Some u else None)))"

definition identity :: "user_row \<Rightarrow> user_role \<Rightarrow> authenticated_user" where
  "identity u r = \<lparr>at_id = us_id u, at_email = us_email u, at_name = us_name u, at_role = r\<rparr>"

lemma current_user_cases:
  assumes "kv_laws (en_kv env) view"
  shows "fst (get_current_user env cookie a) =
    (case signed_in view (en_now env) cookie a of
       None \<Rightarrow> Inl UNAUTHORIZED
     | Some u \<Rightarrow> (case role_of (us_role u) of None \<Rightarrow> Inl (Http_Error 500 ''ValueError'') | Some r \<Rightarrow> Inr (identity u r)))"
  by (auto simp: get_current_user_def signed_in_def session_get_def kv_lawsD [OF assms] identity_def split: option.split)

lemma current_user_tables: "au_users (snd (get_current_user env cookie a)) = au_users a" "au_next_id (snd (get_current_user env cookie a)) = au_next_id a"
  by (simp_all add: get_current_user_def split: option.split)

lemma require_admin_tables: "au_users (snd (require_admin env cookie a)) = au_users a" "au_next_id (snd (require_admin env cookie a)) = au_next_id a"
  by (simp_all add: require_admin_def split_beta current_user_tables split: sum.split)

text \<open>C15: A cookie is accepted exactly when it names a live session of an existing, active account; the identity and the role are those of
  the account row, not those stored with the session. An accepted request extends the session, a session
  of a deleted or disabled account is removed.\<close>

theorem session_accepted_exactly:
  assumes "kv_laws (en_kv env) view" "cookie = Some token" "token \<noteq> []"
  shows "let (r, a') = get_current_user env cookie a; key = SESSION_KEY_PREFIX @ token; s = view (au_redis a) key in
     (\<forall>v. r = Inr v \<longleftrightarrow> (\<exists>u ro. signed_in view (en_now env) cookie a = Some u \<and> role_of (us_role u) = Some ro \<and> v = identity u ro))
   \<and> au_users a' = au_users a
   \<and> view (au_redis a') =
       (case s of None \<Rightarrow> view (au_redis a)
        | Some (v, d) \<Rightarrow>
            if d \<le> en_now env then view (au_redis a)
            else if signed_in view (en_now env) cookie a = None then (view (au_redis a))(key := None)
            else (view (au_redis a))(key \<mapsto> (v, en_now env + ttl_seconds env)))"
proof -
  have r: "(\<forall>v. fst (get_current_user env cookie a) = Inr v
      \<longleftrightarrow> (\<exists>u ro. signed_in view (en_now env) cookie a = Some u \<and> role_of (us_role u) = Some ro \<and> v = identity u ro))"
    by (auto simp: current_user_cases [OF assms(1)] split: option.split)
  have "view (au_redis (snd (get_current_user env cookie a))) =
       (case view (au_redis a) (SESSION_KEY_PREFIX @ token) of None \<Rightarrow> view (au_redis a)
        | Some (v, d) \<Rightarrow>
            if d \<le> en_now env then view (au_redis a)
            else if signed_in view (en_now env) cookie a = None then (view (au_redis a))(SESSION_KEY_PREFIX @ token := None)
            else (view (au_redis a))(SESSION_KEY_PREFIX @ token \<mapsto> (v, en_now env + ttl_seconds env)))"
    using assms(2,3) by (auto simp: get_current_user_def signed_in_def session_get_def session_touch_def session_delete_def
        kv_lawsD [OF assms(1)] split: option.split)
  with r show ?thesis by (simp add: split_beta current_user_tables Let_def)
qed

section \<open>An administrator remains\<close>

definition accounts_ok :: "'r auth \<Rightarrow> bool" where
  "accounts_ok a \<longleftrightarrow> distinct (map us_id (au_users a)) \<and> distinct (map us_email (au_users a))
     \<and> (\<forall>u \<in> set (au_users a). us_id u < au_next_id a \<and> role_of (us_role u) \<noteq> None \<and> us_status u \<in> {''ACTIVE'', ''DISABLED''})"

definition has_admin :: "'r auth \<Rightarrow> bool" where
  "has_admin a \<longleftrightarrow> list_ex is_active_admin (au_users a)"

lemma user_by_id_SomeD: "user_by_id i a = Some u \<Longrightarrow> u \<in> set (au_users a) \<and> us_id u = i"
  unfolding user_by_id_def by (rule lookup_by_SomeD)

lemma accounts_ok_edit:
  assumes "accounts_ok a" "\<And>u. us_id (f u) = us_id u" "\<And>u. us_email (f u) = us_email u"
    and "\<And>u. u \<in> set (au_users a) \<Longrightarrow> role_of (us_role (f u)) \<noteq> None \<and> us_status (f u) \<in> {''ACTIVE'', ''DISABLED''}"
  shows "accounts_ok (edit_user f i a)"
proof -
  have "map us_id (au_users (edit_user f i a)) = map us_id (au_users a)" "map us_email (au_users (edit_user f i a)) = map us_email (au_users a)"
    using assms(2,3) by (simp_all add: edit_user_def)
  moreover have "us_id u < au_next_id (edit_user f i a) \<and> role_of (us_role u) \<noteq> None \<and> us_status u \<in> {''ACTIVE'', ''DISABLED''}"
    if m: "u \<in> set (au_users (edit_user f i a))" for u
  proof -
    obtain w where w: "w \<in> set (au_users a)" "u = (if us_id w = i then f w else w)" using m by (auto simp: edit_user_def)
    have "us_id w < au_next_id a \<and> role_of (us_role w) \<noteq> None \<and> us_status w \<in> {''ACTIVE'', ''DISABLED''}"
      using assms(1) w(1) by (simp add: accounts_ok_def)
    with assms(2,4) w show ?thesis by (cases "us_id w = i") (simp_all add: edit_user_def)
  qed
  ultimately show ?thesis using assms(1) by (simp add: accounts_ok_def)
qed

text \<open>Another active administrator is left when the guard passes.\<close>

lemma guard_passes:
  assumes "accounts_ok a" "get_user_or_404 i a = Inr target" "guard_not_last_admin target a = None" "has_admin a"
  shows "\<exists>u \<in> set (au_users a). is_active_admin u \<and> us_id u \<noteq> i"
proof (cases "is_active_admin target")
  case False
  have t: "target \<in> set (au_users a)" "us_id target = i"
    using assms(2) user_by_id_SomeD by (auto simp: get_user_or_404_def split: option.splits)
  obtain u where u: "u \<in> set (au_users a)" "is_active_admin u" using assms(4) by (auto simp: has_admin_def list_ex_iff)
  have "inj_on us_id (set (au_users a))" using assms(1) by (simp add: accounts_ok_def distinct_map)
  then have "us_id u \<noteq> i" using t u False by (auto dest: inj_onD)
  with u show ?thesis by blast
next
  case True
  have "filter is_active_admin (sort_key us_created_at us) = sort_key us_created_at (filter is_active_admin us)" for us
    by (rule filter_sort)
  then have "1 < length (filter is_active_admin (au_users a))"
    using assms(3) True by (auto simp: guard_not_last_admin_def list_all_users_def split: if_splits)
  moreover have "distinct (map us_id (filter is_active_admin (au_users a)))"
    using assms(1) by (auto simp: accounts_ok_def intro: distinct_map_filter)
  ultimately have "\<exists>u \<in> set (filter is_active_admin (au_users a)). us_id u \<noteq> i"
    by (cases "filter is_active_admin (au_users a)" rule: remdups_adj.cases) auto
  then show ?thesis by auto
qed

definition guarded :: "'r auth \<Rightarrow> bool" where
  "guarded a \<longleftrightarrow> accounts_ok a \<and> has_admin a"

lemma guarded_cong: "au_users a' = au_users a \<Longrightarrow> au_next_id a' = au_next_id a \<Longrightarrow> guarded a' = guarded a"
  by (simp add: guarded_def accounts_ok_def has_admin_def)

lemma role_of_value [simp]: "role_of (role_value r) = Some r"
  by (cases r) (simp_all add: role_of_def)

text \<open>Edits that keep every other administrator, and those that make none inactive.\<close>

lemma guarded_edit:
  assumes "guarded a" "\<And>u. us_id (f u) = us_id u" "\<And>u. us_email (f u) = us_email u"
    and "\<And>u. u \<in> set (au_users a) \<Longrightarrow> role_of (us_role (f u)) \<noteq> None \<and> us_status (f u) \<in> {''ACTIVE'', ''DISABLED''}"
    and "\<exists>u \<in> set (au_users a). is_active_admin u \<and> (us_id u = i \<longrightarrow> is_active_admin (f u))"
  shows "guarded (edit_user f i a)"
proof -
  have "accounts_ok (edit_user f i a)" using assms(1-4) by (intro accounts_ok_edit) (simp_all add: guarded_def)
  moreover obtain u where u: "u \<in> set (au_users a)" "is_active_admin u" "us_id u = i \<longrightarrow> is_active_admin (f u)" using assms(5) by blast
  then have "is_active_admin (if us_id u = i then f u else u)" by simp
  with u(1) have "\<exists>u \<in> set (au_users a). is_active_admin (if us_id u = i then f u else u)" by blast
  then have "has_admin (edit_user f i a)" by (auto simp: has_admin_def list_ex_iff edit_user_def split: if_splits)
  ultimately show ?thesis by (simp add: guarded_def)
qed

lemma accounts_rows: "guarded a \<Longrightarrow> u \<in> set (au_users a) \<Longrightarrow> role_of (us_role u) \<noteq> None \<and> us_status u \<in> {''ACTIVE'', ''DISABLED''}"
  by (simp add: guarded_def accounts_ok_def)

lemma admin_row: "guarded a \<Longrightarrow> \<exists>u \<in> set (au_users a). is_active_admin u"
  by (auto simp: guarded_def has_admin_def list_ex_iff)

lemma guarded_edit_keep:
  assumes "guarded a" "\<And>u. us_id (f u) = us_id u" "\<And>u. us_email (f u) = us_email u"
    and "\<And>u. role_of (us_role u) \<noteq> None \<and> us_status u \<in> {''ACTIVE'', ''DISABLED''}
      \<Longrightarrow> role_of (us_role (f u)) \<noteq> None \<and> us_status (f u) \<in> {''ACTIVE'', ''DISABLED''}"
    and "\<And>u. is_active_admin u \<Longrightarrow> is_active_admin (f u)"
  shows "guarded (edit_user f i a)"
  using admin_row [OF assms(1)] accounts_rows [OF assms(1)] assms(4,5) by (intro guarded_edit assms(1-3)) blast+

lemma guarded_record_login: "guarded a \<Longrightarrow> guarded (record_login now i a)"
  unfolding record_login_def by (rule guarded_edit_keep) (simp_all add: is_active_admin_def)

lemma guarded_set_password: "guarded a \<Longrightarrow> guarded (set_password h b i a)"
  unfolding set_password_def by (rule guarded_edit_keep) (simp_all add: is_active_admin_def)

lemma guarded_enable: "guarded a \<Longrightarrow> guarded (set_user_status ''ACTIVE'' i a)"
  unfolding set_user_status_def by (rule guarded_edit_keep) (simp_all add: is_active_admin_def)

lemma guarded_disable:
  assumes "guarded a" "get_user_or_404 i a = Inr target" "guard_not_last_admin target a = None"
  shows "guarded (set_user_status ''DISABLED'' i a)"
proof -
  obtain u where "u \<in> set (au_users a)" "is_active_admin u" "us_id u \<noteq> i"
    using guard_passes [OF _ assms(2,3)] assms(1) by (auto simp: guarded_def)
  then show ?thesis
    unfolding set_user_status_def by (intro guarded_edit [OF assms(1)]) (use accounts_rows [OF assms(1)] in auto)
qed

lemma guarded_set_role:
  assumes "guarded a" "get_user_or_404 i a = Inr target" "r \<noteq> R_ADMIN \<longrightarrow> guard_not_last_admin target a = None"
  shows "guarded (set_role (role_value r) i a)"
proof -
  obtain u where "u \<in> set (au_users a)" "is_active_admin u" "us_id u = i \<longrightarrow> r = R_ADMIN"
    using guard_passes [OF _ assms(2)] assms(1,3) admin_row [OF assms(1)] by (cases "r = R_ADMIN") (auto simp: guarded_def)
  then show ?thesis
    unfolding set_role_def by (intro guarded_edit [OF assms(1)]) (use accounts_rows [OF assms(1)] in \<open>auto simp: is_active_admin_def\<close>)
qed

lemma guarded_delete:
  assumes "guarded a" "get_user_or_404 i a = Inr target" "guard_not_last_admin target a = None"
  shows "guarded (delete_row i a)"
proof -
  obtain u where "u \<in> set (au_users a)" "is_active_admin u" "us_id u \<noteq> i"
    using guard_passes [OF _ assms(2,3)] assms(1) by (auto simp: guarded_def)
  then have "has_admin (delete_row i a)" by (auto simp: has_admin_def list_ex_iff delete_row_def)
  with assms(1) show ?thesis by (auto simp: guarded_def accounts_ok_def delete_row_def distinct_map_filter)
qed

lemma guarded_create:
  assumes "guarded a" "get_by_email email a = None" "create_row now email name h (role_value r) b a = (u, a')"
  shows "guarded a'"
proof -
  have "email \<notin> us_email ` set (au_users a)" using assms(2) by (simp add: get_by_email_def lookup_by_None_iff)
  moreover have "au_next_id a \<notin> us_id ` set (au_users a)" using assms(1) by (auto simp: guarded_def accounts_ok_def)
  moreover have "\<forall>u \<in> set (au_users a). us_id u \<le> au_next_id a" using assms(1) by (auto simp: guarded_def accounts_ok_def intro: less_imp_le)
  ultimately show ?thesis
    using assms(1,3) by (auto simp: create_row_def guarded_def accounts_ok_def has_admin_def Let_def)
qed

lemma guarded_revoke: "revoke_sessions env i a = Some a' \<Longrightarrow> guarded a' = guarded a"
  by (auto simp: revoke_sessions_def intro!: guarded_cong)

lemma guarded_admin_step:
  assumes "as_admin env cookie h a = Some (resp, a')" "guarded a"
    and "\<And>b. guarded b \<Longrightarrow> h b = Some (resp, a') \<Longrightarrow> guarded a'"
  shows "guarded a'"
  using assms guarded_cong [OF require_admin_tables, of env cookie a]
  by (auto simp: as_admin_def split: prod.splits sum.splits)

lemma guarded_login: "guarded a \<Longrightarrow> guarded (snd (login env email password a))"
proof -
  assume a: "guarded a"
  then have "guarded (snd (authenticate env e password a))" for e
    by (auto simp: authenticate_def guarded_record_login split: option.split)
  moreover have "guarded (b\<lparr>au_redis := r\<rparr>) = guarded b" for b :: "'a auth" and r by (rule guarded_cong) simp_all
  ultimately show ?thesis by (auto simp: login_def split_beta split: option.split)
qed

lemma guarded_change_password: "guarded a \<Longrightarrow> guarded (snd (change_password env cookie cur new a))"
  using guarded_cong [OF current_user_tables, of env cookie a]
  by (auto simp: change_password_def change_own_password_def guarded_set_password split_beta split: sum.split option.split prod.split)

lemma guarded_step:
  assumes "handle env cookie rq a = Some (resp, a')" "guarded a"
  shows "guarded a'"
proof -
  have red: "guarded (b\<lparr>au_redis := r\<rparr>) = guarded b" for b :: "'a auth" and r by (rule guarded_cong) simp_all
  have dr: "delete_row i (b\<lparr>au_redis := r\<rparr>) = delete_row i b\<lparr>au_redis := r\<rparr>" for i and b :: "'a auth" and r by (simp add: delete_row_def)
  have user: "guarded (snd (get_current_user env cookie a))" using assms(2) guarded_cong [OF current_user_tables, of env cookie a] by simp
  show ?thesis
  proof (cases rq)
    case (Login e p)
    then show ?thesis using assms guarded_login [OF assms(2), of env e p] by simp
  next
    case Logout
    then show ?thesis using assms by (auto simp: logout_def red split: option.splits if_splits)
  next
    case Me
    then show ?thesis using assms(1) user by (auto simp: me_def split: prod.splits sum.splits)
  next
    case (Change_Password c n)
    then show ?thesis using assms guarded_change_password [OF assms(2), of env cookie c n] by simp
  next
    case List_Users
    then show ?thesis using assms by (auto simp: list_users_def elim!: guarded_admin_step)
  next
    case (Create_User e n r)
    then have "as_admin env cookie (\<lambda>a. Some (create_user env e n r a)) a = Some (resp, a')" using assms by simp
    then show ?thesis
      by (rule guarded_admin_step [OF _ assms(2)]) (auto simp: create_user_def Let_def split: option.splits if_splits prod.splits intro: guarded_create)
  next
    case (Disable_User i)
    then have "as_admin env cookie (disable_user env i) a = Some (resp, a')" using assms by simp
    then show ?thesis
      by (rule guarded_admin_step [OF _ assms(2)])
        (auto simp: disable_user_def guarded_revoke guarded_disable split: option.splits sum.splits)
  next
    case (Enable_User i)
    then have "as_admin env cookie (\<lambda>a. Some (enable_user i a)) a = Some (resp, a')" using assms by simp
    then show ?thesis
      by (rule guarded_admin_step [OF _ assms(2)]) (auto simp: enable_user_def guarded_enable split: option.splits sum.splits)
  next
    case (Change_Role i r)
    then have "as_admin env cookie (\<lambda>a. Some (change_role i r a)) a = Some (resp, a')" using assms by simp
    then show ?thesis
      by (rule guarded_admin_step [OF _ assms(2)])
        (auto simp: change_role_def simp del: role_value.simps intro: guarded_set_role split: option.splits sum.splits if_splits)
  next
    case (Reset_Password i)
    then have "as_admin env cookie (reset_password env i) a = Some (resp, a')" using assms by simp
    then show ?thesis
      by (rule guarded_admin_step [OF _ assms(2)]) (auto simp: reset_password_def guarded_revoke guarded_set_password split: sum.splits)
  next
    case (Delete_User i)
    then have "as_admin env cookie (delete_user env i) a = Some (resp, a')" using assms by simp
    then show ?thesis
      by (rule guarded_admin_step [OF _ assms(2)])
        (auto simp: delete_user_def revoke_sessions_def guarded_delete red dr split: option.splits sum.splits)
  qed
qed

text \<open>Requests one after the other, each with its environment and cookie.\<close>

fun serve :: "('r env \<times> string option \<times> auth_request) list \<Rightarrow> 'r auth \<Rightarrow> (response list \<times> 'r auth) option" where
  "serve [] a = Some ([], a)"
| "serve ((env, cookie, rq) # rest) a =
     (case handle env cookie rq a of
        None \<Rightarrow> None
      | Some (resp, a1) \<Rightarrow> map_option (\<lambda>(resps, a2). (resp # resps, a2)) (serve rest a1))"

lemma guarded_serve:
  assumes "serve rqs a = Some (resps, a')" "guarded a"
  shows "guarded a'"
  using assms
proof (induction rqs arbitrary: a resps)
  case (Cons q rqs)
  obtain env cookie rq where q: "q = (env, cookie, rq)" by (cases q)
  with Cons.prems(1) obtain resp a1 rs where h: "handle env cookie rq a = Some (resp, a1)" "serve rqs a1 = Some (rs, a')"
    by (auto split: option.splits)
  from Cons.IH [OF h(2) guarded_step [OF h(1) Cons.prems(2)]] show ?case .
qed simp

text \<open>C7: Requests served one after the other never lock every administrator out: with distinct ids and emails and an active
  administrator at the start, both still hold afterwards, whoever sends what.\<close>

theorem active_admin_remains:
  assumes "serve rqs a = Some (resps, a')" "accounts_ok a" "has_admin a"
  shows "accounts_ok a' \<and> has_admin a'"
  using guarded_serve [OF assms(1)] assms(2,3) by (simp add: guarded_def)


section \<open>Revocation\<close>

text \<open>At \<open>now\<close> no live session belongs to user \<open>i\<close>.\<close>

definition no_session :: "'r session_view \<Rightarrow> int \<Rightarrow> int \<Rightarrow> 'r auth \<Rightarrow> bool" where
  "no_session view now i a \<longleftrightarrow> (\<forall>k v d. view (au_redis a) k = Some (v, d) \<longrightarrow> now < d \<longrightarrow> sd_user_id v \<noteq> i)"

lemma no_session_later: "no_session view now i a \<Longrightarrow> now \<le> now' \<Longrightarrow> no_session view now' i a"
  unfolding no_session_def by (blast intro: le_less_trans)

lemma no_session_cong: "au_redis a' = au_redis a \<Longrightarrow> no_session view now i a' = no_session view now i a"
  by (simp add: no_session_def)

lemma no_session_sub: "no_session view now i a \<Longrightarrow> view (au_redis a') \<subseteq>\<^sub>m view (au_redis a) \<Longrightarrow> no_session view now i a'"
  unfolding no_session_def map_le_def dom_def by (metis (mono_tags, lifting) mem_Collect_eq option.distinct(1))

lemma no_session_delete:
  assumes "kv_laws (en_kv env) view" "no_session view now i a"
  shows "no_session view now i (a\<lparr>au_redis := session_delete (en_kv env) token (au_redis a)\<rparr>)"
  by (rule no_session_sub [OF assms(2)]) (simp add: session_delete_def kv_lawsD [OF assms(1)] map_le_def)

lemma no_session_row [simp]: "no_session view now i (delete_row j a) = no_session view now i a"
  by (rule no_session_cong) (simp add: delete_row_def)

lemma no_session_user:
  assumes "kv_laws (en_kv env) view" "no_session view (en_now env) i a"
  shows "no_session view (en_now env) i (snd (get_current_user env cookie a))"
proof -
  have touch: "no_session view (en_now env) i (a\<lparr>au_redis := session_touch (en_kv env) (en_now env) ttl token (au_redis a)\<rparr>)" for ttl token
    using assms(2) by (auto simp: no_session_def session_touch_def kv_lawsD [OF assms(1)] split: option.splits if_splits)
  show ?thesis using assms(2) touch no_session_delete [OF assms] by (auto simp: get_current_user_def split: option.split)
qed

lemma revoked:
  assumes "kv_laws (en_kv env) view" "revoke_sessions env i a = Some a'"
  shows "no_session view (en_now env) i a'" "view (au_redis a') \<subseteq>\<^sub>m view (au_redis a)"
proof -
  obtain r where r: "delete_all_for_user (en_kv env) (en_now env) i (au_redis a) = Some r" "a' = a\<lparr>au_redis := r\<rparr>"
    using assms(2) by (auto simp: revoke_sessions_def)
  then have v: "view r k = (if owned view (en_now env) i (au_redis a) k then None else view (au_redis a) k)" for k
    using delete_all [OF assms(1), of "en_now env" i "au_redis a"] by auto
  show "no_session view (en_now env) i a'" by (auto simp: no_session_def r(2) v owned_def split: if_splits)
  show "view (au_redis a') \<subseteq>\<^sub>m view (au_redis a)" by (auto simp: map_le_def r(2) v split: if_splits)
qed

lemma edit_redis [simp]:
  "au_redis (edit_user f i a) = au_redis a" "au_redis (set_user_status st i a) = au_redis a" "au_redis (set_password h b i a) = au_redis a"
  "au_redis (set_role r i a) = au_redis a" "au_redis (record_login now i a) = au_redis a" "au_redis (delete_row i a) = au_redis a"
  by (simp_all add: edit_user_def set_user_status_def set_password_def set_role_def record_login_def delete_row_def)

lemma admin_step_redis:
  assumes "kv_laws (en_kv env) view" "no_session view (en_now env) i a" "as_admin env cookie h a = Some (resp, a')"
    and "\<And>b. h b = Some (resp, a') \<Longrightarrow> view (au_redis a') \<subseteq>\<^sub>m view (au_redis b)"
  shows "no_session view (en_now env) i a'"
proof -
  have adm: "snd (require_admin env cookie a) = snd (get_current_user env cookie a)"
    by (simp add: require_admin_def split_beta split: sum.split)
  note base = no_session_user [OF assms(1,2), of cookie, folded adm]
  show ?thesis
  proof (cases "fst (require_admin env cookie a)")
    case (Inl e)
    with assms(3) base show ?thesis by (auto simp: as_admin_def split: prod.splits)
  next
    case (Inr v)
    with assms(3) have "h (snd (require_admin env cookie a)) = Some (resp, a')" by (auto simp: as_admin_def split: prod.splits)
    from no_session_sub [OF base assms(4) [OF this]] show ?thesis .
  qed
qed

text \<open>The handlers of the accounts add no session.\<close>

lemma handler_redis:
  assumes "kv_laws (en_kv env) view"
  shows "create_user env e n r b = (resp, a') \<Longrightarrow> view (au_redis a') \<subseteq>\<^sub>m view (au_redis b)"
    and "disable_user env j b = Some (resp, a') \<Longrightarrow> view (au_redis a') \<subseteq>\<^sub>m view (au_redis b)"
    and "enable_user j b = (resp, a') \<Longrightarrow> view (au_redis a') \<subseteq>\<^sub>m view (au_redis b)"
    and "change_role j r b = (resp, a') \<Longrightarrow> view (au_redis a') \<subseteq>\<^sub>m view (au_redis b)"
    and "reset_password env j b = Some (resp, a') \<Longrightarrow> view (au_redis a') \<subseteq>\<^sub>m view (au_redis b)"
    and "delete_user env j b = Some (resp, a') \<Longrightarrow> view (au_redis a') \<subseteq>\<^sub>m view (au_redis b)"
  by (auto simp: create_user_def create_row_def disable_user_def enable_user_def change_role_def reset_password_def delete_user_def Let_def
      split: option.splits sum.splits if_splits dest!: revoked(2) [OF assms])

lemma no_session_step:
  assumes "kv_laws (en_kv env) view" "0 < en_ttl_minutes env" "no_session view (en_now env) i a"
    and "handle env cookie rq a = Some (resp, a')" "\<And>u t. resp = Logged_In u t \<Longrightarrow> us_id u \<noteq> i"
  shows "no_session view (en_now env) i a'"
proof (cases rq)
  case (Login e p)
  obtain r a1 where au: "authenticate env (lower (py_strip e)) p a = (r, a1)" by fastforce
  then have a1: "au_redis a1 = au_redis a" by (auto simp: authenticate_def split: option.splits if_splits)
  show ?thesis
  proof (cases r)
    case None
    with au Login assms(3,4) a1 show ?thesis by (auto simp: login_def no_session_def)
  next
    case (Some u)
    with au Login assms(4) have l: "resp = Logged_In u (en_token env)"
      "a' = a1\<lparr>au_redis := session_create (en_kv env) (en_now env) (ttl_seconds env) (en_token env) (us_id u) (us_role u) (au_redis a1)\<rparr>"
      by (auto simp: login_def)
    with assms(5) have "us_id u \<noteq> i" by blast
    then show ?thesis using assms(2,3) by (auto simp: l(2) no_session_def session_create_def kv_lawsD [OF assms(1)] ttl_seconds_def a1 split: if_splits)
  qed
next
  case Logout
  with assms(3,4) show ?thesis
    by (auto simp: logout_def no_session_delete [OF assms(1)] split: option.splits if_splits)
next
  case Me
  with assms(4) no_session_user [OF assms(1,3), of cookie] show ?thesis by (auto simp: me_def split: prod.splits sum.splits)
next
  case (Change_Password c n)
  have "no_session view (en_now env) i (snd (change_own_password env u c n b)) = no_session view (en_now env) i b" for u and b :: "'a auth"
    by (intro no_session_cong) (simp add: change_own_password_def)
  with Change_Password assms(4) no_session_user [OF assms(1,3), of cookie] show ?thesis
    by (auto simp: change_password_def split: prod.splits sum.splits option.splits bool.splits) (metis snd_conv)+
next
  case List_Users
  with assms(4) show ?thesis by (auto simp: list_users_def elim!: admin_step_redis [OF assms(1,3)])
qed (use assms(4) in \<open>auto elim!: admin_step_redis [OF assms(1,3)] dest: handler_redis [OF assms(1)]\<close>)

definition is_error :: "response \<Rightarrow> bool" where
  "is_error resp = (case resp of Http_Error c t \<Rightarrow> True | _ \<Rightarrow> False)"

lemma revocation_step:
  assumes "kv_laws (en_kv env) view" "rq \<in> {Disable_User i, Reset_Password i, Delete_User i}"
    and "handle env cookie rq a = Some (resp, a')" "\<not> is_error resp"
  shows "no_session view (en_now env) i a'"
proof -
  have dis: "no_session view (en_now env) i a'" if "disable_user env i b = Some (resp, a')" for b
    using that assms(4) by (auto simp: disable_user_def get_user_or_404_def guard_not_last_admin_def is_error_def
        split: option.splits sum.splits if_splits dest!: revoked(1) [OF assms(1)])
  have res: "no_session view (en_now env) i a'" if "reset_password env i b = Some (resp, a')" for b
    using that assms(4) by (auto simp: reset_password_def get_user_or_404_def is_error_def
        split: option.splits sum.splits dest!: revoked(1) [OF assms(1)])
  have del: "no_session view (en_now env) i a'" if "delete_user env i b = Some (resp, a')" for b
    using that assms(4) by (auto simp: delete_user_def get_user_or_404_def guard_not_last_admin_def is_error_def
        split: option.splits sum.splits if_splits dest!: revoked(1) [OF assms(1)])
  have adm: "fst (require_admin env cookie a) = Inl e \<Longrightarrow> is_error e" for e
    by (auto simp: require_admin_def get_current_user_def UNAUTHORIZED_def is_error_def split: option.splits if_splits sum.splits prod.splits)
  from assms(2) show ?thesis
    using assms(3,4) adm dis res del by (auto simp: as_admin_def split: prod.splits sum.splits)
qed

lemma signed_in_live:
  assumes "signed_in view now cookie a = Some u"
  shows "\<exists>k v d. view (au_redis a) k = Some (v, d) \<and> now < d \<and> sd_user_id v = us_id u"
proof -
  from assms obtain token v d where t: "view (au_redis a) (SESSION_KEY_PREFIX @ token) = Some (v, d)" "now < d"
    "user_by_id (sd_user_id v) a = Some u"
    by (auto simp: signed_in_def split: option.splits if_splits)
  then have "sd_user_id v = us_id u" using user_by_id_SomeD by metis
  with t show ?thesis by blast
qed

text \<open>C8: Revocation holds until the next login: once an administrator has disabled or deleted an account or reset its password, no
  cookie is accepted for that account any more, however many requests follow, unless one of them is a
  successful login to it.\<close>

theorem revoked_until_login:
  assumes "kv_laws kv view" "en_kv env = kv" "rq \<in> {Disable_User i, Reset_Password i, Delete_User i}"
    and "handle env cookie rq a = Some (resp, a1)" "\<not> is_error resp"
    and "serve rqs a1 = Some (resps, a2)" "\<forall>(e, c, q) \<in> set rqs. en_kv e = kv \<and> 0 < en_ttl_minutes e"
    and "sorted (map en_now (env # map fst rqs @ [later]))" "en_kv later = kv"
    and "\<forall>u t. Logged_In u t \<in> set resps \<longrightarrow> us_id u \<noteq> i"
    and "fst (get_current_user later cookie' a2) = Inr v"
  shows "at_id v \<noteq> i"
proof -
  have "no_session view (en_now env) i a1" using revocation_step [OF _ assms(3,4,5)] assms(1,2) by simp
  then have "no_session view (en_now later) i a2"
    using assms(6-8,10)
  proof (induction rqs arbitrary: env a1 resps)
    case Nil
    then show ?case by (auto intro: no_session_later)
  next
    case (Cons q rqs)
    obtain e c rq where q: "q = (e, c, rq)" by (cases q)
    with Cons.prems(2) obtain r b rs where h: "handle e c rq a1 = Some (r, b)" "serve rqs b = Some (rs, a2)" "resps = r # rs"
      by (auto split: option.splits)
    have "no_session view (en_now e) i a1" using Cons.prems(1,4) by (auto simp: q intro: no_session_later)
    then have "no_session view (en_now e) i b"
      using Cons.prems(3,5) assms(1) h by (intro no_session_step [OF _ _ _ h(1)]) (auto simp: q)
    then show ?case
      using Cons.prems(3-5) h by (intro Cons.IH [OF _ h(2)]) (auto simp: q)
  qed
  moreover have "signed_in view (en_now later) cookie' a2 \<noteq> None \<and> at_id v = us_id (the (signed_in view (en_now later) cookie' a2))"
    using assms(11) unfolding current_user_cases [of later view, unfolded assms(9), OF assms(1)]
    by (auto simp: identity_def split: option.splits)
  ultimately show ?thesis using signed_in_live [of view "en_now later" cookie' a2] unfolding no_session_def by fastforce
qed


text \<open>C25: A login succeeds exactly for the trimmed, lower-cased email of an active account with its password; it opens a session
  under the fresh token, and a failed login changes nothing.\<close>

theorem login_exactly:
  assumes "kv_laws (en_kv env) view" "0 < en_ttl_minutes env"
  shows "let (resp, a') = login env email password a in
    (case get_by_email (lower (py_strip email)) a of
       Some u \<Rightarrow>
         if us_status u = ''ACTIVE'' \<and> en_checkpw env password (us_password_hash u) = Some True
         then resp = Logged_In (u\<lparr>us_last_login_at := Some (en_now env)\<rparr>) (en_token env)
           \<and> view (au_redis a') = (view (au_redis a))(SESSION_KEY_PREFIX @ en_token env
                \<mapsto> (\<lparr>sd_user_id = us_id u, sd_role = us_role u\<rparr>, en_now env + ttl_seconds env))
         else resp = Http_Error 401 ''Invalid email or password'' \<and> a' = a
     | None \<Rightarrow> resp = Http_Error 401 ''Invalid email or password'' \<and> a' = a)"
  using assms(2)
  by (auto simp: login_def authenticate_def verify_password_def session_create_def kv_lawsD [OF assms(1)] ttl_seconds_def
      split: option.split)

section \<open>An example\<close>

text \<open>A session table as an association list, scanned in one page.\<close>

type_synonym demo_table = "(string \<times> session_data \<times> int) list"

definition demo_kv :: "demo_table kv" where
  "demo_kv =
     \<lparr>kv_setex = \<lambda>now k ttl v r. (k, v, now + ttl) # r,
      kv_get = \<lambda>now k r. (case map_of r k of None \<Rightarrow> None | Some (v, d) \<Rightarrow> if now < d then Some v else None),
      kv_expire = \<lambda>now k ttl r. (case map_of r k of None \<Rightarrow> r | Some (v, d) \<Rightarrow> if now < d then (k, v, now + ttl) # r else r),
      kv_delete = \<lambda>k r. filter (\<lambda>(k', _). k' \<noteq> k) r,
      kv_scan = \<lambda>now cursor r. (0, remdups (map fst r))\<rparr>"

lemma demo_kv_laws: "kv_laws demo_kv map_of"
proof -
  have del: "map_of (filter (\<lambda>(k', _). k' \<noteq> k) r) = (map_of r)(k := None)" for k and r :: demo_table
    by (induction r) (auto simp: fun_eq_iff)
  have "scan_law demo_kv map_of"
    unfolding scan_law_def
  proof (intro allI impI)
    fix now and c :: "nat \<Rightarrow> nat" and r :: "nat \<Rightarrow> demo_table"
    assume c: "\<forall>i. c (Suc i) = fst (kv_scan demo_kv now (c i) (r i))"
    have "c (Suc 0) = 0" using c by (simp add: demo_kv_def)
    moreover have "k \<in> set (snd (kv_scan demo_kv now (c 0) (r 0)))" if m: "map_of (r 0) k = Some (v, d)" for k v d
      using map_of_SomeD [OF m] by (force simp: demo_kv_def)
    ultimately show "\<exists>n. c (Suc n) = 0 \<and> (\<forall>i<n. c (Suc i) \<noteq> 0)
        \<and> (\<forall>k v d. map_of (r n) k = Some (v, d) \<longrightarrow> now < d \<longrightarrow> (\<exists>i\<le>n. k \<in> set (snd (kv_scan demo_kv now (c i) (r i)))))"
      by (intro exI [of _ 0]) auto
  qed
  then show ?thesis by (auto simp: kv_laws_def demo_kv_def del split: option.split)
qed

definition demo_env :: "int \<Rightarrow> demo_table env" where
  "demo_env now =
     \<lparr>en_kv = demo_kv, en_now = now, en_ttl_minutes = 480, en_token = ''fresh'', en_temporary_password = ''temporary'',
      en_hash = \<lambda>p. CHR ''#'' # p, en_checkpw = \<lambda>p h. Some (h = CHR ''#'' # p)\<rparr>"

definition demo_user :: "int \<Rightarrow> string \<Rightarrow> string \<Rightarrow> user_row" where
  "demo_user i email role =
     \<lparr>us_id = i, us_email = email, us_name = email, us_password_hash = ''#secret'', us_role = role, us_status = ''ACTIVE'',
      us_must_change_password = False, us_created_at = i, us_last_login_at = None\<rparr>"

definition demo_auth :: "demo_table auth" where
  "demo_auth =
     \<lparr>au_users = [demo_user 1 ''a@x'' ''ADMIN'', demo_user 2 ''v@x'' ''VIEWER'', demo_user 3 ''b@x'' ''ADMIN''], au_next_id = 4,
      au_redis = [(''session:t1'', \<lparr>sd_user_id = 1, sd_role = ''ADMIN''\<rparr>, 900), (''session:t2'', \<lparr>sd_user_id = 2, sd_role = ''VIEWER''\<rparr>, 900)]\<rparr>"

lemma demo_env_fields [simp]: "en_kv (demo_env now) = demo_kv" "en_now (demo_env now) = now" "0 < en_ttl_minutes (demo_env now)"
  by (simp_all add: demo_env_def)

theorem session_accepted_exactly_witness:
  "fst (get_current_user (demo_env 5) (Some ''t1'') demo_auth) = Inr (identity (demo_user 1 ''a@x'' ''ADMIN'') R_ADMIN)"
proof -
  have "signed_in map_of 5 (Some ''t1'') demo_auth = Some (demo_user 1 ''a@x'' ''ADMIN'')" "role_of (us_role (demo_user 1 ''a@x'' ''ADMIN'')) = Some R_ADMIN"
    by code_simp+
  then show ?thesis
    using session_accepted_exactly [of "demo_env 5" map_of "Some ''t1''" "''t1''" demo_auth] demo_kv_laws
    by (simp add: Let_def split_beta)
qed

theorem active_admin_remains_witness:
  "\<exists>resps a'. serve [(demo_env 5, Some ''t1'', Disable_User 3), (demo_env 6, Some ''t1'', Delete_User 1)] demo_auth = Some (resps, a')
     \<and> has_admin a' \<and> length resps = 2"
proof -
  have ok: "accounts_ok demo_auth" "has_admin demo_auth" by code_simp+
  have "map_option (\<lambda>(resps, a'). length resps) (serve [(demo_env 5, Some ''t1'', Disable_User 3), (demo_env 6, Some ''t1'', Delete_User 1)] demo_auth) = Some 2"
    by code_simp
  then obtain resps a' where s: "serve [(demo_env 5, Some ''t1'', Disable_User 3), (demo_env 6, Some ''t1'', Delete_User 1)] demo_auth = Some (resps, a')"
    "length resps = 2" by auto
  from active_admin_remains [OF s(1) ok] s show ?thesis by blast
qed


theorem revoked_until_login_witness:
  "\<exists>resp a1. handle (demo_env 5) (Some ''t1'') (Disable_User 2) demo_auth = Some (resp, a1) \<and> \<not> is_error resp
     \<and> (\<forall>v. fst (get_current_user (demo_env 7) (Some ''t2'') a1) = Inr v \<longrightarrow> at_id v \<noteq> 2)"
proof -
  have "map_option (\<lambda>(resp, a1). is_error resp) (handle (demo_env 5) (Some ''t1'') (Disable_User 2) demo_auth) = Some False" by code_simp
  then obtain resp a1 where h: "handle (demo_env 5) (Some ''t1'') (Disable_User 2) demo_auth = Some (resp, a1)" "\<not> is_error resp" by auto
  then have "fst (get_current_user (demo_env 7) (Some ''t2'') a1) = Inr v \<Longrightarrow> at_id v \<noteq> 2" for v
    using revoked_until_login [OF demo_kv_laws, of "demo_env 5" "Disable_User 2" 2 "Some ''t1''" demo_auth resp a1 "[]" "[]" a1 "demo_env 7" "Some ''t2''" v]
    by simp
  with h show ?thesis by blast
qed


theorem login_exactly_witness:
  "fst (login (demo_env 5) '' V@x '' ''secret'' demo_auth) = Logged_In (demo_user 2 ''v@x'' ''VIEWER''\<lparr>us_last_login_at := Some 5\<rparr>) ''fresh''
   \<and> login (demo_env 5) ''v@x'' ''wrong'' demo_auth = (Http_Error 401 ''Invalid email or password'', demo_auth)"
proof -
  have u: "get_by_email (lower (py_strip '' V@x '')) demo_auth = Some (demo_user 2 ''v@x'' ''VIEWER'')"
    "get_by_email (lower (py_strip ''v@x'')) demo_auth = Some (demo_user 2 ''v@x'' ''VIEWER'')"
    "us_status (demo_user 2 ''v@x'' ''VIEWER'') = ''ACTIVE''" "en_token (demo_env 5) = ''fresh''"
    "en_checkpw (demo_env 5) ''secret'' (us_password_hash (demo_user 2 ''v@x'' ''VIEWER'')) = Some True"
    "en_checkpw (demo_env 5) ''wrong'' (us_password_hash (demo_user 2 ''v@x'' ''VIEWER'')) = Some False"
    by code_simp+
  show ?thesis
    using login_exactly [of "demo_env 5" map_of "'' V@x ''" "''secret''" demo_auth] login_exactly [of "demo_env 5" map_of "''v@x''" "''wrong''" demo_auth]
      demo_kv_laws u by (auto simp: Let_def split_beta prod_eq_iff)
qed

end
