(* ===== verification/Sanity.thy ===== *)
theory Sanity
  imports Momentum_Pipeline Upstox_Client
begin

text \<open>
  The sanity report: app/sanity/models.py, checks.py and service.py. Every check reads the tables and grades a part
  of the system; the report combines the grades. The instants that the checks read from the clock are one
  argument, and so are the name of the configured zone, the answer of the database probe, and what Redis
  answers.
\<close>

section \<open>Grades\<close>

datatype sanity_status = S_HEALTHY | S_WARNING | S_STALE | S_BLOCKED | S_FAILED | S_NOT_CONFIGURED | S_UNKNOWN

fun SEVERITY_RANK :: "sanity_status \<Rightarrow> nat" where
  "SEVERITY_RANK S_HEALTHY = 0"
| "SEVERITY_RANK S_NOT_CONFIGURED = 0"
| "SEVERITY_RANK S_UNKNOWN = 1"
| "SEVERITY_RANK S_WARNING = 2"
| "SEVERITY_RANK S_STALE = 3"
| "SEVERITY_RANK S_BLOCKED = 3"
| "SEVERITY_RANK S_FAILED = 4"

text \<open>\<open>max(xs, key=f)\<close>: the first of the greatest.\<close>

fun first_max :: "('a \<Rightarrow> nat) \<Rightarrow> 'a \<Rightarrow> 'a list \<Rightarrow> 'a" where
  "first_max f x [] = x"
| "first_max f x (y # ys) = first_max f (if f x < f y then y else x) ys"

definition worst_status :: "sanity_status list \<Rightarrow> sanity_status" where
  "worst_status statuses = (case statuses of [] \<Rightarrow> S_UNKNOWN | x # xs \<Rightarrow> first_max SEVERITY_RANK x xs)"

record component_check =
  cc_name :: string
  cc_status :: sanity_status
  cc_detail :: msg
  cc_last_success_at :: "int option"

record scanner_check =
  sk_scanner_name :: string
  sk_status :: sanity_status
  sk_detail :: msg
  sk_last_run_at :: "int option"
  sk_latest_result_date :: "int option"

definition plain_check :: "string \<Rightarrow> sanity_status \<Rightarrow> msg \<Rightarrow> component_check" where
  "plain_check name st detail = \<lparr>cc_name = name, cc_status = st, cc_detail = detail, cc_last_success_at = None\<rparr>"

section \<open>Configuration and calendar\<close>

definition EXPECTED_MARKET_TIMEZONE :: string where
  "EXPECTED_MARKET_TIMEZONE = ''Asia/Kolkata''"

definition BENIGN_SKIP_PREFIX :: string where
  "BENIGN_SKIP_PREFIX = ''skipped:''"

definition LISTED_SCANNERS :: "string list" where
  "LISTED_SCANNERS = [''breakout_v1'', ''vcp_v1'', ''momentum_v1'', ''orb_v1'']"

definition CANDIDATE_SCANNERS :: "string list" where
  "CANDIDATE_SCANNERS = [''fno_momentum_v1'', ''pre_breakout_v1'', ''ipo_intraday_v1'']"

definition ALL_SCANNERS :: "string list" where
  "ALL_SCANNERS = LISTED_SCANNERS @ CANDIDATE_SCANNERS"

definition EVENT_DRIVEN_WORKERS :: "string list" where
  "EVENT_DRIVEN_WORKERS = [''pipeline_worker'', ''feature_engine'', ''scanner_engine'', ''alert_manager'']"

definition quoted :: "string \<Rightarrow> string" where
  "quoted s = [CHR 0x27] @ s @ [CHR 0x27]"

definition check_timezone_configuration :: "string \<Rightarrow> component_check" where
  "check_timezone_configuration configured =
     (if configured \<noteq> EXPECTED_MARKET_TIMEZONE then
        plain_check ''Application Timezone'' S_WARNING
          [Lit (''market_timezone='' @ quoted configured @ '', expected '' @ quoted EXPECTED_MARKET_TIMEZONE @ '' ''), Lit em_dash,
           Lit '' every Indian market business-date calculation in this codebase depends on this being correct'']
      else plain_check ''Application Timezone'' S_HEALTHY (lit (''market_timezone='' @ quoted configured)))"

text \<open>The five calendar queries of the \<open>try\<close> block, in order. The years are verified for both segments alike, so the first
  query that raises is one for EQUITY.\<close>

definition calendar_view ::
  "int \<Rightarrow> py_error + (bool \<times> bool \<times> nse_holiday option \<times> int \<times> int)" where
  "calendar_view today =
     and_then (is_trading_day today Seg_EQUITY) (\<lambda>equity. and_then (is_trading_day today Seg_FNO) (\<lambda>fno.
     and_then (get_holiday today Seg_EQUITY) (\<lambda>holiday. and_then (next_trading_day today Seg_EQUITY) (\<lambda>upcoming.
     and_then (previous_trading_day today Seg_EQUITY) (\<lambda>prior. Inr (equity, fno, holiday, upcoming, prior))))))"

definition today_status :: "int \<Rightarrow> bool \<Rightarrow> nse_holiday option \<Rightarrow> string" where
  "today_status today equity_trading holiday =
     (if equity_trading then ''Trading Day''
      else if 5 \<le> weekday today then (case holiday of None \<Rightarrow> ''Weekend'' | Some h \<Rightarrow> ''Weekend (also NSE Holiday: '' @ holiday_name h @ '')'')
      else (case holiday of None \<Rightarrow> ''Weekend'' | Some h \<Rightarrow> ''NSE Holiday: '' @ holiday_name h))"

definition check_market_calendar :: "string \<Rightarrow> settings \<Rightarrow> int \<Rightarrow> py_error + component_check" where
  "check_market_calendar zone_name cfg now =
     (let today = market_date_of cfg (utc_dt now) None in
      case calendar_view today of
        Inl (CalendarYearNotVerified y) \<Rightarrow>
          Inr (plain_check ''Market Calendar'' S_NOT_CONFIGURED [Lit ''No verified NSE EQUITY holiday calendar for '', IntP y, Lit '' '', Lit em_dash,
            Lit '' verified years are [2026]. Not guessing.''])
      | Inl e \<Rightarrow> Inl e
      | Inr (equity_trading, fno_trading, holiday, upcoming, prior) \<Rightarrow>
          Inr (plain_check ''Market Calendar'' S_HEALTHY
            ([Lit (''Timezone: '' @ zone_name @ '' | Current Market Date: '' @ isoformat today @ '' | Today: ''
                @ today_status today equity_trading holiday @ '' | Next Trading Day: '' @ isoformat upcoming
                @ '' | Previous Trading Day: '' @ isoformat prior @ '' | Source: NSE India | Calendar: EQUITY | Year: ''),
              IntP (year_of today), Lit '' | Verified years: [2026]''] @
             (if equity_trading = fno_trading then []
              else [Lit '' '', Lit em_dash, Lit ('' NOTE: F&O segment '' @ (if fno_trading then ''trades'' else ''does not trade'')
                @ '' today, differs from Equity'')]))))"

section \<open>Database and Redis\<close>

definition check_database :: "string option \<Rightarrow> component_check" where
  "check_database failure =
     (case failure of None \<Rightarrow> plain_check ''PostgreSQL'' S_HEALTHY (lit ''reachable'')
      | Some e \<Rightarrow> plain_check ''PostgreSQL'' S_FAILED (lit (''unreachable: '' @ e)))"

record stream_group =
  sg_name :: string
  sg_pending :: int
  sg_lag :: string

definition check_stream_lag :: "string \<Rightarrow> stream_group list option \<Rightarrow> msg" where
  "check_stream_lag consumer_group groups =
     (case groups of
        None \<Rightarrow> lit ''no consumer group info available yet''
      | Some gs \<Rightarrow>
          (case find (\<lambda>g. sg_name g = consumer_group) gs of
             Some g \<Rightarrow> [Lit (''consumer group '' @ quoted consumer_group @ '' pending=''), IntP (sg_pending g), Lit ('' lag='' @ sg_lag g)]
           | None \<Rightarrow> lit (''consumer group '' @ quoted consumer_group @ '' not found'')))"

definition check_redis :: "string + bool \<Rightarrow> string \<Rightarrow> stream_group list option \<Rightarrow> component_check" where
  "check_redis pong consumer_group groups =
     (case pong of
        Inl e \<Rightarrow> plain_check ''Redis'' S_FAILED (lit (''unreachable: '' @ e))
      | Inr False \<Rightarrow> plain_check ''Redis'' S_FAILED (lit ''PING returned falsy'')
      | Inr True \<Rightarrow> plain_check ''Redis'' S_HEALTHY (Lit ''reachable; '' # check_stream_lag consumer_group groups))"

section \<open>Data\<close>

definition check_freshness :: "settings \<Rightarrow> 'x feature_store_scheme \<Rightarrow> component_check \<times> component_check \<times> freshness_status" where
  "check_freshness cfg s =
     (let freshness = check_feature_freshness cfg s in
      case fs_prices_date freshness of
        None \<Rightarrow> (plain_check ''daily_prices'' S_UNKNOWN (lit ''no price data yet (fresh database?)''),
                 plain_check ''daily_features'' S_UNKNOWN (lit ''no price data to compare against yet''), freshness)
      | Some p \<Rightarrow>
          (plain_check ''daily_prices'' S_HEALTHY (lit (''latest date '' @ isoformat p)),
           (case fs_features_date freshness of
              None \<Rightarrow> plain_check ''daily_features'' S_FAILED (lit ''no daily_features computed for any active symbol'')
            | Some f \<Rightarrow>
                if fs_is_stale freshness then
                  plain_check ''daily_features'' S_STALE
                    [Lit (''latest date '' @ isoformat f @ '', ''), IntP (opt_else (fs_lag_days freshness) 0),
                     Lit ('' day(s) behind daily_prices ('' @ isoformat p @ '')'')]
                else plain_check ''daily_features'' S_HEALTHY (lit (''latest date '' @ isoformat f))),
           freshness))"

definition recent_feed_logs :: "nat \<Rightarrow> 'x market_store_scheme \<Rightarrow> feed_log list" where
  "recent_feed_logs limit s = take limit (sort_key (\<lambda>r. - fl_connected_at r) (feed_logs s))"

definition age_seconds :: "int \<Rightarrow> int \<Rightarrow> rat" where
  "age_seconds now t = of_int (now - t) / 1000000"

definition check_market_data_pipeline :: "settings \<Rightarrow> bool \<Rightarrow> int \<Rightarrow> 'x market_store_scheme \<Rightarrow> component_check" where
  "check_market_data_pipeline cfg market_open now s =
     (let feed_connected = (case recent_feed_logs 1 s of [] \<Rightarrow> False | r # _ \<Rightarrow> fl_disconnected_at r = None) in
      if \<not> market_open then plain_check ''Market Data'' S_NOT_CONFIGURED [Lit ''market closed '', Lit em_dash, Lit '' no live ticks expected'']
      else case get_latest_intraday_timestamp_across_active_symbols s of
             None \<Rightarrow> plain_check ''Market Data'' S_FAILED (lit ''no intraday ticks recorded for any active symbol'')
           | Some t \<Rightarrow>
               (let age = age_seconds now t in
                if age > sanity_worker_heartbeat_warning_seconds cfg
                then plain_check ''Market Data'' S_STALE
                  [Lit ''last tick '', IntP (cut_fraction age), Lit (''s ago (feed connected='' @ (if feed_connected then ''True)'' else ''False)''))]
                else plain_check ''Market Data'' S_HEALTHY [Lit ''last tick '', IntP (cut_fraction age), Lit ''s ago'']))"

section \<open>Workers\<close>

definition thresholds_for :: "string \<Rightarrow> settings \<Rightarrow> rat \<times> rat" where
  "thresholds_for worker cfg =
     (if worker = MOMENTUM_PIPELINE_WORKER_NAME
      then (sanity_momentum_pipeline_warning_seconds cfg, sanity_momentum_pipeline_stale_seconds cfg)
      else (sanity_worker_heartbeat_warning_seconds cfg, sanity_worker_heartbeat_stale_seconds cfg))"

definition starts_with :: "string \<Rightarrow> string \<Rightarrow> bool" where
  "starts_with s prefix \<longleftrightarrow> take (length prefix) s = prefix"

definition check_worker_heartbeat :: "settings \<Rightarrow> int \<Rightarrow> string \<Rightarrow> 'x store_scheme \<Rightarrow> component_check" where
  "check_worker_heartbeat cfg now worker s =
     (let hb = heartbeat_of worker s; (warning_s, stale_s) = thresholds_for worker cfg; detail = opt_else (hb_detail hb) [] in
      case hb_last_run_at hb of
        None \<Rightarrow> plain_check worker S_UNKNOWN (lit ''no heartbeat recorded yet'')
      | Some run_at \<Rightarrow>
          (case hb_last_success_at hb of
             None \<Rightarrow>
               if starts_with detail BENIGN_SKIP_PREFIX \<and> age_seconds now run_at \<le> warning_s
               then plain_check worker S_NOT_CONFIGURED [Lit ''alive, correctly idle '', Lit em_dash, Lit ('' '' @ detail)]
               else plain_check worker S_WARNING (lit (''has run but never completed successfully ('' @ detail @ '')''))
           | Some success_at \<Rightarrow>
               (let age = age_seconds now success_at;
                    graded = (\<lambda>st text. \<lparr>cc_name = worker, cc_status = st, cc_detail = text, cc_last_success_at = Some success_at\<rparr>) in
                if age > stale_s then
                  graded S_STALE [Lit ''no successful cycle in '', IntP (cut_fraction age), Lit ''s (threshold '', IntP (cut_fraction stale_s),
                    Lit ''s) '', Lit em_dash, Lit ('' '' @ detail)]
                else if age > warning_s then
                  graded S_WARNING [Lit ''last success '', IntP (cut_fraction age), Lit ''s ago (threshold '', IntP (cut_fraction warning_s),
                    Lit ''s) '', Lit em_dash, Lit ('' '' @ detail)]
                else graded S_HEALTHY [Lit ''last success '', IntP (cut_fraction age), Lit ''s ago '', Lit em_dash, Lit ('' '' @ detail)])))"

section \<open>Scanners\<close>

definition recent_runs :: "string option \<Rightarrow> nat \<Rightarrow> 'x scanner_store_scheme \<Rightarrow> run_row list" where
  "recent_runs name limit s =
     take limit (sort_key (\<lambda>r. - rn_start_time r)
       (filter (\<lambda>r. case name of None \<Rightarrow> True | Some n \<Rightarrow> rn_scanner_name r = n) (scanner_runs s)))"

definition check_scanner :: "settings \<Rightarrow> bool \<Rightarrow> int \<Rightarrow> 'x scanner_store_scheme \<Rightarrow> string \<Rightarrow> scanner_check" where
  "check_scanner cfg features_stale now s name =
     (let last_run_at = (case recent_runs (Some name) 1 s of [] \<Rightarrow> None | r # _ \<Rightarrow> rn_finish_time r);
          latest_result_date = (case list_results (Some name) None 1 s of [] \<Rightarrow> None | r # _ \<Rightarrow> Some (rr_date r));
          graded = (\<lambda>st text. \<lparr>sk_scanner_name = name, sk_status = st, sk_detail = text, sk_last_run_at = last_run_at,
                               sk_latest_result_date = latest_result_date\<rparr>) in
      case last_run_at of
        None \<Rightarrow> graded S_UNKNOWN (lit ''no scanner_runs recorded yet'')
      | Some t \<Rightarrow>
          if features_stale then graded S_BLOCKED [Lit ''BLOCKED / STALE DATA '', Lit em_dash, Lit '' underlying daily_features is stale'']
          else (let age = age_seconds now t; stale_s = sanity_worker_heartbeat_stale_seconds cfg in
            if age > stale_s then graded S_STALE [Lit ''last run '', IntP (cut_fraction age), Lit ''s ago (threshold '', IntP (cut_fraction stale_s), Lit ''s)'']
            else graded (if age > sanity_worker_heartbeat_warning_seconds cfg then S_WARNING else S_HEALTHY)
              [Lit ''last run '', IntP (cut_fraction age), Lit ''s ago'']))"

definition check_scanners :: "settings \<Rightarrow> bool \<Rightarrow> int \<Rightarrow> 'x scanner_store_scheme \<Rightarrow> scanner_check list" where
  "check_scanners cfg features_stale now s = map (check_scanner cfg features_stale now s) ALL_SCANNERS"

section \<open>The report\<close>

record sanity_report =
  sr_checked_at :: int
  sr_overall_status :: sanity_status
  sr_components :: "component_check list"
  sr_scanners :: "scanner_check list"
  sr_daily_prices_latest_date :: "int option"
  sr_daily_features_latest_date :: "int option"
  sr_issues :: "msg list"
  sr_checked_at_ist :: pydatetime
  sr_current_market_date :: int

definition is_issue :: "sanity_status \<Rightarrow> bool" where
  "is_issue st \<longleftrightarrow> st \<in> {S_STALE, S_FAILED, S_BLOCKED}"

definition collect_issues :: "component_check list \<Rightarrow> scanner_check list \<Rightarrow> msg list" where
  "collect_issues components scanners =
     map (\<lambda>c. Lit (cc_name c @ '': '') # cc_detail c) (filter (\<lambda>c. is_issue (cc_status c)) components)
     @ map (\<lambda>c. Lit (''Scanner '' @ sk_scanner_name c @ '': '') # sk_detail c) (filter (\<lambda>c. is_issue (sk_status c)) scanners)"

text \<open>What the probes of one report answer.\<close>

record probes =
  pb_zone_name :: string
  pb_database :: "string option"
  pb_redis :: "string + bool"
  pb_consumer_group :: string
  pb_groups :: "stream_group list option"
  pb_market_open :: bool

definition run_sanity :: "settings \<Rightarrow> probes \<Rightarrow> int \<Rightarrow> 'x scanner_store_scheme \<Rightarrow> py_error + sanity_report" where
  "run_sanity cfg pb now s =
     (case check_market_calendar (pb_zone_name pb) cfg now of
        Inl e \<Rightarrow> Inl e
      | Inr calendar_check \<Rightarrow>
          (let (prices_check, features_check, freshness) = check_freshness cfg s;
               features_stale = (cc_status features_check \<in> {S_STALE, S_FAILED});
               components =
                 [check_timezone_configuration (pb_zone_name pb), calendar_check, check_database (pb_database pb),
                  check_redis (pb_redis pb) (pb_consumer_group pb) (pb_groups pb), prices_check, features_check,
                  check_market_data_pipeline cfg (pb_market_open pb) now s]
                 @ map (\<lambda>w. check_worker_heartbeat cfg now w s) (EVENT_DRIVEN_WORKERS @ [MOMENTUM_PIPELINE_WORKER_NAME]);
               scanners = check_scanners cfg features_stale now s
           in Inr \<lparr>sr_checked_at = now, sr_overall_status = worst_status (map cc_status components @ map sk_status scanners),
                   sr_components = components, sr_scanners = scanners,
                   sr_daily_prices_latest_date = fs_prices_date freshness, sr_daily_features_latest_date = fs_features_date freshness,
                   sr_issues = collect_issues components scanners, sr_checked_at_ist = now_market_time cfg now None,
                   sr_current_market_date = market_today cfg now None\<rparr>))"

section \<open>The combined grade\<close>

lemma first_max_rank: "f (first_max f x ys) = Max (insert (f x) (f ` set ys)) \<and> first_max f x ys \<in> insert x (set ys)"
proof (induction ys arbitrary: x)
  case (Cons y ys)
  have "Max (insert (f x) (insert (f y) (f ` set ys))) = Max (insert (max (f x) (f y)) (f ` set ys))"
    by (cases "set ys = {}") (simp_all add: max.assoc)
  with Cons.IH [of "if f x < f y then y else x"] show ?case by (auto simp: max_def)
qed simp

lemma worst_rank:
  assumes "xs \<noteq> []"
  shows "worst_status xs \<in> set xs" "\<forall>x \<in> set xs. SEVERITY_RANK x \<le> SEVERITY_RANK (worst_status xs)"
proof -
  obtain x ys where xs: "xs = x # ys" using assms by (cases xs) auto
  note m = first_max_rank [of SEVERITY_RANK x ys]
  show "worst_status xs \<in> set xs" using m by (auto simp: worst_status_def xs)
  show "\<forall>x \<in> set xs. SEVERITY_RANK x \<le> SEVERITY_RANK (worst_status xs)" using m by (auto simp: worst_status_def xs)
qed

lemma worst_rank_0:
  assumes "xs \<noteq> []"
  shows "SEVERITY_RANK (worst_status xs) = 0 \<longleftrightarrow> (\<forall>x \<in> set xs. SEVERITY_RANK x = 0)"
  using worst_rank [OF assms] by auto

text \<open>What a healthy part looks like.\<close>

definition worker_ok :: "settings \<Rightarrow> int \<Rightarrow> string \<Rightarrow> 'x store_scheme \<Rightarrow> bool" where
  "worker_ok cfg now w s \<longleftrightarrow>
     (case hb_last_run_at (heartbeat_of w s) of
        None \<Rightarrow> False
      | Some run_at \<Rightarrow>
          (case hb_last_success_at (heartbeat_of w s) of
             None \<Rightarrow> starts_with (opt_else (hb_detail (heartbeat_of w s)) []) BENIGN_SKIP_PREFIX
               \<and> age_seconds now run_at \<le> fst (thresholds_for w cfg)
           | Some t \<Rightarrow> age_seconds now t \<le> fst (thresholds_for w cfg) \<and> age_seconds now t \<le> snd (thresholds_for w cfg)))"

definition scanner_ok :: "settings \<Rightarrow> int \<Rightarrow> 'x scanner_store_scheme \<Rightarrow> string \<Rightarrow> bool" where
  "scanner_ok cfg now s name \<longleftrightarrow>
     (case recent_runs (Some name) 1 s of
        [] \<Rightarrow> False
      | r # _ \<Rightarrow> (case rn_finish_time r of
           None \<Rightarrow> False
         | Some t \<Rightarrow> age_seconds now t \<le> sanity_worker_heartbeat_warning_seconds cfg
             \<and> age_seconds now t \<le> sanity_worker_heartbeat_stale_seconds cfg))"

definition data_ok :: "settings \<Rightarrow> 'x feature_store_scheme \<Rightarrow> bool" where
  "data_ok cfg s \<longleftrightarrow> fs_prices_date (check_feature_freshness cfg s) \<noteq> None \<and> fs_features_date (check_feature_freshness cfg s) \<noteq> None
     \<and> \<not> fs_is_stale (check_feature_freshness cfg s)"

definition feed_ok :: "settings \<Rightarrow> bool \<Rightarrow> int \<Rightarrow> 'x market_store_scheme \<Rightarrow> bool" where
  "feed_ok cfg market_open now s \<longleftrightarrow>
     (market_open \<longrightarrow> (case get_latest_intraday_timestamp_across_active_symbols s of
        None \<Rightarrow> False | Some t \<Rightarrow> age_seconds now t \<le> sanity_worker_heartbeat_warning_seconds cfg))"

lemma worker_rank: "SEVERITY_RANK (cc_status (check_worker_heartbeat cfg now w s)) = 0 \<longleftrightarrow> worker_ok cfg now w s"
  by (auto simp: check_worker_heartbeat_def worker_ok_def plain_check_def Let_def split: option.split prod.split)

lemma scanner_rank: "SEVERITY_RANK (sk_status (check_scanner cfg stale now s name)) = 0 \<longleftrightarrow> scanner_ok cfg now s name \<and> \<not> stale"
  by (auto simp: check_scanner_def scanner_ok_def Let_def split: option.split list.split)

lemma data_rank:
  "SEVERITY_RANK (cc_status (fst (check_freshness cfg s))) = 0 \<and> SEVERITY_RANK (cc_status (fst (snd (check_freshness cfg s)))) = 0
     \<longleftrightarrow> data_ok cfg s"
  by (auto simp: check_freshness_def data_ok_def plain_check_def Let_def split: option.split)

lemma data_stale:
  "cc_status (fst (snd (check_freshness cfg s))) \<in> {S_STALE, S_FAILED}
     \<longleftrightarrow> fs_prices_date (check_feature_freshness cfg s) \<noteq> None
       \<and> (fs_features_date (check_feature_freshness cfg s) = None \<or> fs_is_stale (check_feature_freshness cfg s))"
  by (auto simp: check_freshness_def plain_check_def Let_def split: option.split)

lemma feed_rank: "SEVERITY_RANK (cc_status (check_market_data_pipeline cfg mo now s)) = 0 \<longleftrightarrow> feed_ok cfg mo now s"
  by (auto simp: check_market_data_pipeline_def feed_ok_def plain_check_def Let_def split: option.split)

lemma probe_rank:
  "SEVERITY_RANK (cc_status (check_timezone_configuration z)) = 0 \<longleftrightarrow> z = EXPECTED_MARKET_TIMEZONE"
  "SEVERITY_RANK (cc_status (check_database f)) = 0 \<longleftrightarrow> f = None"
  "SEVERITY_RANK (cc_status (check_redis pong g gs)) = 0 \<longleftrightarrow> pong = Inr True"
  "check_market_calendar z cfg now = Inr c \<Longrightarrow> SEVERITY_RANK (cc_status c) = 0"
  by (auto simp: check_timezone_configuration_def check_database_def check_redis_def check_market_calendar_def plain_check_def Let_def
      split: option.splits sum.splits bool.splits py_error.splits)

lemma run_sanity_checks:
  assumes "run_sanity cfg pb now s = Inr rep"
  obtains c where "check_market_calendar (pb_zone_name pb) cfg now = Inr c"
    "sr_components rep =
       [check_timezone_configuration (pb_zone_name pb), c, check_database (pb_database pb),
        check_redis (pb_redis pb) (pb_consumer_group pb) (pb_groups pb), fst (check_freshness cfg s), fst (snd (check_freshness cfg s)),
        check_market_data_pipeline cfg (pb_market_open pb) now s]
       @ map (\<lambda>w. check_worker_heartbeat cfg now w s) (EVENT_DRIVEN_WORKERS @ [MOMENTUM_PIPELINE_WORKER_NAME])"
    "sr_scanners rep = check_scanners cfg (cc_status (fst (snd (check_freshness cfg s))) \<in> {S_STALE, S_FAILED}) now s"
    "sr_overall_status rep = worst_status (map cc_status (sr_components rep) @ map sk_status (sr_scanners rep))"
    "sr_issues rep = collect_issues (sr_components rep) (sr_scanners rep)"
  using assms by (auto simp: run_sanity_def Let_def split_beta split: sum.splits)

text \<open>C17: The overall grade is healthy exactly when every part is: the zone is the market's, the database and Redis answer, features
  exist and are fresh, ticks arrive while the market is open, every worker succeeded recently (or never did
  and is idling on purpose), and the newest run of every scanner has finished recently.\<close>

theorem report_healthy_exactly:
  assumes "run_sanity cfg pb now s = Inr rep"
  shows "SEVERITY_RANK (sr_overall_status rep) = 0 \<longleftrightarrow>
    pb_zone_name pb = EXPECTED_MARKET_TIMEZONE \<and> pb_database pb = None \<and> pb_redis pb = Inr True
    \<and> data_ok cfg s \<and> feed_ok cfg (pb_market_open pb) now s
    \<and> (\<forall>w \<in> set (EVENT_DRIVEN_WORKERS @ [MOMENTUM_PIPELINE_WORKER_NAME]). worker_ok cfg now w s)
    \<and> (\<forall>n \<in> set ALL_SCANNERS. scanner_ok cfg now s n)"
proof -
  obtain c where c: "check_market_calendar (pb_zone_name pb) cfg now = Inr c"
    and comps: "sr_components rep =
       [check_timezone_configuration (pb_zone_name pb), c, check_database (pb_database pb),
        check_redis (pb_redis pb) (pb_consumer_group pb) (pb_groups pb), fst (check_freshness cfg s), fst (snd (check_freshness cfg s)),
        check_market_data_pipeline cfg (pb_market_open pb) now s]
       @ map (\<lambda>w. check_worker_heartbeat cfg now w s) (EVENT_DRIVEN_WORKERS @ [MOMENTUM_PIPELINE_WORKER_NAME])"
    and scs: "sr_scanners rep = check_scanners cfg (cc_status (fst (snd (check_freshness cfg s))) \<in> {S_STALE, S_FAILED}) now s"
    and o: "sr_overall_status rep = worst_status (map cc_status (sr_components rep) @ map sk_status (sr_scanners rep))"
    using run_sanity_checks [OF assms] .
  have "SEVERITY_RANK (sr_overall_status rep) = 0
      \<longleftrightarrow> (\<forall>c \<in> set (sr_components rep). SEVERITY_RANK (cc_status c) = 0) \<and> (\<forall>k \<in> set (sr_scanners rep). SEVERITY_RANK (sk_status k) = 0)"
    unfolding o by (subst worst_rank_0) (auto simp: comps)
  also have "(\<forall>c \<in> set (sr_components rep). SEVERITY_RANK (cc_status c) = 0) \<longleftrightarrow>
      pb_zone_name pb = EXPECTED_MARKET_TIMEZONE \<and> pb_database pb = None \<and> pb_redis pb = Inr True
      \<and> data_ok cfg s \<and> feed_ok cfg (pb_market_open pb) now s
      \<and> (\<forall>w \<in> set (EVENT_DRIVEN_WORKERS @ [MOMENTUM_PIPELINE_WORKER_NAME]). worker_ok cfg now w s)"
    unfolding comps by (simp only: list.set set_append set_map ball_Un ball_simps image_iff probe_rank probe_rank(4) [OF c] feed_rank worker_rank
        data_rank [symmetric] simp_thms conj_ac)
  finally have all: "SEVERITY_RANK (sr_overall_status rep) = 0 \<longleftrightarrow> (pb_zone_name pb = EXPECTED_MARKET_TIMEZONE \<and> pb_database pb = None
      \<and> pb_redis pb = Inr True \<and> data_ok cfg s \<and> feed_ok cfg (pb_market_open pb) now s
      \<and> (\<forall>w \<in> set (EVENT_DRIVEN_WORKERS @ [MOMENTUM_PIPELINE_WORKER_NAME]). worker_ok cfg now w s))
      \<and> (\<forall>k \<in> set (sr_scanners rep). SEVERITY_RANK (sk_status k) = 0)" .
  have fresh: "data_ok cfg s \<longrightarrow> \<not> cc_status (fst (snd (check_freshness cfg s))) \<in> {S_STALE, S_FAILED}"
    by (simp only: data_stale data_ok_def) blast
  have "(\<forall>k \<in> set (sr_scanners rep). SEVERITY_RANK (sk_status k) = 0) \<longleftrightarrow>
      (\<forall>n \<in> set ALL_SCANNERS. scanner_ok cfg now s n \<and> \<not> cc_status (fst (snd (check_freshness cfg s))) \<in> {S_STALE, S_FAILED})"
    unfolding scs check_scanners_def by (simp only: set_map ball_simps scanner_rank)
  with fresh show ?thesis unfolding all by blast
qed

lemma check_scanner_stale:
  "sk_scanner_name (check_scanner cfg stale now s name) = name"
  "sk_status (check_scanner cfg True now s name) = (if sk_last_run_at (check_scanner cfg True now s name) = None then S_UNKNOWN else S_BLOCKED)"
  by (simp_all add: check_scanner_def Let_def split: option.split)

text \<open>C26: Stale features never go unnoticed: when prices exist and the features are missing or too old, the features check is an
  issue, no scanner is graded as working, whatever its runs, every scanner whose newest run has finished
  is blocked, and the report as a whole is at least stale.\<close>

theorem stale_features_block_scanners:
  assumes "run_sanity cfg pb now s = Inr rep" "fs_prices_date (check_feature_freshness cfg s) \<noteq> None"
    and "fs_features_date (check_feature_freshness cfg s) = None \<or> fs_is_stale (check_feature_freshness cfg s)"
  shows "(\<forall>k \<in> set (sr_scanners rep). sk_status k = (if sk_last_run_at k = None then S_UNKNOWN else S_BLOCKED))
    \<and> map sk_scanner_name (sr_scanners rep) = ALL_SCANNERS \<and> sr_issues rep \<noteq> [] \<and> 3 \<le> SEVERITY_RANK (sr_overall_status rep)"
proof -
  let ?f = "fst (snd (check_freshness cfg s))"
  have st: "cc_status ?f \<in> {S_STALE, S_FAILED}" using assms(2,3) by (simp only: data_stale) blast
  obtain c where f: "?f \<in> set (sr_components rep)"
    and scs: "sr_scanners rep = check_scanners cfg (cc_status ?f \<in> {S_STALE, S_FAILED}) now s"
    and o: "sr_overall_status rep = worst_status (map cc_status (sr_components rep) @ map sk_status (sr_scanners rep))"
    and i: "sr_issues rep = collect_issues (sr_components rep) (sr_scanners rep)"
    using run_sanity_checks [OF assms(1)] by (metis (no_types, lifting) in_set_conv_decomp_first append_Cons list.set_intros(1,2))
  have "sr_scanners rep = check_scanners cfg True now s" using scs st by simp
  then have "(\<forall>k \<in> set (sr_scanners rep). sk_status k = (if sk_last_run_at k = None then S_UNKNOWN else S_BLOCKED))
      \<and> map sk_scanner_name (sr_scanners rep) = ALL_SCANNERS"
    by (simp add: check_scanners_def check_scanner_stale o_def)
  moreover have "is_issue (cc_status ?f)" using st by (auto simp: is_issue_def)
  then have "sr_issues rep \<noteq> []" using f by (auto simp: i collect_issues_def filter_empty_conv)
  moreover have "SEVERITY_RANK (cc_status ?f) \<le> SEVERITY_RANK (sr_overall_status rep)"
    unfolding o using f by (intro worst_rank(2) [rule_format]) auto
  then have "3 \<le> SEVERITY_RANK (sr_overall_status rep)" using st by auto
  ultimately show ?thesis by blast
qed

text \<open>C40: An idle momentum pipeline is reported stale: once it has succeeded, its pings outside market hours no longer count, so when the
  last success is older than the stale limit the worker is graded stale, even at the moment of a ping.\<close>

theorem idle_pipeline_goes_stale:
  assumes "\<not> is_market_open cfg (clock rt) None"
    and "hb_last_success_at (heartbeat_of MOMENTUM_PIPELINE_WORKER_NAME s) = Some t"
    and "sanity_momentum_pipeline_stale_seconds cfg < age_seconds (clock rt) t"
  shows "let s' = momentum_pipeline_job ops rt cfg host_today syms s in
    hb_last_run_at (heartbeat_of MOMENTUM_PIPELINE_WORKER_NAME s') = Some (clock rt)
    \<and> hb_detail (heartbeat_of MOMENTUM_PIPELINE_WORKER_NAME s') = Some ''skipped: market_closed''
    \<and> cc_status (check_worker_heartbeat cfg (clock rt) MOMENTUM_PIPELINE_WORKER_NAME s') = S_STALE"
proof -
  let ?s = "ping_run (clock rt) MOMENTUM_PIPELINE_WORKER_NAME (Some ''skipped: market_closed'') s"
  have "momentum_pipeline_job ops rt cfg host_today syms s = ?s" using assms(1) by (simp add: momentum_pipeline_job_def)
  moreover have "heartbeat_of MOMENTUM_PIPELINE_WORKER_NAME ?s
      = (heartbeat_of MOMENTUM_PIPELINE_WORKER_NAME s)\<lparr>hb_last_run_at := Some (clock rt), hb_detail := Some ''skipped: market_closed''\<rparr>"
    by (simp add: ping_run_def heartbeat_of_def Let_def)
  ultimately show ?thesis using assms(2,3) by (simp add: check_worker_heartbeat_def Let_def thresholds_for_def)
qed

lemma newest_run: "(case recent_runs (Some name) 1 s of [] \<Rightarrow> None | r # _ \<Rightarrow> rn_finish_time r)
    = Option.bind (newest_by rn_start_time (\<lambda>r. rn_scanner_name r = name) (scanner_runs s)) rn_finish_time"
  by (simp add: recent_runs_def newest_by_def split: list.split)

text \<open>A scanner run in progress hides the finished ones: from its start to its end, or for good when it dies, the scanner is
  graded unknown with the text that no run is recorded, whatever runs have finished before.\<close>

theorem running_scan_hides_history:
  assumes "\<forall>r \<in> set (scanner_runs s). rn_start_time r < t"
  shows "let k = check_scanner cfg stale now (snd (run_start name t s)) name in
    sk_status k = S_UNKNOWN \<and> sk_last_run_at k = None \<and> sk_detail k = lit ''no scanner_runs recorded yet''"
proof -
  let ?s = "snd (run_start name t s)"
  have "\<exists>new. scanner_runs ?s = scanner_runs s @ [new] \<and> rn_scanner_name new = name \<and> rn_start_time new = t \<and> rn_finish_time new = None"
    by (simp add: run_start_def)
  then obtain new where new: "scanner_runs ?s = scanner_runs s @ [new]" "rn_scanner_name new = name" "rn_start_time new = t" "rn_finish_time new = None"
    by blast
  have "newest_by rn_start_time (\<lambda>r. rn_scanner_name r = name) (scanner_runs ?s) = Some new"
    unfolding new(1) using newest_by_snoc [of "scanner_runs s" rn_start_time new] assms new by simp
  then have "(case recent_runs (Some name) 1 ?s of [] \<Rightarrow> None | r # _ \<Rightarrow> rn_finish_time r) = None"
    unfolding newest_run by (simp add: new)
  then show ?thesis unfolding check_scanner_def Let_def by simp
qed

section \<open>An example\<close>

text \<open>A system in which everything has just run: two hours after midnight UTC of 16 June 2026.\<close>

definition demo_now :: int where
  "demo_now = 1781575200000000"

definition finished_run :: "string \<Rightarrow> run_row" where
  "finished_run name = \<lparr>rn_id = 1, rn_scanner_name = name, rn_start_time = demo_now - 60000000, rn_finish_time = Some demo_now,
     rn_duration = None, rn_symbols_scanned = 0, rn_qualified_count = 0, rn_rejected_count = 0, rn_error_count = 0\<rparr>"

definition healthy_store :: "int \<Rightarrow> scanner_store" where
  "healthy_store lag = feature_store.extend
     (fold (\<lambda>w. ping_success demo_now w None) (EVENT_DRIVEN_WORKERS @ [MOMENTUM_PIPELINE_WORKER_NAME]) (lagging_store lag))
     (scanner_store.fields [] (map finished_run ALL_SCANNERS) 2 [])"

definition demo_probes :: probes where
  "demo_probes = \<lparr>pb_zone_name = ''Asia/Kolkata'', pb_database = None, pb_redis = Inr True, pb_consumer_group = ''g'', pb_groups = None,
     pb_market_open = False\<rparr>"

lemma demo_calendar: "\<exists>rep. run_sanity default_settings demo_probes demo_now s = Inr rep"
proof -
  have "\<not> Option.is_none (case check_market_calendar (pb_zone_name demo_probes) default_settings demo_now of Inl e \<Rightarrow> None | Inr c \<Rightarrow> Some c)" by code_simp
  then obtain c where "check_market_calendar (pb_zone_name demo_probes) default_settings demo_now = Inr c"
    by (cases "check_market_calendar (pb_zone_name demo_probes) default_settings demo_now") auto
  then show ?thesis by (simp add: run_sanity_def Let_def split_beta)
qed

theorem report_healthy_exactly_witness:
  "\<exists>rep. run_sanity default_settings demo_probes demo_now (healthy_store 0) = Inr rep \<and> SEVERITY_RANK (sr_overall_status rep) = 0"
proof -
  obtain rep where r: "run_sanity default_settings demo_probes demo_now (healthy_store 0) = Inr rep" using demo_calendar by blast
  have "data_ok default_settings (healthy_store 0)" "feed_ok default_settings (pb_market_open demo_probes) demo_now (healthy_store 0)"
    "list_all (\<lambda>w. worker_ok default_settings demo_now w (healthy_store 0)) (EVENT_DRIVEN_WORKERS @ [MOMENTUM_PIPELINE_WORKER_NAME])"
    "list_all (scanner_ok default_settings demo_now (healthy_store 0)) ALL_SCANNERS"
    "pb_zone_name demo_probes = EXPECTED_MARKET_TIMEZONE" "pb_database demo_probes = None" "pb_redis demo_probes = Inr True"
    by code_simp+
  then have "SEVERITY_RANK (sr_overall_status rep) = 0" unfolding report_healthy_exactly [OF r] by (simp add: list_all_iff)
  with r show ?thesis by blast
qed

theorem stale_features_block_scanners_witness:
  "\<exists>rep. run_sanity default_settings demo_probes demo_now (healthy_store 30) = Inr rep \<and> sr_issues rep \<noteq> []
     \<and> 3 \<le> SEVERITY_RANK (sr_overall_status rep)"
proof -
  obtain rep where r: "run_sanity default_settings demo_probes demo_now (healthy_store 30) = Inr rep" using demo_calendar by blast
  have "fs_prices_date (check_feature_freshness default_settings (healthy_store 30)) \<noteq> None"
    "fs_is_stale (check_feature_freshness default_settings (healthy_store 30))" by code_simp+
  with stale_features_block_scanners [OF r] r show ?thesis by blast
qed

theorem running_scan_hides_history_witness:
  "sk_status (check_scanner default_settings False demo_now (snd (run_start ''orb_v1'' demo_now (healthy_store 0))) ''orb_v1'') = S_UNKNOWN"
proof -
  have "scanner_runs (healthy_store 0) = map finished_run ALL_SCANNERS" by (simp add: healthy_store_def feature_store.extend_def scanner_store.fields_def)
  then have "\<forall>r \<in> set (scanner_runs (healthy_store 0)). rn_start_time r < demo_now" by (simp add: finished_run_def)
  from running_scan_hides_history [OF this, of default_settings False demo_now "''orb_v1''"] show ?thesis by (simp add: Let_def)
qed

theorem idle_pipeline_goes_stale_witness:
  "let s' = momentum_pipeline_job demo_frames demo_runtime default_settings 0 [] (ping_success (- 108000000000) MOMENTUM_PIPELINE_WORKER_NAME None sample_pipeline)
    in cc_status (check_worker_heartbeat default_settings 0 MOMENTUM_PIPELINE_WORKER_NAME s') = S_STALE"
proof -
  let ?s = "ping_success (- 108000000000) MOMENTUM_PIPELINE_WORKER_NAME None sample_pipeline"
  have c: "clock demo_runtime = 0" by (simp add: demo_runtime_def)
  have "\<not> is_market_open default_settings 0 None"
    "sanity_momentum_pipeline_stale_seconds default_settings < age_seconds 0 (- 108000000000)" by code_simp+
  moreover have "hb_last_success_at (heartbeat_of MOMENTUM_PIPELINE_WORKER_NAME ?s) = Some (- 108000000000)"
    by (simp add: ping_success_def heartbeat_of_def Let_def)
  ultimately show ?thesis
    using idle_pipeline_goes_stale [of default_settings demo_runtime ?s "- 108000000000" demo_frames 0 "[]"]
    by (simp add: c Let_def)
qed

end
