(* ===== verification/Message_Text.thy ===== *)
theory Message_Text
  imports Momentum_Pipeline Candidates Compounding
begin

text \<open>
  The texts the program sends and shows: app/alerts/formatter.py, app/notifications/digest.py and the
  decision narrative of app/candidates/explainer.py. A text is a list of parts, as every message of the model, so that its
  numbers stay readable. What the formatter reads from a snapshot is read as the source reads it: a value of
  another type than expected counts as missing.
\<close>

section \<open>Symbols and lines\<close>

definition newline :: string where
  "newline = [CHR 0x0A]"

definition siren :: string where
  "siren = [CHR 0xF0, CHR 0x9F, CHR 0x9A, CHR 0xA8]"

definition rupee :: string where
  "rupee = [CHR 0xE2, CHR 0x82, CHR 0xB9]"

definition bullet :: string where
  "bullet = [CHR 0xE2, CHR 0x80, CHR 0xA2, CHR '' '']"

definition warning_sign :: string where
  "warning_sign = [CHR 0xE2, CHR 0x9A, CHR 0xA0]"

definition warning_emoji :: string where
  "warning_emoji = warning_sign @ [CHR 0xEF, CHR 0xB8, CHR 0x8F]"

definition right_arrow :: string where
  "right_arrow = [CHR 0xE2, CHR 0x86, CHR 0x92]"

definition middle_dot :: string where
  "middle_dot = [CHR 0xC2, CHR 0xB7]"

definition chart :: string where
  "chart = [CHR 0xF0, CHR 0x9F, CHR 0x93, CHR 0x8A]"

definition globe :: string where
  "globe = [CHR 0xF0, CHR 0x9F, CHR 0x8C, CHR 0x8E]"

abbreviation join_lines :: "msg list \<Rightarrow> msg" where
  "join_lines \<equiv> join_msgs (lit newline)"

text \<open>\<open>strftime("%H:%M IST")\<close>.\<close>

definition clock_text :: "pydatetime \<Rightarrow> msg" where
  "clock_text t =
     (let minutes = nat (wall t mod day_us div minute_us)
      in lit (pad_digits 2 (minutes div 60) @ '':'' @ pad_digits 2 (minutes mod 60) @ '' IST''))"

text \<open>\<open>str(v)\<close> as message parts, and the \<open>isinstance\<close> checks of the source.\<close>

definition shown :: "runtime \<Rightarrow> pyval \<Rightarrow> msg" where
  "shown rt v = (case v of PyMsg m \<Rightarrow> m | _ \<Rightarrow> lit (py_str rt v))"

fun list_or_empty :: "pyval \<Rightarrow> pyval list" where
  "list_or_empty (PyList vs) = vs"
| "list_or_empty v = []"

fun dict_or_empty :: "pyval \<Rightarrow> snapshot" where
  "dict_or_empty (PyDict kvs) = map_of kvs"
| "dict_or_empty v = Map.empty"

fun is_dict :: "pyval \<Rightarrow> bool" where
  "is_dict (PyDict kvs) = True"
| "is_dict v = False"

definition optional_line :: "rat option \<Rightarrow> (rat \<Rightarrow> msg) \<Rightarrow> msg list" where
  "optional_line x line = (case x of None \<Rightarrow> [] | Some v \<Rightarrow> [line v, []])"

section \<open>Breakout alerts\<close>

definition WHY_BULLETS :: "(string \<times> string) list" where
  "WHY_BULLETS =
     [(''resistance_proximity'', ''Price approaching resistance''),
      (''relative_volume'', ''Strong relative volume''),
      (''trend'', ''Trend aligned''),
      (''adx'', ''Momentum confirmed'')]"

definition BREAKOUT_STYLE_SCANNERS :: "string list" where
  "BREAKOUT_STYLE_SCANNERS = [''breakout_v1'']"

definition bullets :: "msg list \<Rightarrow> msg list" where
  "bullets why = (if why = [] then [] else lit ''Why:'' # map (\<lambda>r. Lit bullet # r) why @ [[]])"

text \<open>A rule name is a message of one literal; any other message is no key of the table.\<close>

definition why_bullet :: "msg \<Rightarrow> msg list" where
  "why_bullet rule =
     (case rule of [Lit name] \<Rightarrow> (case map_of WHY_BULLETS name of None \<Rightarrow> [] | Some t \<Rightarrow> [lit t]) | _ \<Rightarrow> [])"

definition format_breakout_text :: "alert_context \<Rightarrow> msg" where
  "format_breakout_text cx =
     (let snap = cx_feature_snapshot cx;
          why = concat (map why_bullet (cx_passed_rules cx))
      in join_lines
        ([lit (siren @ '' BREAKOUT CANDIDATE''), [], lit (''Symbol: '' @ cx_symbol cx), []]
         @ optional_line (as_float snap ''price'') (\<lambda>p. [Lit (''Price: '' @ rupee), Fix 2 p])
         @ optional_line (cx_breakout_level cx) (\<lambda>p. [Lit (''Breakout Level: '' @ rupee), Fix 2 p])
         @ [[Lit ''Score: '', Fix 0 (cx_score cx), Lit ''/100''], [], lit (''Quality: '' @ cx_quality cx), []]
         @ (if as_float snap ''ema20'' \<noteq> None \<and> as_float snap ''ema50'' \<noteq> None \<and> as_float snap ''ema200'' \<noteq> None
            then [lit ''Trend:'', lit ''EMA20 > EMA50 > EMA200'', []] else [])
         @ (case as_float snap ''relative_volume'' of None \<Rightarrow> [] | Some v \<Rightarrow> [lit ''RVOL:'', [Fix 1 v, Lit ''x''], []])
         @ (case as_float snap ''adx14'' of None \<Rightarrow> [] | Some v \<Rightarrow> [lit ''ADX:'', [Fix 0 v], []])
         @ bullets why
         @ [lit ''Time:'', clock_text (cx_timestamp cx), []]
         @ [lit (warning_emoji @ '' Scanner signal '' @ em_dash @ '' not an automatic trade.'')]))"

section \<open>Candidate alerts\<close>

definition ALERT_CATEGORY_LABELS :: "(string \<times> string) list" where
  "ALERT_CATEGORY_LABELS =
     [(''IPO_PRE_BREAKOUT'', ''IPO PRE-BREAKOUT''), (''IPO_BREAKOUT'', ''IPO BREAKOUT''), (''IPO_MOMENTUM'', ''IPO MOMENTUM''),
      (''FNO_PRE_BREAKOUT'', ''F&O PRE-BREAKOUT''), (''FNO_BREAKOUT'', ''F&O BREAKOUT''), (''FNO_MOMENTUM'', ''F&O MOMENTUM'')]"

fun timeframe_value :: "timeframe \<Rightarrow> string" where
  "timeframe_value DAILY = ''DAILY''"
| "timeframe_value WEEKLY = ''WEEKLY''"
| "timeframe_value MONTHLY = ''MONTHLY''"
| "timeframe_value UNKNOWN_TIMEFRAME = ''UNKNOWN''"

fun decision_text :: "compounding_decision \<Rightarrow> string" where
  "decision_text STRONG_CANDIDATE = ''STRONG_CANDIDATE''"
| "decision_text TRADE_CANDIDATE = ''TRADE_CANDIDATE''"
| "decision_text WATCH_CANDIDATE = ''WATCH''"
| "decision_text NOT_ATTRACTIVE = ''NOT_ATTRACTIVE''"

definition compounding_lines :: "settings \<Rightarrow> snapshot \<Rightarrow> msg list" where
  "compounding_lines cfg snap =
     (let r = evaluate_compounding cfg snap in
      case (cp_upside_pct r, cp_target_price r) of
        (Some upside, Some target) \<Rightarrow>
          [[Lit ''Compounding: '', Fix 1 upside, Lit (''% upside '' @ right_arrow @ '' '' @ rupee), Fix 2 target,
            Lit ('' ('' @ upside_value (cp_classification r) @ '')'')]]
          @ (case (cp_stop_loss r, cp_ratio r) of
               (Some stop, Some ratio) \<Rightarrow> [[Lit (''Stop: '' @ rupee), Fix 2 stop, Lit ''  R:R '', Fix 2 ratio]]
             | (Some stop, None) \<Rightarrow> [[Lit (''Stop: '' @ rupee), Fix 2 stop]]
             | _ \<Rightarrow> [])
          @ [[Lit (''Timeframe: '' @ timeframe_value (cp_timeframe r) @ '' '' @ middle_dot @ '' HTF: '' @ htf_value (cp_htf r)
              @ '' '' @ middle_dot @ '' Opportunity: '' @ decision_text (cp_decision r) @ '' (''), Fix 0 (cp_score r), Lit '')''], []]
      | _ \<Rightarrow> [lit ''Compounding: UNKNOWN (insufficient target data)'', []])"

definition fundamental_sources :: "runtime \<Rightarrow> snapshot \<Rightarrow> string list" where
  "fundamental_sources rt snap =
     sort_str id (remdups (map (\<lambda>f. py_str rt (dict_get (dict_or_empty f) ''source''))
       (filter (\<lambda>f. is_dict f \<and> truthy (dict_get (dict_or_empty f) ''source''))
         (list_or_empty (dict_get snap ''fundamental_field_sources'')))))"

definition fundamental_lines :: "runtime \<Rightarrow> snapshot \<Rightarrow> msg list" where
  "fundamental_lines rt snap =
     (let completeness = as_float snap ''data_completeness_pct'' in
      case as_float snap ''fundamental_score'' of
        None \<Rightarrow> [lit ''Fundamental Score: UNKNOWN (no data source)'', []]
      | Some score \<Rightarrow>
          (case completeness of
             Some c \<Rightarrow> if c < 100
               then [[Lit ''Fundamental Score: '', Fix 0 score, Lit (''/100 (LIMITED '' @ em_dash @ '' ''), Fix 0 c, Lit ''% data)''], []]
               else [[Lit ''Fundamental Score: '', Fix 0 score, Lit ''/100''], []]
           | None \<Rightarrow> [[Lit ''Fundamental Score: '', Fix 0 score, Lit ''/100''], []])
          @ (if fundamental_sources rt snap = [] then []
             else [lit (''Fundamental Data Source(s): '' @ join_strings '', '' (fundamental_sources rt snap)), []]))"

definition format_candidate_text :: "runtime \<Rightarrow> settings \<Rightarrow> alert_context \<Rightarrow> msg" where
  "format_candidate_text rt cfg cx =
     (let snap = cx_feature_snapshot cx;
          overall_score = (case as_float snap ''overall_score'' of None \<Rightarrow> cx_score cx
                           | Some x \<Rightarrow> if x = 0 then cx_score cx else x);
          scanner_sources = (case dict_get snap ''scanner_sources'' of PyList vs \<Rightarrow> map (shown rt) vs | _ \<Rightarrow> [lit ''5PAISA'']);
          header = opt_else (map_of ALERT_CATEGORY_LABELS (py_str rt (dict_get snap ''alert_category''))) ''CANDIDATE'';
          why = take 3 (map (shown rt) (list_or_empty (dict_get snap ''technical_reasons'')))
                @ take 3 (map (shown rt) (list_or_empty (dict_get snap ''fundamental_reasons'')));
          risk_flags = list_or_empty (dict_get snap ''risk_flags'')
      in join_lines
        ([lit (siren @ '' '' @ header), [], lit (''Symbol: '' @ cx_symbol cx)]
         @ (if dict_get snap ''universe'' = PyNone then [] else [Lit ''Universe: '' # shown rt (dict_get snap ''universe'')])
         @ [Lit ''Scanner Sources: '' # join_msgs (lit '', '') scanner_sources, []]
         @ optional_line (as_float snap ''price'') (\<lambda>p. [Lit (''Price: '' @ rupee), Fix 2 p])
         @ optional_line (cx_breakout_level cx) (\<lambda>p. [Lit (''Breakout Level: '' @ rupee), Fix 2 p])
         @ optional_line (as_float snap ''resistance_level'') (\<lambda>p. [Lit (''Resistance: '' @ rupee), Fix 2 p])
         @ optional_line (as_float snap ''support_level'') (\<lambda>p. [Lit (''Support: '' @ rupee), Fix 2 p])
         @ (if dict_get snap ''setup_state'' = PyNone then [] else [Lit ''Setup: '' # shown rt (dict_get snap ''setup_state''), []])
         @ fundamental_lines rt snap
         @ optional_line (as_float snap ''technical_score'') (\<lambda>t. [Lit ''Technical Score: '', Fix 0 t, Lit ''/100''])
         @ [[Lit ''Overall Score: '', Fix 0 overall_score, Lit ''/100''], [], lit (''Quality: '' @ cx_quality cx), []]
         @ bullets why
         @ (if risk_flags = [] then []
            else lit ''Risk Flags:'' # map (\<lambda>f. Lit (warning_sign @ '' '') # shown rt f) risk_flags @ [[]])
         @ compounding_lines cfg snap
         @ [lit ''Time:'', clock_text (cx_timestamp cx), []]
         @ [lit (warning_emoji @ '' Scanner signal '' @ em_dash @ '' not an automatic trade. Score is not a probability.'')]))"

section \<open>Momentum alerts\<close>

definition MOMENTUM_SECTIONS :: "(string \<times> string \<times> string) list" where
  "MOMENTUM_SECTIONS =
     [(''TECHNICAL'', ''Technical'', ''technical''),
      (''VOLUME'', ''Volume'', ''volume''),
      (''OI'', ''OI'', ''oi''),
      (''SECTOR'', ''Sector'', ''sector_rrg''),
      (''MARKET'', ''Market'', ''market_regime''),
      (''FUNDAMENTALS'', ''Fundamentals'', ''fundamentals''),
      (''NEWS'', ''News'', ''news'')]"

definition MOMENTUM_REASON_PREFIXES :: "string list" where
  "MOMENTUM_REASON_PREFIXES =
     [''Technical: '', ''Volume: '', ''OI: '', ''Sector/RRG: '', ''Market regime: '', ''News: '']"

text \<open>The literal text a message starts with, and the rest. No prefix of the table contains a digit or a
  sign, so a prefix never reaches into a number.\<close>

fun lead_text :: "msg \<Rightarrow> string \<times> msg" where
  "lead_text (Lit s # m) = (let (t, rest) = lead_text m in (s @ t, rest))"
| "lead_text m = ([], m)"

definition strip_known_reason_prefix :: "msg \<Rightarrow> msg" where
  "strip_known_reason_prefix reason =
     (let (t, rest) = lead_text reason in
      case find (\<lambda>p. take (length p) t = p) MOMENTUM_REASON_PREFIXES of
        None \<Rightarrow> reason
      | Some p \<Rightarrow> Lit (drop (length p) t) # rest)"

text \<open>The lines of one section, and the name it adds to WHY NOW.\<close>

definition momentum_section :: "runtime \<Rightarrow> snapshot \<Rightarrow> string \<times> string \<times> string \<Rightarrow> msg list \<times> string list" where
  "momentum_section rt component_scores section =
     (case section of (label, why_now_name, key) \<Rightarrow>
        (let component = dict_get component_scores key;
             reasons = map (shown rt) (list_or_empty (dict_get (dict_or_empty component) ''reasons''));
             score = number_of (dict_get (dict_or_empty component) ''score'')
         in if \<not> is_dict component \<or> dict_get (dict_or_empty component) ''status'' = PyStr ''MISSING'' \<or> reasons = [] then ([], [])
            else (lit label # (case score of None \<Rightarrow> [] | Some x \<Rightarrow> [[Lit ''- Score: '', Fix 0 x, Lit ''/100'']])
                    @ map (\<lambda>r. Lit ''- '' # strip_known_reason_prefix r) reasons @ [[]],
                  case score of None \<Rightarrow> [] | Some x \<Rightarrow> if 50 \<le> x then [why_now_name] else [])))"

definition format_momentum_text :: "runtime \<Rightarrow> alert_context \<Rightarrow> msg" where
  "format_momentum_text rt cx =
     (let snap = cx_feature_snapshot cx;
          momentum_state = map upper_char (py_str rt (py_or (dict_get snap ''momentum_state'') (PyStr [])));
          from_state = dict_get snap ''from_state'';
          evidence = dict_or_empty (dict_get snap ''evidence'');
          component_scores = dict_or_empty (dict_get evidence ''component_scores'');
          header = (if momentum_state = ''CONFIRMED'' then ''MOMENTUM CONFIRMED'' else ''MOMENTUM TRIGGER'');
          state_line = Lit (''State: '' @ (if momentum_state = [] then ''UNKNOWN'' else momentum_state))
            # (if truthy from_state then Lit '' (from '' # shown rt from_state @ [Lit '')''] else []);
          sections = map (momentum_section rt component_scores) MOMENTUM_SECTIONS;
          contributing = concat (map snd sections);
          negative_factors = map (shown rt) (list_or_empty (dict_get evidence ''negative_factors''))
      in join_lines
        ([lit (siren @ '' '' @ header), [], lit (cx_symbol cx), [Lit ''Score: '', Fix 0 (cx_score cx), Lit ''/100''], []]
         @ [state_line, []]
         @ concat (map fst sections)
         @ (if contributing = [] then [] else [lit ''WHY NOW'', lit (join_strings '' + '' contributing @ '' alignment.''), []])
         @ (if negative_factors = [] then []
            else lit ''RISKS'' # map (\<lambda>r. Lit ''- '' # strip_known_reason_prefix r) negative_factors @ [[]])
         @ (case number_of (dict_get evidence ''confidence'') of None \<Rightarrow> []
            | Some c \<Rightarrow> [[Lit ''Confidence: '', Fix 0 c, Lit ''% of configured weight backed by real data''], []])
         @ [lit ''Time:'', clock_text (cx_timestamp cx), []]
         @ [lit (warning_emoji @ '' Momentum state signal '' @ em_dash @ '' not an automatic trade. Score is not a probability.'')]))"

definition format_text :: "runtime \<Rightarrow> settings \<Rightarrow> alert_context \<Rightarrow> msg" where
  "format_text rt cfg cx =
     (if cx_scanner_name cx = MOMENTUM_SCANNER_NAME then format_momentum_text rt cx
      else if cx_scanner_name cx \<in> set BREAKOUT_STYLE_SCANNERS then format_breakout_text cx
      else format_candidate_text rt cfg cx)"

section \<open>Digest texts\<close>

record digest_entry =
  dg_symbol :: string
  dg_alert_category :: "string option"
  dg_score :: rat

definition split_by_universe :: "digest_entry list \<Rightarrow> digest_entry list \<times> digest_entry list" where
  "split_by_universe entries =
     (filter (\<lambda>e. dg_alert_category e \<in> Some ` set IPO_ALERT_CATEGORIES) entries,
      filter (\<lambda>e. dg_alert_category e \<in> Some ` set FNO_ALERT_CATEGORIES) entries)"

definition digest_label :: "string option \<Rightarrow> string" where
  "digest_label category =
     (let c = opt_else category [] in opt_else (map_of ALERT_CATEGORY_LABELS c) (if c = [] then ''UNKNOWN'' else c))"

definition build_digest_text :: "digest_entry list \<Rightarrow> string \<Rightarrow> msg option" where
  "build_digest_text entries universe_label =
     (if entries = [] then None
      else Some (join_lines
        ([[Lit (chart @ '' '' @ universe_label @ '' Breakout Digest '' @ em_dash @ '' ''), IntP (int (length entries)), Lit '' new signal(s)''], []]
         @ map (\<lambda>e. [Lit (bullet @ dg_symbol e @ '' '' @ em_dash @ '' '' @ digest_label (dg_alert_category e) @ '' (score ''),
                     Fix 1 (dg_score e), Lit '')''])
             (sort_key (\<lambda>e. - dg_score e) entries))))"

definition build_market_overview_text ::
  "string option \<Rightarrow> rat option \<Rightarrow> (string \<times> nat) list \<Rightarrow> nat \<Rightarrow> rat \<Rightarrow> msg option" where
  "build_market_overview_text regime regime_score sector_rotation_counts momentum_trigger_count lookback_hours =
     (if regime = None \<and> sector_rotation_counts = [] \<and> momentum_trigger_count = 0 then None
      else Some (join_lines
        ([[Lit (globe @ '' Market Overview '' @ em_dash @ '' last ''), Fix 0 lookback_hours, Lit ''h''], []]
         @ [case regime of
              None \<Rightarrow> lit ''Regime: no snapshot yet''
            | Some r \<Rightarrow> Lit (''Regime: '' @ r)
                # (case regime_score of None \<Rightarrow> [] | Some x \<Rightarrow> [Lit '' (score '', Fix 1 x, Lit '')''])]
         @ (if sector_rotation_counts = [] then []
            else [Lit ''Sectors: '' # join_msgs (lit '', '')
                    (map (\<lambda>(state, count). [IntP (int count), Lit ('' '' @ map lower_char state)]) sector_rotation_counts)])
         @ [[Lit ''Momentum triggers: '', IntP (int momentum_trigger_count)]])))"

section \<open>The decision narrative\<close>

definition SETUP_STATE_WHY_NOW :: "(string \<times> string) list" where
  "SETUP_STATE_WHY_NOW =
     [(''PRE_BREAKOUT'', ''Price is approaching resistance but has not broken through yet.''),
      (''BREAKOUT_CONFIRMED'', ''Price has broken through resistance with volume confirmation.''),
      (''MOMENTUM'', ''Price is extending beyond resistance with sustained trend strength.'')]"

definition RULE_LABELS :: "(string \<times> string) list" where
  "RULE_LABELS =
     [(''setup_state_is_momentum_or_confirmed'', ''Setup has reached a confirmed breakout or momentum stage''),
      (''setup_state_is_pre_breakout'', ''Setup is in a pre-breakout stage''),
      (''relative_volume>=threshold'', ''Relative volume clears the scanner's minimum threshold''),
      (''adx>=threshold'', ''ADX (trend strength) clears the scanner's minimum threshold''),
      (''overall_score>=threshold'', ''Overall Setup Score clears the scanner's minimum threshold''),
      (''required_features'', ''All required data fields are present''),
      (''data_freshness'', ''Scanner result is from a recent trading day''),
      (''minimum_score'', ''Score meets the Decision Engine's minimum alert threshold''),
      (''trend'', ''Trend is aligned (EMA stack)''),
      (''relative_volume'', ''Relative volume confirms increased participation''),
      (''adx'', ''Trend strength (ADX) is confirmed''),
      (''resistance_proximity'', ''Price is close to the breakout/resistance level''),
      (''market_session'', ''Market is currently open'')]"

text \<open>\<open>rule_name.replace("_", " ").replace(">=", " >= ")\<close>.\<close>

fun spaced_rule :: "string \<Rightarrow> string" where
  "spaced_rule [] = []"
| "spaced_rule [c] = [if c = CHR ''_'' then CHR '' '' else c]"
| "spaced_rule (c # d # cs) =
     (if c = CHR ''>'' \<and> d = CHR ''='' then '' >= '' @ spaced_rule cs
      else (if c = CHR ''_'' then CHR '' '' else c) # spaced_rule (d # cs))"

definition label_rule :: "msg \<Rightarrow> msg" where
  "label_rule rule =
     (case rule of
        [Lit n] \<Rightarrow> lit (opt_else (map_of RULE_LABELS n) (spaced_rule n))
      | _ \<Rightarrow> map (\<lambda>p. case p of Lit s \<Rightarrow> Lit (spaced_rule s) | _ \<Rightarrow> p) rule)"

record decision_explanation =
  ex_why_this_stock :: msg
  ex_why_now :: string
  ex_what_confirms :: "msg list"
  ex_what_has_not_been_confirmed :: "msg list"
  ex_risks :: "msg list"

text \<open>The capital first letter of \<open>technical_bit\<close> is written out in its two texts.\<close>

definition explain_decision ::
  "rat option \<Rightarrow> msg list \<Rightarrow> msg list \<Rightarrow> string option \<Rightarrow> msg list \<Rightarrow> msg list \<Rightarrow> msg list \<Rightarrow> decision_explanation" where
  "explain_decision fund_score technical_reasons fundamental_reasons setup_state passed_rules failed_rules risk_flags =
     (let technical_bit = (if technical_reasons = [] then lit ''A technical setup meeting the scanner's criteria''
            else Lit ''Strong technical setup ('' # join_msgs (lit '', '') (take 3 technical_reasons) @ [Lit '')'']);
          fundamental_bit = (if fund_score = None then lit ''fundamentals unavailable (no data source integrated)''
            else if fundamental_reasons = [] then lit ''fundamentals that do not add further support''
            else Lit ''supportive fundamentals ('' # join_msgs (lit '', '') (take 3 fundamental_reasons) @ [Lit '')''])
      in \<lparr>ex_why_this_stock = technical_bit @ [Lit ''; ''] @ fundamental_bit @ [Lit ''.''],
          ex_why_now = opt_else (map_of SETUP_STATE_WHY_NOW (opt_else setup_state []))
            ''Current price action matches this scanner's entry criteria.'',
          ex_what_confirms = map label_rule passed_rules,
          ex_what_has_not_been_confirmed = map label_rule failed_rules,
          ex_risks = risk_flags\<rparr>)"

section \<open>Momentum alerts show the evidence of the fusion\<close>

text \<open>What the alert should show of a component: nothing when it is missing or has no reasons, else its score and its reasons.\<close>

definition evidence_lines :: "string \<Rightarrow> component_score \<Rightarrow> msg list" where
  "evidence_lines label c =
     (if co_status c = DS_MISSING \<or> co_reasons c = [] then []
      else lit label # (case co_score c of None \<Rightarrow> [] | Some x \<Rightarrow> [[Lit ''- Score: '', Fix 0 x, Lit ''/100'']])
           @ map (\<lambda>r. Lit ''- '' # strip_known_reason_prefix r) (co_reasons c) @ [[]])"

definition pulls_up :: "component_score \<Rightarrow> bool" where
  "pulls_up c \<longleftrightarrow> co_status c \<noteq> DS_MISSING \<and> co_reasons c \<noteq> [] \<and> (case co_score c of None \<Rightarrow> False | Some x \<Rightarrow> 50 \<le> x)"

definition component_named :: "string \<Rightarrow> fusion_result \<Rightarrow> component_score option" where
  "component_named key fusion = find (\<lambda>c. co_name c = key) (sf_component_scores fusion)"

lemma map_of_components:
  "map_of (map (\<lambda>c. (co_name c, f c)) cs) key = map_option f (find (\<lambda>c. co_name c = key) cs)"
  by (induction cs) auto

lemma status_missing: "data_status_value st = ''MISSING'' \<longleftrightarrow> st = DS_MISSING"
  by (cases st) simp_all

lemma shown_messages [simp]: "shown rt \<circ> PyMsg = id"
  by (rule ext) (simp add: shown_def)

lemma section_of_fusion:
  assumes "dict_or_empty (dict_get (map_of (fusion_evidence score fusion)) ''component_scores'') = comps"
  shows "momentum_section rt comps (label, name, key) =
    (case component_named key fusion of None \<Rightarrow> ([], [])
     | Some c \<Rightarrow> (evidence_lines label c, if pulls_up c then [name] else []))"
proof -
  let ?f = "\<lambda>c. PyDict [(''status'', PyStr (data_status_value (co_status c))), (''score'', opt_float (co_score c)),
      (''weight'', PyFloat (co_weight c)), (''reasons'', PyList (map PyMsg (co_reasons c)))]"
  have "comps = map_of (map (\<lambda>c. (co_name c, ?f c)) (sf_component_scores fusion))"
    using assms by (simp add: fusion_evidence_def dict_get_def Momentum_Pipeline.opt_float_def)
  then have get: "dict_get comps key = (case component_named key fusion of None \<Rightarrow> PyNone | Some c \<Rightarrow> ?f c)"
    by (simp add: dict_get_def map_of_components component_named_def split: option.split)
  show ?thesis
  proof (cases "component_named key fusion")
    case None
    then show ?thesis by (simp add: momentum_section_def get)
  next
    case (Some c)
    have r: "map (shown rt) (list_or_empty (dict_get (dict_or_empty (?f c)) ''reasons'')) = co_reasons c" by (simp add: dict_get_def)
    have n: "number_of (dict_get (dict_or_empty (?f c)) ''score'') = co_score c"
      by (cases "co_score c") (simp_all add: dict_get_def Momentum_Pipeline.opt_float_def)
    have st: "dict_get (dict_or_empty (?f c)) ''status'' = PyStr (data_status_value (co_status c))" by (simp add: dict_get_def)
    have d: "dict_get comps key = ?f c" by (simp add: get Some)
    show ?thesis unfolding momentum_section_def prod.case d Let_def r n st Some option.case
      by (auto simp: evidence_lines_def pulls_up_def status_missing split: option.split)
  qed
qed

text \<open>C18: The alert of a momentum transition shows the evidence that caused it and no other: the sections are those components of the fusion that had data and
  reasons, in the fixed order, WHY NOW names those of them that scored 50 or more, RISKS lists the negative factors, and the
  confidence is that of the fusion.\<close>

theorem momentum_alert_shows_evidence:
  assumes "cx_scanner_name cx = MOMENTUM_SCANNER_NAME"
    and "cx_feature_snapshot cx = dr_feature_snapshot (transition_decision cfg symbol t)"
    and "tr_evidence t = fusion_evidence score fusion"
  shows "let comps = map (\<lambda>(label, name, key). (label, name, component_named key fusion)) MOMENTUM_SECTIONS;
             why = concat (map (\<lambda>(label, name, c). if \<exists>x. c = Some x \<and> pulls_up x then [name] else []) comps) in
    format_text rt cfg cx = join_lines
      ([lit (siren @ '' MOMENTUM '' @ (if tr_to_state t = M_CONFIRMED then ''CONFIRMED'' else ''TRIGGER'')), [], lit (cx_symbol cx),
        [Lit ''Score: '', Fix 0 (cx_score cx), Lit ''/100''], [],
        Lit (''State: '' @ state_value (tr_to_state t))
          # (case tr_from_state t of None \<Rightarrow> [] | Some f \<Rightarrow> [Lit '' (from '', Lit (state_value f), Lit '')'']), []]
      @ concat (map (\<lambda>(label, name, c). case c of None \<Rightarrow> [] | Some x \<Rightarrow> evidence_lines label x) comps)
      @ (if why = [] then [] else [lit ''WHY NOW'', lit (join_strings '' + '' why @ '' alignment.''), []])
      @ (if sf_negative_factors fusion = [] then []
         else lit ''RISKS'' # map (\<lambda>r. Lit ''- '' # strip_known_reason_prefix r) (sf_negative_factors fusion) @ [[]])
      @ [[Lit ''Confidence: '', Fix 0 (sf_confidence fusion), Lit ''% of configured weight backed by real data''], [],
         lit ''Time:'', clock_text (cx_timestamp cx), [],
         lit (warning_emoji @ '' Momentum state signal '' @ em_dash @ '' not an automatic trade. Score is not a probability.'')])"
proof -
  let ?snap = "cx_feature_snapshot cx"
  define comps where "comps = dict_or_empty (dict_get (map_of (fusion_evidence score fusion)) ''component_scores'')"
  have e: "dict_or_empty (dict_get ?snap ''evidence'') = map_of (fusion_evidence score fusion)"
    unfolding assms(2) transition_decision_def by (simp add: assms(3) dict_get_def)
  have n: "map (shown rt) (list_or_empty (dict_get (map_of (fusion_evidence score fusion)) ''negative_factors'')) = sf_negative_factors fusion"
    by (simp add: fusion_evidence_def dict_get_def)
  have c: "number_of (dict_get (map_of (fusion_evidence score fusion)) ''confidence'') = Some (sf_confidence fusion)"
    by (simp add: fusion_evidence_def dict_get_def)
  have st: "map upper_char (py_str rt (py_or (dict_get ?snap ''momentum_state'') (PyStr []))) = state_value (tr_to_state t)"
    unfolding assms(2) transition_decision_def by (cases "tr_to_state t") (simp_all add: dict_get_def py_or_def upper_char_def)
  have hd: "state_value x = ''CONFIRMED'' \<longleftrightarrow> x = M_CONFIRMED" and ne: "state_value x \<noteq> []" for x by (cases x; simp)+
  have f: "dict_get ?snap ''from_state'' = (case tr_from_state t of None \<Rightarrow> PyNone | Some f \<Rightarrow> PyStr (state_value f))"
    unfolding assms(2) transition_decision_def by (simp add: dict_get_def)
  have fr: "(if truthy (dict_get ?snap ''from_state'') then Lit '' (from '' # shown rt (dict_get ?snap ''from_state'') @ [Lit '')''] else [])
      = (case tr_from_state t of None \<Rightarrow> [] | Some f \<Rightarrow> [Lit '' (from '', Lit (state_value f), Lit '')''])"
    unfolding f using ne by (cases "tr_from_state t") (simp_all add: shown_def)
  have sec: "momentum_section rt comps x = (case component_named (snd (snd x)) fusion of None \<Rightarrow> ([], [])
     | Some c \<Rightarrow> (evidence_lines (fst x) c, if pulls_up c then [fst (snd x)] else []))" for x
    using section_of_fusion [OF comps_def [symmetric], of rt "fst x" "fst (snd x)" "snd (snd x)"] by simp
  have s1: "concat (map fst (map (momentum_section rt comps) MOMENTUM_SECTIONS))
      = concat (map (\<lambda>(label, name, c). case c of None \<Rightarrow> [] | Some x \<Rightarrow> evidence_lines label x)
          (map (\<lambda>(label, name, key). (label, name, component_named key fusion)) MOMENTUM_SECTIONS))"
    unfolding map_map by (rule arg_cong [where f = concat], rule map_cong) (auto simp: sec split: option.split)
  have s2: "concat (map snd (map (momentum_section rt comps) MOMENTUM_SECTIONS))
      = concat (map (\<lambda>(label, name, c). if \<exists>x. c = Some x \<and> pulls_up x then [name] else [])
          (map (\<lambda>(label, name, key). (label, name, component_named key fusion)) MOMENTUM_SECTIONS))"
    unfolding map_map by (rule arg_cong [where f = concat], rule map_cong) (auto simp: sec split: option.split)
  have ft: "format_text rt cfg cx = format_momentum_text rt cx" by (simp add: format_text_def assms(1))
  show ?thesis
    unfolding ft format_momentum_text_def Let_def e n c st fr comps_def [symmetric] s1 s2 hd
    by (simp add: ne)
qed

definition demo_fusion :: fusion_result where
  "demo_fusion = \<lparr>sf_symbol = ''INFY'', sf_overall_score = Some 72,
     sf_component_scores = [available_component ''technical'' DS_AVAILABLE 72 1 [lit ''Technical: EMA stack''],
       missing_component ''news'' 1 (lit ''no provider'')],
     sf_positive_factors = [lit ''Technical: EMA stack''], sf_negative_factors = [], sf_missing_data = [''news''],
     sf_confidence = 50, sf_timestamp = 0\<rparr>"

definition demo_transition :: state_transition where
  "demo_transition = \<lparr>tr_symbol = ''INFY'', tr_from_state = Some M_SETUP, tr_to_state = M_TRIGGERED, tr_timestamp = utc_dt 0,
     tr_reason = lit ''r'', tr_score = 72, tr_evidence = fusion_evidence 72 demo_fusion\<rparr>"

definition demo_alert :: alert_context where
  "demo_alert = \<lparr>cx_symbol = ''INFY'', cx_scanner_name = MOMENTUM_SCANNER_NAME, cx_score = 72, cx_quality = ''HIGH'',
     cx_breakout_level = None, cx_feature_snapshot = dr_feature_snapshot (transition_decision default_settings ''INFY'' demo_transition),
     cx_passed_rules = [], cx_timestamp = utc_dt 0\<rparr>"

theorem momentum_alert_shows_evidence_witness:
  "format_text demo_runtime default_settings demo_alert = join_lines
     [lit (siren @ '' MOMENTUM TRIGGER''), [], lit ''INFY'', [Lit ''Score: '', Fix 0 72, Lit ''/100''], [],
      [Lit ''State: TRIGGERED'', Lit '' (from '', Lit ''SETUP'', Lit '')''], [],
      lit ''TECHNICAL'', [Lit ''- Score: '', Fix 0 72, Lit ''/100''], [Lit ''- '', Lit ''EMA stack''], [],
      lit ''WHY NOW'', lit ''Technical alignment.'', [],
      [Lit ''Confidence: '', Fix 0 50, Lit ''% of configured weight backed by real data''], [],
      lit ''Time:'', clock_text (utc_dt 0), [],
      lit (warning_emoji @ '' Momentum state signal '' @ em_dash @ '' not an automatic trade. Score is not a probability.'')]"
proof -
  have n: "component_named key demo_fusion = (if key = ''technical'' then Some (available_component ''technical'' DS_AVAILABLE 72 1 [lit ''Technical: EMA stack''])
      else if key = ''news'' then Some (missing_component ''news'' 1 (lit ''no provider'')) else None)" for key
    by (auto simp: component_named_def demo_fusion_def available_component_def missing_component_def)
  have e: "evidence_lines l (available_component ''technical'' DS_AVAILABLE 72 1 [lit ''Technical: EMA stack''])
      = [lit l, [Lit ''- Score: '', Fix 0 72, Lit ''/100''], [Lit ''- '', Lit ''EMA stack''], []]"
    "evidence_lines l (missing_component ''news'' 1 (lit ''no provider'')) = []" for l
    by (simp_all add: evidence_lines_def available_component_def missing_component_def strip_known_reason_prefix_def
        MOMENTUM_REASON_PREFIXES_def)
  have p: "pulls_up (available_component ''technical'' DS_AVAILABLE 72 1 [lit ''Technical: EMA stack''])"
    "\<not> pulls_up (missing_component ''news'' 1 (lit ''no provider''))"
    by (simp_all add: pulls_up_def available_component_def missing_component_def)
  have c: "map (\<lambda>(label, name, key). (label, name, component_named key demo_fusion)) MOMENTUM_SECTIONS
    = [(''TECHNICAL'', ''Technical'', Some (available_component ''technical'' DS_AVAILABLE 72 1 [lit ''Technical: EMA stack''])),
       (''VOLUME'', ''Volume'', None), (''OI'', ''OI'', None), (''SECTOR'', ''Sector'', None), (''MARKET'', ''Market'', None),
       (''FUNDAMENTALS'', ''Fundamentals'', None), (''NEWS'', ''News'', Some (missing_component ''news'' 1 (lit ''no provider'')))]"
    by (simp add: MOMENTUM_SECTIONS_def n)
  have a: "cx_scanner_name demo_alert = MOMENTUM_SCANNER_NAME" "cx_score demo_alert = 72" "cx_symbol demo_alert = ''INFY''"
    "cx_feature_snapshot demo_alert = dr_feature_snapshot (transition_decision default_settings ''INFY'' demo_transition)"
    "cx_timestamp demo_alert = utc_dt 0"
    by (simp_all only: demo_alert_def alert_context.select_convs)
  have t: "tr_evidence demo_transition = fusion_evidence 72 demo_fusion" "tr_to_state demo_transition = M_TRIGGERED"
    "tr_from_state demo_transition = Some M_SETUP"
    by (simp_all only: demo_transition_def state_transition.select_convs)
  have f: "sf_negative_factors demo_fusion = []" "sf_confidence demo_fusion = 50"
    by (simp_all add: demo_fusion_def)
  show ?thesis
    using momentum_alert_shows_evidence [OF a(1,4) t(1), of demo_runtime]
    by (simp add: c a(2,3,5) t(2,3) f e p Let_def del: join_msgs.simps)
qed

end
