(* ===== verification/Candidate_View.thy ===== *)
theory Candidate_View
  imports Message_Text Fundamental_Queue
begin

text \<open>
  The explainability view: app/services/candidate_service.py, app/schemas/candidates.py and the routes of
  app/api/candidates.py. The view stores nothing: it reads the scanner results again and evaluates them with
  the clock of the request.
\<close>

section \<open>Schemas\<close>

record field_source_out =
  fo_field_name :: msg
  fo_value :: "rat option"
  fo_source :: "string option"
  fo_period :: "string option"
  fo_status :: msg
  fo_alternates :: "(string \<times> rat) list"

record factor_out =
  ft_factor_name :: msg
  ft_category :: msg
  ft_value :: "msg option"
  ft_normalized_score :: "rat option"
  ft_weight :: rat
  ft_contribution :: rat
  ft_status :: msg
  ft_reason :: msg

record breakdown_out =
  bo_category :: string
  bo_label :: string
  bo_score :: rat
  bo_max_score :: rat
  bo_factors :: "factor_out list"

record data_freshness_out =
  df_scan_date :: int
  df_days_old :: int
  df_is_fresh :: bool
  df_max_age_days :: int

record score_breakdown =
  sb_technical_weight :: rat
  sb_fundamental_weight :: rat
  sb_technical_contribution :: rat
  sb_fundamental_contribution :: "rat option"
  sb_overall_score :: rat
  sb_note :: "msg option"

record rule_out =
  ro_rule_name :: string
  ro_status :: string
  ro_actual_value :: "msg option"
  ro_required_value :: "msg option"
  ro_reason :: msg

record compounding_out =
  cm_timeframe :: string
  cm_setup_type :: "string option"
  cm_current_price :: "rat option"
  cm_target_price :: "rat option"
  cm_potential_upside_pct :: "rat option"
  cm_stop_loss :: "rat option"
  cm_risk_pct :: "rat option"
  cm_reward_risk_ratio :: "rat option"
  cm_target_classification :: string
  cm_higher_timeframe_confirmation :: string
  cm_fundamental_quality :: string
  cm_compounding_score :: rat
  cm_decision :: string
  cm_reasons_out :: "msg list"
  cm_data_limitations :: "msg list"

record candidate_summary =
  su_symbol :: string
  su_universe :: msg
  su_scanner_name :: string
  su_alert_category :: "string option"
  su_setup_state :: "string option"
  su_status :: string
  su_price :: "rat option"
  su_overall_score :: rat
  su_technical_score :: rat
  su_fundamental_score :: "rat option"
  su_quality :: msg
  su_compounding_decision :: string
  su_compounding_score :: rat
  su_scan_date :: int
  su_scanner_sources :: "msg list"
  su_scanner_confirmation_count :: nat

record candidate_explain =
  xp_symbol :: string
  xp_universe :: msg
  xp_scanner_name :: string
  xp_alert_category :: "string option"
  xp_setup_state :: "string option"
  xp_instrument_type :: msg
  xp_price :: "rat option"
  xp_breakout_level :: "rat option"
  xp_support_level :: "rat option"
  xp_resistance_level :: "rat option"
  xp_fundamental_score :: "rat option"
  xp_technical_score :: rat
  xp_overall_score :: rat
  xp_quality :: msg
  xp_overall_score_breakdown :: score_breakdown
  xp_scanner_sources :: "msg list"
  xp_scanner_confirmation_count :: nat
  xp_fundamental_reasons :: "msg list"
  xp_technical_reasons :: "msg list"
  xp_positive_factors :: "factor_out list"
  xp_negative_factors :: "factor_out list"
  xp_risk_flags :: "msg list"
  xp_passed_rules :: "msg list"
  xp_failed_rules :: "msg list"
  xp_fundamental_data_completeness_pct :: rat
  xp_technical_data_completeness_pct :: rat
  xp_data_freshness :: data_freshness_out
  xp_technical_breakdown :: "breakdown_out list"
  xp_fundamental_breakdown :: "breakdown_out list"
  xp_fundamental_unavailable_reason :: "msg option"
  xp_fundamental_field_sources :: "field_source_out list"
  xp_decision :: string
  xp_decision_quality :: "string option"
  xp_decision_rules :: "rule_out list"
  xp_explanation :: decision_explanation
  xp_compounding :: compounding_out
  xp_scan_date :: int
  xp_timestamp :: int

section \<open>Reading a snapshot\<close>

definition str_list :: "runtime \<Rightarrow> pyval \<Rightarrow> msg list" where
  "str_list rt v = map (shown rt) (list_or_empty v)"

definition sources_of :: "runtime \<Rightarrow> snapshot \<Rightarrow> msg list" where
  "sources_of rt snap =
     (let sources = str_list rt (dict_get snap ''scanner_sources'') in if sources = [] then [lit ''5PAISA''] else sources)"

definition factor_list :: "pyval \<Rightarrow> pyval list" where
  "factor_list v = filter is_dict (list_or_empty v)"

text \<open>\<open>str(d.get(k, default))\<close>, and \<open>d.get(k)\<close> when it is a string.\<close>

definition text_or :: "runtime \<Rightarrow> snapshot \<Rightarrow> string \<Rightarrow> string \<Rightarrow> msg" where
  "text_or rt d k missing = (case d k of None \<Rightarrow> lit missing | Some v \<Rightarrow> shown rt v)"

definition string_field :: "snapshot \<Rightarrow> string \<Rightarrow> string option" where
  "string_field d k = (case dict_get d k of PyStr s \<Rightarrow> Some s | _ \<Rightarrow> None)"

definition message_field :: "snapshot \<Rightarrow> string \<Rightarrow> msg option" where
  "message_field d k = (case dict_get d k of PyStr s \<Rightarrow> Some (lit s) | PyMsg m \<Rightarrow> Some m | _ \<Rightarrow> None)"

fun alternate_of :: "pyval \<Rightarrow> (string \<times> rat) list" where
  "alternate_of (PyList [PyStr source, v]) = (case as_float [''v'' \<mapsto> v] ''v'' of None \<Rightarrow> [] | Some x \<Rightarrow> [(source, x)])"
| "alternate_of v = []"

definition to_field_source_out :: "runtime \<Rightarrow> snapshot \<Rightarrow> field_source_out" where
  "to_field_source_out rt snap =
     \<lparr>fo_field_name = text_or rt snap ''field_name'' '''', fo_value = as_float snap ''value'',
      fo_source = string_field snap ''source'', fo_period = string_field snap ''period'',
      fo_status = text_or rt snap ''status'' ''UNKNOWN'',
      fo_alternates = concat (map alternate_of (list_or_empty (dict_get snap ''alternates'')))\<rparr>"

definition to_factor_out :: "runtime \<Rightarrow> snapshot \<Rightarrow> factor_out" where
  "to_factor_out rt factor =
     \<lparr>ft_factor_name = text_or rt factor ''factor_name'' '''', ft_category = text_or rt factor ''category'' '''',
      ft_value = message_field factor ''value'', ft_normalized_score = as_float factor ''normalized_score'',
      ft_weight = opt_else (as_float factor ''weight'') 0, ft_contribution = opt_else (as_float factor ''contribution'') 0,
      ft_status = text_or rt factor ''status'' ''UNKNOWN'', ft_reason = text_or rt factor ''reason'' ''''\<rparr>"

definition to_breakdown_out :: "runtime \<Rightarrow> category_breakdown \<Rightarrow> breakdown_out" where
  "to_breakdown_out rt b =
     \<lparr>bo_category = cb_category b, bo_label = cb_label b, bo_score = cb_score b, bo_max_score = cb_max_score b,
      bo_factors = map (\<lambda>f. to_factor_out rt (dict_or_empty f)) (cb_factors b)\<rparr>"

definition to_compounding_out :: "compounding_result \<Rightarrow> compounding_out" where
  "to_compounding_out r =
     \<lparr>cm_timeframe = timeframe_value (cp_timeframe r), cm_setup_type = cp_setup_type r, cm_current_price = cp_current_price r,
      cm_target_price = cp_target_price r, cm_potential_upside_pct = cp_upside_pct r, cm_stop_loss = cp_stop_loss r,
      cm_risk_pct = cp_risk_pct r, cm_reward_risk_ratio = cp_ratio r,
      cm_target_classification = upside_value (cp_classification r), cm_higher_timeframe_confirmation = htf_value (cp_htf r),
      cm_fundamental_quality = cp_fundamental_quality r, cm_compounding_score = cp_score r,
      cm_decision = decision_text (cp_decision r), cm_reasons_out = cp_reasons r, cm_data_limitations = cp_data_limitations r\<rparr>"

fun rule_status_value :: "rule_status \<Rightarrow> string" where
  "rule_status_value PASS = ''PASS''"
| "rule_status_value FAIL = ''FAIL''"
| "rule_status_value WARNING = ''WARNING''"

definition to_rule_out :: "rule_result \<Rightarrow> rule_out" where
  "to_rule_out r =
     \<lparr>ro_rule_name = rule_name r, ro_status = rule_status_value (rule_status r), ro_actual_value = actual_value r,
      ro_required_value = required_value r, ro_reason = rule_reason r\<rparr>"

definition unknown_score_note :: msg where
  "unknown_score_note =
     [Lit ''Fundamental Score is UNKNOWN (no data source integrated) '', Lit em_dash,
      Lit '' the Overall Setup Score is based entirely on the Technical Score, per the documented scoring policy: missing data is never treated as zero, and the configured fundamental/technical weighting only applies when both scores are known.'']"

definition build_score_breakdown :: "settings \<Rightarrow> rat option \<Rightarrow> rat \<Rightarrow> rat \<Rightarrow> score_breakdown" where
  "build_score_breakdown cfg fund_score tech_score overall_score =
     (case fund_score of
        None \<Rightarrow> \<lparr>sb_technical_weight = 1, sb_fundamental_weight = 0, sb_technical_contribution = py_round 2 tech_score,
                 sb_fundamental_contribution = None, sb_overall_score = overall_score, sb_note = Some unknown_score_note\<rparr>
      | Some f \<Rightarrow> \<lparr>sb_technical_weight = overall_technical_weight cfg, sb_fundamental_weight = overall_fundamental_weight cfg,
                 sb_technical_contribution = py_round 2 (tech_score * overall_technical_weight cfg),
                 sb_fundamental_contribution = Some (py_round 2 (f * overall_fundamental_weight cfg)),
                 sb_overall_score = overall_score, sb_note = None\<rparr>)"

section \<open>The list\<close>

definition to_summary :: "runtime \<Rightarrow> settings \<Rightarrow> string \<Rightarrow> result_row \<Rightarrow> candidate_summary" where
  "to_summary rt cfg symbol r =
     (let snap = rr_snapshot r; sources = sources_of rt snap; compounding = evaluate_compounding cfg snap
      in \<lparr>su_symbol = symbol, su_universe = text_or rt snap ''universe'' '''', su_scanner_name = rr_scanner_name r,
          su_alert_category = string_field snap ''alert_category'', su_setup_state = string_field snap ''setup_state'',
          su_status = rr_status r, su_price = as_float snap ''price'', su_overall_score = Scanner_Manager.rr_score r,
          su_technical_score = opt_else (as_float snap ''technical_score'') 0,
          su_fundamental_score = as_float snap ''fundamental_score'', su_quality = text_or rt snap ''quality'' ''LOW'',
          su_compounding_decision = decision_text (cp_decision compounding), su_compounding_score = cp_score compounding,
          su_scan_date = rr_date r, su_scanner_sources = sources, su_scanner_confirmation_count = length sources\<rparr>)"

definition matches_field :: "string \<Rightarrow> string option \<Rightarrow> result_row \<Rightarrow> bool" where
  "matches_field k wanted r = (case wanted of None \<Rightarrow> True | Some w \<Rightarrow> dict_get (rr_snapshot r) k = PyStr w)"

definition candidate_rows :: "string option \<Rightarrow> string option \<Rightarrow> string \<Rightarrow> nat \<Rightarrow> 'x scanner_store_scheme \<Rightarrow> result_row list" where
  "candidate_rows universe alert_category status limit s =
     take limit (filter (matches_field ''alert_category'' alert_category) (filter (matches_field ''universe'' universe)
       (filter (\<lambda>r. rr_scanner_name r \<in> set CANDIDATE_SCANNER_NAMES) (list_results None (Some status) 2000 s))))"

definition list_candidates ::
  "runtime \<Rightarrow> settings \<Rightarrow> string option \<Rightarrow> string option \<Rightarrow> string \<Rightarrow> nat \<Rightarrow> 'x scanner_store_scheme \<Rightarrow> candidate_summary list" where
  "list_candidates rt cfg universe alert_category status limit s =
     (let rows = candidate_rows universe alert_category status limit s; names = symbol_names (map rr_symbol_id rows) s
      in map (\<lambda>r. to_summary rt cfg (opt_else (names (rr_symbol_id r)) (str_int (rr_symbol_id r))) r) rows)"

section \<open>One candidate explained\<close>

text \<open>\<open>list(dict.fromkeys(xs))\<close>: without repetitions, in the order of the first occurrences.\<close>

definition dedup_first :: "'a list \<Rightarrow> 'a list" where
  "dedup_first xs = rev (remdups (rev xs))"

definition explain_row :: "runtime \<Rightarrow> settings \<Rightarrow> string \<Rightarrow> result_row \<Rightarrow> candidate_explain" where
  "explain_row rt cfg symbol r =
     (let snap = rr_snapshot r;
          decided = evaluate rt cfg (candidate_of symbol r) None;
          technical_factors = factor_list (dict_get snap ''technical_factors'');
          fundamental_factors = factor_list (dict_get snap ''fundamental_factors'');
          having = (\<lambda>st. map (\<lambda>f. to_factor_out rt (dict_or_empty f))
            (filter (\<lambda>f. dict_get (dict_or_empty f) ''status'' = PyStr st) (technical_factors @ fundamental_factors)));
          fund_score = as_float snap ''fundamental_score'';
          tech_score = opt_else (as_float snap ''technical_score'') 0;
          sources = sources_of rt snap;
          passed = dedup_first (str_list rt (dict_get snap ''passed_rules'') @ dr_passed_rules decided);
          failed = dedup_first (str_list rt (dict_get snap ''failed_rules'') @ dr_failed_rules decided);
          days_old = market_today (app_settings rt) (clock rt) None - rr_date r
      in \<lparr>xp_symbol = symbol, xp_universe = text_or rt snap ''universe'' '''', xp_scanner_name = rr_scanner_name r,
          xp_alert_category = string_field snap ''alert_category'', xp_setup_state = string_field snap ''setup_state'',
          xp_instrument_type = text_or rt snap ''instrument_type'' ''EQUITY'',
          xp_price = as_float snap ''price'', xp_breakout_level = as_float snap ''breakout_level'',
          xp_support_level = as_float snap ''support_level'', xp_resistance_level = as_float snap ''resistance_level'',
          xp_fundamental_score = fund_score, xp_technical_score = tech_score, xp_overall_score = Scanner_Manager.rr_score r,
          xp_quality = text_or rt snap ''quality'' ''LOW'',
          xp_overall_score_breakdown = build_score_breakdown cfg fund_score tech_score (Scanner_Manager.rr_score r),
          xp_scanner_sources = sources, xp_scanner_confirmation_count = length sources,
          xp_fundamental_reasons = str_list rt (dict_get snap ''fundamental_reasons''),
          xp_technical_reasons = str_list rt (dict_get snap ''technical_reasons''),
          xp_positive_factors = having ''POSITIVE'', xp_negative_factors = having ''NEGATIVE'',
          xp_risk_flags = str_list rt (dict_get snap ''risk_flags''),
          xp_passed_rules = passed, xp_failed_rules = failed,
          xp_fundamental_data_completeness_pct = opt_else (as_float snap ''data_completeness_pct'') 0,
          xp_technical_data_completeness_pct = opt_else (as_float snap ''technical_data_completeness_pct'') 0,
          xp_data_freshness = \<lparr>df_scan_date = rr_date r, df_days_old = days_old,
            df_is_fresh = days_old \<le> decision_max_data_age_days cfg, df_max_age_days = decision_max_data_age_days cfg\<rparr>,
          xp_technical_breakdown = map (to_breakdown_out rt) (technical_breakdown cfg technical_factors),
          xp_fundamental_breakdown = (if fund_score = None then []
            else map (to_breakdown_out rt) (fundamental_breakdown cfg fundamental_factors)),
          xp_fundamental_unavailable_reason = (if fund_score \<noteq> None then None
            else Some [Lit ''Fundamental data unavailable '', Lit em_dash, Lit '' no data source is currently integrated.'']),
          xp_fundamental_field_sources =
            map (\<lambda>f. to_field_source_out rt (dict_or_empty f)) (factor_list (dict_get snap ''fundamental_field_sources'')),
          xp_decision = decision_value (dr_decision decided), xp_decision_quality = map_option quality_value (dr_quality decided),
          xp_decision_rules = map to_rule_out (dr_rule_results decided),
          xp_explanation = explain_decision fund_score (str_list rt (dict_get snap ''technical_reasons''))
            (str_list rt (dict_get snap ''fundamental_reasons'')) (string_field snap ''setup_state'') passed failed
            (str_list rt (dict_get snap ''risk_flags'')),
          xp_compounding = to_compounding_out (evaluate_compounding cfg snap),
          xp_scan_date = rr_date r, xp_timestamp = clock rt\<rparr>)"

definition newest_candidate_row :: "int \<Rightarrow> 'x scanner_store_scheme \<Rightarrow> result_row option" where
  "newest_candidate_row symbol_id s =
     (case filter (\<lambda>r. rr_scanner_name r \<in> set CANDIDATE_SCANNER_NAMES) (results_for_symbol symbol_id 50 s) of
        [] \<Rightarrow> None | r # _ \<Rightarrow> Some r)"

definition get_explain :: "runtime \<Rightarrow> settings \<Rightarrow> string \<Rightarrow> 'x scanner_store_scheme \<Rightarrow> candidate_explain option" where
  "get_explain rt cfg symbol s =
     (case get_by_symbol symbol None s of
        None \<Rightarrow> None
      | Some row \<Rightarrow> map_option (explain_row rt cfg (sy_symbol row)) (newest_candidate_row (sy_id row) s))"

section \<open>The routes\<close>

definition optional_upper :: "string option \<Rightarrow> string option" where
  "optional_upper x = (case x of None \<Rightarrow> None | Some s \<Rightarrow> if s = [] then None else Some (map upper_char s))"

definition route_list_candidates ::
  "runtime \<Rightarrow> string option \<Rightarrow> string option \<Rightarrow> string \<Rightarrow> nat \<Rightarrow> 'x scanner_store_scheme \<Rightarrow> candidate_summary list" where
  "route_list_candidates rt universe alert_category status limit s =
     list_candidates rt (app_settings rt) (optional_upper universe) (optional_upper alert_category) status limit s"

definition route_explain_candidate ::
  "runtime \<Rightarrow> string \<Rightarrow> 'x scanner_store_scheme \<Rightarrow> string + candidate_explain" where
  "route_explain_candidate rt symbol s =
     (case get_explain rt (app_settings rt) (map upper_char symbol) s of
        None \<Rightarrow> Inl (''No IPO/F&O candidate result for symbol '' @ [CHR 0x27] @ symbol @ [CHR 0x27])
      | Some x \<Rightarrow> Inr x)"

section \<open>The explained score\<close>

lemma dict_get_float: "dict_get d k = PyFloat x \<Longrightarrow> as_float d k = Some x"
  by (simp add: as_float_def is_missing_def)

lemma enriched_scores:
  assumes "dict_get (rr_snapshot row) ''technical_score'' = PyFloat t"
  shows "as_float (rr_snapshot (apply_result cfg now d status row)) ''technical_score'' = Some t"
    "as_float (rr_snapshot (apply_result cfg now d status row)) ''fundamental_score'' = fe_score (fundamental_score cfg (Some d))"
    "Scanner_Manager.rr_score (apply_result cfg now d status row)
      = py_round 2 (min (max (combine_scores cfg (fe_score (fundamental_score cfg (Some d))) t) 0) 100)"
proof -
  let ?r = "apply_result cfg now d status row"
  have "dict_get (rr_snapshot ?r) ''technical_score'' = PyFloat t"
    using assms by (simp add: apply_result_def Let_def)
  then show "as_float (rr_snapshot ?r) ''technical_score'' = Some t" by (rule dict_get_float)
  have "dict_get (rr_snapshot ?r) ''fundamental_score'' = Candidate_Core.opt_float (fe_score (fundamental_score cfg (Some d)))"
    by (simp add: apply_result_def Let_def)
  then show "as_float (rr_snapshot ?r) ''fundamental_score'' = fe_score (fundamental_score cfg (Some d))"
    by (cases "fe_score (fundamental_score cfg (Some d))") (simp_all add: as_float_def is_missing_def Candidate_Core.opt_float_def)
  show "Scanner_Manager.rr_score ?r = py_round 2 (min (max (combine_scores cfg (fe_score (fundamental_score cfg (Some d))) t) 0) 100)"
    using assms by (simp add: apply_result_def Let_def technical_score_of_def coerce_float_def opt_else_def)
qed

lemma weighted_in_range:
  fixes a b x y :: rat
  assumes "0 \<le> a" "0 \<le> b" "a + b = 1" "0 \<le> x" "x \<le> 100" "0 \<le> y" "y \<le> 100"
  shows "0 \<le> x * a + y * b \<and> x * a + y * b \<le> 100"
proof -
  have "x * a \<le> 100 * a" "y * b \<le> 100 * b" using assms by (simp_all add: mult_right_mono)
  moreover have "100 * a + 100 * b = 100" using assms(3) by (metis distrib_left mult.right_neutral)
  ultimately show ?thesis using assms by (simp add: add_nonneg_nonneg)
qed



end
