(* ===== verification/Telegram.thy ===== *)
theory Telegram
  imports Delivery Upstox_Client
begin

text \<open>
  The Telegram provider: app/notifications/telegram.py. The Bot API is a sequence of answers to the POST
  requests of one call. What a call does to the world is its list of effects, the posts and the pauses
  in order. The two time limits of a request are the network's and are left out.
\<close>

section \<open>Bots\<close>

record telegram_settings =
  telegram_bot_token :: string
  telegram_chat_id :: string
  telegram_max_retries :: int
  telegram_retry_backoff_seconds :: rat

record telegram =
  tb_bot_token :: string
  tb_chat_id :: string
  tb_name :: string

definition default_telegram_settings :: telegram_settings where
  "default_telegram_settings = \<lparr>telegram_bot_token = '''', telegram_chat_id = '''', telegram_max_retries = 3, telegram_retry_backoff_seconds = 2\<rparr>"

text \<open>An empty override is an override: a bot without credentials of its own does not fall back to the default bot's.\<close>

definition new_telegram :: "telegram_settings \<Rightarrow> string option \<Rightarrow> string option \<Rightarrow> string \<Rightarrow> telegram" where
  "new_telegram tm bot_token chat_id channel_name =
     \<lparr>tb_bot_token = opt_else bot_token (telegram_bot_token tm), tb_chat_id = opt_else chat_id (telegram_chat_id tm),
      tb_name = channel_name\<rparr>"

definition bot_configured :: "telegram \<Rightarrow> bool" where
  "bot_configured b \<longleftrightarrow> tb_bot_token b \<noteq> [] \<and> tb_chat_id b \<noteq> []"

definition API_BASE :: string where
  "API_BASE = ''https://api.telegram.org''"

definition bot_url :: "telegram \<Rightarrow> string" where
  "bot_url b = API_BASE @ ''/bot'' @ tb_bot_token b"

definition PERMANENT_ERROR_CODES :: "nat list" where
  "PERMANENT_ERROR_CODES = [400, 401, 403, 404]"

section \<open>Answers\<close>

definition failed_delivery :: "string option \<Rightarrow> metadata \<Rightarrow> bool \<Rightarrow> delivery_result" where
  "failed_delivery error metadata retryable =
     \<lparr>de_success = False, de_status = ''FAILED'', de_provider_message_id = None, de_error_message = error,
      de_response_metadata = metadata, de_retryable = retryable\<rparr>"

text \<open>A body that is not JSON counts as an empty object; a body of another JSON type has no \<open>get\<close>.\<close>

definition body_of :: "pyval option \<Rightarrow> (string \<times> pyval) list option" where
  "body_of json = (case json of None \<Rightarrow> Some [] | Some (PyDict d) \<Rightarrow> Some d | _ \<Rightarrow> None)"

text \<open>\<open>(body.get(key) or {}).get(inner)\<close>.\<close>

definition inner_field :: "(string \<times> pyval) list \<Rightarrow> string \<Rightarrow> string \<Rightarrow> py_error + pyval" where
  "inner_field body key inner =
     (case py_or (field_of body key) (PyDict []) of PyDict d \<Rightarrow> Inr (field_of d inner) | _ \<Rightarrow> Inl attribute_error)"

text \<open>The final result, \<open>None\<close> for another try, or an error that leaves the loop.\<close>

definition telegram_response :: "runtime \<Rightarrow> nat \<Rightarrow> pyval option \<Rightarrow> py_error + delivery_result option" where
  "telegram_response rt status json =
     (if 500 \<le> status \<and> status < 600 then Inr None
      else case body_of json of
        None \<Rightarrow> if status = 200 \<or> status = 429 \<or> status \<in> set PERMANENT_ERROR_CODES then Inl attribute_error else Inr None
      | Some body \<Rightarrow>
          if status = 200 \<and> field_of body ''ok'' = PyBool True then
            and_then (inner_field body ''result'' ''message_id'') (\<lambda>message_id.
              Inr (Some \<lparr>de_success = True, de_status = ''SENT'',
                de_provider_message_id = (if message_id = PyNone then None else Some (py_str rt message_id)), de_error_message = None,
                de_response_metadata = [(''status_code'', PyInt (int status))], de_retryable = True\<rparr>))
          else if status = 429 then and_then (inner_field body ''parameters'' ''retry_after'') (\<lambda>retry_after. Inr None)
          else if status \<in> set PERMANENT_ERROR_CODES then
            Inr (Some (failed_delivery
              (Some (if truthy (field_of body ''description'') then py_str rt (field_of body ''description'') else ''HTTP '' @ str_nat status))
              [(''status_code'', PyInt (int status))] False))
          else Inr None)"

section \<open>Sending\<close>

datatype telegram_effect = Tg_Post string string msg | Tg_Pause rat

text \<open>\<open>n\<close> attempts are left, \<open>attempt\<close> is the number of the next one and \<open>answers\<close> what the API answers to it.\<close>

fun send_attempts ::
  "runtime \<Rightarrow> telegram_settings \<Rightarrow> telegram \<Rightarrow> (nat \<Rightarrow> http_result) \<Rightarrow> string \<Rightarrow> msg \<Rightarrow> nat \<Rightarrow> nat \<Rightarrow> string option
     \<Rightarrow> (py_error + delivery_result) \<times> telegram_effect list" where
  "send_attempts rt tm tb answers chat body 0 attempt last_error = (Inr (failed_delivery last_error [] True), [])"
| "send_attempts rt tm tb answers chat body (Suc n) attempt last_error =
     (let post = Tg_Post (bot_url tb @ ''/sendMessage'') chat body;
          pause = (if n = 0 then [] else [Tg_Pause (telegram_retry_backoff_seconds tm * of_nat attempt)]);
          again = (\<lambda>e. let (r, effects) = send_attempts rt tm tb answers chat body n (Suc attempt) (Some e)
                       in (r, post # pause @ effects))
      in case answers attempt of
           Timed_Out \<Rightarrow> again ''request timed out''
         | Http_Failure e \<Rightarrow> again e
         | Response status json \<Rightarrow>
             (case telegram_response rt status json of
                Inl e \<Rightarrow> (Inl e, [post])
              | Inr (Some result) \<Rightarrow> (Inr result, [post])
              | Inr None \<Rightarrow> again (''HTTP '' @ str_nat status)))"

definition send_with_retry ::
  "runtime \<Rightarrow> telegram_settings \<Rightarrow> telegram \<Rightarrow> (nat \<Rightarrow> http_result) \<Rightarrow> string \<Rightarrow> msg
     \<Rightarrow> (py_error + delivery_result) \<times> telegram_effect list" where
  "send_with_retry rt tm tb answers chat body =
     (if \<not> bot_configured tb
      then (Inr (failed_delivery (Some (''Telegram ('' @ tb_name tb @ '') is not configured'')) [] False), [])
      else send_attempts rt tm tb answers chat body (nat (telegram_max_retries tm)) 1 None)"

definition send_message ::
  "runtime \<Rightarrow> telegram_settings \<Rightarrow> telegram \<Rightarrow> (nat \<Rightarrow> http_result) \<Rightarrow> string \<Rightarrow> msg
     \<Rightarrow> (py_error + delivery_result) \<times> telegram_effect list" where
  "send_message rt tm tb answers recipient body = send_with_retry rt tm tb answers recipient body"

definition send_template ::
  "runtime \<Rightarrow> telegram_settings \<Rightarrow> telegram \<Rightarrow> (nat \<Rightarrow> http_result) \<Rightarrow> string \<Rightarrow> string \<Rightarrow> string list
     \<Rightarrow> (py_error + delivery_result) \<times> telegram_effect list" where
  "send_template rt tm tb answers recipient template_name parameters =
     send_message rt tm tb answers recipient
       (lit (if parameters = [] then template_name else template_name @ '': '' @ join_strings '', '' parameters))"

text \<open>\<open>health_check\<close>: only errors of the HTTP client are caught.\<close>

definition health_check :: "telegram \<Rightarrow> http_result \<Rightarrow> py_error + bool" where
  "health_check tb reply =
     (if \<not> bot_configured tb then Inr False
      else case reply of
        Timed_Out \<Rightarrow> Inr False
      | Http_Failure e \<Rightarrow> Inr False
      | Response status json \<Rightarrow>
          if status \<noteq> 200 then Inr False
          else case json of
            None \<Rightarrow> Inl ValueError
          | Some (PyDict d) \<Rightarrow> Inr (field_of d ''ok'' = PyBool True)
          | Some v \<Rightarrow> Inl attribute_error)"

section \<open>The call as a function of the answers\<close>

definition final_answer :: "runtime \<Rightarrow> http_result \<Rightarrow> (py_error + delivery_result) option" where
  "final_answer rt a =
     (case a of
        Response status json \<Rightarrow>
          (case telegram_response rt status json of Inl e \<Rightarrow> Some (Inl e) | Inr None \<Rightarrow> None | Inr (Some r) \<Rightarrow> Some (Inr r))
      | _ \<Rightarrow> None)"

fun error_of_answer :: "http_result \<Rightarrow> string" where
  "error_of_answer Timed_Out = ''request timed out''"
| "error_of_answer (Http_Failure e) = e"
| "error_of_answer (Response status json) = ''HTTP '' @ str_nat status"

text \<open>The posts made: up to the first final answer.\<close>

definition posts_made :: "runtime \<Rightarrow> http_result list \<Rightarrow> nat" where
  "posts_made rt as = (let t = length (takeWhile (\<lambda>a. final_answer rt a = None) as) in min (Suc t) (length as))"

definition settled :: "runtime \<Rightarrow> string option \<Rightarrow> http_result list \<Rightarrow> py_error + delivery_result" where
  "settled rt last_error as =
     (case dropWhile (\<lambda>a. final_answer rt a = None) as of
        a # _ \<Rightarrow> the (final_answer rt a)
      | [] \<Rightarrow> Inr (failed_delivery (if as = [] then last_error else Some (error_of_answer (last as))) [] True))"

definition post_rounds :: "rat \<Rightarrow> telegram_effect \<Rightarrow> nat \<Rightarrow> nat \<Rightarrow> telegram_effect list" where
  "post_rounds backoff post attempt n =
     concat (map (\<lambda>k. post # (if Suc k < n then [Tg_Pause (backoff * of_nat (attempt + k))] else [])) [0..<n])"

lemma post_rounds_Suc:
  "post_rounds b post k (Suc n) = post # (if n = 0 then [] else Tg_Pause (b * of_nat k) # post_rounds b post (Suc k) n)"
proof (cases n)
  case 0
  then show ?thesis by (simp add: post_rounds_def)
next
  case (Suc m)
  have "[0..<Suc n] = 0 # map Suc [0..<n]" by (simp add: map_Suc_upt upt_conv_Cons)
  then show ?thesis by (simp add: post_rounds_def Suc o_def algebra_simps del: upt_Suc cong: if_cong)
qed

lemma settled_again:
  assumes "final_answer rt a = None"
  shows "settled rt err (a # as) = settled rt (Some (error_of_answer a)) as"
  proof (cases as)
  case (Cons b bs)
  have "dropWhile (\<lambda>a. final_answer rt a = None) (a # as) = dropWhile (\<lambda>a. final_answer rt a = None) as" using assms by simp
  then show ?thesis unfolding settled_def using Cons by (cases "dropWhile (\<lambda>a. final_answer rt a = None) as") auto
qed (simp add: settled_def assms)

lemma send_attempts_follows:
  "send_attempts rt tm tb answers chat body n attempt err =
    (let as = map answers [attempt..<attempt + n] in
     (settled rt err as,
      post_rounds (telegram_retry_backoff_seconds tm) (Tg_Post (bot_url tb @ ''/sendMessage'') chat body) attempt (posts_made rt as)))"
proof (induction n arbitrary: attempt err)
  case 0
  then show ?case by (simp add: settled_def posts_made_def post_rounds_def)
next
  case (Suc n)
  let ?a = "answers attempt" and ?post = "Tg_Post (bot_url tb @ ''/sendMessage'') chat body"
  let ?rest = "map answers [Suc attempt..<Suc attempt + n]"
  have as: "map answers [attempt..<attempt + Suc n] = ?a # ?rest" by (simp add: upt_conv_Cons Suc_le_eq del: upt_Suc)
  show ?case
  proof (cases "final_answer rt ?a")
    case (Some r)
    then have "send_attempts rt tm tb answers chat body (Suc n) attempt err = (r, [?post])"
      by (auto simp: final_answer_def split: http_result.splits sum.splits option.splits)
    with Some show ?thesis unfolding as by (simp add: settled_def posts_made_def post_rounds_def)
  next
    case None
    have step: "send_attempts rt tm tb answers chat body (Suc n) attempt err =
        (let (r, effects) = send_attempts rt tm tb answers chat body n (Suc attempt) (Some (error_of_answer ?a))
         in (r, ?post # (if n = 0 then [] else [Tg_Pause (telegram_retry_backoff_seconds tm * of_nat attempt)]) @ effects))"
      using None by (auto simp: final_answer_def Let_def split: http_result.splits sum.splits option.splits)
    note s = settled_again [OF None]
    have m: "posts_made rt (?a # ?rest) = Suc (posts_made rt ?rest)" using None by (simp add: posts_made_def Let_def)
    have z: "posts_made rt ?rest = 0 \<longleftrightarrow> n = 0" by (auto simp: posts_made_def Let_def)
    show ?thesis unfolding step as Let_def s m post_rounds_Suc z unfolding Suc.IH by (auto simp: Let_def posts_made_def post_rounds_def)
  qed
qed

text \<open>C5: A call to a configured bot is a function of the answers: it posts until the first final answer, at most \<open>telegram_max_retries\<close> times,
  pauses by the linear back-off between two posts and nowhere else, and returns that answer, or a retryable failure with the last error.
  What a 429 answer asks to wait does not enter. A bot that is not configured posts nothing and fails for good.\<close>

theorem telegram_send_follows_answers:
  "let as = map answers [1..<Suc (nat (telegram_max_retries tm))];
       n = posts_made rt as;
       (r, effects) = send_message rt tm tb answers chat body
   in if bot_configured tb
      then r = settled rt None as
         \<and> effects = post_rounds (telegram_retry_backoff_seconds tm) (Tg_Post (bot_url tb @ ''/sendMessage'') chat body) 1 n
         \<and> n \<le> nat (telegram_max_retries tm)
      else effects = [] \<and> r = Inr (failed_delivery (Some (''Telegram ('' @ tb_name tb @ '') is not configured'')) [] False)"
proof -
  have "posts_made rt as \<le> length as" for as by (simp add: posts_made_def Let_def)
  from this [of "map answers [1..<Suc (nat (telegram_max_retries tm))]"] show ?thesis
    by (simp add: send_message_def send_with_retry_def send_attempts_follows Let_def del: upt_Suc)
qed

section \<open>A rate-limited bot\<close>

definition rate_limited :: "int \<Rightarrow> http_result" where
  "rate_limited retry_after =
     Response 429 (Some (PyDict [(''ok'', PyBool False), (''parameters'', PyDict [(''retry_after'', PyInt retry_after)])]))"

lemma rate_limited_again: "final_answer rt (rate_limited w) = None"
  by (simp add: final_answer_def rate_limited_def telegram_response_def body_of_def field_of_def inner_field_def py_or_def)

lemma all_again:
  assumes "\<forall>a \<in> set as. final_answer rt a = None"
  shows "posts_made rt as = length as" "\<exists>e. settled rt err as = Inr (failed_delivery e [] True)"
proof -
  have t: "takeWhile (\<lambda>a. final_answer rt a = None) as = as" "dropWhile (\<lambda>a. final_answer rt a = None) as = []"
    using assms by auto
  then show "posts_made rt as = length as" "\<exists>e. settled rt err as = Inr (failed_delivery e [] True)"
    by (auto simp: posts_made_def settled_def simp del: takeWhile_eq_all_conv dropWhile_eq_Nil_conv)
qed

lemma rate_limited_call:
  assumes "bot_configured tb"
  shows "\<exists>e. send_message rt tm tb (\<lambda>k. rate_limited (wait k)) chat body =
    (Inr (failed_delivery e [] True),
     post_rounds (telegram_retry_backoff_seconds tm) (Tg_Post (bot_url tb @ ''/sendMessage'') chat body) 1 (nat (telegram_max_retries tm)))"
proof -
  let ?as = "map (\<lambda>k. rate_limited (wait k)) [1..<1 + nat (telegram_max_retries tm)]"
  have "\<forall>a \<in> set ?as. final_answer rt a = None" by (auto simp: rate_limited_again)
  note again = all_again [OF this]
  then obtain e where "settled rt None ?as = Inr (failed_delivery e [] True)" by blast
  then show ?thesis using assms again(1) by (auto simp: send_message_def send_with_retry_def send_attempts_follows Let_def)
qed

lemma final_attempt_none:
  "(\<And>j. \<not> de_success (r j) \<and> de_retryable (r j)) \<Longrightarrow> final_attempt r n k = k + n"
  by (induction n arbitrary: k) simp_all

text \<open>C34: A rate-limited alert is given up: when the bot answers every post with 429, however long it asks to wait, each attempt makes
  the same posts with the same pauses, the delivery pauses by its own back-off only, and the alert ends FAILED.\<close>

theorem rate_limited_alert_fails:
  assumes "get_by_id i s = Some a" "al_status a \<noteq> SENT" "0 < alert_max_retries cfg" "bot_configured tb"
    and "\<forall>j chat body. Inr (p_send (resolve router (alert_category_of a)) j chat body)
      = fst (send_message rt tm tb (\<lambda>k. rate_limited (wait j k)) chat body)"
  shows "let out = deliver_now cfg fmt names router i s in
    alerts (snd out) = set_status i FAILED (alerts s)
    \<and> fst out = Inr (backoff_delays cfg 0 (nat (alert_max_retries cfg)))
    \<and> (\<forall>j chat body. snd (send_message rt tm tb (\<lambda>k. rate_limited (wait j k)) chat body)
        = post_rounds (telegram_retry_backoff_seconds tm) (Tg_Post (bot_url tb @ ''/sendMessage'') chat body) 1 (nat (telegram_max_retries tm)))"
proof -
  let ?p = "resolve router (alert_category_of a)"
  have call: "\<exists>e. send_message rt tm tb (\<lambda>k. rate_limited (wait j k)) chat body = (Inr (failed_delivery e [] True),
     post_rounds (telegram_retry_backoff_seconds tm) (Tg_Post (bot_url tb @ ''/sendMessage'') chat body) 1 (nat (telegram_max_retries tm)))"
    for j chat body by (rule rate_limited_call [OF assms(4)])
  have "\<exists>e. p_send ?p j chat body = failed_delivery e [] True" for j chat body
    using call [of j chat body] assms(5) by (metis fst_conv sum.inject(2))
  then have r: "\<not> de_success (answer cfg fmt names ?p a j) \<and> de_retryable (answer cfg fmt names ?p a j)" for j
    by (metis answer_def delivery_result.select_convs(1,6) failed_delivery_def)
  then have "final_attempt (answer cfg fmt names ?p a) (nat (alert_max_retries cfg)) 0 = nat (alert_max_retries cfg)"
    by (simp add: final_attempt_none)
  with deliver_now_outcome [OF assms(1-3), of fmt names router] r
  have "alerts (snd (deliver_now cfg fmt names router i s)) = set_status i FAILED (alerts s)"
    "fst (deliver_now cfg fmt names router i s) = Inr (backoff_delays cfg 0 (nat (alert_max_retries cfg)))"
    by (simp_all add: final_status_def)
  then show ?thesis using call by (metis snd_conv)
qed

section \<open>A bot without credentials\<close>

lemma get_by_fingerprint_rewrite:
  assumes "alerts t = map f (alerts s)" "\<And>r. al_id (f r) = al_id r" "\<And>r. al_fingerprint (f r) = al_fingerprint r"
  shows "get_by_fingerprint fp t = map_option f (get_by_fingerprint fp s)"
  using assms by (simp add: get_by_fingerprint_def newest_by_map)

text \<open>C35: An alert of a bot without credentials is lost: it fails at the first attempt, without a post or a pause, no restart picks it up
  again, and its signal stays blocked as a duplicate, before and after every expiry run.\<close>

theorem unconfigured_bot_loses_signal:
  assumes "get_by_fingerprint fp s = Some a" "get_by_id (al_id a) s = Some a" "al_status a \<noteq> SENT" "0 < alert_max_retries cfg"
    and "\<not> bot_configured tb"
    and "\<forall>j chat body. Inr (p_send (resolve router (alert_category_of a)) j chat body) = fst (send_message rt tm tb (ans j) chat body)"
  shows "let out = deliver_now cfg fmt names router (al_id a) s in
    fst out = Inr [] \<and> alerts (snd out) = set_status (al_id a) FAILED (alerts s)
    \<and> (\<forall>j chat body. snd (send_message rt tm tb (ans j) chat body) = [])
    \<and> al_id a \<notin> al_id ` set (list_by_status [PENDING, RETRYING] 200 (snd out))
    \<and> suppressed (dedup_check fp (snd out)) \<and> (\<forall>now. suppressed (dedup_check fp (expiry_job now (snd out))))"
proof -
  let ?p = "resolve router (alert_category_of a)" and ?out = "deliver_now cfg fmt names router (al_id a) s"
  have call: "send_message rt tm tb (ans j) chat body
      = (Inr (failed_delivery (Some (''Telegram ('' @ tb_name tb @ '') is not configured'')) [] False), [])" for j chat body
    using assms(5) by (simp add: send_message_def send_with_retry_def)
  have "p_send ?p j chat body = failed_delivery (Some (''Telegram ('' @ tb_name tb @ '') is not configured'')) [] False" for j chat body
    using assms(6) call [of j chat body] by (metis fst_conv sum.inject(2))
  then have r: "\<not> de_success (answer cfg fmt names ?p a j)" "\<not> de_retryable (answer cfg fmt names ?p a j)" for j
    by (simp_all add: answer_def failed_delivery_def)
  obtain n where "nat (alert_max_retries cfg) = Suc n" using assms(4) by (cases "nat (alert_max_retries cfg)") auto
  then have m: "final_attempt (answer cfg fmt names ?p a) (nat (alert_max_retries cfg)) 0 = 1" using r by simp
  note out = deliver_now_outcome [OF assms(2-4), of fmt names router, unfolded m]
  have pauses: "fst ?out = Inr []" using out(2) by (simp add: backoff_delays_def)
  have rows: "alerts (snd ?out) = set_status (al_id a) FAILED (alerts s)" using out(3) r by (simp add: final_status_def)
  have newest: "get_by_fingerprint fp (snd ?out) = Some (a\<lparr>al_status := FAILED\<rparr>)"
    using get_by_fingerprint_rewrite [OF rows [unfolded set_status_def], where fp = fp] assms(1) by simp
  have "get_by_fingerprint fp (expiry_job now (snd ?out)) = Some (a\<lparr>al_status := FAILED\<rparr>)" for now
    by (subst get_by_fingerprint_rewrite [OF expiry_job_simps(1)]) (simp_all add: newest is_stale_alert_def)
  moreover have "al_id a \<notin> al_id ` set (list_by_status [PENDING, RETRYING] 200 (snd ?out))"
  proof
    assume "al_id a \<in> al_id ` set (list_by_status [PENDING, RETRYING] 200 (snd ?out))"
    then obtain r where r: "r \<in> set (list_by_status [PENDING, RETRYING] 200 (snd ?out))" "al_id r = al_id a" by auto
    then have "r \<in> set (alerts (snd ?out))" "al_status r \<in> {PENDING, RETRYING}"
      using in_set_takeD [OF r(1) [unfolded list_by_status_def]] by simp_all
    with r(2) show False unfolding rows set_status_def by auto
  qed
  ultimately show ?thesis using newest pauses rows call by (simp add: Let_def dedup_check_def INACTIVE_STATUSES_def)
qed

definition demo_bot :: telegram where
  "demo_bot = new_telegram default_telegram_settings (Some ''t'') (Some ''42'') ''telegram''"

definition limited_provider :: provider where
  "limited_provider = \<lparr>p_name = ''telegram'', p_default_recipient = ''42'',
     p_send = (\<lambda>j chat body. projr (fst (send_message demo_runtime default_telegram_settings demo_bot (\<lambda>k. rate_limited 30) chat body)))\<rparr>"

theorem rate_limited_alert_fails_witness:
  "alerts (snd (deliver_now default_settings (\<lambda>_. lit ''text'') (\<lambda>_. Some ''ABC'') \<lparr>r_default = limited_provider, r_ipo = limited_provider, r_fno = limited_provider\<rparr> 1 demo_retired))
     = set_status 1 FAILED (alerts demo_retired)"
proof -
  let ?router = "\<lparr>r_default = limited_provider, r_ipo = limited_provider, r_fno = limited_provider\<rparr>"
  obtain a where a: "get_by_id 1 demo_retired = Some a" "al_status a = EXPIRED" using demo_retired_row by blast
  then have st: "al_status a \<noteq> SENT" by simp
  have mx: "0 < alert_max_retries default_settings" by code_simp
  have b: "bot_configured demo_bot" by code_simp
  have p: "resolve ?router (alert_category_of a) = limited_provider" by (simp add: resolve_def split: option.split)
  have "\<forall>j chat body. Inr (p_send (resolve ?router (alert_category_of a)) j chat body)
      = fst (send_message demo_runtime default_telegram_settings demo_bot (\<lambda>k. rate_limited ((\<lambda>j k. 30) j k)) chat body)"
  proof (intro allI)
    fix j chat body
    show "Inr (p_send (resolve ?router (alert_category_of a)) j chat body)
      = fst (send_message demo_runtime default_telegram_settings demo_bot (\<lambda>k. rate_limited ((\<lambda>j k. 30) j k)) chat body)"
      unfolding p using rate_limited_call [OF b, of demo_runtime default_telegram_settings "\<lambda>k. 30" chat body]
      by (auto simp: limited_provider_def)
  qed
  from rate_limited_alert_fails [OF a(1) st mx b this] show ?thesis by (simp add: Let_def)
qed

definition mute_bot :: telegram where
  "mute_bot = new_telegram default_telegram_settings (Some '''') (Some '''') ''telegram_ipo''"

definition mute_provider :: provider where
  "mute_provider = \<lparr>p_name = ''telegram_ipo'', p_default_recipient = '''',
     p_send = (\<lambda>j chat body. projr (fst (send_message demo_runtime default_telegram_settings mute_bot (\<lambda>k. Timed_Out) chat body)))\<rparr>"

theorem unconfigured_bot_loses_signal_witness:
  "\<exists>a. get_by_id 1 demo_retired = Some a \<and>
     suppressed (dedup_check (al_fingerprint a) (snd (deliver_now default_settings (\<lambda>_. lit ''text'') (\<lambda>_. Some ''ABC'')
       \<lparr>r_default = mute_provider, r_ipo = mute_provider, r_fno = mute_provider\<rparr> 1 demo_retired)))"
proof -
  let ?router = "\<lparr>r_default = mute_provider, r_ipo = mute_provider, r_fno = mute_provider\<rparr>"
  from demo_retired_view obtain a where v: "alerts demo_retired = [a]" "al_id a = 1" "al_status a = EXPIRED"
    by (auto simp: demo_view_def)
  have a: "get_by_id (al_id a) demo_retired = Some a" "get_by_fingerprint (al_fingerprint a) demo_retired = Some a"
    using v by (simp_all add: get_by_id_def get_by_fingerprint_def newest_by_def)
  have st: "al_status a \<noteq> SENT" using v by simp
  have mx: "0 < alert_max_retries default_settings" by code_simp
  have b: "\<not> bot_configured mute_bot" by code_simp
  have p: "resolve ?router (alert_category_of a) = mute_provider" by (simp add: resolve_def split: option.split)
  have "\<forall>j chat body. Inr (p_send (resolve ?router (alert_category_of a)) j chat body)
      = fst (send_message demo_runtime default_telegram_settings mute_bot ((\<lambda>j k. Timed_Out) j) chat body)"
    unfolding p using b by (simp add: mute_provider_def send_message_def send_with_retry_def)
  from unconfigured_bot_loses_signal [OF a(2,1) st mx b this] show ?thesis
    unfolding v(2) using a(1) v(2) by (auto simp: Let_def)
qed

end
