(* ===== verification/Jobs.thy ===== *)
theory Jobs
  imports Candidate_View Telegram Data_Collection Event_Pipeline Sanity
begin

text \<open>
  The scheduled jobs and the wiring of the application: app/scheduler/service.py, jobs.py, universe_jobs.py,
  digest_jobs.py, the registrations of the other job modules, scanner/scanner_registry.py and the decisions of \<open>lifespan\<close> in
  app/main.py. The scheduler is a list of jobs with their triggers; when a cron trigger fires is computed in the
  scheduler's zone.
\<close>

section \<open>The scheduler (service.py)\<close>

datatype trigger = Cron int int | Every_Seconds int

record job =
  jb_id :: string
  jb_trigger :: trigger

text \<open>\<open>add_job\<close> with \<open>replace_existing\<close>.\<close>

definition add_job :: "string \<Rightarrow> trigger \<Rightarrow> job list \<Rightarrow> job list" where
  "add_job i t jobs = filter (\<lambda>j. jb_id j \<noteq> i) jobs @ [\<lparr>jb_id = i, jb_trigger = t\<rparr>]"

definition hour_us :: int where
  "hour_us = 3600000000"

text \<open>The instant at which a cron trigger fires on a day of its zone.\<close>

definition cron_instant :: "timezone \<Rightarrow> int \<Rightarrow> int \<Rightarrow> int \<Rightarrow> int" where
  "cron_instant tz day hour minute =
     (let local = (day - epoch_ord) * day_us + hour * hour_us + minute * minute_us in local - wall_off tz local)"

section \<open>Market data jobs (jobs.py)\<close>

text \<open>The arguments are the times the collector reads, and the time of the published event.\<close>

definition daily_job ::
  "settings \<Rightarrow> market_provider \<Rightarrow> 'r redis_ops \<Rightarrow> int \<Rightarrow> int \<Rightarrow> int \<Rightarrow> 'x market_store_scheme \<times> 'r
     \<Rightarrow> (py_error + unit) \<times> 'x market_store_scheme \<times> 'r" where
  "daily_job cfg p ops started finished as_of w =
     (let (result, s) = collect_daily cfg p started finished (fst w) in
      if 0 < cr_success_count result
      then (let (r, redis) = publish_event ops \<lparr>pe_source = ''daily'', pe_symbol_count = int (cr_success_count result), pe_as_of = as_of\<rparr> (snd w)
            in (r, s, redis))
      else (Inr (), s, snd w))"

definition symbol_refresh_job :: "settings \<Rightarrow> market_provider \<Rightarrow> int \<Rightarrow> int \<Rightarrow> 'x market_store_scheme \<Rightarrow> 'x market_store_scheme" where
  "symbol_refresh_job cfg p started finished s = snd (collect_symbols cfg p started finished s)"

definition register_market_data_jobs :: "job list \<Rightarrow> job list" where
  "register_market_data_jobs jobs =
     add_job ''market_data_refresh_symbols'' (Cron 7 0) (add_job ''market_data_collect_daily'' (Cron 16 0) jobs)"

section \<open>The F\<open>&\<close>O universe (universe\_jobs.py)\<close>

record roots_provider =
  fr_connected :: bool
  fr_connect :: "py_error + unit"
  fr_roots :: "py_error + string list"

text \<open>Only a provider error is caught.\<close>

definition refresh_universe :: "roots_provider \<Rightarrow> 'x candidate_store_scheme \<Rightarrow> (py_error + unit) \<times> 'x candidate_store_scheme" where
  "refresh_universe p s =
     (case and_then (if fr_connected p then Inr () else fr_connect p) (\<lambda>_. fr_roots p) of
        Inl (ProviderError e) \<Rightarrow> (Inr (), s)
      | Inl e \<Rightarrow> (Inl e, s)
      | Inr roots \<Rightarrow>
          (Inr (), snd (fno_replace_all (map sy_id (filter (\<lambda>r. sy_symbol r \<in> set roots) (list_active s))) s)))"

definition register_universe_jobs :: "job list \<Rightarrow> job list" where
  "register_universe_jobs jobs = add_job ''fno_universe_refresh'' (Cron 7 15) jobs"

section \<open>Digests (digest\_jobs.py)\<close>

definition MORNING_LOOKBACK_HOURS :: int where "MORNING_LOOKBACK_HOURS = 15"
definition EVENING_LOOKBACK_HOURS :: int where "EVENING_LOOKBACK_HOURS = 9"

text \<open>A digest run changes no table; it is the list of the messages it hands to the providers, in order.\<close>

type_synonym sent_text = "provider \<times> string \<times> msg"

definition send_text :: "provider \<Rightarrow> msg option \<Rightarrow> sent_text list" where
  "send_text p t = (case t of None \<Rightarrow> [] | Some m \<Rightarrow> [(p, p_default_recipient p, m)])"

definition send_universe_digest :: "provider \<Rightarrow> digest_entry list \<Rightarrow> string \<Rightarrow> sent_text list" where
  "send_universe_digest p entries universe_label = send_text p (build_digest_text entries universe_label)"

text \<open>\<open>Counter\<close>: the values in the order of their first occurrence, with their counts.\<close>

definition counter :: "string list \<Rightarrow> (string \<times> nat) list" where
  "counter xs = map (\<lambda>x. (x, count_list xs x)) (rev (remdups (rev xs)))"

definition send_market_overview :: "provider \<Rightarrow> int \<Rightarrow> int \<Rightarrow> 'x analytics_store_scheme \<Rightarrow> sent_text list" where
  "send_market_overview p since lookback_hours s =
     (let regime_row = regime_get_latest s;
          sector_counts = counter (List.map_filter ssn_rotation_state (sector_get_latest_batch s))
      in send_text p (build_market_overview_text
           (Option.bind regime_row rsn_regime)
           (case Option.bind regime_row rsn_score of None \<Rightarrow> None | Some x \<Rightarrow> if x = 0 then None else Some x)
           sector_counts (count_transitions_since since ALERT_WORTHY_STATES s) (of_int lookback_hours)))"

definition digest_entry_of :: "(int \<rightharpoonup> string) \<Rightarrow> alert_row \<Rightarrow> digest_entry" where
  "digest_entry_of names a =
     \<lparr>dg_symbol = opt_else (names (al_symbol_id a)) (str_int (al_symbol_id a)), dg_alert_category = alert_category_of a,
      dg_score = al_score a\<rparr>"

definition run_digest :: "router \<Rightarrow> int \<Rightarrow> int \<Rightarrow> 'x analytics_store_scheme \<Rightarrow> sent_text list" where
  "run_digest r now lookback_hours s =
     (let since = now - lookback_hours * hour_us;
          rows = list_created_since since s;
          names = symbol_names (map al_symbol_id rows) s;
          (ipo, fno) = split_by_universe (map (digest_entry_of names) rows)
      in send_universe_digest (r_ipo r) ipo ''IPO'' @ send_universe_digest (r_fno r) fno ''F&O''
         @ send_market_overview (r_default r) since lookback_hours s)"

definition register_digest_jobs :: "job list \<Rightarrow> job list" where
  "register_digest_jobs jobs = add_job ''breakout_digest_evening'' (Cron 16 0) (add_job ''breakout_digest_morning'' (Cron 7 0) jobs)"

section \<open>The wiring (main.py)\<close>

record app_config =
  ap_settings :: settings
  ap_telegram :: telegram_settings
  ap_active_market_data_provider :: string
  ap_upstox_access_token :: string
  ap_trendlyne_mcp_url :: string
  ap_ipo_bot_token :: string
  ap_ipo_chat_id :: string
  ap_fno_bot_token :: string
  ap_fno_chat_id :: string
  ap_ingestion_min_interval :: rat
  ap_ingestion_ws_backup_interval :: rat

definition upstox_configured :: "app_config \<Rightarrow> bool" where
  "upstox_configured ap \<longleftrightarrow> ap_upstox_access_token ap \<noteq> []"

definition trendlyne_mcp_configured :: "app_config \<Rightarrow> bool" where
  "trendlyne_mcp_configured ap \<longleftrightarrow> ap_trendlyne_mcp_url ap \<noteq> []"

text \<open>The fundamental sources in the order of their priority; without any, the unavailable provider.\<close>

definition wired_fundamental_sources :: "app_config \<Rightarrow> string list" where
  "wired_fundamental_sources ap =
     (if upstox_configured ap then [''upstox''] else []) @ (if trendlyne_mcp_configured ap then [''trendlyne_mcp''] else [])"

text \<open>The websocket feed, and the interval of the REST sweep beside it.\<close>

definition market_feed_active :: "app_config \<Rightarrow> bool" where
  "market_feed_active ap \<longleftrightarrow> ap_active_market_data_provider ap = ''upstox'' \<and> upstox_configured ap"

definition ingestion_interval :: "app_config \<Rightarrow> rat" where
  "ingestion_interval ap = (if market_feed_active ap then ap_ingestion_ws_backup_interval ap else ap_ingestion_min_interval ap)"

text \<open>The registry is a dictionary by name: a second scanner of a name takes the place of the first.\<close>

definition register_scanner :: "string \<Rightarrow> 'v \<Rightarrow> (string \<times> 'v) list \<Rightarrow> (string \<times> 'v) list" where
  "register_scanner name scanner registry =
     (if name \<in> fst ` set registry then map (\<lambda>(n, v). if n = name then (n, scanner) else (n, v)) registry
      else registry @ [(name, scanner)])"

definition registry_get :: "(string \<times> 'v) list \<Rightarrow> string \<Rightarrow> 'v option" where
  "registry_get registry name = map_of registry name"

definition registry_get_all :: "(string \<times> 'v) list \<Rightarrow> 'v list" where
  "registry_get_all registry = map snd registry"

definition WIRED_SCANNERS :: "string list" where
  "WIRED_SCANNERS = [''breakout_v1'', ''vcp_v1'', ''momentum_v1'', ''orb_v1'', ''fno_momentum_v1'', ''pre_breakout_v1'', ''ipo_intraday_v1'']"

definition wired_registry :: "(string \<times> string) list" where
  "wired_registry = fold (\<lambda>n. register_scanner n n) WIRED_SCANNERS []"

definition wired_bots :: "app_config \<Rightarrow> telegram \<times> telegram \<times> telegram" where
  "wired_bots ap =
     (new_telegram (ap_telegram ap) None None ''telegram'',
      new_telegram (ap_telegram ap) (Some (ap_ipo_bot_token ap)) (Some (ap_ipo_chat_id ap)) ''telegram_ipo'',
      new_telegram (ap_telegram ap) (Some (ap_fno_bot_token ap)) (Some (ap_fno_chat_id ap)) ''telegram_fno'')"

definition register_alert_jobs :: "job list \<Rightarrow> job list" where
  "register_alert_jobs = add_job ''alert_expiry_run'' (Every_Seconds 60)"

definition register_fundamental_queue_jobs :: "job list \<Rightarrow> job list" where
  "register_fundamental_queue_jobs = add_job ''fundamental_queue_run'' (Every_Seconds 300)"

definition register_analytics_snapshot_jobs :: "settings \<Rightarrow> job list \<Rightarrow> job list" where
  "register_analytics_snapshot_jobs cfg = add_job ''analytics_snapshot_run'' (Every_Seconds (60 * analytics_snapshot_interval_minutes cfg))"

definition register_momentum_pipeline_jobs :: "settings \<Rightarrow> job list \<Rightarrow> job list" where
  "register_momentum_pipeline_jobs cfg = add_job ''momentum_pipeline_run'' (Every_Seconds (momentum_pipeline_interval_seconds cfg))"

definition register_followup_jobs :: "job list \<Rightarrow> job list" where
  "register_followup_jobs = add_job ''momentum_observation_followup_run'' (Every_Seconds 300)"

definition wired_jobs :: "settings \<Rightarrow> job list" where
  "wired_jobs cfg =
     (register_followup_jobs \<circ> register_momentum_pipeline_jobs cfg \<circ> register_analytics_snapshot_jobs cfg \<circ> register_digest_jobs
       \<circ> register_alert_jobs \<circ> register_fundamental_queue_jobs \<circ> register_universe_jobs \<circ> register_market_data_jobs) []"

section \<open>Digest windows\<close>

text \<open>The runs of the two digest jobs when they fire on time: the instant and the hours looked back.\<close>

definition digest_runs :: "timezone \<Rightarrow> (int \<times> int) set" where
  "digest_runs tz =
     range (\<lambda>day. (cron_instant tz day 7 0, MORNING_LOOKBACK_HOURS)) \<union> range (\<lambda>day. (cron_instant tz day 16 0, EVENING_LOOKBACK_HOURS))"

definition covers :: "int \<Rightarrow> int \<times> int \<Rightarrow> bool" where
  "covers t run \<longleftrightarrow> fst run - snd run * hour_us \<le> t \<and> t < fst run"

context fixed_zone
begin

lemma cron_fixed: "cron_instant tz day h m = (day - epoch_ord) * day_us + h * hour_us + m * minute_us - c"
  by (simp add: cron_instant_def wall_off_const Let_def)

lemma morning_covers:
  "covers t (cron_instant tz day 7 0, MORNING_LOOKBACK_HOURS)
     \<longleftrightarrow> (day - epoch_ord) * 86400000000 - 28800000000 \<le> t + c \<and> t + c < (day - epoch_ord) * 86400000000 + 25200000000"
  by (auto simp: covers_def cron_fixed day_us_def hour_us_def MORNING_LOOKBACK_HOURS_def)

lemma evening_covers:
  "covers t (cron_instant tz day 16 0, EVENING_LOOKBACK_HOURS)
     \<longleftrightarrow> (day - epoch_ord) * 86400000000 + 25200000000 \<le> t + c \<and> t + c < (day - epoch_ord) * 86400000000 + 57600000000"
  by (auto simp: covers_def cron_fixed day_us_def hour_us_def EVENING_LOOKBACK_HOURS_def)

lemma windows_cover: "\<exists>run \<in> digest_runs tz. covers t run"
proof -
  define k where "k = (t + c) div 86400000000"
  have k: "k * 86400000000 \<le> t + c" "t + c < k * 86400000000 + 86400000000" unfolding k_def by linarith+
  consider "t + c < k * 86400000000 + 25200000000" | "k * 86400000000 + 25200000000 \<le> t + c" "t + c < k * 86400000000 + 57600000000"
    | "k * 86400000000 + 57600000000 \<le> t + c" by linarith
  then show ?thesis
  proof cases
    case 1
    then have "covers t (cron_instant tz (k + epoch_ord) 7 0, MORNING_LOOKBACK_HOURS)" unfolding morning_covers using k by simp
    then show ?thesis unfolding digest_runs_def by blast
  next
    case 2
    then have "covers t (cron_instant tz (k + epoch_ord) 16 0, EVENING_LOOKBACK_HOURS)" unfolding evening_covers using k by simp
    then show ?thesis unfolding digest_runs_def by blast
  next
    case 3
    then have "covers t (cron_instant tz (k + 1 + epoch_ord) 7 0, MORNING_LOOKBACK_HOURS)" unfolding morning_covers using k by simp
    then show ?thesis unfolding digest_runs_def by blast
  qed
qed

lemma windows_disjoint:
  assumes "covers t (cron_instant tz d 7 0, MORNING_LOOKBACK_HOURS) \<or> covers t (cron_instant tz d 16 0, EVENING_LOOKBACK_HOURS)"
    and "covers t (cron_instant tz d' 7 0, MORNING_LOOKBACK_HOURS) \<or> covers t (cron_instant tz d' 16 0, EVENING_LOOKBACK_HOURS)"
  shows "d = d'"
proof -
  have w: "(x - epoch_ord) * 86400000000 - 28800000000 \<le> t + c \<and> t + c < (x - epoch_ord) * 86400000000 + 57600000000"
    if "covers t (cron_instant tz x 7 0, MORNING_LOOKBACK_HOURS) \<or> covers t (cron_instant tz x 16 0, EVENING_LOOKBACK_HOURS)" for x
    using that unfolding morning_covers evening_covers by auto
  from w [OF assms(1)] w [OF assms(2)] have "(d - d') * 86400000000 < 86400000000" "(d' - d) * 86400000000 < 86400000000"
    by (simp_all add: algebra_simps)
  then show ?thesis by simp
qed

lemma windows_apart:
  assumes "covers t (cron_instant tz d 7 0, MORNING_LOOKBACK_HOURS)"
  shows "\<not> covers t (cron_instant tz d' 16 0, EVENING_LOOKBACK_HOURS)"
proof
  assume e: "covers t (cron_instant tz d' 16 0, EVENING_LOOKBACK_HOURS)"
  have "d = d'" using windows_disjoint [of t d d'] assms e by blast
  with assms e show False unfolding morning_covers evening_covers by simp
qed

lemma windows_unique:
  assumes "r \<in> digest_runs tz" "covers t r" "r' \<in> digest_runs tz" "covers t r'"
  shows "r = r'"
proof -
  have same: "d = d'" if "covers t (cron_instant tz d h 0, l)" "covers t (cron_instant tz d' h 0, l)"
    "(h, l) = (7, MORNING_LOOKBACK_HOURS) \<or> (h, l) = (16, EVENING_LOOKBACK_HOURS)" for d d' h l
    using that windows_disjoint [of t d d'] by blast
  from assms(1,3) obtain d h l d' h' l' where r: "r = (cron_instant tz d h 0, l)" "r' = (cron_instant tz d' h' 0, l')"
    "(h, l) = (7, MORNING_LOOKBACK_HOURS) \<or> (h, l) = (16, EVENING_LOOKBACK_HOURS)"
    "(h', l') = (7, MORNING_LOOKBACK_HOURS) \<or> (h', l') = (16, EVENING_LOOKBACK_HOURS)"
    unfolding digest_runs_def by blast
  have hl: "(h, l) = (h', l')" using r assms(2,4) windows_apart by blast
  then show ?thesis using same [of d h l d'] r assms(2,4) by auto
qed

end

lemma in_split:
  "e \<in> set (fst (split_by_universe entries)) \<longleftrightarrow> e \<in> set entries \<and> dg_alert_category e \<in> Some ` set IPO_ALERT_CATEGORIES"
  "e \<in> set (snd (split_by_universe entries)) \<longleftrightarrow> e \<in> set entries \<and> dg_alert_category e \<in> Some ` set FNO_ALERT_CATEGORIES"
  unfolding split_by_universe_def fst_conv snd_conv set_filter mem_Collect_eq by (rule refl)+


text \<open>Every job and every scanner of the wiring survives its registration: no two jobs share an id and no two scanners a name, so nothing
  is replaced; the scanners the sanity report looks at are exactly the registered ones, the candidate scanners of the
  explainability view and of the fundamental queue are among them, and every run of a digest has its job.\<close>

theorem wiring_complete:
  "map jb_id (wired_jobs cfg) = [''market_data_collect_daily'', ''market_data_refresh_symbols'', ''fno_universe_refresh'', ''fundamental_queue_run'',
      ''alert_expiry_run'', ''breakout_digest_morning'', ''breakout_digest_evening'', ''analytics_snapshot_run'', ''momentum_pipeline_run'',
      ''momentum_observation_followup_run'']
   \<and> registry_get_all wired_registry = WIRED_SCANNERS
   \<and> set WIRED_SCANNERS = set ALL_SCANNERS \<and> set CANDIDATE_SCANNER_NAMES = set CANDIDATE_SCANNERS
   \<and> {t. \<exists>j \<in> set (wired_jobs cfg). jb_trigger j = t \<and> jb_id j \<in> {''breakout_digest_morning'', ''breakout_digest_evening''}} = {Cron 7 0, Cron 16 0}"
proof -
  have jobs: "wired_jobs cfg =
    [\<lparr>jb_id = ''market_data_collect_daily'', jb_trigger = Cron 16 0\<rparr>, \<lparr>jb_id = ''market_data_refresh_symbols'', jb_trigger = Cron 7 0\<rparr>,
     \<lparr>jb_id = ''fno_universe_refresh'', jb_trigger = Cron 7 15\<rparr>, \<lparr>jb_id = ''fundamental_queue_run'', jb_trigger = Every_Seconds 300\<rparr>,
     \<lparr>jb_id = ''alert_expiry_run'', jb_trigger = Every_Seconds 60\<rparr>, \<lparr>jb_id = ''breakout_digest_morning'', jb_trigger = Cron 7 0\<rparr>,
     \<lparr>jb_id = ''breakout_digest_evening'', jb_trigger = Cron 16 0\<rparr>,
     \<lparr>jb_id = ''analytics_snapshot_run'', jb_trigger = Every_Seconds (60 * analytics_snapshot_interval_minutes cfg)\<rparr>,
     \<lparr>jb_id = ''momentum_pipeline_run'', jb_trigger = Every_Seconds (momentum_pipeline_interval_seconds cfg)\<rparr>,
     \<lparr>jb_id = ''momentum_observation_followup_run'', jb_trigger = Every_Seconds 300\<rparr>]"
    by (simp add: wired_jobs_def add_job_def register_followup_jobs_def register_momentum_pipeline_jobs_def
        register_analytics_snapshot_jobs_def register_digest_jobs_def register_alert_jobs_def register_fundamental_queue_jobs_def
        register_universe_jobs_def register_market_data_jobs_def)
  have scanners: "registry_get_all wired_registry = WIRED_SCANNERS" by code_simp
  have sets: "set WIRED_SCANNERS = set ALL_SCANNERS" "set CANDIDATE_SCANNER_NAMES = set CANDIDATE_SCANNERS"
    by (auto simp: WIRED_SCANNERS_def ALL_SCANNERS_def LISTED_SCANNERS_def CANDIDATE_SCANNERS_def CANDIDATE_SCANNER_NAMES_def)
  show ?thesis unfolding jobs using scanners sets by auto
qed


end
