(* ===== verification/Fundamental_Providers.thy ===== *)
theory Fundamental_Providers
  imports Fundamental_Queue Upstox_Client
begin

text \<open>
  The fundamentals provider over Upstox's own API: app/fundamentals/upstox_fundamental_provider.py. The answer
  of the API to a path is a parameter. What is proved shows how the provider and the queue fit together.
\<close>

section \<open>Answers\<close>

text \<open>\<open>httpx.HTTPError\<close> with its text, or a status and the body, when it is JSON.\<close>

datatype get_answer = Get_Failed string | Got nat "pyval option"

record fetch_outcome =
  oc_payload :: "pyval option"
  oc_rate_limited :: bool
  oc_error :: "string option"

definition no_data :: fetch_outcome where
  "no_data = \<lparr>oc_payload = None, oc_rate_limited = False, oc_error = None\<rparr>"

definition outcome_of :: "get_answer \<Rightarrow> fetch_outcome" where
  "outcome_of a =
     (case a of
        Get_Failed e \<Rightarrow> no_data\<lparr>oc_error := Some e\<rparr>
      | Got status json \<Rightarrow>
          if status = 404 then no_data
          else if status = 429 then no_data\<lparr>oc_rate_limited := True\<rparr>
          else if status \<noteq> 200 then no_data\<lparr>oc_error := Some (''HTTP '' @ str_nat status)\<rparr>
          else (case json of
             None \<Rightarrow> no_data\<lparr>oc_error := Some ''invalid JSON response''\<rparr>
           | Some (PyDict body) \<Rightarrow>
               if field_of body ''status'' \<noteq> PyStr ''success'' then no_data\<lparr>oc_error := Some ''unexpected response shape''\<rparr>
               else (case field_of body ''data'' of
                  PyDict d \<Rightarrow> no_data\<lparr>oc_payload := Some (PyDict d)\<rparr>
                | PyList l \<Rightarrow> no_data\<lparr>oc_payload := Some (PyList l)\<rparr>
                | _ \<Rightarrow> no_data)
           | Some v \<Rightarrow> no_data\<lparr>oc_error := Some ''unexpected response shape''\<rparr>))"

section \<open>Parsing\<close>

definition ISIN_PREFIX :: string where
  "ISIN_PREFIX = ''NSE_EQ|''"

definition extract_isin :: "string \<Rightarrow> string option" where
  "extract_isin token =
     (if take (length ISIN_PREFIX) token \<noteq> ISIN_PREFIX then None
      else let isin = drop (length ISIN_PREFIX) token in if isin = [] then None else Some isin)"

fun strip_right :: "char \<Rightarrow> string \<Rightarrow> string" where
  "strip_right c s = rev (dropWhile (\<lambda>d. d = c) (rev s))"

definition parse_ratio_value :: "string \<Rightarrow> rat option" where
  "parse_ratio_value raw = float_of_string (strip_right CHR ''%'' raw)"

definition KEY_RATIO_FIELD_MAP :: "(string \<times> ((rat option \<Rightarrow> rat option) \<Rightarrow> fundamental_data \<Rightarrow> fundamental_data)) list" where
  "KEY_RATIO_FIELD_MAP =
     [(''P/E'', fu_pe_update), (''P/B'', fu_pb_update), (''ROE'', fu_roe_pct_update), (''ROCE'', fu_roce_pct_update),
      (''EV/EBITDA'', fu_ev_ebitda_update)]"

definition MONTHS :: "string list" where
  "MONTHS = [''jan'', ''feb'', ''mar'', ''apr'', ''may'', ''jun'', ''jul'', ''aug'', ''sep'', ''oct'', ''nov'', ''dec'']"

definition is_space :: "char \<Rightarrow> bool" where
  "is_space c \<longleftrightarrow> (let n = (of_char c :: nat) in n = 32 \<or> (9 \<le> n \<and> n \<le> 13) \<or> (28 \<le> n \<and> n \<le> 31))"

text \<open>\<open>strptime(period, "%b %Y")\<close>: a month name in any case, white space, four digits; the first day of that month.\<close>

definition parse_period :: "pyval \<Rightarrow> int option" where
  "parse_period period =
     (case period of
        PyStr s \<Rightarrow>
          (let rest = drop 3 s; digits = dropWhile is_space rest in
           case index_of (map lower_char (take 3 s)) MONTHS of
             None \<Rightarrow> None
           | Some m \<Rightarrow>
               if digits = rest \<or> length digits \<noteq> 4 then None
               else case take_digits digits of
                 (ds, []) \<Rightarrow> if digits_value ds = 0 then None else Some (ymd2ord (digits_value ds) (int m + 1) 1)
               | _ \<Rightarrow> None)
      | _ \<Rightarrow> None)"

definition latest_entry :: "(string \<times> pyval) list \<Rightarrow> (string \<times> pyval) list option" where
  "latest_entry category = (case field_of category ''history'' of PyList (PyDict e # _) \<Rightarrow> Some e | _ \<Rightarrow> None)"

text \<open>One category of the income statement: the fields it sets and the newest period so far.\<close>

definition income_step :: "pyval \<Rightarrow> fundamental_data \<times> int option \<Rightarrow> fundamental_data \<times> int option" where
  "income_step c st =
     (case (c, st) of
        (PyDict category, data, latest) \<Rightarrow>
          (case latest_entry category of
             None \<Rightarrow> (data, latest)
           | Some e \<Rightarrow>
               (let newest = (case parse_period (field_of e ''period'') of
                       None \<Rightarrow> latest
                     | Some d \<Rightarrow> (case latest of None \<Rightarrow> Some d | Some l \<Rightarrow> if l < d then Some d else latest))
                in case number_of (field_of e ''value'') of
                     None \<Rightarrow> (data, newest)
                   | Some v \<Rightarrow>
                       (if field_of category ''category'' = PyStr ''revenue'' then data\<lparr>fu_revenue_ttm_cr := Some v\<rparr>
                        else if field_of category ''category'' = PyStr ''net_profit'' then data\<lparr>fu_net_profit_ttm_cr := Some v\<rparr>
                        else data, newest)))
      | _ \<Rightarrow> st)"

definition apply_income_statement :: "(string \<times> pyval) list \<Rightarrow> fundamental_data \<Rightarrow> fundamental_data \<times> int option" where
  "apply_income_statement payload data =
     (case field_of payload ''income_statement'' of PyList cs \<Rightarrow> fold income_step cs (data, None) | _ \<Rightarrow> (data, None))"

definition cash_flow_value :: "pyval \<Rightarrow> rat option" where
  "cash_flow_value c =
     (case c of
        PyDict category \<Rightarrow>
          if field_of category ''category'' \<noteq> PyStr ''operating'' then None
          else Option.bind (latest_entry category) (\<lambda>e. number_of (field_of e ''value''))
      | _ \<Rightarrow> None)"

definition apply_cash_flow :: "(string \<times> pyval) list \<Rightarrow> fundamental_data \<Rightarrow> fundamental_data \<times> bool" where
  "apply_cash_flow payload data =
     (case field_of payload ''cash_flow'' of
        PyList cs \<Rightarrow> (case List.map_filter cash_flow_value cs of
            [] \<Rightarrow> (data, False) | v # _ \<Rightarrow> (data\<lparr>fu_operating_cash_flow_cr := Some v\<rparr>, True))
      | _ \<Rightarrow> (data, False))"

definition ratio_step :: "runtime \<Rightarrow> pyval \<Rightarrow> fundamental_data \<times> bool \<Rightarrow> fundamental_data \<times> bool" where
  "ratio_step rt row st =
     (case row of
        PyDict r \<Rightarrow>
          (case (map_of KEY_RATIO_FIELD_MAP (py_str rt (field_of r ''name'')), field_of r ''company_value'') of
             (Some set_field, PyStr raw) \<Rightarrow>
               (case parse_ratio_value raw of None \<Rightarrow> st | Some v \<Rightarrow> (set_field (\<lambda>_. Some v) (fst st), True))
           | _ \<Rightarrow> st)
      | _ \<Rightarrow> st)"

definition apply_key_ratios :: "runtime \<Rightarrow> pyval list \<Rightarrow> fundamental_data \<Rightarrow> fundamental_data \<times> bool" where
  "apply_key_ratios rt payload data = fold (ratio_step rt) payload (data, False)"

section \<open>The provider\<close>

definition resolve_isin :: "string \<Rightarrow> 'x market_store_scheme \<Rightarrow> string option" where
  "resolve_isin symbol s = (case get_by_symbol symbol None s of None \<Rightarrow> None | Some r \<Rightarrow> extract_isin (sy_instrument_token r))"

definition upstox_fundamentals ::
  "runtime \<Rightarrow> (string \<Rightarrow> get_answer) \<Rightarrow> 'x market_store_scheme \<Rightarrow> string
     \<Rightarrow> fundamental_data option \<times> fetch_status \<times> fetch_error option" where
  "upstox_fundamentals rt api s symbol =
     (case resolve_isin symbol s of
        None \<Rightarrow> (None, FS_FAILED, Some (Told (''no resolvable ISIN for '' @ symbol)))
      | Some isin \<Rightarrow>
          (let income = outcome_of (api (''/fundamentals/'' @ isin @ ''/income-statement''));
               cash = outcome_of (api (''/fundamentals/'' @ isin @ ''/cash-flow''));
               ratios = outcome_of (api (''/fundamentals/'' @ isin @ ''/key-ratios''));
               data0 = empty_fundamentals symbol;
               (data1, got1) = (case oc_payload income of
                  Some (PyDict p) \<Rightarrow> (case apply_income_statement p data0 of
                      (d, None) \<Rightarrow> (d, False) | (d, Some t) \<Rightarrow> (d\<lparr>fu_as_of := Some t\<rparr>, True))
                | _ \<Rightarrow> (data0, False));
               (data2, got2) = (case oc_payload cash of Some (PyDict p) \<Rightarrow> apply_cash_flow p data1 | _ \<Rightarrow> (data1, False));
               (data3, got3) = (case oc_payload ratios of Some (PyList l) \<Rightarrow> apply_key_ratios rt l data2 | _ \<Rightarrow> (data2, False));
               errors = List.map_filter oc_error [income, cash, ratios]
           in if got1 \<or> got2 \<or> got3 then (Some data3, FS_SUCCESS, None)
              else if oc_rate_limited income \<or> oc_rate_limited cash \<or> oc_rate_limited ratios
                   then (None, FS_RATE_LIMITED, Some (Told ''Upstox fundamentals API rate limited''))
              else if errors \<noteq> [] then (None, FS_FAILED, Some (Told (take 500 (join_strings ''; '' errors))))
              else (None, FS_FAILED, Some (Told (''no fundamental data returned for '' @ symbol)))))"

definition upstox_fundamental_provider :: "runtime \<Rightarrow> (string \<Rightarrow> get_answer) \<Rightarrow> 'x market_store_scheme \<Rightarrow> fundamental_provider" where
  "upstox_fundamental_provider rt api s =
     \<lparr>fp_name = ''upstox'', fp_get = (\<lambda>symbol. Inr (fst (upstox_fundamentals rt api s symbol))),
      fp_with_status = Some (\<lambda>symbol. Inr (upstox_fundamentals rt api s symbol))\<rparr>"

section \<open>What the provider fills in\<close>

text \<open>The fields Upstox has no data for, and the snapshots no code of the provider writes.\<close>

definition only_statements :: "fundamental_data \<Rightarrow> bool" where
  "only_statements d \<longleftrightarrow> fu_field_snapshots d = [] \<and> fu_promoter_holding_pct d = None \<and> fu_promoter_holding_change_pct d = None
     \<and> fu_promoter_pledge_pct d = None \<and> fu_fii_holding_pct d = None \<and> fu_dii_holding_pct d = None \<and> fu_debt_to_equity d = None
     \<and> fu_peg d = None \<and> fu_dividend_yield_pct d = None"

lemma only_statements_updates [simp]:
  "only_statements (d\<lparr>fu_revenue_ttm_cr := x\<rparr>) = only_statements d"
  "only_statements (d\<lparr>fu_net_profit_ttm_cr := x\<rparr>) = only_statements d"
  "only_statements (d\<lparr>fu_operating_cash_flow_cr := x\<rparr>) = only_statements d"
  "only_statements (d\<lparr>fu_as_of := t\<rparr>) = only_statements d"
  "only_statements (empty_fundamentals symbol)"
  by (simp_all add: only_statements_def empty_fundamentals_def)

lemma only_statements_ratio:
  "map_of KEY_RATIO_FIELD_MAP n = Some upd \<Longrightarrow> only_statements (upd f d) = only_statements d"
  by (auto simp: KEY_RATIO_FIELD_MAP_def only_statements_def split: if_splits)

lemma income_step_only: "only_statements (fst st) \<Longrightarrow> only_statements (fst (income_step c st))"
  by (cases st; cases c) (auto simp: income_step_def Let_def split: option.splits)

lemma ratio_step_only: "only_statements (fst st) \<Longrightarrow> only_statements (fst (ratio_step rt row st))"
  by (auto simp: ratio_step_def only_statements_ratio split: pyval.splits option.splits)

lemma fold_only:
  "(\<And>c st. only_statements (fst st) \<Longrightarrow> only_statements (fst (f c st))) \<Longrightarrow> only_statements (fst st) \<Longrightarrow> only_statements (fst (fold f cs st))"
  by (induction cs arbitrary: st) auto

lemma apply_only:
  assumes "only_statements d"
  shows "only_statements (fst (apply_income_statement p d))" "only_statements (fst (apply_cash_flow p d))"
    "only_statements (fst (apply_key_ratios rt l d))"
proof -
  show "only_statements (fst (apply_income_statement p d))"
    using assms by (auto simp: apply_income_statement_def split: pyval.splits intro!: fold_only income_step_only)
  show "only_statements (fst (apply_cash_flow p d))"
    using assms by (auto simp: apply_cash_flow_def split: pyval.splits list.splits)
  show "only_statements (fst (apply_key_ratios rt l d))"
    unfolding apply_key_ratios_def by (rule fold_only [OF ratio_step_only]) (simp_all add: assms)
qed

text \<open>The three calls and what each of them gave.\<close>

definition statement_outcomes :: "(string \<Rightarrow> get_answer) \<Rightarrow> string \<Rightarrow> fetch_outcome list" where
  "statement_outcomes api isin =
     map (\<lambda>n. outcome_of (api (''/fundamentals/'' @ isin @ n))) [''/income-statement'', ''/cash-flow'', ''/key-ratios'']"

definition gave_data :: "runtime \<Rightarrow> fetch_outcome list \<Rightarrow> bool" where
  "gave_data rt os \<longleftrightarrow>
     (case oc_payload (os ! 0) of Some (PyDict p) \<Rightarrow> snd (apply_income_statement p (empty_fundamentals [])) \<noteq> None | _ \<Rightarrow> False)
   \<or> (case oc_payload (os ! 1) of Some (PyDict p) \<Rightarrow> snd (apply_cash_flow p (empty_fundamentals [])) | _ \<Rightarrow> False)
   \<or> (case oc_payload (os ! 2) of Some (PyList l) \<Rightarrow> snd (apply_key_ratios rt l (empty_fundamentals [])) | _ \<Rightarrow> False)"

lemma snd_fold_indep:
  assumes "\<And>c d d' b. snd (f c (d, b)) = snd (f c (d', b))"
  shows "snd (fold f cs (d, b)) = snd (fold f cs (d', b))"
proof (induction cs arbitrary: d d' b)
  case (Cons c cs)
  obtain x y z where "f c (d, b) = (x, z)" "f c (d', b) = (y, z)" using assms [of c d b d'] by (metis prod.collapse)
  then show ?case using Cons.IH [of x z y] by simp
qed simp

lemma snd_apply:
  "snd (apply_income_statement p d) = snd (apply_income_statement p d')"
  "snd (apply_cash_flow p d) = snd (apply_cash_flow p d')"
  "snd (apply_key_ratios rt l d) = snd (apply_key_ratios rt l d')"
proof -
  have i: "snd (income_step c (x, b)) = snd (income_step c (y, b))" for c x y b
    by (cases c) (auto simp: income_step_def Let_def split: option.splits)
  have r: "snd (ratio_step rt c (x, b)) = snd (ratio_step rt c (y, b))" for c x y b
    by (auto simp: ratio_step_def split: pyval.splits option.splits)
  show "snd (apply_income_statement p d) = snd (apply_income_statement p d')"
    by (auto simp: apply_income_statement_def split: pyval.splits intro!: snd_fold_indep i)
  show "snd (apply_cash_flow p d) = snd (apply_cash_flow p d')"
    by (auto simp: apply_cash_flow_def split: pyval.splits list.splits)
  show "snd (apply_key_ratios rt l d) = snd (apply_key_ratios rt l d')"
    unfolding apply_key_ratios_def by (rule snd_fold_indep) (rule r)
qed

lemma upstox_fundamentals_cases:
  fixes api :: "string \<Rightarrow> get_answer"
  assumes "resolve_isin symbol s = Some isin"
  defines "os \<equiv> statement_outcomes api isin"
  shows "if gave_data rt os then \<exists>d. upstox_fundamentals rt api s symbol = (Some d, FS_SUCCESS, None) \<and> only_statements d
     else \<exists>e. upstox_fundamentals rt api s symbol =
       (None, if list_ex oc_rate_limited os then FS_RATE_LIMITED else FS_FAILED, Some (Told e))"
proof -
  have o: "os = map (\<lambda>n. outcome_of (api (''/fundamentals/'' @ isin @ n))) [''/income-statement'', ''/cash-flow'', ''/key-ratios'']"
    by (simp add: os_def statement_outcomes_def)
  let ?i = "outcome_of (api (''/fundamentals/'' @ isin @ ''/income-statement''))"
  let ?c = "outcome_of (api (''/fundamentals/'' @ isin @ ''/cash-flow''))"
  let ?r = "outcome_of (api (''/fundamentals/'' @ isin @ ''/key-ratios''))"
  define a1 where "a1 = (case oc_payload ?i of
      Some (PyDict p) \<Rightarrow> (case apply_income_statement p (empty_fundamentals symbol) of
          (d, None) \<Rightarrow> (d, False) | (d, Some t) \<Rightarrow> (d\<lparr>fu_as_of := Some t\<rparr>, True))
    | _ \<Rightarrow> (empty_fundamentals symbol, False))"
  define a2 where "a2 = (case oc_payload ?c of Some (PyDict p) \<Rightarrow> apply_cash_flow p (fst a1) | _ \<Rightarrow> (fst a1, False))"
  define a3 where "a3 = (case oc_payload ?r of Some (PyList l) \<Rightarrow> apply_key_ratios rt l (fst a2) | _ \<Rightarrow> (fst a2, False))"
  have s1: "snd a1 = (case oc_payload ?i of Some (PyDict p) \<Rightarrow> snd (apply_income_statement p (empty_fundamentals [])) \<noteq> None | _ \<Rightarrow> False)"
    unfolding a1_def snd_apply(1) [of _ "empty_fundamentals []" "empty_fundamentals symbol"] by (auto split: option.split pyval.split prod.split)
  have s2: "snd a2 = (case oc_payload ?c of Some (PyDict p) \<Rightarrow> snd (apply_cash_flow p (empty_fundamentals [])) | _ \<Rightarrow> False)"
    unfolding a2_def snd_apply(2) [of _ "empty_fundamentals []" "fst a1"] by (auto split: option.split pyval.split)
  have s3: "snd a3 = (case oc_payload ?r of Some (PyList l) \<Rightarrow> snd (apply_key_ratios rt l (empty_fundamentals [])) | _ \<Rightarrow> False)"
    unfolding a3_def snd_apply(3) [of _ _ "empty_fundamentals []" "fst a2"] by (auto split: option.split pyval.split)
  have "only_statements (fst (apply_income_statement p (empty_fundamentals symbol)))" for p by (rule apply_only) simp
  then have "only_statements (fst a1)" unfolding a1_def
    by (auto simp: only_statements_updates split: option.split pyval.split prod.split) (metis fst_conv)+
  then have "only_statements (fst a2)" unfolding a2_def using apply_only(2) by (auto split: option.split pyval.split)
  then have k: "only_statements (fst a3)" unfolding a3_def using apply_only(3) by (auto split: option.split pyval.split)
  have g: "gave_data rt os \<longleftrightarrow> snd a1 \<or> snd a2 \<or> snd a3" unfolding gave_data_def s1 s2 s3 o by simp
  have l: "list_ex oc_rate_limited os \<longleftrightarrow> oc_rate_limited ?i \<or> oc_rate_limited ?c \<or> oc_rate_limited ?r" unfolding o by simp
  have u: "upstox_fundamentals rt api s symbol =
      (if snd a1 \<or> snd a2 \<or> snd a3 then (Some (fst a3), FS_SUCCESS, None)
       else if oc_rate_limited ?i \<or> oc_rate_limited ?c \<or> oc_rate_limited ?r
            then (None, FS_RATE_LIMITED, Some (Told ''Upstox fundamentals API rate limited''))
       else if List.map_filter oc_error [?i, ?c, ?r] \<noteq> []
            then (None, FS_FAILED, Some (Told (take 500 (join_strings ''; '' (List.map_filter oc_error [?i, ?c, ?r])))))
       else (None, FS_FAILED, Some (Told (''no fundamental data returned for '' @ symbol))))"
    unfolding upstox_fundamentals_def assms(1) option.case Let_def split_beta a1_def a2_def a3_def ..
  show ?thesis unfolding u g l using k by auto
qed

text \<open>The status of a symbol depends on whether any statement gave data: it is RATE\_LIMITED exactly when none did and one was limited, so a limit met
  beside one statement with data is reported as plain success, without an error for the queue to back off on.\<close>

theorem partial_rate_limit_lost:
  fixes api :: "string \<Rightarrow> get_answer"
  assumes "resolve_isin symbol s = Some isin"
  shows "let os = statement_outcomes api isin; (data, status, error) = upstox_fundamentals rt api s symbol in
    (status = FS_SUCCESS \<longleftrightarrow> gave_data rt os) \<and> (data \<noteq> None \<longleftrightarrow> gave_data rt os) \<and> (error = None \<longleftrightarrow> gave_data rt os)
    \<and> (status = FS_RATE_LIMITED \<longleftrightarrow> \<not> gave_data rt os \<and> list_ex oc_rate_limited os)"
  using upstox_fundamentals_cases [OF assms, of rt api]
  by (cases "gave_data rt (statement_outcomes api isin)"; cases "list_ex oc_rate_limited (statement_outcomes api isin)") (auto simp: Let_def)

text \<open>C37: The sources are never merged: when Upstox has data, the answer the queue works with is that data alone, without ownership fields and without
  provenance, whatever the second source knows; the row the queue writes lists no field source. The merge the documentation
  describes would have taken the holding of the second source.\<close>

theorem ownership_never_merged:
  fixes api :: "string \<Rightarrow> get_answer"
  assumes "resolve_isin symbol s = Some isin" "gave_data rt (statement_outcomes api isin)"
    and "fp_get second symbol = Inr (Some other)" "fu_promoter_holding_pct other = Some v"
  shows "let ps = [upstox_fundamental_provider rt api s, second] in
    \<exists>d m. status_of_answer (multi_source_provider ps) symbol = (Some d, FS_SUCCESS, None)
      \<and> fu_promoter_holding_pct d = None \<and> fu_promoter_pledge_pct d = None
      \<and> dict_get (rr_snapshot (update_row cfg now (Some d) FS_SUCCESS row)) ''fundamental_field_sources'' = PyList []
      \<and> multi_get ps symbol = Some m \<and> fu_promoter_holding_pct m = Some v"
proof -
  let ?up = "upstox_fundamental_provider rt api s"
  from upstox_fundamentals_cases [OF assms(1), of rt api] assms(2)
  obtain d where d: "upstox_fundamentals rt api s symbol = (Some d, FS_SUCCESS, None)" "only_statements d" by auto
  have q: "status_of_answer (multi_source_provider [?up, second]) symbol = (Some d, FS_SUCCESS, None)"
    by (simp add: status_of_answer_def multi_source_provider_def upstox_fundamental_provider_def d(1))
  have snap: "dict_get (rr_snapshot (update_row cfg now (Some d) FS_SUCCESS row)) ''fundamental_field_sources'' = PyList []"
    using d(2) by (simp add: update_row_def apply_result_def Let_def only_statements_def)
  have ans: "answers_of [?up, second] symbol = [(''upstox'', d), (fp_name second, other)]"
    using assms(3) d(1) by (simp add: answers_of_def upstox_fundamental_provider_def)
  have mem: "(''promoter_holding_pct'', fu_promoter_holding_pct, fu_promoter_holding_pct_update) \<in> set MERGEABLE_FIELDS"
    by (simp add: MERGEABLE_FIELDS_def)
  have "first_reported fu_promoter_holding_pct (answers_of [?up, second] symbol) = Some v"
    unfolding ans first_reported_def using d(2) assms(4) by (simp add: only_statements_def)
  with merge_follows_priority [OF mem, of "[?up, second]" symbol] ans
  obtain m where "multi_get [?up, second] symbol = Some m" "fu_promoter_holding_pct m = Some v"
    by (cases "multi_get [?up, second] symbol") auto
  with q snap d(2) show ?thesis by (simp add: Let_def only_statements_def)
qed

section \<open>An example\<close>

definition demo_api :: "string \<Rightarrow> get_answer" where
  "demo_api path =
     (if path = ''/fundamentals/INE1/key-ratios''
      then Got 200 (Some (PyDict [(''status'', PyStr ''success''), (''data'', PyList [PyDict [(''name'', PyStr ''P/E''), (''company_value'', PyStr ''17.05'')]])]))
      else if path = ''/fundamentals/INE1/cash-flow'' then Got 429 None else Got 404 None)"

definition token_universe :: market_store where
  "token_universe = (empty_market 0)\<lparr>symbols :=
     [\<lparr>sy_id = 1, sy_symbol = ''INFY'', sy_exchange = ''NSE'', sy_instrument_token = ''NSE_EQ|INE1'',
        sy_company_name = Some ''Infosys'', sy_sector = None, sy_industry = None, sy_listing_date = None, sy_is_ipo = False,
        sy_is_active = True\<rparr>]\<rparr>"

lemma demo_api_answers:
  "resolve_isin ''INFY'' token_universe = Some ''INE1''"
  "gave_data demo_runtime (statement_outcomes demo_api ''INE1'')"
  "list_ex oc_rate_limited (statement_outcomes demo_api ''INE1'')"
  by code_simp+

lemma partial_rate_limit_lost_witness:
  "list_ex oc_rate_limited (statement_outcomes demo_api ''INE1'')
   \<and> fst (snd (upstox_fundamentals demo_runtime demo_api token_universe ''INFY'')) = FS_SUCCESS"
  using partial_rate_limit_lost [OF demo_api_answers(1), of demo_api demo_runtime] demo_api_answers(2,3)
  by (auto simp: Let_def split: prod.splits)

definition holding_source :: fundamental_provider where
  "holding_source =
     \<lparr>fp_name = ''trendlyne_mcp'', fp_get = (\<lambda>symbol. Inr (Some ((empty_fundamentals symbol)\<lparr>fu_promoter_holding_pct := Some 60\<rparr>))),
      fp_with_status = None\<rparr>"

lemma ownership_never_merged_witness:
  "\<exists>d m. status_of_answer (multi_source_provider [upstox_fundamental_provider demo_runtime demo_api token_universe, holding_source]) ''INFY''
       = (Some d, FS_SUCCESS, None) \<and> fu_promoter_holding_pct d = None
     \<and> multi_get [upstox_fundamental_provider demo_runtime demo_api token_universe, holding_source] ''INFY'' = Some m
     \<and> fu_promoter_holding_pct m = Some 60"
proof -
  have "fp_get holding_source ''INFY'' = Inr (Some ((empty_fundamentals ''INFY'')\<lparr>fu_promoter_holding_pct := Some 60\<rparr>))"
    by (simp add: holding_source_def)
  from ownership_never_merged [OF demo_api_answers(1,2) this, of 60] show ?thesis by (simp add: Let_def) blast
qed

end
