(* ===== verification/Spec2Isabelle.thy ===== *)
theory Spec2Isabelle
  imports Market_Clock Momentum_Engine Decision_Engine Delivery Scanner_Manager Candidates Compounding
    Technical_Scorer Fundamental_Scorer Decimal_Text Fundamental_Queue
    Momentum_Pipeline Upstox_Client Feature_Runs
    Auth Sanity Jobs Fundamental_Providers
begin

text \<open>
  A model of the AI market scanning engine (src/app) and the properties that make its decision path
  correct. The program ingests market data into tables, computes features per symbol and day, runs
  scanners over them, turns qualified results into verdicts, raises alerts that are deduplicated and
  throttled, and delivers them over messaging channels with retries.

  \<^bold>\<open>How the parts interact.\<close> Repositories wrap tables; engines open a session, read rows, decide, and
  write rows. A theory stands for a component, in this order:

  \<^item> Prelude, Py_Time, Tables, Decimal_Text: what the source uses of Python and of the database.
    Python values in JSON columns are \<open>pyval\<close>; log and reason texts are lists of parts, so that their
    numbers stay readable; an exception is a \<open>py_error\<close> in a sum. Floats and decimals are exact
    rationals: rounding appears where the source calls \<open>round\<close>, and only there. Instants are UTC
    microseconds, dates are ordinals, a \<open>datetime\<close> is naive or aware.
  \<^item> Settings: the fields of \<open>Settings\<close> (config/settings.py) the engines read, with their defaults.
  \<^item> Market_Clock: core/time.py, market_calendar, \<open>is_market_open\<close>. Business dates, the verified holiday
    calendar, the bounded walks to the next and previous trading day (\<open>max_walk_days\<close> is the source's
    bound, and \<open>next_trading_day_2026\<close> shows it is enough in the verified year).
  \<^item> Market_Store, Feature_Store: models and repositories of symbols, prices, status, logs, features. One
    record of tables is extended component by component, so an operation of one component is
    applied to the tables of all.
  \<^item> Data_Collection: app/data. The validator of provider data, the symbol, intraday and daily runs with their
    log rows, and the reconciliation of the symbol universe.
  \<^item> Event_Pipeline: app/pipeline. The event that announces new data, its text form, the queue over the
    stream commands of Redis and the worker that runs the engines for each event.
  \<^item> Tick_Aggregator, Market_Feed: providers/tick_aggregator.py, providers/upstox_websocket.py and
    data/ingestion_worker.py. Minute bars from interleaved ticks, and the live session around them:
    authorization, subscription batches, backfill, receive loop, flush, reconnect pauses.
  \<^item> Upstox_Client: providers/upstox_provider.py. The REST client: rate limit, retries, the instrument master
    and what is read from it, candles, quotes, option chain and futures bars.
  \<^item> Indicators, Feature_Calculators, Feature_Engine, Feature_Runs: app/features. The indicators and the nine
    daily calculators as functions from a price history to columns, the session calculator, the daily and the
    session run, and what these do to the feature tables.
  \<^item> Momentum_Machine, Momentum_Engine: app/momentum. Transition table, proposal from score bands, guard,
    and the engine that stores transitions and raises alerts.
  \<^item> Scanners, Scanner_Manager: app/scanner. Four technical scanners, the batch runner with its
    idempotency check and per-symbol isolation, the engine over the registry.
  \<^item> Factor_Scoring, Technical_Scorer, Fundamental_Scorer: app/technical, app/fundamentals/scorer.py. One
    weighted-factor loop with two factor tables.
  \<^item> Candidate_Core, Candidates, Compounding: app/candidates, app/universe, app/compounding. Candidates
    of the F\<open>&\<close>O and IPO universes, their scanners, targets and risk.
  \<^item> Derivatives: app/derivatives and its table. Option-chain and futures readings, their build-up
    classification, the run over the F\<open>&\<close>O universe.
  \<^item> Fundamental_Store, Fundamental_Queue: app/fundamentals. The merge of the sources, the cache of the last
    known data, the fetch log with its cooldown, and the paced run over candidate rows.
  \<^item> Fundamental_Providers: fundamentals/upstox_fundamental_provider.py. The three statements of the Upstox API, how they
    are read, and what their answers become behind the orchestrator.
  \<^item> Rrg, Sector_Strength, Market_Regime: app/analytics. Relative rotation against the benchmark, the
    strength and rotation state of a sector, market breadth and regime, and their snapshot tables.
  \<^item> Catalyst: app/catalyst. Event type, sentiment, freshness and materiality of a news item, and the
    matching of the articles of an HTTP answer to the requested symbols.
  \<^item> Signal_Fusion: app/signals. Seven component scores and the composite with its confidence.
  \<^item> Momentum_Pipeline: the momentum half of app/decision and its jobs. A run over the qualified symbols:
    fusion, momentum state, verdict, one observation per alert-worthy transition; and the job that later
    fills in the prices that followed.
  \<^item> Decision_Rules, Decision_Engine: app/decision. Eight rules, verdict, run over qualified results.
  \<^item> Alert_Store, Alert_Manager, Notifications: app/alerts, app/notifications and their tables. From
    a verdict to a queued alert, the retry loop of the delivery.
  \<^item> Alert_Lifecycle, Delivery: the alert tables as a state machine. Every database transaction is one
    step of the relation \<open>alert_step\<close>, so deliveries, expiry runs and new decisions interleave in any
    order, and what is proved of reachable states holds for every schedule.
  \<^item> Telegram: notifications/telegram.py. The reading of an answer, the send loop with its back-off, the health check.
  \<^item> Message_Text: alerts/formatter.py, notifications/digest.py, candidates/explainer.py. The text of an alert, of a
    digest and of an explanation, as lines of parts.
  \<^item> Candidate_View: services/candidate_service.py, schemas/candidates.py, api/candidates.py. The explained candidate with its score
    breakdown, and the listing.
  \<^item> Auth: app/auth, services/user_service.py, api/auth.py, api/admin_users.py. Accounts, sessions, and the handlers
    of both routers; \<open>handle\<close> is one request, \<open>serve\<close> a sequence of them.
  \<^item> Sanity: app/sanity. The checks over the tables of the other components and the report that combines them.
  \<^item> Jobs: app/scheduler and main.py. Triggers and registrations, the daily, universe and digest jobs, the scanners and bots the
    start-up wires together.

  \<^bold>\<open>Interfaces.\<close> Locales state what a client needs: \<open>fifo\<close> and \<open>keyed_log\<close> (queue and event log),
  \<open>upsert_table\<close> (every \<open>upsert\<close> of a repository), \<open>fixed_zone\<close> (a zone without daylight saving),
  \<open>ascending_machine\<close> (a ladder of states), \<open>field_table\<close> (fields read and written by name), \<open>sound_scanner\<close> (what the batch runner asks of a scanner),
  \<open>alert_sink\<close> (what the decision engine asks of the alert manager), \<open>factor_scorer\<close> and \<open>horizon\<close>
  (one column of later prices that a job fills in). Each is
  interpreted on the definitions of the component that provides it.

  \<^bold>\<open>What the properties show.\<close> The verdict is characterised exactly (a candidate becomes an alert iff the
  documented conditions hold); alerts of one signal are spaced by the cooldown and duplicated only
  after an expiry, along every run; the delivery loop refines a function of the provider's answers;
  momentum histories are legal, strictly ascending paths; scanner, decision and momentum runs account for
  every symbol, and an observation is stored for exactly the transitions that call for an alert; later prices
  are real stored closes and are filled in as long as the backlog is small; stored bars are well formed, a feed
  session stores exactly the completed minute bars of its ticks, and no event is lost between
  publisher and acknowledgement; the REST client refines a function of the answers and keeps to its rate
  limit; features look back only, newer bars get their rows, stored rows stay typed and are never rewritten; scores stay in range and scanners do not raise; snapshots, decimals and dates
  survive their round trips through text. Requests served in sequence keep an active administrator, a
  revoked account stays out until its next login, accounts are managed by administrators only; the sanity
  report is healthy exactly when every part it looks at is. The Telegram sender refines a function of the answers; the text of a
  momentum alert shows the evidence that caused it; every alert is in one digest; an explained score adds up.

  \<^bold>\<open>Parameters.\<close> SHA-256, \<open>repr\<close> of a float, the host clock and the process-wide settings are fields of
  \<open>runtime\<close>; a messaging provider is a record of its answers, one per attempt. The rolling operations
  of pandas and the normal distribution function are the fields of \<open>frame_ops\<close> and \<open>window_ops\<close>, of which the properties
  assume only that the distribution function lies between 0 and 1 and that a trailing window looks back only
  (\<open>ops_causal\<close>, which \<open>demo_windows\<close> satisfies). The network is the record \<open>net\<close> of a clock, a pause and two
  requests; the conversions of pydantic are the record \<open>pydantic\<close>. A data provider (market data, fundamentals,
  derivatives, news) is an argument that answers or raises, and so are the Telegram and the
  fundamentals API (one answer for each post or path), the decoder of the feed's frames and the
  sequence of what arrives on its socket. The session store is the record \<open>kv\<close> of Redis commands with the laws \<open>kv_laws\<close>, bcrypt and the
  random source are fields of \<open>env\<close>, and \<open>probes\<close> holds what the sanity checks ask of the database, Redis and the
  configuration. The queue over Redis is the record \<open>redis_ops\<close> of its stream commands;
  \<open>redis_laws\<close> states the documented behaviour of a consumer group and holds of the example \<open>demo_redis\<close>.

  \<^bold>\<open>Not modelled.\<close> The FivePaisa client (a wrapper of a vendor SDK), the Trendlyne provider (text of an external language
  service), the HTTP read models other than candidates and accounts, the repository clean-up audit, logging, database sessions and their failures, and generated code. The remaining parts are listed in the
  manifest with their status.
\<close>

end
